(* ===== verification/Prelude.thy ===== *)
theory Prelude
  imports Main "HOL-Library.Sublist" "HOL-Library.Char_ord"
begin

text \<open>
  What the components of the model share: JavaScript text, the nullish and truthy operators,
  results that may be errors, and the rows of a database table.

  \<^bold>\<open>Text.\<close> A JavaScript string is a list of code units; the model keeps code units below 256
  (\<^typ>\<open>char\<close>, read as Latin-1), which holds every string the modelled code tests for. The one
  literal of the code outside that alphabet, the em dash that stands for a missing value, is
  written \<open>em_dash\<close> (code 0x97). Case conversion and white space are those of ECMAScript on this
  alphabet (upper-casing sharp s yields two letters, the no-break space is white space).

  \<^bold>\<open>null and undefined\<close> are both \<^term>\<open>None\<close> unless a component says otherwise.
\<close>

named_theorems js_defs \<open>definitions that unfold JavaScript operators\<close>
named_theorems row_simps \<open>what table operations do to lookups\<close>

subsection \<open>Nullish and truthy operators\<close>

text \<open>\<open>a ?? b\<close> with a plain right operand, and with one that may be missing itself.\<close>

definition nullish :: "'a option \<Rightarrow> 'a \<Rightarrow> 'a" where
  "nullish a b = (case a of None \<Rightarrow> b | Some x \<Rightarrow> x)"

definition nullish_opt :: "'a option \<Rightarrow> 'a option \<Rightarrow> 'a option" where
  "nullish_opt a b = (case a of None \<Rightarrow> b | Some x \<Rightarrow> Some x)"

text \<open>\<open>a || b\<close> on strings: the empty string is falsy.\<close>

definition or_text :: "string \<Rightarrow> string \<Rightarrow> string" where
  "or_text a b = (if a = [] then b else a)"

lemma nullish_simps [simp]: "nullish None b = b" "nullish (Some x) b = x"
  by (simp_all add: nullish_def)

lemma nullish_opt_simps [simp]:
  "nullish_opt None b = b" "nullish_opt (Some x) b = Some x" "nullish_opt a None = a"
  by (simp_all add: nullish_opt_def split: option.splits)

subsection \<open>Characters and strings\<close>

text \<open>The character classes of the code's regular expressions, as literal alphabets.\<close>

definition is_space :: "char \<Rightarrow> bool" where
  "is_space c \<longleftrightarrow>
     c \<in> set [CHR 0x20, CHR 0x09, CHR 0x0A, CHR 0x0B, CHR 0x0C, CHR 0x0D, CHR 0xA0]"

definition is_digit :: "char \<Rightarrow> bool" where
  "is_digit c \<longleftrightarrow> c \<in> set ''0123456789''"

definition is_letter :: "char \<Rightarrow> bool" where
  "is_letter c \<longleftrightarrow>
     c \<in> set ''ABCDEFGHIJKLMNOPQRSTUVWXYZ'' \<or> c \<in> set ''abcdefghijklmnopqrstuvwxyz''"

definition latin1_upper :: string where
  "latin1_upper =
    [CHR 0xC0, CHR 0xC1, CHR 0xC2, CHR 0xC3, CHR 0xC4, CHR 0xC5, CHR 0xC6, CHR 0xC7, CHR
     0xC8, CHR 0xC9, CHR 0xCA, CHR 0xCB, CHR 0xCC, CHR 0xCD, CHR 0xCE, CHR 0xCF, CHR 0xD0,
     CHR 0xD1, CHR 0xD2, CHR 0xD3, CHR 0xD4, CHR 0xD5, CHR 0xD6, CHR 0xD8, CHR 0xD9, CHR
     0xDA, CHR 0xDB, CHR 0xDC, CHR 0xDD, CHR 0xDE]"

definition latin1_lower :: string where
  "latin1_lower =
    [CHR 0xE0, CHR 0xE1, CHR 0xE2, CHR 0xE3, CHR 0xE4, CHR 0xE5, CHR 0xE6, CHR 0xE7, CHR
     0xE8, CHR 0xE9, CHR 0xEA, CHR 0xEB, CHR 0xEC, CHR 0xED, CHR 0xEE, CHR 0xEF, CHR 0xF0,
     CHR 0xF1, CHR 0xF2, CHR 0xF3, CHR 0xF4, CHR 0xF5, CHR 0xF6, CHR 0xF8, CHR 0xF9, CHR
     0xFA, CHR 0xFB, CHR 0xFC, CHR 0xFD, CHR 0xFE]"

definition lower_char :: "char \<Rightarrow> char" where
  "lower_char c =
     (case map_of (zip (''ABCDEFGHIJKLMNOPQRSTUVWXYZ'' @ latin1_upper)
                       (''abcdefghijklmnopqrstuvwxyz'' @ latin1_lower)) c of
        Some d \<Rightarrow> d
      | None \<Rightarrow> c)"

definition upper_char :: "char \<Rightarrow> string" where
  "upper_char c =
     (case map_of (zip (''abcdefghijklmnopqrstuvwxyz'' @ latin1_lower)
                       (''ABCDEFGHIJKLMNOPQRSTUVWXYZ'' @ latin1_upper)) c of
        Some d \<Rightarrow> [d]
      | None \<Rightarrow> (if c = CHR 0xDF then ''SS'' else [c]))"

definition toLowerCase :: "string \<Rightarrow> string" where
  "toLowerCase s = map lower_char s"

definition toUpperCase :: "string \<Rightarrow> string" where
  "toUpperCase s = concat (map upper_char s)"

definition trim :: "string \<Rightarrow> string" where
  "trim s = rev (dropWhile is_space (rev (dropWhile is_space s)))"

fun contains_text :: "string \<Rightarrow> string \<Rightarrow> bool" where
  "contains_text [] needle = (needle = [])"
| "contains_text (c # cs) needle = (prefix needle (c # cs) \<or> contains_text cs needle)"

text \<open>\<open>s.replace(/\D/g, "")\<close>\<close>

definition digits_of :: "string \<Rightarrow> string" where
  "digits_of s = filter is_digit s"

text \<open>\<open>s.padStart(n, "0")\<close>\<close>

definition pad_zeros :: "nat \<Rightarrow> string \<Rightarrow> string" where
  "pad_zeros n s = replicate (n - length s) (CHR ''0'') @ s"

text \<open>\<open>s.split(c)\<close> for a one-character separator.\<close>

fun split_char :: "char \<Rightarrow> string \<Rightarrow> string list" where
  "split_char d [] = [[]]"
| "split_char d (c # cs) =
     (if c = d then [] # split_char d cs
      else (case split_char d cs of [] \<Rightarrow> [[c]] | w # ws \<Rightarrow> (c # w) # ws))"

text \<open>\<open>xs.join(sep)\<close>\<close>

fun join :: "string \<Rightarrow> string list \<Rightarrow> string" where
  "join sep [] = []"
| "join sep [w] = w"
| "join sep (w # v # ws) = w @ sep @ join sep (v # ws)"

text \<open>A global regular-expression replacement of every maximal run of a character class by
  one character; the flag says whether the previous character was in a run.\<close>

fun replace_runs :: "(char \<Rightarrow> bool) \<Rightarrow> char \<Rightarrow> bool \<Rightarrow> string \<Rightarrow> string" where
  "replace_runs p d run [] = []"
| "replace_runs p d run (c # cs) =
     (if p c then (if run then replace_runs p d True cs else d # replace_runs p d True cs)
      else c # replace_runs p d False cs)"

definition em_dash :: string where
  "em_dash = [CHR 0x97]"

text \<open>\<open>String(n)\<close> for an integer.\<close>

definition digit_char :: "nat \<Rightarrow> char" where
  "digit_char d = ''0123456789'' ! d"

fun nat_text :: "nat \<Rightarrow> string" where
  "nat_text n = (if n < 10 then [digit_char n] else nat_text (n div 10) @ [digit_char (n mod 10)])"

declare nat_text.simps [simp del]

definition int_text :: "int \<Rightarrow> string" where
  "int_text i = (if i < 0 then CHR ''-'' # nat_text (nat (- i)) else nat_text (nat i))"

lemma trim_id:
  assumes "s = [] \<or> \<not> is_space (hd s) \<and> \<not> is_space (last s)"
  shows "trim s = s"
proof -
  have "dropWhile is_space s = s" "dropWhile is_space (rev s) = rev s"
    using assms by (auto simp: dropWhile_eq_self_iff hd_rev)
  then show ?thesis by (simp add: trim_def)
qed

lemma trim_trim [simp]: "trim (trim s) = trim s"
proof (cases "trim s = []")
  case True
  have "trim [] = []" by (simp add: trim_def)
  then show ?thesis using True by metis
next
  case False
  let ?t = "dropWhile is_space s"
  have ne: "dropWhile is_space (rev ?t) \<noteq> []" using False by (simp add: trim_def)
  then have "\<not> is_space (last (trim s))" by (simp add: trim_def last_rev hd_dropWhile)
  moreover obtain pre where "rev ?t = pre @ dropWhile is_space (rev ?t)" by (metis takeWhile_dropWhile_id)
  then have "last (dropWhile is_space (rev ?t)) = last (rev ?t)" using ne by (metis last_appendR)
  then have "hd (trim s) = hd ?t" using ne by (simp add: trim_def hd_rev last_rev)
  moreover have "?t \<noteq> []"
  proof
    assume "?t = []"
    then have "dropWhile is_space (rev ?t) = []" by (simp only: rev.simps dropWhile.simps)
    then show False using ne by contradiction
  qed
  ultimately show ?thesis by (intro trim_id) (simp add: hd_dropWhile)
qed

lemma trim_Nil [simp]: "trim [] = []"
  by (simp add: trim_def)

lemma digits_of_id: "(\<forall>c \<in> set s. is_digit c) \<Longrightarrow> digits_of s = s"
  by (simp add: digits_of_def)

lemma digits_of_digits: "\<forall>c \<in> set (digits_of s). is_digit c"
  by (simp add: digits_of_def)

lemma is_digit_zero [simp]: "is_digit (CHR ''0'')"
  by (simp add: is_digit_def)

lemma pad_zeros_digits: "\<forall>c \<in> set s. is_digit c \<Longrightarrow> \<forall>c \<in> set (pad_zeros n s). is_digit c"
  by (auto simp: pad_zeros_def)

lemma length_pad_zeros [simp]: "length (pad_zeros n s) = max n (length s)"
  by (simp add: pad_zeros_def)

lemma pad_zeros_id: "n \<le> length s \<Longrightarrow> pad_zeros n s = s"
  by (simp add: pad_zeros_def)

lemma pad_zeros_ne: "s \<noteq> [] \<Longrightarrow> pad_zeros n s \<noteq> []"
  by (simp add: pad_zeros_def)

lemma split_char_ne: "split_char d s \<noteq> []"
  by (induction s) (auto split: list.splits)

lemma split_char_none: "d \<notin> set s \<Longrightarrow> split_char d s = [s]"
  by (induction s) auto

lemma split_char_append: "d \<notin> set s \<Longrightarrow> split_char d (s @ d # t) = s # split_char d t"
  by (induction s) auto

text \<open>Distinct keys for the samples.\<close>

definition unary :: "nat \<Rightarrow> string" where
  "unary n = replicate (Suc n) CHR ''a''"

lemma inj_unary: "inj unary"
  by (rule injI) (metis length_replicate nat.inject unary_def)

text \<open>A text that is missing or empty is falsy.\<close>

definition unset :: "string option \<Rightarrow> bool" where
  "unset s \<longleftrightarrow> s = None \<or> s = Some []"

subsection \<open>Searching and unique columns\<close>

lemma find_Some_in: "find P xs = Some x \<Longrightarrow> x \<in> set xs \<and> P x"
  by (auto simp: find_Some_iff)

text \<open>\<open>[...new Set(xs)]\<close>\<close>

definition new_set :: "'a list \<Rightarrow> 'a list" where
  "new_set xs = foldl (\<lambda>s x. if x \<in> set s then s else s @ [x]) [] xs"

lemma set_new_set [simp]: "set (new_set xs) = set xs"
proof -
  have "set (foldl (\<lambda>s x. if x \<in> set s then s else s @ [x]) s xs) = set s \<union> set xs" for s
    by (induction xs arbitrary: s) auto
  then show ?thesis by (simp add: new_set_def)
qed

text \<open>Writing the value \<open>v\<close> into the unique column \<open>f\<close> of the row with key \<open>i\<close> keeps it unique when
  no other row holds \<open>v\<close>.\<close>

lemma distinct_map_update:
  assumes "distinct (map k rows)" "distinct (map f rows)" "\<forall>r \<in> set rows. f r = v \<longrightarrow> k r = i"
  shows "distinct (map (\<lambda>r. if k r = i then v else f r) rows)"
proof -
  have "inj_on k (set rows)" "inj_on f (set rows)" "distinct rows"
    using assms(1,2) by (simp_all add: distinct_map)
  moreover have "inj_on (\<lambda>r. if k r = i then v else f r) (set rows)"
  proof (rule inj_onI)
    fix x y assume xy: "x \<in> set rows" "y \<in> set rows"
      and e: "(if k x = i then v else f x) = (if k y = i then v else f y)"
    show "x = y"
      using calculation xy e assms(3) by (metis inj_onD)
  qed
  ultimately show ?thesis by (simp add: distinct_map)
qed

subsection \<open>Results that may be errors\<close>

text \<open>A thrown exception is \<^term>\<open>Inl\<close>; \<open>bind_res\<close> runs the rest of the code only on success.\<close>

definition bind_res :: "'e + 'a \<Rightarrow> ('a \<Rightarrow> 'e + 'b) \<Rightarrow> 'e + 'b" where
  "bind_res r f = (case r of Inl e \<Rightarrow> Inl e | Inr x \<Rightarrow> f x)"

definition guard :: "bool \<Rightarrow> 'e \<Rightarrow> 'e + unit" where
  "guard ok e = (if ok then Inr () else Inl e)"

lemma bind_res_simps [simp]: "bind_res (Inl e) f = Inl e" "bind_res (Inr x) f = f x"
  by (simp_all add: bind_res_def)

lemma bind_res_Inr_iff: "bind_res r f = Inr y \<longleftrightarrow> (\<exists>x. r = Inr x \<and> f x = Inr y)"
  by (cases r) auto

lemma bind_res_Inl_iff: "bind_res r f = Inl e \<longleftrightarrow> r = Inl e \<or> (\<exists>x. r = Inr x \<and> f x = Inl e)"
  by (cases r) auto

lemma guard_Inr_iff [simp]: "guard ok e = Inr u \<longleftrightarrow> ok"
  by (simp add: guard_def)

lemma guard_Inl_iff [simp]: "guard ok e = Inl x \<longleftrightarrow> \<not> ok \<and> x = e"
  by (auto simp: guard_def)

lemmas res_iffs = bind_res_Inr_iff bind_res_Inl_iff

text \<open>The same for code that changes a state: what was written before an error stays written.\<close>

definition and_then ::
  "'s \<times> ('e + 'a) \<Rightarrow> ('s \<Rightarrow> 'a \<Rightarrow> 's \<times> ('e + 'b)) \<Rightarrow> 's \<times> ('e + 'b)" where
  "and_then m k = (case m of (st, Inl e) \<Rightarrow> (st, Inl e) | (st, Inr x) \<Rightarrow> k st x)"

lemma and_then_simps [simp]:
  "and_then (st, Inl e) k = (st, Inl e)" "and_then (st, Inr x) k = k st x"
  by (simp_all add: and_then_def)

lemma and_then_Inr:
  "and_then m k = (st', Inr y) \<longleftrightarrow> (\<exists>st x. m = (st, Inr x) \<and> k st x = (st', Inr y))"
  by (cases m; cases "snd m") auto

lemma and_then_cases:
  assumes "and_then m k = r"
  obtains e st where "m = (st, Inl e)" "r = (st, Inl e)" | st x where "m = (st, Inr x)" "k st x = r"
  using assms by (cases m; cases "snd m") auto

end
