(* ===== verification/SurveyId.thy ===== *)
theory SurveyId
  imports Prelude
begin

text \<open>
  GIS survey ids, \<open>{ulb}-{ward3}-{parcel6}-{property3}-{use letter}\<close>: the parser, the normalisers
  and the generator of \<open>packages/types/src/survey-id.ts\<close>, and the repair of placeholder ids of
  \<open>apps/api/src/surveys/survey-id.util.ts\<close> over the survey table.

  Lemmas: a generated id parses back to its normalised parts, the normalisers are idempotent, so
  building an id from the parts of a canonical id gives the same id.
\<close>

subsection \<open>Parsing\<close>

record gis_parts =
  gp_ulbCode :: string
  gp_wardNo :: string
  gp_parcelNo :: string
  gp_propertyNo :: string
  gp_gisUseCode :: string

definition all_digits :: "string \<Rightarrow> bool" where
  "all_digits s \<longleftrightarrow> s \<noteq> [] \<and> list_all is_digit s"

text \<open>The pattern \<open>^(\d+)-(\d{3})-(\d+)-(\d+)-([A-Za-z])$\<close>: no group can hold a hyphen, so a match
  is a split at the hyphens into five fields of the right form.\<close>

definition parseGisSurveyId :: "string option \<Rightarrow> gis_parts option" where
  "parseGisSurveyId surveyId =
     (case surveyId of
        None \<Rightarrow> None
      | Some s \<Rightarrow>
          (if s = [] then None
           else (case split_char (CHR ''-'') (trim s) of
               [u, w, p, q, g] \<Rightarrow>
                 (if all_digits u \<and> (all_digits w \<and> length w = 3) \<and> all_digits p \<and> all_digits q
                     \<and> length g = 1 \<and> list_all is_letter g
                  then Some \<lparr>gp_ulbCode = u, gp_wardNo = w, gp_parcelNo = p, gp_propertyNo = q,
                             gp_gisUseCode = toUpperCase g\<rparr>
                  else None)
             | _ \<Rightarrow> None)))"

subsection \<open>Normalising and generating\<close>

datatype id_error = WardNumberRequired | ParcelNumberRequired | PropertyNumberRequired | GisUseCodeRequired

definition normalizeWardCode :: "string \<Rightarrow> id_error + string" where
  "normalizeWardCode wardNo =
     (let digits = digits_of wardNo
      in if digits = [] then Inl WardNumberRequired else Inr (pad_zeros 3 digits))"

definition normalizeParcelNo :: "string \<Rightarrow> id_error + string" where
  "normalizeParcelNo value =
     (let digits = digits_of value
      in if digits = [] then Inl ParcelNumberRequired
         else Inr (pad_zeros (max 6 (length digits)) digits))"

definition normalizePropertyNo :: "string \<Rightarrow> id_error + string" where
  "normalizePropertyNo value =
     (let digits = digits_of value
      in if digits = [] then Inl PropertyNumberRequired
         else Inr (pad_zeros (max 3 (length digits)) digits))"

definition normalizeGisUseCode :: "string \<Rightarrow> id_error + string" where
  "normalizeGisUseCode value =
     (case filter is_letter (trim value) of
        [] \<Rightarrow> Inl GisUseCodeRequired
      | c # _ \<Rightarrow> Inr (toUpperCase [c]))"

definition generateSurveyId ::
  "string \<Rightarrow> string \<Rightarrow> string \<Rightarrow> string \<Rightarrow> string \<Rightarrow> id_error + string" where
  "generateSurveyId ulbCode wardNo parcelNo propertyNo gisUseCode =
     bind_res (normalizeWardCode wardNo) (\<lambda>wardCode.
     bind_res (normalizeParcelNo parcelNo) (\<lambda>parcel.
     bind_res (normalizePropertyNo propertyNo) (\<lambda>property.
     bind_res (normalizeGisUseCode gisUseCode) (\<lambda>gis.
       Inr (join ''-'' [trim ulbCode, wardCode, parcel, property, gis])))))"

definition CHHATA_ULB_CODE :: string where
  "CHHATA_ULB_CODE = ''249044''"

record build_input =
  bi_surveyId :: "string option"
  bi_wardNumber :: int
  bi_parcelNo :: "string option"
  bi_propertyNo :: "string option"
  bi_gisUseCode :: "string option"
  bi_ulbCode :: "string option"

definition buildSurveyIdFromRecord :: "build_input \<Rightarrow> id_error + string" where
  "buildSurveyIdFromRecord i =
     (let parsed = parseGisSurveyId (bi_surveyId i);
          ulbCode = nullish (nullish_opt (bi_ulbCode i) (map_option gp_ulbCode parsed)) CHHATA_ULB_CODE
      in
     bind_res (normalizeParcelNo (nullish (nullish_opt (bi_parcelNo i) (map_option gp_parcelNo parsed)) [])) (\<lambda>parcelNo.
     bind_res (normalizePropertyNo (nullish (nullish_opt (bi_propertyNo i) (map_option gp_propertyNo parsed)) [])) (\<lambda>propertyNo.
     bind_res (normalizeGisUseCode (nullish (nullish_opt (bi_gisUseCode i) (map_option gp_gisUseCode parsed)) [])) (\<lambda>gisUseCode.
       generateSurveyId ulbCode (int_text (bi_wardNumber i)) parcelNo propertyNo gisUseCode))))"

definition parcelFromSurveyId :: "string \<Rightarrow> string option" where
  "parcelFromSurveyId surveyId = map_option gp_parcelNo (parseGisSurveyId (Some surveyId))"

definition propertyFromSurveyId :: "string \<Rightarrow> string option" where
  "propertyFromSurveyId surveyId = map_option gp_propertyNo (parseGisSurveyId (Some surveyId))"

text \<open>\<open>Number(s)\<close> for a string of digits.\<close>

definition digits_value :: "string \<Rightarrow> nat" where
  "digits_value s =
     foldl (\<lambda>n c. 10 * n + nullish (map_of (zip ''0123456789'' [0, 1, 2, 3, 4, 5, 6, 7, 8, 9]) c) 0) 0 s"

definition wardNumberFromSurveyId :: "string \<Rightarrow> nat option" where
  "wardNumberFromSurveyId surveyId =
     (case parseGisSurveyId (Some surveyId) of
        None \<Rightarrow> None
      | Some parsed \<Rightarrow>
          (let n = digits_value (gp_wardNo parsed) in if n = 0 then None else Some n))"

definition resolveImportSurveyId ::
  "string \<Rightarrow> int \<Rightarrow> string \<Rightarrow> string \<Rightarrow> string \<Rightarrow> id_error + string" where
  "resolveImportSurveyId rawSurveyId wardNumber parcelNo propertyNo ulbCode =
     (let parsed = parseGisSurveyId (Some rawSurveyId)
      in buildSurveyIdFromRecord
           \<lparr>bi_surveyId = Some rawSurveyId, bi_wardNumber = wardNumber, bi_parcelNo = Some parcelNo,
            bi_propertyNo = Some propertyNo,
            bi_gisUseCode = Some (nullish (map_option gp_gisUseCode parsed) ''R''),
            bi_ulbCode = Some ulbCode\<rparr>)"

definition normalizeParcelNoFromExcel :: "string \<Rightarrow> string \<Rightarrow> string option" where
  "normalizeParcelNoFromExcel excelValue surveyId =
     (let trimmed = trim excelValue
      in if trimmed \<noteq> []
         then (let digits = digits_of trimmed
               in if digits = [] then Some trimmed
                  else Some (pad_zeros (max 6 (length digits)) digits))
         else parcelFromSurveyId surveyId)"

definition normalizePropertyNoFromExcel :: "string \<Rightarrow> string \<Rightarrow> string option" where
  "normalizePropertyNoFromExcel excelValue surveyId =
     (let trimmed = trim excelValue
      in if trimmed \<noteq> []
         then (let digits = digits_of trimmed
               in if digits = [] then Some trimmed
                  else Some (pad_zeros (max 3 (length digits)) digits))
         else propertyFromSurveyId surveyId)"

definition formatParcelNo :: "string option \<Rightarrow> string option \<Rightarrow> string" where
  "formatParcelNo parcelNo surveyId =
     (let raw = nullish (map_option trim parcelNo) []
      in if raw \<noteq> [] then (if all_digits raw then pad_zeros 6 raw else raw)
         else (case Option.bind surveyId (\<lambda>s. if s = [] then None else parcelFromSurveyId s) of
                 Some fromId \<Rightarrow> or_text fromId em_dash
               | None \<Rightarrow> em_dash))"

definition formatPropertyNo :: "string option \<Rightarrow> string option \<Rightarrow> string" where
  "formatPropertyNo propertyNo surveyId =
     (let raw = nullish (map_option trim propertyNo) []
      in if raw \<noteq> [] then (if all_digits raw then pad_zeros 3 raw else raw)
         else (case Option.bind surveyId (\<lambda>s. if s = [] then None else propertyFromSurveyId s) of
                 Some fromId \<Rightarrow> or_text fromId em_dash
               | None \<Rightarrow> em_dash))"

subsection \<open>Normalised parts\<close>

lemma is_digit_not_dash: "is_digit c \<Longrightarrow> c \<noteq> CHR ''-''"
  by (auto simp: is_digit_def)

lemma is_digit_not_space: "is_digit c \<Longrightarrow> \<not> is_space c"
  by (auto simp: is_digit_def is_space_def Let_def)

lemma all_digits_no_dash: "all_digits s \<Longrightarrow> CHR ''-'' \<notin> set s"
  by (auto simp: all_digits_def list_all_iff dest: is_digit_not_dash)

lemma all_digits_pad: "s \<noteq> [] \<Longrightarrow> list_all is_digit s \<Longrightarrow> all_digits (pad_zeros n s)"
  by (auto simp: all_digits_def pad_zeros_def list_all_iff set_replicate_conv_if)

lemma digits_of_all: "list_all is_digit (digits_of s)"
  by (simp add: digits_of_def list_all_iff)

lemma digits_of_all_digits: "all_digits s \<Longrightarrow> digits_of s = s"
  by (simp add: all_digits_def digits_of_id list_all_iff)

lemma normalizeWardCode_Inr:
  "normalizeWardCode w = Inr c \<Longrightarrow> all_digits c \<and> c = pad_zeros 3 (digits_of w)"
  by (auto simp: normalizeWardCode_def Let_def all_digits_pad digits_of_all split: if_splits)

lemma normalizeParcelNo_Inr:
  "normalizeParcelNo w = Inr c \<Longrightarrow> all_digits c \<and> 6 \<le> length c"
  by (auto simp: normalizeParcelNo_def Let_def all_digits_pad digits_of_all split: if_splits)

lemma normalizePropertyNo_Inr:
  "normalizePropertyNo w = Inr c \<Longrightarrow> all_digits c \<and> 3 \<le> length c"
  by (auto simp: normalizePropertyNo_def Let_def all_digits_pad digits_of_all split: if_splits)

lemma normalizeParcelNo_id: "all_digits c \<Longrightarrow> 6 \<le> length c \<Longrightarrow> normalizeParcelNo c = Inr c"
  by (auto simp: normalizeParcelNo_def Let_def digits_of_all_digits pad_zeros_id all_digits_def max_def)

lemma normalizePropertyNo_id: "all_digits c \<Longrightarrow> 3 \<le> length c \<Longrightarrow> normalizePropertyNo c = Inr c"
  by (auto simp: normalizePropertyNo_def Let_def digits_of_all_digits pad_zeros_id all_digits_def max_def)

lemma upper_of_upper: "map upper_char ''ABCDEFGHIJKLMNOPQRSTUVWXYZ'' = map (\<lambda>c. [c]) ''ABCDEFGHIJKLMNOPQRSTUVWXYZ''"
  by (simp add: upper_char_def latin1_upper_def latin1_lower_def)

lemma upper_of_lower: "map upper_char ''abcdefghijklmnopqrstuvwxyz'' = map (\<lambda>c. [c]) ''ABCDEFGHIJKLMNOPQRSTUVWXYZ''"
  by (simp add: upper_char_def latin1_upper_def latin1_lower_def)

lemma map_eq_image: "map f xs = map g ys \<Longrightarrow> x \<in> set xs \<Longrightarrow> \<exists>y \<in> set ys. f x = g y"
  by (metis (no_types, opaque_lifting) image_iff list.set_map)

lemma upper_letter_in:
  assumes "c \<in> set ''ABCDEFGHIJKLMNOPQRSTUVWXYZ''"
  shows "upper_char c = [c]" "is_letter c" "c \<noteq> CHR ''-''" "\<not> is_space c"
proof -
  show "upper_char c = [c]" using upper_of_upper assms unfolding map_eq_conv by blast
  show "is_letter c" using assms by (simp only: is_letter_def simp_thms)
  show "c \<noteq> CHR ''-''" "\<not> is_space c" using assms by (auto simp: is_space_def)
qed

lemma upper_letter:
  assumes "is_letter c"
  shows "\<exists>d. upper_char c = [d] \<and> upper_char d = [d] \<and> is_letter d \<and> d \<noteq> CHR ''-'' \<and> \<not> is_space d"
proof (cases "c \<in> set ''ABCDEFGHIJKLMNOPQRSTUVWXYZ''")
  case True
  then show ?thesis using upper_letter_in by blast
next
  case False
  then have "c \<in> set ''abcdefghijklmnopqrstuvwxyz''" using assms by (simp only: is_letter_def simp_thms)
  then obtain d where "d \<in> set ''ABCDEFGHIJKLMNOPQRSTUVWXYZ''" "upper_char c = [d]"
    using map_eq_image[OF upper_of_lower] by blast
  then show ?thesis using upper_letter_in[of d] by blast
qed

lemma normalizeGisUseCode_Inr:
  assumes "normalizeGisUseCode v = Inr g"
  obtains d where "g = [d]" "is_letter d" "upper_char d = [d]" "d \<noteq> CHR ''-''" "\<not> is_space d"
proof -
  from assms obtain c cs where f: "filter is_letter (trim v) = c # cs" and g: "g = upper_char c"
    by (auto simp: normalizeGisUseCode_def toUpperCase_def split: list.splits)
  have "c \<in> set (filter is_letter (trim v))" using f by simp
  then show thesis using upper_letter[of c] g that by auto
qed

lemma normalizeGisUseCode_id:
  "is_letter d \<Longrightarrow> upper_char d = [d] \<Longrightarrow> \<not> is_space d \<Longrightarrow> normalizeGisUseCode [d] = Inr [d]"
  by (simp add: normalizeGisUseCode_def trim_id toUpperCase_def)


subsection \<open>Round trip\<close>

text \<open>The parts in canonical form: what the generator writes and the parser returns.\<close>

definition canonical_parts :: "gis_parts \<Rightarrow> bool" where
  "canonical_parts g \<longleftrightarrow>
     all_digits (gp_ulbCode g) \<and> all_digits (gp_wardNo g) \<and> length (gp_wardNo g) = 3 \<and>
     normalizeParcelNo (gp_parcelNo g) = Inr (gp_parcelNo g) \<and>
     normalizePropertyNo (gp_propertyNo g) = Inr (gp_propertyNo g) \<and>
     normalizeGisUseCode (gp_gisUseCode g) = Inr (gp_gisUseCode g)"

definition id_of_parts :: "gis_parts \<Rightarrow> string" where
  "id_of_parts g =
     join ''-'' [gp_ulbCode g, gp_wardNo g, gp_parcelNo g, gp_propertyNo g, gp_gisUseCode g]"

lemma normalize_idem:
  "normalizeWardCode w = Inr c \<Longrightarrow> normalizeWardCode c = Inr c"
  "normalizeParcelNo w = Inr c \<Longrightarrow> normalizeParcelNo c = Inr c"
  "normalizePropertyNo w = Inr c \<Longrightarrow> normalizePropertyNo c = Inr c"
  "normalizeGisUseCode w = Inr c \<Longrightarrow> normalizeGisUseCode c = Inr c"
     apply (frule normalizeWardCode_Inr)
     apply (auto simp: normalizeWardCode_def Let_def digits_of_all_digits all_digits_def pad_zeros_id split: if_splits)[1]
    apply (auto dest: normalizeParcelNo_Inr intro: normalizeParcelNo_id)[1]
   apply (auto dest: normalizePropertyNo_Inr intro: normalizePropertyNo_id)[1]
  by (metis normalizeGisUseCode_Inr normalizeGisUseCode_id)

lemma generate_Inr_iff:
  "generateSurveyId u w p q g = Inr s \<longleftrightarrow>
     (\<exists>wc pc qc gc. normalizeWardCode w = Inr wc \<and> normalizeParcelNo p = Inr pc \<and>
        normalizePropertyNo q = Inr qc \<and> normalizeGisUseCode g = Inr gc \<and>
        s = join ''-'' [trim u, wc, pc, qc, gc])"
  by (auto simp: generateSurveyId_def bind_res_Inr_iff)

lemma parse_id_of_parts:
  assumes "canonical_parts g"
  shows "parseGisSurveyId (Some (id_of_parts g)) = Some g"
proof -
  have d: "all_digits (gp_ulbCode g)" "all_digits (gp_wardNo g)" "length (gp_wardNo g) = 3"
    "all_digits (gp_parcelNo g)" "all_digits (gp_propertyNo g)"
    using assms by (auto simp: canonical_parts_def dest: normalizeParcelNo_Inr normalizePropertyNo_Inr)
  obtain l where l: "gp_gisUseCode g = [l]" "is_letter l" "upper_char l = [l]" "l \<noteq> CHR ''-''" "\<not> is_space l"
    using assms by (auto simp: canonical_parts_def elim: normalizeGisUseCode_Inr)
  have ne: "gp_ulbCode g \<noteq> []" using d(1) by (simp add: all_digits_def)
  have "\<not> is_space (hd (gp_ulbCode g))"
    using d(1) by (cases "gp_ulbCode g") (auto simp: all_digits_def is_digit_not_space)
  then have t: "trim (id_of_parts g) = id_of_parts g"
    using ne l by (intro trim_id) (simp add: id_of_parts_def)
  have "split_char (CHR ''-'') (id_of_parts g) =
      [gp_ulbCode g, gp_wardNo g, gp_parcelNo g, gp_propertyNo g, gp_gisUseCode g]"
    using d l by (simp add: id_of_parts_def split_char_append split_char_none all_digits_no_dash)
  then show ?thesis
    using d l ne t by (simp add: parseGisSurveyId_def toUpperCase_def id_of_parts_def)
qed

lemma parse_canonical:
  assumes "parseGisSurveyId (Some s) = Some g"
  shows "all_digits (gp_ulbCode g)" "all_digits (gp_wardNo g)" "length (gp_wardNo g) = 3"
    "all_digits (gp_parcelNo g)" "all_digits (gp_propertyNo g)"
    "normalizeGisUseCode (gp_gisUseCode g) = Inr (gp_gisUseCode g)"
proof -
  have "\<exists>u w p q l. split_char (CHR ''-'') (trim s) = [u, w, p, q, [l]] \<and> is_letter l \<and>
      all_digits u \<and> all_digits w \<and> length w = 3 \<and> all_digits p \<and> all_digits q \<and>
      g = \<lparr>gp_ulbCode = u, gp_wardNo = w, gp_parcelNo = p, gp_propertyNo = q,
           gp_gisUseCode = toUpperCase [l]\<rparr>"
    using assms
    by (auto simp: parseGisSurveyId_def length_Suc_conv split: if_splits list.splits)
  then obtain u w p q l where *: "is_letter l" "all_digits u" "all_digits w" "length w = 3"
    "all_digits p" "all_digits q"
    "g = \<lparr>gp_ulbCode = u, gp_wardNo = w, gp_parcelNo = p, gp_propertyNo = q,
          gp_gisUseCode = toUpperCase [l]\<rparr>" by blast
  then show "all_digits (gp_ulbCode g)" "all_digits (gp_wardNo g)" "length (gp_wardNo g) = 3"
    "all_digits (gp_parcelNo g)" "all_digits (gp_propertyNo g)"
    by simp_all
  show "normalizeGisUseCode (gp_gisUseCode g) = Inr (gp_gisUseCode g)"
    using upper_letter[OF *(1)] *(7) by (auto simp: toUpperCase_def normalizeGisUseCode_id)
qed

subsection \<open>Identity of a survey row\<close>

text \<open>The columns of the survey table that carry the identity. \<open>surveyId\<close> is unique over the whole
  table, soft-deleted rows included; a write that breaks this is the database's error.\<close>

record id_row =
  sv_id :: string
  sv_surveyId :: string
  sv_parcelNo :: "string option"
  sv_propertyNo :: "string option"
  sv_deleted :: bool

record identity_input =
  ii_surveyId :: "string option"
  ii_parcelNo :: "string option"
  ii_propertyNo :: "string option"
  ii_gisUseCode :: "string option"

record resolved_identity =
  rid_parcelNo :: string
  rid_propertyNo :: string
  rid_gisUseCode :: string
  rid_surveyId :: string
  rid_ulbCode :: string

datatype identity_error = IdError id_error | SurveyExists | UniqueViolation

definition getUlbCode :: "string option \<Rightarrow> string" where
  "getUlbCode env = or_text (nullish (map_option trim env) []) CHHATA_ULB_CODE"

definition resolveSurveyIdentity ::
  "string option \<Rightarrow> int \<Rightarrow> identity_input \<Rightarrow> ('a id_row_scheme) option \<Rightarrow> id_error + resolved_identity" where
  "resolveSurveyIdentity env ward_number inp current =
     (let currentId = nullish (map_option sv_surveyId current) [];
          parsed = (if currentId \<noteq> [] then parseGisSurveyId (Some currentId)
                    else if nullish (ii_surveyId inp) [] \<noteq> [] then parseGisSurveyId (ii_surveyId inp)
                    else None);
          ulbCode = getUlbCode env;
          parcelRaw = nullish (nullish_opt (nullish_opt (ii_parcelNo inp) (Option.bind current sv_parcelNo))
                                 (map_option gp_parcelNo parsed)) [];
          propertyRaw = nullish (nullish_opt (nullish_opt (ii_propertyNo inp) (Option.bind current sv_propertyNo))
                                   (map_option gp_propertyNo parsed)) [];
          gisUseRaw = nullish (nullish_opt (ii_gisUseCode inp) (map_option gp_gisUseCode parsed)) []
      in
      bind_res (normalizeParcelNo parcelRaw) (\<lambda>parcelNo.
      bind_res (normalizePropertyNo propertyRaw) (\<lambda>propertyNo.
      bind_res (normalizeGisUseCode gisUseRaw) (\<lambda>gisUseCode.
      bind_res (generateSurveyId ulbCode (int_text ward_number) parcelNo propertyNo gisUseCode) (\<lambda>surveyId.
        Inr \<lparr>rid_parcelNo = parcelNo, rid_propertyNo = propertyNo, rid_gisUseCode = gisUseCode,
             rid_surveyId = surveyId, rid_ulbCode = ulbCode\<rparr>)))))"

definition getExpectedSurveyIdFromRecord ::
  "string option \<Rightarrow> 'a id_row_scheme \<Rightarrow> int \<Rightarrow> id_error + string" where
  "getExpectedSurveyIdFromRecord env survey wardNumber =
     (let parsed = parseGisSurveyId (Some (sv_surveyId survey))
      in buildSurveyIdFromRecord
           \<lparr>bi_surveyId = Some (sv_surveyId survey), bi_wardNumber = wardNumber,
            bi_parcelNo = sv_parcelNo survey, bi_propertyNo = sv_propertyNo survey,
            bi_gisUseCode = map_option gp_gisUseCode parsed, bi_ulbCode = Some (getUlbCode env)\<rparr>)"

definition surveyIdNeedsRepair :: "string option \<Rightarrow> 'a id_row_scheme \<Rightarrow> int \<Rightarrow> bool" where
  "surveyIdNeedsRepair env survey wardNumber =
     (case getExpectedSurveyIdFromRecord env survey wardNumber of
        Inr expected \<Rightarrow> sv_surveyId survey \<noteq> expected
      | Inl _ \<Rightarrow> False)"

definition verifySurveyIdMatchesRecord ::
  "string option \<Rightarrow> string \<Rightarrow> int \<Rightarrow> string \<Rightarrow> string \<Rightarrow> string \<Rightarrow> id_error + bool" where
  "verifySurveyIdMatchesRecord env surveyId wardNumber parcelNo propertyNo gisUseCode =
     bind_res (buildSurveyIdFromRecord
       \<lparr>bi_surveyId = None, bi_wardNumber = wardNumber, bi_parcelNo = Some parcelNo,
        bi_propertyNo = Some propertyNo, bi_gisUseCode = Some gisUseCode,
        bi_ulbCode = Some (getUlbCode env)\<rparr>) (\<lambda>expected. Inr (expected = surveyId))"

text \<open>\<open>tx.survey.findUnique({ where: { surveyId } })\<close>, and the update of one row by its primary key
  under the unique index.\<close>

definition find_by_surveyId :: "'a id_row_scheme list \<Rightarrow> string \<Rightarrow> 'a id_row_scheme option" where
  "find_by_surveyId rows s = find (\<lambda>r. sv_surveyId r = s) rows"

definition update_identity ::
  "'a id_row_scheme list \<Rightarrow> string \<Rightarrow> string \<Rightarrow> string option \<Rightarrow> string option
     \<Rightarrow> identity_error + 'a id_row_scheme list" where
  "update_identity rows rid s p q =
     (if \<exists>r \<in> set rows. sv_surveyId r = s \<and> sv_id r \<noteq> rid then Inl UniqueViolation
      else Inr (map (\<lambda>r. if sv_id r = rid
                        then r\<lparr>sv_surveyId := s, sv_parcelNo := p, sv_propertyNo := q\<rparr> else r) rows))"

definition repairSurveyIdIfNeeded ::
  "string option \<Rightarrow> 'a id_row_scheme list \<Rightarrow> 'a id_row_scheme \<Rightarrow> int
     \<Rightarrow> identity_error + ('a id_row_scheme list \<times> string)" where
  "repairSurveyIdIfNeeded env rows survey wardNumber =
     (if \<not> surveyIdNeedsRepair env survey wardNumber then Inr (rows, sv_surveyId survey)
      else (case getExpectedSurveyIdFromRecord env survey wardNumber of
          Inl e \<Rightarrow> Inl (IdError e)
        | Inr expected \<Rightarrow>
            (let parsed = parseGisSurveyId (Some expected);
                 clash = find_by_surveyId rows expected
             in if (case clash of Some c \<Rightarrow> sv_id c \<noteq> sv_id survey \<and> \<not> sv_deleted c | None \<Rightarrow> False)
                then Inr (rows, sv_surveyId survey)
                else bind_res (update_identity rows (sv_id survey) expected
                         (nullish_opt (map_option gp_parcelNo parsed) (sv_parcelNo survey))
                         (nullish_opt (map_option gp_propertyNo parsed) (sv_propertyNo survey)))
                       (\<lambda>rows'. Inr (rows', expected)))))"

definition assertSurveyIdAvailable ::
  "'a id_row_scheme list \<Rightarrow> string \<Rightarrow> string option \<Rightarrow> identity_error + unit" where
  "assertSurveyIdAvailable rows surveyId excludeId =
     (case find_by_surveyId rows surveyId of
        Some clash \<Rightarrow>
          (if Some (sv_id clash) \<noteq> excludeId \<and> \<not> sv_deleted clash then Inl SurveyExists else Inr ())
      | None \<Rightarrow> Inr ())"

subsection \<open>What the generator and the repair guarantee\<close>

lemma generate_canonical:
  assumes "generateSurveyId u w p q g = Inr s" "all_digits (trim u)" "length (digits_of w) \<le> 3"
  obtains c where "canonical_parts c" "s = id_of_parts c" "gp_ulbCode c = trim u"
    "normalizeWardCode w = Inr (gp_wardNo c)" "normalizeParcelNo p = Inr (gp_parcelNo c)"
    "normalizePropertyNo q = Inr (gp_propertyNo c)" "normalizeGisUseCode g = Inr (gp_gisUseCode c)"
proof -
  from assms(1) obtain wc pc qc gc where n: "normalizeWardCode w = Inr wc" "normalizeParcelNo p = Inr pc"
    "normalizePropertyNo q = Inr qc" "normalizeGisUseCode g = Inr gc"
    and s: "s = join ''-'' [trim u, wc, pc, qc, gc]"
    unfolding generate_Inr_iff by blast
  let ?c = "\<lparr>gp_ulbCode = trim u, gp_wardNo = wc, gp_parcelNo = pc, gp_propertyNo = qc, gp_gisUseCode = gc\<rparr>"
  have "all_digits wc \<and> length wc = 3"
    using normalizeWardCode_Inr[OF n(1)] assms(3) length_pad_zeros[of 3 "digits_of w"] by (metis max.orderE max.commute)
  then have "canonical_parts ?c"
    using n assms(2) by (simp add: canonical_parts_def normalize_idem)
  then show thesis using that[of ?c] n s by (simp add: id_of_parts_def)
qed

lemma trim_all_digits: "all_digits s \<Longrightarrow> trim s = s"
  by (rule trim_id) (auto simp: all_digits_def list_all_iff is_digit_not_space)

lemma generate_of_canonical:
  assumes "canonical_parts c"
  shows "generateSurveyId (gp_ulbCode c) (gp_wardNo c) (gp_parcelNo c) (gp_propertyNo c) (gp_gisUseCode c)
       = Inr (id_of_parts c)"
proof -
  have "normalizeWardCode (gp_wardNo c) = Inr (gp_wardNo c)"
    using assms by (auto simp: canonical_parts_def normalizeWardCode_def Let_def digits_of_all_digits
        all_digits_def pad_zeros_id)
  then show ?thesis
    using assms by (simp add: generate_Inr_iff canonical_parts_def id_of_parts_def trim_all_digits)
qed

lemma getUlbCode_trim: "trim (getUlbCode env) = getUlbCode env"
proof -
  have "trim CHHATA_ULB_CODE = CHHATA_ULB_CODE"
    by (simp add: CHHATA_ULB_CODE_def trim_def is_space_def)
  then show ?thesis by (cases env) (simp_all add: getUlbCode_def or_text_def)
qed

text \<open>The expected id of a row that carries the parts of a canonical id is that id.\<close>

lemma expected_of_canonical:
  assumes "canonical_parts c" "gp_ulbCode c = getUlbCode env"
    and "normalizeWardCode (int_text ward) = Inr (gp_wardNo c)"
    and "sv_surveyId r = id_of_parts c" "sv_parcelNo r = Some (gp_parcelNo c)"
    "sv_propertyNo r = Some (gp_propertyNo c)"
  shows "getExpectedSurveyIdFromRecord env r ward = Inr (id_of_parts c)"
proof -
  have "generateSurveyId (getUlbCode env) (int_text ward) (gp_parcelNo c) (gp_propertyNo c) (gp_gisUseCode c)
      = Inr (id_of_parts c)"
    using assms(1-3)
    by (simp add: generate_Inr_iff canonical_parts_def id_of_parts_def getUlbCode_trim)
  then show ?thesis
    using assms parse_id_of_parts[OF assms(1)]
    by (simp add: getExpectedSurveyIdFromRecord_def buildSurveyIdFromRecord_def canonical_parts_def)
qed

lemma expected_canonical:
  assumes "getExpectedSurveyIdFromRecord env r ward = Inr e"
    and "all_digits (getUlbCode env)" "length (digits_of (int_text ward)) \<le> 3"
  obtains c where "canonical_parts c" "e = id_of_parts c" "gp_ulbCode c = getUlbCode env"
    "normalizeWardCode (int_text ward) = Inr (gp_wardNo c)"
proof -
  obtain p q g where "generateSurveyId (getUlbCode env) (int_text ward) p q g = Inr e"
    using assms(1) by (auto simp: getExpectedSurveyIdFromRecord_def buildSurveyIdFromRecord_def Let_def
        bind_res_Inr_iff)
  from generate_canonical[OF this] assms(2,3) that show thesis
    by (metis getUlbCode_trim)
qed

lemma find_by_surveyId_Some: "find_by_surveyId rows s = Some c \<Longrightarrow> c \<in> set rows \<and> sv_surveyId c = s"
  by (auto simp: find_by_surveyId_def find_Some_iff)

lemma update_identity_distinct:
  assumes "update_identity rows rid s p q = Inr rows'"
    and "distinct (map sv_id rows)" "distinct (map sv_surveyId rows)"
  shows "distinct (map sv_surveyId rows') \<and> map sv_id rows' = map sv_id rows"
proof -
  have u: "\<forall>r \<in> set rows. sv_surveyId r = s \<longrightarrow> sv_id r = rid"
    and r: "rows' = map (\<lambda>r. if sv_id r = rid
              then r\<lparr>sv_surveyId := s, sv_parcelNo := p, sv_propertyNo := q\<rparr> else r) rows"
    using assms(1) by (auto simp: update_identity_def split: if_splits)
  have "distinct (map (\<lambda>r. if sv_id r = rid then s else sv_surveyId r) rows)"
    using assms(2,3) u by (rule distinct_map_update)
  moreover have "map sv_surveyId rows' = map (\<lambda>r. if sv_id r = rid then s else sv_surveyId r) rows"
    by (auto simp: r)
  moreover have "map sv_id rows' = map sv_id rows" by (auto simp: r)
  ultimately show ?thesis by simp
qed

lemma repair_cases:
  assumes "repairSurveyIdIfNeeded env rows survey ward = Inr (rows', s)"
  obtains (kept) "rows' = rows" "s = sv_surveyId survey" "\<not> surveyIdNeedsRepair env survey ward"
  | (clash) c e where "rows' = rows" "s = sv_surveyId survey"
      "getExpectedSurveyIdFromRecord env survey ward = Inr e"
      "c \<in> set rows" "sv_surveyId c = e" "sv_id c \<noteq> sv_id survey" "\<not> sv_deleted c"
  | (repaired) "getExpectedSurveyIdFromRecord env survey ward = Inr s"
      "update_identity rows (sv_id survey) s
         (nullish_opt (map_option gp_parcelNo (parseGisSurveyId (Some s))) (sv_parcelNo survey))
         (nullish_opt (map_option gp_propertyNo (parseGisSurveyId (Some s))) (sv_propertyNo survey)) = Inr rows'"
proof (cases "surveyIdNeedsRepair env survey ward")
  case False
  then show thesis using assms kept by (simp add: repairSurveyIdIfNeeded_def)
next
  case True
  then obtain e where e: "getExpectedSurveyIdFromRecord env survey ward = Inr e"
    by (auto simp: surveyIdNeedsRepair_def split: sum.splits)
  show thesis
  proof (cases "case find_by_surveyId rows e of Some c \<Rightarrow> sv_id c \<noteq> sv_id survey \<and> \<not> sv_deleted c | None \<Rightarrow> False")
    case c: True
    then obtain c where "find_by_surveyId rows e = Some c" "sv_id c \<noteq> sv_id survey" "\<not> sv_deleted c"
      by (auto split: option.splits)
    moreover have "rows' = rows" "s = sv_surveyId survey"
      using assms True e c by (simp_all add: repairSurveyIdIfNeeded_def)
    ultimately show thesis using clash e find_by_surveyId_Some by blast
  next
    case nc: False
    then show thesis
      using assms True e repaired by (auto simp: repairSurveyIdIfNeeded_def Let_def bind_res_Inr_iff)
  qed
qed

text \<open>C25. Round trip: an id that the generator produces (for a ULB code of digits and a ward of at
  most three digits) parses, the parts are the normalised inputs, and generating from those parts
  gives the same id again.\<close>

theorem generated_id_round_trip:
  assumes "generateSurveyId u w p q g = Inr s" "all_digits (trim u)" "length (digits_of w) \<le> 3"
  shows "\<exists>c. parseGisSurveyId (Some s) = Some c \<and> gp_ulbCode c = trim u \<and>
             normalizeWardCode w = Inr (gp_wardNo c) \<and> normalizeParcelNo p = Inr (gp_parcelNo c) \<and>
             normalizePropertyNo q = Inr (gp_propertyNo c) \<and> normalizeGisUseCode g = Inr (gp_gisUseCode c) \<and>
             generateSurveyId (gp_ulbCode c) (gp_wardNo c) (gp_parcelNo c) (gp_propertyNo c)
               (gp_gisUseCode c) = Inr s"
proof -
  obtain c where "canonical_parts c" "s = id_of_parts c" "gp_ulbCode c = trim u"
    "normalizeWardCode w = Inr (gp_wardNo c)" "normalizeParcelNo p = Inr (gp_parcelNo c)"
    "normalizePropertyNo q = Inr (gp_propertyNo c)" "normalizeGisUseCode g = Inr (gp_gisUseCode c)"
    using generate_canonical[OF assms] .
  then show ?thesis using parse_id_of_parts generate_of_canonical by metis
qed

lemma generated_id_round_trip_witness:
  "\<exists>c. parseGisSurveyId (Some ''249044-001-000131-001-R'') = Some c \<and> gp_parcelNo c = ''000131''"
proof -
  have "generateSurveyId '' 249044'' ''1'' ''P-131'' ''01'' ''r-2'' = Inr ''249044-001-000131-001-R''"
    by code_simp
  moreover have "all_digits (trim '' 249044'')" "length (digits_of ''1'') \<le> 3" by code_simp+
  moreover have "normalizeParcelNo ''P-131'' = Inr ''000131''" by code_simp
  ultimately show ?thesis
    using generated_id_round_trip[of "'' 249044''" "''1''" "''P-131''" "''01''" "''r-2''"
        "''249044-001-000131-001-R''"] by auto
qed

text \<open>C32. Repairing a row's id keeps the survey ids of the table distinct and its primary keys
  unchanged; afterwards the row no longer needs repair, unless another live row holds the id it
  should have, in which case nothing is written.\<close>

theorem repair_keeps_ids_distinct:
  assumes "repairSurveyIdIfNeeded env rows survey ward = Inr (rows', s)"
    and "survey \<in> set rows" "distinct (map sv_id rows)" "distinct (map sv_surveyId rows)"
    and "all_digits (getUlbCode env)" "length (digits_of (int_text ward)) \<le> 3"
  shows "distinct (map sv_surveyId rows') \<and> map sv_id rows' = map sv_id rows \<and>
    ((\<exists>r \<in> set rows'. sv_id r = sv_id survey \<and> sv_surveyId r = s \<and> \<not> surveyIdNeedsRepair env r ward) \<or>
     rows' = rows \<and> (\<exists>c \<in> set rows. sv_id c \<noteq> sv_id survey \<and> \<not> sv_deleted c \<and>
        getExpectedSurveyIdFromRecord env survey ward = Inr (sv_surveyId c)))"
  using assms(1)
proof (cases rule: repair_cases)
  case kept
  then show ?thesis using assms by auto
next
  case (clash c e)
  then show ?thesis using assms by auto
next
  case repaired
  obtain c where c: "canonical_parts c" "s = id_of_parts c" "gp_ulbCode c = getUlbCode env"
    "normalizeWardCode (int_text ward) = Inr (gp_wardNo c)"
    using expected_canonical[OF repaired(1) assms(5,6)] .
  let ?r = "survey\<lparr>sv_surveyId := s, sv_parcelNo := Some (gp_parcelNo c), sv_propertyNo := Some (gp_propertyNo c)\<rparr>"
  have "?r \<in> set rows'"
    using repaired(2) assms(2) parse_id_of_parts[OF c(1)]
    by (auto simp: update_identity_def c(2) split: if_splits)
  moreover have "getExpectedSurveyIdFromRecord env ?r ward = Inr s"
    using expected_of_canonical[OF c(1,3,4), of ?r] by (simp add: c(2))
  ultimately show ?thesis
    using update_identity_distinct[OF repaired(2) assms(3,4)]
    by (auto simp: surveyIdNeedsRepair_def intro!: bexI[of _ ?r])
qed

definition sample_rows :: "id_row list" where
  "sample_rows =
     [\<lparr>sv_id = ''a'', sv_surveyId = ''249044-000-000131-001-R'', sv_parcelNo = Some ''131'',
       sv_propertyNo = None, sv_deleted = False\<rparr>,
      \<lparr>sv_id = ''b'', sv_surveyId = ''249044-002-000131-001-R'', sv_parcelNo = None,
       sv_propertyNo = None, sv_deleted = False\<rparr>]"

lemma repair_keeps_ids_distinct_witness:
  "\<exists>rows'. repairSurveyIdIfNeeded None sample_rows (hd sample_rows) 7 = Inr (rows', ''249044-007-000131-001-R'')
      \<and> distinct (map sv_surveyId rows')"
proof -
  have r: "repairSurveyIdIfNeeded None sample_rows (hd sample_rows) 7 =
      Inr (hd sample_rows\<lparr>sv_surveyId := ''249044-007-000131-001-R'', sv_parcelNo := Some ''000131'',
             sv_propertyNo := Some ''001''\<rparr> # tl sample_rows, ''249044-007-000131-001-R'')"
    by code_simp
  have "hd sample_rows \<in> set sample_rows" "distinct (map sv_id sample_rows)"
    "distinct (map sv_surveyId sample_rows)" by (simp_all add: sample_rows_def)
  moreover have "all_digits (getUlbCode None)" "length (digits_of (int_text 7)) \<le> 3" by code_simp+
  ultimately show ?thesis using r repair_keeps_ids_distinct[OF r] by auto
qed

end
