(* ===== verification/JsNumber.thy ===== *)
theory JsNumber
  imports Complex_Main "HOL-Library.Log_Nat" Prelude
begin

text \<open>
  JavaScript numbers. A finite \<open>number\<close> is an IEEE-754 binary64 value; the model writes it as the
  rational it denotes, and every arithmetic operation of the code is the exact operation followed
  by \<open>fl\<close>, which rounds to the nearest number with a 53-bit significand, ties to even. The
  exponent is unbounded in both directions, so overflow to infinity and gradual underflow are not
  modelled (amounts would have to pass 1.8e308 or fall below 2.2e-308); negative zero is zero.
  Values that may be \<open>NaN\<close> or infinite enter the code only through parsing, and are
  options there (\<open>toTaxNumber\<close> and its callers).

  Lemmas: \<open>fl\<close> is monotone, odd, exact on integers below \<open>2 ^ 53\<close>, and has relative error at most
  \<open>2 ^ - 53\<close>. The locale \<open>binary_rounding\<close> states what the rest of the development uses of it.
\<close>

type_synonym js_number = rat

subsection \<open>Rounding to a 53-bit significand\<close>

text \<open>The exponent of the leading bit: the floor of the binary logarithm of a positive number.\<close>

definition ilog2 :: "rat \<Rightarrow> int" where
  "ilog2 x = (let (p, q) = quotient_of x; e = bitlen p - bitlen q
              in if 2 powi e \<le> x then e else e - 1)"

definition round_half_even :: "rat \<Rightarrow> int" where
  "round_half_even y =
     (let f = \<lfloor>y\<rfloor>; d = y - of_int f
      in if d < 1/2 \<or> d = 1/2 \<and> even f then f else f + 1)"

definition ulp :: "rat \<Rightarrow> rat" where
  "ulp x = 2 powi (ilog2 x - 52)"

definition fl :: "rat \<Rightarrow> js_number" where
  "fl x = (if x = 0 then 0
           else if x > 0 then of_int (round_half_even (x / ulp x)) * ulp x
           else - (of_int (round_half_even (- x / ulp (- x))) * ulp (- x)))"

text \<open>\<open>Math.round\<close>: to the nearest integer, ties towards plus infinity (exact).\<close>

definition js_round_int :: "js_number \<Rightarrow> int" where
  "js_round_int x = \<lfloor>x + 1/2\<rfloor>"

subsection \<open>The exponent\<close>

lemma ilog2_bounds:
  assumes "0 < x"
  shows "2 powi ilog2 x \<le> x" and "x < 2 powi (ilog2 x + 1)"
proof -
  obtain p q where pq: "quotient_of x = (p, q)" by (cases "quotient_of x")
  have q0: "q > 0" using pq by (rule quotient_of_denom_pos)
  have x: "x = of_int p / of_int q" using pq by (rule quotient_of_div)
  have p0: "p > 0" using assms q0 by (simp add: x zero_less_divide_iff)
  define bp bq where "bp = bitlen p" and "bq = bitlen q"
  have bp1: "1 \<le> bp" and bq1: "1 \<le> bq"
    using p0 q0 bitlen_eq_zero_iff[of p] bitlen_eq_zero_iff[of q] bitlen_nonneg[of p] bitlen_nonneg[of q]
    by (auto simp: bp_def bq_def)
  have P: "2 powi (bp - 1) \<le> (of_int p::rat)" "(of_int p::rat) < 2 powi bp"
    and Q: "2 powi (bq - 1) \<le> (of_int q::rat)" "(of_int q::rat) < 2 powi bq"
  proof -
    have "(of_int (2 ^ nat (bp - 1))::rat) \<le> of_int p" "(of_int p::rat) < of_int (2 ^ nat bp)"
      using bitlen_bounds[OF p0] unfolding bp_def of_int_le_iff of_int_less_iff by auto
    then show "2 powi (bp - 1) \<le> (of_int p::rat)" "(of_int p::rat) < 2 powi bp"
      using bp1 by (auto simp: power_int_nonneg_exp)
    have "(of_int (2 ^ nat (bq - 1))::rat) \<le> of_int q" "(of_int q::rat) < of_int (2 ^ nat bq)"
      using bitlen_bounds[OF q0] unfolding bq_def of_int_le_iff of_int_less_iff by auto
    then show "2 powi (bq - 1) \<le> (of_int q::rat)" "(of_int q::rat) < 2 powi bq"
      using bq1 by (auto simp: power_int_nonneg_exp)
  qed
  have qpos: "(0::rat) < of_int q" using q0 by simp
  have upper: "x < 2 powi (bp - bq + 1)"
  proof -
    have "of_int p < (2::rat) powi bp" by (rule P)
    also have "(2::rat) powi bp = 2 powi (bp - bq + 1) * 2 powi (bq - 1)"
      by (simp flip: power_int_add)
    also have "\<dots> \<le> 2 powi (bp - bq + 1) * of_int q"
      using Q(1) by (intro mult_left_mono) auto
    finally show ?thesis using qpos by (simp add: x divide_less_eq)
  qed
  have lower: "2 powi (bp - bq - 1) \<le> x"
  proof -
    have "2 powi (bp - bq - 1) * of_int q \<le> (2::rat) powi (bp - bq - 1) * 2 powi bq"
      using Q(2) by (intro mult_left_mono) auto
    also have "\<dots> = 2 powi (bp - 1)" by (simp flip: power_int_add)
    also have "\<dots> \<le> of_int p" by (rule P)
    finally show ?thesis using qpos by (simp add: x le_divide_eq)
  qed
  have i: "ilog2 x = (if 2 powi (bp - bq) \<le> x then bp - bq else bp - bq - 1)"
    by (simp add: ilog2_def pq bp_def bq_def Let_def)
  show "2 powi ilog2 x \<le> x" using lower by (simp add: i)
  show "x < 2 powi (ilog2 x + 1)" using upper by (auto simp: i)
qed

lemma two_powi_less_cancel: "(2::rat) powi m < 2 powi n \<Longrightarrow> m < n"
  using power_int_increasing[of n m "2::rat"] by (cases "n \<le> m") auto

lemma ilog2_mono: "0 < x \<Longrightarrow> x \<le> y \<Longrightarrow> ilog2 x \<le> ilog2 y"
proof -
  assume "0 < x" "x \<le> y"
  then have "(2::rat) powi ilog2 x < 2 powi (ilog2 y + 1)"
    using ilog2_bounds(1)[of x] ilog2_bounds(2)[of y] by linarith
  then show ?thesis by (auto dest: two_powi_less_cancel)
qed

lemma ulp_pos [simp]: "0 < ulp x" by (simp add: ulp_def)

lemma ulp_scales: "2 ^ 52 * ulp x = 2 powi ilog2 x" "2 ^ 53 * ulp x = 2 powi (ilog2 x + 1)"
  by (simp_all add: ulp_def power_int_diff power_int_add)

lemma ulp_quotient:
  assumes "0 < x"
  shows "2 ^ 52 \<le> x / ulp x" and "x / ulp x < 2 ^ 53"
  using ilog2_bounds[OF assms] ulp_scales[of x] by (simp_all add: le_divide_eq divide_less_eq)

subsection \<open>Rounding to an integer\<close>

lemma rhe_near: "\<bar>of_int (round_half_even y) - y\<bar> \<le> 1/2"
proof -
  have "of_int \<lfloor>y\<rfloor> \<le> y" "y < of_int \<lfloor>y\<rfloor> + 1" by linarith+
  then show ?thesis unfolding round_half_even_def Let_def by (auto simp: abs_le_iff; linarith)
qed

lemma rhe_of_int [simp]: "round_half_even (of_int n) = n"
  by (simp add: round_half_even_def)

lemma rhe_mono:
  assumes "y \<le> z"
  shows "round_half_even y \<le> round_half_even z"
proof (cases "\<lfloor>y\<rfloor> = \<lfloor>z\<rfloor>")
  case True
  then show ?thesis using assms by (auto simp: round_half_even_def Let_def)
next
  case False
  then have "\<lfloor>y\<rfloor> + 1 \<le> \<lfloor>z\<rfloor>" using floor_mono[OF assms] by simp
  then show ?thesis by (auto simp: round_half_even_def Let_def)
qed

lemma rhe_significand:
  assumes "0 < x"
  shows "2 ^ 52 \<le> (of_int (round_half_even (x / ulp x)) :: rat)"
    and "of_int (round_half_even (x / ulp x)) \<le> (2 ^ 53 :: rat)"
proof -
  have "round_half_even (of_int (2 ^ 52)) \<le> round_half_even (x / ulp x)"
    using ulp_quotient(1)[OF assms] by (intro rhe_mono) simp
  then have "(of_int (2 ^ 52) :: rat) \<le> of_int (round_half_even (x / ulp x))"
    unfolding rhe_of_int by (rule of_int_le_iff [THEN iffD2])
  then show "2 ^ 52 \<le> (of_int (round_half_even (x / ulp x)) :: rat)" by simp
  have "round_half_even (x / ulp x) \<le> round_half_even (of_int (2 ^ 53))"
    using ulp_quotient(2)[OF assms] by (intro rhe_mono) simp
  then have "of_int (round_half_even (x / ulp x)) \<le> (of_int (2 ^ 53) :: rat)"
    unfolding rhe_of_int by (rule of_int_le_iff [THEN iffD2])
  then show "of_int (round_half_even (x / ulp x)) \<le> (2 ^ 53 :: rat)" by simp
qed

subsection \<open>Laws of the rounding\<close>

lemma fl_0 [simp]: "fl 0 = 0" by (simp add: fl_def)

lemma fl_minus: "fl (- x) = - fl x"
  by (auto simp: fl_def)

lemma fl_pos_eq: "0 < x \<Longrightarrow> fl x = of_int (round_half_even (x / ulp x)) * ulp x"
  by (simp add: fl_def)

lemma fl_pos_bounds:
  assumes "0 < x"
  shows "2 powi ilog2 x \<le> fl x" and "fl x \<le> 2 powi (ilog2 x + 1)"
proof -
  have "2 ^ 52 * ulp x \<le> fl x" and "fl x \<le> 2 ^ 53 * ulp x"
    unfolding fl_pos_eq[OF assms] using rhe_significand[OF assms]
    by - (rule mult_right_mono, simp_all add: less_imp_le)+
  then show "2 powi ilog2 x \<le> fl x" and "fl x \<le> 2 powi (ilog2 x + 1)"
    unfolding ulp_scales .
qed

lemma fl_pos: "0 < x \<Longrightarrow> 0 < fl x"
  using fl_pos_bounds(1)[of x] zero_less_power_int[of "2::rat" "ilog2 x"] by linarith

lemma fl_mono_pos:
  assumes "0 < x" "x \<le> y"
  shows "fl x \<le> fl y"
proof (cases "ilog2 x = ilog2 y")
  case True
  then have u: "ulp x = ulp y" by (simp add: ulp_def)
  have "round_half_even (x / ulp y) \<le> round_half_even (y / ulp y)"
    using assms by (intro rhe_mono divide_right_mono) (auto intro: less_imp_le)
  then show ?thesis using assms u by (simp add: fl_pos_eq mult_right_mono)
next
  case False
  then have "ilog2 x + 1 \<le> ilog2 y" using ilog2_mono[OF assms] by simp
  then have "(2::rat) powi (ilog2 x + 1) \<le> 2 powi ilog2 y" by (intro power_int_increasing) auto
  then show ?thesis using fl_pos_bounds(2)[of x] fl_pos_bounds(1)[of y] assms by linarith
qed

lemma fl_mono:
  assumes "x \<le> y"
  shows "fl x \<le> fl y"
proof -
  consider "0 < x" | "x = 0" | "x < 0" "0 \<le> y" | "x < 0" "y < 0" by linarith
  then show ?thesis
  proof cases
    case 1 then show ?thesis using assms by (rule fl_mono_pos)
  next
    case 2 then show ?thesis using assms fl_pos[of y] by (cases "y = 0") auto
  next
    case 3 then show ?thesis using fl_pos[of "- x"] fl_pos[of y] by (cases "y = 0") (auto simp: fl_minus)
  next
    case 4
    then have "fl (- y) \<le> fl (- x)" using assms by (intro fl_mono_pos) auto
    then show ?thesis by (simp add: fl_minus)
  qed
qed

lemma fl_err_pos:
  assumes "0 < x"
  shows "\<bar>fl x - x\<bar> \<le> x / 2 ^ 53"
proof -
  have "fl x - x = (of_int (round_half_even (x / ulp x)) - x / ulp x) * ulp x"
    using ulp_pos[of x] by (simp add: fl_pos_eq[OF assms] left_diff_distrib del: ulp_pos)
  then have "\<bar>fl x - x\<bar> = \<bar>of_int (round_half_even (x / ulp x)) - x / ulp x\<bar> * ulp x"
    by (simp only: abs_mult abs_of_pos[OF ulp_pos])
  also have "\<dots> \<le> 1/2 * ulp x" by (intro mult_right_mono rhe_near) (simp add: less_imp_le)
  also have "\<dots> \<le> x / 2 ^ 53"
    using ulp_quotient(1)[OF assms] by (simp add: le_divide_eq divide_le_eq)
  finally show ?thesis .
qed

lemma fl_err: "\<bar>fl x - x\<bar> \<le> \<bar>x\<bar> / 2 ^ 53"
proof -
  consider "0 < x" | "x = 0" | "0 < - x" by linarith
  then show ?thesis using fl_err_pos[of x] fl_err_pos[of "- x"]
    by cases (auto simp: fl_minus abs_minus_commute)
qed

lemma fl_of_int_pos:
  assumes "0 < n" "n < 2 ^ 53"
  shows "fl (of_int n) = of_int n"
proof -
  define e where "e = ilog2 (of_int n)"
  have n0: "(0::rat) < of_int n" using assms by simp
  have "(2::rat) powi e \<le> of_int n" using ilog2_bounds(1)[OF n0] by (simp add: e_def)
  also have "(of_int n :: rat) < of_int (2 ^ 53)" using assms(2) unfolding of_int_less_iff .
  finally have "e < 53" using two_powi_less_cancel[of e 53] by simp
  then have "(2::rat) ^ nat (52 - e) * 2 powi (e - 52) = 1"
    by (simp flip: power_int_nonneg_exp power_int_add)
  then have "of_int n = of_int n * 2 ^ nat (52 - e) * ulp (of_int n)"
    by (simp add: ulp_def e_def)
  then have v: "of_int (n * 2 ^ nat (52 - e)) * ulp (of_int n) = of_int n" by simp
  then have u: "(of_int n :: rat) / ulp (of_int n) = of_int (n * 2 ^ nat (52 - e))"
    by (rule eq_divide_imp [symmetric, rotated]) (simp add: less_imp_neq [symmetric])
  show ?thesis
    unfolding fl_pos_eq[OF n0] u rhe_of_int by (rule v)
qed

lemma fl_of_int:
  assumes "\<bar>n\<bar> < 2 ^ 53"
  shows "fl (of_int n) = of_int n"
proof -
  consider "0 < n" | "n = 0" | "0 < - n" by linarith
  then show ?thesis
  proof cases
    case 3
    then have "fl (of_int (- n)) = of_int (- n)" using assms by (intro fl_of_int_pos) auto
    then show ?thesis by (simp add: fl_minus)
  qed (use assms fl_of_int_pos in auto)
qed

subsection \<open>What the clients use of the rounding\<close>

locale binary_rounding =
  fixes rnd :: "rat \<Rightarrow> rat"
  assumes rnd_mono: "x \<le> y \<Longrightarrow> rnd x \<le> rnd y"
    and rnd_err: "\<bar>rnd x - x\<bar> \<le> \<bar>x\<bar> / 2 ^ 53"
    and rnd_int: "\<bar>n\<bar> < 2 ^ 53 \<Longrightarrow> rnd (of_int n) = of_int n"
begin

lemma rnd_zero [simp]: "rnd 0 = 0"
  using rnd_int[of 0] by simp

lemma rnd_nonneg: "0 \<le> x \<Longrightarrow> 0 \<le> rnd x"
  using rnd_mono[of 0 x] by simp

lemma rnd_nonpos: "x \<le> 0 \<Longrightarrow> rnd x \<le> 0"
  using rnd_mono[of x 0] by simp

lemma rnd_le_1: "x \<le> 1 \<Longrightarrow> rnd x \<le> 1"
  using rnd_mono[of x 1] rnd_int[of 1] by simp

end

interpretation b64: binary_rounding fl
  by unfold_locales (erule fl_mono, rule fl_err, erule fl_of_int)

end
