(* ===== verification/Money.thy ===== *)
theory Money
  imports JsNumber
begin

text \<open>
  Money. The code keeps rupees in JavaScript numbers and rounds to two decimals after every step
  (\<open>roundMoney\<close>, which \<open>tax-calc.ts\<close>, \<open>offline-rules.ts\<close> and \<open>dashboard-tax.util.ts\<close>
  each define). \<open>paise n\<close> is the number nearest to \<open>n / 100\<close>: what \<open>roundMoney\<close> returns, and what a
  \<open>Decimal(14, 2)\<close> column holding \<open>n\<close> hundredths reads back as. The column's range,
  \<open>\<bar>n\<bar> < 10 ^ 14\<close>, is the bound of the lemmas.

  The main results: on this range rounding is exact (\<open>roundMoney_paise\<close>), and a sum of up to
  eight amounts that is computed in floating point and then rounded is the exact integer sum of
  paise (the predicate \<open>near_paise\<close> and \<open>roundMoney_near\<close>). So the monetary code refines
  integer arithmetic.
\<close>

definition roundMoney :: "js_number \<Rightarrow> js_number" where
  "roundMoney amount = fl (of_int (js_round_int (fl (amount * 100))) / 100)"

definition paise :: "int \<Rightarrow> js_number" where
  "paise n = fl (of_int n / 100)"

definition paise_of :: "js_number \<Rightarrow> int" where
  "paise_of x = js_round_int (fl (x * 100))"

definition in_column :: "int \<Rightarrow> bool" where
  "in_column n \<longleftrightarrow> \<bar>n\<bar> < 100000000000000"

text \<open>A number of the code that is an amount of money of the column's range.\<close>

definition is_money :: "js_number \<Rightarrow> bool" where
  "is_money x \<longleftrightarrow> x = paise (paise_of x) \<and> in_column (paise_of x)"

lemma roundMoney_alt: "roundMoney x = paise (paise_of x)"
  by (simp add: roundMoney_def paise_def paise_of_def)

subsection \<open>Order\<close>

lemma js_round_int_mono: "x \<le> y \<Longrightarrow> js_round_int x \<le> js_round_int y"
  by (simp add: js_round_int_def floor_mono)

lemma paise_of_mono: "x \<le> y \<Longrightarrow> paise_of x \<le> paise_of y"
  by (simp add: paise_of_def js_round_int_mono fl_mono)

lemma paise_mono: "m \<le> n \<Longrightarrow> paise m \<le> paise n"
  by (simp add: paise_def fl_mono divide_right_mono)

lemma roundMoney_mono: "x \<le> y \<Longrightarrow> roundMoney x \<le> roundMoney y"
  by (simp add: roundMoney_alt paise_mono paise_of_mono)

lemma paise_0 [simp]: "paise 0 = 0"
  by (simp add: paise_def)

lemma paise_of_0 [simp]: "paise_of 0 = 0"
  by (simp add: paise_of_def js_round_int_def floor_eq_iff)

lemma roundMoney_0 [simp]: "roundMoney 0 = 0"
  by (simp add: roundMoney_alt)

lemma roundMoney_nonneg: "0 \<le> x \<Longrightarrow> 0 \<le> roundMoney x"
  using roundMoney_mono[of 0 x] by simp

lemma paise_nonneg: "0 \<le> n \<Longrightarrow> 0 \<le> paise n"
  using paise_mono[of 0 n] by simp

lemma paise_of_nonneg: "0 \<le> x \<Longrightarrow> 0 \<le> paise_of x"
  using paise_of_mono[of 0 x] by simp

subsection \<open>Exactness on the column's range\<close>

text \<open>
  \<open>near_paise p w x n\<close>: the number \<open>x\<close> stands for \<open>n\<close> paise, up to the floating-point
  error of a computation; \<open>p\<close> bounds the size in multiples of the column's range and \<open>w\<close> the error
  in units of 1/9000 rupee (a sum of two adds one unit per column range of its result).
\<close>

definition near_paise :: "nat \<Rightarrow> nat \<Rightarrow> js_number \<Rightarrow> int \<Rightarrow> bool" where
  "near_paise p w x n \<longleftrightarrow>
     \<bar>n\<bar> \<le> int p * 100000000000000 \<and> \<bar>x - of_int n / 100\<bar> \<le> of_nat w / 9000"

lemma fl_err_num: "\<bar>fl x - x\<bar> \<le> \<bar>x\<bar> / 9007199254740992"
proof -
  have "(2::rat) ^ 53 = 9007199254740992" by simp
  then show ?thesis using fl_err[of x] by (simp only:)
qed

lemma js_round_int_near:
  assumes "\<bar>x - of_int n\<bar> < 1/2"
  shows "js_round_int x = n"
  using assms unfolding js_round_int_def by (intro floor_unique; linarith)

lemma near_size:
  assumes "near_paise p w x n"
  shows "\<bar>x\<bar> \<le> of_nat p * 1000000000000 + of_nat w / 9000"
proof -
  have "\<bar>of_int n :: rat\<bar> \<le> of_int (int p * 100000000000000)"
    using assms unfolding near_paise_def of_int_abs [symmetric] of_int_le_iff by simp
  then have "\<bar>of_int n :: rat\<bar> \<le> 100000000000000 * of_nat p" by simp
  moreover have "\<bar>x - of_int n / 100\<bar> \<le> of_nat w / 9000"
    using assms by (simp only: near_paise_def)
  ultimately show ?thesis by linarith
qed

lemma near_fl:
  assumes x: "\<bar>x - of_int n / 100\<bar> \<le> of_nat w / 9000" and n: "\<bar>n\<bar> \<le> int p * 100000000000000"
    and "1 \<le> p" "w \<le> 9000"
  shows "near_paise p (w + p) (fl x) n"
proof -
  have nr: "near_paise p w x n" using x n by (simp only: near_paise_def simp_thms)
  have w: "(of_nat w :: rat) \<le> 9000" and p: "(1 :: rat) \<le> of_nat p"
    using assms(3,4) by simp_all
  have "\<bar>fl x - x\<bar> \<le> \<bar>x\<bar> / 9007199254740992" by (rule fl_err_num)
  also have "\<dots> \<le> (of_nat p * 1000000000000 + of_nat w / 9000) / 9007199254740992"
    using near_size[OF nr] by (intro divide_right_mono) auto
  also have "\<dots> \<le> of_nat p / 9000" using w p by (simp add: field_simps)
  finally have "\<bar>fl x - of_int n / 100\<bar> \<le> of_nat (w + p) / 9000" using x by (simp add: add_divide_distrib, linarith)
  with n show ?thesis by (simp only: near_paise_def simp_thms)
qed

lemma near_add:
  assumes "near_paise p w x m" "near_paise q v y n" "1 \<le> p" "w + v \<le> 9000"
  shows "near_paise (p + q) (w + v + (p + q)) (fl (x + y)) (m + n)"
proof (rule near_fl)
  show "\<bar>x + y - of_int (m + n) / 100\<bar> \<le> of_nat (w + v) / 9000"
    using assms(1,2) unfolding near_paise_def by (simp add: add_divide_distrib, linarith)
  show "\<bar>m + n\<bar> \<le> int (p + q) * 100000000000000"
    using assms(1,2) unfolding near_paise_def of_nat_add distrib_right by linarith
qed (use assms in auto)

lemma near_minus: "near_paise p w x n \<Longrightarrow> near_paise p w (- x) (- n)"
  unfolding near_paise_def by (simp add: abs_minus_commute)

lemma near_sub:
  assumes "near_paise p w x m" "near_paise q v y n" "1 \<le> p" "w + v \<le> 9000"
  shows "near_paise (p + q) (w + v + (p + q)) (fl (x - y)) (m - n)"
  using near_add[OF assms(1) near_minus[OF assms(2)] assms(3,4)] by simp

lemma near_max:
  assumes "near_paise p w x n"
  shows "near_paise p w (max 0 x) (max 0 n)"
proof -
  have "0 \<le> (of_nat w :: rat)" by simp
  moreover have "0 \<le> n \<longleftrightarrow> 0 \<le> (of_int n :: rat)" by simp
  ultimately show ?thesis
    using assms unfolding near_paise_def max_def by (auto simp: abs_le_iff) 
qed

lemma near_paise_self: 
  assumes "in_column n"
  shows "near_paise 1 1 (paise n) n"
proof -
  have "near_paise 1 (0 + 1) (fl (of_int n / 100)) n"
    using assms by (intro near_fl) (auto simp: in_column_def)
  then show ?thesis by (simp add: paise_def)
qed

lemma near_paise_of:
  assumes "near_paise p w x n" "p \<le> 8" "w \<le> 36"
  shows "paise_of x = n"
proof -
  have w: "(of_nat w :: rat) \<le> 36" and p: "(of_nat p :: rat) \<le> 8" using assms(2,3) by simp_all
  have e: "\<bar>x - of_int n / 100\<bar> \<le> of_nat w / 9000" using assms(1) by (simp only: near_paise_def)
  have "\<bar>fl (x * 100) - x * 100\<bar> \<le> \<bar>x * 100\<bar> / 9007199254740992" by (rule fl_err_num)
  moreover have "\<bar>x\<bar> \<le> of_nat p * 1000000000000 + of_nat w / 9000" by (rule near_size[OF assms(1)])
  ultimately have "\<bar>fl (x * 100) - of_int n\<bar> < 1/2" using w p e by linarith
  then show ?thesis unfolding paise_of_def by (rule js_round_int_near)
qed

lemma roundMoney_near:
  assumes "near_paise p w x n" "p \<le> 8" "w \<le> 36"
  shows "roundMoney x = paise n"
  using near_paise_of[OF assms] by (simp add: roundMoney_alt)

lemma paise_of_paise: "in_column n \<Longrightarrow> paise_of (paise n) = n"
  by (rule near_paise_of[OF near_paise_self]) auto

lemma roundMoney_paise: "in_column n \<Longrightarrow> roundMoney (paise n) = paise n"
  by (simp add: roundMoney_alt paise_of_paise)

lemma is_money_paise [intro]: "in_column n \<Longrightarrow> is_money (paise n)"
  by (simp add: is_money_def paise_of_paise)

lemma is_moneyE:
  assumes "is_money x" obtains n where "x = paise n" "in_column n"
  using assms unfolding is_money_def by blast

lemma roundMoney_is_money: "is_money x \<Longrightarrow> roundMoney x = x"
  by (elim is_moneyE) (simp add: roundMoney_paise)

lemma paise_inject: "in_column m \<Longrightarrow> in_column n \<Longrightarrow> paise m = paise n \<longleftrightarrow> m = n"
  by (metis paise_of_paise)

lemma paise_le_iff: "in_column m \<Longrightarrow> in_column n \<Longrightarrow> paise m \<le> paise n \<longleftrightarrow> m \<le> n"
  by (metis paise_mono paise_of_mono paise_of_paise)

lemma paise_less_iff: "in_column m \<Longrightarrow> in_column n \<Longrightarrow> paise m < paise n \<longleftrightarrow> m < n"
  by (metis linorder_not_le paise_le_iff)

lemma in_column_0 [simp]: "in_column 0" by (simp add: in_column_def)

lemma paise_pos_iff: "in_column n \<Longrightarrow> 0 < paise n \<longleftrightarrow> 0 < n"
  using paise_less_iff[of 0 n] by simp

lemma paise_max: "max (paise m) (paise n) = paise (max m n)"
  by (smt (verit) max_def paise_mono order_antisym linorder_linear)

lemma paise_min: "min (paise m) (paise n) = paise (min m n)"
  by (smt (verit) min_def paise_mono order_antisym linorder_linear)

text \<open>The two-operand forms that the code uses most.\<close>

lemma roundMoney_add:
  assumes "in_column m" "in_column n"
  shows "roundMoney (fl (paise m + paise n)) = paise (m + n)"
  using near_add[OF near_paise_self[OF assms(1)] near_paise_self[OF assms(2)]]
  by (intro roundMoney_near[where p = 2 and w = 4]) (auto simp: numeral_eq_Suc)

lemma roundMoney_sub:
  assumes "in_column m" "in_column n"
  shows "roundMoney (fl (paise m - paise n)) = paise (m - n)"
  using near_sub[OF near_paise_self[OF assms(1)] near_paise_self[OF assms(2)]]
  by (intro roundMoney_near[where p = 2 and w = 4]) (auto simp: numeral_eq_Suc)

text \<open>\<open>roundMoney(Math.max(0, a - b))\<close>, the remaining balance.\<close>

lemma roundMoney_sub_max:
  assumes "in_column m" "in_column n"
  shows "roundMoney (max 0 (fl (paise m - paise n))) = paise (max 0 (m - n))"
  using near_max[OF near_sub[OF near_paise_self[OF assms(1)] near_paise_self[OF assms(2)]]]
  by (intro roundMoney_near[where p = 2 and w = 4]) (auto simp: numeral_eq_Suc)

lemma roundMoney_max:
  assumes "in_column m"
  shows "roundMoney (max 0 (paise m)) = paise (max 0 m)"
  using near_max[OF near_paise_self[OF assms]] by (rule roundMoney_near) auto

lemma in_column_max: "in_column m \<Longrightarrow> in_column (max 0 m)"
  by (auto simp: in_column_def)

lemma in_column_mono: "in_column n \<Longrightarrow> 0 \<le> m \<Longrightarrow> m \<le> n \<Longrightarrow> in_column m"
  by (auto simp: in_column_def)

text \<open>Distance of a rounded amount from the amount: half a paisa, up to the floating-point error.\<close>

lemma roundMoney_err:
  assumes "\<bar>x\<bar> \<le> 1000000000000"
  shows "\<bar>roundMoney x - x\<bar> \<le> 1/200 + 1/2000"
proof -
  let ?y = "fl (x * 100)" and ?n = "js_round_int (fl (x * 100))"
  have a: "\<bar>?y - x * 100\<bar> \<le> \<bar>x * 100\<bar> / 9007199254740992" by (rule fl_err_num)
  have b: "of_int ?n \<le> ?y + 1/2" "?y + 1/2 < of_int ?n + 1"
    unfolding js_round_int_def by linarith+
  have c: "\<bar>fl (of_int ?n / 100) - of_int ?n / 100\<bar> \<le> \<bar>of_int ?n / 100\<bar> / 9007199254740992" by (rule fl_err_num)
  show ?thesis unfolding roundMoney_def using a b c assms by linarith
qed

lemma roundMoney_err_weak: "\<bar>x\<bar> \<le> 1000000000000 \<Longrightarrow> \<bar>roundMoney x - x\<bar> < 1/100"
  using roundMoney_err[of x] by linarith

subsection \<open>Running totals\<close>

text \<open>The loop \<open>acc = roundMoney(acc + amount(x))\<close>, which the code writes wherever it totals
  amounts: exact on whole paise, monotone, and never above its result on the way.\<close>

definition sum_money :: "('a \<Rightarrow> js_number) \<Rightarrow> js_number \<Rightarrow> 'a list \<Rightarrow> js_number" where
  "sum_money amount start xs = foldl (\<lambda>acc x. roundMoney (fl (acc + amount x))) start xs"

lemma sum_money_simps [simp]:
  "sum_money amount start [] = start"
  "sum_money amount start (x # xs) = sum_money amount (roundMoney (fl (start + amount x))) xs"
  by (simp_all add: sum_money_def)

lemma sum_money_paise:
  assumes "\<forall>x \<in> set xs. amount x = paise (g x) \<and> 0 \<le> g x" "0 \<le> a" "in_column (a + sum_list (map g xs))"
  shows "sum_money amount (paise a) xs = paise (a + sum_list (map g xs))"
  using assms
proof (induction xs arbitrary: a)
  case (Cons x xs)
  have g: "0 \<le> sum_list (map g xs)" using Cons.prems(1) by (intro sum_list_nonneg) auto
  have x: "amount x = paise (g x)" "0 \<le> g x" using Cons.prems(1) by auto
  have c: "in_column a" "in_column (g x)"
    using Cons.prems(2,3) g x(2) by (auto intro!: in_column_mono[OF Cons.prems(3)])
  have "sum_money amount (paise (a + g x)) xs = paise (a + g x + sum_list (map g xs))"
    using Cons.prems x(2) by (intro Cons.IH) (auto simp: add.assoc)
  then show ?case by (simp add: x(1) roundMoney_add[OF c] add.assoc)
qed simp

lemma paise_limit: "paise 100000000000000 = 1000000000000"
  using fl_of_int[of 1000000000000] by (simp add: paise_def)

lemma in_column_of_paise:
  assumes "\<bar>paise n\<bar> < 1000000000000"
  shows "in_column n"
proof -
  have "paise n < paise 100000000000000" "paise (- 100000000000000) < paise n"
    using assms paise_limit by (auto simp: paise_def fl_minus abs_less_iff)
  then show ?thesis
    by (meson in_column_def abs_less_iff paise_mono linorder_not_le minus_less_iff)
qed

lemma js_round_int_of_int: "js_round_int (of_int n) = n"
  by (rule js_round_int_near) simp

lemma roundMoney_limit:
  assumes "1000000000000 \<le> x"
  shows "1000000000000 \<le> roundMoney x"
proof -
  have "paise_of 1000000000000 = 100000000000000"
    using fl_of_int[of 100000000000000] js_round_int_of_int[of 100000000000000] by (simp add: paise_of_def)
  then have "roundMoney 1000000000000 = 1000000000000" by (simp add: roundMoney_alt paise_limit)
  then show ?thesis using roundMoney_mono[OF assms] by simp
qed

lemma round_add_limit:
  assumes "1000000000000 \<le> x" "0 \<le> y"
  shows "1000000000000 \<le> roundMoney (fl (x + y))"
proof -
  have "fl 1000000000000 \<le> fl (x + y)" using assms by (intro fl_mono) simp
  then show ?thesis using fl_of_int[of 1000000000000] by (intro roundMoney_limit) simp
qed

lemma sum_money_limit:
  "1000000000000 \<le> s \<Longrightarrow> \<forall>x \<in> set xs. 0 \<le> amount x \<Longrightarrow> 1000000000000 \<le> sum_money amount s xs"
  by (induction xs arbitrary: s) (simp_all add: round_add_limit)

text \<open>A sum of two rounded amounts that stays in range is exact, and so were its operands.\<close>

lemma round_add_exact:
  assumes "0 \<le> a" "0 \<le> b" "roundMoney (fl (paise a + paise b)) < 1000000000000"
  shows "in_column a" "in_column b" "roundMoney (fl (paise a + paise b)) = paise (a + b)"
    "in_column (a + b)"
proof -
  have nn: "0 \<le> paise a" "0 \<le> paise b" using assms(1,2) by (simp_all add: paise_nonneg)
  have "paise a < 1000000000000" "paise b < 1000000000000"
    using round_add_limit[of "paise a" "paise b"] round_add_limit[of "paise b" "paise a"] nn assms(3)
    by (auto simp: add.commute not_le [symmetric])
  then show c: "in_column a" "in_column b" using nn by (auto intro!: in_column_of_paise)
  show e: "roundMoney (fl (paise a + paise b)) = paise (a + b)" by (rule roundMoney_add[OF c])
  have "0 \<le> paise (a + b)" using assms(1,2) by (simp add: paise_nonneg)
  then show "in_column (a + b)" using assms(3) by (intro in_column_of_paise) (simp add: e)
qed

lemma sum_money_exact:
  assumes "\<forall>x \<in> set xs. amount x = paise (g x) \<and> 0 \<le> g x" "0 \<le> a"
    and "sum_money amount (paise a) xs < 1000000000000"
  shows "sum_money amount (paise a) xs = paise (a + sum_list (map g xs)) \<and> in_column (a + sum_list (map g xs))"
  using assms
proof (induction xs arbitrary: a)
  case Nil
  then show ?case by (auto intro!: in_column_of_paise simp: paise_nonneg)
next
  case (Cons x xs)
  have x: "amount x = paise (g x)" "0 \<le> g x" using Cons.prems(1) by auto
  have "\<forall>x \<in> set xs. 0 \<le> amount x" using Cons.prems(1) by (auto simp: paise_nonneg)
  then have "roundMoney (fl (paise a + paise (g x))) < 1000000000000"
    using sum_money_limit[of "roundMoney (fl (paise a + paise (g x)))" xs amount] Cons.prems(3)
    by (auto simp: x(1) not_le [symmetric])
  note r = round_add_exact[OF Cons.prems(2) x(2) this]
  show ?case using Cons.IH[of "a + g x"] Cons.prems x(2) by (simp add: x(1) r(3) add.assoc)
qed

text \<open>The same for four amounts that are added without intermediate rounding.\<close>

lemma fl_limit:
  assumes "0 \<le> x" "0 \<le> y" "1000000000000 \<le> x \<or> 1000000000000 \<le> y"
  shows "1000000000000 \<le> fl (x + y)"
proof -
  have "fl 1000000000000 \<le> fl (x + y)" using assms by (intro fl_mono) auto
  then show ?thesis using fl_of_int[of 1000000000000] by simp
qed

lemma round_add4_exact:
  assumes "0 \<le> a" "0 \<le> b" "0 \<le> c" "0 \<le> d"
    and "roundMoney (fl (fl (fl (paise a + paise b) + paise c) + paise d)) < 1000000000000"
  shows "roundMoney (fl (fl (fl (paise a + paise b) + paise c) + paise d)) = paise (a + b + c + d)"
    and "in_column (a + b + c + d)"
proof -
  let ?ab = "fl (paise a + paise b)" let ?abc = "fl (?ab + paise c)" let ?s = "fl (?abc + paise d)"
  have nn: "0 \<le> paise a" "0 \<le> paise b" "0 \<le> paise c" "0 \<le> paise d"
    using assms(1-4) by (simp_all add: paise_nonneg)
  have nn2: "0 \<le> ?ab" "0 \<le> ?abc" using nn by (auto intro!: b64.rnd_nonneg add_nonneg_nonneg)
  have s: "?s < 1000000000000" using roundMoney_limit[of ?s] assms(5) by linarith
  have lt: "?abc < 1000000000000" "paise d < 1000000000000"
    using s fl_limit[OF nn2(2) nn(4)] by linarith+
  have lt2: "?ab < 1000000000000" "paise c < 1000000000000"
    using lt fl_limit[OF nn2(1) nn(3)] by linarith+
  have lt3: "paise a < 1000000000000" "paise b < 1000000000000"
    using lt2 fl_limit[OF nn(1,2)] by linarith+
  have c: "in_column a" "in_column b" "in_column c" "in_column d"
    using lt lt2 lt3 nn by (intro in_column_of_paise; simp)+
  have "near_paise 2 4 ?ab (a + b)"
    using near_add[OF near_paise_self near_paise_self, of a b] c by (simp add: numeral_eq_Suc)
  then have "near_paise 3 8 ?abc (a + b + c)"
    using near_add[OF _ near_paise_self, of 2 4 _ _ c] c by (simp add: numeral_eq_Suc)
  then have "near_paise 4 13 ?s (a + b + c + d)"
    using near_add[OF _ near_paise_self, of 3 8 _ _ d] c by (simp add: numeral_eq_Suc)
  then show e: "roundMoney ?s = paise (a + b + c + d)" by (rule roundMoney_near) auto
  have "0 \<le> paise (a + b + c + d)" using assms(1-4) by (simp add: paise_nonneg)
  then show "in_column (a + b + c + d)" using assms(5) by (intro in_column_of_paise) (simp add: e)
qed

subsection \<open>Evaluation on simple numbers\<close>

lemma fl_numeral [simp]:
  assumes "(numeral n :: int) < 9007199254740992"
  shows "fl (numeral n) = numeral n"
proof -
  have "\<bar>numeral n :: int\<bar> < 2 ^ 53"
    unfolding abs_numeral by (rule order_less_le_trans[OF assms]) simp
  then have "fl (of_int (numeral n)) = of_int (numeral n)" by (rule fl_of_int)
  then show ?thesis by (simp only: of_int_numeral)
qed

lemma fl_one [simp]: "fl 1 = 1"
  using fl_of_int[of 1] by simp

lemma fl_half [simp]: "fl (1/2) = 1/2" by code_simp

lemma fl_quarter [simp]: "fl (1/4) = 1/4" by code_simp

lemma fl_fifth: "fl (1/5) = 3602879701896397/18014398509481984" by code_simp

lemma roundMoney_int:
  assumes "\<bar>n\<bar> < 1000000000000"
  shows "roundMoney (of_int n) = of_int n"
proof -
  have "paise (n * 100) = of_int n" using fl_of_int[of n] assms by (simp add: paise_def)
  moreover have "in_column (n * 100)" using assms by (simp add: in_column_def)
  ultimately show ?thesis using roundMoney_paise[of "n * 100"] by simp
qed

lemma roundMoney_numeral [simp]:
  assumes "(numeral n :: int) < 1000000000000"
  shows "roundMoney (numeral n) = numeral n"
  using roundMoney_int[of "numeral n"] assms unfolding abs_numeral of_int_numeral by blast

lemma roundMoney_1 [simp]: "roundMoney 1 = 1"
  using roundMoney_int[of 1] by simp

end
