(* ===== verification/TaxZone.thy ===== *)
theory TaxZone
  imports SurveyId
begin

text \<open>
  Survey text to tax-matrix codes (\<open>apps/api/src/tax/tax-zone-map.ts\<close>): the normaliser, the rate
  zone, the construction type, the GIS use class and the residential test.

  Lemmas: the codes the two mappings can return, and that a code maps to itself, so stored codes
  are stable. The lookup \<open>TAX_ZONE[n]\<close> reads a plain object: the inherited key \<open>constructor\<close> is
  found there too, and the model returns the text of that function.
\<close>

definition zone_separator :: "char \<Rightarrow> bool" where
  "zone_separator c \<longleftrightarrow> is_space c \<or> c \<in> set ''/()[].,;:+#-''"

definition is_underscore :: "char \<Rightarrow> bool" where
  "is_underscore c \<longleftrightarrow> c = CHR ''_''"

definition strip_underscore :: "string \<Rightarrow> string" where
  "strip_underscore s =
     (let t = (case s of c # cs \<Rightarrow> if is_underscore c then cs else s | [] \<Rightarrow> [])
      in if t \<noteq> [] \<and> is_underscore (last t) then butlast t else t)"

definition zone_norm :: "string \<Rightarrow> string" where
  "zone_norm value =
     strip_underscore (replace_runs is_underscore (CHR ''_'') False
       (replace_runs zone_separator (CHR ''_'') False (toLowerCase (trim value))))"

definition TAX_ZONE :: "(string \<times> string) list" where
  "TAX_ZONE =
    [(''below_9m'', ''BELOW_9M''), (''upto_9_meters'', ''BELOW_9M''), (''up_to_9_meters'', ''BELOW_9M''),
     (''rate_zone_1'', ''BELOW_9M''), (''rate_zone_1_upto_9_meters'', ''BELOW_9M''),
     (''rz_1'', ''BELOW_9M''), (''rz1'', ''BELOW_9M''), (''1'', ''BELOW_9M''),
     (''meter_9_to_12'', ''METER_9_TO_12''), (''rate_zone_2'', ''METER_9_TO_12''),
     (''rate_zone_2_9_meters_and_upto_12_meters'', ''METER_9_TO_12''),
     (''rz_2'', ''METER_9_TO_12''), (''rz2'', ''METER_9_TO_12''), (''2'', ''METER_9_TO_12''),
     (''meter_12_to_24'', ''METER_12_TO_24''), (''rate_zone_3'', ''METER_12_TO_24''),
     (''rate_zone_3_12_meters_and_upto_24_meters'', ''METER_12_TO_24''),
     (''rz_3'', ''METER_12_TO_24''), (''rz3'', ''METER_12_TO_24''), (''3'', ''METER_12_TO_24''),
     (''above_24m'', ''ABOVE_24M''), (''rate_zone_4'', ''ABOVE_24M''),
     (''rate_zone_4_above_24_meters'', ''ABOVE_24M''), (''rz_4'', ''ABOVE_24M''),
     (''rz4'', ''ABOVE_24M''), (''4'', ''ABOVE_24M'')]"

definition object_constructor_text :: string where
  "object_constructor_text = ''function Object() { [native code] }''"

definition tax_zone_lookup :: "string \<Rightarrow> string option" where
  "tax_zone_lookup n =
     (case map_of TAX_ZONE n of
        Some z \<Rightarrow> Some z
      | None \<Rightarrow> (if n = ''constructor'' then Some object_constructor_text else None))"

definition CONSTRUCTION :: "(string \<times> string) list" where
  "CONSTRUCTION =
    [(''rcc'', ''PAKKA_BUILDING_WITH_RCC_ROOF''), (''pakka'', ''PAKKA_BUILDING_WITH_RCC_ROOF''),
     (''pucca'', ''PAKKA_BUILDING_WITH_RCC_ROOF''), (''tin'', ''TIN_SHED''), (''teen'', ''TIN_SHED''),
     (''shed'', ''TIN_SHED''), (''kaccha'', ''KACCHA_BUILDING''), (''kachcha'', ''KACCHA_BUILDING''),
     (''open_land'', ''OPEN_LAND''), (''open'', ''OPEN_LAND'')]"

subsection \<open>The zone pattern\<close>

text \<open>The pattern \<open>(^|_)(rate_?)?zone_?N(?!\d)|(^|_)rz_?N(?!\d)\<close>: it is tried at the start and
  behind every underscore; no choice of an optional underscore can be taken back, since what
  follows it is never an underscore.\<close>

fun after_underscores :: "string \<Rightarrow> string list" where
  "after_underscores [] = []"
| "after_underscores (c # cs) =
     (if is_underscore c then cs # after_underscores cs else after_underscores cs)"

definition strip_prefix :: "string \<Rightarrow> string \<Rightarrow> string option" where
  "strip_prefix p s = (if prefix p s then Some (drop (length p) s) else None)"

fun opt_underscore :: "string \<Rightarrow> string" where
  "opt_underscore [] = []"
| "opt_underscore (c # cs) = (if is_underscore c then cs else c # cs)"

fun zone_digit :: "char \<Rightarrow> string \<Rightarrow> bool" where
  "zone_digit d [] = False"
| "zone_digit d [c] = (c = d)"
| "zone_digit d (c # e # cs) = (c = d \<and> \<not> is_digit e)"

definition zone_word :: "string \<Rightarrow> char \<Rightarrow> string \<Rightarrow> bool" where
  "zone_word w d s =
     (case strip_prefix w s of Some t \<Rightarrow> zone_digit d (opt_underscore t) | None \<Rightarrow> False)"

definition zone_at :: "char \<Rightarrow> string \<Rightarrow> bool" where
  "zone_at d s \<longleftrightarrow>
     zone_word ''zone'' d s \<or>
     (case strip_prefix ''rate'' s of Some t \<Rightarrow> zone_word ''zone'' d (opt_underscore t) | None \<Rightarrow> False) \<or>
     zone_word ''rz'' d s"

definition zone_pattern :: "char \<Rightarrow> string \<Rightarrow> bool" where
  "zone_pattern d n \<longleftrightarrow> list_ex (zone_at d) (n # after_underscores n)"

definition blank_opt :: "string option \<Rightarrow> bool" where
  "blank_opt raw = (case raw of None \<Rightarrow> True | Some s \<Rightarrow> trim s = [])"

definition mapTaxRateZoneCode :: "string option \<Rightarrow> string option" where
  "mapTaxRateZoneCode raw =
     (if blank_opt raw then None
      else
       (let n = zone_norm (the raw) in
        case tax_zone_lookup n of
          Some z \<Rightarrow> Some z
        | None \<Rightarrow>
            (if zone_pattern (CHR ''4'') n then Some ''ABOVE_24M''
             else if zone_pattern (CHR ''3'') n then Some ''METER_12_TO_24''
             else if zone_pattern (CHR ''2'') n then Some ''METER_9_TO_12''
             else if zone_pattern (CHR ''1'') n then Some ''BELOW_9M''
             else if contains_text n ''above'' \<and> contains_text n ''24'' then Some ''ABOVE_24M''
             else if contains_text n ''12'' \<and> contains_text n ''24'' then Some ''METER_12_TO_24''
             else if contains_text n ''9'' \<and> contains_text n ''12''
                     \<or> contains_text n ''9m_to_12'' \<or> contains_text n ''9_to_12''
                  then Some ''METER_9_TO_12''
             else if contains_text n ''below_9'' \<or> contains_text n ''upto_9'' \<or> contains_text n ''up_to_9''
                     \<or> contains_text n ''9'' \<and> contains_text n ''meter'' \<and> \<not> contains_text n ''12''
                  then Some ''BELOW_9M''
             else if contains_text n ''above_24'' \<or> contains_text n ''>24'' \<or> contains_text n ''24m''
                  then Some ''ABOVE_24M''
             else None)))"

definition mapConstructionCode :: "string option \<Rightarrow> string" where
  "mapConstructionCode raw =
     (if blank_opt raw then ''PAKKA_BUILDING_WITH_RCC_ROOF''
      else
       (let n = zone_norm (the raw) in
        case find (\<lambda>(key, code). contains_text n key) CONSTRUCTION of
          Some (key, code) \<Rightarrow> code
        | None \<Rightarrow> ''PAKKA_BUILDING_WITH_RCC_ROOF''))"

subsection \<open>GIS use class and residential use\<close>

datatype gis_use_class = Residential | Commercial | Open_land | Mixed

definition classifyGisUseCode :: "string option \<Rightarrow> gis_use_class option" where
  "classifyGisUseCode codeOrSurveyId =
     (if blank_opt codeOrSurveyId then None
      else
       (let trimmed = trim (the codeOrSurveyId);
            letter = (case parseGisSurveyId (Some trimmed) of
                        Some parsed \<Rightarrow> Some (gp_gisUseCode parsed)
                      | None \<Rightarrow> (if length trimmed = 1 \<and> list_all is_letter trimmed
                                then Some (toUpperCase trimmed) else None))
        in case letter of
             None \<Rightarrow> None
           | Some l \<Rightarrow>
               (if l = ''C'' then Some Commercial
                else if l = ''P'' \<or> l = ''O'' then Some Open_land
                else if l = ''M'' then Some Mixed
                else Some Residential)))"

definition non_residential_words :: "string \<Rightarrow> bool" where
  "non_residential_words s \<longleftrightarrow>
     contains_text s ''commercial'' \<or> contains_text s ''shop'' \<or> contains_text s ''godown''
     \<or> contains_text s ''non-res''"

definition isResidentialUsage :: "string option \<Rightarrow> string option \<Rightarrow> gis_use_class option \<Rightarrow> bool" where
  "isResidentialUsage usageType propertyUse gisUseClass =
     (if gisUseClass = Some Commercial \<or> gisUseClass = Some Open_land then False
      else if gisUseClass = Some Residential then True
      else
       (let floor = toLowerCase (trim (nullish usageType []));
            prop = toLowerCase (nullish propertyUse [])
        in if floor \<noteq> [] \<and> non_residential_words floor then False
           else if floor \<noteq> [] \<and> contains_text floor ''residential'' then True
           else \<not> non_residential_words prop))"

subsection \<open>The codes that can come out\<close>

definition zone_codes :: "string list" where
  "zone_codes = [''BELOW_9M'', ''METER_9_TO_12'', ''METER_12_TO_24'', ''ABOVE_24M'']"

definition construction_codes :: "string list" where
  "construction_codes = [''PAKKA_BUILDING_WITH_RCC_ROOF'', ''TIN_SHED'', ''KACCHA_BUILDING'', ''OPEN_LAND'']"

lemma TAX_ZONE_range: "snd ` set TAX_ZONE \<subseteq> set zone_codes"
  by (simp add: TAX_ZONE_def zone_codes_def)

lemma tax_zone_lookup_range:
  "tax_zone_lookup n = Some z \<Longrightarrow> n \<noteq> ''constructor'' \<Longrightarrow> z \<in> set zone_codes"
  using TAX_ZONE_range by (auto simp: tax_zone_lookup_def dest!: map_of_SomeD split: option.splits if_splits)

lemma mapTaxRateZoneCode_range:
  assumes "mapTaxRateZoneCode (Some s) = Some z" "zone_norm s \<noteq> ''constructor''"
  shows "z \<in> set zone_codes"
proof (cases "tax_zone_lookup (zone_norm s)")
  case None
  then show ?thesis using assms(1)
    by (simp add: mapTaxRateZoneCode_def Let_def zone_codes_def split: if_splits)
next
  case (Some y)
  then have "y \<in> set zone_codes" using assms(2) by (rule tax_zone_lookup_range)
  then show ?thesis using Some assms(1) by (simp add: mapTaxRateZoneCode_def Let_def split: if_splits)
qed

lemma mapConstructionCode_range: "mapConstructionCode raw \<in> set construction_codes"
proof -
  have "snd ` set CONSTRUCTION \<subseteq> set construction_codes"
    by (simp add: CONSTRUCTION_def construction_codes_def)
  moreover have "''PAKKA_BUILDING_WITH_RCC_ROOF'' \<in> set construction_codes"
    by (simp add: construction_codes_def)
  ultimately show ?thesis
    by (fastforce simp: mapConstructionCode_def Let_def find_Some_iff dest!: nth_mem split: option.splits)
qed

lemma zone_code_fixed: "list_all (\<lambda>z. mapTaxRateZoneCode (Some z) = Some z) zone_codes"
  by code_simp

lemma construction_code_fixed: "list_all (\<lambda>c. mapConstructionCode (Some c) = c) construction_codes"
  by code_simp

text \<open>The rate zone of any text is one of the four row codes of the tax matrix (the text
  "constructor", which hits an inherited property of the lookup object, apart), and each code maps
  to itself: a zone that was mapped once and stored is stable.\<close>

theorem rate_zone_code_stable:
  assumes "mapTaxRateZoneCode (Some s) = Some z" "zone_norm s \<noteq> ''constructor''"
  shows "z \<in> set zone_codes \<and> mapTaxRateZoneCode (Some z) = Some z"
  using mapTaxRateZoneCode_range[OF assms] zone_code_fixed by (simp add: list_all_iff)

lemma rate_zone_code_stable_witness:
  "mapTaxRateZoneCode (Some ''METER_9_TO_12'') = Some ''METER_9_TO_12''"
proof -
  have "mapTaxRateZoneCode (Some ''Rate Zone-2 (9 Meters and upto 12 Meters)'') = Some ''METER_9_TO_12''"
    "zone_norm ''Rate Zone-2 (9 Meters and upto 12 Meters)'' \<noteq> ''constructor''"
    by code_simp+
  from rate_zone_code_stable[OF this] show ?thesis by simp
qed

text \<open>The construction type of any text, missing text included, is one of the four column codes
  of the tax matrix, and mapping a mapped code again changes nothing.\<close>

theorem construction_code_stable:
  "mapConstructionCode raw \<in> set construction_codes \<and>
   mapConstructionCode (Some (mapConstructionCode raw)) = mapConstructionCode raw"
  using mapConstructionCode_range[of raw] construction_code_fixed by (simp add: list_all_iff)

end
