(* ===== verification/TaxCalc.thy ===== *)
theory TaxCalc
  imports Money TaxZone
begin

text \<open>
  The tax calculator, \<open>apps/api/src/tax/tax-calc.ts\<close>: usage heuristics, the annual letting value
  of a floor, demand totals, the export tax of a survey (floors, plot fallback, open land), and the
  assessment that applies published rebate and penalty rules, arrears and payments.

  Every arithmetic operation is followed by \<open>fl\<close>, in the code's order of evaluation. Lemmas: the
  amounts are money (whole paise), sums are exact, adjustments stay within their head, taxes grow
  with area and rate.
\<close>

subsection \<open>Usage heuristics\<close>

definition usageLooksCommercial :: "string \<Rightarrow> bool" where
  "usageLooksCommercial txt = non_residential_words (toLowerCase txt)"

definition usageLooksOpenLand :: "string \<Rightarrow> bool" where
  "usageLooksOpenLand txt = contains_text (toLowerCase txt) ''open''"

definition usageLooksResidential :: "string \<Rightarrow> bool" where
  "usageLooksResidential txt = contains_text (toLowerCase txt) ''residential''"

definition resolveHeuristicUsageKey :: "string option \<Rightarrow> string option \<Rightarrow> string option \<Rightarrow> string" where
  "resolveHeuristicUsageKey usageType usageFactor propertyUse =
     (let flr = trim (nullish usageType [])
      in if flr \<noteq> [] then toLowerCase flr
         else trim (toLowerCase (nullish usageFactor [] @ '' '' @ nullish propertyUse [])))"

record assessable_options =
  residentialPct :: js_number
  commercialPct :: js_number

definition resolveAssessablePct ::
  "string option \<Rightarrow> string option \<Rightarrow> string option \<Rightarrow> assessable_options \<Rightarrow> gis_use_class option \<Rightarrow> js_number" where
  "resolveAssessablePct propertyUse usageType usageFactor opts gisUseClass =
     (if gisUseClass = Some Open_land then 100
      else if gisUseClass = Some Commercial then commercialPct opts
      else if gisUseClass = Some Residential then residentialPct opts
      else
       (let key = resolveHeuristicUsageKey usageType usageFactor propertyUse
        in if usageLooksOpenLand key then 100
           else if usageLooksCommercial key then commercialPct opts
           else residentialPct opts))"

definition resolveUsageRateMult ::
  "string option \<Rightarrow> string option \<Rightarrow> string option \<Rightarrow> gis_use_class option \<Rightarrow> js_number" where
  "resolveUsageRateMult usageFactor usageType propertyUse gisUseClass =
     (if gisUseClass = Some Commercial then 2
      else if gisUseClass = Some Residential \<or> gisUseClass = Some Open_land then 1
      else
       (let key = resolveHeuristicUsageKey usageType usageFactor propertyUse
        in if usageLooksCommercial key then 2
           else if usageLooksResidential key then 1
           else 1))"

definition resolveEffectiveMonthlyRate ::
  "js_number \<Rightarrow> string option \<Rightarrow> string option \<Rightarrow> string option \<Rightarrow> gis_use_class option \<Rightarrow> js_number" where
  "resolveEffectiveMonthlyRate baseRate usageFactor usageType propertyUse gisUseClass =
     roundMoney (fl (baseRate * resolveUsageRateMult usageFactor usageType propertyUse gisUseClass))"

definition resolveSurveyGisUseClass :: "string option \<Rightarrow> string option \<Rightarrow> gis_use_class option" where
  "resolveSurveyGisUseClass gisUseCode surveyId =
     nullish_opt (classifyGisUseCode gisUseCode) (classifyGisUseCode surveyId)"

subsection \<open>Letting value and demand totals\<close>

record floor_alv =
  fa_grossAlv :: js_number
  fa_assessableAlv :: js_number
  fa_propertyTax :: js_number

definition computeFloorAlv :: "js_number \<Rightarrow> js_number \<Rightarrow> js_number \<Rightarrow> js_number \<Rightarrow> floor_alv" where
  "computeFloorAlv areaSqFt monthlyRatePerSqFt assessablePct propertyTaxPct =
     (let grossAlv = roundMoney (fl (fl (areaSqFt * monthlyRatePerSqFt) * 12));
          assessableAlv = roundMoney (fl (grossAlv * fl (assessablePct / 100)));
          propertyTax = roundMoney (fl (assessableAlv * fl (propertyTaxPct / 100)))
      in \<lparr>fa_grossAlv = grossAlv, fa_assessableAlv = assessableAlv, fa_propertyTax = propertyTax\<rparr>)"

record demand_totals =
  dt_waterTax :: js_number
  dt_drainageTax :: js_number
  dt_penalty :: js_number
  dt_totalAnnualDemand :: js_number

definition pct_of :: "js_number \<Rightarrow> js_number \<Rightarrow> js_number" where
  "pct_of amount pct = roundMoney (fl (amount * fl (pct / 100)))"

definition computeDemandTotals ::
  "js_number \<Rightarrow> js_number \<Rightarrow> js_number \<Rightarrow> js_number \<Rightarrow> js_number \<Rightarrow> bool \<Rightarrow> bool \<Rightarrow> demand_totals" where
  "computeDemandTotals totalAssessableAlv propertyTax waterTaxPct drainageTaxPct penaltyPct
     includeWater includeDrainage =
     (let waterTax = (if includeWater then pct_of totalAssessableAlv waterTaxPct else 0);
          drainageTax = (if includeDrainage then pct_of totalAssessableAlv drainageTaxPct else 0);
          penalty = (if penaltyPct > 0 then pct_of propertyTax penaltyPct else 0);
          totalAnnualDemand = roundMoney (fl (fl (fl (propertyTax + waterTax) + drainageTax) + penalty))
      in \<lparr>dt_waterTax = waterTax, dt_drainageTax = drainageTax, dt_penalty = penalty,
          dt_totalAnnualDemand = totalAnnualDemand\<rparr>)"

subsection \<open>Live preview\<close>

record preview_input =
  pi_areaSqFt :: js_number
  pi_baseMonthlyRate :: js_number
  pi_gisUseCode :: "string option"
  pi_assessablePct :: js_number
  pi_commercialAssessablePct :: js_number
  pi_propertyTaxPct :: js_number
  pi_waterTaxPct :: js_number
  pi_drainageTaxPct :: js_number
  pi_penaltyPct :: js_number

record preview_demand =
  pd_gisClass :: gis_use_class
  pd_effectiveMonthlyRate :: js_number
  pd_assessablePct :: js_number
  pd_grossAlv :: js_number
  pd_assessableAlv :: js_number
  pd_propertyTax :: js_number
  pd_waterTax :: js_number
  pd_drainageTax :: js_number
  pd_penalty :: js_number
  pd_demand :: js_number

definition computeGisPreviewDemand :: "preview_input \<Rightarrow> preview_demand" where
  "computeGisPreviewDemand inp =
     (let gisClass = nullish (classifyGisUseCode (Some (nullish (pi_gisUseCode inp) ''R''))) Residential;
          rateGisClass = (if gisClass = Mixed then None else Some gisClass);
          effectiveMonthlyRate = resolveEffectiveMonthlyRate (pi_baseMonthlyRate inp) None None None rateGisClass;
          assessablePct = resolveAssessablePct None None None
            \<lparr>residentialPct = pi_assessablePct inp, commercialPct = pi_commercialAssessablePct inp\<rparr> rateGisClass;
          alv = computeFloorAlv (pi_areaSqFt inp) effectiveMonthlyRate assessablePct (pi_propertyTaxPct inp);
          includeWater = (gisClass \<noteq> Open_land);
          t = computeDemandTotals (fa_assessableAlv alv) (fa_propertyTax alv) (pi_waterTaxPct inp)
                (pi_drainageTaxPct inp) (pi_penaltyPct inp) includeWater includeWater
      in \<lparr>pd_gisClass = gisClass, pd_effectiveMonthlyRate = effectiveMonthlyRate,
          pd_assessablePct = assessablePct, pd_grossAlv = fa_grossAlv alv,
          pd_assessableAlv = fa_assessableAlv alv, pd_propertyTax = fa_propertyTax alv,
          pd_waterTax = dt_waterTax t, pd_drainageTax = dt_drainageTax t, pd_penalty = dt_penalty t,
          pd_demand = dt_totalAnnualDemand t\<rparr>)"

subsection \<open>Numbers from the database or a request\<close>

text \<open>A \<open>Decimal\<close>, \<open>number\<close>, \<open>string\<close> or missing value; a text carries what \<open>Number\<close> makes of it,
  \<^term>\<open>None\<close> when that is \<open>NaN\<close> or infinite.\<close>

datatype tax_value = Missing | Finite js_number | Non_finite | Parsed "js_number option"

definition toTaxNumber :: "tax_value \<Rightarrow> js_number" where
  "toTaxNumber value =
     (case value of
        Missing \<Rightarrow> 0
      | Finite x \<Rightarrow> x
      | Non_finite \<Rightarrow> 0
      | Parsed p \<Rightarrow> nullish p 0)"

definition opt_value :: "js_number option \<Rightarrow> tax_value" where
  "opt_value v = (case v of None \<Rightarrow> Missing | Some x \<Rightarrow> Finite x)"

lemma toTaxNumber_opt [simp]: "toTaxNumber (opt_value None) = 0" "toTaxNumber (opt_value (Some x)) = x"
  by (simp_all add: toTaxNumber_def opt_value_def)

subsection \<open>Export tax of a survey\<close>

record rate_table =
  rt_assessablePct :: js_number
  rt_commercialAssessablePct :: js_number
  rt_propertyTaxPct :: js_number
  rt_waterTaxPct :: js_number
  rt_drainageTaxPct :: js_number
  rt_penaltyPct :: js_number
  rt_rateByZoneAndConstruction :: "string \<Rightarrow> js_number option"
  rt_anyRateByZone :: "string \<Rightarrow> js_number option"

definition taxRateKey :: "string \<Rightarrow> string \<Rightarrow> string" where
  "taxRateKey zoneCode constructionCode = zoneCode @ ''::'' @ constructionCode"

record export_floor =
  ef_floorKey :: string
  ef_constructionCode :: string
  ef_usageResidential :: bool
  ef_areaSqFt :: js_number
  ef_usageType :: "string option"
  ef_usageFactor :: "string option"

record export_input =
  ei_taxRateZoneCode :: string
  ei_propertyUse :: "string option"
  ei_hasMunicipalWater :: "bool option"
  ei_gisUseCode :: "string option"
  ei_surveyId :: "string option"
  ei_floors :: "export_floor list"
  ei_plotAreaSqFt :: "js_number option"
  ei_plinthAreaSqFt :: "js_number option"
  ei_totalBuiltUpAreaSqFt :: "js_number option"
  ei_rates :: rate_table

datatype cell = Num js_number | Txt string

record export_tax =
  xt_propertyTax :: js_number
  xt_waterTax :: js_number
  xt_drainageTax :: js_number
  xt_penalty :: js_number
  xt_totalDemand :: js_number
  xt_floorAreaBySlot :: "js_number list"
  xt_residentialTaxCells :: "cell list"
  xt_nonResidentialTaxCells :: "cell list"
  xt_plotRate :: cell
  xt_plotTax :: cell

datatype export_error = ZoneMissing

definition slotForFloor :: "string \<Rightarrow> bool \<Rightarrow> int" where
  "slotForFloor floorKey residential =
     (let key = toLowerCase floorKey; off = (if residential then 0 else 1)
      in if contains_text key ''basement'' then 0 + off
         else if contains_text key ''ground'' then 2 + off
         else if contains_text key ''first'' then 4 + off
         else if contains_text key ''second'' then 6 + off
         else if contains_text key ''third'' then 6 + off
         else - 1)"

datatype band = RCC | TEEN | KACCHA

definition constructionBand :: "string \<Rightarrow> band" where
  "constructionBand code =
     (let c = toUpperCase code
      in if contains_text c ''PAKKA'' \<or> contains_text c ''RCC'' then RCC
         else if contains_text c ''TIN'' \<or> contains_text c ''TEEN'' \<or> contains_text c ''SHED'' then TEEN
         else if contains_text c ''KACCHA'' \<or> contains_text c ''KACHCHA'' then KACCHA
         else RCC)"

definition band_offset :: "band \<Rightarrow> nat" where
  "band_offset b = (case b of RCC \<Rightarrow> 0 | TEEN \<Rightarrow> 3 | KACCHA \<Rightarrow> 6)"

text \<open>The variables of the floor loop.\<close>

record floor_acc =
  ac_propertyTax :: js_number
  ac_assessableAlv :: js_number
  ac_floorAreaBySlot :: "js_number list"
  ac_residentialTaxCells :: "cell list"
  ac_nonResidentialTaxCells :: "cell list"

definition floor_start :: floor_acc where
  "floor_start =
     \<lparr>ac_propertyTax = 0, ac_assessableAlv = 0, ac_floorAreaBySlot = replicate 8 0,
      ac_residentialTaxCells = replicate 9 (Txt ''-''), ac_nonResidentialTaxCells = replicate 9 (Txt ''-'')\<rparr>"

definition rate_gis_class :: "gis_use_class option \<Rightarrow> gis_use_class option" where
  "rate_gis_class gisClass = (if gisClass = Some Mixed then None else gisClass)"

definition floor_residential :: "gis_use_class option \<Rightarrow> export_floor \<Rightarrow> bool" where
  "floor_residential gisClass flr =
     (if gisClass = Some Residential then True
      else if gisClass = Some Commercial \<or> gisClass = Some Open_land then False
      else ef_usageResidential flr)"

definition add_slot_area :: "int \<Rightarrow> js_number \<Rightarrow> js_number list \<Rightarrow> js_number list" where
  "add_slot_area slot area slots =
     (if 0 \<le> slot \<and> slot < 8
      then slots[nat slot := roundMoney (fl (slots ! nat slot + area))] else slots)"

definition base_rate :: "export_input \<Rightarrow> string \<Rightarrow> js_number" where
  "base_rate inp constructionCode =
     nullish (rt_rateByZoneAndConstruction (ei_rates inp)
       (taxRateKey (trim (ei_taxRateZoneCode inp)) constructionCode)) 0"

definition export_opts :: "export_input \<Rightarrow> assessable_options" where
  "export_opts inp =
     \<lparr>residentialPct = rt_assessablePct (ei_rates inp),
      commercialPct = rt_commercialAssessablePct (ei_rates inp)\<rparr>"

definition floor_rate :: "export_input \<Rightarrow> gis_use_class option \<Rightarrow> export_floor \<Rightarrow> js_number" where
  "floor_rate inp gisClass flr =
     resolveEffectiveMonthlyRate (base_rate inp (ef_constructionCode flr)) (ef_usageFactor flr)
       (ef_usageType flr) (ei_propertyUse inp) (rate_gis_class gisClass)"

definition floor_tax :: "export_input \<Rightarrow> gis_use_class option \<Rightarrow> export_floor \<Rightarrow> floor_alv" where
  "floor_tax inp gisClass flr =
     computeFloorAlv (ef_areaSqFt flr) (floor_rate inp gisClass flr)
       (resolveAssessablePct (ei_propertyUse inp) (ef_usageType flr) (ef_usageFactor flr)
          (export_opts inp) (rate_gis_class gisClass))
       (rt_propertyTaxPct (ei_rates inp))"

definition put_tax_cells :: "band \<Rightarrow> js_number \<Rightarrow> js_number \<Rightarrow> cell list \<Rightarrow> cell list" where
  "put_tax_cells b rate tax cells = cells[band_offset b := Num rate, band_offset b + 2 := Num tax]"

definition floor_step :: "export_input \<Rightarrow> gis_use_class option \<Rightarrow> floor_acc \<Rightarrow> export_floor \<Rightarrow> floor_acc" where
  "floor_step inp gisClass acc flr =
     (let residential = floor_residential gisClass flr;
          acc1 = acc\<lparr>ac_floorAreaBySlot :=
                   add_slot_area (slotForFloor (ef_floorKey flr) residential) (ef_areaSqFt flr)
                     (ac_floorAreaBySlot acc)\<rparr>
      in if base_rate inp (ef_constructionCode flr) \<le> 0 then acc1
         else
          (let annualRate = floor_rate inp gisClass flr;
               alv = floor_tax inp gisClass flr;
               floorTax = fa_propertyTax alv;
               acc2 = acc1\<lparr>ac_propertyTax := roundMoney (fl (ac_propertyTax acc1 + floorTax)),
                           ac_assessableAlv := roundMoney (fl (ac_assessableAlv acc1 + fa_assessableAlv alv))\<rparr>;
               put = put_tax_cells (constructionBand (ef_constructionCode flr)) annualRate floorTax
           in if residential
              then acc2\<lparr>ac_residentialTaxCells := put (ac_residentialTaxCells acc2)\<rparr>
              else acc2\<lparr>ac_nonResidentialTaxCells := put (ac_nonResidentialTaxCells acc2)\<rparr>))"

definition floor_loop :: "export_input \<Rightarrow> gis_use_class option \<Rightarrow> floor_acc" where
  "floor_loop inp gisClass = foldl (floor_step inp gisClass) floor_start (ei_floors inp)"

definition export_gis_class :: "export_input \<Rightarrow> gis_use_class option" where
  "export_gis_class inp = resolveSurveyGisUseClass (ei_gisUseCode inp) (ei_surveyId inp)"

definition export_open_land :: "export_input \<Rightarrow> bool" where
  "export_open_land inp \<longleftrightarrow>
     export_gis_class inp = Some Open_land
     \<or> export_gis_class inp = None \<and> contains_text (toLowerCase (nullish (ei_propertyUse inp) [])) ''open''"

definition open_land_rate :: "export_input \<Rightarrow> js_number" where
  "open_land_rate inp =
     (let zoneCode = trim (ei_taxRateZoneCode inp) in
      nullish (nullish_opt (rt_rateByZoneAndConstruction (ei_rates inp) (taxRateKey zoneCode ''OPEN_LAND''))
                 (rt_anyRateByZone (ei_rates inp) zoneCode)) 0)"

text \<open>\<open>a || b\<close> on numbers.\<close>

definition or_num :: "js_number \<Rightarrow> js_number \<Rightarrow> js_number" where
  "or_num a b = (if a = 0 then b else a)"

text \<open>The plot, built-up or plinth area stands in when no floor has an area.\<close>

definition area_fallback :: "export_input \<Rightarrow> floor_acc \<Rightarrow> js_number \<times> js_number" where
  "area_fallback inp acc =
     (if ac_assessableAlv acc = 0 \<and> \<not> list_ex (\<lambda>f. ef_areaSqFt f > 0) (ei_floors inp)
      then
       (let area = or_num (or_num (toTaxNumber (opt_value (ei_plotAreaSqFt inp)))
                                  (toTaxNumber (opt_value (ei_totalBuiltUpAreaSqFt inp))))
                          (toTaxNumber (opt_value (ei_plinthAreaSqFt inp)));
            annualRate = open_land_rate inp
        in if annualRate > 0 \<and> area > 0
           then (let alv = computeFloorAlv area annualRate
                       (resolveAssessablePct (ei_propertyUse inp) None None (export_opts inp) (export_gis_class inp))
                       (rt_propertyTaxPct (ei_rates inp))
                 in (fa_propertyTax alv, fa_assessableAlv alv))
           else (ac_propertyTax acc, ac_assessableAlv acc))
      else (ac_propertyTax acc, ac_assessableAlv acc))"

definition computeSurveyExportTax :: "export_input \<Rightarrow> export_error + export_tax" where
  "computeSurveyExportTax inp =
     (if trim (ei_taxRateZoneCode inp) = [] then Inl ZoneMissing
      else
       (let rates = ei_rates inp;
            acc = floor_loop inp (export_gis_class inp);
            openLand = export_open_land inp;
            (propertyTax, totalAssessableAlv) = area_fallback inp acc;
            t = computeDemandTotals totalAssessableAlv propertyTax (rt_waterTaxPct rates)
                  (rt_drainageTaxPct rates) (rt_penaltyPct rates) (\<not> openLand) (\<not> openLand);
            plotArea = toTaxNumber (opt_value (ei_plotAreaSqFt inp));
            annualRate = open_land_rate inp;
            plotTaxed = (openLand \<and> plotArea > 0 \<and> annualRate > 0);
            pt = fa_propertyTax (computeFloorAlv plotArea annualRate 100 (rt_propertyTaxPct rates));
            propertyTax' = (if plotTaxed then pt else propertyTax);
            openPenalty = (if rt_penaltyPct rates > 0 then pct_of propertyTax' (rt_penaltyPct rates) else 0)
        in Inr
         \<lparr>xt_propertyTax = propertyTax',
          xt_waterTax = (if openLand then 0 else dt_waterTax t),
          xt_drainageTax = (if openLand then 0 else dt_drainageTax t),
          xt_penalty = (if openLand then openPenalty else dt_penalty t),
          xt_totalDemand = (if openLand then roundMoney (fl (propertyTax' + openPenalty))
                            else dt_totalAnnualDemand t),
          xt_floorAreaBySlot = ac_floorAreaBySlot acc,
          xt_residentialTaxCells = ac_residentialTaxCells acc,
          xt_nonResidentialTaxCells = ac_nonResidentialTaxCells acc,
          xt_plotRate = (if plotTaxed then Num annualRate else Txt ''-''),
          xt_plotTax = (if plotTaxed then Num pt else Num 0)\<rparr>))"

subsection \<open>Rebates, penalties, arrears and payments\<close>

datatype rule_kind = REBATE | PENALTY
datatype rule_head = PROPERTY | WATER
datatype rule_method = PERCENT_OF_HEAD | FLAT_AMOUNT

record tax_rule =
  tr_kind :: rule_kind
  tr_head :: rule_head
  tr_method :: rule_method
  tr_value :: js_number
  tr_cap :: "js_number option"

record tax_base =
  tb_propertyTax :: js_number
  tb_waterTax :: js_number
  tb_drainageTax :: js_number
  tb_penalty :: js_number
  tb_totalDemand :: js_number

record assessment_input =
  as_base :: tax_base
  as_rules :: "tax_rule list option"
  as_arrears :: "js_number option"
  as_amountPaid :: "js_number option"

record assessment =
  pa_propertyTax :: js_number
  pa_waterTax :: js_number
  pa_drainageTax :: js_number
  pa_penalty :: js_number
  pa_rebate :: js_number
  pa_currentDemand :: js_number
  pa_arrears :: js_number
  pa_totalPayable :: js_number
  pa_amountPaid :: js_number
  pa_outstanding :: js_number

definition applyHeadAdjustment :: "js_number \<Rightarrow> tax_rule \<Rightarrow> js_number" where
  "applyHeadAdjustment headAmount rule =
     (if headAmount \<le> 0 then 0
      else
       (let raw = (if tr_method rule = FLAT_AMOUNT then max 0 (tr_value rule)
                   else pct_of headAmount (tr_value rule));
            capped = (case tr_cap rule of Some c \<Rightarrow> min raw (max 0 c) | None \<Rightarrow> raw)
        in roundMoney (min capped headAmount)))"

definition rules_for :: "rule_kind \<Rightarrow> rule_head \<Rightarrow> tax_rule list \<Rightarrow> tax_rule list" where
  "rules_for k h rules = filter (\<lambda>r. tr_kind r = k \<and> tr_head r = h) rules"

definition computePropertyAssessment :: "assessment_input \<Rightarrow> assessment" where
  "computePropertyAssessment inp =
     (let propertyTax = roundMoney (tb_propertyTax (as_base inp));
          waterTax = roundMoney (tb_waterTax (as_base inp));
          drainageTax = roundMoney (tb_drainageTax (as_base inp));
          rules = nullish (as_rules inp) [];
          rebate = sum_money
            (\<lambda>r. applyHeadAdjustment (if tr_head r = WATER then waterTax else propertyTax) r) 0
            (filter (\<lambda>r. tr_kind r = REBATE) rules);
          propertyPenaltyRules = rules_for PENALTY PROPERTY rules;
          waterPenaltyRules = rules_for PENALTY WATER rules;
          penalty0 = (if propertyPenaltyRules \<noteq> []
                      then sum_money (applyHeadAdjustment propertyTax) 0 propertyPenaltyRules
                      else roundMoney (tb_penalty (as_base inp)));
          penalty = sum_money (applyHeadAdjustment waterTax) penalty0 waterPenaltyRules;
          currentDemand = roundMoney
            (max 0 (fl (fl (fl (fl (propertyTax + waterTax) + drainageTax) + penalty) - rebate)));
          arrears = roundMoney (max 0 (nullish (as_arrears inp) 0));
          totalPayable = roundMoney (fl (currentDemand + arrears));
          amountPaid = roundMoney (max 0 (nullish (as_amountPaid inp) 0));
          outstanding = roundMoney (max 0 (fl (totalPayable - amountPaid)))
      in \<lparr>pa_propertyTax = propertyTax, pa_waterTax = waterTax, pa_drainageTax = drainageTax,
          pa_penalty = penalty, pa_rebate = rebate, pa_currentDemand = currentDemand,
          pa_arrears = arrears, pa_totalPayable = totalPayable, pa_amountPaid = amountPaid,
          pa_outstanding = outstanding\<rparr>)"

subsection \<open>Taxes are money and grow with area and rate\<close>

lemma fl_pct_nonneg: "0 \<le> p \<Longrightarrow> 0 \<le> fl (p / 100)"
  by (simp add: b64.rnd_nonneg)

lemma pct_of_mono: "x \<le> y \<Longrightarrow> 0 \<le> p \<Longrightarrow> pct_of x p \<le> pct_of y p"
  unfolding pct_of_def by (intro roundMoney_mono fl_mono mult_right_mono fl_pct_nonneg)

lemma pct_of_nonneg: "0 \<le> x \<Longrightarrow> 0 \<le> p \<Longrightarrow> 0 \<le> pct_of x p"
  unfolding pct_of_def by (intro roundMoney_nonneg b64.rnd_nonneg mult_nonneg_nonneg fl_pct_nonneg)

lemma pct_of_paise: "pct_of x p = paise (paise_of (fl (x * fl (p / 100))))"
  by (simp add: pct_of_def roundMoney_alt)

lemma computeFloorAlv_alt:
  "computeFloorAlv area rate apct ppct =
     (let g = roundMoney (fl (fl (area * rate) * 12)) in
      \<lparr>fa_grossAlv = g, fa_assessableAlv = pct_of g apct, fa_propertyTax = pct_of (pct_of g apct) ppct\<rparr>)"
  by (simp add: computeFloorAlv_def pct_of_def Let_def)

lemma gross_mono:
  assumes "0 \<le> a" "a \<le> a'" "0 \<le> r" "r \<le> r'"
  shows "roundMoney (fl (fl (a * r) * 12)) \<le> roundMoney (fl (fl (a' * r') * 12))"
  using assms by (intro roundMoney_mono fl_mono mult_right_mono mult_mono) auto

lemma gross_nonneg: "0 \<le> a \<Longrightarrow> 0 \<le> r \<Longrightarrow> 0 \<le> roundMoney (fl (fl (a * r) * 12))"
  by (intro roundMoney_nonneg b64.rnd_nonneg mult_nonneg_nonneg) auto

lemma computeFloorAlv_mono:
  assumes "0 \<le> a" "a \<le> a'" "0 \<le> r" "r \<le> r'" "0 \<le> apct" "0 \<le> ppct"
  shows "fa_assessableAlv (computeFloorAlv a r apct ppct) \<le> fa_assessableAlv (computeFloorAlv a' r' apct ppct)"
    "fa_propertyTax (computeFloorAlv a r apct ppct) \<le> fa_propertyTax (computeFloorAlv a' r' apct ppct)"
  using gross_mono[OF assms(1-4)] assms(5,6) by (simp_all add: computeFloorAlv_alt Let_def pct_of_mono)

lemma computeFloorAlv_nonneg:
  assumes "0 \<le> a" "0 \<le> r" "0 \<le> apct" "0 \<le> ppct"
  shows "0 \<le> fa_assessableAlv (computeFloorAlv a r apct ppct)"
    "0 \<le> fa_propertyTax (computeFloorAlv a r apct ppct)"
  using gross_nonneg[OF assms(1,2)] assms(3,4) by (simp_all add: computeFloorAlv_alt Let_def pct_of_nonneg)

text \<open>A larger area or a higher rate never lowers the tax: the property tax, the water and
  drainage tax and the annual demand of a plot are monotone in area and rate.\<close>

theorem demand_monotone:
  assumes "0 \<le> a" "a \<le> a'" "0 \<le> r" "r \<le> r'"
    and "0 \<le> apct" "0 \<le> ppct" "0 \<le> wpct" "0 \<le> dpct"
  shows "fa_propertyTax (computeFloorAlv a r apct ppct) \<le> fa_propertyTax (computeFloorAlv a' r' apct ppct) \<and>
    dt_totalAnnualDemand (computeDemandTotals (fa_assessableAlv (computeFloorAlv a r apct ppct))
        (fa_propertyTax (computeFloorAlv a r apct ppct)) wpct dpct pen iw id')
    \<le> dt_totalAnnualDemand (computeDemandTotals (fa_assessableAlv (computeFloorAlv a' r' apct ppct))
        (fa_propertyTax (computeFloorAlv a' r' apct ppct)) wpct dpct pen iw id')"
  using computeFloorAlv_mono[OF assms(1-6)] assms(7,8)
  by (auto simp: computeDemandTotals_def Let_def
      intro!: roundMoney_mono fl_mono add_mono pct_of_mono)

lemma demand_monotone_witness:
  "fa_propertyTax (computeFloorAlv 500 (3/2) 80 10) \<le> fa_propertyTax (computeFloorAlv 1000 2 80 10)"
  using demand_monotone[of 500 1000 "3/2" 2 80 10 0 0] by simp

subsection \<open>The assessment as integer arithmetic on paise\<close>

lemma applyHeadAdjustment_nonneg:
  assumes "0 \<le> x" "0 \<le> tr_value rule"
  shows "0 \<le> applyHeadAdjustment x rule"
proof -
  let ?raw = "if tr_method rule = FLAT_AMOUNT then max 0 (tr_value rule) else pct_of x (tr_value rule)"
  have "0 \<le> ?raw" using assms by (simp add: pct_of_nonneg)
  then have "0 \<le> (case tr_cap rule of Some c \<Rightarrow> min ?raw (max 0 c) | None \<Rightarrow> ?raw)"
    by (auto split: option.splits)
  then show ?thesis
    using assms(1) by (simp add: applyHeadAdjustment_def Let_def roundMoney_nonneg)
qed

lemma applyHeadAdjustment_le:
  assumes "0 \<le> n" "in_column n"
  shows "applyHeadAdjustment (paise n) rule \<le> paise n"
proof -
  have "roundMoney (min y (paise n)) \<le> paise n" for y
    using roundMoney_mono[of "min y (paise n)" "paise n"] roundMoney_paise[OF assms(2)] by simp
  then show ?thesis
    using paise_nonneg[OF assms(1)] by (simp add: applyHeadAdjustment_def Let_def)
qed

text \<open>
  What an adjustment means, in exact arithmetic and without the code's functions: the amount a rule
  names (a flat sum, or a percentage of its head) and its cap are each rounded to the nearest whole
  number of paise (within the precision of a number, one part in \<open>10^15\<close>: only an amount that close
  to half a paisa leaves a choice), the cap bounds the amount, and no rule exceeds its head.
\<close>

definition rounds_to :: "rat \<Rightarrow> int \<Rightarrow> bool" where
  "rounds_to x k \<longleftrightarrow> \<bar>of_int k - x\<bar> \<le> 1 / 2 + \<bar>x\<bar> / 10 ^ 15"

definition rule_amount :: "int \<Rightarrow> tax_rule \<Rightarrow> rat" where
  "rule_amount n rule =
     (case tr_method rule of FLAT_AMOUNT \<Rightarrow> 100 * tr_value rule
      | PERCENT_OF_HEAD \<Rightarrow> of_int n * tr_value rule / 100)"

definition adjusts :: "int \<Rightarrow> tax_rule \<Rightarrow> int \<Rightarrow> bool" where
  "adjusts n rule k \<longleftrightarrow>
     (\<exists>raw. rounds_to (rule_amount n rule) raw \<and>
       (case tr_cap rule of None \<Rightarrow> k = min raw n
        | Some c \<Rightarrow> \<exists>cap. rounds_to (100 * max 0 c) cap \<and> k = min (min raw cap) n))"

lemma rounds_to_whole:
  assumes "rounds_to (of_int m) k" "in_column m"
  shows "k = m"
proof -
  have m: "\<bar>of_int m :: rat\<bar> < 100000000000000"
    using assms(2) unfolding in_column_def of_int_abs [symmetric] by linarith
  have "\<bar>of_int (k - m) :: rat\<bar> \<le> 1 / 2 + \<bar>of_int m\<bar> / 10 ^ 15"
    using assms(1) by (simp add: rounds_to_def)
  also have "\<dots> < 1" using m by simp
  finally have "\<bar>k - m\<bar> < 1" by linarith
  then show ?thesis by simp
qed

text \<open>The floating-point steps of the code leave the exact amount within that precision.\<close>

lemma rounds_to_js_round:
  assumes "\<bar>y - x\<bar> \<le> \<bar>x\<bar> / 10 ^ 15"
  shows "rounds_to x (js_round_int y)"
proof -
  have "\<bar>of_int (js_round_int y) - y\<bar> \<le> 1 / 2"
    unfolding js_round_int_def by linarith
  with assms show ?thesis unfolding rounds_to_def by linarith
qed

lemma rounds_to_paise_of: "rounds_to (100 * x) (paise_of x)"
proof -
  have "\<bar>fl (100 * x) - 100 * x\<bar> \<le> \<bar>100 * x\<bar> / 9007199254740992" by (rule fl_err_num)
  also have "\<dots> \<le> \<bar>100 * x\<bar> / 10 ^ 15" by simp
  finally show ?thesis unfolding paise_of_def by (metis rounds_to_js_round mult.commute)
qed

lemma fl_scaled:
  assumes "\<bar>y - x\<bar> \<le> \<bar>x\<bar> * e" "0 \<le> e" "e \<le> 1"
  shows "\<bar>fl y - x\<bar> \<le> \<bar>x\<bar> * (e + 2 / 9007199254740992)"
proof -
  have "\<bar>x\<bar> * e \<le> \<bar>x\<bar>" using assms(2,3) by (simp add: mult_left_le)
  then have y: "\<bar>y\<bar> \<le> 2 * \<bar>x\<bar>" using assms(1) by linarith
  have "\<bar>fl y - y\<bar> \<le> \<bar>y\<bar> / 9007199254740992" by (rule fl_err_num)
  also have "\<dots> \<le> \<bar>x\<bar> * (2 / 9007199254740992)" using y by simp
  finally show ?thesis using assms(1) unfolding distrib_left by linarith
qed

lemma mult_scaled:
  fixes x y :: rat
  assumes "\<bar>x' - x\<bar> \<le> \<bar>x\<bar> * e" "\<bar>y' - y\<bar> \<le> \<bar>y\<bar> * f" "0 \<le> f"
  shows "\<bar>x' * y' - x * y\<bar> \<le> \<bar>x * y\<bar> * (e + f + e * f)"
proof -
  have "\<bar>y'\<bar> \<le> \<bar>y\<bar> * (1 + f)" using assms(2) unfolding distrib_left by linarith
  then have "\<bar>x' - x\<bar> * \<bar>y'\<bar> \<le> (\<bar>x\<bar> * e) * (\<bar>y\<bar> * (1 + f))"
    using assms(1) by (intro mult_mono) auto
  moreover have "\<bar>x\<bar> * \<bar>y' - y\<bar> \<le> \<bar>x\<bar> * (\<bar>y\<bar> * f)"
    using assms(2) by (intro mult_left_mono) auto
  moreover have "x' * y' - x * y = (x' - x) * y' + x * (y' - y)" by (simp add: algebra_simps)
  then have "\<bar>x' * y' - x * y\<bar> \<le> \<bar>x' - x\<bar> * \<bar>y'\<bar> + \<bar>x\<bar> * \<bar>y' - y\<bar>"
    using abs_triangle_ineq[of "(x' - x) * y'" "x * (y' - y)"] by (simp add: abs_mult)
  moreover have "\<bar>x\<bar> * e * (\<bar>y\<bar> * (1 + f)) + \<bar>x\<bar> * (\<bar>y\<bar> * f) = \<bar>x * y\<bar> * (e + f + e * f)"
    unfolding abs_mult by (simp add: algebra_simps)
  ultimately show ?thesis by linarith
qed

lemma scale_100:
  fixes x y :: rat
  shows "\<bar>y - x\<bar> \<le> \<bar>x\<bar> * e \<Longrightarrow> \<bar>y * 100 - x * 100\<bar> \<le> \<bar>x * 100\<bar> * e"
  unfolding left_diff_distrib [symmetric] abs_mult by simp

lemma rounds_to_pct: "rounds_to (of_int n * v / 100) (paise_of (fl (paise n * fl (v / 100))))"
proof -
  let ?u = "1 / 9007199254740992 :: rat"
  let ?x = "of_int n / 100 * (v / 100) :: rat" and ?y = "fl (paise n * fl (v / 100))"
  have "\<bar>paise n - of_int n / 100\<bar> \<le> \<bar>of_int n / 100\<bar> * ?u" "\<bar>fl (v / 100) - v / 100\<bar> \<le> \<bar>v / 100\<bar> * ?u"
    using fl_err_num[of "of_int n / 100"] fl_err_num[of "v / 100"] by (simp_all add: paise_def)
  then have "\<bar>paise n * fl (v / 100) - ?x\<bar> \<le> \<bar>?x\<bar> * (?u + ?u + ?u * ?u)"
    by (rule mult_scaled) simp
  then have "\<bar>?y - ?x\<bar> \<le> \<bar>?x\<bar> * (?u + ?u + ?u * ?u + 2 / 9007199254740992)"
    by (rule fl_scaled) simp_all
  then have "\<bar>?y * 100 - ?x * 100\<bar> \<le> \<bar>?x * 100\<bar> * (?u + ?u + ?u * ?u + 2 / 9007199254740992)"
    by (rule scale_100)
  then have "\<bar>fl (?y * 100) - ?x * 100\<bar>
      \<le> \<bar>?x * 100\<bar> * (?u + ?u + ?u * ?u + 2 / 9007199254740992 + 2 / 9007199254740992)"
    by (rule fl_scaled) simp_all
  also have "\<dots> \<le> \<bar>?x * 100\<bar> * (1 / 10 ^ 15)" by (intro mult_left_mono) simp_all
  finally have "rounds_to (?x * 100) (paise_of ?y)"
    unfolding paise_of_def by (intro rounds_to_js_round) simp
  then show ?thesis by (simp add: mult.commute)
qed

lemma paise_of_min: "paise_of (min x y) = min (paise_of x) (paise_of y)"
  using paise_of_mono[of x y] paise_of_mono[of y x] by (auto simp: min_def)

lemma min_paise_of_paise:
  assumes "0 \<le> n" "in_column n" "0 \<le> k"
  shows "min (paise_of (paise k)) n = min k n"
proof (cases "k \<le> n")
  case True
  then show ?thesis using in_column_mono[OF assms(2,3)] by (simp add: paise_of_paise)
next
  case False
  then have "n \<le> paise_of (paise k)"
    using paise_of_mono[OF paise_mono[of n k]] paise_of_paise[OF assms(2)] by simp
  then show ?thesis using False by simp
qed

text \<open>The amount the code computes, in paise.\<close>

definition code_adjustment :: "int \<Rightarrow> tax_rule \<Rightarrow> int" where
  "code_adjustment n rule = paise_of (applyHeadAdjustment (paise n) rule)"

lemma rounds_to_nonneg: "rounds_to x k \<Longrightarrow> 0 \<le> x \<Longrightarrow> 0 \<le> k"
proof (rule ccontr)
  assume r: "rounds_to x k" "0 \<le> x" "\<not> 0 \<le> k"
  then have "(of_int k :: rat) \<le> -1" by simp
  moreover have "x / 10 ^ 15 \<le> x" using r(2) by simp
  ultimately show False using r(1,2) unfolding rounds_to_def by linarith
qed

lemma adjusts_code:
  assumes n: "0 \<le> n" "in_column n" and v: "0 \<le> tr_value rule"
  shows "adjusts n rule (code_adjustment n rule)"
proof -
  define x where "x = (if tr_method rule = FLAT_AMOUNT then max 0 (tr_value rule)
                   else fl (paise n * fl (tr_value rule / 100)))"
  define raw where "raw = (if tr_method rule = FLAT_AMOUNT then max 0 (tr_value rule)
                   else pct_of (paise n) (tr_value rule))"
  define cap where "cap = (case tr_cap rule of Some c \<Rightarrow> min raw (max 0 c) | None \<Rightarrow> raw)"
  have x: "rounds_to (rule_amount n rule) (paise_of x)"
    using rounds_to_paise_of[of "tr_value rule"] rounds_to_pct v
    by (cases "tr_method rule") (simp_all add: rule_amount_def x_def)
  have "0 \<le> rule_amount n rule" using n v by (simp add: rule_amount_def split: rule_method.splits)
  note nn = rounds_to_nonneg[OF x this]
  have raw: "min (paise_of raw) n = min (paise_of x) n" "0 \<le> paise_of raw"
    using min_paise_of_paise[OF n nn] paise_of_nonneg[OF paise_nonneg[OF nn]] paise_of_nonneg[of "max 0 (tr_value rule)"]
    by (cases "tr_method rule = FLAT_AMOUNT"; simp add: raw_def x_def pct_of_def roundMoney_alt)+
  have swap: "min (min a b) n = min (min a n) b" for a b by (auto simp: min_def)
  have c: "0 \<le> paise_of (max 0 c)" for c by (simp add: paise_of_nonneg)
  have cap: "0 \<le> paise_of cap" "min (paise_of cap) n = (case tr_cap rule of None \<Rightarrow> min (paise_of x) n
      | Some c \<Rightarrow> min (min (paise_of x) (paise_of (max 0 c))) n)"
    using raw(2) c swap[of "paise_of raw"] swap[of "paise_of x"]
    by (cases "tr_cap rule"; simp add: cap_def paise_of_min raw(1))+
  have "code_adjustment n rule = min (paise_of cap) n"
  proof (cases "paise n \<le> 0")
    case True
    then have "n \<le> 0" using paise_of_mono[OF True] n(2) by (simp add: paise_of_paise)
    then show ?thesis using True n cap(1) by (simp add: code_adjustment_def applyHeadAdjustment_def)
  next
    case False
    have "in_column (min (paise_of cap) n)" using in_column_mono[OF n(2)] n(1) cap(1) by simp
    then show ?thesis using False n
      by (simp add: code_adjustment_def applyHeadAdjustment_def Let_def roundMoney_alt paise_of_min
          paise_of_paise flip: raw_def cap_def)
  qed
  then show ?thesis unfolding adjusts_def cap(2) using x rounds_to_paise_of
    by (cases "tr_cap rule") auto
qed

lemma code_adjustment:
  assumes "0 \<le> n" "in_column n" "0 \<le> tr_value rule"
  shows "applyHeadAdjustment (paise n) rule = paise (code_adjustment n rule)"
    "0 \<le> code_adjustment n rule" "code_adjustment n rule \<le> n"
proof -
  note b = applyHeadAdjustment_nonneg[OF paise_nonneg[OF assms(1)] assms(3)]
    applyHeadAdjustment_le[OF assms(1,2), of rule]
  show p: "0 \<le> code_adjustment n rule" "code_adjustment n rule \<le> n"
    using paise_of_nonneg[OF b(1)] paise_of_mono[OF b(2)] assms(2)
    by (simp_all add: code_adjustment_def paise_of_paise)
  show "applyHeadAdjustment (paise n) rule = paise (code_adjustment n rule)"
  proof (cases "paise n \<le> 0")
    case True
    then show ?thesis by (simp add: code_adjustment_def applyHeadAdjustment_def)
  next
    case False
    then obtain x where x: "applyHeadAdjustment (paise n) rule = roundMoney x" "x \<le> paise n" "0 \<le> roundMoney x"
      using b(1) by (auto simp: applyHeadAdjustment_def Let_def)
    define m where "m = max 0 (paise_of x)"
    have "paise_of x \<le> n" using paise_of_mono[OF x(2)] assms(2) by (simp add: paise_of_paise)
    then have m: "in_column m" using assms(1,2) by (auto simp: m_def in_column_def)
    have "roundMoney x = paise m"
      using x(3) paise_mono[of "paise_of x" 0] by (auto simp: m_def max_def roundMoney_alt)
    then show ?thesis using x(1) m by (simp add: code_adjustment_def paise_of_paise)
  qed
qed

record paise_base =
  nb_property :: int
  nb_water :: int
  nb_drainage :: int
  nb_penalty :: int

definition base_of_paise :: "paise_base \<Rightarrow> js_number \<Rightarrow> tax_base" where
  "base_of_paise b ttl =
     \<lparr>tb_propertyTax = paise (nb_property b), tb_waterTax = paise (nb_water b),
      tb_drainageTax = paise (nb_drainage b), tb_penalty = paise (nb_penalty b), tb_totalDemand = ttl\<rparr>"

definition head_paise :: "paise_base \<Rightarrow> rule_head \<Rightarrow> int" where
  "head_paise b h = (case h of WATER \<Rightarrow> nb_water b | PROPERTY \<Rightarrow> nb_property b)"

text \<open>
  The amounts of a list of rules: \<open>adj r\<close> is what the rule \<open>r\<close> comes to on its head. The rebate is
  the sum over the rebate rules; the penalty is the sum over the property penalty rules, or the base
  penalty when there is none, and the water penalty rules on top.
\<close>

type_synonym rule_amounts = "tax_rule \<Rightarrow> int"

definition adjusted_by :: "paise_base \<Rightarrow> tax_rule list \<Rightarrow> rule_amounts \<Rightarrow> bool" where
  "adjusted_by b rules adj \<longleftrightarrow> (\<forall>r \<in> set rules. adjusts (head_paise b (tr_head r)) r (adj r))"

definition rebate_paise :: "rule_amounts \<Rightarrow> tax_rule list \<Rightarrow> int" where
  "rebate_paise adj rules = (\<Sum>r\<leftarrow>filter (\<lambda>r. tr_kind r = REBATE) rules. adj r)"

definition penalty_paise :: "rule_amounts \<Rightarrow> paise_base \<Rightarrow> tax_rule list \<Rightarrow> int" where
  "penalty_paise adj b rules =
     (if \<exists>r \<in> set rules. tr_kind r = PENALTY \<and> tr_head r = PROPERTY
      then \<Sum>r\<leftarrow>filter (\<lambda>r. tr_kind r = PENALTY \<and> tr_head r = PROPERTY) rules. adj r
      else nb_penalty b)
     + (\<Sum>r\<leftarrow>filter (\<lambda>r. tr_kind r = PENALTY \<and> tr_head r = WATER) rules. adj r)"

definition code_adjusted :: "paise_base \<Rightarrow> rule_amounts" where
  "code_adjusted b r = code_adjustment (head_paise b (tr_head r)) r"

abbreviation adjustments_paise :: "paise_base \<Rightarrow> tax_rule list \<Rightarrow> int" where
  "adjustments_paise b rules \<equiv> \<Sum>r\<leftarrow>rules. code_adjusted b r"

definition good_base :: "paise_base \<Rightarrow> bool" where
  "good_base b \<longleftrightarrow> 0 \<le> nb_property b \<and> 0 \<le> nb_water b \<and> 0 \<le> nb_drainage b \<and> 0 \<le> nb_penalty b"

definition assessed_bound :: "paise_base \<Rightarrow> tax_rule list \<Rightarrow> int \<Rightarrow> int" where
  "assessed_bound b rules arrears =
     nb_property b + nb_water b + nb_drainage b + nb_penalty b
     + (\<Sum>r\<leftarrow>rules. head_paise b (tr_head r)) + max 0 arrears"

text \<open>What the assessment means: the same computation on whole paise, with exact sums.\<close>

definition assess_paise :: "rule_amounts \<Rightarrow> paise_base \<Rightarrow> tax_rule list \<Rightarrow> int \<Rightarrow> int \<Rightarrow> assessment" where
  "assess_paise adj b rules arrears paid =
     (let penalty = penalty_paise adj b rules; rebate = rebate_paise adj rules;
          current = max 0 (nb_property b + nb_water b + nb_drainage b + penalty - rebate);
          ttl = current + max 0 arrears
      in \<lparr>pa_propertyTax = paise (nb_property b), pa_waterTax = paise (nb_water b),
          pa_drainageTax = paise (nb_drainage b), pa_penalty = paise penalty, pa_rebate = paise rebate,
          pa_currentDemand = paise current, pa_arrears = paise (max 0 arrears),
          pa_totalPayable = paise ttl, pa_amountPaid = paise (max 0 paid),
          pa_outstanding = paise (max 0 (ttl - max 0 paid))\<rparr>)"

lemma adjustments_fold:
  assumes "good_base b" "in_column (nb_property b)" "in_column (nb_water b)"
    and "\<forall>r \<in> set rs. 0 \<le> tr_value r" "0 \<le> a" "in_column (a + adjustments_paise b rs)"
    and "\<forall>r \<in> set rs. amount r = applyHeadAdjustment (paise (head_paise b (tr_head r))) r"
  shows "sum_money amount (paise a) rs = paise (a + adjustments_paise b rs)"
proof -
  have h: "0 \<le> head_paise b h" "in_column (head_paise b h)" for h
    using assms(1-3) by (cases h; simp add: head_paise_def good_base_def)+
  show ?thesis
    using assms(4-7) code_adjustment[OF h]
    by (intro sum_money_paise) (simp_all add: code_adjusted_def)
qed

lemma adjustments_nonneg:
  assumes "good_base b" "\<forall>r \<in> set rs. 0 \<le> tr_value r"
  shows "0 \<le> adjustments_paise b rs"
proof -
  have h: "0 \<le> paise (head_paise b h)" for h
    using assms(1) by (cases h) (simp_all add: head_paise_def good_base_def paise_nonneg)
  show ?thesis unfolding code_adjusted_def code_adjustment_def
    using assms(2) applyHeadAdjustment_nonneg[OF h] by (intro sum_list_nonneg) (auto intro!: paise_of_nonneg)
qed

text \<open>The balance \<open>roundMoney(max(0, a + b + c + d - e))\<close> of five money amounts is exact.\<close>

lemma near_of:
  assumes "0 \<le> n" "n \<le> m" "in_column m"
  shows "near_paise 1 1 (paise n) n"
  using in_column_mono[OF assms(3,1,2)] by (rule near_paise_self)

lemma current_demand_exact:
  assumes "0 \<le> p" "0 \<le> w" "0 \<le> d" "0 \<le> q" "0 \<le> r" "in_column (p + w + d + q + r)"
  shows "roundMoney (max 0 (fl (fl (fl (fl (paise p + paise w) + paise d) + paise q) - paise r)))
    = paise (max 0 (p + w + d + q - r))"
proof -
  note n = near_of[OF _ _ assms(6)]
  have "near_paise 2 4 (fl (paise p + paise w)) (p + w)"
    using near_add[OF n n, of p w] assms by (simp add: numeral_eq_Suc)
  then have "near_paise 3 8 (fl (fl (paise p + paise w) + paise d)) (p + w + d)"
    using near_add[OF _ n, of 2 4 _ _ d] assms by (simp add: numeral_eq_Suc)
  then have "near_paise 4 13 (fl (fl (fl (paise p + paise w) + paise d) + paise q)) (p + w + d + q)"
    using near_add[OF _ n, of 3 8 _ _ q] assms by (simp add: numeral_eq_Suc)
  then have "near_paise 5 19 (fl (fl (fl (fl (paise p + paise w) + paise d) + paise q) - paise r)) (p + w + d + q - r)"
    using near_sub[OF _ n, of 4 13 _ _ r] assms by (simp add: numeral_eq_Suc)
  from near_max[OF this] show ?thesis by (rule roundMoney_near) auto
qed

lemma adjustments_le:
  assumes "good_base b" "in_column (nb_property b)" "in_column (nb_water b)"
    and "\<forall>r \<in> set rules. 0 \<le> tr_value r"
  shows "adjustments_paise b (filter P rules) + adjustments_paise b (filter Q (filter (\<lambda>r. \<not> P r) rules))
    + adjustments_paise b (filter R (filter (\<lambda>r. \<not> Q r) (filter (\<lambda>r. \<not> P r) rules)))
    \<le> (\<Sum>r\<leftarrow>rules. head_paise b (tr_head r))"
proof -
  have h: "0 \<le> head_paise b h" "in_column (head_paise b h)" for h
    using assms(1-3) by (cases h; simp add: head_paise_def good_base_def)+
  show ?thesis using assms(4)
  proof (induction rules)
    case (Cons r rules)
    then show ?case
      using code_adjustment(3)[OF h, of r "tr_head r"] h(1)[of "tr_head r"] by (simp add: code_adjusted_def)
  qed simp
qed

lemma penalty_filters:
  "filter (\<lambda>r. tr_kind r \<noteq> REBATE \<and> tr_kind r = PENALTY \<and> tr_head r = PROPERTY) rules
    = rules_for PENALTY PROPERTY rules"
  "filter (\<lambda>r. tr_kind r \<noteq> REBATE \<and> (tr_kind r = PENALTY \<longrightarrow> tr_head r \<noteq> PROPERTY) \<and>
      tr_kind r = PENALTY \<and> tr_head r = WATER) rules = rules_for PENALTY WATER rules"
  by (auto simp: rules_for_def intro!: filter_cong)

lemma assessed_heads:
  assumes "good_base b" "in_column (assessed_bound b rules arrears)"
  shows "0 \<le> head_paise b h" "in_column (head_paise b h)"
proof -
  have h: "0 \<le> head_paise b h" for h
    using assms(1) by (cases h) (simp_all add: head_paise_def good_base_def)
  then have "0 \<le> (\<Sum>r\<leftarrow>rules. head_paise b (tr_head r))" by (intro sum_list_nonneg) auto
  then show "0 \<le> head_paise b h" "in_column (head_paise b h)"
    using h assms by (auto simp: head_paise_def good_base_def assessed_bound_def
        intro!: in_column_mono[OF assms(2)] split: rule_head.splits)
qed

lemma code_adjusted_by:
  assumes "good_base b" "\<forall>r \<in> set rules. 0 \<le> tr_value r"
    and "in_column (assessed_bound b rules arrears)"
  shows "adjusted_by b rules (code_adjusted b)"
  using assms(2) adjusts_code[OF assessed_heads[OF assms(1,3)]]
  by (auto simp: adjusted_by_def code_adjusted_def)

lemma assessment_in_paise:
  assumes "good_base b" "\<forall>r \<in> set rules. 0 \<le> tr_value r"
    and "in_column (assessed_bound b rules arrears)" "in_column arrears" "in_column paid"
  shows "computePropertyAssessment
      \<lparr>as_base = base_of_paise b ttl, as_rules = Some rules, as_arrears = Some (paise arrears),
       as_amountPaid = Some (paise paid)\<rparr> = assess_paise (code_adjusted b) b rules arrears paid"
proof -
  let ?pp = "rules_for PENALTY PROPERTY rules" and ?wp = "rules_for PENALTY WATER rules"
  let ?rb = "filter (\<lambda>r. tr_kind r = REBATE) rules"
  let ?A = "adjustments_paise b" and ?apply = "\<lambda>h. applyHeadAdjustment (paise h)"
  let ?pen0 = "if ?pp \<noteq> [] then ?A ?pp else nb_penalty b"
  have v: "\<forall>r \<in> set (filter P rules). 0 \<le> tr_value r" for P using assms(2) by auto
  have nn: "0 \<le> ?A ?rb" "0 \<le> ?A ?pp" "0 \<le> ?A ?wp"
    using adjustments_nonneg[OF assms(1) v] by (simp_all add: rules_for_def)
  have b0: "0 \<le> nb_property b" "0 \<le> nb_water b" "0 \<le> nb_drainage b" "0 \<le> nb_penalty b"
    using assms(1) by (auto simp: good_base_def)
  have pen: "penalty_paise (code_adjusted b) b rules = ?pen0 + ?A ?wp"
    "rebate_paise (code_adjusted b) rules = ?A ?rb" "0 \<le> ?pen0"
    using nn b0 by (auto simp: penalty_paise_def rebate_paise_def rules_for_def filter_empty_conv)
  have start: "in_column (nb_property b)" "in_column (nb_water b)"
    using assessed_heads(2)[OF assms(1,3), of PROPERTY] assessed_heads(2)[OF assms(1,3), of WATER]
    by (simp_all add: head_paise_def)
  have le: "?A ?rb + ?A ?pp + ?A ?wp \<le> (\<Sum>r\<leftarrow>rules. head_paise b (tr_head r))"
    using adjustments_le[OF assms(1) start assms(2), of "\<lambda>r. tr_kind r = REBATE"
        "\<lambda>r. tr_kind r = PENALTY \<and> tr_head r = PROPERTY" "\<lambda>r. tr_kind r = PENALTY \<and> tr_head r = WATER"]
    by (simp add: penalty_filters)
  define top where "top = nb_property b + nb_water b + nb_drainage b + (?pen0 + ?A ?wp) + ?A ?rb + max 0 arrears
    + (if ?pp \<noteq> [] then nb_penalty b else 0)"
  have "top \<le> assessed_bound b rules arrears"
    using le b0 nn by (simp add: top_def assessed_bound_def)
  then have bound: "in_column top" using b0 nn pen(3) by (intro in_column_mono[OF assms(3)]) (simp_all add: top_def)
  note bound = bound[unfolded top_def]
  have col: "in_column (nb_property b)" "in_column (nb_water b)" "in_column (nb_drainage b)"
    "in_column (nb_penalty b)" "in_column ?pen0" "in_column (?pen0 + ?A ?wp)" "in_column (?A ?rb)"
    "in_column (nb_property b + nb_water b + nb_drainage b + (?pen0 + ?A ?wp) + ?A ?rb)"
    using nn b0 pen(3) by (auto intro!: in_column_mono[OF bound])
  have rebate: "sum_money
      (\<lambda>r. applyHeadAdjustment (if tr_head r = WATER then paise (nb_water b) else paise (nb_property b)) r) 0 ?rb
      = paise (?A ?rb)"
    using adjustments_fold[OF assms(1) col(1,2) v, of 0 "\<lambda>r. tr_kind r = REBATE"] col(7)
    by (simp add: head_paise_def split: rule_head.splits)
  have pen0: "(if ?pp \<noteq> [] then sum_money (?apply (nb_property b)) 0 ?pp
      else roundMoney (paise (nb_penalty b))) = paise ?pen0"
  proof (cases "?pp = []")
    case True
    then show ?thesis using roundMoney_paise[OF col(4)] by simp
  next
    case False
    then have "in_column (?A ?pp)" using col(5) by simp
    then have "sum_money (?apply (nb_property b)) 0 ?pp = paise (?A ?pp)"
      using adjustments_fold[OF assms(1) col(1,2), of ?pp 0 "?apply (nb_property b)"] v
      by (simp add: rules_for_def head_paise_def)
    then show ?thesis using False by simp
  qed
  have pen1: "sum_money (?apply (nb_water b)) (paise ?pen0) ?wp = paise (?pen0 + ?A ?wp)"
    using adjustments_fold[OF assms(1) col(1,2), of ?wp ?pen0 "?apply (nb_water b)"] v pen(3) col(6)
    by (simp add: rules_for_def head_paise_def)
  let ?current = "max 0 (nb_property b + nb_water b + nb_drainage b + (?pen0 + ?A ?wp) - ?A ?rb)"
  have pw: "0 \<le> ?pen0 + ?A ?wp" using pen(3) nn(3) by linarith
  note cur = current_demand_exact[OF b0(1-3) pw nn(1) col(8)]
  have arr: "roundMoney (max 0 (paise arrears)) = paise (max 0 arrears)" by (rule roundMoney_max[OF assms(4)])
  have paid: "roundMoney (max 0 (paise paid)) = paise (max 0 paid)" by (rule roundMoney_max[OF assms(5)])
  have sums: "in_column ?current" "in_column (max 0 arrears)" "in_column (?current + max 0 arrears)"
    "in_column (max 0 paid)"
    using b0 nn pen(3) in_column_max[OF assms(4)] in_column_max[OF assms(5)]
    by (auto intro!: in_column_mono[OF bound])
  have tot: "roundMoney (fl (paise ?current + paise (max 0 arrears))) = paise (?current + max 0 arrears)"
    by (rule roundMoney_add[OF sums(1,2)])
  have out: "roundMoney (max 0 (fl (paise (?current + max 0 arrears) - paise (max 0 paid))))
      = paise (max 0 (?current + max 0 arrears - max 0 paid))"
    by (rule roundMoney_sub_max[OF sums(3,4)])
  show ?thesis
    unfolding computePropertyAssessment_def assess_paise_def pen(1,2) Let_def base_of_paise_def
    by (simp only: assessment_input.simps tax_base.simps nullish_simps roundMoney_paise[OF col(1)]
        roundMoney_paise[OF col(2)] roundMoney_paise[OF col(3)] rebate pen0 pen1 cur arr paid tot out)
qed

text \<open>C1. The assessment computes in floating point what exact arithmetic on paise computes: for base
  amounts, arrears and payments that are whole paise within the range of the money columns and
  rules of non-negative value, every rule comes to a flat sum or a percentage of its head rounded to
  the paisa, bounded by its cap and by its head (\<open>adjusts\<close>), and every field of the result is the
  integer sum of these amounts: the rebate over the rebate rules, the penalty over the property
  penalty rules, which replace the base penalty, and the water penalty rules, the demand, the
  arrears, the payable total and what is outstanding.\<close>

theorem assessment_refines_paise:
  assumes "good_base b" "\<forall>r \<in> set rules. 0 \<le> tr_value r"
    and "in_column (assessed_bound b rules arrears)" "in_column arrears" "in_column paid"
  shows "\<exists>adj. adjusted_by b rules adj \<and> computePropertyAssessment
      \<lparr>as_base = base_of_paise b ttl, as_rules = Some rules, as_arrears = Some (paise arrears),
       as_amountPaid = Some (paise paid)\<rparr> = assess_paise adj b rules arrears paid"
  using assessment_in_paise[OF assms] code_adjusted_by[OF assms(1-3)] by blast

subsection \<open>The export tax\<close>

definition nonneg_rates :: "rate_table \<Rightarrow> bool" where
  "nonneg_rates r \<longleftrightarrow>
     0 \<le> rt_assessablePct r \<and> 0 \<le> rt_commercialAssessablePct r \<and> 0 \<le> rt_propertyTaxPct r
     \<and> 0 \<le> rt_waterTaxPct r \<and> 0 \<le> rt_drainageTaxPct r"

text \<open>An amount the code computed: the result of a rounding that is not negative.\<close>

definition amount_like :: "js_number \<Rightarrow> bool" where
  "amount_like x \<longleftrightarrow> (\<exists>n \<ge> 0. x = paise n)"

lemma amount_like_0 [simp]: "amount_like 0"
  unfolding amount_like_def by (rule exI[of _ 0]) simp

lemma amount_like_round: "0 \<le> x \<Longrightarrow> amount_like (roundMoney x)"
  using paise_of_nonneg by (auto simp: amount_like_def roundMoney_alt)

lemma amount_like_nonneg: "amount_like x \<Longrightarrow> 0 \<le> x"
  by (auto simp: amount_like_def paise_nonneg)

lemma amount_like_pct: "0 \<le> x \<Longrightarrow> 0 \<le> p \<Longrightarrow> amount_like (pct_of x p)"
  unfolding pct_of_def by (intro amount_like_round b64.rnd_nonneg mult_nonneg_nonneg fl_pct_nonneg)

lemma amount_like_alv:
  assumes "0 \<le> a" "0 \<le> r" "0 \<le> apct" "0 \<le> ppct"
  shows "amount_like (fa_assessableAlv (computeFloorAlv a r apct ppct))"
    "amount_like (fa_propertyTax (computeFloorAlv a r apct ppct))"
  using gross_nonneg[OF assms(1,2)] assms(3,4)
  by (simp_all add: computeFloorAlv_alt Let_def amount_like_pct pct_of_nonneg)

lemma resolveAssessablePct_nonneg:
  "0 \<le> residentialPct opts \<Longrightarrow> 0 \<le> commercialPct opts \<Longrightarrow> 0 \<le> resolveAssessablePct u v w opts g"
  by (simp add: resolveAssessablePct_def Let_def)

lemma resolveUsageRateMult_cases: "resolveUsageRateMult u v w g \<in> {1, 2}"
  by (simp add: resolveUsageRateMult_def Let_def)

lemma resolveEffectiveMonthlyRate_nonneg:
  assumes "0 \<le> b"
  shows "0 \<le> resolveEffectiveMonthlyRate b u v w g"
proof -
  have "0 \<le> resolveUsageRateMult u v w g" using resolveUsageRateMult_cases[of u v w g] by auto
  then show ?thesis using assms unfolding resolveEffectiveMonthlyRate_def
    by (intro roundMoney_nonneg b64.rnd_nonneg mult_nonneg_nonneg)
qed

text \<open>The floors that are taxed, and the totals of the loop over them.\<close>

definition rated_floors :: "export_input \<Rightarrow> export_floor list" where
  "rated_floors inp = filter (\<lambda>f. \<not> base_rate inp (ef_constructionCode f) \<le> 0) (ei_floors inp)"

lemma floor_step_totals:
  "ac_propertyTax (floor_step inp g acc f) =
     (if base_rate inp (ef_constructionCode f) \<le> 0 then ac_propertyTax acc
      else roundMoney (fl (ac_propertyTax acc + fa_propertyTax (floor_tax inp g f))))"
  "ac_assessableAlv (floor_step inp g acc f) =
     (if base_rate inp (ef_constructionCode f) \<le> 0 then ac_assessableAlv acc
      else roundMoney (fl (ac_assessableAlv acc + fa_assessableAlv (floor_tax inp g f))))"
  by (simp_all add: floor_step_def Let_def)

lemma floor_loop_totals:
  "ac_propertyTax (floor_loop inp g) =
     sum_money (\<lambda>f. fa_propertyTax (floor_tax inp g f)) 0 (rated_floors inp)"
  "ac_assessableAlv (floor_loop inp g) =
     sum_money (\<lambda>f. fa_assessableAlv (floor_tax inp g f)) 0 (rated_floors inp)"
proof -
  have "ac_propertyTax (foldl (floor_step inp g) acc fs) =
      sum_money (\<lambda>f. fa_propertyTax (floor_tax inp g f)) (ac_propertyTax acc)
        (filter (\<lambda>f. \<not> base_rate inp (ef_constructionCode f) \<le> 0) fs)" for acc fs
    by (induction fs arbitrary: acc) (simp_all add: floor_step_totals)
  then show "ac_propertyTax (floor_loop inp g) =
      sum_money (\<lambda>f. fa_propertyTax (floor_tax inp g f)) 0 (rated_floors inp)"
    by (simp add: floor_loop_def rated_floors_def floor_start_def)
  have "ac_assessableAlv (foldl (floor_step inp g) acc fs) =
      sum_money (\<lambda>f. fa_assessableAlv (floor_tax inp g f)) (ac_assessableAlv acc)
        (filter (\<lambda>f. \<not> base_rate inp (ef_constructionCode f) \<le> 0) fs)" for acc fs
    by (induction fs arbitrary: acc) (simp_all add: floor_step_totals)
  then show "ac_assessableAlv (floor_loop inp g) =
      sum_money (\<lambda>f. fa_assessableAlv (floor_tax inp g f)) 0 (rated_floors inp)"
    by (simp add: floor_loop_def rated_floors_def floor_start_def)
qed

lemma sum_money_amount_like:
  "amount_like s \<Longrightarrow> \<forall>x \<in> set xs. amount_like (amount x) \<Longrightarrow> amount_like (sum_money amount s xs)"
proof (induction xs arbitrary: s)
  case (Cons x xs)
  have "0 \<le> s" "0 \<le> amount x" using Cons.prems by (auto dest: amount_like_nonneg)
  then have "amount_like (roundMoney (fl (s + amount x)))"
    by (intro amount_like_round b64.rnd_nonneg add_nonneg_nonneg)
  then show ?case using Cons by simp
qed simp

definition nonneg_export :: "export_input \<Rightarrow> bool" where
  "nonneg_export inp \<longleftrightarrow>
     nonneg_rates (ei_rates inp) \<and> list_all (\<lambda>f. 0 \<le> ef_areaSqFt f) (ei_floors inp)"

lemma floor_tax_amount:
  assumes "nonneg_export inp" "f \<in> set (rated_floors inp)"
  shows "amount_like (fa_propertyTax (floor_tax inp g f))" "amount_like (fa_assessableAlv (floor_tax inp g f))"
proof -
  have "0 \<le> ef_areaSqFt f" "0 \<le> base_rate inp (ef_constructionCode f)" and r: "nonneg_rates (ei_rates inp)"
    using assms by (auto simp: nonneg_export_def list_all_iff rated_floors_def)
  moreover have "0 \<le> floor_rate inp g f"
    unfolding floor_rate_def by (rule resolveEffectiveMonthlyRate_nonneg) fact
  moreover have "0 \<le> resolveAssessablePct u v w (export_opts inp) g'" for u v w g'
    using r by (intro resolveAssessablePct_nonneg) (auto simp: export_opts_def nonneg_rates_def)
  ultimately show "amount_like (fa_propertyTax (floor_tax inp g f))"
    "amount_like (fa_assessableAlv (floor_tax inp g f))"
    unfolding floor_tax_def by (auto intro!: amount_like_alv simp: nonneg_rates_def)
qed

lemma area_fallback_amount:
  assumes "nonneg_export inp" "area_fallback inp (floor_loop inp g) = (pt, alv)"
  shows "amount_like pt" "amount_like alv"
proof -
  have r: "nonneg_rates (ei_rates inp)" using assms(1) by (simp add: nonneg_export_def)
  have l: "amount_like (ac_propertyTax (floor_loop inp g))" "amount_like (ac_assessableAlv (floor_loop inp g))"
    using floor_tax_amount[OF assms(1)] unfolding floor_loop_totals
    by (auto intro!: sum_money_amount_like)
  have p: "0 \<le> resolveAssessablePct u v w (export_opts inp) g'" for u v w g'
    using r by (intro resolveAssessablePct_nonneg) (auto simp: export_opts_def nonneg_rates_def)
  have q: "0 \<le> rt_propertyTaxPct (ei_rates inp)" using r by (simp add: nonneg_rates_def)
  show "amount_like pt" "amount_like alv"
    using assms(2) l amount_like_alv[OF _ _ p q]
    by (auto simp: area_fallback_def Let_def split: if_splits)
qed

lemma export_tax_cases:
  assumes "computeSurveyExportTax inp = Inr x"
  obtains pt alv where "area_fallback inp (floor_loop inp (export_gis_class inp)) = (pt, alv)"
    and "trim (ei_taxRateZoneCode inp) \<noteq> []"
    and "\<not> export_open_land inp \<Longrightarrow> xt_propertyTax x = pt"
    and "\<not> export_open_land inp \<Longrightarrow> xt_waterTax x = pct_of alv (rt_waterTaxPct (ei_rates inp))"
    and "\<not> export_open_land inp \<Longrightarrow> xt_drainageTax x = pct_of alv (rt_drainageTaxPct (ei_rates inp))"
    and "export_open_land inp \<Longrightarrow> xt_waterTax x = 0 \<and> xt_drainageTax x = 0"
    and "export_open_land inp \<Longrightarrow> xt_propertyTax x = pt \<or>
      (let a = toTaxNumber (opt_value (ei_plotAreaSqFt inp)); r = open_land_rate inp in
       0 < a \<and> 0 < r \<and> xt_propertyTax x = fa_propertyTax (computeFloorAlv a r 100 (rt_propertyTaxPct (ei_rates inp))))"
    and "xt_penalty x = (if rt_penaltyPct (ei_rates inp) > 0
           then pct_of (xt_propertyTax x) (rt_penaltyPct (ei_rates inp)) else 0)"
    and "xt_totalDemand x = (if export_open_land inp then roundMoney (fl (xt_propertyTax x + xt_penalty x))
           else roundMoney (fl (fl (fl (xt_propertyTax x + xt_waterTax x) + xt_drainageTax x) + xt_penalty x)))"
proof -
  obtain pt alv where f: "area_fallback inp (floor_loop inp (export_gis_class inp)) = (pt, alv)"
    by (cases "area_fallback inp (floor_loop inp (export_gis_class inp))")
  show thesis
    by (rule that[OF f])
      (use assms f in \<open>auto simp: computeSurveyExportTax_def computeDemandTotals_def Let_def split: if_splits\<close>)
qed

text \<open>C8. When the export tax of a survey is computed, the four heads are non-negative whole paise and the total demand is their exact integer sum (rates and floor areas
  non-negative, total within the money column). Open land pays no water and no drainage tax.\<close>

theorem export_total_is_exact_sum:
  assumes "computeSurveyExportTax inp = Inr x" "nonneg_export inp" "xt_totalDemand x < 1000000000000"
  shows "\<exists>p w d q. 0 \<le> p \<and> 0 \<le> w \<and> 0 \<le> d \<and> 0 \<le> q \<and> xt_propertyTax x = paise p \<and>
    xt_waterTax x = paise w \<and> xt_drainageTax x = paise d \<and> xt_penalty x = paise q \<and>
    xt_totalDemand x = paise (p + w + d + q) \<and> in_column (p + w + d + q) \<and>
    (export_open_land inp \<longrightarrow> w = 0 \<and> d = 0)"
  using assms(1)
proof (cases rule: export_tax_cases)
  case (1 pt alv)
  have r: "0 \<le> rt_propertyTaxPct (ei_rates inp)" "0 \<le> rt_waterTaxPct (ei_rates inp)"
    "0 \<le> rt_drainageTaxPct (ei_rates inp)"
    using assms(2) by (auto simp: nonneg_export_def nonneg_rates_def)
  note am = area_fallback_amount[OF assms(2) 1(1)]
  have "amount_like (xt_propertyTax x)"
    using 1(3,7) am r by (cases "export_open_land inp") (auto simp: Let_def intro!: amount_like_alv)
  moreover have "amount_like (xt_penalty x)"
    using 1(8) amount_like_pct amount_like_nonneg[OF calculation] by simp
  ultimately obtain p q where pq: "0 \<le> p" "xt_propertyTax x = paise p" "0 \<le> q" "xt_penalty x = paise q"
    unfolding amount_like_def by blast
  show ?thesis
  proof (cases "export_open_land inp")
    case True
    then show ?thesis
      using pq 1(6,9) round_add_exact[OF pq(1,3)] assms(3)
      by (intro exI[of _ p] exI[of _ 0] exI[of _ q]) simp
  next
    case False
    have "amount_like (xt_waterTax x)" "amount_like (xt_drainageTax x)"
      using False 1(4,5) r amount_like_nonneg[OF am(2)] by (auto intro!: amount_like_pct)
    then obtain w d where wd: "0 \<le> w" "xt_waterTax x = paise w" "0 \<le> d" "xt_drainageTax x = paise d"
      unfolding amount_like_def by blast
    have tot: "xt_totalDemand x = roundMoney (fl (fl (fl (paise p + paise w) + paise d) + paise q))"
      using 1(9) False pq wd by simp
    show ?thesis
      using round_add4_exact[OF pq(1) wd(1,3) pq(3)] assms(3) pq wd False
      by (intro exI[of _ p] exI[of _ w] exI[of _ d] exI[of _ q]) (simp add: tot)
  qed
qed

lemma export_error_iff: "computeSurveyExportTax inp = Inl e \<longleftrightarrow> trim (ei_taxRateZoneCode inp) = []"
  by (cases e) (auto simp: computeSurveyExportTax_def Let_def split: prod.splits if_splits)

definition sample_rates :: rate_table where
  "sample_rates =
     \<lparr>rt_assessablePct = 50, rt_commercialAssessablePct = 100, rt_propertyTaxPct = 25, rt_waterTaxPct = 25,
      rt_drainageTaxPct = 50, rt_penaltyPct = 25,
      rt_rateByZoneAndConstruction =
        [''BELOW_9M::TIN_SHED'' \<mapsto> 2, ''BELOW_9M::RCC'' \<mapsto> 5],
      rt_anyRateByZone = [''BELOW_9M'' \<mapsto> 5]\<rparr>"

definition sample_floor :: "string \<Rightarrow> string \<Rightarrow> js_number \<Rightarrow> string \<Rightarrow> export_floor" where
  "sample_floor key con area use =
     \<lparr>ef_floorKey = key, ef_constructionCode = con, ef_usageResidential = True, ef_areaSqFt = area,
      ef_usageType = Some use, ef_usageFactor = None\<rparr>"

definition sample_export :: export_input where
  "sample_export =
     \<lparr>ei_taxRateZoneCode = ''BELOW_9M'', ei_propertyUse = None, ei_hasMunicipalWater = None,
      ei_gisUseCode = Some ''R'', ei_surveyId = None,
      ei_floors = [sample_floor ''Ground Floor'' ''RCC'' 800 ''Shop'',
                   sample_floor ''First Floor'' ''TIN_SHED'' 600 ''Residential''],
      ei_plotAreaSqFt = Some 1000, ei_plinthAreaSqFt = None, ei_totalBuiltUpAreaSqFt = None,
      ei_rates = sample_rates\<rparr>"

definition export_total :: "export_error + export_tax \<Rightarrow> js_number" where
  "export_total r = (case r of Inr x \<Rightarrow> xt_totalDemand x | Inl _ \<Rightarrow> 0)"

lemmas sample_defs = sample_export_def sample_floor_def sample_rates_def

lemma sample_zone: "trim (ei_taxRateZoneCode sample_export) = ''BELOW_9M''"
  by (simp add: trim_def is_space_def sample_defs)

lemma sample_base_rates:
  "base_rate sample_export ''RCC'' = 5" "base_rate sample_export ''TIN_SHED'' = 2"
  by (simp_all add: base_rate_def sample_zone taxRateKey_def, simp_all add: sample_defs)

lemma sample_class: "export_gis_class sample_export = Some Residential"
  by code_simp

lemma sample_floor_taxes:
  "map (\<lambda>f. fa_propertyTax (floor_tax sample_export (Some Residential) f)) (ei_floors sample_export) = [6000, 1800]"
  "map (\<lambda>f. fa_assessableAlv (floor_tax sample_export (Some Residential) f)) (ei_floors sample_export) = [24000, 7200]"
  "rated_floors sample_export = ei_floors sample_export"
proof -
  have f: "ei_floors sample_export =
      [sample_floor ''Ground Floor'' ''RCC'' 800 ''Shop'', sample_floor ''First Floor'' ''TIN_SHED'' 600 ''Residential'']"
    by (simp add: sample_export_def)
  have c: "ef_constructionCode (sample_floor k c a u) = c" "ef_areaSqFt (sample_floor k c a u) = a" for k c a u
    by (simp_all add: sample_floor_def)
  show "map (\<lambda>f. fa_propertyTax (floor_tax sample_export (Some Residential) f)) (ei_floors sample_export) = [6000, 1800]"
    "map (\<lambda>f. fa_assessableAlv (floor_tax sample_export (Some Residential) f)) (ei_floors sample_export) = [24000, 7200]"
    unfolding f
    by (simp_all add: floor_tax_def c sample_base_rates floor_rate_def rate_gis_class_def
        resolveEffectiveMonthlyRate_def resolveUsageRateMult_def resolveAssessablePct_def
        computeFloorAlv_def Let_def export_opts_def, simp_all add: sample_defs)
  show "rated_floors sample_export = ei_floors sample_export"
    unfolding rated_floors_def f by (simp add: c sample_base_rates)
qed

lemma sample_result:
  obtains x where "computeSurveyExportTax sample_export = Inr x" "xt_propertyTax x = 7800"
    "xt_totalDemand x = 33150" "\<not> export_open_land sample_export" "nonneg_export sample_export"
    "list_ex (\<lambda>f. ef_areaSqFt f > 0) (ei_floors sample_export)"
proof -
  have o: "\<not> export_open_land sample_export" by (simp add: export_open_land_def sample_class)
  have a: "list_ex (\<lambda>f. ef_areaSqFt f > 0) (ei_floors sample_export)" by (simp add: sample_defs)
  obtain x where x: "computeSurveyExportTax sample_export = Inr x"
    using export_error_iff[of sample_export] sample_zone
    by (cases "computeSurveyExportTax sample_export") auto
  have s: "ac_propertyTax (floor_loop sample_export (Some Residential)) = 7800"
    "ac_assessableAlv (floor_loop sample_export (Some Residential)) = 31200"
    using sample_floor_taxes unfolding floor_loop_totals sample_floor_taxes(3)
    by (auto simp: sample_export_def)
  then have f: "area_fallback sample_export (floor_loop sample_export (Some Residential)) = (7800, 31200)"
    by (simp add: area_fallback_def)
  have p: "rt_waterTaxPct (ei_rates sample_export) = 25" "rt_drainageTaxPct (ei_rates sample_export) = 50"
    "rt_penaltyPct (ei_rates sample_export) = 25"
    by (simp_all add: sample_defs)
  have n: "nonneg_export sample_export" by (simp add: nonneg_export_def sample_defs nonneg_rates_def)
  show thesis
    by (rule that[OF x _ _ o n a])
      (use x o f p in \<open>auto simp: computeSurveyExportTax_def sample_zone sample_class computeDemandTotals_def
          pct_of_def Let_def\<close>)
qed

lemma export_total_is_exact_sum_witness:
  "\<exists>x p w d q. computeSurveyExportTax sample_export = Inr x \<and> xt_totalDemand x = paise (p + w + d + q) \<and>
     xt_waterTax x = paise w \<and> 0 \<le> w"
proof -
  obtain x where x: "computeSurveyExportTax sample_export = Inr x" "xt_totalDemand x = 33150"
    "nonneg_export sample_export" by (rule sample_result)
  then show ?thesis using export_total_is_exact_sum[OF x(1,3)] by auto
qed

text \<open>When a built survey has a floor with an area, its property tax is the exact sum, in paise,
  of the taxes of its rated floors (those whose zone and construction have a published rate).\<close>

lemma property_tax_floor_sum:
  assumes "computeSurveyExportTax inp = Inr x" "nonneg_export inp" "\<not> export_open_land inp"
    and "list_ex (\<lambda>f. ef_areaSqFt f > 0) (ei_floors inp)" "xt_propertyTax x < 1000000000000"
  shows "xt_propertyTax x = paise (\<Sum>f\<leftarrow>rated_floors inp.
           paise_of (fa_propertyTax (floor_tax inp (export_gis_class inp) f)))"
  using assms(1)
proof (cases rule: export_tax_cases)
  case (1 pt alv)
  let ?t = "\<lambda>f. fa_propertyTax (floor_tax inp (export_gis_class inp) f)"
  have "pt = ac_propertyTax (floor_loop inp (export_gis_class inp))"
    using 1(1) assms(4) by (simp add: area_fallback_def)
  then have pt: "xt_propertyTax x = sum_money ?t (paise 0) (rated_floors inp)"
    using 1(3)[OF assms(3)] by (simp add: floor_loop_totals)
  have am: "amount_like (?t f)" if "f \<in> set (rated_floors inp)" for f
    using floor_tax_amount(1)[OF assms(2) that] .
  have ex: "\<exists>g. \<forall>f \<in> set (rated_floors inp). ?t f = paise (g f) \<and> 0 \<le> g f"
    using am unfolding amount_like_def by (intro bchoice) auto
  then obtain g where g: "\<forall>f \<in> set (rated_floors inp). ?t f = paise (g f) \<and> 0 \<le> g f" ..
  note e = sum_money_exact[OF g order_refl, unfolded pt[symmetric], OF assms(5)]
  have "g f = paise_of (?t f)" if f: "f \<in> set (rated_floors inp)" for f
  proof -
    have "g f \<le> (\<Sum>f\<leftarrow>rated_floors inp. g f)" using f g by (intro member_le_sum_list) auto
    then have "in_column (g f)" using e g f in_column_mono by auto
    then show ?thesis using g f by (simp add: paise_of_paise)
  qed
  then have m: "map g (rated_floors inp) = map (\<lambda>f. paise_of (?t f)) (rated_floors inp)" by simp
  have "xt_propertyTax x = paise (sum_list (map g (rated_floors inp)))" using e by simp
  then show ?thesis by (simp only: m)
qed

lemma property_tax_floor_sum_witness:
  "\<exists>x. computeSurveyExportTax sample_export = Inr x \<and> xt_propertyTax x =
     paise (\<Sum>f\<leftarrow>rated_floors sample_export. paise_of (fa_propertyTax (floor_tax sample_export (Some Residential) f)))"
proof -
  obtain x where x: "computeSurveyExportTax sample_export = Inr x" "nonneg_export sample_export"
    "\<not> export_open_land sample_export" "list_ex (\<lambda>f. ef_areaSqFt f > 0) (ei_floors sample_export)"
    "xt_propertyTax x = 7800" by (rule sample_result)
  then show ?thesis
    using property_tax_floor_sum[OF x(1-4)] by (simp add: sample_class)
qed

definition sample_base :: paise_base where
  "sample_base = \<lparr>nb_property = 100000, nb_water = 20000, nb_drainage = 5000, nb_penalty = 700\<rparr>"

definition sample_rules :: "tax_rule list" where
  "sample_rules =
     [\<lparr>tr_kind = REBATE, tr_head = PROPERTY, tr_method = PERCENT_OF_HEAD, tr_value = 25, tr_cap = None\<rparr>,
      \<lparr>tr_kind = PENALTY, tr_head = WATER, tr_method = FLAT_AMOUNT, tr_value = 50, tr_cap = Some 20\<rparr>]"

lemma sample_adjustments:
  assumes "adjusted_by sample_base sample_rules adj"
  shows "rebate_paise adj sample_rules = 25000" "penalty_paise adj sample_base sample_rules = 2700"
proof -
  have whole: "rounds_to 25000 k \<Longrightarrow> k = 25000" "rounds_to 5000 k \<Longrightarrow> k = 5000"
    "rounds_to 2000 k \<Longrightarrow> k = 2000" for k
    using rounds_to_whole[of 25000 k] rounds_to_whole[of 5000 k] rounds_to_whole[of 2000 k]
    by (simp_all add: in_column_def)
  have "adj (sample_rules ! 0) = 25000" "adj (sample_rules ! 1) = 2000"
    using assms by (auto simp: adjusted_by_def sample_rules_def sample_base_def adjusts_def rule_amount_def
        head_paise_def dest!: whole)
  then show "rebate_paise adj sample_rules = 25000" "penalty_paise adj sample_base sample_rules = 2700"
    by (simp_all add: rebate_paise_def penalty_paise_def sample_rules_def sample_base_def)
qed

lemma sample_in_bounds:
  "good_base sample_base" "\<forall>r \<in> set sample_rules. 0 \<le> tr_value r"
  "in_column (assessed_bound sample_base sample_rules 30000)" "in_column 30000" "in_column 50000"
  by (simp_all add: good_base_def sample_base_def sample_rules_def assessed_bound_def head_paise_def in_column_def)

lemma assessment_refines_paise_witness:
  "\<exists>a. a = computePropertyAssessment
      \<lparr>as_base = base_of_paise sample_base 0, as_rules = Some sample_rules, as_arrears = Some (paise 30000),
       as_amountPaid = Some (paise 50000)\<rparr> \<and>
     pa_rebate a = paise 25000 \<and> pa_penalty a = paise 2700 \<and> pa_outstanding a = paise 82700"
proof -
  obtain adj where adj: "adjusted_by sample_base sample_rules adj" "computePropertyAssessment
      \<lparr>as_base = base_of_paise sample_base 0, as_rules = Some sample_rules, as_arrears = Some (paise 30000),
       as_amountPaid = Some (paise 50000)\<rparr> = assess_paise adj sample_base sample_rules 30000 50000"
    using assessment_refines_paise[OF sample_in_bounds, of 0] by blast
  show ?thesis unfolding adj(2) assess_paise_def sample_adjustments[OF adj(1)] Let_def
    by (simp add: sample_base_def)
qed

end
