(* ===== verification/Receipts.thy ===== *)
theory Receipts
  imports TaxCalc
begin

text \<open>
  Counter payments and receipts: the guards of \<open>payments/offline-rules.ts\<close>, the balance after a
  payment, the waterfall that shows how a payment was applied to the tax heads
  (\<open>payments/receipt-allocation.ts\<close>), the frozen receipt snapshot
  (\<open>payments/receipt-snapshot.ts\<close>) and the replay guards of \<open>payments/payments.safety.ts\<close>.

  Lemmas: the tolerance of the amount guard accepts no overpayment in paise; the waterfall applies
  exactly the payment, and within the dues no head gets more than its unpaid part; the redaction of a
  payload takes away card data and nothing else.
\<close>

datatype payment_mode = ONLINE | CASH | CHEQUE | DD | UPI_MANUAL | OTHER

datatype payment_status =
  INITIATED | PENDING | SUCCESS | FAILED | CANCELLED | REFUNDED | PARTIALLY_REFUNDED

datatype offline_error =
    UseOnlineEndpoint | InvalidPaymentMode | ReferenceRequired | InvalidAmount | NoOutstanding
  | AmountExceedsOutstanding | DemandUnpublished

definition OFFLINE_PAYMENT_MODES :: "payment_mode list" where
  "OFFLINE_PAYMENT_MODES = [CASH, CHEQUE, DD, UPI_MANUAL, OTHER]"

definition MODES_REQUIRING_REFERENCE :: "payment_mode list" where
  "MODES_REQUIRING_REFERENCE = [CHEQUE, DD, UPI_MANUAL]"

definition AMOUNT_EPS :: js_number where
  "AMOUNT_EPS = fl (5/1000)"

definition assertOfflinePaymentMode :: "payment_mode \<Rightarrow> offline_error + unit" where
  "assertOfflinePaymentMode mode =
     (if mode = ONLINE then Inl UseOnlineEndpoint
      else if mode \<notin> set OFFLINE_PAYMENT_MODES then Inl InvalidPaymentMode
      else Inr ())"

definition assertOfflineReference :: "payment_mode \<Rightarrow> string option \<Rightarrow> offline_error + unit" where
  "assertOfflineReference mode chequeDdReference =
     (if mode \<in> set MODES_REQUIRING_REFERENCE \<and> blank_opt chequeDdReference
      then Inl ReferenceRequired else Inr ())"

definition assertOfflineAmountAgainstOutstanding :: "js_number \<Rightarrow> js_number \<Rightarrow> offline_error + unit" where
  "assertOfflineAmountAgainstOutstanding amount outstanding =
     (if \<not> amount > 0 then Inl InvalidAmount
      else if outstanding \<le> 0 then Inl NoOutstanding
      else if amount > fl (outstanding + AMOUNT_EPS) then Inl AmountExceedsOutstanding
      else Inr ())"

definition computeOutstandingAfterPayment ::
  "js_number \<Rightarrow> js_number \<Rightarrow> js_number \<Rightarrow> js_number \<times> js_number" where
  "computeOutstandingAfterPayment totalPayable amountPaidBefore paymentAmount =
     (let amountPaid = roundMoney (fl (amountPaidBefore + paymentAmount));
          outstanding = roundMoney (max 0 (fl (totalPayable - amountPaid)))
      in (amountPaid, outstanding))"

subsection \<open>Replay guards\<close>

definition shouldReprocessProcessedCallback :: "bool \<Rightarrow> bool \<Rightarrow> payment_status \<Rightarrow> bool" where
  "shouldReprocessProcessedCallback existingProcessed newStatusIsSuccess paymentStatus =
     (if \<not> existingProcessed then True
      else if \<not> newStatusIsSuccess then False
      else paymentStatus \<noteq> SUCCESS \<and> paymentStatus \<noteq> REFUNDED \<and> paymentStatus \<noteq> PARTIALLY_REFUNDED)"

definition isAtomRefundSuccess :: "bool \<Rightarrow> string \<Rightarrow> bool" where
  "isAtomRefundSuccess responseOk statusCode \<longleftrightarrow>
     responseOk \<and> (statusCode = ''OTS0000'' \<or> toUpperCase statusCode = ''SUCCESS'')"

text \<open>JSON payloads, and the removal of card data at any depth before they are stored.\<close>

datatype json =
    JNull
  | JBool bool
  | JNum js_number
  | JStr string
  | JArr "json list"
  | JObj "(string \<times> json) list"

function redactSensitivePaymentPayload :: "json \<Rightarrow> json" where
  "redactSensitivePaymentPayload payload =
     (case payload of
        JArr items \<Rightarrow> JArr (map redactSensitivePaymentPayload items)
      | JObj entries \<Rightarrow>
          JObj (map (\<lambda>(key, child). (key, redactSensitivePaymentPayload child))
                 (filter (\<lambda>(key, child). key \<noteq> ''cardDetails'') entries))
      | _ \<Rightarrow> payload)"
  by pat_completeness auto
termination
proof (relation "measure size")
  show "wf (measure size)" by simp
next
  fix payload items item
  assume "payload = JArr items" "item \<in> set items"
  then show "(item, payload) \<in> measure size"
    by (simp add: less_Suc_eq_le size_list_estimation' less_imp_le)
next
  fix payload entries x key child
  assume "payload = JObj entries" "x \<in> set (filter (\<lambda>(key, child). key \<noteq> ''cardDetails'') entries)"
    "(key, child) = x"
  then have "(key, child) \<in> set entries" by auto
  then have "size child \<le> size_list (size_prod (\<lambda>_. 0) size) entries"
    by (intro size_list_estimation'[where x = "(key, child)"]) auto
  then show "(child, payload) \<in> measure size" using \<open>payload = JObj entries\<close> by simp
qed

declare redactSensitivePaymentPayload.simps [simp del]

lemma redact_simps [simp]:
  "redactSensitivePaymentPayload JNull = JNull"
  "redactSensitivePaymentPayload (JBool b) = JBool b"
  "redactSensitivePaymentPayload (JNum n) = JNum n"
  "redactSensitivePaymentPayload (JStr s) = JStr s"
  "redactSensitivePaymentPayload (JArr items) = JArr (map redactSensitivePaymentPayload items)"
  "redactSensitivePaymentPayload (JObj entries) =
     JObj (map (\<lambda>(key, child). (key, redactSensitivePaymentPayload child))
            (filter (\<lambda>(key, child). key \<noteq> ''cardDetails'') entries))"
  by (subst redactSensitivePaymentPayload.simps, simp)+

text \<open>A payload without card data.\<close>

inductive no_card_data :: "json \<Rightarrow> bool" where
  "no_card_data JNull" | "no_card_data (JBool b)" | "no_card_data (JNum n)" | "no_card_data (JStr s)"
| "\<forall>x \<in> set items. no_card_data x \<Longrightarrow> no_card_data (JArr items)"
| "\<forall>(k, v) \<in> set entries. k \<noteq> ''cardDetails'' \<and> no_card_data v \<Longrightarrow> no_card_data (JObj entries)"

inductive_simps no_card_data_simps [simp]:
  "no_card_data JNull" "no_card_data (JBool b)" "no_card_data (JNum n)" "no_card_data (JStr s)"
  "no_card_data (JArr items)" "no_card_data (JObj entries)"

lemma redact_no_card_data: "no_card_data (redactSensitivePaymentPayload j)"
proof (induction j rule: redactSensitivePaymentPayload.induct)
  case (1 payload)
  then show ?case
  proof (cases payload)
    case (JArr items)
    then show ?thesis using 1(1)[OF JArr] by simp
  next
    case (JObj entries)
    then show ?thesis using 1(2)[OF JObj] by auto
  qed simp_all
qed

lemma redact_id: "no_card_data j \<Longrightarrow> redactSensitivePaymentPayload j = j"
proof (induction j rule: redactSensitivePaymentPayload.induct)
  case (1 payload)
  show ?case
  proof (cases payload)
    case (JArr items)
    then show ?thesis using 1 by (simp add: map_idI)
  next
    case (JObj entries)
    then have k: "filter (\<lambda>(key, child). key \<noteq> ''cardDetails'') entries = entries"
      using 1(3) by (auto simp: filter_id_conv)
    have "(k, redactSensitivePaymentPayload v) = (k, v)" if "(k, v) \<in> set entries" for k v
      using 1(2)[OF JObj, of "(k, v)" k v] 1(3) that JObj by (auto simp: k)
    then have "map (\<lambda>(key, child). (key, redactSensitivePaymentPayload child)) entries = entries"
      by (intro map_idI) auto
    then show ?thesis using JObj k by simp
  qed simp_all
qed

text \<open>The places of a payload are named by paths of keys and indexes; the label of a place is its value
  when it is plain, the length of a list, the keys of an object in order.\<close>

datatype json_step = Key string | Index nat

datatype json_label = Plain json | Items nat | Keys "string list"

fun json_at :: "json \<Rightarrow> json_step list \<Rightarrow> json option" where
  "json_at j [] = Some j"
| "json_at (JObj entries) (Key k # path) =
     (case map_of entries k of None \<Rightarrow> None | Some child \<Rightarrow> json_at child path)"
| "json_at (JArr items) (Index i # path) = (if i < length items then json_at (items ! i) path else None)"
| "json_at j (s # path) = None"

fun label_of :: "json \<Rightarrow> json_label" where
  "label_of (JArr items) = Items (length items)"
| "label_of (JObj entries) = Keys (map fst entries)"
| "label_of j = Plain j"

fun hide_card :: "json_label \<Rightarrow> json_label" where
  "hide_card (Keys ks) = Keys (filter (\<lambda>k. k \<noteq> ''cardDetails'') ks)"
| "hide_card l = l"

lemma map_of_redacted:
  "map_of (map (\<lambda>(key, child). (key, f child)) (filter (\<lambda>(key, child). key \<noteq> c) entries)) k =
     (if k = c then None else map_option f (map_of entries k))"
  by (induction entries) auto

lemma label_of_redacted: "label_of (redactSensitivePaymentPayload j) = hide_card (label_of j)"
proof (cases j)
  case (JObj entries)
  have "map fst (map (\<lambda>(key, child). (key, f child)) (filter (\<lambda>(key, child). key \<noteq> c) es)) =
      filter (\<lambda>k. k \<noteq> c) (map fst es)" for f :: "json \<Rightarrow> json" and c :: string and es
    by (induction es) auto
  then show ?thesis by (simp add: JObj)
qed simp_all

lemma json_at_redacted:
  "json_at (redactSensitivePaymentPayload j) path =
     (if Key ''cardDetails'' \<in> set path then None
      else map_option redactSensitivePaymentPayload (json_at j path))"
proof (induction j path rule: json_at.induct)
  case (2 entries k path)
  show ?case
  proof (cases "map_of entries k")
    case None
    then show ?thesis by (simp add: map_of_redacted)
  next
    case (Some child)
    show ?thesis using 2[OF Some] by (simp add: map_of_redacted Some)
  qed
next
  case (3 items i path)
  then show ?case by (cases "i < length items") auto
qed simp_all

text \<open>C33. A stored gateway payload never contains card data at any depth, and nothing else changes: each
  place whose path does not go through card data still exists and holds the same value, a list of the
  same length, or an object with the same keys in the same order without the card data, and no place is
  added. A payload without card data is stored as it is, and redacting twice is redacting once.\<close>

theorem redaction_removes_card_data:
  "no_card_data (redactSensitivePaymentPayload j) \<and>
   (\<forall>path. map_option label_of (json_at (redactSensitivePaymentPayload j) path) =
      (if Key ''cardDetails'' \<in> set path then None
       else map_option (\<lambda>v. hide_card (label_of v)) (json_at j path))) \<and>
   (redactSensitivePaymentPayload j = j \<longleftrightarrow> no_card_data j) \<and>
   redactSensitivePaymentPayload (redactSensitivePaymentPayload j) = redactSensitivePaymentPayload j"
proof (intro conjI allI)
  show "map_option label_of (json_at (redactSensitivePaymentPayload j) path) =
      (if Key ''cardDetails'' \<in> set path then None
       else map_option (\<lambda>v. hide_card (label_of v)) (json_at j path))" for path
    by (simp add: json_at_redacted label_of_redacted option.map_comp o_def)
qed (use redact_no_card_data redact_id in metis)+

lemma redaction_removes_card_data_witness:
  "json_at (redactSensitivePaymentPayload
     (JObj [(''amount'', JNum 10), (''payInstrument'', JArr [JObj [(''cardDetails'', JStr ''4111''), (''bank'', JStr ''SBI'')]])]))
     [Key ''payInstrument'', Index 0, Key ''cardDetails''] = None \<and>
   map_option label_of (json_at (redactSensitivePaymentPayload
     (JObj [(''amount'', JNum 10), (''payInstrument'', JArr [JObj [(''cardDetails'', JStr ''4111''), (''bank'', JStr ''SBI'')]])]))
     [Key ''payInstrument'', Index 0, Key ''bank'']) = Some (Plain (JStr ''SBI''))"
proof -
  let ?j = "JObj [(''amount'', JNum 10), (''payInstrument'', JArr [JObj [(''cardDetails'', JStr ''4111''), (''bank'', JStr ''SBI'')]])]"
  note r = redaction_removes_card_data[of ?j, THEN conjunct2, THEN conjunct1, rule_format]
  show ?thesis
    using r[of "[Key ''payInstrument'', Index 0, Key ''cardDetails'']"]
      r[of "[Key ''payInstrument'', Index 0, Key ''bank'']"] by simp
qed

subsection \<open>The amount guard and the balance\<close>

lemma guard_threshold:
  assumes "0 < m" "in_column m" "in_column n"
  shows "paise n \<le> fl (paise m + AMOUNT_EPS) \<longleftrightarrow> n \<le> m"
proof -
  let ?s = "paise m + AMOUNT_EPS"
  have eps: "\<bar>AMOUNT_EPS - 5/1000\<bar> \<le> 1/100000"
    using fl_err_num[of "5/1000"] unfolding AMOUNT_EPS_def by simp
  have m: "\<bar>paise m - of_int m / 100\<bar> \<le> 1/9000" and n: "\<bar>paise n - of_int n / 100\<bar> \<le> 1/9000"
    using near_paise_self[OF assms(2)] near_paise_self[OF assms(3)] by (auto simp: near_paise_def)
  have "\<bar>of_int m :: rat\<bar> < 100000000000000"
    using assms(2) unfolding in_column_def of_int_abs [symmetric] by linarith
  then have big: "\<bar>?s\<bar> \<le> 1000000000001" using m eps by linarith
  have "\<bar>fl ?s - ?s\<bar> \<le> \<bar>?s\<bar> / 9007199254740992" by (rule fl_err_num)
  also have "\<dots> \<le> 1000000000001 / 9007199254740992" using big by (intro divide_right_mono) auto
  also have "\<dots> \<le> 1/8000" by simp
  finally have s: "\<bar>fl ?s - ?s\<bar> \<le> 1/8000" .
  show ?thesis
  proof
    assume "n \<le> m"
    then have "paise n \<le> paise m" by (rule paise_mono)
    then show "paise n \<le> fl ?s" using s eps by linarith
  next
    assume "paise n \<le> fl ?s"
    then have "(of_int n :: rat) / 100 < of_int m / 100 + 1/100" using s eps m n by linarith
    then have "(of_int n :: rat) < of_int (m + 1)" by simp
    then show "n \<le> m" unfolding of_int_less_iff by simp
  qed
qed

lemma offline_amount_iff:
  assumes "in_column n" "in_column m"
  shows "assertOfflineAmountAgainstOutstanding (paise n) (paise m) = Inr () \<longleftrightarrow> 0 < n \<and> 0 < m \<and> n \<le> m"
proof -
  have "0 < paise n \<longleftrightarrow> 0 < n" "paise m \<le> 0 \<longleftrightarrow> \<not> 0 < m"
    using paise_pos_iff[OF assms(1)] paise_pos_iff[OF assms(2)] by auto
  then show ?thesis
    using guard_threshold[OF _ assms(2,1)]
    by (auto simp: assertOfflineAmountAgainstOutstanding_def not_le [symmetric])
qed

text \<open>C34. The counter accepts an amount against the outstanding balance exactly when it is positive,
  something is outstanding and, to the paisa, it is not more than what is outstanding: the
  tolerance of half a paisa never lets an overpayment through.\<close>

theorem offline_amount_accepted_iff:
  assumes "in_column n" "in_column m"
  shows "assertOfflineAmountAgainstOutstanding (paise n) (paise m) = Inr () \<longleftrightarrow> 0 < n \<and> 0 < m \<and> n \<le> m"
  by (rule offline_amount_iff[OF assms])

lemma offline_amount_accepted_iff_witness:
  "assertOfflineAmountAgainstOutstanding (paise 12345) (paise 12345) = Inr () \<and>
   assertOfflineAmountAgainstOutstanding (paise 12346) (paise 12345) \<noteq> Inr ()"
  using offline_amount_accepted_iff[of 12345 12345] offline_amount_accepted_iff[of 12346 12345]
  by (simp add: in_column_def)

lemma accepted_balance:
  assumes "assertOfflineAmountAgainstOutstanding (paise a) (paise (t - p)) = Inr ()"
    and "0 \<le> p" "p \<le> t" "in_column t" "in_column a"
  shows "computeOutstandingAfterPayment (paise t) (paise p) (paise a) = (paise (p + a), paise (t - (p + a)))
    \<and> p < p + a \<and> p + a \<le> t"
proof -
  have c: "in_column (t - p)" "in_column p"
    using assms(2-4) by (auto intro: in_column_mono[OF assms(4)])
  then have a: "0 < a" "a \<le> t - p"
    using assms(1) offline_amount_iff[OF assms(5) c(1)] by auto
  then have "in_column (p + a)" using assms(2) by (intro in_column_mono[OF assms(4)]) auto
  then show ?thesis
    using a roundMoney_add[OF c(2) assms(5)] roundMoney_sub_max[OF assms(4), of "p + a"]
    by (simp add: computeOutstandingAfterPayment_def max_def)
qed

text \<open>C36. An accepted counter payment keeps the ledger exact: the new paid amount is the sum, the new
  outstanding amount is the payable amount minus it, neither below zero nor above what was due.\<close>

theorem accepted_payment_keeps_balance:
  assumes "assertOfflineAmountAgainstOutstanding (paise a) (paise (t - p)) = Inr ()"
    and "0 \<le> p" "p \<le> t" "in_column t" "in_column a"
  shows "computeOutstandingAfterPayment (paise t) (paise p) (paise a) = (paise (p + a), paise (t - (p + a)))
    \<and> p < p + a \<and> p + a \<le> t"
  by (rule accepted_balance[OF assms])

lemma accepted_payment_keeps_balance_witness:
  "computeOutstandingAfterPayment (paise 100000) (paise 25000) (paise 75000) = (paise 100000, paise 0)"
  using accepted_payment_keeps_balance[of 75000 100000 25000]
    guard_threshold[of 75000 75000] paise_pos_iff[of 75000]
  by (simp add: assertOfflineAmountAgainstOutstanding_def in_column_def not_le [symmetric])

subsection \<open>The receipt waterfall\<close>

record allocation_input =
  al_propertyTax :: js_number
  al_waterTax :: js_number
  al_drainageTax :: js_number
  al_penalty :: js_number
  al_rebate :: js_number
  al_arrears :: js_number
  al_amountPaidAfter :: js_number
  al_amountReceived :: js_number
  al_outstandingAfter :: js_number
  al_assessmentYearName :: "string option"

record allocation_row =
  ar_yearLabel :: string
  ar_propertyTax :: js_number
  ar_waterTax :: js_number
  ar_drainageTax :: js_number
  ar_penaltyAndInterest :: js_number
  ar_arrearsApplied :: js_number
  ar_amountApplied :: js_number
  ar_yearBalanceAfter :: js_number

definition outstandingBeforeFromSnapshot ::
  "js_number \<Rightarrow> js_number \<Rightarrow> js_number \<Rightarrow> js_number \<Rightarrow> js_number" where
  "outstandingBeforeFromSnapshot totalPayable amountPaidAfter amountReceived outstandingAfter =
     (let amountPaidBefore = roundMoney (max 0 (fl (amountPaidAfter - amountReceived)));
          fromPayable = roundMoney (max 0 (fl (totalPayable - amountPaidBefore)));
          fromAfter = roundMoney (fl (outstandingAfter + amountReceived))
      in if \<bar>fl (fromPayable - fromAfter)\<bar> \<le> fl (2/100) then fromPayable else fromAfter)"

text \<open>The heads in waterfall order: arrears, property tax, water tax, drainage tax, penalty. The
  first loop takes what was paid before off the dues, the second applies the payment.\<close>

fun skip_paid :: "js_number list \<Rightarrow> js_number \<Rightarrow> js_number list" where
  "skip_paid [] remainingPaidBefore = []"
| "skip_paid (due # dues) remainingPaidBefore =
     (let skip = min due remainingPaidBefore
      in roundMoney (fl (due - skip)) # skip_paid dues (roundMoney (fl (remainingPaidBefore - skip))))"

fun apply_payment :: "js_number list \<Rightarrow> js_number \<Rightarrow> js_number list" where
  "apply_payment [] remainingPayment = []"
| "apply_payment (unpaid # us) remainingPayment =
     (let take = min unpaid remainingPayment
      in roundMoney take # apply_payment us (roundMoney (fl (remainingPayment - take))))"

definition sum5 :: "js_number list \<Rightarrow> js_number" where
  "sum5 xs = roundMoney (fl (fl (fl (fl (xs ! 0 + xs ! 1) + xs ! 2) + xs ! 3) + xs ! 4))"

definition allocation_dues :: "allocation_input \<Rightarrow> js_number list" where
  "allocation_dues inp =
     [roundMoney (max 0 (al_arrears inp)),
      roundMoney (max 0 (fl (al_propertyTax inp - \<bar>al_rebate inp\<bar>))),
      roundMoney (max 0 (al_waterTax inp)),
      roundMoney (max 0 (al_drainageTax inp)),
      roundMoney (max 0 (al_penalty inp))]"

text \<open>The remainder goes to the last head with an applied or unpaid amount; the property head, at
  position 1, takes it when no later head does.\<close>

definition absorb_remainder :: "js_number list \<Rightarrow> js_number list \<Rightarrow> js_number \<Rightarrow> js_number list" where
  "absorb_remainder unpaid applied delta =
     (case find (\<lambda>k. applied ! k > 0 \<or> unpaid ! k > 0 \<or> k = 1) [4, 3, 2, 1, 0] of
        Some k \<Rightarrow> applied[k := roundMoney (fl (applied ! k + delta))]
      | None \<Rightarrow> applied)"

definition buildReceiptAllocation :: "allocation_input \<Rightarrow> allocation_row" where
  "buildReceiptAllocation inp =
     (let yearLabel = or_text (nullish (map_option trim (al_assessmentYearName inp)) []) em_dash;
          amountPaidBefore = roundMoney (max 0 (fl (al_amountPaidAfter inp - al_amountReceived inp)));
          unpaid = skip_paid (allocation_dues inp) amountPaidBefore;
          applied0 = apply_payment unpaid (roundMoney (max 0 (al_amountReceived inp)));
          delta = roundMoney (fl (al_amountReceived inp - sum5 applied0));
          applied = (if \<bar>delta\<bar> \<ge> fl (5/1000) then absorb_remainder unpaid applied0 delta else applied0)
      in \<lparr>ar_yearLabel = yearLabel, ar_propertyTax = applied ! 1, ar_waterTax = applied ! 2,
          ar_drainageTax = applied ! 3, ar_penaltyAndInterest = applied ! 4, ar_arrearsApplied = applied ! 0,
          ar_amountApplied = sum5 applied,
          ar_yearBalanceAfter = roundMoney (max 0 (al_outstandingAfter inp))\<rparr>)"

subsection \<open>The waterfall on paise\<close>

fun skip_int :: "int list \<Rightarrow> int \<Rightarrow> int list" where
  "skip_int [] r = []"
| "skip_int (d # ds) r = (d - min d r) # skip_int ds (r - min d r)"

fun apply_int :: "int list \<Rightarrow> int \<Rightarrow> int list" where
  "apply_int [] r = []"
| "apply_int (u # us) r = min u r # apply_int us (r - min u r)"

definition col_list :: "int list \<Rightarrow> bool" where
  "col_list ns \<longleftrightarrow> (\<forall>n \<in> set ns. 0 \<le> n \<and> in_column n)"

lemma col_list_simps [simp]:
  "col_list []" "col_list (n # ns) \<longleftrightarrow> 0 \<le> n \<and> in_column n \<and> col_list ns"
  by (auto simp: col_list_def)

lemma skip_paid_paise:
  "col_list ds \<Longrightarrow> 0 \<le> r \<Longrightarrow> in_column r \<Longrightarrow>
   skip_paid (map paise ds) (paise r) = map paise (skip_int ds r) \<and> col_list (skip_int ds r)"
proof (induction ds arbitrary: r)
  case (Cons d ds)
  have m: "in_column (min d r)" "in_column (d - min d r)" "in_column (r - min d r)"
    using Cons.prems by (auto simp: min_def intro: in_column_mono[where n = d] in_column_mono[where n = r])
  show ?case
    using Cons.prems Cons.IH[of "r - min d r"] m roundMoney_sub[OF _ m(1), of d] roundMoney_sub[OF _ m(1), of r]
    by (simp add: Let_def paise_min)
qed simp

lemma apply_payment_paise:
  "col_list us \<Longrightarrow> 0 \<le> r \<Longrightarrow> in_column r \<Longrightarrow>
   apply_payment (map paise us) (paise r) = map paise (apply_int us r) \<and> col_list (apply_int us r)"
proof (induction us arbitrary: r)
  case (Cons d us)
  have m: "in_column (min d r)" "in_column (d - min d r)" "in_column (r - min d r)"
    using Cons.prems by (auto simp: min_def intro: in_column_mono[where n = d] in_column_mono[where n = r])
  show ?case
    using Cons.prems Cons.IH[of "r - min d r"] m roundMoney_sub[OF _ m(1), of r] roundMoney_paise[OF m(1)]
    by (simp add: Let_def paise_min)
qed simp

lemma apply_int_sum:
  "\<forall>u \<in> set us. 0 \<le> u \<Longrightarrow> 0 \<le> r \<Longrightarrow> sum_list (apply_int us r) = min (sum_list us) r"
proof (induction us arbitrary: r)
  case (Cons u us)
  have "0 \<le> sum_list us" using Cons.prems by (intro sum_list_nonneg) auto
  then show ?case using Cons.prems Cons.IH[of "r - min u r"] by (auto simp: min_def)
qed simp

lemma skip_int_sum:
  "\<forall>d \<in> set ds. 0 \<le> d \<Longrightarrow> 0 \<le> r \<Longrightarrow> sum_list (skip_int ds r) = sum_list ds - min (sum_list ds) r"
proof (induction ds arbitrary: r)
  case (Cons d ds)
  have "0 \<le> sum_list ds" using Cons.prems by (intro sum_list_nonneg) auto
  then show ?case using Cons.prems Cons.IH[of "r - min d r"] by (auto simp: min_def)
qed simp

lemma length_waterfall [simp]: "length (apply_int us r) = length us" "length (skip_int us r) = length us"
  by (induction us arbitrary: r) simp_all

lemma apply_int_le: "\<forall>u \<in> set us. 0 \<le> u \<Longrightarrow> 0 \<le> r \<Longrightarrow> k < length us \<Longrightarrow>
   0 \<le> apply_int us r ! k \<and> apply_int us r ! k \<le> us ! k"
proof (induction us arbitrary: r k)
  case (Cons u us)
  then show ?case by (cases k) (auto simp: min_def)
qed simp

lemma sum5_paise:
  assumes "length ns = 5" "col_list ns"
  shows "sum5 (map paise ns) = paise (sum_list ns)"
proof -
  obtain a b c d e where ns: "ns = [a, b, c, d, e]"
    using assms(1) by (auto simp: length_Suc_conv numeral_eq_Suc)
  have c: "in_column a" "in_column b" "in_column c" "in_column d" "in_column e" using assms(2) ns by auto
  have "near_paise 2 4 (fl (paise a + paise b)) (a + b)"
    using near_add[OF near_paise_self[OF c(1)] near_paise_self[OF c(2)]] by (simp add: numeral_eq_Suc)
  then have "near_paise 3 8 (fl (fl (paise a + paise b) + paise c)) (a + b + c)"
    using near_add[OF _ near_paise_self[OF c(3)], of 2 4] by (simp add: numeral_eq_Suc)
  then have "near_paise 4 13 (fl (fl (fl (paise a + paise b) + paise c) + paise d)) (a + b + c + d)"
    using near_add[OF _ near_paise_self[OF c(4)], of 3 8] by (simp add: numeral_eq_Suc)
  then have "near_paise 5 19 (fl (fl (fl (fl (paise a + paise b) + paise c) + paise d) + paise e)) (a + b + c + d + e)"
    using near_add[OF _ near_paise_self[OF c(5)], of 4 13] by (simp add: numeral_eq_Suc)
  then have "roundMoney (fl (fl (fl (fl (paise a + paise b) + paise c) + paise d) + paise e)) = paise (a + b + c + d + e)"
    by (rule roundMoney_near) auto
  then show ?thesis by (simp add: sum5_def ns add.assoc)
qed

lemma half_paisa:
  assumes "in_column n" "0 \<le> n"
  shows "fl (5/1000) \<le> \<bar>paise n\<bar> \<longleftrightarrow> n \<noteq> 0"
proof -
  have "\<bar>fl (5/1000) - 5/1000\<bar> \<le> 1/1000" using fl_err_num[of "5/1000"] by simp
  then have eps: "fl (5/1000) \<le> 1/100 - 1/9000" "0 < fl (5/1000)"
    unfolding abs_le_iff by linarith+
  show ?thesis
  proof (cases "n = 0")
    case False
    then have "1 \<le> n" using assms(2) by simp
    then have "1 / 100 \<le> (of_int n :: rat) / 100" by simp
    moreover have "\<bar>paise n - of_int n / 100\<bar> \<le> 1/9000"
      using near_paise_self[OF assms(1)] by (simp add: near_paise_def)
    ultimately have "1/100 - 1/9000 \<le> paise n" unfolding abs_le_iff by linarith
    then show ?thesis using False eps by linarith
  qed (use eps in simp)
qed

record paise_receipt =
  nr_arrears :: int
  nr_property :: int
  nr_water :: int
  nr_drainage :: int
  nr_penalty :: int
  nr_rebate :: int
  nr_paidAfter :: int
  nr_received :: int
  nr_outstanding :: int

definition receipt_of_paise :: "paise_receipt \<Rightarrow> string option \<Rightarrow> allocation_input" where
  "receipt_of_paise r year =
     \<lparr>al_propertyTax = paise (nr_property r), al_waterTax = paise (nr_water r),
      al_drainageTax = paise (nr_drainage r), al_penalty = paise (nr_penalty r),
      al_rebate = paise (nr_rebate r), al_arrears = paise (nr_arrears r),
      al_amountPaidAfter = paise (nr_paidAfter r), al_amountReceived = paise (nr_received r),
      al_outstandingAfter = paise (nr_outstanding r), al_assessmentYearName = year\<rparr>"

definition good_receipt :: "paise_receipt \<Rightarrow> bool" where
  "good_receipt r \<longleftrightarrow>
     col_list [nr_arrears r, nr_property r, nr_water r, nr_drainage r, nr_penalty r, nr_rebate r,
               nr_paidAfter r, nr_received r, nr_outstanding r] \<and> nr_received r \<le> nr_paidAfter r"

definition dues_paise :: "paise_receipt \<Rightarrow> int list" where
  "dues_paise r =
     [nr_arrears r, max 0 (nr_property r - nr_rebate r), nr_water r, nr_drainage r, nr_penalty r]"

lemma length_dues_paise [simp]: "length (dues_paise r) = 5"
  by (simp add: dues_paise_def)

lemma dues_paise:
  assumes "good_receipt r"
  shows "allocation_dues (receipt_of_paise r year) = map paise (dues_paise r)" "col_list (dues_paise r)"
proof -
  have c: "col_list [nr_arrears r, nr_property r, nr_water r, nr_drainage r, nr_penalty r, nr_rebate r]"
    using assms by (simp add: good_receipt_def)
  have m: "in_column (max 0 (nr_property r - nr_rebate r))"
    using c by (auto intro: in_column_mono[where n = "nr_property r"])
  show "col_list (dues_paise r)" using c m by (simp add: dues_paise_def)
  show "allocation_dues (receipt_of_paise r year) = map paise (dues_paise r)"
    using c roundMoney_sub_max[of "nr_property r" "nr_rebate r"]
    by (simp add: allocation_dues_def receipt_of_paise_def dues_paise_def max_absorb2 paise_nonneg
        roundMoney_paise)
qed

text \<open>The waterfall on paise, the remainder included.\<close>

definition applied_paise :: "paise_receipt \<Rightarrow> int list" where
  "applied_paise r =
     (let unpaid = skip_int (dues_paise r) (nr_paidAfter r - nr_received r);
          applied = apply_int unpaid (nr_received r);
          delta = nr_received r - sum_list applied
      in if delta = 0 then applied
         else (case find (\<lambda>k. 0 < applied ! k \<or> 0 < unpaid ! k \<or> k = 1) [4, 3, 2, 1, 0] of
                 Some k \<Rightarrow> applied[k := applied ! k + delta] | None \<Rightarrow> applied))"

lemma absorb_paise:
  assumes "col_list us" "col_list xs" "length us = 5" "length xs = 5" "in_column d" "0 \<le> d"
  shows "absorb_remainder (map paise us) (map paise xs) (paise d) =
    map paise (case find (\<lambda>k. 0 < xs ! k \<or> 0 < us ! k \<or> k = 1) [4, 3, 2, 1, 0] of
                 Some k \<Rightarrow> xs[k := xs ! k + d] | None \<Rightarrow> xs)"
proof -
  have pos: "0 < map paise ys ! k \<longleftrightarrow> 0 < ys ! k" if "k \<in> set [4, 3, 2, 1, 0]" "col_list ys" "length ys = 5" for k ys
  proof -
    have "k < length ys" using that by auto
    then show ?thesis using that(2) by (simp add: col_list_def paise_pos_iff)
  qed
  have f: "find (\<lambda>k. 0 < map paise xs ! k \<or> 0 < map paise us ! k \<or> k = 1) [4, 3, 2, 1, 0] =
      find (\<lambda>k. 0 < xs ! k \<or> 0 < us ! k \<or> k = 1) [4, 3, 2, 1, 0]"
    using pos[OF _ assms(1,3)] pos[OF _ assms(2,4)] by (intro find_cong) auto
  have "roundMoney (fl (map paise xs ! k + paise d)) = paise (xs ! k + d)" if "k < 5" for k
    using that assms(2,4,5) roundMoney_add[of "xs ! k" d] by (simp add: col_list_def)
  then show ?thesis
    unfolding absorb_remainder_def f
    by (auto simp: find_Some_iff map_update less_Suc_eq numeral_eq_Suc split: option.splits)
qed

lemma skip_int_le: "\<forall>d \<in> set ds. 0 \<le> d \<Longrightarrow> 0 \<le> r \<Longrightarrow> k < length ds \<Longrightarrow> skip_int ds r ! k \<le> ds ! k"
proof (induction ds arbitrary: r k)
  case (Cons d ds)
  then show ?case by (cases k) (auto simp: min_def)
qed simp

lemma sum_list_add_at: "k < length xs \<Longrightarrow> sum_list (xs[k := xs ! k + d]) = sum_list xs + (d :: int)"
proof (induction xs arbitrary: k)
  case (Cons x xs)
  then show ?case by (cases k) auto
qed simp

lemma applied_paise_props:
  assumes "good_receipt r"
  shows "length (applied_paise r) = 5" "col_list (applied_paise r)" "sum_list (applied_paise r) = nr_received r"
proof -
  let ?R = "nr_received r"
  define us where "us = skip_int (dues_paise r) (nr_paidAfter r - ?R)"
  define xs where "xs = apply_int us ?R"
  define d where "d = ?R - sum_list xs"
  have g: "0 \<le> ?R" "in_column ?R" "0 \<le> nr_paidAfter r - ?R" "in_column (nr_paidAfter r)"
    using assms by (auto simp: good_receipt_def)
  have "in_column (nr_paidAfter r - ?R)" using g by (intro in_column_mono[OF g(4)]) auto
  then have u: "col_list us" using skip_paid_paise[OF dues_paise(2)[OF assms] g(3)] by (simp add: us_def)
  then have x: "col_list xs" using apply_payment_paise[OF u g(1,2)] by (simp add: xs_def)
  have len: "length xs = 5" by (simp add: xs_def us_def)
  have s: "sum_list xs = min (sum_list us) ?R"
    unfolding xs_def using u g(1) by (intro apply_int_sum) (auto simp: col_list_def)
  let ?f = "find (\<lambda>k. 0 < xs ! k \<or> 0 < us ! k \<or> k = 1) [4, 3, 2, 1, 0]"
  have ap: "applied_paise r = (if d = 0 then xs else (case ?f of Some k \<Rightarrow> xs[k := xs ! k + d] | None \<Rightarrow> xs))"
    by (simp add: applied_paise_def Let_def d_def xs_def us_def)
  have "?f \<noteq> None" by (auto simp: find_None_iff)
  then obtain k where k: "?f = Some k" by auto
  then have "k \<in> set [4, 3, 2, 1, 0]" using find_Some_in by fastforce
  then have k5: "k < 5" by auto
  have xk: "0 \<le> xs ! k" "xs ! k \<le> sum_list xs"
    using x k5 len by (auto simp: col_list_def intro!: member_le_sum_list)
  have d: "0 \<le> d" using s by (simp add: d_def)
  then have "0 \<le> xs ! k + d" "in_column (xs ! k + d)"
    using xk by (auto intro!: in_column_mono[OF g(2)] simp: d_def)
  moreover have "set (xs[k := xs ! k + d]) \<subseteq> insert (xs ! k + d) (set xs)"
    by (rule set_update_subset_insert)
  ultimately have "col_list (xs[k := xs ! k + d])"
    using x unfolding col_list_def by blast
  moreover have "sum_list (xs[k := xs ! k + d]) = ?R"
    using k5 len by (simp add: sum_list_add_at d_def)
  ultimately show "length (applied_paise r) = 5" "col_list (applied_paise r)"
    "sum_list (applied_paise r) = ?R"
    using x len k by (auto simp: ap d_def)
qed

text \<open>C9. The allocation shown on a receipt is faithful: the five heads are non-negative whole paise
  and add up exactly to the amount received. As long as what was paid in all does not exceed the sum of
  the five dues, no head shows more than its due and arrears are served first; what is paid beyond the
  dues is put on a head, so that the total stays the amount received.\<close>

theorem receipt_allocation_exact:
  assumes "good_receipt r"
  shows "let row = buildReceiptAllocation (receipt_of_paise r year); xs = applied_paise r in
    map paise xs = [ar_arrearsApplied row, ar_propertyTax row, ar_waterTax row, ar_drainageTax row,
                    ar_penaltyAndInterest row] \<and>
    col_list xs \<and> sum_list xs = nr_received r \<and> ar_amountApplied row = paise (nr_received r) \<and>
    (nr_paidAfter r \<le> sum_list (dues_paise r) \<longrightarrow>
       (\<forall>k < 5. xs ! k \<le> dues_paise r ! k) \<and>
       xs ! 0 = min (nr_received r) (nr_arrears r - min (nr_arrears r) (nr_paidAfter r - nr_received r)))"
proof -
  let ?R = "nr_received r" and ?B = "nr_paidAfter r - nr_received r"
  let ?us = "skip_int (dues_paise r) ?B"
  let ?xs0 = "apply_int ?us ?R"
  let ?d = "?R - sum_list ?xs0"
  have g: "0 \<le> ?R" "in_column ?R" "0 \<le> ?B" "in_column (nr_paidAfter r)" "in_column (nr_outstanding r)"
    using assms by (auto simp: good_receipt_def)
  have B: "in_column ?B" using g by (intro in_column_mono[OF g(4)]) auto
  note du = dues_paise(1)[OF assms, of year] dues_paise(2)[OF assms]
  have u: "skip_paid (map paise (dues_paise r)) (paise ?B) = map paise ?us" "col_list ?us"
    using skip_paid_paise[OF du(2) g(3) B] by auto
  have x0: "apply_payment (map paise ?us) (paise ?R) = map paise ?xs0" "col_list ?xs0"
    using apply_payment_paise[OF u(2) g(1,2)] by auto
  have len: "length ?us = 5" "length ?xs0 = 5" by simp_all
  have nn: "\<forall>n \<in> set ?us. 0 \<le> n" "\<forall>n \<in> set (dues_paise r). 0 \<le> n"
    using u(2) du(2) by (auto simp: col_list_def)
  have s0: "sum_list ?xs0 = min (sum_list ?us) ?R" by (rule apply_int_sum[OF nn(1) g(1)])
  have "0 \<le> sum_list ?us" using nn(1) by (intro sum_list_nonneg) auto
  then have c: "in_column (sum_list ?xs0)" "in_column ?d" "0 \<le> ?d"
    using s0 g by (auto intro!: in_column_mono[OF g(2)])
  have before: "roundMoney (max 0 (fl (paise (nr_paidAfter r) - paise ?R))) = paise ?B"
    using roundMoney_sub_max[OF g(4,2)] g(3) by (simp add: max_absorb2)
  have rec: "roundMoney (max 0 (paise ?R)) = paise ?R"
    using roundMoney_max[OF g(2)] g(1) by (simp add: max_absorb2)
  have delta: "roundMoney (fl (paise ?R - sum5 (map paise ?xs0))) = paise ?d"
    by (simp add: sum5_paise[OF len(2) x0(2)] roundMoney_sub[OF g(2) c(1)])
  have final: "(if \<bar>paise ?d\<bar> \<ge> fl (5/1000) then absorb_remainder (map paise ?us) (map paise ?xs0) (paise ?d)
      else map paise ?xs0) = map paise (applied_paise r)"
    unfolding half_paisa[OF c(2,3)] absorb_paise[OF u(2) x0(2) len c(2,3)]
    by (simp add: applied_paise_def Let_def)
  note ap = applied_paise_props[OF assms]
  let ?in = "receipt_of_paise r year"
  have row: "buildReceiptAllocation ?in =
      \<lparr>ar_yearLabel = or_text (nullish (map_option trim year) []) em_dash,
       ar_propertyTax = map paise (applied_paise r) ! 1, ar_waterTax = map paise (applied_paise r) ! 2,
       ar_drainageTax = map paise (applied_paise r) ! 3, ar_penaltyAndInterest = map paise (applied_paise r) ! 4,
       ar_arrearsApplied = map paise (applied_paise r) ! 0, ar_amountApplied = paise ?R,
       ar_yearBalanceAfter = roundMoney (max 0 (paise (nr_outstanding r)))\<rparr>"
    unfolding buildReceiptAllocation_def Let_def du(1)
    by (simp only: receipt_of_paise_def allocation_input.simps before rec u(1) x0(1) delta final
        sum5_paise[OF ap(1,2)] ap(3))
  have five: "map paise xs = [map paise xs ! 0, map paise xs ! 1, map paise xs ! 2, map paise xs ! 3, map paise xs ! 4]"
    if "length xs = 5" for xs
    using that by (auto simp: length_Suc_conv numeral_eq_Suc)
  have within: "(\<forall>k < 5. applied_paise r ! k \<le> dues_paise r ! k) \<and>
      applied_paise r ! 0 = min ?R (nr_arrears r - min (nr_arrears r) ?B)"
    if "nr_paidAfter r \<le> sum_list (dues_paise r)"
  proof -
    have "sum_list ?us = sum_list (dues_paise r) - ?B"
      using skip_int_sum[OF nn(2) g(3)] that g by simp
    then have eq: "applied_paise r = ?xs0" using s0 that by (simp add: applied_paise_def Let_def)
    have "?xs0 ! k \<le> dues_paise r ! k" if "k < 5" for k
      using apply_int_le[OF nn(1) g(1), of k] skip_int_le[OF nn(2) g(3), of k] that by fastforce
    moreover have "?xs0 ! 0 = min (nr_arrears r - min (nr_arrears r) ?B) ?R"
      by (simp only: dues_paise_def skip_int.simps(2) apply_int.simps(2) nth_Cons_0)
    ultimately show ?thesis by (simp only: eq min.commute simp_thms) simp
  qed
  show ?thesis
    unfolding Let_def row using five[OF ap(1)] ap within by simp
qed

lemma receipt_allocation_exact_witness:
  "ar_amountApplied (buildReceiptAllocation (receipt_of_paise
     \<lparr>nr_arrears = 5000, nr_property = 20000, nr_water = 3000, nr_drainage = 1000, nr_penalty = 500,
      nr_rebate = 2000, nr_paidAfter = 10000, nr_received = 8000, nr_outstanding = 17500\<rparr> None)) = paise 8000"
proof -
  have "good_receipt \<lparr>nr_arrears = 5000, nr_property = 20000, nr_water = 3000, nr_drainage = 1000,
      nr_penalty = 500, nr_rebate = 2000, nr_paidAfter = 10000, nr_received = 8000, nr_outstanding = 17500\<rparr>"
    by (simp add: good_receipt_def in_column_def)
  from receipt_allocation_exact[OF this, of None] show ?thesis by (simp add: Let_def)
qed

end
