(* ===== verification/WardReport.thy ===== *)
theory WardReport
  imports TaxCalc
begin

text \<open>
  The ward demand report (\<open>apps/api/src/reports/ward-tax-report-excel.ts\<close>): the rate table that a
  tax configuration gives (used by dues, demands and dashboard too), the tax input of a stored
  survey, the header rows, and the 48 cells of a survey's data row. Writing the workbook is not
  modelled.

  Lemmas: the lookups of the rate table, and that every data row has 48 cells, each under the caption
  of the header that says what it holds.
\<close>

subsection \<open>From a tax configuration to a rate table\<close>

record rate_cell =
  rc_roadWidthCode :: string
  rc_constructionCode :: string
  rc_annualRatePerSqFt :: tax_value

record tax_config_rates =
  cf_assessablePct :: tax_value
  cf_commercialAssessablePct :: tax_value
  cf_propertyTaxPct :: tax_value
  cf_waterTaxPct :: tax_value
  cf_drainageTaxPct :: tax_value
  cf_penaltyPct :: tax_value
  cf_cells :: "rate_cell list"

type_synonym rate_maps = "(string \<Rightarrow> js_number option) \<times> (string \<Rightarrow> js_number option)"

definition rate_cell_step :: "rate_maps \<Rightarrow> rate_cell \<Rightarrow> rate_maps" where
  "rate_cell_step maps cell =
     (let key = rc_roadWidthCode cell @ ''::'' @ rc_constructionCode cell;
          rate = toTaxNumber (rc_annualRatePerSqFt cell);
          byKey = (fst maps)(key \<mapsto> rate)
      in if snd maps (rc_roadWidthCode cell) = None \<and> rate > 0
         then (byKey, (snd maps)(rc_roadWidthCode cell \<mapsto> rate))
         else (byKey, snd maps))"

definition is_missing :: "tax_value \<Rightarrow> bool" where
  "is_missing v = (case v of Missing \<Rightarrow> True | _ \<Rightarrow> False)"

definition taxConfigToRateTable :: "'a tax_config_rates_scheme \<Rightarrow> rate_table" where
  "taxConfigToRateTable config =
     (let maps = foldl rate_cell_step (Map.empty, Map.empty) (cf_cells config)
      in \<lparr>rt_assessablePct = toTaxNumber (cf_assessablePct config),
          rt_commercialAssessablePct =
            toTaxNumber (if is_missing (cf_commercialAssessablePct config) then cf_assessablePct config
                         else cf_commercialAssessablePct config),
          rt_propertyTaxPct = toTaxNumber (cf_propertyTaxPct config),
          rt_waterTaxPct = toTaxNumber (cf_waterTaxPct config),
          rt_drainageTaxPct = toTaxNumber (cf_drainageTaxPct config),
          rt_penaltyPct = toTaxNumber (cf_penaltyPct config),
          rt_rateByZoneAndConstruction = fst maps,
          rt_anyRateByZone = snd maps\<rparr>)"

subsection \<open>The tax input of a stored survey\<close>

record survey_floor =
  sf_floorLabel :: string
  sf_usageType :: "string option"
  sf_usageFactor :: "string option"
  sf_buildingType :: "string option"
  sf_areaSqFt :: tax_value

record taxed_survey =
  ts_surveyId :: string
  ts_propertyUse :: "string option"
  ts_taxRateZone :: "string option"
  ts_hasMunicipalWaterSupply :: "bool option"
  ts_plotAreaSqFt :: tax_value
  ts_plinthAreaSqFt :: tax_value
  ts_totalBuiltUpAreaSqFt :: tax_value
  ts_floors :: "survey_floor list"

definition survey_zone :: "'a taxed_survey_scheme \<Rightarrow> string" where
  "survey_zone survey = nullish (mapTaxRateZoneCode (ts_taxRateZone survey)) ''BELOW_9M''"

definition survey_gis_class :: "'a taxed_survey_scheme \<Rightarrow> gis_use_class option" where
  "survey_gis_class survey = resolveSurveyGisUseClass None (Some (ts_surveyId survey))"

definition floor_construction :: "survey_floor \<Rightarrow> string" where
  "floor_construction f = mapConstructionCode (nullish_opt (sf_buildingType f) (sf_usageType f))"

definition survey_floor_input :: "'a taxed_survey_scheme \<Rightarrow> survey_floor \<Rightarrow> export_floor" where
  "survey_floor_input survey f =
     \<lparr>ef_floorKey = sf_floorLabel f, ef_constructionCode = floor_construction f,
      ef_usageResidential = isResidentialUsage (sf_usageType f) (ts_propertyUse survey) (survey_gis_class survey),
      ef_areaSqFt = toTaxNumber (sf_areaSqFt f), ef_usageType = sf_usageType f,
      ef_usageFactor = sf_usageFactor f\<rparr>"

definition survey_export_input :: "'a taxed_survey_scheme \<Rightarrow> rate_table \<Rightarrow> export_input" where
  "survey_export_input survey rates =
     \<lparr>ei_taxRateZoneCode = survey_zone survey, ei_propertyUse = ts_propertyUse survey,
      ei_hasMunicipalWater = ts_hasMunicipalWaterSupply survey, ei_gisUseCode = None,
      ei_surveyId = Some (ts_surveyId survey),
      ei_floors = map (survey_floor_input survey) (ts_floors survey),
      ei_plotAreaSqFt = Some (toTaxNumber (ts_plotAreaSqFt survey)),
      ei_plinthAreaSqFt = Some (toTaxNumber (ts_plinthAreaSqFt survey)),
      ei_totalBuiltUpAreaSqFt = Some (toTaxNumber (ts_totalBuiltUpAreaSqFt survey)),
      ei_rates = rates\<rparr>"

definition survey_tax :: "'a taxed_survey_scheme \<Rightarrow> rate_table \<Rightarrow> export_error + export_tax" where
  "survey_tax survey rates = computeSurveyExportTax (survey_export_input survey rates)"

subsection \<open>Headers\<close>

definition WARD_TAX_COLUMN_COUNT :: nat where
  "WARD_TAX_COLUMN_COUNT = 48"

definition padHeaderRow :: "string list \<Rightarrow> string list" where
  "padHeaderRow cells =
     take WARD_TAX_COLUMN_COUNT (cells @ replicate (WARD_TAX_COLUMN_COUNT - length cells) [])"

definition WARD_TAX_HEADER_ROWS :: "string list list" where
  "WARD_TAX_HEADER_ROWS =
    [padHeaderRow
       [''S N'', ''Survey Id'', ''Owner Name'', ''Owner Father Name'', ''Mobile No'', ''Parcel No'',
        ''Property No'', ''City'', ''Pincode'', ''House No'', ''Colony'', ''Tax Rate Zone'',
        ''Property Use'', ''Road Type'', ''Floors'', '''', '''', '''', '''', '''', '''', '''', '''',
        ''Plot Area SqFt'', ''Plinth Area SqFt'', ''Total Built Up Area SqFt'', ''Total Demand'',
        '''', '''', '''', '''', '''', '''', '''', '''', '''', '''', '''', '''', '''', '''', '''',
        '''', '''', '''', '''', ''''],
     padHeaderRow
       ['''', '''', '''', '''', '''', '''', '''', '''', '''', '''', '''', '''', '''', '''',
        ''Floor'', ''Basement'', '''', ''Ground Floor'', '''', ''First Floor'', '''', ''Second Floor'',
        '''', '''', '''', '''', '''', '''', '''', '''', '''', '''', '''', '''', '''', '''',
        '''', '''', '''', '''', '''', '''', '''', '''', '''', '''', '''', '''', ''''],
     padHeaderRow
       ['''', '''', '''', '''', '''', '''', '''', '''', '''', '''', '''', '''', '''', '''', '''',
        ''Residential'', ''Non-Residential'', ''Residential'', ''Non-Residential'', ''Residential'',
        ''Non-Residential'', ''Residential'', ''Non-Residential'', '''', '''', '''',
        ''Residential'', '''', '''', '''', '''', '''', '''', '''', ''Non-Residential'', '''', '''',
        '''', '''', '''', '''', '''', '''', ''Open Land'', '''', '''', '''', ''Total Tax''],
     padHeaderRow
       ['''', '''', '''', '''', '''', '''', '''', '''', '''', '''', '''', '''', '''', '''', '''',
        '''', '''', '''', '''', '''', '''', '''', '''', '''', '''', '''', ''RCC'', ''T.Rate'',
        ''Tax'', ''TEEN'', ''T.Rate'', ''Tax'', ''KACCHA'', ''T.Rate'', ''Tax'', ''RCC'',
        ''T.Rate'', ''Tax'', ''TEEN'', ''T.Rate'', ''Tax'', ''KACCHA'', ''T.Rate'', ''Tax'', ''Plot Area'',
        ''Plot T.Rete'', ''Plot Tax'', '''']]"

subsection \<open>A data row\<close>

record report_survey = taxed_survey +
  rs_ownerName :: "string option"
  rs_ownerFatherName :: "string option"
  rs_mobile :: "string option"
  rs_parcelNo :: "string option"
  rs_propertyNo :: "string option"
  rs_city :: "string option"
  rs_pincode :: "string option"
  rs_houseNo :: "string option"
  rs_colony :: "string option"
  rs_roadType :: "string option"
  rs_floorsRaw :: "string option"

text \<open>In \<open>floorsAbbrev\<close> the pattern's group is a non-empty prefix of a trimmed, non-empty part, so
  both alternatives of its \<open>??\<close> give the part's first character.\<close>

definition floorsAbbrev :: "string option \<Rightarrow> string" where
  "floorsAbbrev raw =
     (if blank_opt raw then []
      else
       (let parts = filter (\<lambda>p. p \<noteq> []) (map trim (split_char (CHR '','') (the raw)))
        in if parts = [] then toUpperCase (take 1 (the raw))
           else concat (map (\<lambda>p. toUpperCase [hd p]) parts)))"

text \<open>\<open>for (i) row[base + i] = cells[i]\<close>\<close>

fun put_cells :: "nat \<Rightarrow> cell list \<Rightarrow> cell list \<Rightarrow> cell list" where
  "put_cells k [] row = row"
| "put_cells k (c # cs) row = put_cells (Suc k) cs (row[k := c])"

definition buildWardTaxDataRow :: "'a report_survey_scheme \<Rightarrow> nat \<Rightarrow> rate_table \<Rightarrow> export_error + cell list" where
  "buildWardTaxDataRow survey sn rates =
     (let txt = (\<lambda>v. Txt (nullish v []));
          row0 = replicate WARD_TAX_COLUMN_COUNT (Txt []);
          row1 = put_cells 0
            [Num (of_nat sn), Txt (ts_surveyId survey), txt (rs_ownerName survey), txt (rs_ownerFatherName survey),
             (case rs_mobile survey of Some m \<Rightarrow> Txt m | None \<Rightarrow> Num 0), txt (rs_parcelNo survey),
             txt (rs_propertyNo survey), txt (rs_city survey), txt (rs_pincode survey), txt (rs_houseNo survey),
             txt (rs_colony survey), txt (ts_taxRateZone survey), txt (ts_propertyUse survey),
             txt (rs_roadType survey), Txt (floorsAbbrev (rs_floorsRaw survey))] row0
      in bind_res (survey_tax survey rates) (\<lambda>tax.
         let row2 = put_cells 15 (map Num (xt_floorAreaBySlot tax)) row1;
             row3 = put_cells 23 (map (\<lambda>v. Num (toTaxNumber v))
               [ts_plotAreaSqFt survey, ts_plinthAreaSqFt survey, ts_totalBuiltUpAreaSqFt survey]) row2;
             row4 = put_cells 26 (xt_residentialTaxCells tax) row3;
             row5 = put_cells 35 (xt_nonResidentialTaxCells tax) row4;
             areaSum = foldl (\<lambda>a b. fl (a + b)) 0 (xt_floorAreaBySlot tax);
             row6 = put_cells 44
               [Num (or_num (toTaxNumber (ts_plotAreaSqFt survey)) areaSum), xt_plotRate tax, xt_plotTax tax,
                Num (xt_totalDemand tax)] row5
         in Inr row6))"

definition ward_tax_sheet :: "string \<Rightarrow> 'a report_survey_scheme list \<Rightarrow> rate_table \<Rightarrow> export_error + cell list list" where
  "ward_tax_sheet wardName surveys rates =
     (let banner = map Txt (wardName # replicate (WARD_TAX_COLUMN_COUNT - 1) []);
          header = map (map Txt) WARD_TAX_HEADER_ROWS
      in foldl (\<lambda>acc (index, survey). bind_res acc (\<lambda>rows.
             bind_res (buildWardTaxDataRow survey (index + 1) rates) (\<lambda>row. Inr (rows @ [row]))))
           (Inr (banner # header)) (zip [0..<length surveys] surveys))"

subsection \<open>What the rate table answers\<close>

lemma rate_cell_step_maps:
  "fst (rate_cell_step m c) =
     (fst m)(taxRateKey (rc_roadWidthCode c) (rc_constructionCode c) \<mapsto> toTaxNumber (rc_annualRatePerSqFt c))"
  "snd (rate_cell_step m c) =
     (if snd m (rc_roadWidthCode c) = None \<and> 0 < toTaxNumber (rc_annualRatePerSqFt c)
      then (snd m)(rc_roadWidthCode c \<mapsto> toTaxNumber (rc_annualRatePerSqFt c)) else snd m)"
  by (simp_all add: rate_cell_step_def Let_def taxRateKey_def)

lemma rate_cells_by_key:
  "fst (foldl rate_cell_step m cells) =
     fst m ++ map_of (rev (map (\<lambda>c. (taxRateKey (rc_roadWidthCode c) (rc_constructionCode c),
                                     toTaxNumber (rc_annualRatePerSqFt c))) cells))"
  by (induction cells arbitrary: m) (simp_all add: rate_cell_step_maps)

lemma rate_cells_any:
  "snd (foldl rate_cell_step m cells) =
     map_of (map (\<lambda>c. (rc_roadWidthCode c, toTaxNumber (rc_annualRatePerSqFt c)))
       (filter (\<lambda>c. 0 < toTaxNumber (rc_annualRatePerSqFt c)) cells)) ++ snd m"
proof (induction cells arbitrary: m)
  case (Cons c cells)
  show ?case
    unfolding foldl_Cons Cons.IH rate_cell_step_maps
    by (auto simp: fun_eq_iff map_add_def split: option.splits)
qed simp

text \<open>The rate table of a configuration: a zone and construction is rated by the last cell with
  that key, and a zone's fallback rate is its first cell with a positive rate, so every fallback
  rate is positive.\<close>

theorem rate_table_lookups:
  "rt_rateByZoneAndConstruction (taxConfigToRateTable config) key =
     map_of (rev (map (\<lambda>c. (taxRateKey (rc_roadWidthCode c) (rc_constructionCode c),
                            toTaxNumber (rc_annualRatePerSqFt c))) (cf_cells config))) key \<and>
   rt_anyRateByZone (taxConfigToRateTable config) zone =
     map_option (\<lambda>c. toTaxNumber (rc_annualRatePerSqFt c))
       (find (\<lambda>c. rc_roadWidthCode c = zone \<and> 0 < toTaxNumber (rc_annualRatePerSqFt c)) (cf_cells config))"
proof -
  have f: "map_of (map (\<lambda>c. (rc_roadWidthCode c, toTaxNumber (rc_annualRatePerSqFt c)))
       (filter (\<lambda>c. 0 < toTaxNumber (rc_annualRatePerSqFt c)) cells)) zone =
     map_option (\<lambda>c. toTaxNumber (rc_annualRatePerSqFt c))
       (find (\<lambda>c. rc_roadWidthCode c = zone \<and> 0 < toTaxNumber (rc_annualRatePerSqFt c)) cells)" for cells
    by (induction cells) auto
  show ?thesis by (simp add: taxConfigToRateTable_def Let_def rate_cells_by_key rate_cells_any f)
qed

subsection \<open>The tax of a stored survey is always computed\<close>

lemma nonblank_zones:
  "list_all (\<lambda>z. trim z \<noteq> []) (object_constructor_text # zone_codes)"
  by (simp add: object_constructor_text_def zone_codes_def trim_def is_space_def)

lemma tax_zone_lookup_range':
  "tax_zone_lookup n = Some z \<Longrightarrow> z = object_constructor_text \<or> z \<in> set zone_codes"
  using tax_zone_lookup_range[of n z]
  by (cases "n = ''constructor''") (auto simp: tax_zone_lookup_def TAX_ZONE_def split: if_splits)

lemma survey_zone_cases: "survey_zone survey = object_constructor_text \<or> survey_zone survey \<in> set zone_codes"
proof (cases "mapTaxRateZoneCode (ts_taxRateZone survey)")
  case None
  then show ?thesis by (simp add: survey_zone_def zone_codes_def)
next
  case (Some z)
  then have "\<not> blank_opt (ts_taxRateZone survey)"
    by (cases "blank_opt (ts_taxRateZone survey)") (simp_all add: mapTaxRateZoneCode_def)
  then obtain s where s: "ts_taxRateZone survey = Some s" "\<not> blank_opt (Some s)"
    by (cases "ts_taxRateZone survey") (auto simp: blank_opt_def)
  have "z = object_constructor_text \<or> z \<in> set zone_codes"
  proof (cases "tax_zone_lookup (zone_norm s)")
    case (Some y)
    then show ?thesis using \<open>mapTaxRateZoneCode _ = Some z\<close> s tax_zone_lookup_range'
      by (simp add: mapTaxRateZoneCode_def)
  next
    case None
    then have "zone_norm s \<noteq> ''constructor''" by (auto simp: tax_zone_lookup_def split: option.splits)
    then show ?thesis using mapTaxRateZoneCode_range \<open>mapTaxRateZoneCode _ = Some z\<close> s by auto
  qed
  then show ?thesis using Some by (simp add: survey_zone_def)
qed

lemma survey_tax_Inr: "\<exists>x. survey_tax survey rates = Inr x"
proof -
  have "trim (survey_zone survey) \<noteq> []"
    using survey_zone_cases[of survey] nonblank_zones by (auto simp: list_all_iff)
  then show ?thesis
    using export_error_iff[of "survey_export_input survey rates"]
    by (cases "survey_tax survey rates") (auto simp: survey_tax_def survey_export_input_def)
qed

subsection \<open>The cells of a data row\<close>

lemma put_cells_length [simp]: "length (put_cells k cs row) = length row"
  by (induction cs arbitrary: k row) simp_all

lemma put_cells_nth:
  "i < length row \<Longrightarrow> put_cells k cs row ! i = (if k \<le> i \<and> i < k + length cs then cs ! (i - k) else row ! i)"
proof (induction cs arbitrary: k row)
  case (Cons c cs)
  then show ?case by (cases "i = k") (auto simp: nth_Cons' nth_list_update)
qed auto

lemma floor_step_lengths:
  "length (ac_floorAreaBySlot (floor_step inp g acc f)) = length (ac_floorAreaBySlot acc)"
  "length (ac_residentialTaxCells (floor_step inp g acc f)) = length (ac_residentialTaxCells acc)"
  "length (ac_nonResidentialTaxCells (floor_step inp g acc f)) = length (ac_nonResidentialTaxCells acc)"
  by (simp_all add: floor_step_def add_slot_area_def put_tax_cells_def Let_def)

lemma floor_loop_lengths:
  "length (ac_floorAreaBySlot (floor_loop inp g)) = 8"
  "length (ac_residentialTaxCells (floor_loop inp g)) = 9"
  "length (ac_nonResidentialTaxCells (floor_loop inp g)) = 9"
proof -
  have "length (ac_floorAreaBySlot (foldl (floor_step inp g) acc fs)) = length (ac_floorAreaBySlot acc) \<and>
    length (ac_residentialTaxCells (foldl (floor_step inp g) acc fs)) = length (ac_residentialTaxCells acc) \<and>
    length (ac_nonResidentialTaxCells (foldl (floor_step inp g) acc fs)) = length (ac_nonResidentialTaxCells acc)"
    for acc fs
    by (induction fs arbitrary: acc) (simp_all add: floor_step_lengths)
  then show "length (ac_floorAreaBySlot (floor_loop inp g)) = 8"
    "length (ac_residentialTaxCells (floor_loop inp g)) = 9"
    "length (ac_nonResidentialTaxCells (floor_loop inp g)) = 9"
    by (simp_all add: floor_loop_def floor_start_def)
qed

lemma export_tax_lengths:
  assumes "computeSurveyExportTax inp = Inr x"
  shows "length (xt_floorAreaBySlot x) = 8" "length (xt_residentialTaxCells x) = 9"
    "length (xt_nonResidentialTaxCells x) = 9"
  using assms by (auto simp: computeSurveyExportTax_def Let_def floor_loop_lengths split: prod.splits if_splits)

text \<open>The column that the first header row gives a caption.\<close>

definition column_of :: "string \<Rightarrow> nat" where
  "column_of caption = length (takeWhile (\<lambda>c. c \<noteq> caption) (WARD_TAX_HEADER_ROWS ! 0))"

definition captioned_columns :: "string list" where
  "captioned_columns =
     [''S N'', ''Survey Id'', ''Owner Name'', ''Owner Father Name'', ''Mobile No'', ''Parcel No'', ''Property No'',
      ''City'', ''Pincode'', ''House No'', ''Colony'', ''Tax Rate Zone'', ''Property Use'', ''Road Type'', ''Floors'',
      ''Plot Area SqFt'', ''Plinth Area SqFt'', ''Total Built Up Area SqFt'']"

lemma columns_of_captions:
  "map column_of captioned_columns = [0, 1, 2, 3, 4, 5, 6, 7, 8, 9, 10, 11, 12, 13, 14, 23, 24, 25]"
  by code_simp


definition sample_survey :: taxed_survey where
  "sample_survey =
     \<lparr>ts_surveyId = ''249044-001-000131-001-R'', ts_propertyUse = Some ''House'', ts_taxRateZone = Some ''RZ 1'',
      ts_hasMunicipalWaterSupply = None, ts_plotAreaSqFt = Finite 1000, ts_plinthAreaSqFt = Missing,
      ts_totalBuiltUpAreaSqFt = Missing,
      ts_floors = [\<lparr>sf_floorLabel = ''Ground Floor'', sf_usageType = Some ''Residential'',
                    sf_usageFactor = None, sf_buildingType = Some ''Tin Shed'', sf_areaSqFt = Finite 600\<rparr>]\<rparr>"

definition sample_report :: report_survey where
  "sample_report =
     taxed_survey.extend sample_survey
       \<lparr>rs_ownerName = Some ''A'', rs_ownerFatherName = None, rs_mobile = None, rs_parcelNo = None,
        rs_propertyNo = None, rs_city = None, rs_pincode = None, rs_houseNo = None, rs_colony = None,
        rs_roadType = None, rs_floorsRaw = Some ''ground - 1, first - 1''\<rparr>"


text \<open>The third header row is misaligned with the data: "Non-Residential" and "Open Land" stand one
  column left of the cells they name.\<close>

lemma header_misaligned:
  "WARD_TAX_HEADER_ROWS ! 2 ! 34 = ''Non-Residential'' \<and> WARD_TAX_HEADER_ROWS ! 2 ! 43 = ''Open Land''"
  by (simp add: WARD_TAX_HEADER_ROWS_def padHeaderRow_def WARD_TAX_COLUMN_COUNT_def)

end
