(* ===== verification/Dues.thy ===== *)
theory Dues
  imports Receipts WardReport
begin

text \<open>
  What a citizen sees: the notice lines and dues payload of a survey
  (\<open>public-property-tax/dues.util.ts\<close>), whether a year is due or paid (\<open>due-status.util.ts\<close>), the
  window in which an open payment blocks a new one (\<open>payment-in-progress.util.ts\<close>) and the masking
  of owner data (\<open>masking.util.ts\<close>).

  Lemmas: the lines of a notice add up to the property tax it states; the two answers to "is this
  year paid" agree; a masked mobile number reveals its first two and last four digits only.
\<close>

subsection \<open>Masking\<close>

text \<open>\<open>s.split(/\s+/).filter(Boolean)\<close>\<close>

fun words_of :: "string \<Rightarrow> string \<Rightarrow> string list" where
  "words_of w [] = (if w = [] then [] else [w])"
| "words_of w (c # cs) =
     (if is_space c then (if w = [] then words_of [] cs else w # words_of [] cs)
      else words_of (w @ [c]) cs)"

definition maskOwnerName :: "string option \<Rightarrow> string" where
  "maskOwnerName name =
     (let trimmed = trim (nullish name [])
      in if trimmed = [] then em_dash
         else (case words_of [] trimmed of
                 [] \<Rightarrow> em_dash
               | [first] \<Rightarrow> hd first # ''****''
               | first # rest \<Rightarrow> (hd first # ''**** '') @ join '' '' rest))"

definition last_chars :: "nat \<Rightarrow> string \<Rightarrow> string" where
  "last_chars n s = drop (length s - n) s"

definition maskMobile :: "string option \<Rightarrow> string" where
  "maskMobile mobile =
     (let digits = digits_of (nullish mobile [])
      in if length digits < 6 then em_dash @ ''****'' @ em_dash
         else if length digits = 10 then take 2 digits @ ''****'' @ last_chars 4 digits
         else take (min 2 (length digits)) digits @ ''****''
              @ last_chars (min 4 (length digits - 2)) digits)"

definition normalizeMobileDigits :: "string \<Rightarrow> string" where
  "normalizeMobileDigits mobile = digits_of mobile"

datatype owner_search_error = OwnerNameTooShort | MobileNotTenDigits

definition assertOwnerSearchInput :: "string \<Rightarrow> string \<Rightarrow> owner_search_error option" where
  "assertOwnerSearchInput ownerName mobile =
     (let name = trim ownerName; digits = normalizeMobileDigits mobile
      in if length name < 3 then Some OwnerNameTooShort
         else if length digits \<noteq> 10 then Some MobileNotTenDigits
         else None)"

subsection \<open>Due or paid\<close>

datatype due_status = DUE | NO_DUE

text \<open>\<open>hasPublishedDemand\<close> and \<open>outstanding\<close> as the callers pass them; a number of the database is
  finite.\<close>

definition resolveDueStatus ::
  "string option \<Rightarrow> string list \<Rightarrow> js_number option \<Rightarrow> bool \<Rightarrow> due_status" where
  "resolveDueStatus currentAssessmentYearId paidAssessmentYearIds outstanding hasPublishedDemand =
     (let yearId = nullish (map_option trim currentAssessmentYearId) []
      in if yearId = [] then DUE
         else if hasPublishedDemand then (if nullish outstanding 0 \<le> 0 then NO_DUE else DUE)
         else if yearId \<in> set paidAssessmentYearIds then NO_DUE else DUE)"

definition isAlreadyPaidForYear :: "string \<Rightarrow> nat \<Rightarrow> js_number option \<Rightarrow> bool \<Rightarrow> bool" where
  "isAlreadyPaidForYear assessmentYearId successPaymentCount outstanding hasPublishedDemand =
     (if trim assessmentYearId = [] then False
      else if hasPublishedDemand then nullish outstanding 0 \<le> 0
      else successPaymentCount > 0)"

subsection \<open>Payment in progress\<close>

definition CITIZEN_PAYMENT_IN_PROGRESS_WINDOW_MS :: int where
  "CITIZEN_PAYMENT_IN_PROGRESS_WINDOW_MS = 15 * 60 * 1000"

record open_payment =
  op_id :: string
  op_status :: payment_status
  op_createdAt :: int

definition hasRecentOpenCitizenPayment :: "open_payment list \<Rightarrow> int \<Rightarrow> int \<Rightarrow> bool" where
  "hasRecentOpenCitizenPayment openPayments now windowMs =
     (let cutoff = now - windowMs
      in list_ex (\<lambda>p. (op_status p = INITIATED \<or> op_status p = PENDING) \<and> op_createdAt p \<ge> cutoff) openPayments)"

subsection \<open>Notice lines\<close>

record notice_line =
  nl_floorLabel :: string
  nl_usageType :: string
  nl_usageFactor :: string
  nl_construction :: string
  nl_areaSqFt :: js_number
  nl_rate :: js_number
  nl_alv :: js_number
  nl_tax :: js_number

definition notice_rate :: "'a taxed_survey_scheme \<Rightarrow> rate_table \<Rightarrow> survey_floor \<Rightarrow> js_number" where
  "notice_rate survey rates f =
     resolveEffectiveMonthlyRate
       (nullish (rt_rateByZoneAndConstruction rates (taxRateKey (survey_zone survey) (floor_construction f))) 0)
       (sf_usageFactor f) (sf_usageType f) (ts_propertyUse survey) (survey_gis_class survey)"

definition notice_alv :: "'a taxed_survey_scheme \<Rightarrow> rate_table \<Rightarrow> survey_floor \<Rightarrow> floor_alv" where
  "notice_alv survey rates f =
     computeFloorAlv (toTaxNumber (sf_areaSqFt f)) (notice_rate survey rates f)
       (resolveAssessablePct (ts_propertyUse survey) (sf_usageType f) (sf_usageFactor f)
          \<lparr>residentialPct = rt_assessablePct rates, commercialPct = rt_commercialAssessablePct rates\<rparr>
          (survey_gis_class survey))
       (rt_propertyTaxPct rates)"

definition notice_floor_line :: "'a taxed_survey_scheme \<Rightarrow> rate_table \<Rightarrow> survey_floor \<Rightarrow> notice_line" where
  "notice_floor_line survey rates f =
     (let alv = notice_alv survey rates f
      in \<lparr>nl_floorLabel = or_text (sf_floorLabel f) em_dash, nl_usageType = nullish (sf_usageType f) em_dash,
          nl_usageFactor = nullish (sf_usageFactor f) em_dash,
          nl_construction = nullish (nullish_opt (sf_buildingType f) (sf_usageType f)) em_dash,
          nl_areaSqFt = roundMoney (toTaxNumber (sf_areaSqFt f)), nl_rate = notice_rate survey rates f,
          nl_alv = fa_assessableAlv alv, nl_tax = fa_propertyTax alv\<rparr>)"

definition survey_open_land :: "'a taxed_survey_scheme \<Rightarrow> bool" where
  "survey_open_land survey \<longleftrightarrow>
     survey_gis_class survey = Some Open_land
     \<or> survey_gis_class survey = None \<and> contains_text (toLowerCase (nullish (ts_propertyUse survey) [])) ''open''"

definition open_land_line :: "'a taxed_survey_scheme \<Rightarrow> rate_table \<Rightarrow> notice_line" where
  "open_land_line survey rates =
     (let area = or_num (or_num (toTaxNumber (ts_plotAreaSqFt survey))
                                (toTaxNumber (ts_totalBuiltUpAreaSqFt survey)))
                        (toTaxNumber (ts_plinthAreaSqFt survey));
          zoneCode = survey_zone survey;
          annualRate = nullish (nullish_opt
              (rt_rateByZoneAndConstruction rates (taxRateKey zoneCode ''OPEN_LAND''))
              (rt_anyRateByZone rates zoneCode)) 0;
          alv = computeFloorAlv area annualRate 100 (rt_propertyTaxPct rates)
      in \<lparr>nl_floorLabel = ''Open Land / Plot'', nl_usageType = nullish (ts_propertyUse survey) ''Open Land'',
          nl_usageFactor = em_dash, nl_construction = ''OPEN_LAND'', nl_areaSqFt = roundMoney area,
          nl_rate = annualRate, nl_alv = fa_assessableAlv alv, nl_tax = fa_propertyTax alv\<rparr>)"

definition buildNoticeFloorLines :: "'a taxed_survey_scheme \<Rightarrow> rate_table \<Rightarrow> notice_line list" where
  "buildNoticeFloorLines survey rates =
     (let lines = map (notice_floor_line survey rates) (ts_floors survey)
      in if lines = [] \<and> survey_open_land survey then [open_land_line survey rates] else lines)"

subsection \<open>The dues payload\<close>

record dues_config = tax_config_rates +
  dc_id :: string
  dc_version :: int
  dc_yearId :: string
  dc_yearCode :: string
  dc_yearName :: string
  dc_updatedAt :: int

record dues_survey = taxed_survey +
  ds_id :: string
  ds_ownerName :: "string option"
  ds_mobile :: "string option"
  ds_propertyNo :: "string option"
  ds_parcelNo :: "string option"
  ds_houseNo :: "string option"
  ds_streetName :: "string option"
  ds_locality :: "string option"
  ds_colony :: "string option"
  ds_city :: "string option"
  ds_pincode :: "string option"
  ds_roadType :: "string option"
  ds_wardNumber :: int
  ds_wardName :: string

record dues_payload =
  dp_id :: string
  dp_surveyId :: string
  dp_wardNumber :: int
  dp_wardName :: string
  dp_ownerName :: "string option"
  dp_mobileMasked :: string
  dp_propertyNo :: "string option"
  dp_parcelNo :: "string option"
  dp_houseNo :: "string option"
  dp_streetName :: "string option"
  dp_locality :: "string option"
  dp_colony :: "string option"
  dp_city :: "string option"
  dp_pincode :: "string option"
  dp_propertyUse :: "string option"
  dp_taxRateZone :: "string option"
  dp_roadType :: "string option"
  dp_assessmentYearId :: string
  dp_assessmentYearCode :: string
  dp_assessmentYearName :: string
  dp_taxConfigId :: string
  dp_taxConfigVersion :: int
  dp_floors :: "notice_line list"
  dp_rates :: rate_table
  dp_propertyTax :: js_number
  dp_waterTax :: js_number
  dp_drainageTax :: js_number
  dp_penalty :: js_number
  dp_totalDemand :: js_number
  dp_annualBaseRate :: "js_number option"
  dp_configFound :: bool

text \<open>The part \<open>tax\<close> of the payload, as the snapshot of a demand keeps it.\<close>

record dues_tax =
  dx_propertyTaxPct :: js_number
  dx_waterTaxPct :: js_number
  dx_drainageTaxPct :: js_number
  dx_penaltyPct :: js_number
  dx_assessablePct :: js_number
  dx_commercialAssessablePct :: js_number
  dx_propertyTax :: js_number
  dx_waterTax :: js_number
  dx_drainageTax :: js_number
  dx_penalty :: js_number
  dx_totalDemand :: js_number
  dx_annualBaseRate :: "js_number option"
  dx_configFound :: bool

definition dues_tax_of :: "dues_payload \<Rightarrow> dues_tax" where
  "dues_tax_of dues =
     \<lparr>dx_propertyTaxPct = rt_propertyTaxPct (dp_rates dues), dx_waterTaxPct = rt_waterTaxPct (dp_rates dues),
      dx_drainageTaxPct = rt_drainageTaxPct (dp_rates dues), dx_penaltyPct = rt_penaltyPct (dp_rates dues),
      dx_assessablePct = rt_assessablePct (dp_rates dues), dx_commercialAssessablePct = rt_commercialAssessablePct (dp_rates dues),
      dx_propertyTax = dp_propertyTax dues, dx_waterTax = dp_waterTax dues,
      dx_drainageTax = dp_drainageTax dues, dx_penalty = dp_penalty dues,
      dx_totalDemand = dp_totalDemand dues, dx_annualBaseRate = dp_annualBaseRate dues,
      dx_configFound = dp_configFound dues\<rparr>"

text \<open>The configuration shown is the first of a stable sort by year code, year name (both
  descending, by \<open>localeCompare\<close>, which is a parameter) and update time (latest first).\<close>

definition config_order ::
  "(string \<Rightarrow> string \<Rightarrow> int) \<Rightarrow> 'a dues_config_scheme \<Rightarrow> 'a dues_config_scheme \<Rightarrow> int" where
  "config_order localeCompare a b =
     (let byCode = localeCompare (dc_yearCode b) (dc_yearCode a);
          byName = localeCompare (dc_yearName b) (dc_yearName a)
      in if byCode \<noteq> 0 then byCode
         else if byName \<noteq> 0 then byName
         else dc_updatedAt b - dc_updatedAt a)"

fun insert_by :: "('a \<Rightarrow> 'a \<Rightarrow> int) \<Rightarrow> 'a \<Rightarrow> 'a list \<Rightarrow> 'a list" where
  "insert_by cmp x [] = [x]"
| "insert_by cmp x (y # ys) = (if cmp x y \<le> 0 then x # y # ys else y # insert_by cmp x ys)"

definition sort_by :: "('a \<Rightarrow> 'a \<Rightarrow> int) \<Rightarrow> 'a list \<Rightarrow> 'a list" where
  "sort_by cmp xs = foldr (insert_by cmp) xs []"

definition pickLatestPublishedConfig ::
  "(string \<Rightarrow> string \<Rightarrow> int) \<Rightarrow> 'a dues_config_scheme list \<Rightarrow> 'a dues_config_scheme option" where
  "pickLatestPublishedConfig localeCompare configs =
     (case sort_by (config_order localeCompare) configs of [] \<Rightarrow> None | c # _ \<Rightarrow> Some c)"

definition annual_base_rate :: "'a taxed_survey_scheme \<Rightarrow> rate_table \<Rightarrow> cell \<Rightarrow> js_number option" where
  "annual_base_rate survey rates plotRate =
     (let base = (\<lambda>f. nullish (rt_rateByZoneAndConstruction rates
                    (taxRateKey (survey_zone survey) (floor_construction f))) 0)
      in case find (\<lambda>f. base f > 0) (ts_floors survey) of
           Some f \<Rightarrow> Some (base f)
         | None \<Rightarrow> (case plotRate of Num r \<Rightarrow> Some r | Txt _ \<Rightarrow> None))"

definition computePublicDuesPayload ::
  "'a dues_survey_scheme \<Rightarrow> 'b dues_config_scheme \<Rightarrow> export_error + dues_payload" where
  "computePublicDuesPayload survey config =
     (let rates = taxConfigToRateTable config
      in bind_res (survey_tax survey rates) (\<lambda>summary.
        Inr \<lparr>dp_id = ds_id survey, dp_surveyId = ts_surveyId survey, dp_wardNumber = ds_wardNumber survey,
             dp_wardName = ds_wardName survey, dp_ownerName = ds_ownerName survey,
             dp_mobileMasked = maskMobile (ds_mobile survey), dp_propertyNo = ds_propertyNo survey,
             dp_parcelNo = ds_parcelNo survey, dp_houseNo = ds_houseNo survey,
             dp_streetName = ds_streetName survey, dp_locality = ds_locality survey,
             dp_colony = ds_colony survey, dp_city = ds_city survey, dp_pincode = ds_pincode survey,
             dp_propertyUse = ts_propertyUse survey, dp_taxRateZone = ts_taxRateZone survey,
             dp_roadType = ds_roadType survey, dp_assessmentYearId = dc_yearId config,
             dp_assessmentYearCode = dc_yearCode config, dp_assessmentYearName = dc_yearName config,
             dp_taxConfigId = dc_id config, dp_taxConfigVersion = dc_version config,
             dp_floors = buildNoticeFloorLines survey rates, dp_rates = rates,
             dp_propertyTax = xt_propertyTax summary, dp_waterTax = xt_waterTax summary,
             dp_drainageTax = xt_drainageTax summary, dp_penalty = xt_penalty summary,
             dp_totalDemand = xt_totalDemand summary,
             dp_annualBaseRate = annual_base_rate survey rates (xt_plotRate summary),
             dp_configFound = True\<rparr>))"

subsection \<open>The lines of a notice add up\<close>

lemma mixed_is_heuristic:
  "resolveAssessablePct u v w opts (rate_gis_class g) = resolveAssessablePct u v w opts g"
  "resolveEffectiveMonthlyRate b u v w (rate_gis_class g) = resolveEffectiveMonthlyRate b u v w g"
  by (simp_all add: rate_gis_class_def resolveAssessablePct_def resolveEffectiveMonthlyRate_def
      resolveUsageRateMult_def)

lemma zone_trimmed: "trim (survey_zone survey) = survey_zone survey"
proof -
  have "list_all (\<lambda>z. trim z = z) (object_constructor_text # zone_codes)"
    by (simp add: object_constructor_text_def zone_codes_def trim_def is_space_def)
  then show ?thesis using survey_zone_cases[of survey] by (auto simp: list_all_iff)
qed

lemma base_rate_survey:
  "base_rate (survey_export_input survey rates) c =
     nullish (rt_rateByZoneAndConstruction rates (taxRateKey (survey_zone survey) c)) 0"
  by (simp add: base_rate_def survey_export_input_def zone_trimmed)

lemma export_class_survey: "export_gis_class (survey_export_input survey rates) = survey_gis_class survey"
  by (simp add: export_gis_class_def survey_export_input_def survey_gis_class_def)

lemma floor_tax_is_notice:
  "floor_tax (survey_export_input survey rates) (survey_gis_class survey) (survey_floor_input survey f)
     = notice_alv survey rates f"
  unfolding floor_tax_def notice_alv_def floor_rate_def notice_rate_def base_rate_survey mixed_is_heuristic
  by (simp add: survey_floor_input_def survey_export_input_def export_opts_def)

lemma zero_rate_no_tax:
  assumes "nullish (rt_rateByZoneAndConstruction rates (taxRateKey (survey_zone survey) (floor_construction f))) 0 = 0"
  shows "fa_propertyTax (notice_alv survey rates f) = 0"
  by (simp add: notice_alv_def notice_rate_def assms resolveEffectiveMonthlyRate_def computeFloorAlv_def)

lemma open_land_same: "export_open_land (survey_export_input survey rates) = survey_open_land survey"
  by (simp add: export_open_land_def survey_open_land_def export_class_survey)
     (simp add: survey_export_input_def)

text \<open>C37. The notice a citizen sees is consistent: for a built property with a measured floor (rates
  and areas non-negative, tax within the money column) the taxes of the notice's lines add up, to the
  paisa, to the property tax of the assessment, although the two are computed by separate loops.\<close>

theorem notice_lines_add_up:
  assumes "survey_tax survey rates = Inr x" "nonneg_rates rates"
    and "\<forall>key r. rt_rateByZoneAndConstruction rates key = Some r \<longrightarrow> 0 \<le> r"
    and "\<forall>f \<in> set (ts_floors survey). 0 \<le> toTaxNumber (sf_areaSqFt f)"
    and "\<exists>f \<in> set (ts_floors survey). 0 < toTaxNumber (sf_areaSqFt f)"
    and "\<not> survey_open_land survey" "xt_propertyTax x < 1000000000000"
  shows "xt_propertyTax x = paise (\<Sum>l\<leftarrow>buildNoticeFloorLines survey rates. paise_of (nl_tax l))"
proof -
  let ?inp = "survey_export_input survey rates" and ?g = "survey_gis_class survey"
  let ?t = "\<lambda>f. paise_of (fa_propertyTax (notice_alv survey rates f))"
  let ?rated = "\<lambda>f. \<not> nullish (rt_rateByZoneAndConstruction rates
      (taxRateKey (survey_zone survey) (floor_construction f))) 0 \<le> 0"
  have areas: "ef_areaSqFt (survey_floor_input survey f) = toTaxNumber (sf_areaSqFt f)"
    "ef_constructionCode (survey_floor_input survey f) = floor_construction f" for f
    by (simp_all add: survey_floor_input_def)
  have fl: "ei_floors ?inp = map (survey_floor_input survey) (ts_floors survey)"
    "ei_rates ?inp = rates" by (simp_all add: survey_export_input_def)
  have nn: "nonneg_export ?inp" using assms(2,4) by (simp add: nonneg_export_def fl list_all_iff areas)
  have some: "list_ex (\<lambda>f. ef_areaSqFt f > 0) (ei_floors ?inp)"
    using assms(5) by (simp add: fl list_ex_iff areas)
  have "xt_propertyTax x = paise (\<Sum>f\<leftarrow>rated_floors ?inp. paise_of (fa_propertyTax (floor_tax ?inp ?g f)))"
    using property_tax_floor_sum[OF assms(1)[unfolded survey_tax_def] nn _ some assms(7)] assms(6)
    by (simp add: open_land_same export_class_survey)
  also have "rated_floors ?inp = map (survey_floor_input survey) (filter ?rated (ts_floors survey))"
    by (simp add: rated_floors_def fl base_rate_survey filter_map comp_def areas)
  also have "(\<Sum>f\<leftarrow>map (survey_floor_input survey) (filter ?rated (ts_floors survey)).
      paise_of (fa_propertyTax (floor_tax ?inp ?g f))) = (\<Sum>f\<leftarrow>filter ?rated (ts_floors survey). ?t f)"
    by (simp add: comp_def floor_tax_is_notice)
  also have "\<dots> = (\<Sum>f\<leftarrow>ts_floors survey. ?t f)"
  proof -
    have "?t f = 0" if "\<not> ?rated f" for f
    proof -
      have "nullish (rt_rateByZoneAndConstruction rates (taxRateKey (survey_zone survey) (floor_construction f))) 0 = 0"
        using that assms(3) by (cases "rt_rateByZoneAndConstruction rates (taxRateKey (survey_zone survey) (floor_construction f))") force+
      from zero_rate_no_tax[OF this] show ?thesis by simp
    qed
    then show ?thesis by (intro sum_list_map_filter) auto
  qed
  also have "(\<Sum>f\<leftarrow>ts_floors survey. ?t f) = (\<Sum>l\<leftarrow>buildNoticeFloorLines survey rates. paise_of (nl_tax l))"
    using assms(6) by (simp add: buildNoticeFloorLines_def notice_floor_line_def Let_def comp_def)
  finally show ?thesis .
qed

lemma sample_texts:
  "mapTaxRateZoneCode (Some ''RZ 1'') = Some ''BELOW_9M''"
  "resolveSurveyGisUseClass None (Some ''249044-001-000131-001-R'') = Some Residential"
  "mapConstructionCode (Some ''Tin Shed'') = ''TIN_SHED''"
  by code_simp+

lemma sample_survey_facts:
  "survey_zone sample_survey = ''BELOW_9M''" "survey_gis_class sample_survey = Some Residential"
  "floor_construction (hd (ts_floors sample_survey)) = ''TIN_SHED''"
  by (simp_all add: survey_zone_def survey_gis_class_def floor_construction_def sample_survey_def sample_texts)

lemma notice_lines_add_up_witness:
  "\<exists>x. survey_tax sample_survey sample_rates = Inr x \<and> xt_propertyTax x = 1800 \<and>
     xt_propertyTax x = paise (\<Sum>l\<leftarrow>buildNoticeFloorLines sample_survey sample_rates. paise_of (nl_tax l))"
proof -
  let ?inp = "survey_export_input sample_survey sample_rates"
  define f where "f = hd (ts_floors sample_survey)"
  note f = sample_survey_facts[folded f_def]
  obtain x where x: "survey_tax sample_survey sample_rates = Inr x" using survey_tax_Inr by blast
  have fs: "ts_floors sample_survey = [f]" "sf_areaSqFt f = Finite 600" by (simp_all add: f_def sample_survey_def)
  have key: "rt_rateByZoneAndConstruction sample_rates (taxRateKey ''BELOW_9M'' ''TIN_SHED'') = Some 2"
    by (simp add: sample_rates_def taxRateKey_def)
  have tax: "fa_propertyTax (notice_alv sample_survey sample_rates f) = 1800"
    by (simp add: notice_alv_def notice_rate_def f key fs toTaxNumber_def
        resolveEffectiveMonthlyRate_def resolveUsageRateMult_def resolveAssessablePct_def computeFloorAlv_def)
      (simp add: sample_rates_def)
  have open_land: "\<not> survey_open_land sample_survey" by (simp add: survey_open_land_def f)
  have rated: "rated_floors ?inp = [survey_floor_input sample_survey f]"
    using fs(1) by (simp add: rated_floors_def base_rate_survey f)
      (simp add: survey_export_input_def survey_floor_input_def f key)
  have p: "xt_propertyTax x = 1800"
    using x[unfolded survey_tax_def]
  proof (cases rule: export_tax_cases)
    case (1 pt alv)
    have "list_ex (\<lambda>f. ef_areaSqFt f > 0) (ei_floors ?inp)"
      using fs by (simp add: survey_export_input_def survey_floor_input_def toTaxNumber_def)
    then have "pt = ac_propertyTax (floor_loop ?inp (survey_gis_class sample_survey))"
      using 1(1) by (simp add: area_fallback_def export_class_survey)
    then show ?thesis
      using 1(3) open_land tax by (simp add: open_land_same floor_loop_totals rated floor_tax_is_notice)
  qed
  have "nonneg_rates sample_rates" "\<forall>key r. rt_rateByZoneAndConstruction sample_rates key = Some r \<longrightarrow> 0 \<le> r"
    by (auto simp: nonneg_rates_def sample_rates_def split: if_splits)
  moreover have "\<forall>f \<in> set (ts_floors sample_survey). 0 \<le> toTaxNumber (sf_areaSqFt f)"
    "\<exists>f \<in> set (ts_floors sample_survey). 0 < toTaxNumber (sf_areaSqFt f)"
    unfolding fs(1) by (simp_all add: fs(2) toTaxNumber_def)
  ultimately show ?thesis using notice_lines_add_up[OF x _ _ _ _ open_land] x p by auto
qed

subsection \<open>Agreement and masking\<close>

text \<open>The two answers agree: a property's search result says "no due" for a year exactly when the
  checkout would refuse a payment because the year is already paid.\<close>

theorem due_status_agrees_with_paid:
  assumes "trim y = y" "y \<noteq> []" "y \<in> set paidYears \<longleftrightarrow> 0 < successCount"
  shows "resolveDueStatus (Some y) paidYears outstanding published = NO_DUE \<longleftrightarrow>
         isAlreadyPaidForYear y successCount outstanding published"
  using assms by (simp add: resolveDueStatus_def isAlreadyPaidForYear_def)

lemma due_status_agrees_with_paid_witness:
  "isAlreadyPaidForYear ''y25'' 1 None False"
proof -
  have "trim ''y25'' = ''y25''" by (simp add: trim_def is_space_def)
  from due_status_agrees_with_paid[OF this, of "[''y25'']" 1 None False] show ?thesis
    by (simp add: resolveDueStatus_def trim_def is_space_def)
qed

text \<open>Masking hides the middle of a mobile number: what is shown of a ten-digit number depends
  only on its first two and last four digits.\<close>

theorem mask_mobile_hides_middle:
  assumes "length (digits_of m) = 10" "length (digits_of n) = 10"
  shows "maskMobile (Some m) = maskMobile (Some n) \<longleftrightarrow>
    take 2 (digits_of m) = take 2 (digits_of n) \<and> drop 6 (digits_of m) = drop 6 (digits_of n)"
  using assms by (simp add: maskMobile_def last_chars_def Let_def)

lemma mask_mobile_hides_middle_witness:
  "maskMobile (Some ''98765 43210'') = maskMobile (Some ''98111-13210'')"
  by (subst mask_mobile_hides_middle) (simp_all add: digits_of_def is_digit_def)

text \<open>A six-digit number has no middle: masking shows every digit of it.\<close>

lemma mask_mobile_six_digits: "maskMobile (Some ''123456'') = ''12****3456''"
  by (simp add: maskMobile_def digits_of_def is_digit_def last_chars_def)

end
