(* ===== verification/Ledger.thy ===== *)
theory Ledger
  imports Dues
begin

text \<open>
  The database rows that demands and payments share (\<open>apps/api/prisma/schema.prisma\<close>: models
  PropertyDemand, DemandArrear, YearEndRun, Payment, PaymentTransaction, PaymentCallback,
  PaymentRefund), the state that holds them, and the access to the demand table by its unique key
  (survey, assessment year).

  A table is a list of rows in insertion order. Fresh primary keys come from a function \<open>cuid\<close> of a
  counter (injective: cuids are unique). A \<open>Decimal(14, 2)\<close> column is a function \<open>col\<close> that returns
  what is read back after a write, or nothing when the value does not fit (the database's error);
  \<open>decimal_column\<close> states its documented behaviour. Times are milliseconds.

  The locale \<open>keyed_store\<close> is the contract of a table with a unique key; its lemma about a loop of
  writes to distinct keys serves the ward-wide publication. The demand table is an interpretation.
\<close>

subsection \<open>Decimal columns\<close>

definition decimal_column :: "(js_number \<Rightarrow> js_number option) \<Rightarrow> bool" where
  "decimal_column col \<longleftrightarrow>
     (\<forall>n. col (paise n) = (if in_column n then Some (paise n) else None)) \<and>
     (\<forall>x n. near_paise 8 36 x n \<longrightarrow> col x = (if in_column n then Some (paise n) else None)) \<and>
     (\<forall>x y. col x = Some y \<longrightarrow> (\<exists>n. in_column n \<and> y = paise n))"

text \<open>The behaviour can be had: round to two decimals, refuse what is out of range.\<close>

definition round_column :: "js_number \<Rightarrow> js_number option" where
  "round_column x = (if in_column (paise_of x) then Some (roundMoney x) else None)"

lemma paise_of_limit: "paise_of 1000000000000 = 100000000000000"
proof -
  have "fl (1000000000000 * 100) = of_int 100000000000000"
    using fl_of_int[of 100000000000000] by simp
  then show ?thesis unfolding paise_of_def by (simp only: js_round_int_of_int)
qed

lemma paise_of_neg_limit: "paise_of (- 1000000000000) = - 100000000000000"
proof -
  have "fl (1000000000000 * 100) = of_int 100000000000000" using fl_of_int[of 100000000000000] by simp
  then have "fl (- 1000000000000 * 100) = of_int (- 100000000000000)"
    using fl_minus[of "1000000000000 * 100"] by simp
  then show ?thesis unfolding paise_of_def by (simp only: js_round_int_of_int)
qed

lemma in_column_paise_of:
  assumes "in_column (paise_of (paise n))"
  shows "in_column n"
proof -
  have a: "- 100000000000000 < paise_of (paise n)" "paise_of (paise n) < 100000000000000"
    using assms unfolding in_column_def by linarith+
  have "paise n < 1000000000000"
    using a paise_of_mono[of 1000000000000 "paise n"] unfolding paise_of_limit by linarith
  moreover have "- 1000000000000 < paise n"
    using a paise_of_mono[of "paise n" "- 1000000000000"] unfolding paise_of_neg_limit by linarith
  ultimately show "in_column n" by (intro in_column_of_paise) linarith
qed

lemma round_column_decimal: "decimal_column round_column"
  unfolding decimal_column_def
proof (intro conjI allI impI)
  show "round_column (paise n) = (if in_column n then Some (paise n) else None)" for n
  proof (cases "in_column n")
    case True
    then show ?thesis by (simp add: round_column_def paise_of_paise roundMoney_paise)
  next
    case False
    then show ?thesis using in_column_paise_of[of n] by (auto simp: round_column_def)
  qed
  show "round_column x = (if in_column n then Some (paise n) else None)" if "near_paise 8 36 x n" for x n
    using near_paise_of[OF that] roundMoney_near[OF that] by (simp add: round_column_def)
  show "\<exists>n. in_column n \<and> y = paise n" if "round_column x = Some y" for x y
    using that by (auto simp: round_column_def roundMoney_alt split: if_splits)
qed

lemma col_paise: "decimal_column col \<Longrightarrow> col (paise n) = Some y \<Longrightarrow> in_column n \<and> y = paise n"
  by (auto simp: decimal_column_def split: if_splits)

lemma col_whole_paise: "decimal_column col \<Longrightarrow> col x = Some y \<Longrightarrow> \<exists>n. in_column n \<and> y = paise n"
  by (auto simp: decimal_column_def)

lemma col_money: "decimal_column col \<Longrightarrow> in_column n \<Longrightarrow> col (paise n) = Some (paise n)"
  by (auto simp: decimal_column_def)

subsection \<open>Rows\<close>

datatype demand_status = D_DRAFT | D_PUBLISHED | D_CLOSED

record demand_snapshot =
  sn_taxConfigId :: string
  sn_taxConfigVersion :: int
  sn_dues :: "dues_tax option"
  sn_rules :: "tax_rule list"
  sn_assessment :: assessment
  sn_priorYearIssue :: bool

record demand =
  dm_id :: string
  dm_surveyId :: string
  dm_yearId :: string
  dm_status :: demand_status
  dm_propertyTax :: js_number
  dm_waterTax :: js_number
  dm_drainageTax :: js_number
  dm_penalty :: js_number
  dm_rebate :: js_number
  dm_arrears :: js_number
  dm_currentDemand :: js_number
  dm_totalPayable :: js_number
  dm_amountPaid :: js_number
  dm_outstanding :: js_number
  dm_verified :: bool
  dm_snapshot :: "demand_snapshot option"
  dm_publishedAt :: "int option"
  dm_publishedById :: "string option"

record demand_arrear =
  da_id :: string
  da_demandId :: string
  da_sourceYearId :: string
  da_amount :: js_number

record year_end_summary =
  ys_count :: nat
  ys_totalArrears :: js_number
  ys_carried :: nat
  ys_skipped :: nat

datatype run_status = PREVIEWED | COMMITTED

record year_end_run =
  yr_id :: string
  yr_fromYearId :: string
  yr_toYearId :: string
  yr_status :: run_status
  yr_summary :: "year_end_summary option"
  yr_committedAt :: "int option"
  yr_createdById :: "string option"

datatype survey_status = S_DRAFT | S_ACTIVE | S_ARCHIVED | S_DELETED

record ledger_survey = dues_survey +
  ls_ownerFatherName :: "string option"
  ls_wardId :: string
  ls_status :: survey_status
  ls_deleted :: bool
  ls_createdById :: "string option"

datatype config_status = C_DRAFT | C_PUBLISHED | C_ARCHIVED

record ledger_config = dues_config +
  lc_wardId :: string
  lc_status :: config_status

datatype rule_status = R_DRAFT | R_PUBLISHED | R_ARCHIVED

record rule_row = tax_rule +
  ru_id :: string
  ru_yearId :: "string option"
  ru_status :: rule_status
  ru_effectiveFrom :: "int option"
  ru_effectiveTo :: "int option"

record payment =
  py_id :: string
  py_paymentReference :: string
  py_merchTxnId :: "string option"
  py_atomTxnId :: "string option"
  py_surveyId :: "string option"
  py_wardId :: "string option"
  py_yearId :: "string option"
  py_demandId :: "string option"
  py_payerName :: "string option"
  py_payerMobile :: "string option"
  py_payerEmail :: "string option"
  py_amount :: js_number
  py_currency :: string
  py_mode :: payment_mode
  py_status :: payment_status
  py_gateway :: "string option"
  py_gatewayReference :: "string option"
  py_receiptNumber :: "string option"
  py_receiptSnapshot :: "json option"
  py_collectionDate :: "int option"
  py_chequeDdReference :: "string option"
  py_remarks :: "string option"
  py_collectedById :: "string option"
  py_refundableAmount :: "js_number option"
  py_clientIdempotencyKey :: "string option"
  py_createdAt :: int

record payment_callback =
  cb_id :: string
  cb_paymentId :: "string option"
  cb_merchTxnId :: "string option"
  cb_atomTxnId :: "string option"
  cb_statusCode :: "string option"
  cb_rawPayload :: json
  cb_processed :: bool
  cb_idempotencyKey :: "string option"

record payment_transaction =
  tx_paymentId :: string
  tx_direction :: string
  tx_requestPayload :: "json option"
  tx_responsePayload :: "json option"
  tx_statusCode :: "string option"

record payment_refund =
  rf_paymentId :: string
  rf_refundReference :: string
  rf_amount :: js_number
  rf_success :: bool
  rf_gatewayRefundId :: "string option"
  rf_reason :: "string option"
  rf_rawResponse :: json
  rf_createdById :: string

text \<open>An audit entry; its old and new values are not modelled.\<close>

record audit_entry =
  au_action :: string
  au_entity :: string
  au_entityId :: "string option"
  au_actorId :: "string option"

text \<open>Reference entries (a category code, a code and a name under an id), wards, staff names, and the
  settlement reports of the gateway.\<close>

record entry =
  en_category :: string
  en_code :: string
  en_name :: string
  en_active :: bool
  en_sortOrder :: int

record ward =
  wd_id :: string
  wd_number :: int
  wd_name :: string
  wd_code :: string
  wd_isActive :: bool

record settlement =
  se_settlementDate :: "int option"
  se_merchTxnId :: "string option"
  se_atomTxnId :: "string option"
  se_amount :: "js_number option"
  se_status :: "string option"
  se_settlementUtr :: "string option"
  se_rawPayload :: json

record ledger =
  lg_seq :: nat
  lg_wards :: "ward list"
  lg_users :: "(string \<times> string) list"
  lg_entries :: "(string \<times> entry) list"
  lg_surveys :: "ledger_survey list"
  lg_configs :: "ledger_config list"
  lg_rules :: "rule_row list"
  lg_demands :: "demand list"
  lg_arrears :: "demand_arrear list"
  lg_runs :: "year_end_run list"
  lg_payments :: "payment list"
  lg_callbacks :: "payment_callback list"
  lg_transactions :: "payment_transaction list"
  lg_refunds :: "payment_refund list"
  lg_settlements :: "settlement list"
  lg_audit :: "audit_entry list"

definition log_audit :: "string \<Rightarrow> string \<Rightarrow> string option \<Rightarrow> string option \<Rightarrow> ledger \<Rightarrow> ledger" where
  "log_audit action entity entityId actorId db =
     db\<lparr>lg_audit := lg_audit db @ [\<lparr>au_action = action, au_entity = entity, au_entityId = entityId,
                                    au_actorId = actorId\<rparr>]\<rparr>"

subsection \<open>A table with a unique key\<close>

locale keyed_store =
  fixes get :: "'t \<Rightarrow> 'k \<Rightarrow> 'r option"
    and put :: "'t \<Rightarrow> 'k \<Rightarrow> ('r \<Rightarrow> 'r) \<Rightarrow> 't"
    and blank :: "'t \<Rightarrow> 'k \<Rightarrow> 'r"
    and ok :: "'t \<Rightarrow> bool"
    and good :: "('r \<Rightarrow> 'r) \<Rightarrow> bool"
  assumes put_ok: "ok t \<Longrightarrow> good f \<Longrightarrow> ok (put t k f)"
    and get_put: "ok t \<Longrightarrow> good f \<Longrightarrow> get (put t k f) k' =
      (if k' = k then Some (f (case get t k of Some r \<Rightarrow> r | None \<Rightarrow> blank t k)) else get t k')"
begin

text \<open>A loop that writes one row per element: what it computes for an element may read the table, as
  long as the writes of other elements do not change it.\<close>

lemma put_loop:
  assumes "\<And>x t. good (row x t)"
    and "\<And>x y t. ok t \<Longrightarrow> x \<in> set xs \<Longrightarrow> y \<in> set xs \<Longrightarrow> key x \<noteq> key y \<Longrightarrow>
          row x (put t (key y) (row y t)) = row x t"
    and "ok t" "distinct (map key xs)"
  shows "ok (foldl (\<lambda>t x. put t (key x) (row x t)) t xs) \<and>
    (\<forall>k. k \<notin> key ` set xs \<longrightarrow> get (foldl (\<lambda>t x. put t (key x) (row x t)) t xs) k = get t k) \<and>
    (\<forall>x \<in> set xs. \<exists>t'. get (foldl (\<lambda>t x. put t (key x) (row x t)) t xs) (key x) =
       Some (row x t (case get t (key x) of Some r \<Rightarrow> r | None \<Rightarrow> blank t' (key x))))"
  using assms(2-)
proof (induction xs arbitrary: t)
  case (Cons y ys)
  let ?t = "put t (key y) (row y t)"
  have g: "good (row y t)" by (rule assms(1))
  have d: "key y \<notin> key ` set ys" "distinct (map key ys)" using Cons.prems(3) by auto
  note gp = get_put[OF Cons.prems(2) g]
  have IH: "ok (foldl (\<lambda>t x. put t (key x) (row x t)) ?t ys) \<and>
    (\<forall>k. k \<notin> key ` set ys \<longrightarrow> get (foldl (\<lambda>t x. put t (key x) (row x t)) ?t ys) k = get ?t k) \<and>
    (\<forall>x \<in> set ys. \<exists>t'. get (foldl (\<lambda>t x. put t (key x) (row x t)) ?t ys) (key x) =
       Some (row x ?t (case get ?t (key x) of Some r \<Rightarrow> r | None \<Rightarrow> blank t' (key x))))"
    by (rule Cons.IH) (use Cons.prems put_ok[OF Cons.prems(2) g] in auto)
  have "row x ?t = row x t" "get ?t (key x) = get t (key x)" if "x \<in> set ys" for x
  proof -
    have "key x \<in> key ` set ys" using that by (rule imageI)
    then have "key x \<noteq> key y" using d(1) by metis
    then show "row x ?t = row x t" "get ?t (key x) = get t (key x)"
      using Cons.prems(1)[OF Cons.prems(2), of x y] that gp by auto
  qed
  then show ?case using IH d(1) gp by auto
qed simp

end

subsection \<open>The demand table\<close>

text \<open>\<open>propertyDemand.findUnique({ where: { surveyId_assessmentYearId } })\<close> and the write of an
  existing row by its primary key or of a new row with the schema's defaults.\<close>

definition find_demand :: "ledger \<Rightarrow> string \<times> string \<Rightarrow> demand option" where
  "find_demand db key = find (\<lambda>d. (dm_surveyId d, dm_yearId d) = key) (lg_demands db)"

definition find_demand_id :: "ledger \<Rightarrow> string \<Rightarrow> demand option" where
  "find_demand_id db i = find (\<lambda>d. dm_id d = i) (lg_demands db)"

definition blank_demand :: "(nat \<Rightarrow> string) \<Rightarrow> ledger \<Rightarrow> string \<times> string \<Rightarrow> demand" where
  "blank_demand cuid db key =
     \<lparr>dm_id = cuid (lg_seq db), dm_surveyId = fst key, dm_yearId = snd key, dm_status = D_DRAFT,
      dm_propertyTax = 0, dm_waterTax = 0, dm_drainageTax = 0, dm_penalty = 0, dm_rebate = 0, dm_arrears = 0,
      dm_currentDemand = 0, dm_totalPayable = 0, dm_amountPaid = 0, dm_outstanding = 0, dm_verified = True,
      dm_snapshot = None, dm_publishedAt = None, dm_publishedById = None\<rparr>"

definition update_demand :: "string \<Rightarrow> (demand \<Rightarrow> demand) \<Rightarrow> ledger \<Rightarrow> ledger" where
  "update_demand i f db =
     db\<lparr>lg_demands := map (\<lambda>d. if dm_id d = i then f d else d) (lg_demands db)\<rparr>"

definition put_demand :: "(nat \<Rightarrow> string) \<Rightarrow> ledger \<Rightarrow> string \<times> string \<Rightarrow> (demand \<Rightarrow> demand) \<Rightarrow> ledger" where
  "put_demand cuid db key f =
     (case find_demand db key of
        Some e \<Rightarrow> update_demand (dm_id e) f db
      | None \<Rightarrow> db\<lparr>lg_demands := lg_demands db @ [f (blank_demand cuid db key)], lg_seq := Suc (lg_seq db)\<rparr>)"

text \<open>Primary keys are distinct and were handed out by \<open>cuid\<close>; (survey, year) is unique.\<close>

definition demands_ok :: "(nat \<Rightarrow> string) \<Rightarrow> ledger \<Rightarrow> bool" where
  "demands_ok cuid db \<longleftrightarrow>
     inj cuid \<and> distinct (map dm_id (lg_demands db)) \<and>
     distinct (map (\<lambda>d. (dm_surveyId d, dm_yearId d)) (lg_demands db)) \<and>
     (\<forall>d \<in> set (lg_demands db). \<exists>i < lg_seq db. dm_id d = cuid i)"

definition keeps_keys :: "(demand \<Rightarrow> demand) \<Rightarrow> bool" where
  "keeps_keys f \<longleftrightarrow> (\<forall>d. dm_id (f d) = dm_id d \<and> dm_surveyId (f d) = dm_surveyId d \<and> dm_yearId (f d) = dm_yearId d)"

lemma find_app: "find P (xs @ ys) = (case find P xs of None \<Rightarrow> find P ys | Some x \<Rightarrow> Some x)"
  by (induction xs) auto

lemma find_demand_in:
  "find_demand db key = Some d \<Longrightarrow> d \<in> set (lg_demands db) \<and> (dm_surveyId d, dm_yearId d) = key"
  using find_Some_in[of _ "lg_demands db" d] by (auto simp: find_demand_def)

lemma find_demand_unique:
  assumes "demands_ok cuid db" "d \<in> set (lg_demands db)" "(dm_surveyId d, dm_yearId d) = key"
  shows "find_demand db key = Some d"
proof -
  obtain e where e: "find_demand db key = Some e"
    using assms(2,3) by (cases "find_demand db key") (auto simp: find_demand_def find_None_iff)
  then have "e = d"
    using find_demand_in[OF e] assms unfolding demands_ok_def distinct_map by (auto dest!: inj_onD)
  then show ?thesis using e by simp
qed

lemma find_demand_id_unique:
  assumes "demands_ok cuid db" "d \<in> set (lg_demands db)"
  shows "find_demand_id db (dm_id d) = Some d"
proof -
  obtain e where e: "find_demand_id db (dm_id d) = Some e"
    using assms(2) by (cases "find_demand_id db (dm_id d)") (auto simp: find_demand_id_def find_None_iff)
  then have "e \<in> set (lg_demands db)" "dm_id e = dm_id d"
    using find_Some_in[of _ "lg_demands db" e] by (auto simp: find_demand_id_def)
  then have "e = d" using assms unfolding demands_ok_def distinct_map by (auto dest: inj_onD)
  then show ?thesis using e by simp
qed

lemma find_demand_id_in: "find_demand_id db i = Some d \<Longrightarrow> d \<in> set (lg_demands db) \<and> dm_id d = i"
  using find_Some_in[of _ "lg_demands db" d] by (auto simp: find_demand_id_def)

lemma update_demand_ok:
  assumes "demands_ok cuid db" "keeps_keys f"
  shows "demands_ok cuid (update_demand i f db)"
proof -
  have "map dm_id (lg_demands (update_demand i f db)) = map dm_id (lg_demands db)"
    "map (\<lambda>d. (dm_surveyId d, dm_yearId d)) (lg_demands (update_demand i f db)) =
     map (\<lambda>d. (dm_surveyId d, dm_yearId d)) (lg_demands db)" "lg_seq (update_demand i f db) = lg_seq db"
    using assms(2) by (auto simp: update_demand_def keeps_keys_def)
  moreover have "\<forall>d \<in> set (lg_demands (update_demand i f db)). \<exists>e \<in> set (lg_demands db). dm_id d = dm_id e"
    using assms(2) by (auto simp: update_demand_def keeps_keys_def)
  ultimately show ?thesis using assms(1) unfolding demands_ok_def by metis
qed

lemma find_update_demand:
  assumes "demands_ok cuid db" "keeps_keys f"
  shows "find_demand (update_demand i f db) key =
    map_option (\<lambda>d. if dm_id d = i then f d else d) (find_demand db key)"
proof -
  have "find P (map g ds) = map_option g (find P ds)" if "\<And>d. P (g d) = P d" for P g and ds :: "demand list"
    using that by (induction ds) auto
  then show ?thesis using assms(2) by (simp add: find_demand_def update_demand_def keeps_keys_def)
qed

lemma put_demand_ok:
  assumes "demands_ok cuid db" "keeps_keys f"
  shows "demands_ok cuid (put_demand cuid db key f)"
proof (cases "find_demand db key")
  case None
  let ?d = "f (blank_demand cuid db key)"
  have k: "dm_id ?d = cuid (lg_seq db)" "dm_surveyId ?d = fst key" "dm_yearId ?d = snd key"
    using assms(2) by (simp_all add: keeps_keys_def blank_demand_def)
  have "cuid (lg_seq db) \<notin> dm_id ` set (lg_demands db)"
    using assms(1) unfolding demands_ok_def by (metis (no_types, lifting) imageE injD less_irrefl)
  moreover have "key \<notin> (\<lambda>d. (dm_surveyId d, dm_yearId d)) ` set (lg_demands db)"
    using None by (auto simp: find_demand_def find_None_iff)
  ultimately show ?thesis
    using assms(1) None k by (auto simp: put_demand_def demands_ok_def less_Suc_eq)
next
  case (Some e)
  then show ?thesis using update_demand_ok[OF assms] by (simp add: put_demand_def)
qed

lemma find_put_demand:
  assumes "demands_ok cuid db" "keeps_keys f"
  shows "find_demand (put_demand cuid db key f) key' =
    (if key' = key then Some (f (case find_demand db key of Some d \<Rightarrow> d | None \<Rightarrow> blank_demand cuid db key))
     else find_demand db key')"
proof (cases "find_demand db key")
  case None
  have "find_demand (put_demand cuid db key f) key' =
      (case find_demand db key' of Some d \<Rightarrow> Some d
       | None \<Rightarrow> if key = key' then Some (f (blank_demand cuid db key)) else None)"
    using None assms(2)
    by (auto simp: put_demand_def find_demand_def keeps_keys_def blank_demand_def find_app split: option.splits)
  then show ?thesis using None by (auto split: option.splits)
next
  case (Some e)
  have "(if dm_id d = dm_id e then f d else d) = (if key' = key then f d else d)"
    if "find_demand db key' = Some d" for d
  proof -
    have "dm_id d = dm_id e \<longleftrightarrow> d = e"
      using find_demand_id_unique[OF assms(1)] find_demand_in[OF that] find_demand_in[OF Some] by (metis option.inject)
    then show ?thesis using find_demand_in[OF that] find_demand_in[OF Some] that Some by auto
  qed
  then show ?thesis
    using Some find_update_demand[OF assms, of "dm_id e" key']
    by (cases "find_demand db key'") (auto simp: put_demand_def)
qed

interpretation demand_table: keyed_store find_demand "put_demand cuid" "blank_demand cuid" "demands_ok cuid" keeps_keys
  for cuid
  by unfold_locales (simp_all add: put_demand_ok find_put_demand)

subsection \<open>Frames\<close>

lemma find_demand_frame: "lg_demands db' = lg_demands db \<Longrightarrow> find_demand db' key = find_demand db key"
  by (simp add: find_demand_def)

lemma demands_ok_frame:
  "lg_demands db' = lg_demands db \<Longrightarrow> lg_seq db' = lg_seq db \<Longrightarrow> demands_ok cuid db' = demands_ok cuid db"
  by (simp add: demands_ok_def)

lemma log_audit_same [simp]:
  "lg_demands (log_audit a e i u db) = lg_demands db" "lg_seq (log_audit a e i u db) = lg_seq db"
  "lg_payments (log_audit a e i u db) = lg_payments db" "lg_arrears (log_audit a e i u db) = lg_arrears db"
  "lg_runs (log_audit a e i u db) = lg_runs db" "lg_surveys (log_audit a e i u db) = lg_surveys db"
  "lg_entries (log_audit a e i u db) = lg_entries db" "lg_callbacks (log_audit a e i u db) = lg_callbacks db"
  "lg_refunds (log_audit a e i u db) = lg_refunds db"
  "find_demand (log_audit a e i u db) key = find_demand db key"
  "demands_ok cuid (log_audit a e i u db) = demands_ok cuid db"
  by (simp_all add: log_audit_def find_demand_def demands_ok_def)

lemma put_demand_same [simp]:
  "lg_payments (put_demand cuid db key f) = lg_payments db" "lg_surveys (put_demand cuid db key f) = lg_surveys db"
  "lg_entries (put_demand cuid db key f) = lg_entries db" "lg_arrears (put_demand cuid db key f) = lg_arrears db"
  "lg_runs (put_demand cuid db key f) = lg_runs db"
  by (simp_all add: put_demand_def update_demand_def split: option.splits)

end
