(* ===== verification/Books.thy ===== *)
theory Books
  imports Ledger
begin

text \<open>
  What the services promise about the demand table: every demand is balanced, that is, its payable,
  paid and outstanding amounts are whole paise within the columns and the outstanding amount is
  exactly payable minus paid, or zero when more was paid. The lemmas say when a write keeps the
  books balanced; every operation on demands goes through one of them.
\<close>

definition balanced :: "demand \<Rightarrow> bool" where
  "balanced d \<longleftrightarrow>
     (\<exists>t p. in_column t \<and> in_column p \<and> in_column (max 0 (t - p)) \<and>
        dm_totalPayable d = paise t \<and> dm_amountPaid d = paise p \<and> dm_outstanding d = paise (max 0 (t - p)))"

definition books_balance :: "ledger \<Rightarrow> bool" where
  "books_balance db \<longleftrightarrow> (\<forall>d \<in> set (lg_demands db). balanced d)"

lemma balancedI:
  "in_column t \<Longrightarrow> in_column p \<Longrightarrow> in_column (max 0 (t - p)) \<Longrightarrow> dm_totalPayable d = paise t \<Longrightarrow>
   dm_amountPaid d = paise p \<Longrightarrow> dm_outstanding d = paise (max 0 (t - p)) \<Longrightarrow> balanced d"
  unfolding balanced_def by blast

text \<open>A payable and a paid amount read from columns, and the rounded difference written to one.\<close>

lemma stored_balance:
  assumes "decimal_column col" "in_column t" "in_column p"
    and "col (roundMoney (max 0 (fl (paise t - paise p)))) = Some u"
  shows "in_column (max 0 (t - p)) \<and> u = paise (max 0 (t - p))"
  using col_paise[OF assms(1)] assms(4) unfolding roundMoney_sub_max[OF assms(2,3)] by blast

lemma stored_round:
  assumes "decimal_column col" "col (roundMoney x) = Some y"
  obtains n where "in_column n" "y = paise n" "roundMoney x = paise n"
proof -
  have "in_column (paise_of x) \<and> y = paise (paise_of x)"
    using assms(2) col_paise[OF assms(1)] by (simp add: roundMoney_alt)
  then show thesis by (intro that[of "paise_of x"]) (simp_all add: roundMoney_alt)
qed

lemma balanced_outstanding:
  assumes "balanced d"
  obtains n where "dm_outstanding d = paise n" "in_column n" "0 \<le> n"
  using assms unfolding balanced_def by auto

lemma books_balance_frame: "lg_demands db' = lg_demands db \<Longrightarrow> books_balance db' = books_balance db"
  by (simp add: books_balance_def)

lemma update_books:
  assumes "books_balance db"
    and "\<And>d. d \<in> set (lg_demands db) \<Longrightarrow> dm_id d = i \<Longrightarrow> balanced d \<Longrightarrow> balanced (f d)"
  shows "books_balance (update_demand i f db)"
  using assms unfolding books_balance_def update_demand_def by auto

lemma put_books:
  assumes "books_balance db"
    and "\<And>d. (find_demand db key = Some d \<and> balanced d) \<or>
          (find_demand db key = None \<and> d = blank_demand cuid db key) \<Longrightarrow> balanced (f d)"
    and "demands_ok cuid db"
  shows "books_balance (put_demand cuid db key f)"
proof (cases "find_demand db key")
  case None
  then show ?thesis using assms(1) assms(2)[of "blank_demand cuid db key"]
    by (auto simp: put_demand_def books_balance_def)
next
  case (Some e)
  have "d = e" if "d \<in> set (lg_demands db)" "dm_id d = dm_id e" for d
    using find_demand_id_unique[OF assms(3)] that find_demand_in[OF Some] by (metis option.inject)
  then show ?thesis using Some assms(1) assms(2)[of e]
    by (auto simp: put_demand_def intro!: update_books)
qed

lemma find_demand_balanced: "books_balance db \<Longrightarrow> find_demand db key = Some d \<Longrightarrow> balanced d"
  using find_demand_in by (auto simp: books_balance_def)

lemma find_demand_id_balanced: "books_balance db \<Longrightarrow> find_demand_id db i = Some d \<Longrightarrow> balanced d"
  using find_demand_id_in by (auto simp: books_balance_def)

text \<open>A demand as it is created, with all amounts zero, is balanced.\<close>

lemma zero_balanced:
  "dm_totalPayable d = 0 \<Longrightarrow> dm_amountPaid d = 0 \<Longrightarrow> dm_outstanding d = 0 \<Longrightarrow> balanced d"
  by (rule balancedI[of 0 0]) simp_all

end
