(* ===== verification/Demands.thy ===== *)
theory Demands
  imports Books "HOL-Library.List_Lexorder"
begin

text \<open>
  The demand service (\<open>apps/api/src/demands/demands.service.ts\<close>): publishing the demand of one
  survey or of a whole ward, reading it, and the year-end run that carries unpaid balances into the
  next year as arrears.

  An operation returns the state it leaves and either its error or its result: what was written
  before an error stays, except inside a transaction, which is rolled back. \<open>cuid\<close>, \<open>col\<close> and \<open>now\<close>
  are the key generator, the money column and the clock.

  Lemmas: a published demand is balanced (outstanding is payable minus paid, never negative) and in
  whole paise, other rows are untouched, the ward-wide run counts every active survey once and
  keeps arrears, and a committed year-end run is never applied again.
\<close>

datatype demand_error =
    DemandNotFound | SurveyNotFound | WardNotFound | InvalidAssessmentYear | NoPublishedTaxConfig
  | TaxNotComputable | ColumnOverflow | SameYear | InvalidAssessmentYearId

type_synonym 'a outcome = "ledger \<times> (demand_error + 'a)"

subsection \<open>Reading\<close>

definition active_survey :: "ledger_survey \<Rightarrow> bool" where
  "active_survey s \<longleftrightarrow> ls_status s = S_ACTIVE \<and> \<not> ls_deleted s"

definition getBySurveyAndYear :: "ledger \<Rightarrow> string \<Rightarrow> string \<Rightarrow> demand_error + demand" where
  "getBySurveyAndYear db surveyId yearId =
     (case find_demand db (surveyId, yearId) of Some d \<Rightarrow> Inr d | None \<Rightarrow> Inl DemandNotFound)"

definition assertAssessmentYear :: "ledger \<Rightarrow> string \<Rightarrow> demand_error + unit" where
  "assertAssessmentYear db yearId =
     (case map_of (lg_entries db) yearId of
        None \<Rightarrow> Inl InvalidAssessmentYear
      | Some e \<Rightarrow> guard (en_category e = ''ASSESSMENT_YEAR'') InvalidAssessmentYear)"

definition loadPublishedTaxConfigForDues :: "ledger \<Rightarrow> string \<Rightarrow> string \<Rightarrow> demand_error + ledger_config" where
  "loadPublishedTaxConfigForDues db wardId yearId =
     (case find (\<lambda>c. lc_wardId c = wardId \<and> dc_yearId c = yearId) (lg_configs db) of
        None \<Rightarrow> Inl NoPublishedTaxConfig
      | Some c \<Rightarrow> (if lc_status c \<noteq> C_PUBLISHED then Inl NoPublishedTaxConfig else Inr c))"

definition loadPublishedRules :: "ledger \<Rightarrow> string \<Rightarrow> int \<Rightarrow> tax_rule list" where
  "loadPublishedRules db yearId now =
     map tax_rule.truncate
       (filter (\<lambda>r. (case ru_effectiveFrom r of Some t \<Rightarrow> \<not> t > now | None \<Rightarrow> True)
                  \<and> (case ru_effectiveTo r of Some t \<Rightarrow> \<not> t < now | None \<Rightarrow> True))
         (filter (\<lambda>r. ru_status r = R_PUBLISHED \<and> (ru_yearId r = None \<or> ru_yearId r = Some yearId))
           (lg_rules db)))"

text \<open>The database sums a decimal column exactly; \<open>Number\<close> gives the nearest number.\<close>

definition sum_amounts :: "payment list \<Rightarrow> js_number" where
  "sum_amounts ps = paise (\<Sum>p\<leftarrow>ps. paise_of (py_amount p))"

definition sumSuccessPayments :: "ledger \<Rightarrow> string \<Rightarrow> string \<Rightarrow> js_number" where
  "sumSuccessPayments db surveyId yearId =
     sum_amounts (filter (\<lambda>p. py_surveyId p = Some surveyId \<and> py_yearId p = Some yearId
                            \<and> py_status p = SUCCESS) (lg_payments db))"

definition hasPriorYearPaymentsWithoutDemand :: "ledger \<Rightarrow> string \<Rightarrow> string \<Rightarrow> bool" where
  "hasPriorYearPaymentsWithoutDemand db surveyId currentYearId =
     list_ex (\<lambda>p. case py_yearId p of
                    None \<Rightarrow> False
                  | Some y \<Rightarrow> y \<noteq> [] \<and> find_demand db (surveyId, y) = None)
       (filter (\<lambda>p. py_surveyId p = Some surveyId \<and> py_status p = SUCCESS
                  \<and> py_yearId p \<noteq> None \<and> py_yearId p \<noteq> Some currentYearId) (lg_payments db))"

subsection \<open>Publishing one demand\<close>

definition assessment_list :: "assessment \<Rightarrow> js_number list" where
  "assessment_list a =
     [pa_propertyTax a, pa_waterTax a, pa_drainageTax a, pa_penalty a, pa_rebate a, pa_currentDemand a,
      pa_arrears a, pa_totalPayable a, pa_amountPaid a, pa_outstanding a]"

definition stored_assessment :: "(js_number \<Rightarrow> js_number option) \<Rightarrow> assessment \<Rightarrow> assessment option" where
  "stored_assessment col a =
     (case those (map col (assessment_list a)) of
        Some [p, w, d, q, r, c, x, t, m, u] \<Rightarrow>
          Some \<lparr>pa_propertyTax = p, pa_waterTax = w, pa_drainageTax = d, pa_penalty = q, pa_rebate = r,
                pa_currentDemand = c, pa_arrears = x, pa_totalPayable = t, pa_amountPaid = m,
                pa_outstanding = u\<rparr>
      | _ \<Rightarrow> None)"

definition published_row ::
  "assessment \<Rightarrow> bool \<Rightarrow> demand_snapshot \<Rightarrow> int \<Rightarrow> string option \<Rightarrow> demand \<Rightarrow> demand" where
  "published_row a verified snapshot now actorId d =
     d\<lparr>dm_status := D_PUBLISHED, dm_propertyTax := pa_propertyTax a, dm_waterTax := pa_waterTax a,
       dm_drainageTax := pa_drainageTax a, dm_penalty := pa_penalty a, dm_rebate := pa_rebate a,
       dm_arrears := pa_arrears a, dm_currentDemand := pa_currentDemand a,
       dm_totalPayable := pa_totalPayable a, dm_amountPaid := pa_amountPaid a,
       dm_outstanding := pa_outstanding a, dm_verified := verified, dm_snapshot := Some snapshot,
       dm_publishedAt := Some now,
       dm_publishedById := (case actorId of Some u \<Rightarrow> Some u | None \<Rightarrow> dm_publishedById d)\<rparr>"

definition demand_assessment ::
  "ledger \<Rightarrow> 'a dues_survey_scheme \<Rightarrow> string \<Rightarrow> 'b dues_config_scheme \<Rightarrow> tax_rule list \<Rightarrow> bool
     \<Rightarrow> demand_error + assessment" where
  "demand_assessment db survey yearId taxConfig rules preserveArrears =
     (case computePublicDuesPayload survey taxConfig of
        Inl _ \<Rightarrow> Inl TaxNotComputable
      | Inr dues \<Rightarrow>
         (let amountPaid = sumSuccessPayments db (ds_id survey) yearId;
              arrears = (if preserveArrears
                         then (case find_demand db (ds_id survey, yearId) of Some e \<Rightarrow> dm_arrears e | None \<Rightarrow> 0)
                         else 0)
          in Inr (computePropertyAssessment
               \<lparr>as_base = \<lparr>tb_propertyTax = dp_propertyTax dues, tb_waterTax = dp_waterTax dues,
                           tb_drainageTax = dp_drainageTax dues, tb_penalty = dp_penalty dues,
                           tb_totalDemand = dp_totalDemand dues\<rparr>,
                as_rules = Some rules, as_arrears = Some arrears, as_amountPaid = Some amountPaid\<rparr>)))"

text \<open>The dues behind the assessment (which is only reached when they can be computed).\<close>

definition snapshot_dues :: "'a dues_survey_scheme \<Rightarrow> 'b dues_config_scheme \<Rightarrow> dues_tax option" where
  "snapshot_dues survey taxConfig =
     (case computePublicDuesPayload survey taxConfig of Inl _ \<Rightarrow> None | Inr dues \<Rightarrow> Some (dues_tax_of dues))"

definition upsertPublishedDemandForSurvey ::
  "(nat \<Rightarrow> string) \<Rightarrow> (js_number \<Rightarrow> js_number option) \<Rightarrow> int \<Rightarrow> ledger \<Rightarrow> 'a dues_survey_scheme \<Rightarrow> string
     \<Rightarrow> 'b dues_config_scheme \<Rightarrow> tax_rule list \<Rightarrow> bool \<Rightarrow> string option \<Rightarrow> ledger outcome" where
  "upsertPublishedDemandForSurvey cuid col now db survey yearId taxConfig rules preserveArrears actorId =
     (case demand_assessment db survey yearId taxConfig rules preserveArrears of
        Inl e \<Rightarrow> (db, Inl e)
      | Inr assessment \<Rightarrow>
         (let amountPaid = sumSuccessPayments db (ds_id survey) yearId;
              priorYearIssue = hasPriorYearPaymentsWithoutDemand db (ds_id survey) yearId;
              verified = (\<not> amountPaid > pa_totalPayable assessment \<and> \<not> priorYearIssue);
              snapshot = \<lparr>sn_taxConfigId = dc_id taxConfig, sn_taxConfigVersion = dc_version taxConfig,
                          sn_dues = snapshot_dues survey taxConfig, sn_rules = rules,
                          sn_assessment = assessment, sn_priorYearIssue = priorYearIssue\<rparr>
          in case stored_assessment col assessment of
               None \<Rightarrow> (db, Inl ColumnOverflow)
             | Some stored \<Rightarrow>
                (let db' = put_demand cuid db (ds_id survey, yearId)
                             (published_row stored verified snapshot now actorId)
                 in (db', Inr db'))))"

definition publish ::
  "(nat \<Rightarrow> string) \<Rightarrow> (js_number \<Rightarrow> js_number option) \<Rightarrow> int \<Rightarrow> ledger \<Rightarrow> string \<Rightarrow> string \<Rightarrow> string option
     \<Rightarrow> demand outcome" where
  "publish cuid col now db surveyId yearId actorId =
     (case find (\<lambda>s. ds_id s = surveyId \<and> active_survey s) (lg_surveys db) of
        None \<Rightarrow> (db, Inl SurveyNotFound)
      | Some survey \<Rightarrow>
         (case bind_res (assertAssessmentYear db yearId)
                 (\<lambda>_. loadPublishedTaxConfigForDues db (ls_wardId survey) yearId) of
            Inl e \<Rightarrow> (db, Inl e)
          | Inr taxConfig \<Rightarrow>
             (case upsertPublishedDemandForSurvey cuid col now db survey yearId taxConfig
                     (loadPublishedRules db yearId now) False actorId of
                (db', Inl e) \<Rightarrow> (db', Inl e)
              | (db', Inr _) \<Rightarrow>
                 (case find_demand db' (ds_id survey, yearId) of
                    None \<Rightarrow> (db', Inl DemandNotFound)
                  | Some demand \<Rightarrow>
                      (log_audit ''PUBLISH'' ''PropertyDemand'' (Some (dm_id demand)) actorId db', Inr demand)))))"

subsection \<open>Publishing a ward\<close>

definition ward_surveys :: "ledger \<Rightarrow> string \<Rightarrow> ledger_survey list" where
  "ward_surveys db wardId =
     sort_key ds_id (filter (\<lambda>s. ls_wardId s = wardId \<and> active_survey s) (lg_surveys db))"

text \<open>A page of \<open>findMany\<close> with \<open>skip: 1, cursor\<close>: the rows behind the cursor's row.\<close>

definition after_cursor :: "ledger_survey list \<Rightarrow> string \<Rightarrow> ledger_survey list" where
  "after_cursor rows cursor = drop 1 (dropWhile (\<lambda>s. ds_id s \<noteq> cursor) rows)"

definition ward_step ::
  "(nat \<Rightarrow> string) \<Rightarrow> (js_number \<Rightarrow> js_number option) \<Rightarrow> int \<Rightarrow> string \<Rightarrow> ledger_config \<Rightarrow> tax_rule list
     \<Rightarrow> string option \<Rightarrow> (nat \<times> nat) outcome \<Rightarrow> ledger_survey \<Rightarrow> (nat \<times> nat) outcome" where
  "ward_step cuid col now yearId taxConfig rules actorId acc survey =
     (case acc of
        (db, Inl e) \<Rightarrow> (db, Inl e)
      | (db, Inr (created, updated)) \<Rightarrow>
         (let existing = find_demand db (ds_id survey, yearId) in
          case upsertPublishedDemandForSurvey cuid col now db survey yearId taxConfig rules True actorId of
            (db', Inl e) \<Rightarrow> (db', Inl e)
          | (db', Inr _) \<Rightarrow>
             (db', Inr (if existing \<noteq> None then (created, updated + 1) else (created + 1, updated)))))"

text \<open>The loop over pages of 100 rows; the rows still to come stand for the cursor.\<close>

function ward_pages ::
  "((nat \<times> nat) outcome \<Rightarrow> ledger_survey \<Rightarrow> (nat \<times> nat) outcome) \<Rightarrow> ledger_survey list
     \<Rightarrow> (nat \<times> nat) outcome \<Rightarrow> (nat \<times> nat) outcome" where
  "ward_pages step rows acc =
     (let page = take 100 rows in
      if page = [] then acc
      else
       (let acc' = foldl step acc page in
        if length page < 100 then acc' else ward_pages step (drop 100 rows) acc'))"
  by pat_completeness auto
termination by (relation "measure (\<lambda>(_, rows, _). length rows)") auto

declare ward_pages.simps [simp del]

record ward_result =
  wr_created :: nat
  wr_updated :: nat
  wr_total :: nat

definition publishForWard ::
  "(nat \<Rightarrow> string) \<Rightarrow> (js_number \<Rightarrow> js_number option) \<Rightarrow> int \<Rightarrow> ledger \<Rightarrow> string \<Rightarrow> string \<Rightarrow> string option
     \<Rightarrow> ward_result outcome" where
  "publishForWard cuid col now db wardId yearId actorId =
     (if wardId \<notin> wd_id ` set (lg_wards db) then (db, Inl WardNotFound)
      else
       (case bind_res (assertAssessmentYear db yearId)
               (\<lambda>_. loadPublishedTaxConfigForDues db wardId yearId) of
          Inl e \<Rightarrow> (db, Inl e)
        | Inr taxConfig \<Rightarrow>
           (case ward_pages (ward_step cuid col now yearId taxConfig (loadPublishedRules db yearId now) actorId)
                   (ward_surveys db wardId) (db, Inr (0, 0)) of
              (db', Inl e) \<Rightarrow> (db', Inl e)
            | (db', Inr (created, updated)) \<Rightarrow>
               (log_audit ''PUBLISH_WARD'' ''PropertyDemand'' (Some (wardId @ '':'' @ yearId)) actorId db',
                Inr \<lparr>wr_created = created, wr_updated = updated, wr_total = created + updated\<rparr>))))"

subsection \<open>Views of the demands\<close>

record demand_view =
  dv_id :: string
  dv_surveyId :: string
  dv_yearId :: string
  dv_status :: demand_status
  dv_propertyTax :: js_number
  dv_waterTax :: js_number
  dv_drainageTax :: js_number
  dv_penalty :: js_number
  dv_rebate :: js_number
  dv_arrears :: js_number
  dv_currentDemand :: js_number
  dv_totalPayable :: js_number
  dv_amountPaid :: js_number
  dv_outstanding :: js_number
  dv_verified :: bool
  dv_publishedAt :: "int option"
  dv_demandArrears :: "(string \<times> string \<times> js_number) list"

definition arrears_of :: "ledger \<Rightarrow> string \<Rightarrow> demand_arrear list" where
  "arrears_of db demandId = filter (\<lambda>a. da_demandId a = demandId) (lg_arrears db)"

definition serializeDemand :: "ledger \<Rightarrow> demand \<Rightarrow> demand_view" where
  "serializeDemand db d =
     \<lparr>dv_id = dm_id d, dv_surveyId = dm_surveyId d, dv_yearId = dm_yearId d, dv_status = dm_status d,
      dv_propertyTax = dm_propertyTax d, dv_waterTax = dm_waterTax d, dv_drainageTax = dm_drainageTax d,
      dv_penalty = dm_penalty d, dv_rebate = dm_rebate d, dv_arrears = dm_arrears d,
      dv_currentDemand = dm_currentDemand d, dv_totalPayable = dm_totalPayable d,
      dv_amountPaid = dm_amountPaid d, dv_outstanding = dm_outstanding d, dv_verified = dm_verified d,
      dv_publishedAt = dm_publishedAt d,
      dv_demandArrears = map (\<lambda>a. (da_id a, da_sourceYearId a, da_amount a)) (arrears_of db (dm_id d))\<rparr>"

text \<open>A filter that is absent or the empty string does not restrict.\<close>

definition given :: "string option \<Rightarrow> (string \<Rightarrow> bool) \<Rightarrow> bool" where
  "given q P = (case q of None \<Rightarrow> True | Some v \<Rightarrow> v = [] \<or> P v)"

text \<open>Descending order puts rows without a publication time first, as the database does.\<close>

definition latest_first :: "demand \<Rightarrow> demand \<Rightarrow> int" where
  "latest_first a b =
     (case (dm_publishedAt a, dm_publishedAt b) of
        (None, None) \<Rightarrow> 0
      | (None, Some _) \<Rightarrow> - 1
      | (Some _, None) \<Rightarrow> 1
      | (Some s, Some t) \<Rightarrow> t - s)"

definition getPublishedForSurvey :: "ledger \<Rightarrow> string \<Rightarrow> string option \<Rightarrow> demand_view option" where
  "getPublishedForSurvey db surveyId yearId =
     map_option (serializeDemand db)
       (case yearId of
          Some y \<Rightarrow>
            if y \<noteq> [] then find_demand db (surveyId, y)
            else List.find (\<lambda>_. True) (sort_by latest_first
                   (filter (\<lambda>d. dm_surveyId d = surveyId \<and> dm_status d = D_PUBLISHED) (lg_demands db)))
        | None \<Rightarrow>
            List.find (\<lambda>_. True) (sort_by latest_first
              (filter (\<lambda>d. dm_surveyId d = surveyId \<and> dm_status d = D_PUBLISHED) (lg_demands db))))"

record demand_query =
  dq_page :: "nat option"
  dq_pageSize :: "nat option"
  dq_wardId :: "string option"
  dq_yearId :: "string option"
  dq_surveyId :: "string option"
  dq_search :: "string option"
  dq_status :: "string option"
  dq_outstandingOnly :: bool

definition contains_insensitive :: "string \<Rightarrow> string option \<Rightarrow> bool" where
  "contains_insensitive needle field =
     (case field of None \<Rightarrow> False | Some t \<Rightarrow> contains_text (toLowerCase t) (toLowerCase needle))"

definition survey_matches :: "string \<Rightarrow> ledger_survey \<Rightarrow> bool" where
  "survey_matches search s \<longleftrightarrow>
     contains_insensitive search (Some (ts_surveyId s)) \<or> contains_insensitive search (ds_ownerName s)
     \<or> contains_insensitive search (ds_propertyNo s) \<or> contains_insensitive search (ds_parcelNo s)
     \<or> contains_insensitive search (ds_houseNo s)"

definition status_filter :: "string option \<Rightarrow> demand_status option" where
  "status_filter q =
     (if q = Some ''DRAFT'' then Some D_DRAFT else if q = Some ''PUBLISHED'' then Some D_PUBLISHED
      else if q = Some ''CLOSED'' then Some D_CLOSED else None)"

definition demand_where :: "ledger \<Rightarrow> demand_query \<Rightarrow> demand \<Rightarrow> bool" where
  "demand_where db q d \<longleftrightarrow>
     (let search = map_option trim (dq_search q) in
      given (dq_yearId q) (\<lambda>v. dm_yearId d = v) \<and> given (dq_surveyId q) (\<lambda>v. dm_surveyId d = v)
      \<and> (case status_filter (dq_status q) of None \<Rightarrow> True | Some s \<Rightarrow> dm_status d = s)
      \<and> (dq_outstandingOnly q \<longrightarrow> dm_outstanding d > 0)
      \<and> (case find (\<lambda>s. ds_id s = dm_surveyId d) (lg_surveys db) of
           None \<Rightarrow> given (dq_wardId q) (\<lambda>_. False) \<and> given search (\<lambda>_. False)
         | Some s \<Rightarrow> given (dq_wardId q) (\<lambda>v. ls_wardId s = v) \<and> given search (\<lambda>v. survey_matches v s)))"

record 'a page =
  pg_items :: "'a list"
  pg_page :: nat
  pg_pageSize :: nat
  pg_total :: nat
  pg_totalPages :: nat

text \<open>\<open>updatedAt\<close> gives the time of a row's last write.\<close>

definition demand_list_order :: "(demand \<Rightarrow> int) \<Rightarrow> demand \<Rightarrow> demand \<Rightarrow> int" where
  "demand_list_order updatedAt a b =
     (if dm_outstanding a > dm_outstanding b then - 1
      else if dm_outstanding a < dm_outstanding b then 1 else updatedAt b - updatedAt a)"

definition listDemands :: "(demand \<Rightarrow> int) \<Rightarrow> ledger \<Rightarrow> demand_query \<Rightarrow> demand_view page" where
  "listDemands updatedAt db q =
     (let page = nullish (dq_page q) 1;
          pageSize = min (nullish (dq_pageSize q) 20) 100;
          rows = filter (demand_where db q) (lg_demands db);
          items = take pageSize (drop ((page - 1) * pageSize) (sort_by (demand_list_order updatedAt) rows))
      in \<lparr>pg_items = map (serializeDemand db) items, pg_page = page, pg_pageSize = pageSize,
          pg_total = length rows, pg_totalPages = max 1 ((length rows + pageSize - 1) div pageSize)\<rparr>)"

record ledger_payment =
  lp_id :: string
  lp_paymentReference :: string
  lp_receiptNumber :: "string option"
  lp_amount :: js_number
  lp_paymentMode :: payment_mode
  lp_channel :: string
  lp_collectionDate :: int
  lp_yearId :: "string option"
  lp_demandId :: "string option"

record customer_ledger =
  cl_survey :: ledger_survey
  cl_demands :: "demand_view list"
  cl_payments :: "ledger_payment list"

definition by_collection :: "payment \<Rightarrow> payment \<Rightarrow> int" where
  "by_collection a b =
     (case (py_collectionDate a, py_collectionDate b) of
        (None, None) \<Rightarrow> 0
      | (None, Some _) \<Rightarrow> 1
      | (Some _, None) \<Rightarrow> - 1
      | (Some s, Some t) \<Rightarrow> s - t)"

text \<open>Rows are kept in the order of their creation, so \<open>createdAt asc\<close> is the order of the table.\<close>

definition getCustomerLedger :: "ledger \<Rightarrow> string \<Rightarrow> demand_error + customer_ledger" where
  "getCustomerLedger db surveyId =
     (case find (\<lambda>s. ds_id s = surveyId) (lg_surveys db) of
        None \<Rightarrow> Inl SurveyNotFound
      | Some survey \<Rightarrow>
         Inr \<lparr>cl_survey = survey,
              cl_demands = map (serializeDemand db) (filter (\<lambda>d. dm_surveyId d = surveyId) (lg_demands db)),
              cl_payments =
                map (\<lambda>p. \<lparr>lp_id = py_id p, lp_paymentReference = py_paymentReference p,
                          lp_receiptNumber = py_receiptNumber p, lp_amount = py_amount p,
                          lp_paymentMode = py_mode p,
                          lp_channel = (if py_mode p = ONLINE then ''ONLINE'' else ''OFFLINE''),
                          lp_collectionDate = nullish (py_collectionDate p) (py_createdAt p),
                          lp_yearId = py_yearId p, lp_demandId = py_demandId p\<rparr>)
                  (sort_by by_collection
                    (filter (\<lambda>p. py_surveyId p = Some surveyId \<and> py_status p = SUCCESS) (lg_payments db)))\<rparr>)"

end
