(* ===== verification/Publishing.thy ===== *)
theory Publishing
  imports Demands
begin

text \<open>
  Facts about publication: the amounts of an assessment are whole paise, so that what is stored is
  what was computed; a published row is balanced; the loop over a ward writes one row per active
  survey and reads nothing that it wrote for another (through the contract \<open>keyed_store\<close>).
\<close>

subsection \<open>The amounts of an assessment\<close>

definition whole_paise :: "js_number \<Rightarrow> bool" where
  "whole_paise x \<longleftrightarrow> (\<exists>n. x = paise n)"

lemma whole_paise_round [simp]: "whole_paise (roundMoney x)"
  unfolding whole_paise_def roundMoney_alt by blast

lemma whole_paise_sum: "whole_paise a \<Longrightarrow> whole_paise (sum_money f a xs)"
  by (induction xs arbitrary: a) simp_all

lemma col_whole: "decimal_column col \<Longrightarrow> whole_paise x \<Longrightarrow> col x = Some y \<Longrightarrow> y = x"
  using col_paise unfolding whole_paise_def by metis

lemma assessment_whole: "\<forall>x \<in> set (assessment_list (computePropertyAssessment inp)). whole_paise x"
proof -
  let ?a = "computePropertyAssessment inp"
  have z: "whole_paise 0" using whole_paise_round[of 0] by simp
  have "whole_paise (pa_propertyTax ?a)" "whole_paise (pa_waterTax ?a)" "whole_paise (pa_drainageTax ?a)"
    "whole_paise (pa_currentDemand ?a)" "whole_paise (pa_arrears ?a)" "whole_paise (pa_totalPayable ?a)"
    "whole_paise (pa_amountPaid ?a)" "whole_paise (pa_outstanding ?a)"
    unfolding computePropertyAssessment_def Let_def assessment.simps by (rule whole_paise_round)+
  moreover have "whole_paise (pa_rebate ?a)"
    unfolding computePropertyAssessment_def Let_def assessment.simps by (rule whole_paise_sum[OF z])
  moreover have "whole_paise (if b then sum_money f 0 xs else roundMoney y)" for b y f and xs :: "tax_rule list"
    by (simp add: whole_paise_sum[OF z])
  then have "whole_paise (pa_penalty ?a)"
    unfolding computePropertyAssessment_def Let_def assessment.simps by (intro whole_paise_sum)
  ultimately show ?thesis unfolding assessment_list_def by simp
qed

lemma stored_assessment_same:
  assumes "decimal_column col" "stored_assessment col (computePropertyAssessment inp) = Some s"
  shows "s = computePropertyAssessment inp"
proof -
  define a where "a = computePropertyAssessment inp"
  have w: "\<forall>x \<in> set (assessment_list a). whole_paise x"
    using assessment_whole[of inp] by (simp add: a_def)
  have all: "those (map col xs) = Some ys \<Longrightarrow> \<forall>x \<in> set xs. whole_paise x \<Longrightarrow> ys = xs" for xs ys
    by (induction xs arbitrary: ys) (auto split: option.splits dest: col_whole[OF assms(1)])
  have st: "stored_assessment col a = Some s" using assms(2) unfolding a_def by simp
  then obtain ys where ys: "those (map col (assessment_list a)) = Some ys"
    by (cases "those (map col (assessment_list a))") (simp_all add: stored_assessment_def)
  have "those (map col (assessment_list a)) = Some (assessment_list a)" using ys all[OF ys w] by simp
  then have "stored_assessment col a = Some a"
    unfolding stored_assessment_def by (simp add: assessment_list_def)
  then show ?thesis using st unfolding a_def by simp
qed

lemma stored_assessment_columns:
  assumes "decimal_column col" "stored_assessment col a = Some s" "x \<in> set (assessment_list a)" "whole_paise x"
  shows "\<exists>n. x = paise n \<and> in_column n"
proof -
  have "those (map col xs) = Some ys \<Longrightarrow> x \<in> set xs \<Longrightarrow> \<exists>y. col x = Some y" for xs ys
    by (induction xs arbitrary: ys) (auto split: option.splits)
  then obtain y where "col x = Some y"
    using assms(2,3) unfolding stored_assessment_def by (cases "those (map col (assessment_list a))") auto
  then show ?thesis using assms(4) col_paise[OF assms(1)] unfolding whole_paise_def by blast
qed

lemma assessment_parts:
  "pa_outstanding (computePropertyAssessment inp) =
     roundMoney (max 0 (fl (pa_totalPayable (computePropertyAssessment inp)
                            - pa_amountPaid (computePropertyAssessment inp))))"
  "pa_amountPaid (computePropertyAssessment inp) = roundMoney (max 0 (nullish (as_amountPaid inp) 0))"
  "pa_arrears (computePropertyAssessment inp) = roundMoney (max 0 (nullish (as_arrears inp) 0))"
  unfolding computePropertyAssessment_def Let_def assessment.simps by (rule refl)+

text \<open>What a stored assessment says of its balance.\<close>

lemma assessment_balance:
  assumes "decimal_column col" "a = computePropertyAssessment inp" "stored_assessment col a = Some s"
  shows "\<exists>t p. in_column t \<and> in_column p \<and> in_column (max 0 (t - p)) \<and>
    pa_totalPayable a = paise t \<and> pa_amountPaid a = paise p \<and> pa_outstanding a = paise (max 0 (t - p))"
proof -
  have c: "\<exists>n. x = paise n \<and> in_column n" if "x \<in> set (assessment_list a)" for x
    using stored_assessment_columns[OF assms(1,3) that] assessment_whole[of inp] that assms(2) by blast
  obtain t p u where tp: "pa_totalPayable a = paise t" "in_column t" "pa_amountPaid a = paise p" "in_column p"
    "pa_outstanding a = paise u" "in_column u"
    using c[of "pa_totalPayable a"] c[of "pa_amountPaid a"] c[of "pa_outstanding a"]
    by (auto simp: assessment_list_def)
  have "pa_outstanding a = roundMoney (max 0 (fl (pa_totalPayable a - pa_amountPaid a)))"
    unfolding assms(2) by (rule assessment_parts(1))
  then have "paise u = paise (max 0 (t - p))"
    using roundMoney_sub_max[OF tp(2,4)] tp by simp
  moreover have "in_column (max 0 (t - p))"
  proof (rule in_column_paise_of)
    have "paise_of (paise (max 0 (t - p))) = u" using calculation paise_of_paise[OF tp(6)] by metis
    then show "in_column (paise_of (paise (max 0 (t - p))))" using tp(6) by simp
  qed
  ultimately show ?thesis using tp by metis
qed

lemma assessment_paid:
  assumes "decimal_column col" "a = computePropertyAssessment inp" "stored_assessment col a = Some s"
    and "as_amountPaid inp = Some (paise n)"
  shows "pa_amountPaid a = paise (max 0 n)" "in_column (max 0 n)"
proof -
  have r: "pa_amountPaid a = roundMoney (paise (max 0 n))"
    unfolding assms(2) assessment_parts(2) using assms(4) paise_max[of 0 n] by simp
  then have w: "pa_amountPaid a = paise (paise_of (paise (max 0 n)))" by (simp add: roundMoney_alt)
  obtain m where m: "pa_amountPaid a = paise m" "in_column m"
    using stored_assessment_columns[OF assms(1,3), of "pa_amountPaid a"] w
    by (auto simp: assessment_list_def whole_paise_def)
  have "roundMoney (pa_amountPaid a) = pa_amountPaid a" using roundMoney_paise[OF m(2)] m(1) by simp
  have "col (pa_amountPaid a) \<noteq> None" using m col_money[OF assms(1)] by simp
  then have "col (paise (paise_of (paise (max 0 n)))) \<noteq> None" using w by simp
  then have "in_column (paise_of (paise (max 0 n)))" using col_paise[OF assms(1)] by blast
  then show "in_column (max 0 n)" by (rule in_column_paise_of)
  then show "pa_amountPaid a = paise (max 0 n)" using r roundMoney_paise by simp
qed

subsection \<open>Publishing writes one balanced row\<close>

lemma published_row_keys: "keeps_keys (published_row a v n t u)"
  by (simp add: keeps_keys_def published_row_def)

lemma published_row_balanced:
  assumes "decimal_column col" "a = computePropertyAssessment inp" "stored_assessment col a = Some s"
  shows "balanced (published_row s v n t u d)"
proof -
  have "s = a" using stored_assessment_same[OF assms(1)] assms(2,3) by simp
  then show ?thesis using assessment_balance[OF assms] unfolding balanced_def published_row_def by simp
qed

text \<open>The row that publication writes, as a function of the state; where it cannot be computed or
  stored it is left alone.\<close>

definition assessable ::
  "(js_number \<Rightarrow> js_number option) \<Rightarrow> string \<Rightarrow> 'b dues_config_scheme \<Rightarrow> tax_rule list \<Rightarrow> bool
     \<Rightarrow> 'a dues_survey_scheme \<Rightarrow> ledger \<Rightarrow> bool" where
  "assessable col yearId cfg rules preserve survey db \<longleftrightarrow>
     (case demand_assessment db survey yearId cfg rules preserve of
        Inl _ \<Rightarrow> False | Inr a \<Rightarrow> stored_assessment col a \<noteq> None)"

definition assessed_row ::
  "(js_number \<Rightarrow> js_number option) \<Rightarrow> int \<Rightarrow> string \<Rightarrow> 'b dues_config_scheme \<Rightarrow> tax_rule list \<Rightarrow> bool
     \<Rightarrow> string option \<Rightarrow> 'a dues_survey_scheme \<Rightarrow> ledger \<Rightarrow> demand \<Rightarrow> demand" where
  "assessed_row col now yearId cfg rules preserve actorId survey db =
     (case demand_assessment db survey yearId cfg rules preserve of
        Inl _ \<Rightarrow> id
      | Inr a \<Rightarrow>
         (case stored_assessment col a of
            None \<Rightarrow> id
          | Some s \<Rightarrow>
             (let amountPaid = sumSuccessPayments db (ds_id survey) yearId;
                  issue = hasPriorYearPaymentsWithoutDemand db (ds_id survey) yearId
              in published_row s (\<not> amountPaid > pa_totalPayable a \<and> \<not> issue)
                   \<lparr>sn_taxConfigId = dc_id cfg, sn_taxConfigVersion = dc_version cfg,
                    sn_dues = snapshot_dues survey cfg, sn_rules = rules, sn_assessment = a, sn_priorYearIssue = issue\<rparr> now actorId)))"

lemma upsert_alt:
  "upsertPublishedDemandForSurvey cuid col now db survey yearId cfg rules preserve actorId =
     (if assessable col yearId cfg rules preserve survey db
      then (let db' = put_demand cuid db (ds_id survey, yearId)
                        (assessed_row col now yearId cfg rules preserve actorId survey db) in (db', Inr db'))
      else (db, Inl (case demand_assessment db survey yearId cfg rules preserve of
                       Inl e \<Rightarrow> e | Inr _ \<Rightarrow> ColumnOverflow)))"
  unfolding upsertPublishedDemandForSurvey_def assessable_def assessed_row_def Let_def
  by (auto split: sum.splits option.splits)

lemma assessed_row_keys: "keeps_keys (assessed_row col now yearId cfg rules preserve actorId survey db)"
  by (auto simp: assessed_row_def Let_def published_row_keys split: sum.splits option.splits)
     (simp_all add: keeps_keys_def)

definition paid_paise :: "ledger \<Rightarrow> string \<Rightarrow> string \<Rightarrow> int" where
  "paid_paise db surveyId yearId =
     (\<Sum>p\<leftarrow>filter (\<lambda>p. py_surveyId p = Some surveyId \<and> py_yearId p = Some yearId \<and> py_status p = SUCCESS)
            (lg_payments db). paise_of (py_amount p))"

definition kept_arrears :: "bool \<Rightarrow> ledger \<Rightarrow> string \<times> string \<Rightarrow> js_number" where
  "kept_arrears preserve db key =
     (if preserve then (case find_demand db key of Some e \<Rightarrow> dm_arrears e | None \<Rightarrow> 0) else 0)"

lemma demand_assessment_computed:
  assumes "demand_assessment db survey yearId cfg rules preserve = Inr a"
  obtains inp where "a = computePropertyAssessment inp"
    "as_amountPaid inp = Some (paise (paid_paise db (ds_id survey) yearId))"
    "as_arrears inp = Some (kept_arrears preserve db (ds_id survey, yearId))"
  using assms unfolding demand_assessment_def Let_def sumSuccessPayments_def sum_amounts_def
    paid_paise_def kept_arrears_def
  by (auto split: sum.splits)

lemma assessed_row_published:
  assumes "decimal_column col" "assessable col yearId cfg rules preserve survey db"
    and "row = assessed_row col now yearId cfg rules preserve actorId survey db"
  shows "balanced (row d)" "dm_status (row d) = D_PUBLISHED"
    "dm_amountPaid (row d) = paise (max 0 (paid_paise db (ds_id survey) yearId))"
    "dm_arrears (row d) = roundMoney (max 0 (kept_arrears preserve db (ds_id survey, yearId)))"
proof -
  obtain a s where as: "demand_assessment db survey yearId cfg rules preserve = Inr a"
    "stored_assessment col a = Some s"
    using assms(2) by (auto simp: assessable_def split: sum.splits)
  obtain inp where inp: "a = computePropertyAssessment inp"
    "as_amountPaid inp = Some (paise (paid_paise db (ds_id survey) yearId))"
    "as_arrears inp = Some (kept_arrears preserve db (ds_id survey, yearId))"
    by (rule demand_assessment_computed[OF as(1)])
  obtain v n where row: "row d = published_row s v n now actorId d"
    unfolding assms(3) assessed_row_def Let_def as sum.case option.case by blast
  have s: "s = a" using stored_assessment_same[OF assms(1)] as(2) inp(1) by simp
  show "balanced (row d)" unfolding row by (rule published_row_balanced[OF assms(1) inp(1) as(2)])
  show "dm_status (row d) = D_PUBLISHED" unfolding row by (simp add: published_row_def)
  show "dm_amountPaid (row d) = paise (max 0 (paid_paise db (ds_id survey) yearId))"
    using assessment_paid(1)[OF assms(1) inp(1) as(2) inp(2)] unfolding row s by (simp add: published_row_def)
  have "pa_arrears a = roundMoney (max 0 (kept_arrears preserve db (ds_id survey, yearId)))"
    unfolding inp(1) assessment_parts(3) inp(3) by simp
  then show "dm_arrears (row d) = roundMoney (max 0 (kept_arrears preserve db (ds_id survey, yearId)))"
    unfolding row s by (simp add: published_row_def)
qed

subsection \<open>Publishing one demand\<close>

lemma publish_cases:
  assumes "publish cuid col now db surveyId yearId actorId = (db', Inr d)"
  obtains survey :: ledger_survey and cfg :: ledger_config and rules where
    "assessable col yearId cfg rules False survey db" "ds_id survey = surveyId"
    "survey \<in> set (lg_surveys db)" "active_survey survey"
    "db' = log_audit ''PUBLISH'' ''PropertyDemand'' (Some (dm_id d)) actorId
             (put_demand cuid db (surveyId, yearId) (assessed_row col now yearId cfg rules False actorId survey db))"
    "find_demand (put_demand cuid db (surveyId, yearId)
       (assessed_row col now yearId cfg rules False actorId survey db)) (surveyId, yearId) = Some d"
proof -
  obtain survey cfg where s: "List.find (\<lambda>s. ds_id s = surveyId \<and> active_survey s) (lg_surveys db) = Some survey"
    "bind_res (assertAssessmentYear db yearId)
                 (\<lambda>_. loadPublishedTaxConfigForDues db (ls_wardId survey) yearId) = Inr cfg"
    using assms unfolding publish_def by (auto split: option.splits sum.splits)
  then have i: "ds_id survey = surveyId" "survey \<in> set (lg_surveys db)" "active_survey survey"
    using find_Some_in[OF s(1)] by auto
  then show thesis
    using assms that[of cfg "loadPublishedRules db yearId now" survey] s
    by (auto simp: publish_def upsert_alt Let_def split: if_splits option.splits)
qed

text \<open>C7. Publishing a survey's demand writes exactly that demand: the row is published, its amounts
  are balanced (outstanding is payable minus paid, never below zero, in whole paise), the amount paid
  is the exact sum of the successful payments of that survey and year, the arrears are zero, and the
  demands of every other survey or year and all payments are untouched.\<close>

theorem publication_exact:
  assumes "decimal_column col" "demands_ok cuid db"
    and "publish cuid col now db surveyId yearId actorId = (db', Inr d)"
  shows "find_demand db' (surveyId, yearId) = Some d \<and> dm_status d = D_PUBLISHED \<and> balanced d \<and>
    dm_amountPaid d = paise (max 0 (paid_paise db surveyId yearId)) \<and> dm_arrears d = 0 \<and>
    (\<forall>key. key \<noteq> (surveyId, yearId) \<longrightarrow> find_demand db' key = find_demand db key) \<and>
    demands_ok cuid db' \<and> lg_payments db' = lg_payments db"
  using assms(3)
proof (cases rule: publish_cases)
  case (1 survey cfg rules)
  let ?row = "assessed_row col now yearId cfg rules False actorId survey db"
  note g = find_put_demand[OF assms(2) assessed_row_keys]
  obtain b where d: "d = ?row b" using 1(6) unfolding g by auto
  note row = assessed_row_published[OF assms(1) 1(1) refl, of now actorId b, folded d]
  have "dm_arrears d = 0" using row(4) by (simp add: kept_arrears_def)
  then show ?thesis
    using row(1-3) 1(2,6) unfolding 1(5) by (simp add: g put_demand_ok[OF assms(2) assessed_row_keys])
qed

text \<open>C35. A publication that is refused writes nothing at all, whatever the reason.\<close>

theorem failed_publication_writes_nothing:
  assumes "demands_ok cuid db" "publish cuid col now db surveyId yearId actorId = (db', Inl e)"
  shows "db' = db \<and> e \<in> {SurveyNotFound, InvalidAssessmentYear, NoPublishedTaxConfig, TaxNotComputable, ColumnOverflow}"
  using assms(2)
  by (auto simp: publish_def upsert_alt Let_def assertAssessmentYear_def loadPublishedTaxConfigForDues_def
      demand_assessment_def res_iffs assessable_def find_put_demand[OF assms(1) assessed_row_keys]
      split: option.splits if_splits sum.splits)

subsection \<open>A sample\<close>

text \<open>A ward with one open plot and its published rates.\<close>

definition plot_survey :: ledger_survey where
  "plot_survey =
     \<lparr>ts_surveyId = ''PLOT-1'', ts_propertyUse = Some ''Open Plot'', ts_taxRateZone = Some ''RZ 1'',
      ts_hasMunicipalWaterSupply = None, ts_plotAreaSqFt = Finite 1000, ts_plinthAreaSqFt = Missing,
      ts_totalBuiltUpAreaSqFt = Missing, ts_floors = [],
      ds_id = ''s1'', ds_ownerName = Some ''Asha'', ds_mobile = None, ds_propertyNo = None,
      ds_parcelNo = None, ds_houseNo = None, ds_streetName = None, ds_locality = None, ds_colony = None,
      ds_city = None, ds_pincode = None, ds_roadType = None, ds_wardNumber = 1, ds_wardName = ''Ward 1'',
      ls_ownerFatherName = None, ls_wardId = ''w1'', ls_status = S_ACTIVE, ls_deleted = False, ls_createdById = None\<rparr>"

definition plot_config :: ledger_config where
  "plot_config =
     \<lparr>cf_assessablePct = Finite 80, cf_commercialAssessablePct = Missing, cf_propertyTaxPct = Finite 25,
      cf_waterTaxPct = Finite 10, cf_drainageTaxPct = Finite 5, cf_penaltyPct = Finite 0,
      cf_cells = [\<lparr>rc_roadWidthCode = ''BELOW_9M'', rc_constructionCode = ''OPEN_LAND'',
                   rc_annualRatePerSqFt = Finite 2\<rparr>],
      dc_id = ''c1'', dc_version = 1, dc_yearId = ''y1'', dc_yearCode = ''2024-25'', dc_yearName = ''2024-25'',
      dc_updatedAt = 0, lc_wardId = ''w1'', lc_status = C_PUBLISHED\<rparr>"

definition plot_ledger :: ledger where
  "plot_ledger =
     \<lparr>lg_seq = 0, lg_wards = [\<lparr>wd_id = ''w1'', wd_number = 1, wd_name = ''Ward 1'', wd_code = ''001'', wd_isActive = True\<rparr>],
      lg_users = [(''u1'', ''Clerk'')],
      lg_entries = [(''y1'', \<lparr>en_category = ''ASSESSMENT_YEAR'', en_code = ''2024-25'', en_name = ''2024-25'', en_active = True, en_sortOrder = 0\<rparr>),
                    (''y2'', \<lparr>en_category = ''ASSESSMENT_YEAR'', en_code = ''2025-26'', en_name = ''2025-26'', en_active = True, en_sortOrder = 1\<rparr>)],
      lg_surveys = [plot_survey], lg_configs = [plot_config], lg_rules = [], lg_demands = [], lg_arrears = [],
      lg_runs = [], lg_payments = [], lg_callbacks = [], lg_transactions = [], lg_refunds = [], lg_settlements = [], lg_audit = []\<rparr>"

definition plot_rates :: rate_table where
  "plot_rates = taxConfigToRateTable plot_config"

lemma plot_rates:
  "rt_propertyTaxPct plot_rates = 25" "rt_penaltyPct plot_rates = 0"
  "rt_rateByZoneAndConstruction plot_rates (taxRateKey ''BELOW_9M'' ''OPEN_LAND'') = Some 2"
  by (simp_all add: plot_rates_def taxConfigToRateTable_def plot_config_def rate_cell_step_def
      toTaxNumber_def taxRateKey_def Let_def)

lemma plot_texts:
  "resolveSurveyGisUseClass None (Some ''PLOT-1'') = None"
  "contains_text (toLowerCase ''Open Plot'') ''open''"
  "mapTaxRateZoneCode (Some ''RZ 1'') = Some ''BELOW_9M''"
  by code_simp+

lemma plot_zone: "survey_zone plot_survey = ''BELOW_9M''"
  by (simp add: survey_zone_def plot_survey_def plot_texts)

lemma plot_open: "survey_open_land plot_survey"
  by (simp add: survey_open_land_def survey_gis_class_def plot_texts) (simp add: plot_survey_def plot_texts)

lemma plot_assessable: "resolveAssessablePct (Some ''Open Plot'') None None opts None = 100"
  by (simp add: resolveAssessablePct_def resolveHeuristicUsageKey_def) code_simp

lemma plot_alv: "fa_propertyTax (computeFloorAlv 1000 2 100 25) = 6000"
  by (simp add: computeFloorAlv_def)

lemma plot_tax:
  "\<exists>x. survey_tax plot_survey plot_rates = Inr x \<and> xt_propertyTax x = 6000 \<and> xt_waterTax x = 0
     \<and> xt_drainageTax x = 0 \<and> xt_penalty x = 0 \<and> xt_totalDemand x = 6000"
proof -
  let ?inp = "survey_export_input plot_survey plot_rates"
  obtain x where x: "survey_tax plot_survey plot_rates = Inr x" using survey_tax_Inr by blast
  have o: "export_open_land ?inp" by (simp add: open_land_same plot_open)
  have g: "export_gis_class ?inp = None"
    by (simp add: export_class_survey survey_gis_class_def) (simp add: plot_survey_def plot_texts)
  have z: "trim (ei_taxRateZoneCode ?inp) = ''BELOW_9M''"
    using zone_trimmed[of plot_survey] by (simp add: survey_export_input_def plot_zone)
  have p: "ei_rates ?inp = plot_rates" "toTaxNumber (opt_value (ei_plotAreaSqFt ?inp)) = 1000"
    "ei_floors ?inp = []" "ei_propertyUse ?inp = Some ''Open Plot''"
    by (simp_all add: survey_export_input_def plot_survey_def toTaxNumber_def opt_value_def)
  have r: "open_land_rate ?inp = 2"
    by (simp add: open_land_rate_def z p plot_rates Let_def)
  have fb: "fst (area_fallback ?inp (floor_loop ?inp None)) = 6000"
    by (simp add: area_fallback_def p r g floor_loop_def floor_start_def or_num_def plot_assessable plot_rates plot_alv)
  have "xt_propertyTax x = 6000 \<and> xt_waterTax x = 0 \<and> xt_drainageTax x = 0 \<and> xt_penalty x = 0
      \<and> xt_totalDemand x = 6000"
    using x[unfolded survey_tax_def]
  proof (cases rule: export_tax_cases)
    case (1 pt alv)
    have "xt_propertyTax x = 6000"
      using 1(1,7)[unfolded g] o fb by (auto simp: Let_def p r plot_rates plot_alv)
    then show ?thesis using 1(6,8,9) o by (simp add: p plot_rates)
  qed
  then show ?thesis using x by blast
qed

lemma plot_ok: "demands_ok unary plot_ledger"
  by (simp add: demands_ok_def inj_unary plot_ledger_def)

lemma column_6000: "round_column 6000 = Some 6000" "round_column 0 = Some 0"
proof -
  have "(6000 :: js_number) = paise 600000" "(0 :: js_number) = paise 0" by (simp_all add: paise_def)
  then show "round_column 6000 = Some 6000" "round_column 0 = Some 0"
    using col_money[OF round_column_decimal, of 600000] col_money[OF round_column_decimal, of 0]
    by (simp_all add: in_column_def)
qed

lemma plot_assessed_with:
  assumes "taxConfigToRateTable cfg = plot_rates" "lg_demands db = []" "lg_payments db = []"
  shows "assessable round_column y cfg [] preserve plot_survey db"
proof -
  obtain x where x: "survey_tax plot_survey plot_rates = Inr x" "xt_propertyTax x = 6000" "xt_waterTax x = 0"
    "xt_drainageTax x = 0" "xt_penalty x = 0" "xt_totalDemand x = 6000"
    using plot_tax by blast
  have "find_demand db key = None" for key
    by (simp add: find_demand_def assms(2))
  then show ?thesis
    by (simp add: assessable_def demand_assessment_def computePublicDuesPayload_def assms(1) x
        sumSuccessPayments_def assms(3) sum_amounts_def computePropertyAssessment_def rules_for_def
        stored_assessment_def assessment_list_def column_6000 Let_def)
qed

lemma plot_assessed:
  "assessable round_column ''y1'' plot_config [] preserve plot_survey plot_ledger"
  by (rule plot_assessed_with) (simp_all add: plot_rates_def plot_ledger_def)

lemma plot_publish:
  "\<exists>db' d. publish unary round_column 1000 plot_ledger ''s1'' ''y1'' (Some ''u1'') = (db', Inr d)"
proof -
  have f: "List.find (\<lambda>s. ds_id s = ''s1'' \<and> active_survey s) (lg_surveys plot_ledger) = Some plot_survey"
    by (simp add: plot_ledger_def plot_survey_def active_survey_def)
  have c: "assertAssessmentYear plot_ledger ''y1'' = Inr ()"
    "loadPublishedTaxConfigForDues plot_ledger (ls_wardId plot_survey) ''y1'' = Inr plot_config"
    "loadPublishedRules plot_ledger ''y1'' 1000 = []"
    by (simp_all add: assertAssessmentYear_def loadPublishedTaxConfigForDues_def loadPublishedRules_def
        plot_ledger_def plot_config_def plot_survey_def guard_def)
  show ?thesis
    by (simp add: publish_def f c upsert_alt plot_assessed Let_def find_put_demand[OF plot_ok assessed_row_keys])
qed

lemma publication_exact_witness:
  "\<exists>db' d. publish unary round_column 1000 plot_ledger ''s1'' ''y1'' (Some ''u1'') = (db', Inr d) \<and>
     balanced d \<and> dm_status d = D_PUBLISHED \<and> find_demand db' (''s1'', ''y1'') = Some d"
  using plot_publish publication_exact[OF round_column_decimal plot_ok] by blast

lemma failed_publication_writes_nothing_witness:
  "publish unary round_column 1000 plot_ledger ''s9'' ''y1'' None = (plot_ledger, Inl SurveyNotFound) \<and>
   SurveyNotFound \<in> {SurveyNotFound, InvalidAssessmentYear, NoPublishedTaxConfig, TaxNotComputable, ColumnOverflow}"
proof -
  have "publish unary round_column 1000 plot_ledger ''s9'' ''y1'' None = (plot_ledger, Inl SurveyNotFound)"
    by (simp add: publish_def plot_ledger_def plot_survey_def)
  then show ?thesis using failed_publication_writes_nothing[OF plot_ok] by metis
qed

subsection \<open>Publishing a ward\<close>

text \<open>The loop over pages visits every row once, in order, and each next page starts behind the
  cursor.\<close>

lemma ward_pages_foldl: "ward_pages step rows acc = foldl step acc rows"
proof (induction step rows acc rule: ward_pages.induct)
  case (1 step rows acc)
  show ?case
  proof (cases "rows = [] \<or> length rows < 100")
    case True
    then show ?thesis by (subst ward_pages.simps) (auto simp: Let_def)
  next
    case False
    then have "ward_pages step rows acc = ward_pages step (drop 100 rows) (foldl step acc (take 100 rows))"
      by (subst ward_pages.simps) (auto simp: Let_def)
    also have "\<dots> = foldl step (foldl step acc (take 100 rows)) (drop 100 rows)"
      using 1 False by (auto simp: Let_def)
    finally show ?thesis by (simp flip: foldl_append)
  qed
qed

lemma after_cursor_next:
  assumes "distinct (map ds_id (xs @ x # ys))"
  shows "after_cursor (xs @ x # ys) (ds_id x) = ys"
proof -
  have "ds_id x \<notin> ds_id ` set xs" using assms by auto
  then have "\<forall>s \<in> set xs. ds_id s \<noteq> ds_id x" by (metis imageI)
  then have "dropWhile (\<lambda>s. ds_id s \<noteq> ds_id x) (xs @ x # ys) = x # ys"
    by (subst dropWhile_append2) auto
  then show ?thesis by (simp add: after_cursor_def)
qed

text \<open>The loop as the code has it: it keeps a cursor, asks for the page behind the cursor and stops on an
  empty or a short page. Nothing in it is smaller each time, so it is a partial function.\<close>

partial_function (option) cursor_loop ::
  "((nat \<times> nat) outcome \<Rightarrow> ledger_survey \<Rightarrow> (nat \<times> nat) outcome) \<Rightarrow> ledger_survey list \<Rightarrow> string option
     \<Rightarrow> (nat \<times> nat) outcome \<Rightarrow> (nat \<times> nat) outcome option" where
  "cursor_loop step rows cursor acc =
     (let page = take 100 (case cursor of None \<Rightarrow> rows | Some c \<Rightarrow> after_cursor rows c) in
      if page = [] then Some acc
      else
       (let acc' = foldl step acc page in
        if length page < 100 then Some acc'
        else cursor_loop step rows (Some (ds_id (last page))) acc'))"

lemma cursor_loop_rest:
  assumes "distinct (map ds_id rows)" "rows = seen @ rest"
    and "(case cursor of None \<Rightarrow> rows | Some c \<Rightarrow> after_cursor rows c) = rest"
  shows "cursor_loop step rows cursor acc = Some (foldl step acc rest)"
  using assms(2,3)
proof (induction "length rest" arbitrary: seen rest cursor acc rule: less_induct)
  case less
  show ?case
  proof (cases "length rest < 100")
    case True
    then show ?thesis using less.prems by (subst cursor_loop.simps) (auto simp: Let_def)
  next
    case False
    let ?page = "take 100 rest"
    have ne: "?page \<noteq> []" "rest \<noteq> []" using False by auto
    obtain xs x where px: "?page = xs @ [x]" using ne by (cases ?page rule: rev_cases) auto
    have "rest = xs @ x # drop 100 rest" using append_take_drop_id[of 100 rest] unfolding px by simp
    then have sp: "rows = (seen @ xs) @ x # drop 100 rest" using less.prems(1) by simp
    have "after_cursor rows (ds_id x) = drop 100 rest"
      using assms(1) unfolding sp by (rule after_cursor_next)
    then have "after_cursor rows (ds_id (last ?page)) = drop 100 rest" by (simp add: px)
    moreover have "rows = (seen @ ?page) @ drop 100 rest" using less.prems(1) by simp
    ultimately have "cursor_loop step rows (Some (ds_id (last ?page))) (foldl step acc ?page)
        = Some (foldl step (foldl step acc ?page) (drop 100 rest))"
      using less.hyps[of "drop 100 rest" "seen @ ?page"] ne(2) by simp
    also have "\<dots> = Some (foldl step acc rest)" by (simp flip: foldl_append)
    finally show ?thesis using less.prems(2) ne False by (subst cursor_loop.simps) (simp add: Let_def)
  qed
qed

text \<open>C31. The loop of the ward-wide publication ends: whatever the rows of the ward and whatever handling
  one row does, its cursor moves past every page of 100, every row is handled exactly once and in
  order, and the result is the one that the model of the publication uses.\<close>

theorem ward_paging_ends:
  assumes "distinct (map ds_id rows)"
  shows "cursor_loop step rows None acc = Some (foldl step acc rows) \<and> ward_pages step rows acc = foldl step acc rows"
  using cursor_loop_rest[OF assms, of "[]" rows None] ward_pages_foldl by simp

lemma ward_paging_ends_witness:
  "\<exists>s. ds_id s = ''s1'' \<and> cursor_loop (\<lambda>(db, r) x. (log_audit (ds_id x) [] None None db, r)) [s] None (plot_ledger, Inr (0, 0)) =
     Some (log_audit ''s1'' [] None None plot_ledger, Inr (0, 0))"
  using ward_paging_ends[of "[plot_survey]" "\<lambda>(db, r) x. (log_audit (ds_id x) [] None None db, r)" "(plot_ledger, Inr (0, 0))"]
  by (intro exI[of _ plot_survey]) (simp add: plot_survey_def)

text \<open>What is computed for a survey depends on its own demands and on the payments only.\<close>

lemma assessed_frame:
  assumes "lg_payments db' = lg_payments db" "\<And>y. find_demand db' (ds_id s, y) = find_demand db (ds_id s, y)"
  shows "assessable col yearId cfg rules preserve s db' = assessable col yearId cfg rules preserve s db"
    "assessed_row col now yearId cfg rules preserve actorId s db'
       = assessed_row col now yearId cfg rules preserve actorId s db"
proof -
  have d: "demand_assessment db' s yearId cfg rules preserve = demand_assessment db s yearId cfg rules preserve"
    unfolding demand_assessment_def sumSuccessPayments_def assms ..
  have h: "hasPriorYearPaymentsWithoutDemand db' (ds_id s) yearId = hasPriorYearPaymentsWithoutDemand db (ds_id s) yearId"
    unfolding hasPriorYearPaymentsWithoutDemand_def assms ..
  show "assessable col yearId cfg rules preserve s db' = assessable col yearId cfg rules preserve s db"
    by (simp add: assessable_def d)
  show "assessed_row col now yearId cfg rules preserve actorId s db'
       = assessed_row col now yearId cfg rules preserve actorId s db"
    unfolding assessed_row_def d h sumSuccessPayments_def assms(1) ..
qed

abbreviation ward_row where
  "ward_row col now yearId cfg rules actorId s db \<equiv> assessed_row col now yearId cfg rules True actorId s db"

lemma ward_row_other:
  assumes "demands_ok cuid db" "ds_id x \<noteq> ds_id y"
  shows "assessable col yearId cfg rules True x (put_demand cuid db (ds_id y, yearId) (ward_row col now yearId cfg rules actorId y db))
      = assessable col yearId cfg rules True x db"
    "ward_row col now yearId cfg rules actorId x (put_demand cuid db (ds_id y, yearId) (ward_row col now yearId cfg rules actorId y db))
      = ward_row col now yearId cfg rules actorId x db"
  using assms(2) by (intro assessed_frame; simp add: find_put_demand[OF assms(1) assessed_row_keys])+

lemma ward_step_error: "foldl (ward_step cuid col now yearId cfg rules actorId) (db, Inl e) xs = (db, Inl e)"
  by (induction xs) (simp_all add: ward_step_def)

lemma ward_loop:
  assumes "demands_ok cuid db" "distinct (map ds_id xs)"
    and "foldl (ward_step cuid col now yearId cfg rules actorId) (db, Inr (c, u)) xs = (db', Inr (c', u'))"
  shows "db' = foldl (\<lambda>t x. put_demand cuid t (ds_id x, yearId) (ward_row col now yearId cfg rules actorId x t)) db xs
    \<and> (\<forall>x \<in> set xs. assessable col yearId cfg rules True x db)
    \<and> c' = c + length (filter (\<lambda>x. find_demand db (ds_id x, yearId) = None) xs)
    \<and> u' = u + length (filter (\<lambda>x. find_demand db (ds_id x, yearId) \<noteq> None) xs)"
  using assms
proof (induction xs arbitrary: db c u)
  case (Cons y ys)
  let ?step = "ward_step cuid col now yearId cfg rules actorId"
  let ?db = "put_demand cuid db (ds_id y, yearId) (ward_row col now yearId cfg rules actorId y db)"
  show ?case
  proof (cases "assessable col yearId cfg rules True y db")
    case False
    then have "\<exists>e. ?step (db, Inr (c, u)) y = (db, Inl e)"
      by (auto simp: ward_step_def upsert_alt Let_def split: option.splits)
    then show ?thesis using Cons.prems(3) ward_step_error by (metis foldl_Cons Inl_Inr_False prod.inject)
  next
    case True
    let ?old = "find_demand db (ds_id y, yearId)"
    have s: "?step (db, Inr (c, u)) y
        = (?db, Inr (if ?old \<noteq> None then (c, u + 1) else (c + 1, u)))"
      using True by (simp add: ward_step_def upsert_alt Let_def)
    have ok: "demands_ok cuid ?db" by (rule put_demand_ok[OF Cons.prems(1) assessed_row_keys])
    have other: "assessable col yearId cfg rules True x ?db = assessable col yearId cfg rules True x db"
      "find_demand ?db (ds_id x, yearId) = find_demand db (ds_id x, yearId)" if "x \<in> set ys" for x
    proof -
      have "ds_id x \<in> ds_id ` set ys" "ds_id y \<notin> ds_id ` set ys" using that Cons.prems(2) by auto
      then have ne: "ds_id x \<noteq> ds_id y" by metis
      show "assessable col yearId cfg rules True x ?db = assessable col yearId cfg rules True x db"
        by (rule ward_row_other(1)[OF Cons.prems(1) ne])
      show "find_demand ?db (ds_id x, yearId) = find_demand db (ds_id x, yearId)"
        using ne by (simp add: find_put_demand[OF Cons.prems(1) assessed_row_keys])
    qed
    have f: "filter (\<lambda>x. P (find_demand ?db (ds_id x, yearId))) ys = filter (\<lambda>x. P (find_demand db (ds_id x, yearId))) ys" for P
      using other(2) by (intro filter_cong) auto
    have "foldl ?step (?db, Inr (if ?old \<noteq> None then (c, u + 1) else (c + 1, u))) ys = (db', Inr (c', u'))"
      using Cons.prems(3) s by simp
    then show ?thesis
      using Cons.IH[OF ok, of "if ?old \<noteq> None then c else c + 1" "if ?old \<noteq> None then u + 1 else u"]
        Cons.prems(2) True other(1) f[of "\<lambda>r. r = None"] f[of "\<lambda>r. r \<noteq> None"]
      by (cases "?old = None") auto
  qed
qed simp

lemma distinct_map_sort: "distinct (map f (sort_key f xs)) = distinct (map f xs)"
  by (induction xs) (simp_all add: distinct_insort_key)

lemma ward_rows:
  assumes "demands_ok cuid db" "distinct (map ds_id (lg_surveys db))"
    and "publishForWard cuid col now db wardId yearId actorId = (db', Inr r)"
  obtains cfg rules where "loadPublishedTaxConfigForDues db wardId yearId = Inr cfg" "demands_ok cuid db'"
    "\<forall>x \<in> set (ward_surveys db wardId). assessable col yearId cfg rules True x db \<and>
      (\<exists>t. find_demand db' (ds_id x, yearId) = Some (ward_row col now yearId cfg rules actorId x db
         (case find_demand db (ds_id x, yearId) of Some d \<Rightarrow> d | None \<Rightarrow> blank_demand cuid t (ds_id x, yearId))))"
    "\<forall>k. k \<notin> (\<lambda>x. (ds_id x, yearId)) ` set (ward_surveys db wardId) \<longrightarrow> find_demand db' k = find_demand db k"
    "wr_created r = length (filter (\<lambda>s. find_demand db (ds_id s, yearId) = None) (ward_surveys db wardId))"
    "wr_updated r = length (filter (\<lambda>s. find_demand db (ds_id s, yearId) \<noteq> None) (ward_surveys db wardId))"
    "wr_total r = wr_created r + wr_updated r"
proof -
  let ?xs = "ward_surveys db wardId"
  obtain cfg rules db1 c u where w:
    "foldl (ward_step cuid col now yearId cfg rules actorId) (db, Inr (0, 0)) ?xs = (db1, Inr (c, u))"
    "r = \<lparr>wr_created = c, wr_updated = u, wr_total = c + u\<rparr>"
    "db' = log_audit ''PUBLISH_WARD'' ''PropertyDemand'' (Some (wardId @ '':'' @ yearId)) actorId db1"
    "loadPublishedTaxConfigForDues db wardId yearId = Inr cfg"
    using assms(3) unfolding publishForWard_def ward_pages_foldl
    by (auto simp: res_iffs split: if_splits sum.splits prod.splits)
  have dx: "distinct (map ds_id ?xs)"
    unfolding ward_surveys_def using distinct_map_filter[OF assms(2)] by (simp add: distinct_map_sort)
  note l = ward_loop[OF assms(1) dx w(1)]
  let ?row = "ward_row col now yearId cfg rules actorId"
  have loop: "demands_ok cuid db1 \<and>
    (\<forall>k. k \<notin> (\<lambda>x. (ds_id x, yearId)) ` set ?xs \<longrightarrow> find_demand db1 k = find_demand db k) \<and>
    (\<forall>x \<in> set ?xs. \<exists>t. find_demand db1 (ds_id x, yearId) = Some (?row x db
       (case find_demand db (ds_id x, yearId) of Some d \<Rightarrow> d | None \<Rightarrow> blank_demand cuid t (ds_id x, yearId))))"
    unfolding l[THEN conjunct1]
  proof (rule demand_table.put_loop[where key = "\<lambda>x. (ds_id x, yearId)"])
    show "keeps_keys (?row x t)" for x t by (rule assessed_row_keys)
    show "?row x (put_demand cuid t (ds_id y, yearId) (?row y t)) = ?row x t"
      if "demands_ok cuid t" "(ds_id x, yearId) \<noteq> (ds_id y, yearId)" for x y t
      using that by (intro ward_row_other(2)) auto
    show "distinct (map (\<lambda>x. (ds_id x, yearId)) ?xs)" using dx by (simp add: distinct_map inj_on_def)
  qed (rule assms(1))
  show thesis
    by (rule that[OF w(4)]) (use l loop in \<open>simp_all only: w(2,3) log_audit_same ward_result.simps, auto\<close>)
qed

text \<open>C10. Publishing a ward handles each active survey of the ward exactly once and in the order of
  its id: it reports as created the surveys that had no demand for the year and as updated those that
  had one, together all active surveys. Every such survey ends with a published, balanced demand for
  the year that keeps the arrears it had, and no other demand changes.\<close>

theorem ward_publication:
  assumes "decimal_column col" "demands_ok cuid db" "distinct (map ds_id (lg_surveys db))"
    and "publishForWard cuid col now db wardId yearId actorId = (db', Inr r)"
  shows "wr_created r = length (filter (\<lambda>s. find_demand db (ds_id s, yearId) = None) (ward_surveys db wardId)) \<and>
    wr_total r = length (ward_surveys db wardId) \<and> wr_total r = wr_created r + wr_updated r \<and>
    (\<forall>s \<in> set (lg_surveys db). ls_wardId s = wardId \<and> active_survey s \<longrightarrow>
       (\<exists>d. find_demand db' (ds_id s, yearId) = Some d \<and> dm_status d = D_PUBLISHED \<and> balanced d \<and>
          dm_arrears d = roundMoney (max 0 (kept_arrears True db (ds_id s, yearId))))) \<and>
    (\<forall>key. (\<forall>s \<in> set (ward_surveys db wardId). key \<noteq> (ds_id s, yearId)) \<longrightarrow>
       find_demand db' key = find_demand db key) \<and> demands_ok cuid db'"
proof -
  obtain cfg rules where w: "loadPublishedTaxConfigForDues db wardId yearId = Inr cfg" "demands_ok cuid db'"
    "\<forall>x \<in> set (ward_surveys db wardId). assessable col yearId cfg rules True x db \<and>
      (\<exists>t. find_demand db' (ds_id x, yearId) = Some (ward_row col now yearId cfg rules actorId x db
         (case find_demand db (ds_id x, yearId) of Some d \<Rightarrow> d | None \<Rightarrow> blank_demand cuid t (ds_id x, yearId))))"
    "\<forall>k. k \<notin> (\<lambda>x. (ds_id x, yearId)) ` set (ward_surveys db wardId) \<longrightarrow> find_demand db' k = find_demand db k"
    "wr_created r = length (filter (\<lambda>s. find_demand db (ds_id s, yearId) = None) (ward_surveys db wardId))"
    "wr_updated r = length (filter (\<lambda>s. find_demand db (ds_id s, yearId) \<noteq> None) (ward_surveys db wardId))"
    "wr_total r = wr_created r + wr_updated r"
    by (rule ward_rows[OF assms(2,3,4)])
  have pub: "\<exists>d. find_demand db' (ds_id s, yearId) = Some d \<and> dm_status d = D_PUBLISHED \<and> balanced d \<and>
          dm_arrears d = roundMoney (max 0 (kept_arrears True db (ds_id s, yearId)))"
    if "s \<in> set (lg_surveys db)" "ls_wardId s = wardId" "active_survey s" for s
  proof -
    have s: "s \<in> set (ward_surveys db wardId)" using that by (simp add: ward_surveys_def)
    obtain t where t: "find_demand db' (ds_id s, yearId) = Some (ward_row col now yearId cfg rules actorId s db
       (case find_demand db (ds_id s, yearId) of Some d \<Rightarrow> d | None \<Rightarrow> blank_demand cuid t (ds_id s, yearId)))"
      using w(3) s by blast
    have a: "assessable col yearId cfg rules True s db" using w(3) s by blast
    show ?thesis unfolding t using assessed_row_published[OF assms(1) a refl] by blast
  qed
  have len: "length (ward_surveys db wardId) = wr_created r + wr_updated r"
    unfolding w(5,6) by (rule sum_length_filter_compl[symmetric])
  have other: "find_demand db' key = find_demand db key"
    if "\<forall>s \<in> set (ward_surveys db wardId). key \<noteq> (ds_id s, yearId)" for key
    using w(4) that by blast
  show ?thesis
    by (intro conjI allI impI ballI) (use w(2,5,7) len pub other in \<open>simp_all\<close>)
qed

lemma plot_ward:
  "\<exists>db' r. publishForWard unary round_column 1000 plot_ledger ''w1'' ''y1'' None = (db', Inr r)"
proof -
  have c: "assertAssessmentYear plot_ledger ''y1'' = Inr ()"
    "loadPublishedTaxConfigForDues plot_ledger ''w1'' ''y1'' = Inr plot_config"
    "loadPublishedRules plot_ledger ''y1'' 1000 = []" "ward_surveys plot_ledger ''w1'' = [plot_survey]"
    "''w1'' \<in> wd_id ` set (lg_wards plot_ledger)"
    by (simp_all add: assertAssessmentYear_def loadPublishedTaxConfigForDues_def loadPublishedRules_def
        plot_ledger_def plot_config_def plot_survey_def guard_def ward_surveys_def active_survey_def)
  show ?thesis
    by (simp add: publishForWard_def c ward_pages_foldl ward_step_def upsert_alt plot_assessed Let_def)
qed

lemma ward_publication_witness:
  "\<exists>db' r d. publishForWard unary round_column 1000 plot_ledger ''w1'' ''y1'' None = (db', Inr r) \<and>
     wr_created r = 1 \<and> wr_total r = 1 \<and> find_demand db' (''s1'', ''y1'') = Some d \<and> balanced d"
proof -
  obtain db' r where p: "publishForWard unary round_column 1000 plot_ledger ''w1'' ''y1'' None = (db', Inr r)"
    using plot_ward by blast
  have f: "ward_surveys plot_ledger ''w1'' = [plot_survey]" "distinct (map ds_id (lg_surveys plot_ledger))"
    "find_demand plot_ledger k = None" "plot_survey \<in> set (lg_surveys plot_ledger)"
    "ls_wardId plot_survey = ''w1''" "active_survey plot_survey" "ds_id plot_survey = ''s1''" for k
    by (simp_all add: ward_surveys_def plot_ledger_def plot_survey_def active_survey_def find_demand_def)
  note w = ward_publication[OF round_column_decimal plot_ok f(2) p]
  obtain d where "find_demand db' (ds_id plot_survey, ''y1'') = Some d" "balanced d"
    using w f(4,5,6) by blast
  then show ?thesis using w p f(1,3,7) by auto
qed

subsection \<open>The books stay balanced\<close>

lemma upsert_books:
  assumes "decimal_column col" "demands_ok cuid db" "books_balance db"
    and "upsertPublishedDemandForSurvey cuid col now db s yearId cfg rules preserve actorId = (db', r)"
  shows "demands_ok cuid db' \<and> books_balance db'"
proof (cases "assessable col yearId cfg rules preserve s db")
  case True
  then have db': "db' = put_demand cuid db (ds_id s, yearId) (assessed_row col now yearId cfg rules preserve actorId s db)"
    using assms(4) by (simp add: upsert_alt Let_def)
  show ?thesis unfolding db'
    using put_demand_ok[OF assms(2) assessed_row_keys] assessed_row_published(1)[OF assms(1) True refl]
    by (blast intro: put_books[OF assms(3) _ assms(2)])
next
  case False
  then show ?thesis using assms by (simp add: upsert_alt)
qed

lemma log_audit_books [simp]: "books_balance (log_audit a e i u db) = books_balance db"
  by (simp add: books_balance_def)

lemma publish_books:
  assumes "decimal_column col" "demands_ok cuid db" "books_balance db"
    and "publish cuid col now db surveyId yearId actorId = (db', r)"
  shows "demands_ok cuid db' \<and> books_balance db'"
  using assms(4,2,3) unfolding publish_def
  by (auto dest: upsert_books[OF assms(1-3)] split: option.splits sum.splits prod.splits)

lemma ward_loop_books:
  assumes "decimal_column col" "demands_ok cuid db" "books_balance db"
    and "foldl (ward_step cuid col now yearId cfg rules actorId) (db, r) xs = (db', r')"
  shows "demands_ok cuid db' \<and> books_balance db'"
  using assms(2-)
proof (induction xs arbitrary: db r)
  case (Cons x xs)
  obtain db1 r1 where s: "ward_step cuid col now yearId cfg rules actorId (db, r) x = (db1, r1)" by fastforce
  have "demands_ok cuid db1 \<and> books_balance db1"
    using s Cons.prems(1,2) unfolding ward_step_def
    by (auto simp: Let_def dest: upsert_books[OF assms(1) Cons.prems(1,2)] split: sum.splits prod.splits)
  then show ?case using Cons.IH Cons.prems(3) s by auto
qed simp

lemma publishForWard_books:
  assumes "decimal_column col" "demands_ok cuid db" "books_balance db"
    and "publishForWard cuid col now db wardId yearId actorId = (db', r)"
  shows "demands_ok cuid db' \<and> books_balance db'"
  using assms(4,2,3) unfolding publishForWard_def ward_pages_foldl
  by (auto dest: ward_loop_books[OF assms(1-3)] split: if_splits sum.splits prod.splits)

text \<open>Publication writes demands, takes fresh ids and adds audit entries; nothing else.\<close>

definition only_demands :: "ledger \<Rightarrow> ledger \<Rightarrow> bool" where
  "only_demands db db' \<longleftrightarrow> lg_seq db \<le> lg_seq db' \<and>
     db' = db\<lparr>lg_demands := lg_demands db', lg_seq := lg_seq db', lg_audit := lg_audit db'\<rparr>"

lemma only_demands_tables:
  assumes "only_demands db db'"
  shows "lg_payments db' = lg_payments db \<and> lg_arrears db' = lg_arrears db \<and> lg_seq db \<le> lg_seq db' \<and>
    lg_wards db' = lg_wards db \<and> lg_entries db' = lg_entries db \<and> lg_configs db' = lg_configs db \<and>
    lg_surveys db' = lg_surveys db"
proof -
  obtain ds n a where "db' = db\<lparr>lg_demands := ds, lg_seq := n, lg_audit := a\<rparr>" "lg_seq db \<le> lg_seq db'"
    using assms unfolding only_demands_def by blast
  then show ?thesis by simp
qed

lemma only_demands_refl: "only_demands db db"
  by (simp add: only_demands_def)

lemma only_demands_trans: "only_demands a b \<Longrightarrow> only_demands b c \<Longrightarrow> only_demands a c"
  unfolding only_demands_def by (cases a; cases b; cases c) simp

lemma only_demands_put: "only_demands db (put_demand cuid db key f)"
  by (simp add: only_demands_def put_demand_def update_demand_def split: option.split)

lemma only_demands_audit: "only_demands db (log_audit a e i u db)"
  by (simp add: only_demands_def log_audit_def)

lemma only_demands_upsert:
  assumes "upsertPublishedDemandForSurvey cuid col now db survey yearId cfg rules preserve actorId = (db', r)"
  shows "only_demands db db'"
  using assms unfolding upsert_alt Let_def by (auto simp: only_demands_refl only_demands_put split: if_splits)

lemma only_demands_publish:
  assumes "publish cuid col now db surveyId yearId actorId = (db', r)"
  shows "only_demands db db'"
  using assms unfolding publish_def
  by (auto dest!: only_demands_upsert intro: only_demands_refl only_demands_trans[OF _ only_demands_audit]
      split: option.splits sum.splits prod.splits)

lemma only_demands_loop:
  "foldl (ward_step cuid col now yearId cfg rules actorId) (db, r) xs = (db', r') \<Longrightarrow> only_demands db db'"
proof (induction xs arbitrary: db r)
  case (Cons x xs)
  obtain db1 r1 where s: "ward_step cuid col now yearId cfg rules actorId (db, r) x = (db1, r1)" by fastforce
  have "only_demands db db1"
    using s unfolding ward_step_def Let_def
    by (auto dest: only_demands_upsert simp: only_demands_refl split: sum.splits prod.splits)
  then show ?case using Cons.IH[of db1 r1] Cons.prems s only_demands_trans by simp
qed (simp add: only_demands_refl)

lemma only_demands_publishForWard:
  assumes "publishForWard cuid col now db wardId yearId actorId = (db', r)"
  shows "only_demands db db'"
  using assms unfolding publishForWard_def ward_pages_foldl
  by (auto dest!: only_demands_loop intro: only_demands_refl only_demands_trans[OF _ only_demands_audit]
      split: if_splits sum.splits prod.splits)

end
