(* ===== verification/Access.thy ===== *)
theory Access
  imports Prelude
begin

text \<open>
  Who may do what: the role and permission guards of the API (\<open>apps/api/src/auth/roles.guard.ts\<close>,
  \<open>permission.guard.ts\<close>, \<open>auth-permissions.ts\<close>), the staff roles
  (\<open>packages/types/src/staff-roles.ts\<close>) and the per-resource rules for surveys, payments and files
  (\<open>apps/api/src/auth/resource-access.ts\<close>). A denial is an error value that carries what was missing.

  The main theorem states exactly what a scoped operator may do with each survey, payment and file.
\<close>

record auth_user =
  us_id :: string
  us_email :: string
  us_name :: string
  us_phone :: "string option"
  us_status :: string
  us_permissions :: "string list"
  us_roles :: "string list"

datatype access_error =
    Missing_permission "string list" | Missing_role "string list" | No_user
  | Not_creator | Not_collector | Not_own_exchange_file | Bad_survey_file | Not_uploader | No_file_access

subsection \<open>Roles and permissions\<close>

definition STAFF_ROLE_CODES :: "string list" where
  "STAFF_ROLE_CODES = [''SUPER_ADMIN'', ''DEPARTMENT_ADMIN'', ''CLERK'', ''OPERATOR'']"

definition isStaffRoleCode :: "string \<Rightarrow> bool" where
  "isStaffRoleCode code \<longleftrightarrow> code \<in> set STAFF_ROLE_CODES"

definition hasPermission :: "auth_user \<Rightarrow> string list \<Rightarrow> bool" where
  "hasPermission user needed \<longleftrightarrow>
     ''SUPER_ADMIN'' \<in> set (us_roles user) \<or> list_all (\<lambda>c. c \<in> set (us_permissions user)) needed"

definition assertPermission :: "auth_user \<Rightarrow> string list \<Rightarrow> access_error + unit" where
  "assertPermission user needed =
     (if hasPermission user needed then Inr ()
      else Inl (Missing_permission (filter (\<lambda>c. c \<notin> set (us_permissions user)) needed)))"

definition canReadSurveyPii :: "auth_user \<Rightarrow> bool" where
  "canReadSurveyPii user = hasPermission user [''survey:pii:read'']"

text \<open>The guards read the codes a handler requires; no codes, no check.\<close>

definition permission_guard :: "string list option \<Rightarrow> auth_user option \<Rightarrow> access_error + unit" where
  "permission_guard required user =
     (if nullish required [] = [] then Inr ()
      else
       (case user of
          None \<Rightarrow> Inl No_user
        | Some u \<Rightarrow>
           (if ''SUPER_ADMIN'' \<in> set (us_roles u) then Inr ()
            else
             (let missing = filter (\<lambda>p. p \<notin> set (us_permissions u)) (nullish required [])
              in if missing \<noteq> [] then Inl (Missing_permission missing) else Inr ()))))"

definition roles_guard :: "string list option \<Rightarrow> auth_user option \<Rightarrow> access_error + unit" where
  "roles_guard required user =
     (if nullish required [] = [] then Inr ()
      else
       (case user of
          None \<Rightarrow> Inl No_user
        | Some u \<Rightarrow>
           (if ''SUPER_ADMIN'' \<in> set (us_roles u) then Inr ()
            else
             (let missing = filter (\<lambda>r. r \<notin> set (us_roles u)) (nullish required [])
              in if missing \<noteq> [] then Inl (Missing_role missing) else Inr ()))))"

subsection \<open>Resources\<close>

datatype survey_action = Survey_read | Survey_create | Survey_update | Survey_delete
datatype payment_action = Payment_read | Payment_create | Payment_create_offline | Payment_requery | Payment_refund
datatype file_action = File_read | File_create

record survey_resource =
  sr_id :: string
  sr_wardId :: string
  sr_createdById :: "string option"

record payment_resource =
  pm_id :: string
  pm_collectedById :: "string option"

record file_resource =
  fr_objectKey :: string
  fr_surveyId :: "string option"
  fr_uploadedById :: "string option"
  fr_createdById :: "string option"

definition hasBroadResourceAccess :: "auth_user \<Rightarrow> bool" where
  "hasBroadResourceAccess user \<longleftrightarrow>
     ''SUPER_ADMIN'' \<in> set (us_roles user) \<or> ''DEPARTMENT_ADMIN'' \<in> set (us_roles user)
     \<or> ''CLERK'' \<in> set (us_roles user)"

definition isScopedOperator :: "auth_user \<Rightarrow> bool" where
  "isScopedOperator user \<longleftrightarrow> ''OPERATOR'' \<in> set (us_roles user) \<and> \<not> hasBroadResourceAccess user"

fun SURVEY_ACTION_PERMISSION :: "survey_action \<Rightarrow> string" where
  "SURVEY_ACTION_PERMISSION Survey_read = ''survey:read''"
| "SURVEY_ACTION_PERMISSION Survey_create = ''survey:create''"
| "SURVEY_ACTION_PERMISSION Survey_update = ''survey:update''"
| "SURVEY_ACTION_PERMISSION Survey_delete = ''survey:delete''"

fun PAYMENT_ACTION_PERMISSION :: "payment_action \<Rightarrow> string" where
  "PAYMENT_ACTION_PERMISSION Payment_read = ''payment:read''"
| "PAYMENT_ACTION_PERMISSION Payment_create = ''payment:create''"
| "PAYMENT_ACTION_PERMISSION Payment_create_offline = ''payment:offline:create''"
| "PAYMENT_ACTION_PERMISSION Payment_requery = ''payment:requery''"
| "PAYMENT_ACTION_PERMISSION Payment_refund = ''refund:create''"

text \<open>\<open>objectKey.replaceAll("\\", "/").replace(/^\/+/, "")\<close>\<close>

definition normal_key :: "string \<Rightarrow> string" where
  "normal_key objectKey =
     dropWhile (\<lambda>c. c = CHR ''/'') (map (\<lambda>c. if c = CHR 0x5C then CHR ''/'' else c) objectKey)"

definition starts_with :: "string \<Rightarrow> string \<Rightarrow> bool" where
  "starts_with p s \<longleftrightarrow> take (length p) s = p"

definition parseSurveyIdFromObjectKey :: "string \<Rightarrow> string option" where
  "parseSurveyIdFromObjectKey objectKey =
     (let key = normal_key objectKey;
          tail = drop 8 key;
          surveyId = takeWhile (\<lambda>c. c \<noteq> CHR ''/'') tail
      in if starts_with ''surveys/'' key \<and> surveyId \<noteq> [] \<and> length surveyId < length tail
         then Some surveyId else None)"

definition assertSurveyAccess :: "auth_user \<Rightarrow> survey_resource \<Rightarrow> survey_action \<Rightarrow> access_error + unit" where
  "assertSurveyAccess user survey action =
     bind_res (assertPermission user [SURVEY_ACTION_PERMISSION action]) (\<lambda>_.
       if hasBroadResourceAccess user then Inr ()
       else if \<not> isScopedOperator user then Inr ()
       else if action = Survey_read \<or> action = Survey_create then Inr ()
       else guard (sr_createdById survey = Some (us_id user)) Not_creator)"

definition assertPaymentAccess :: "auth_user \<Rightarrow> payment_resource \<Rightarrow> payment_action \<Rightarrow> access_error + unit" where
  "assertPaymentAccess user payment action =
     bind_res (assertPermission user [PAYMENT_ACTION_PERMISSION action]) (\<lambda>_.
       if hasBroadResourceAccess user then Inr ()
       else if unset (pm_collectedById payment) then Inr ()
       else guard (\<not> (isScopedOperator user \<and> pm_collectedById payment \<noteq> Some (us_id user))) Not_collector)"

definition assertFileAccess ::
  "auth_user \<Rightarrow> file_resource \<Rightarrow> file_action \<Rightarrow> survey_resource option \<Rightarrow> access_error + unit" where
  "assertFileAccess user file action survey =
     bind_res (assertPermission user [if action = File_read then ''file:read'' else ''file:create'']) (\<lambda>_.
       if hasBroadResourceAccess user then Inr ()
       else
        (let key = normal_key (fr_objectKey file) in
         if starts_with ''imports/'' key \<or> starts_with ''exports/'' key
         then guard (\<not> (isScopedOperator user \<and> \<not> unset (fr_createdById file)
                       \<and> fr_createdById file \<noteq> Some (us_id user))) Not_own_exchange_file
         else if starts_with ''surveys/'' key
         then
          (let surveyId = nullish_opt (fr_surveyId file) (parseSurveyIdFromObjectKey key) in
           if unset surveyId then Inl Bad_survey_file
           else
            (case survey of
               Some s \<Rightarrow> assertSurveyAccess user s (if action = File_read then Survey_read else Survey_update)
             | None \<Rightarrow>
                 guard (\<not> (isScopedOperator user \<and> \<not> unset (fr_uploadedById file)
                           \<and> fr_uploadedById file \<noteq> Some (us_id user))) Not_uploader))
         else guard (\<not> isScopedOperator user) No_file_access))"

subsection \<open>What the rules guarantee\<close>

lemma permission_guard_has:
  "permission_guard (Some needed) (Some u) = Inr () \<longleftrightarrow> hasPermission u needed"
  by (auto simp: permission_guard_def hasPermission_def Let_def filter_empty_conv list_all_iff split: if_splits)

lemma assertPermission_iff [simp]: "assertPermission u needed = Inr () \<longleftrightarrow> hasPermission u needed"
  by (simp add: assertPermission_def)

text \<open>The guard in front of a handler and the check inside a service agree.\<close>

lemma guard_agrees:
  "needed \<noteq> [] \<Longrightarrow> permission_guard (Some needed) (Some u) = assertPermission u needed"
  by (auto simp: permission_guard_def assertPermission_def hasPermission_def Let_def filter_empty_conv
      list_all_iff split: if_splits)

text \<open>C29. A scoped operator is confined to their own work, and the rules are exact. Reading and creating
  surveys needs the permission; changing or deleting one also that they created it. A payment needs the
  permission of the action and that they collected it, or that no staff member did. A file of the imports
  or exports area needs the file permission and that they created it, or that it has no recorded creator;
  a file of the surveys area must name a survey and needs the right to read or to change that survey, and,
  when the survey is not at hand, that they uploaded it or that no uploader is recorded. Every file
  outside these three areas is refused.\<close>

theorem operator_is_confined:
  assumes "isScopedOperator u"
  shows "(assertSurveyAccess u s a = Inr () \<longleftrightarrow>
      (case a of
         Survey_read \<Rightarrow> ''survey:read'' \<in> set (us_permissions u)
       | Survey_create \<Rightarrow> ''survey:create'' \<in> set (us_permissions u)
       | Survey_update \<Rightarrow> ''survey:update'' \<in> set (us_permissions u) \<and> sr_createdById s = Some (us_id u)
       | Survey_delete \<Rightarrow> ''survey:delete'' \<in> set (us_permissions u) \<and> sr_createdById s = Some (us_id u))) \<and>
    (assertPaymentAccess u p b = Inr () \<longleftrightarrow>
      (case b of Payment_read \<Rightarrow> ''payment:read'' | Payment_create \<Rightarrow> ''payment:create''
         | Payment_create_offline \<Rightarrow> ''payment:offline:create'' | Payment_requery \<Rightarrow> ''payment:requery''
         | Payment_refund \<Rightarrow> ''refund:create'') \<in> set (us_permissions u)
      \<and> (unset (pm_collectedById p) \<or> pm_collectedById p = Some (us_id u))) \<and>
    (assertFileAccess u f c so = Inr () \<longleftrightarrow>
      (case c of File_read \<Rightarrow> ''file:read'' | File_create \<Rightarrow> ''file:create'') \<in> set (us_permissions u) \<and>
      (let key = normal_key (fr_objectKey f) in
         (starts_with ''imports/'' key \<or> starts_with ''exports/'' key)
           \<and> (unset (fr_createdById f) \<or> fr_createdById f = Some (us_id u))
         \<or> starts_with ''surveys/'' key
           \<and> \<not> unset (nullish_opt (fr_surveyId f) (parseSurveyIdFromObjectKey key))
           \<and> (case so of
                Some t \<Rightarrow>
                  (case c of File_read \<Rightarrow> ''survey:read'' \<in> set (us_permissions u)
                   | File_create \<Rightarrow> ''survey:update'' \<in> set (us_permissions u) \<and> sr_createdById t = Some (us_id u))
              | None \<Rightarrow> unset (fr_uploadedById f) \<or> fr_uploadedById f = Some (us_id u))))"
proof -
  have b: "\<not> hasBroadResourceAccess u" using assms by (simp add: isScopedOperator_def)
  then have h: "hasPermission u [n] \<longleftrightarrow> n \<in> set (us_permissions u)" for n
    by (simp add: hasPermission_def hasBroadResourceAccess_def)
  have survey: "assertSurveyAccess u t e = Inr () \<longleftrightarrow>
      SURVEY_ACTION_PERMISSION e \<in> set (us_permissions u)
      \<and> (e \<in> {Survey_read, Survey_create} \<or> sr_createdById t = Some (us_id u))" for t e
    using assms b by (auto simp: assertSurveyAccess_def res_iffs h)
  have payment: "assertPaymentAccess u p b = Inr () \<longleftrightarrow>
      PAYMENT_ACTION_PERMISSION b \<in> set (us_permissions u)
      \<and> (unset (pm_collectedById p) \<or> pm_collectedById p = Some (us_id u))"
    using assms b by (auto simp: assertPaymentAccess_def res_iffs h)
  let ?k = "normal_key (fr_objectKey f)"
  have other: "\<not> starts_with ''imports/'' ?k" "\<not> starts_with ''exports/'' ?k" if "starts_with ''surveys/'' ?k"
    using that by (auto simp: starts_with_def)
  have files: "assertFileAccess u f c so = Inr () \<longleftrightarrow>
      (if c = File_read then ''file:read'' else ''file:create'') \<in> set (us_permissions u) \<and>
      (if starts_with ''imports/'' ?k \<or> starts_with ''exports/'' ?k
       then unset (fr_createdById f) \<or> fr_createdById f = Some (us_id u)
       else starts_with ''surveys/'' ?k
         \<and> \<not> unset (nullish_opt (fr_surveyId f) (parseSurveyIdFromObjectKey ?k))
         \<and> (case so of
              Some t \<Rightarrow> assertSurveyAccess u t (if c = File_read then Survey_read else Survey_update) = Inr ()
            | None \<Rightarrow> unset (fr_uploadedById f) \<or> fr_uploadedById f = Some (us_id u)))"
    using assms b by (auto simp: assertFileAccess_def res_iffs h Let_def split: option.splits)
  show ?thesis
  proof (intro conjI)
    show "assertFileAccess u f c so = Inr () \<longleftrightarrow>
      (case c of File_read \<Rightarrow> ''file:read'' | File_create \<Rightarrow> ''file:create'') \<in> set (us_permissions u) \<and>
      (let key = normal_key (fr_objectKey f) in
         (starts_with ''imports/'' key \<or> starts_with ''exports/'' key)
           \<and> (unset (fr_createdById f) \<or> fr_createdById f = Some (us_id u))
         \<or> starts_with ''surveys/'' key
           \<and> \<not> unset (nullish_opt (fr_surveyId f) (parseSurveyIdFromObjectKey key))
           \<and> (case so of
                Some t \<Rightarrow>
                  (case c of File_read \<Rightarrow> ''survey:read'' \<in> set (us_permissions u)
                   | File_create \<Rightarrow> ''survey:update'' \<in> set (us_permissions u) \<and> sr_createdById t = Some (us_id u))
              | None \<Rightarrow> unset (fr_uploadedById f) \<or> fr_uploadedById f = Some (us_id u)))"
      unfolding files Let_def using other by (cases c; cases so) (auto simp: survey)
    show "assertSurveyAccess u s a = Inr () \<longleftrightarrow>
      (case a of
         Survey_read \<Rightarrow> ''survey:read'' \<in> set (us_permissions u)
       | Survey_create \<Rightarrow> ''survey:create'' \<in> set (us_permissions u)
       | Survey_update \<Rightarrow> ''survey:update'' \<in> set (us_permissions u) \<and> sr_createdById s = Some (us_id u)
       | Survey_delete \<Rightarrow> ''survey:delete'' \<in> set (us_permissions u) \<and> sr_createdById s = Some (us_id u))"
      by (cases a) (simp_all add: survey)
    show "assertPaymentAccess u p b = Inr () \<longleftrightarrow>
      (case b of Payment_read \<Rightarrow> ''payment:read'' | Payment_create \<Rightarrow> ''payment:create''
         | Payment_create_offline \<Rightarrow> ''payment:offline:create'' | Payment_requery \<Rightarrow> ''payment:requery''
         | Payment_refund \<Rightarrow> ''refund:create'') \<in> set (us_permissions u)
      \<and> (unset (pm_collectedById p) \<or> pm_collectedById p = Some (us_id u))"
      using payment by (cases b) simp_all
  qed
qed

definition sample_operator :: auth_user where
  "sample_operator =
     \<lparr>us_id = ''u1'', us_email = ''a@b'', us_name = ''A'', us_phone = None, us_status = ''ACTIVE'',
      us_permissions = [''survey:update'', ''refund:create'', ''file:create''], us_roles = [''OPERATOR'']\<rparr>"

lemma operator_is_confined_witness:
  "assertSurveyAccess sample_operator \<lparr>sr_id = ''s1'', sr_wardId = ''w1'', sr_createdById = Some ''u1''\<rparr> Survey_update = Inr () \<and>
   assertSurveyAccess sample_operator \<lparr>sr_id = ''s1'', sr_wardId = ''w1'', sr_createdById = Some ''u2''\<rparr> Survey_update \<noteq> Inr () \<and>
   assertPaymentAccess sample_operator \<lparr>pm_id = ''p1'', pm_collectedById = Some ''u2''\<rparr> Payment_refund \<noteq> Inr () \<and>
   assertFileAccess sample_operator
     \<lparr>fr_objectKey = ''imports/a.xlsx'', fr_surveyId = None, fr_uploadedById = None, fr_createdById = Some ''u2''\<rparr>
     File_create None \<noteq> Inr ()"
proof -
  have o: "isScopedOperator sample_operator"
    by (simp add: isScopedOperator_def hasBroadResourceAccess_def sample_operator_def)
  have k: "starts_with ''imports/'' (normal_key ''imports/a.xlsx'')" "\<not> starts_with ''surveys/'' (normal_key ''imports/a.xlsx'')"
    by code_simp+
  note c = operator_is_confined[OF o]
  let ?s = "\<lambda>u. \<lparr>sr_id = ''s1'', sr_wardId = ''w1'', sr_createdById = Some u\<rparr>"
  let ?p = "\<lparr>pm_id = ''p1'', pm_collectedById = Some ''u2''\<rparr>"
  let ?f = "\<lparr>fr_objectKey = ''imports/a.xlsx'', fr_surveyId = None, fr_uploadedById = None, fr_createdById = Some ''u2''\<rparr>"
  have "assertSurveyAccess sample_operator (?s ''u1'') Survey_update = Inr ()"
    "assertSurveyAccess sample_operator (?s ''u2'') Survey_update \<noteq> Inr ()"
    using c[of "?s ''u1''" Survey_update] c[of "?s ''u2''" Survey_update] by (simp_all add: sample_operator_def)
  moreover have "assertPaymentAccess sample_operator ?p Payment_refund \<noteq> Inr ()"
    using c[of _ _ ?p Payment_refund] by (simp add: sample_operator_def unset_def)
  moreover have "assertFileAccess sample_operator ?f File_create None \<noteq> Inr ()"
    using c[of _ _ _ _ ?f File_create None] k by (simp add: sample_operator_def unset_def)
  ultimately show ?thesis by blast
qed

end
