(* ===== verification/Gateway.thy ===== *)
theory Gateway
  imports Receipts
begin

text \<open>
  The payment gateways (\<open>apps/api/src/payments/providers/\<close>): reading the transaction fields out of a
  gateway body, checking the signature of a callback, the status and refund requests of Atom, and the
  sandbox provider.

  A record \<open>js_text\<close> holds what the run time computes: the text of a number, the finite number a text
  denotes, \<open>encodeURIComponent\<close> and HMAC-SHA512 in hexadecimal. Encryption, HTTP and the
  decoding of a response body are one parameter, \<open>exchange\<close>; \<open>decryptPayload\<close> is another.

  Lemmas: with a response key configured, a callback is accepted only with the HMAC of its fields;
  the whole-rupee truncation of refunds; field lookup after normalising.
\<close>

record js_text =
  num_text :: "js_number \<Rightarrow> string"
  text_num :: "string \<Rightarrow> js_number option"
  encode_uri :: "string \<Rightarrow> string"
  hmac_hex :: "string \<Rightarrow> string \<Rightarrow> string"

text \<open>\<open>x.toFixed(2)\<close> rounds the exact value of \<open>x\<close> to the nearest hundredth, up on a tie; from
  \<open>10 ^ 21\<close> on it is the text of the number, which is in exponent form there.\<close>

definition hundredths :: "js_number \<Rightarrow> nat" where
  "hundredths x = nat \<lfloor>x * 100 + 1 / 2\<rfloor>"

definition fixed2_text :: "nat \<Rightarrow> string" where
  "fixed2_text n = nat_text (n div 100) @ ''.'' @ pad_zeros 2 (nat_text (n mod 100))"

definition exponent_range :: "js_number \<Rightarrow> bool" where
  "exponent_range x \<longleftrightarrow> 1000000000000000000000 \<le> \<bar>x\<bar>"

definition toFixed2 :: "js_text \<Rightarrow> js_number \<Rightarrow> string" where
  "toFixed2 js x =
     (if exponent_range x then num_text js x
      else if x < 0 then ''-'' @ fixed2_text (hundredths (- x)) else fixed2_text (hundredths x))"

subsection \<open>Reading a body\<close>

definition asObject :: "json option \<Rightarrow> (string \<times> json) list option" where
  "asObject v = (case v of Some (JObj entries) \<Rightarrow> Some entries | _ \<Rightarrow> None)"

definition field_of :: "(string \<times> json) list option \<Rightarrow> string \<Rightarrow> json option" where
  "field_of obj key = (case obj of None \<Rightarrow> None | Some entries \<Rightarrow> map_of entries key)"

fun pickString :: "js_text \<Rightarrow> json option list \<Rightarrow> string option" where
  "pickString js [] = None"
| "pickString js (v # vs) =
     (case v of
        Some (JStr s) \<Rightarrow> (if trim s \<noteq> [] then Some (trim s) else pickString js vs)
      | Some (JNum n) \<Rightarrow> Some (num_text js n)
      | _ \<Rightarrow> pickString js vs)"

definition payInstrumentOf :: "json option \<Rightarrow> (string \<times> json) list option" where
  "payInstrumentOf decoded =
     (case asObject decoded of
        None \<Rightarrow> None
      | Some body \<Rightarrow> nullish_opt (asObject (field_of (Some body) ''payInstrument'')) (Some body))"

record txn_fields =
  tf_merchTxnId :: "string option"
  tf_atomTxnId :: "string option"
  tf_statusCode :: string
  tf_gatewayAmount :: "js_number option"
  tf_redirectUrl :: "string option"
  tf_message :: "string option"

definition extractAtomTxnFields :: "js_text \<Rightarrow> json option \<Rightarrow> txn_fields" where
  "extractAtomTxnFields js decoded =
     (let body = asObject decoded;
          instrument = payInstrumentOf decoded;
          merchDetails = asObject (field_of instrument ''merchDetails'');
          payDetails = asObject (field_of instrument ''payDetails'');
          responseDetails = asObject (field_of instrument ''responseDetails'');
          amountRaw = pickString js [field_of payDetails ''amount'', field_of body ''amount'']
      in \<lparr>tf_merchTxnId = pickString js [field_of body ''merchTxnId'', field_of body ''merchantTxnId'',
            field_of merchDetails ''merchTxnId'', field_of merchDetails ''merchantTxnId''],
          tf_atomTxnId = pickString js [field_of body ''atomTxnId'', field_of payDetails ''atomTxnId'',
            field_of instrument ''atomTxnId''],
          tf_statusCode = nullish (pickString js [field_of body ''statusCode'', field_of responseDetails ''statusCode'',
            field_of responseDetails ''message'']) ''UNKNOWN'',
          tf_gatewayAmount = (case amountRaw of None \<Rightarrow> None | Some t \<Rightarrow> text_num js t),
          tf_redirectUrl = pickString js [field_of body ''redirectUrl'', field_of instrument ''redirectUrl'',
            field_of responseDetails ''redirectUrl'', field_of payDetails ''redirectUrl''],
          tf_message = pickString js [field_of responseDetails ''message'', field_of body ''message'']\<rparr>)"

subsection \<open>Signatures\<close>

definition callback_signed_text :: "js_text \<Rightarrow> json option \<Rightarrow> (string \<times> string) option" where
  "callback_signed_text js decoded =
     (let instrument = payInstrumentOf decoded;
          merchDetails = asObject (field_of instrument ''merchDetails'');
          payDetails = asObject (field_of instrument ''payDetails'');
          responseDetails = asObject (field_of instrument ''responseDetails'');
          payMode = asObject (field_of instrument ''payModeSpecificData'');
          bankDetails = asObject (field_of payMode ''bankDetails'');
          subChannel0 = (case field_of payMode ''subChannel'' of
              Some (JArr items) \<Rightarrow> pickString js [case items of [] \<Rightarrow> None | i # _ \<Rightarrow> Some i]
            | s \<Rightarrow> pickString js [s])
      in case (pickString js [field_of merchDetails ''merchId''], pickString js [field_of payDetails ''atomTxnId''],
               pickString js [field_of merchDetails ''merchTxnId''], pickString js [field_of payDetails ''totalAmount''],
               pickString js [field_of responseDetails ''statusCode''], subChannel0,
               pickString js [field_of bankDetails ''bankTxnId''], pickString js [field_of payDetails ''signature'']) of
           (Some merchId, Some atomTxnId, Some merchTxnId, Some totalAmountRaw, Some statusCode, Some sub0,
            Some bankTxnId, Some received) \<Rightarrow>
              (case text_num js totalAmountRaw of
                 None \<Rightarrow> None
               | Some totalAmount \<Rightarrow>
                   Some (merchId @ atomTxnId @ merchTxnId @ toFixed2 js totalAmount @ statusCode @ sub0 @ bankTxnId,
                         received))
         | _ \<Rightarrow> None)"

definition verifyAtomCallbackSignature :: "js_text \<Rightarrow> json option \<Rightarrow> string \<Rightarrow> bool" where
  "verifyAtomCallbackSignature js decoded respHashKey =
     (let key = trim respHashKey in
      key \<noteq> [] \<and> payInstrumentOf decoded \<noteq> None \<and>
      (case callback_signed_text js decoded of
         None \<Rightarrow> False
       | Some (signatureString, received) \<Rightarrow>
           toLowerCase (hmac_hex js key signatureString) = toLowerCase received))"

datatype callback_error =
    MISSING_ENCDATA | DECRYPT_UNAVAILABLE | DECRYPT_FAILED | INVALID_SIGNATURE | MISSING_REQ_HASH_KEY
  | CALLBACK_PARSE_FAILED

definition assertAtomCallbackSignatureIfConfigured ::
  "js_text \<Rightarrow> string option \<Rightarrow> json option \<Rightarrow> callback_error + unit" where
  "assertAtomCallbackSignatureIfConfigured js respHashKey decoded =
     (let key = trim (nullish respHashKey []) in
      if key = [] then Inr ()
      else guard (verifyAtomCallbackSignature js decoded key) INVALID_SIGNATURE)"

definition atomStatusSignature ::
  "js_text \<Rightarrow> string \<Rightarrow> string \<Rightarrow> js_number \<Rightarrow> string option \<Rightarrow> string \<Rightarrow> callback_error + string" where
  "atomStatusSignature js merchId merchTxnId amount txnCurrency reqHashKey =
     (let key = trim reqHashKey in
      if key = [] then Inl MISSING_REQ_HASH_KEY
      else Inr (hmac_hex js key (merchId @ merchTxnId @ int_text \<lfloor>amount\<rfloor> @ nullish txnCurrency ''INR'')))"

definition atomRefundSignature ::
  "js_text \<Rightarrow> string \<Rightarrow> string \<Rightarrow> string \<Rightarrow> js_number \<Rightarrow> string option \<Rightarrow> string \<Rightarrow> callback_error + string" where
  "atomRefundSignature js merchId password merchTxnId totalRefundAmount txnCurrency reqHashKey =
     (let key = trim reqHashKey in
      if key = [] then Inl MISSING_REQ_HASH_KEY
      else Inr (hmac_hex js key (merchId @ password @ merchTxnId @ int_text \<lfloor>totalRefundAmount\<rfloor>
                                 @ nullish txnCurrency ''INR'' @ ''REFUNDINIT'')))"

subsection \<open>Callbacks\<close>

text \<open>Object spread: later entries win; a property set to undefined is absent.\<close>

definition set_field :: "string \<Rightarrow> json option \<Rightarrow> (string \<times> json) list \<Rightarrow> (string \<times> json) list" where
  "set_field key v entries =
     filter (\<lambda>(k, _). k \<noteq> key) entries @ (case v of None \<Rightarrow> [] | Some x \<Rightarrow> [(key, x)])"

definition spread :: "(string \<times> json) list \<Rightarrow> (string \<times> json) list \<Rightarrow> (string \<times> json) list" where
  "spread base extra = foldl (\<lambda>acc (k, v). set_field k (Some v) acc) base extra"

definition with_fields :: "txn_fields \<Rightarrow> (string \<times> json) list \<Rightarrow> (string \<times> json) list" where
  "with_fields fs entries =
     set_field ''gatewayAmount'' (map_option JNum (tf_gatewayAmount fs))
       (set_field ''statusCode'' (Some (JStr (tf_statusCode fs)))
         (set_field ''atomTxnId'' (map_option JStr (tf_atomTxnId fs))
           (set_field ''merchTxnId'' (map_option JStr (tf_merchTxnId fs)) entries)))"

record parsed_callback =
  pc_normalized :: "(string \<times> json) list"
  pc_merchTxnId :: "string option"
  pc_atomTxnId :: "string option"
  pc_statusCode :: string
  pc_gatewayAmount :: "js_number option"

definition enc_data :: "(string \<times> json) list \<Rightarrow> string" where
  "enc_data payload = (case map_of payload ''encData'' of Some (JStr s) \<Rightarrow> trim s | _ \<Rightarrow> [])"

definition object_entries :: "json \<Rightarrow> (string \<times> json) list" where
  "object_entries v = (case v of JObj entries \<Rightarrow> entries
     | JArr items \<Rightarrow> map (\<lambda>(i, x). (nat_text i, x)) (enumerate 0 items)
     | _ \<Rightarrow> [])"

definition parseAtomEncryptedCallback ::
  "js_text \<Rightarrow> string option \<Rightarrow> (string \<Rightarrow> json option) option \<Rightarrow> (string \<times> json) list
     \<Rightarrow> callback_error + parsed_callback" where
  "parseAtomEncryptedCallback js respHashKey decrypt payload =
     (if enc_data payload = [] then Inl MISSING_ENCDATA
      else
       (case decrypt of
          None \<Rightarrow> Inl DECRYPT_UNAVAILABLE
        | Some f \<Rightarrow>
           (case f (enc_data payload) of
              None \<Rightarrow> Inl DECRYPT_FAILED
            | Some decoded \<Rightarrow>
                bind_res (assertAtomCallbackSignatureIfConfigured js respHashKey (Some decoded)) (\<lambda>_.
                  let fs = extractAtomTxnFields js (Some decoded);
                      normalized =
                        set_field ''_encDataVerified'' (Some (JBool True))
                          (set_field ''_decoded'' (Some decoded)
                            (with_fields fs (spread payload (object_entries decoded))))
                  in Inr \<lparr>pc_normalized = normalized, pc_merchTxnId = tf_merchTxnId fs,
                          pc_atomTxnId = tf_atomTxnId fs, pc_statusCode = tf_statusCode fs,
                          pc_gatewayAmount = tf_gatewayAmount fs\<rparr>))))"

subsection \<open>The provider interface\<close>

record create_request =
  cq_merchTxnId :: string
  cq_amount :: js_number
  cq_customerName :: "string option"
  cq_customerEmail :: "string option"
  cq_customerMobile :: "string option"
  cq_returnUrl :: string
  cq_callbackUrl :: string

record create_result =
  ct_redirectUrl :: "string option"
  ct_encData :: "string option"
  ct_merchId :: "string option"
  ct_atomTokenId :: "string option"
  ct_raw :: "json option"

record requery_result =
  rq_statusCode :: string
  rq_success :: bool
  rq_atomTxnId :: "string option"
  rq_amount :: "js_number option"
  rq_raw :: json

record refund_result =
  re_statusCode :: string
  re_success :: bool
  re_gatewayRefundId :: "string option"
  re_raw :: json

text \<open>A call may fail: Atom's own validation of the request, or any other error.\<close>

datatype gateway_error = Auth_validation string | Gateway_failure

record gateway =
  gw_name :: string
  gw_createPayment :: "create_request \<Rightarrow> gateway_error + create_result"
  gw_requery :: "string \<Rightarrow> js_number \<Rightarrow> int \<Rightarrow> gateway_error + requery_result"
  gw_refund :: "string \<Rightarrow> string \<Rightarrow> js_number \<Rightarrow> string option \<Rightarrow> gateway_error + refund_result"
  gw_decryptPayload :: "(string \<Rightarrow> json option) option"

definition toClientGatewayResult :: "create_result \<Rightarrow> create_result" where
  "toClientGatewayResult r = r\<lparr>ct_encData := None\<rparr>"

definition canApplyRefundToPayment :: "bool \<Rightarrow> bool" where
  "canApplyRefundToPayment gatewaySuccess = gatewaySuccess"

subsection \<open>The sandbox provider\<close>

definition create_request_json :: "create_request \<Rightarrow> json" where
  "create_request_json q =
     JObj ([(''merchTxnId'', JStr (cq_merchTxnId q)), (''amount'', JNum (cq_amount q))]
           @ (case cq_customerName q of None \<Rightarrow> [] | Some s \<Rightarrow> [(''customerName'', JStr s)])
           @ (case cq_customerEmail q of None \<Rightarrow> [] | Some s \<Rightarrow> [(''customerEmail'', JStr s)])
           @ (case cq_customerMobile q of None \<Rightarrow> [] | Some s \<Rightarrow> [(''customerMobile'', JStr s)])
           @ [(''returnUrl'', JStr (cq_returnUrl q)), (''callbackUrl'', JStr (cq_callbackUrl q))])"

text \<open>\<open>base64_json\<close> is \<open>Buffer.from(JSON.stringify(x)).toString("base64")\<close>.\<close>

definition sandbox_provider :: "js_text \<Rightarrow> string option \<Rightarrow> (json \<Rightarrow> string) \<Rightarrow> gateway" where
  "sandbox_provider js atomReturnUrl base64_json =
     \<lparr>gw_name = ''sandbox'',
      gw_createPayment = (\<lambda>q. Inr
        \<lparr>ct_redirectUrl = Some (nullish atomReturnUrl ''http://localhost:3001/propertytax/payment/return''
            @ ''?merchTxnId='' @ encode_uri js (cq_merchTxnId q) @ ''&sandbox=1''),
         ct_encData = Some (base64_json (create_request_json q)), ct_merchId = Some ''SANDBOX'',
         ct_atomTokenId = None,
         ct_raw = Some (JObj [(''provider'', JStr ''sandbox''), (''input'', create_request_json q)])\<rparr>),
      gw_requery = (\<lambda>merchTxnId amount t. Inr
        \<lparr>rq_statusCode = ''OTS0000'', rq_success = True, rq_atomTxnId = Some (''SANDBOX-'' @ merchTxnId),
         rq_amount = None,
         rq_raw = JObj [(''provider'', JStr ''sandbox''), (''merchTxnId'', JStr merchTxnId)]\<rparr>),
      gw_refund = (\<lambda>merchTxnId atomTxnId amount reason. Inr
        \<lparr>re_statusCode = ''OTS0000'', re_success = True, re_gatewayRefundId = Some (''RFD-'' @ merchTxnId),
         re_raw = JObj [(''provider'', JStr ''sandbox''),
           (''input'', JObj ([(''merchTxnId'', JStr merchTxnId), (''atomTxnId'', JStr atomTxnId), (''amount'', JNum amount)]
             @ (case reason of None \<Rightarrow> [] | Some r \<Rightarrow> [(''reason'', JStr r)])))]\<rparr>),
      gw_decryptPayload = None\<rparr>"

subsection \<open>Atom requests\<close>

definition wholeRupees :: "js_number \<Rightarrow> int" where
  "wholeRupees amount = \<lfloor>amount\<rfloor>"

definition buildAtomStatusPayload ::
  "js_text \<Rightarrow> string \<Rightarrow> string \<Rightarrow> js_number \<Rightarrow> string \<Rightarrow> string \<Rightarrow> callback_error + json" where
  "buildAtomStatusPayload js merchId merchTxnId amount0 merchTxnDate reqHashKey =
     (let amount = of_int (wholeRupees amount0) in
      bind_res (atomStatusSignature js merchId merchTxnId amount None reqHashKey) (\<lambda>signature.
        Inr (JObj [(''payInstrument'', JObj
          [(''payDetails'', JObj [(''amount'', JNum amount), (''signature'', JStr signature), (''txnCurrency'', JStr ''INR'')]),
           (''merchDetails'', JObj [(''merchId'', JStr merchId), (''merchTxnId'', JStr merchTxnId),
              (''merchTxnDate'', JStr merchTxnDate)])])])))"

definition buildAtomRefundPayload ::
  "js_text \<Rightarrow> string \<Rightarrow> string \<Rightarrow> string \<Rightarrow> string \<Rightarrow> js_number \<Rightarrow> string \<Rightarrow> string \<Rightarrow> string
     \<Rightarrow> callback_error + json" where
  "buildAtomRefundPayload js merchId password merchTxnId atomTxnId amount product reqHashKey prodRefundId =
     (let totalRefundAmount = of_int (wholeRupees amount) in
      bind_res (atomRefundSignature js merchId password merchTxnId totalRefundAmount None reqHashKey) (\<lambda>signature.
        Inr (JObj [(''payInstrument'', JObj
          [(''headDetails'', JObj [(''api'', JStr ''REFUNDINIT''), (''source'', JStr ''OTS'')]),
           (''merchDetails'', JObj [(''merchId'', JStr merchId), (''password'', JStr password), (''merchTxnId'', JStr merchTxnId)]),
           (''payDetails'', JObj [(''atomTxnId'', JStr atomTxnId), (''signature'', JStr signature),
              (''prodDetails'', JArr [JObj [(''prodName'', JStr product), (''prodRefundId'', JStr prodRefundId),
                 (''prodRefundAmount'', JNum totalRefundAmount)]]),
              (''txnCurrency'', JStr ''INR''), (''totalRefundAmount'', JNum totalRefundAmount)])])])))"

text \<open>The Atom provider over an encrypted exchange: the endpoint and the request body give whether the
  response was ok and its decoded body. \<open>ist_date\<close> is the date in Asia/Kolkata; \<open>sha1_hex\<close> a digest.\<close>

record atom_config =
  ak_merchId :: string
  ak_password :: string
  ak_productName :: string
  ak_reqHashKey :: "string option"
  ak_baseUrl :: string
  ak_refundUrl :: string

definition strip_slash :: "string \<Rightarrow> string" where
  "strip_slash s = (if s \<noteq> [] \<and> last s = CHR ''/'' then butlast s else s)"

definition reqHashKey_of :: "atom_config \<Rightarrow> callback_error + string" where
  "reqHashKey_of cfg =
     (let key = trim (nullish (ak_reqHashKey cfg) []) in if key = [] then Inl MISSING_REQ_HASH_KEY else Inr key)"

definition atom_requery ::
  "js_text \<Rightarrow> atom_config \<Rightarrow> (int \<Rightarrow> string) \<Rightarrow> (string \<Rightarrow> json \<Rightarrow> (bool \<times> json) option)
     \<Rightarrow> string \<Rightarrow> js_number \<Rightarrow> int \<Rightarrow> gateway_error + requery_result" where
  "atom_requery js cfg ist_date exchange merchTxnId amount merchTxnAt =
     (case bind_res (reqHashKey_of cfg)
             (buildAtomStatusPayload js (ak_merchId cfg) merchTxnId amount (ist_date merchTxnAt)) of
        Inl _ \<Rightarrow> Inl Gateway_failure
      | Inr payload \<Rightarrow>
         (case exchange (strip_slash (ak_baseUrl cfg) @ ''/ots/v2/payment/status'') payload of
            None \<Rightarrow> Inl Gateway_failure
          | Some (ok, decoded) \<Rightarrow>
             (let fs = extractAtomTxnFields js (Some decoded) in
              Inr \<lparr>rq_statusCode = tf_statusCode fs,
                   rq_success = (tf_statusCode fs = ''OTS0000'' \<or> tf_statusCode fs = ''SUCCESS''
                                 \<or> tf_message fs = Some ''SUCCESS''),
                   rq_atomTxnId = tf_atomTxnId fs, rq_amount = None, rq_raw = decoded\<rparr>)))"

definition atom_refund ::
  "js_text \<Rightarrow> atom_config \<Rightarrow> (string \<Rightarrow> string) \<Rightarrow> (string \<Rightarrow> json \<Rightarrow> (bool \<times> json) option)
     \<Rightarrow> string \<Rightarrow> string \<Rightarrow> js_number \<Rightarrow> string option \<Rightarrow> gateway_error + refund_result" where
  "atom_refund js cfg sha1_hex exchange merchTxnId atomTxnId amount reason =
     (case bind_res (reqHashKey_of cfg) (\<lambda>key.
             buildAtomRefundPayload js (ak_merchId cfg) (ak_password cfg) merchTxnId atomTxnId amount
               (ak_productName cfg) key (take 30 (''RF-'' @ merchTxnId))) of
        Inl _ \<Rightarrow> Inl Gateway_failure
      | Inr payload \<Rightarrow>
         (case exchange (ak_refundUrl cfg) payload of
            None \<Rightarrow> Inl Gateway_failure
          | Some (ok, decoded) \<Rightarrow>
             (let fs = extractAtomTxnFields js (Some decoded) in
              Inr \<lparr>re_statusCode = tf_statusCode fs,
                   re_success = isAtomRefundSuccess ok (tf_statusCode fs),
                   re_gatewayRefundId = Some (nullish (tf_atomTxnId fs) (take 16 (sha1_hex merchTxnId))),
                   re_raw = decoded\<rparr>)))"

subsection \<open>Accepted callbacks are signed\<close>

text \<open>C27. With a response key configured, a callback is accepted only if it came encrypted, could be
  decrypted, and carries the HMAC of merchant, transaction ids, amount, status, channel and bank id
  under that key; the transaction fields the service goes on with are those of the decrypted body.\<close>

theorem accepted_callback_is_signed:
  assumes "parseAtomEncryptedCallback js (Some key) decrypt payload = Inr p" "trim key \<noteq> []"
  shows "\<exists>f decoded signed received. decrypt = Some f \<and> enc_data payload \<noteq> [] \<and> f (enc_data payload) = Some decoded \<and>
    callback_signed_text js (Some decoded) = Some (signed, received) \<and>
    toLowerCase (hmac_hex js (trim key) signed) = toLowerCase received \<and>
    pc_statusCode p = tf_statusCode (extractAtomTxnFields js (Some decoded)) \<and>
    pc_gatewayAmount p = tf_gatewayAmount (extractAtomTxnFields js (Some decoded))"
proof -
  obtain f decoded where d: "decrypt = Some f" "enc_data payload \<noteq> []" "f (enc_data payload) = Some decoded"
    "assertAtomCallbackSignatureIfConfigured js (Some key) (Some decoded) = Inr ()"
    "pc_statusCode p = tf_statusCode (extractAtomTxnFields js (Some decoded))"
    "pc_gatewayAmount p = tf_gatewayAmount (extractAtomTxnFields js (Some decoded))"
    using assms(1) unfolding parseAtomEncryptedCallback_def
    by (auto simp: res_iffs Let_def split: if_splits option.splits)
  have "verifyAtomCallbackSignature js (Some decoded) (trim key)"
    using d(4) assms(2) by (simp add: assertAtomCallbackSignatureIfConfigured_def Let_def)
  then obtain signed received where "callback_signed_text js (Some decoded) = Some (signed, received)"
    "toLowerCase (hmac_hex js (trim key) signed) = toLowerCase received"
    unfolding verifyAtomCallbackSignature_def by (auto simp: Let_def split: option.splits)
  then show ?thesis using d by blast
qed

definition plain_js :: js_text where
  "plain_js = \<lparr>num_text = (\<lambda>x. int_text \<lfloor>x\<rfloor>), text_num = (\<lambda>s. Some 5), encode_uri = (\<lambda>s. s),
     hmac_hex = (\<lambda>k s. k @ s)\<rparr>"

definition signed_body :: json where
  "signed_body = JObj [(''payInstrument'', JObj
     [(''merchDetails'', JObj [(''merchId'', JStr ''1''), (''merchTxnId'', JStr ''CHH-1'')]),
      (''payDetails'', JObj [(''atomTxnId'', JStr ''77''), (''totalAmount'', JStr ''5.00''), (''amount'', JStr ''5.00''),
                            (''signature'', JStr ''k177CHH-15.00OTS0600UPb'')]),
      (''responseDetails'', JObj [(''statusCode'', JStr ''OTS0600'')]),
      (''payModeSpecificData'', JObj [(''subChannel'', JArr [JStr ''UP'']), (''bankDetails'', JObj [(''bankTxnId'', JStr ''b'')])])])]"

lemma signed_body_text: "callback_signed_text plain_js (Some signed_body) = Some (''177CHH-15.00OTS0600UPb'', ''k177CHH-15.00OTS0600UPb'')"
proof -
  have t: "trim ''1'' = ''1''" "trim ''CHH-1'' = ''CHH-1''" "trim ''77'' = ''77''" "trim ''5.00'' = ''5.00''"
    "trim ''k177CHH-15.00OTS0600UPb'' = ''k177CHH-15.00OTS0600UPb''" "trim ''OTS0600'' = ''OTS0600''"
    "trim ''UP'' = ''UP''" "trim ''b'' = ''b''" "fixed2_text 500 = ''5.00''"
    by code_simp+
  have "\<lfloor>(5 :: js_number) * 100 + 1 / 2\<rfloor> = 500" by (rule floor_unique) simp_all
  then have "toFixed2 plain_js 5 = ''5.00''" by (simp add: toFixed2_def exponent_range_def hundredths_def t(9))
  then show ?thesis
    by (simp add: callback_signed_text_def signed_body_def payInstrumentOf_def asObject_def field_of_def plain_js_def t Let_def)
qed

lemma accepted_callback_is_signed_witness:
  "\<exists>p. parseAtomEncryptedCallback plain_js (Some ''k'') (Some (\<lambda>_. Some signed_body)) [(''encData'', JStr ''AB'')] = Inr p
     \<and> hmac_hex plain_js ''k'' ''177CHH-15.00OTS0600UPb'' = ''k177CHH-15.00OTS0600UPb''"
proof -
  have t: "trim ''AB'' = ''AB''" "trim ''k'' = ''k''" by code_simp+
  have h: "hmac_hex plain_js ''k'' s = CHR ''k'' # s" for s by (simp add: plain_js_def)
  have i: "payInstrumentOf (Some signed_body) \<noteq> None"
    by (simp add: payInstrumentOf_def asObject_def signed_body_def field_of_def)
  have "verifyAtomCallbackSignature plain_js (Some signed_body) ''k''"
    by (simp only: verifyAtomCallbackSignature_def t Let_def signed_body_text option.case prod.case h) (use i in simp)
  then obtain p where p: "parseAtomEncryptedCallback plain_js (Some ''k'') (Some (\<lambda>_. Some signed_body)) [(''encData'', JStr ''AB'')] = Inr p"
    by (simp add: parseAtomEncryptedCallback_def enc_data_def t assertAtomCallbackSignatureIfConfigured_def Let_def guard_def)
  from accepted_callback_is_signed[OF p] show ?thesis using p t h by auto
qed

text \<open>The signature does not cover what is read: a status beside the instrument wins over the signed
  one, and the same signature still verifies.\<close>

lemma unsigned_status_wins:
  assumes "asObject (map_of es ''payInstrument'') = Some instrument" "trim s \<noteq> []"
  shows "tf_statusCode (extractAtomTxnFields js (Some (JObj ((''statusCode'', JStr s) # es)))) = trim s \<and>
    verifyAtomCallbackSignature js (Some (JObj ((''statusCode'', JStr s) # es))) key
      = verifyAtomCallbackSignature js (Some (JObj es)) key"
proof -
  have "payInstrumentOf (Some (JObj ((''statusCode'', JStr s) # es))) = payInstrumentOf (Some (JObj es))"
    using assms(1) by (simp add: payInstrumentOf_def asObject_def field_of_def)
  then show ?thesis
    using assms(2) by (simp add: extractAtomTxnFields_def verifyAtomCallbackSignature_def callback_signed_text_def
        asObject_def field_of_def Let_def)
qed

text \<open>A refund is sent in whole rupees: the paise of the amount are dropped.\<close>

lemma refund_drops_paise: "wholeRupees (43 / 4) = 10 \<and> (43 / 4 :: js_number) \<noteq> 10"
proof -
  have "\<lfloor>43 / 4 :: js_number\<rfloor> = 10" by (rule floor_unique) simp_all
  then show ?thesis by (simp add: wholeRupees_def)
qed

end
