(* ===== verification/AtomAuth.thy ===== *)
theory AtomAuth
  imports Gateway
begin

text \<open>
  The checkout request of Atom (\<open>atom-ndps.provider.ts\<close>: \<open>assertAuthCustomerAndMerchant\<close>,
  \<open>buildAipayAuthPayload\<close>, \<open>assertAipayAuthPayload\<close>, \<open>createPayment\<close>) and the settings it reads
  (\<open>apps/api/src/config/atom-env.ts\<close>).

  The main lemma: the structural check in front of the encryption accepts exactly the well-formed
  requests, so the builder is known on every input: behind the checks on customer, merchant and amount
  it refuses only amounts from \<open>10 ^ 10\<close> rupees on and blank transaction ids and dates.
\<close>

subsection \<open>Settings\<close>

datatype aes_mode = Distinct | Self_salt | Missing_pair

record aes_pair =
  ap_key :: string
  ap_salt :: string
  ap_mode :: aes_mode

definition trimmed :: "string option \<Rightarrow> string" where
  "trimmed s = trim (nullish s [])"

definition resolveAtomAesPair :: "string option \<Rightarrow> string option \<Rightarrow> aes_pair" where
  "resolveAtomAesPair key salt =
     (let k = trimmed key; s = trimmed salt in
      if k \<noteq> [] \<and> s \<noteq> [] then \<lparr>ap_key = k, ap_salt = s, ap_mode = (if k = s then Self_salt else Distinct)\<rparr>
      else if s \<noteq> [] then \<lparr>ap_key = s, ap_salt = s, ap_mode = Self_salt\<rparr>
      else if k \<noteq> [] then \<lparr>ap_key = k, ap_salt = k, ap_mode = Self_salt\<rparr>
      else \<lparr>ap_key = [], ap_salt = [], ap_mode = Missing_pair\<rparr>)"

definition hex_32 :: "string \<Rightarrow> bool" where
  "hex_32 s \<longleftrightarrow> length s = 32 \<and> list_all (\<lambda>c. is_digit c \<or> c \<in> set ''abcdefABCDEF'') s"

datatype aes_material_error = Material_required string | Material_not_hex string

definition atomAesMaterialErrors ::
  "string \<Rightarrow> string \<Rightarrow> string option \<Rightarrow> string option \<Rightarrow> aes_material_error list \<times> aes_mode" where
  "atomAesMaterialErrors keyName ivName key iv =
     (let rawKey = trimmed key; rawIv = trimmed iv; pair = resolveAtomAesPair (Some rawKey) (Some rawIv)
      in if ap_mode pair = Missing_pair then ([Material_required ivName], Missing_pair)
         else ((if rawIv \<noteq> [] \<and> \<not> hex_32 rawIv then [Material_not_hex ivName] else [])
               @ (if rawKey \<noteq> [] \<and> \<not> hex_32 rawKey then [Material_not_hex keyName] else []), ap_mode pair))"

type_synonym process_env = "string \<Rightarrow> string option"

definition isAtomPaymentProvider :: "process_env \<Rightarrow> bool" where
  "isAtomPaymentProvider env \<longleftrightarrow>
     (case env ''PAYMENT_PROVIDER'' of None \<Rightarrow> False | Some s \<Rightarrow> toLowerCase (trim s) = ''atom'')"

definition resolveAtomProduct :: "process_env \<Rightarrow> string" where
  "resolveAtomProduct env = or_text (trimmed (env ''ProductID'')) (trimmed (env ''ATOM_PRODUCT''))"

definition resolveAtomCustAccNo :: "process_env \<Rightarrow> string" where
  "resolveAtomCustAccNo env = trimmed (env ''ATOM_CUST_ACC_NO'')"

definition resolveAtomSubChannel :: "process_env \<Rightarrow> string" where
  "resolveAtomSubChannel env =
     (let configured = trimmed (env ''ATOM_SUB_CHANNEL'') in
      if configured \<noteq> [] then configured
      else if env ''NODE_ENV'' = Some ''production'' \<and> isAtomPaymentProvider env then ''UP'' else [])"

definition drop_slashes :: "string \<Rightarrow> string" where
  "drop_slashes s = rev (dropWhile (\<lambda>c. c = CHR ''/'') (rev s))"

definition resolveAtomRefundUrl :: "process_env \<Rightarrow> string \<Rightarrow> string" where
  "resolveAtomRefundUrl env baseUrl =
     (let configured = drop_slashes (trimmed (env ''ATOM_REFUND_URL'')) in
      if configured \<noteq> [] then configured
      else if env ''NODE_ENV'' = Some ''production'' \<and> isAtomPaymentProvider env
           then ''https://payment.atomtech.in/ots/payment/refund''
      else (let base = drop_slashes (trim baseUrl) in if base \<noteq> [] then base @ ''/ots/payment/refund'' else []))"

subsection \<open>Checks on the request\<close>

record auth_config =
  au_merchId :: string
  au_password :: string
  au_product :: string
  au_custAccNo :: string
  au_subChannel :: string

datatype auth_code = MISSING_MERCHANT | MISSING_EMAIL | MISSING_MOBILE | INVALID_AMOUNT | INVALID_PAYLOAD

text \<open>The regular expression \<open>PLAIN_EMAIL\<close>.\<close>

definition alnum :: "char \<Rightarrow> bool" where
  "alnum c \<longleftrightarrow> is_digit c \<or> is_letter c"

definition domain_label :: "string \<Rightarrow> bool" where
  "domain_label s \<longleftrightarrow> s \<noteq> [] \<and> length s \<le> 63 \<and> alnum (hd s) \<and> alnum (last s)
     \<and> list_all (\<lambda>c. alnum c \<or> c = CHR ''-'') s"

definition plain_email :: "string \<Rightarrow> bool" where
  "plain_email s \<longleftrightarrow>
     (case split_char CHR ''@'' s of
        [name, domain] \<Rightarrow>
          name \<noteq> [] \<and> list_all (\<lambda>c. alnum c \<or> c \<in> set ''.!#$%&*+/=?^_`{|}~-'' \<or> c = CHR 0x27) name
          \<and> 2 \<le> length (split_char CHR ''.'' domain) \<and> list_all domain_label (split_char CHR ''.'' domain)
      | _ \<Rightarrow> False)"

definition ten_digits :: "string \<Rightarrow> bool" where
  "ten_digits s \<longleftrightarrow> length s = 10 \<and> list_all is_digit s"

text \<open>\<open>Number(amount.toFixed(2))\<close> is the number nearest to that many hundredths, and the amount itself in
  the exponent range. An amount is finite: a \<open>js_number\<close> is neither NaN nor an infinity, so the check with
  \<open>Number.isFinite\<close> always passes. \<open>String(Math.trunc(rounded))\<close> is in exponent form from \<open>10 ^ 21\<close> on.\<close>

definition rounded_amount :: "js_number \<Rightarrow> js_number" where
  "rounded_amount x =
     (if exponent_range x then x
      else if x < 0 then - paise (hundredths (- x)) else paise (hundredths x))"

definition trunc_text :: "js_text \<Rightarrow> js_number \<Rightarrow> string" where
  "trunc_text js x = (if exponent_range x then num_text js (of_int \<lfloor>x\<rfloor>) else nat_text (nat \<lfloor>x\<rfloor>))"

definition assertAuthCustomerAndMerchant ::
  "js_text \<Rightarrow> create_request \<Rightarrow> auth_config \<Rightarrow> auth_code + (string \<times> string \<times> string)" where
  "assertAuthCustomerAndMerchant js input config =
     (if trim (au_merchId config) = [] \<or> trim (au_password config) = [] \<or> trim (au_product config) = []
         \<or> trim (au_custAccNo config) = [] then Inl MISSING_MERCHANT
      else
       (let email = trimmed (cq_customerEmail input); mobile = trimmed (cq_customerMobile input) in
        if email = [] \<or> length email > 100 \<or> list_ex is_space email \<or> \<not> plain_email email then Inl MISSING_EMAIL
        else if \<not> ten_digits mobile then Inl MISSING_MOBILE
        else
         (let rounded = rounded_amount (cq_amount input) in
          if \<not> rounded > 0 then Inl INVALID_AMOUNT
          else if length (trunc_text js rounded) > 10 then Inl INVALID_AMOUNT
          else Inr (email, mobile, toFixed2 js rounded))))"

text \<open>\<open>/^\d+\.\d{2}$/\<close>\<close>

definition two_decimals :: "string \<Rightarrow> bool" where
  "two_decimals s \<longleftrightarrow>
     (case split_char CHR ''.'' s of
        [whole, cents] \<Rightarrow> whole \<noteq> [] \<and> list_all is_digit whole \<and> length cents = 2 \<and> list_all is_digit cents
      | _ \<Rightarrow> False)"

definition text_field :: "(string \<times> json) list option \<Rightarrow> string \<Rightarrow> string option" where
  "text_field obj key = (case field_of obj key of Some (JStr s) \<Rightarrow> Some s | _ \<Rightarrow> None)"

definition filled_text :: "(string \<times> json) list option \<Rightarrow> string \<Rightarrow> bool" where
  "filled_text obj key \<longleftrightarrow> (case text_field obj key of None \<Rightarrow> False | Some s \<Rightarrow> trim s \<noteq> [])"

definition head_ok :: "(string \<times> json) list option \<Rightarrow> bool" where
  "head_ok head \<longleftrightarrow> text_field head ''version'' = Some ''OTSv1.1'' \<and> text_field head ''api'' = Some ''AUTH''
     \<and> text_field head ''platform'' = Some ''FLASH''"

definition merch_ok :: "(string \<times> json) list option \<Rightarrow> bool" where
  "merch_ok merch \<longleftrightarrow> filled_text merch ''merchId'' \<and> filled_text merch ''password'' \<and> filled_text merch ''merchTxnId''
     \<and> filled_text merch ''merchTxnDate'' \<and> text_field merch ''userId'' = Some []"

definition pay_ok :: "js_text \<Rightarrow> (string \<times> json) list option \<Rightarrow> bool" where
  "pay_ok js pay \<longleftrightarrow>
     (case text_field pay ''amount'' of
        None \<Rightarrow> False
      | Some a \<Rightarrow> two_decimals a \<and> (case text_num js a of None \<Rightarrow> False | Some n \<Rightarrow> n > 0))
     \<and> filled_text pay ''product'' \<and> filled_text pay ''custAccNo'' \<and> text_field pay ''txnCurrency'' = Some ''INR''"

definition cust_ok :: "(string \<times> json) list option \<Rightarrow> bool" where
  "cust_ok cust \<longleftrightarrow>
     (case text_field cust ''custEmail'' of None \<Rightarrow> False | Some e \<Rightarrow> plain_email e)
     \<and> (case text_field cust ''custMobile'' of None \<Rightarrow> False | Some m \<Rightarrow> ten_digits m)"

definition extras_ok :: "(string \<times> json) list option \<Rightarrow> bool" where
  "extras_ok extras \<longleftrightarrow> list_all (\<lambda>k. text_field extras k = Some []) [''udf1'', ''udf2'', ''udf3'', ''udf4'', ''udf5'']"

definition assertAipayAuthPayload :: "js_text \<Rightarrow> json \<Rightarrow> auth_code + unit" where
  "assertAipayAuthPayload js body =
     (let instrument = asObject (field_of (asObject (Some body)) ''payInstrument'');
          sect = (\<lambda>k. asObject (field_of instrument k))
      in if instrument = None then Inl INVALID_PAYLOAD
         else if \<not> head_ok (sect ''headDetails'') then Inl INVALID_PAYLOAD
         else if \<not> merch_ok (sect ''merchDetails'') then Inl INVALID_PAYLOAD
         else if \<not> pay_ok js (sect ''payDetails'') then Inl INVALID_PAYLOAD
         else if \<not> cust_ok (sect ''custDetails'') then Inl INVALID_PAYLOAD
         else if \<not> extras_ok (sect ''extras'') then Inl INVALID_PAYLOAD
         else if field_of instrument ''payModeSpecificData'' \<noteq> None \<and> \<not> filled_text (sect ''payModeSpecificData'') ''subChannel''
         then Inl INVALID_PAYLOAD else Inr ())"

definition auth_body :: "create_request \<Rightarrow> auth_config \<Rightarrow> string \<Rightarrow> string \<Rightarrow> string \<Rightarrow> string \<Rightarrow> json" where
  "auth_body input config email mobile amount merchTxnDate =
     (let subChannel = trim (au_subChannel config) in
      JObj [(''payInstrument'', JObj
        ([(''headDetails'', JObj [(''version'', JStr ''OTSv1.1''), (''api'', JStr ''AUTH''), (''platform'', JStr ''FLASH'')]),
          (''merchDetails'', JObj [(''merchId'', JStr (trim (au_merchId config))), (''userId'', JStr []),
             (''password'', JStr (au_password config)), (''merchTxnId'', JStr (cq_merchTxnId input)),
             (''merchTxnDate'', JStr merchTxnDate)]),
          (''payDetails'', JObj [(''amount'', JStr amount), (''product'', JStr (trim (au_product config))),
             (''custAccNo'', JStr (trim (au_custAccNo config))), (''txnCurrency'', JStr ''INR'')]),
          (''custDetails'', JObj [(''custEmail'', JStr email), (''custMobile'', JStr mobile)]),
          (''extras'', JObj (map (\<lambda>k. (k, JStr [])) [''udf1'', ''udf2'', ''udf3'', ''udf4'', ''udf5'']))]
         @ (if subChannel \<noteq> [] then [(''payModeSpecificData'', JObj [(''subChannel'', JStr subChannel)])] else [])))])"

definition buildAipayAuthPayload :: "js_text \<Rightarrow> create_request \<Rightarrow> auth_config \<Rightarrow> string \<Rightarrow> auth_code + json" where
  "buildAipayAuthPayload js input config merchTxnDate =
     bind_res (assertAuthCustomerAndMerchant js input config) (\<lambda>(email, mobile, amount).
       let body = auth_body input config email mobile amount merchTxnDate
       in bind_res (assertAipayAuthPayload js body) (\<lambda>_. Inr body))"

text \<open>The token of the checkout widget, and the call itself: \<open>encrypt\<close> is \<open>encryptRequest\<close> of the serialised
  body, \<open>send\<close> posts it and decodes the response.\<close>

definition extractAtomTokenId :: "js_text \<Rightarrow> json option \<Rightarrow> string option" where
  "extractAtomTokenId js decoded =
     (let body = asObject decoded in
      if body = None then None
      else
       (case pickString js [field_of body ''atomTokenId'', field_of body ''atomTokenID'', field_of body ''tokenId''] of
          Some t \<Rightarrow> Some t
        | None \<Rightarrow>
           (let details = asObject (field_of body ''responseDetails'');
                status = nullish (pickString js [field_of details ''txnStatusCode'', field_of details ''statusCode'',
                                                 field_of body ''txnStatusCode'']) []
            in if status \<noteq> [] \<and> status \<noteq> ''OTS0000'' \<and> status \<noteq> ''SUCCESS'' \<and> toUpperCase status \<noteq> ''SUCCESS''
               then None
               else pickString js [field_of body ''atomTokenId'', field_of details ''atomTokenId''])))"

definition atom_createPayment ::
  "js_text \<Rightarrow> auth_config \<Rightarrow> string \<Rightarrow> (json \<Rightarrow> string) \<Rightarrow> (string \<Rightarrow> json option option) \<Rightarrow> create_request
     \<Rightarrow> gateway_error + create_result" where
  "atom_createPayment js config merchTxnDate encrypt send input =
     (case buildAipayAuthPayload js input config merchTxnDate of
        Inl code \<Rightarrow> Inl (Auth_validation
          (case code of MISSING_MERCHANT \<Rightarrow> ''MISSING_MERCHANT'' | MISSING_EMAIL \<Rightarrow> ''MISSING_EMAIL''
           | MISSING_MOBILE \<Rightarrow> ''MISSING_MOBILE'' | INVALID_AMOUNT \<Rightarrow> ''INVALID_AMOUNT''
           | INVALID_PAYLOAD \<Rightarrow> ''INVALID_PAYLOAD''))
      | Inr body \<Rightarrow>
         (case send (encrypt body) of
            None \<Rightarrow> Inl Gateway_failure
          | Some decoded \<Rightarrow>
              Inr \<lparr>ct_redirectUrl = None, ct_encData = Some (encrypt body), ct_merchId = Some (au_merchId config),
                   ct_atomTokenId = extractAtomTokenId js decoded, ct_raw = decoded\<rparr>))"

subsection \<open>The request that is built passes the check\<close>

lemma nat_text_digits: "list_all is_digit (nat_text n) \<and> nat_text n \<noteq> []"
proof (induction n rule: nat_text.induct)
  case (1 n)
  have d: "is_digit (digit_char m)" if "m < 10" for m
  proof -
    have "digit_char m \<in> set ''0123456789''" using that unfolding digit_char_def by (intro nth_mem) simp
    then show ?thesis by (auto simp: is_digit_def)
  qed
  show ?case using 1 by (subst (1 2) nat_text.simps) (auto simp: d)
qed

lemma nat_text_short: "length (nat_text n) \<le> k \<Longrightarrow> 0 < k \<Longrightarrow> n < 10 ^ k"
proof (induction n arbitrary: k rule: nat_text.induct)
  case (1 n)
  show ?case
  proof (cases "n < 10")
    case True
    have "(10 :: nat) ^ 1 \<le> 10 ^ k" using 1(3) by (intro power_increasing) auto
    then show ?thesis using True by simp
  next
    case False
    then have l: "length (nat_text (n div 10)) + 1 \<le> k" using 1(2) by (simp add: nat_text.simps[of n])
    have "nat_text (n div 10) \<noteq> []" using nat_text_digits by blast
    then have "0 < k - 1" "length (nat_text (n div 10)) \<le> k - 1" using l by (cases "nat_text (n div 10)"; simp)+
    then have "n div 10 < 10 ^ (k - 1)" using 1(1) False by blast
    then have "n < 10 * 10 ^ (k - 1)" by linarith
    then show ?thesis using 1(3) by (cases k) simp_all
  qed
qed

lemma nat_text_two:
  assumes "n < 100"
  shows "length (nat_text n) \<le> 2"
proof (cases "n < 10")
  case True
  then show ?thesis unfolding nat_text.simps[of n] by simp
next
  case False
  have d: "n div 10 < 10" using assms by linarith
  have one: "length (nat_text m) = 1" if "m < 10" for m
    unfolding nat_text.simps[of m] using that by simp
  have "nat_text n = nat_text (n div 10) @ [digit_char (n mod 10)]"
    using False by (simp only: nat_text.simps[of n] if_False)
  then show ?thesis using one[OF d] by simp
qed

lemma fixed2_two_decimals: "two_decimals (fixed2_text n)"
proof -
  let ?w = "nat_text (n div 100)" and ?c = "pad_zeros 2 (nat_text (n mod 100))"
  have dot: "\<not> is_digit CHR ''.''" by (simp add: is_digit_def)
  have nd: "CHR ''.'' \<notin> set s" if "list_all is_digit s" for s
    using that dot unfolding list_all_iff by blast
  have c: "list_all is_digit ?c" "length ?c = 2"
  proof -
    have d: "\<forall>c \<in> set (nat_text (n mod 100)). is_digit c"
      using nat_text_digits[of "n mod 100"] unfolding list_all_iff by blast
    show "list_all is_digit ?c" using pad_zeros_digits[OF d] by (simp only: list_all_iff)
    have "length (nat_text (n mod 100)) \<le> 2" by (rule nat_text_two) (rule mod_less_divisor, simp)
    then show "length ?c = 2" unfolding length_pad_zeros by linarith
  qed
  have "split_char CHR ''.'' (?w @ CHR ''.'' # ?c) = [?w, ?c]"
    using nd nat_text_digits c(1) by (simp add: split_char_append split_char_none)
  then show ?thesis using nat_text_digits c by (simp add: two_decimals_def fixed2_text_def)
qed

lemma hundredths_paise:
  assumes "in_column (int n)"
  shows "hundredths (paise (int n)) = n"
proof -
  have "\<bar>paise (int n) - of_int (int n) / 100\<bar> \<le> of_nat 1 / 9000"
    using near_paise_self[OF assms] unfolding near_paise_def by blast
  then have "paise (int n) - of_int (int n) / 100 \<le> 1 / 9000" "- (paise (int n) - of_int (int n) / 100) \<le> 1 / 9000"
    unfolding abs_le_iff by simp_all
  then have "\<lfloor>paise (int n) * 100 + 1 / 2\<rfloor> = int n" by (intro floor_unique) linarith+
  then show ?thesis by (simp add: hundredths_def)
qed

lemma fl_of_1e10: "paise 1000000000000 = 10000000000"
  by (simp add: paise_def)

lemma digits_of_big:
  fixes x :: js_number
  assumes "10000000000 \<le> x"
  shows "length (nat_text (nat \<lfloor>x\<rfloor>)) > 10"
proof (rule ccontr)
  assume "\<not> length (nat_text (nat \<lfloor>x\<rfloor>)) > 10"
  then have "nat \<lfloor>x\<rfloor> < 10 ^ 10" by (intro nat_text_short) auto
  then have "nat \<lfloor>x\<rfloor> < 10000000000" by (simp only: eval_nat_numeral power.simps) simp
  then have "\<lfloor>x\<rfloor> < 10000000000" by linarith
  then have "x < 10000000000" by (simp add: floor_less_iff)
  then show False using assms by linarith
qed

lemma hundredths_large:
  assumes "10000000000 \<le> x"
  shows "10000000000 \<le> paise (hundredths x)"
proof -
  have "1000000000000 \<le> \<lfloor>x * 100 + 1 / 2\<rfloor>" using assms by linarith
  then have "1000000000000 \<le> int (hundredths x)" unfolding hundredths_def by linarith
  then show ?thesis using paise_mono[of 1000000000000 "int (hundredths x)"] fl_of_1e10 by simp
qed

lemma hundredths_small:
  assumes "x < 10000000000"
  shows "paise (hundredths x) \<le> 10000000000"
proof -
  have "\<lfloor>x * 100 + 1 / 2\<rfloor> \<le> 1000000000000" using assms by linarith
  then have "int (hundredths x) \<le> 1000000000000" unfolding hundredths_def by linarith
  then show ?thesis using paise_mono[of "int (hundredths x)" 1000000000000] fl_of_1e10 by simp
qed

text \<open>What the first check lets through: amounts below \<open>10 ^ 10\<close> as a text with two decimals of a
  positive number, and amounts in exponent form.\<close>

lemma checked_amount:
  assumes "assertAuthCustomerAndMerchant js input config = Inr (email, mobile, amount)"
  shows "cq_amount input < 10000000000 \<Longrightarrow>
      \<exists>h. amount = fixed2_text h \<and> paise (int h) > 0"
    and "10000000000 \<le> cq_amount input \<Longrightarrow> \<exists>y \<ge> 1000000000000000000000. amount = num_text js y"
proof -
  let ?x = "cq_amount input" and ?r = "rounded_amount (cq_amount input)"
  have r: "?r > 0" "length (trunc_text js ?r) \<le> 10" "amount = toFixed2 js ?r"
    using assms by (auto simp: assertAuthCustomerAndMerchant_def Let_def split: if_splits)
  have pos: "\<not> ?x < 0"
    using r(1) paise_nonneg[of "int (hundredths (- ?x))"] by (auto simp: rounded_amount_def split: if_splits)
  show "\<exists>h. amount = fixed2_text h \<and> paise (int h) > 0" if small: "?x < 10000000000"
  proof -
    have "\<not> exponent_range ?x" using small pos by (simp add: exponent_range_def)
    then have rr: "?r = paise (hundredths ?x)" using pos by (simp add: rounded_amount_def)
    have le: "?r \<le> 10000000000" using hundredths_small[OF small] rr by simp
    then have e: "\<not> exponent_range ?r" using r(1) by (simp add: exponent_range_def)
    have col: "in_column (int (hundredths ?x))"
      using r(1) le rr by (intro in_column_of_paise) (simp add: abs_if)
    have "amount = fixed2_text (hundredths ?x)"
      using r(1,3) e rr hundredths_paise[OF col] by (simp add: toFixed2_def)
    then show ?thesis using r(1) rr by auto
  qed
  show "\<exists>y \<ge> 1000000000000000000000. amount = num_text js y" if big: "10000000000 \<le> ?x"
  proof -
    have "10000000000 \<le> ?r" using hundredths_large[OF big] big by (simp add: rounded_amount_def)
    then have e: "exponent_range ?r" using r(2) digits_of_big[of ?r] by (auto simp: trunc_text_def split: if_splits)
    then show ?thesis using r(1,3) by (auto simp: toFixed2_def exponent_range_def)
  qed
qed

lemma auth_body_valid_iff:
  "assertAipayAuthPayload js (auth_body input config email mobile amount merchTxnDate) = Inr () \<longleftrightarrow>
     trim (au_merchId config) \<noteq> [] \<and> trim (au_password config) \<noteq> [] \<and> trim (au_product config) \<noteq> []
     \<and> trim (au_custAccNo config) \<noteq> [] \<and> trim (cq_merchTxnId input) \<noteq> [] \<and> trim merchTxnDate \<noteq> []
     \<and> two_decimals amount \<and> (\<exists>n > 0. text_num js amount = Some n) \<and> plain_email email \<and> ten_digits mobile"
  by (auto simp: assertAipayAuthPayload_def auth_body_def asObject_def field_of_def Let_def head_ok_def merch_ok_def
      pay_ok_def cust_ok_def extras_ok_def text_field_def filled_text_def split: option.splits)

lemma auth_body_refused: "assertAipayAuthPayload js body \<in> {Inl INVALID_PAYLOAD, Inr ()}"
  by (simp add: assertAipayAuthPayload_def Let_def)

lemma split_char_chars: "c \<in> set s \<Longrightarrow> c = d \<or> (\<exists>w \<in> set (split_char d s). c \<in> set w)"
  by (induction s) (auto split: if_splits list.splits simp: split_char_ne)

lemma exponent_not_decimals: "CHR ''e'' \<in> set s \<Longrightarrow> \<not> two_decimals s"
proof
  assume e: "CHR ''e'' \<in> set s" "two_decimals s"
  then obtain w c where s: "split_char CHR ''.'' s = [w, c]" "list_all is_digit w" "list_all is_digit c"
    by (auto simp: two_decimals_def split: list.splits)
  have "CHR ''e'' = CHR ''.'' \<or> (\<exists>w' \<in> set (split_char CHR ''.'' s). CHR ''e'' \<in> set w')"
    by (rule split_char_chars[OF e(1)])
  then have "CHR ''e'' \<in> set w \<or> CHR ''e'' \<in> set c" unfolding s(1) by simp
  then have "is_digit CHR ''e''" using s(2,3) by (auto simp: list_all_iff)
  then show False by (simp add: is_digit_def)
qed

text \<open>C30. The structural check that stands before encryption accepts a request of the builder's form
  exactly when merchant, password, product, account, transaction id and date are filled, the amount is a
  text of the form 123.45 that denotes a positive number, the e-mail address is plain and the mobile
  number has ten digits. So the builder's result is known on every input: the error of the check on
  merchant, customer and amount when that check fails; otherwise the request, when the amount is below
  \<open>10 ^ 10\<close> rupees and the transaction id and the date are not blank; otherwise INVALID\_PAYLOAD, which
  is also what stops the amounts of \<open>10 ^ 21\<close> and more, whose text in exponent form is short enough for
  the digit count of the first check. (\<open>Number\<close> reads a two-decimal text as the nearest number, and a
  number from \<open>10 ^ 21\<close> on is written with an exponent.)\<close>

theorem built_auth_request_is_valid:
  assumes "\<forall>n. text_num js (fixed2_text n) = Some (paise (int n))"
    and "\<forall>x. 1000000000000000000000 \<le> x \<longrightarrow> CHR ''e'' \<in> set (num_text js x)"
  shows "(assertAipayAuthPayload js (auth_body input config e m a d) = Inr () \<longleftrightarrow>
      trim (au_merchId config) \<noteq> [] \<and> trim (au_password config) \<noteq> [] \<and> trim (au_product config) \<noteq> []
      \<and> trim (au_custAccNo config) \<noteq> [] \<and> trim (cq_merchTxnId input) \<noteq> [] \<and> trim d \<noteq> []
      \<and> two_decimals a \<and> (\<exists>n > 0. text_num js a = Some n) \<and> plain_email e \<and> ten_digits m) \<and>
    buildAipayAuthPayload js input config merchTxnDate =
      (case assertAuthCustomerAndMerchant js input config of
         Inl code \<Rightarrow> Inl code
       | Inr (email, mobile, amount) \<Rightarrow>
           if cq_amount input < 10000000000 \<and> trim (cq_merchTxnId input) \<noteq> [] \<and> trim merchTxnDate \<noteq> []
           then Inr (auth_body input config email mobile amount merchTxnDate) else Inl INVALID_PAYLOAD)"
proof (intro conjI)
  show "buildAipayAuthPayload js input config merchTxnDate =
      (case assertAuthCustomerAndMerchant js input config of
         Inl code \<Rightarrow> Inl code
       | Inr (email, mobile, amount) \<Rightarrow>
           if cq_amount input < 10000000000 \<and> trim (cq_merchTxnId input) \<noteq> [] \<and> trim merchTxnDate \<noteq> []
           then Inr (auth_body input config email mobile amount merchTxnDate) else Inl INVALID_PAYLOAD)"
  proof (cases "assertAuthCustomerAndMerchant js input config")
    case (Inl code)
    then show ?thesis by (simp add: buildAipayAuthPayload_def)
  next
    case (Inr r)
    obtain email mobile amount where r: "r = (email, mobile, amount)" by (cases r)
    have first: "assertAuthCustomerAndMerchant js input config = Inr (email, mobile, amount)" using Inr r by simp
    have m: "trim (au_merchId config) \<noteq> []" "trim (au_password config) \<noteq> []" "trim (au_product config) \<noteq> []"
        "trim (au_custAccNo config) \<noteq> []" "plain_email email" "ten_digits mobile"
      using first by (auto simp: assertAuthCustomerAndMerchant_def Let_def split: if_splits)
    have amount: "two_decimals amount \<and> (\<exists>n > 0. text_num js amount = Some n) \<longleftrightarrow> cq_amount input < 10000000000"
    proof (cases "cq_amount input < 10000000000")
      case True
      from checked_amount(1)[OF first True] show ?thesis using True assms(1) fixed2_two_decimals by fastforce
    next
      case False
      then have "10000000000 \<le> cq_amount input" by simp
      from checked_amount(2)[OF first this] show ?thesis using False assms(2) exponent_not_decimals by blast
    qed
    have ok: "assertAipayAuthPayload js (auth_body input config email mobile amount merchTxnDate) = Inr () \<longleftrightarrow>
        cq_amount input < 10000000000 \<and> trim (cq_merchTxnId input) \<noteq> [] \<and> trim merchTxnDate \<noteq> []"
      unfolding auth_body_valid_iff using m amount by blast
    show ?thesis
      using ok auth_body_refused[of js "auth_body input config email mobile amount merchTxnDate"]
      by (auto simp: buildAipayAuthPayload_def first Let_def)
  qed
qed (rule auth_body_valid_iff)

definition text_digits_value :: "string \<Rightarrow> nat" where
  "text_digits_value s = foldl (\<lambda>n c. 10 * n + (of_char c - 48)) 0 (filter is_digit s)"

text \<open>A run time that reads two-decimal texts as JavaScript does.\<close>

definition sample_js :: js_text where
  "sample_js =
     \<lparr>num_text = (\<lambda>x. if exponent_range x then ''1e+21'' else int_text \<lfloor>x\<rfloor>), text_num = (\<lambda>s. Some (paise (int (text_digits_value s)))),
      encode_uri = (\<lambda>s. s), hmac_hex = (\<lambda>k s. k @ s)\<rparr>"

lemma text_digits_value_append:
  "list_all is_digit t \<Longrightarrow> text_digits_value (s @ t) = text_digits_value s * 10 ^ length t + text_digits_value t"
proof (induction t rule: rev_induct)
  case (snoc c t)
  then show ?case by (simp add: text_digits_value_def algebra_simps flip: append_assoc)
qed (simp add: text_digits_value_def)

lemma text_digits_value_nat: "text_digits_value (nat_text n) = n"
proof (induction n rule: nat_text.induct)
  case (1 n)
  have d: "text_digits_value [digit_char m] = m \<and> is_digit (digit_char m)" if "m < 10" for m
  proof -
    have "\<forall>i \<in> set [0..<10]. text_digits_value [digit_char i] = i \<and> is_digit (digit_char i)"
      by (simp add: upt_rec digit_char_def text_digits_value_def is_digit_def)
    then show ?thesis using that by auto
  qed
  show ?case
  proof (cases "n < 10")
    case True
    then show ?thesis unfolding nat_text.simps[of n] using d by simp
  next
    case False
    then have "text_digits_value (nat_text n) = text_digits_value (nat_text (n div 10)) * 10 + n mod 10"
      unfolding nat_text.simps[of n] using d[of "n mod 10"] by (simp add: text_digits_value_append)
    then show ?thesis using 1 False by simp
  qed
qed

lemma sample_js_reads: "text_num sample_js (fixed2_text n) = Some (paise (int n))"
proof -
  let ?c = "pad_zeros 2 (nat_text (n mod 100))"
  have d: "\<forall>c \<in> set (nat_text (n mod 100)). is_digit c"
    using nat_text_digits[of "n mod 100"] unfolding list_all_iff by blast
  have c: "list_all is_digit ?c" using pad_zeros_digits[OF d] by (simp only: list_all_iff)
  have "length (nat_text (n mod 100)) \<le> 2" by (rule nat_text_two) (rule mod_less_divisor, simp)
  then have l: "length ?c = 2" unfolding length_pad_zeros by linarith
  have z: "text_digits_value (replicate k CHR ''0'') = 0" for k
    by (induction k) (simp_all add: text_digits_value_def)
  have "text_digits_value ?c = n mod 100"
    using text_digits_value_append[of "nat_text (n mod 100)"] nat_text_digits z
    by (simp add: pad_zeros_def text_digits_value_nat)
  moreover have "text_digits_value (nat_text (n div 100) @ ''.'') = n div 100"
    using text_digits_value_nat[of "n div 100"] by (simp add: text_digits_value_def is_digit_def)
  moreover have "text_digits_value ((nat_text (n div 100) @ ''.'') @ ?c)
      = text_digits_value (nat_text (n div 100) @ ''.'') * 100 + text_digits_value ?c"
    using text_digits_value_append[OF c, of "nat_text (n div 100) @ ''.''"] unfolding l by (simp del: append_assoc)
  ultimately show ?thesis by (simp add: sample_js_def fixed2_text_def)
qed

lemma built_auth_request_is_valid_witness:
  "\<exists>body. buildAipayAuthPayload sample_js
     \<lparr>cq_merchTxnId = ''CHH-1-a'', cq_amount = 5, cq_customerName = None, cq_customerEmail = Some ''a@b.in'',
      cq_customerMobile = Some ''9876543210'', cq_returnUrl = [], cq_callbackUrl = []\<rparr>
     \<lparr>au_merchId = ''1'', au_password = ''p'', au_product = ''NAGAR'', au_custAccNo = ''2'', au_subChannel = ''UP''\<rparr>
     ''2025-01-01 00:00:00'' = Inr body"
proof -
  let ?i = "\<lparr>cq_merchTxnId = ''CHH-1-a'', cq_amount = 5, cq_customerName = None, cq_customerEmail = Some ''a@b.in'',
      cq_customerMobile = Some ''9876543210'', cq_returnUrl = [], cq_callbackUrl = []\<rparr>"
  let ?c = "\<lparr>au_merchId = ''1'', au_password = ''p'', au_product = ''NAGAR'', au_custAccNo = ''2'', au_subChannel = ''UP''\<rparr>"
  have t: "trimmed (Some ''a@b.in'') = ''a@b.in''" "trimmed (Some ''9876543210'') = ''9876543210''"
    "plain_email ''a@b.in''" "ten_digits ''9876543210''" "\<not> list_ex is_space ''a@b.in''"
    "trim ''1'' \<noteq> []" "trim ''p'' \<noteq> []" "trim ''NAGAR'' \<noteq> []" "trim ''2'' \<noteq> []" "trim ''CHH-1-a'' \<noteq> []"
    "trim ''2025-01-01 00:00:00'' \<noteq> []" "length (nat_text 5) \<le> 10" "fixed2_text 500 = ''5.00''"
    by code_simp+
  have "\<lfloor>(5 :: js_number) * 100 + 1 / 2\<rfloor> = 500" by (rule floor_unique) simp_all
  then have h: "hundredths 5 = 500" "paise 500 = 5" unfolding hundredths_def by (simp_all add: paise_def)
  have fl5: "\<lfloor>5 :: js_number\<rfloor> = 5" by (rule floor_unique) simp_all
  have n5: "\<not> exponent_range 5" by (simp add: exponent_range_def)
  have r5: "rounded_amount 5 = 5" "trunc_text sample_js 5 = nat_text 5" "toFixed2 sample_js 5 = ''5.00''"
    using n5 t(13) fl5 by (simp_all add: rounded_amount_def trunc_text_def toFixed2_def h)
  have first: "assertAuthCustomerAndMerchant sample_js ?i ?c = Inr (''a@b.in'', ''9876543210'', ''5.00'')"
    using t by (simp add: assertAuthCustomerAndMerchant_def Let_def r5)
  have laws: "\<forall>n. text_num sample_js (fixed2_text n) = Some (paise (int n))"
    "\<forall>x. 1000000000000000000000 \<le> x \<longrightarrow> CHR ''e'' \<in> set (num_text sample_js x)"
    using sample_js_reads by (auto simp: sample_js_def exponent_range_def)
  have "trim (cq_merchTxnId ?i) \<noteq> []" "cq_amount ?i < 10000000000" using t by simp_all
  then show ?thesis
    using built_auth_request_is_valid[OF laws, THEN conjunct2, of ?i ?c "''2025-01-01 00:00:00''"] first t(11)
    by simp
qed

end
