(* ===== verification/ReceiptSnapshot.thy ===== *)
theory ReceiptSnapshot
  imports Gateway
begin

text \<open>
  The receipt snapshot that is frozen into a payment (\<open>apps/api/src/payments/receipt-snapshot.ts\<close>): its
  construction, its JSON form and what is read back from stored JSON. \<open>null_num\<close> is \<open>Number(x)\<close> on a
  JSON value, with \<open>other_num\<close> for arrays and objects; None stands for NaN or an infinity.

  The main lemma: reading a snapshot back gives what was written, so a receipt printed later shows the
  amounts of the moment of payment.
\<close>

record year_label =
  yl_id :: string
  yl_code :: string
  yl_name :: string

record receipt_snapshot =
  rn_propertyTax :: js_number
  rn_waterTax :: js_number
  rn_drainageTax :: js_number
  rn_penalty :: js_number
  rn_rebate :: js_number
  rn_arrears :: js_number
  rn_currentDemand :: js_number
  rn_totalPayable :: js_number
  rn_amountReceived :: js_number
  rn_outstandingAfter :: js_number
  rn_amountPaidAfter :: js_number
  rn_assessmentYear :: "year_label option"
  rn_surveyId :: "string option"
  rn_municipalSurveyId :: "string option"
  rn_paymentMode :: string
  rn_receiptNumber :: string
  rn_paidAt :: string

fun mode_text :: "payment_mode \<Rightarrow> string" where
  "mode_text ONLINE = ''ONLINE''"
| "mode_text CASH = ''CASH''"
| "mode_text CHEQUE = ''CHEQUE''"
| "mode_text DD = ''DD''"
| "mode_text UPI_MANUAL = ''UPI_MANUAL''"
| "mode_text OTHER = ''OTHER''"

text \<open>The amounts of a demand as they are read for a receipt.\<close>

record receipt_amounts =
  rx_propertyTax :: js_number
  rx_waterTax :: js_number
  rx_drainageTax :: js_number
  rx_penalty :: js_number
  rx_rebate :: js_number
  rx_arrears :: js_number
  rx_currentDemand :: js_number
  rx_totalPayable :: js_number

definition buildReceiptSnapshot ::
  "receipt_amounts \<Rightarrow> js_number \<Rightarrow> js_number \<Rightarrow> js_number \<Rightarrow> year_label option \<Rightarrow> string option \<Rightarrow> string option
     \<Rightarrow> payment_mode \<Rightarrow> string \<Rightarrow> string \<Rightarrow> receipt_snapshot" where
  "buildReceiptSnapshot d amountReceived outstandingAfter amountPaidAfter assessmentYear surveyId municipalSurveyId
     paymentMode receiptNumber paidAt =
     \<lparr>rn_propertyTax = rx_propertyTax d, rn_waterTax = rx_waterTax d, rn_drainageTax = rx_drainageTax d,
      rn_penalty = rx_penalty d, rn_rebate = rx_rebate d, rn_arrears = rx_arrears d,
      rn_currentDemand = rx_currentDemand d, rn_totalPayable = rx_totalPayable d,
      rn_amountReceived = amountReceived, rn_outstandingAfter = outstandingAfter,
      rn_amountPaidAfter = amountPaidAfter, rn_assessmentYear = assessmentYear, rn_surveyId = surveyId,
      rn_municipalSurveyId = municipalSurveyId, rn_paymentMode = mode_text paymentMode,
      rn_receiptNumber = receiptNumber, rn_paidAt = paidAt\<rparr>"

definition json_opt :: "string option \<Rightarrow> json" where
  "json_opt s = (case s of None \<Rightarrow> JNull | Some t \<Rightarrow> JStr t)"

definition receiptSnapshotToJson :: "receipt_snapshot \<Rightarrow> json" where
  "receiptSnapshotToJson s = JObj
     [(''propertyTax'', JNum (rn_propertyTax s)), (''waterTax'', JNum (rn_waterTax s)),
      (''drainageTax'', JNum (rn_drainageTax s)), (''penalty'', JNum (rn_penalty s)),
      (''rebate'', JNum (rn_rebate s)), (''arrears'', JNum (rn_arrears s)),
      (''currentDemand'', JNum (rn_currentDemand s)), (''totalPayable'', JNum (rn_totalPayable s)),
      (''amountReceived'', JNum (rn_amountReceived s)), (''outstandingAfter'', JNum (rn_outstandingAfter s)),
      (''amountPaidAfter'', JNum (rn_amountPaidAfter s)),
      (''assessmentYear'', case rn_assessmentYear s of
           None \<Rightarrow> JNull
         | Some y \<Rightarrow> JObj [(''id'', JStr (yl_id y)), (''code'', JStr (yl_code y)), (''name'', JStr (yl_name y))]),
      (''surveyId'', json_opt (rn_surveyId s)), (''municipalSurveyId'', json_opt (rn_municipalSurveyId s)),
      (''paymentMode'', JStr (rn_paymentMode s)), (''receiptNumber'', JStr (rn_receiptNumber s)),
      (''paidAt'', JStr (rn_paidAt s))]"

definition json_number :: "js_text \<Rightarrow> (json \<Rightarrow> js_number option) \<Rightarrow> json option \<Rightarrow> js_number option" where
  "json_number js other_num v =
     (case v of
        None \<Rightarrow> None
      | Some JNull \<Rightarrow> Some 0
      | Some (JBool b) \<Rightarrow> Some (if b then 1 else 0)
      | Some (JNum x) \<Rightarrow> Some x
      | Some (JStr t) \<Rightarrow> text_num js t
      | Some x \<Rightarrow> other_num x)"

text \<open>The parsed snapshot is the stored object itself, once its five tax fields are finite numbers.\<close>

definition parseReceiptSnapshot ::
  "js_text \<Rightarrow> (json \<Rightarrow> js_number option) \<Rightarrow> json option \<Rightarrow> (string \<times> json) list option" where
  "parseReceiptSnapshot js other_num v =
     (case asObject v of
        None \<Rightarrow> None
      | Some s \<Rightarrow>
         (if list_all (\<lambda>k. json_number js other_num (map_of s k) \<noteq> None)
               [''propertyTax'', ''waterTax'', ''drainageTax'', ''penalty'', ''totalPayable'']
          then Some s else None))"

record tax_breakdown =
  bd_propertyTax :: js_number
  bd_waterTax :: js_number
  bd_drainageTax :: js_number
  bd_penalty :: js_number
  bd_totalDemand :: js_number

definition taxBreakdownFromReceiptSnapshot ::
  "js_text \<Rightarrow> (json \<Rightarrow> js_number option) \<Rightarrow> json option \<Rightarrow> tax_breakdown option" where
  "taxBreakdownFromReceiptSnapshot js other_num v =
     (case parseReceiptSnapshot js other_num v of
        None \<Rightarrow> None
      | Some s \<Rightarrow>
         (let num = (\<lambda>k. nullish (json_number js other_num (map_of s k)) 0)
          in Some \<lparr>bd_propertyTax = num ''propertyTax'', bd_waterTax = num ''waterTax'',
                   bd_drainageTax = num ''drainageTax'', bd_penalty = num ''penalty'',
                   bd_totalDemand = num ''totalPayable''\<rparr>))"

definition assessmentYearNameFromSnapshot ::
  "js_text \<Rightarrow> (json \<Rightarrow> js_number option) \<Rightarrow> json option \<Rightarrow> string option" where
  "assessmentYearNameFromSnapshot js other_num v =
     (case parseReceiptSnapshot js other_num v of
        None \<Rightarrow> None
      | Some s \<Rightarrow>
         (case field_of (asObject (map_of s ''assessmentYear'')) ''name'' of
            Some (JStr n) \<Rightarrow> (if trim n = [] then None else Some (trim n))
          | _ \<Rightarrow> None))"

text \<open>The stored object as the record that its type declares: None when a field is missing or is not of
  the declared type.\<close>

fun num_in :: "json option \<Rightarrow> js_number option" where
  "num_in (Some (JNum x)) = Some x"
| "num_in v = None"

fun text_in :: "json option \<Rightarrow> string option" where
  "text_in (Some (JStr t)) = Some t"
| "text_in v = None"

fun nullable_text_in :: "json option \<Rightarrow> string option option" where
  "nullable_text_in (Some JNull) = Some None"
| "nullable_text_in (Some (JStr t)) = Some (Some t)"
| "nullable_text_in v = None"

fun year_in :: "json option \<Rightarrow> year_label option option" where
  "year_in (Some JNull) = Some None"
| "year_in (Some (JObj y)) =
     (case (text_in (map_of y ''id''), text_in (map_of y ''code''), text_in (map_of y ''name'')) of
        (Some i, Some c, Some n) \<Rightarrow> Some (Some \<lparr>yl_id = i, yl_code = c, yl_name = n\<rparr>)
      | _ \<Rightarrow> None)"
| "year_in v = None"

definition typed_snapshot :: "(string \<times> json) list \<Rightarrow> receipt_snapshot option" where
  "typed_snapshot es =
     (let num = (\<lambda>k. num_in (map_of es k)); text = (\<lambda>k. text_in (map_of es k));
          opt = (\<lambda>k. nullable_text_in (map_of es k)); year = year_in (map_of es ''assessmentYear'')
      in if list_all (\<lambda>k. num k \<noteq> None)
              [''propertyTax'', ''waterTax'', ''drainageTax'', ''penalty'', ''rebate'', ''arrears'', ''currentDemand'',
               ''totalPayable'', ''amountReceived'', ''outstandingAfter'', ''amountPaidAfter'']
            \<and> list_all (\<lambda>k. text k \<noteq> None) [''paymentMode'', ''receiptNumber'', ''paidAt'']
            \<and> opt ''surveyId'' \<noteq> None \<and> opt ''municipalSurveyId'' \<noteq> None \<and> year \<noteq> None
         then Some
           \<lparr>rn_propertyTax = the (num ''propertyTax''), rn_waterTax = the (num ''waterTax''),
            rn_drainageTax = the (num ''drainageTax''), rn_penalty = the (num ''penalty''),
            rn_rebate = the (num ''rebate''), rn_arrears = the (num ''arrears''),
            rn_currentDemand = the (num ''currentDemand''), rn_totalPayable = the (num ''totalPayable''),
            rn_amountReceived = the (num ''amountReceived''),
            rn_outstandingAfter = the (num ''outstandingAfter''),
            rn_amountPaidAfter = the (num ''amountPaidAfter''), rn_assessmentYear = the year,
            rn_surveyId = the (opt ''surveyId''), rn_municipalSurveyId = the (opt ''municipalSurveyId''),
            rn_paymentMode = the (text ''paymentMode''), rn_receiptNumber = the (text ''receiptNumber''),
            rn_paidAt = the (text ''paidAt'')\<rparr>
         else None)"

lemma stored_fields:
  assumes "receiptSnapshotToJson s = JObj es"
  shows "map_of es ''propertyTax'' = Some (JNum (rn_propertyTax s))"
    "map_of es ''waterTax'' = Some (JNum (rn_waterTax s))"
    "map_of es ''drainageTax'' = Some (JNum (rn_drainageTax s))"
    "map_of es ''penalty'' = Some (JNum (rn_penalty s))"
    "map_of es ''rebate'' = Some (JNum (rn_rebate s))"
    "map_of es ''arrears'' = Some (JNum (rn_arrears s))"
    "map_of es ''currentDemand'' = Some (JNum (rn_currentDemand s))"
    "map_of es ''totalPayable'' = Some (JNum (rn_totalPayable s))"
    "map_of es ''amountReceived'' = Some (JNum (rn_amountReceived s))"
    "map_of es ''outstandingAfter'' = Some (JNum (rn_outstandingAfter s))"
    "map_of es ''amountPaidAfter'' = Some (JNum (rn_amountPaidAfter s))"
    "map_of es ''assessmentYear'' = Some (case rn_assessmentYear s of None \<Rightarrow> JNull
       | Some y \<Rightarrow> JObj [(''id'', JStr (yl_id y)), (''code'', JStr (yl_code y)), (''name'', JStr (yl_name y))])"
    "map_of es ''surveyId'' = Some (json_opt (rn_surveyId s))"
    "map_of es ''municipalSurveyId'' = Some (json_opt (rn_municipalSurveyId s))"
    "map_of es ''paymentMode'' = Some (JStr (rn_paymentMode s))"
    "map_of es ''receiptNumber'' = Some (JStr (rn_receiptNumber s))"
    "map_of es ''paidAt'' = Some (JStr (rn_paidAt s))"
  using assms unfolding receiptSnapshotToJson_def json.inject by auto

lemma stored_is_object: "\<exists>es. receiptSnapshotToJson s = JObj es"
  by (simp add: receiptSnapshotToJson_def)

lemma nullable_text_stored [simp]: "nullable_text_in (Some (json_opt t)) = Some t"
  by (cases t) (simp_all add: json_opt_def)

lemma year_stored [simp]:
  "year_in (Some (case y of None \<Rightarrow> JNull
     | Some y \<Rightarrow> JObj [(''id'', JStr (yl_id y)), (''code'', JStr (yl_code y)), (''name'', JStr (yl_name y))])) = Some y"
  by (cases y) simp_all

lemma typed_stored: "receiptSnapshotToJson s = JObj es \<Longrightarrow> typed_snapshot es = Some s"
  unfolding typed_snapshot_def Let_def by (simp add: stored_fields)

lemma parse_stored:
  assumes "receiptSnapshotToJson s = JObj es"
  shows "parseReceiptSnapshot js other_num (Some (receiptSnapshotToJson s)) = Some es"
proof -
  have "json_number js other_num (Some (JNum x)) = Some x" for x by (simp add: json_number_def)
  then show ?thesis
    unfolding parseReceiptSnapshot_def assms by (simp add: asObject_def stored_fields[OF assms])
qed

text \<open>C39. The receipt snapshot that is stored with a payment reads back complete: every one of its
  seventeen fields has the value that it was built from, the rebate, arrears, amounts received, paid and
  outstanding, receipt number and time of payment included. The breakdown shown on a reprinted receipt
  and the name of the year come from these fields.\<close>

theorem receipt_snapshot_round_trip:
  "map_option typed_snapshot (parseReceiptSnapshot js other_num (Some (receiptSnapshotToJson
      (buildReceiptSnapshot d amountReceived outstandingAfter amountPaidAfter assessmentYear surveyId
         municipalSurveyId paymentMode receiptNumber paidAt)))) =
     Some (Some
       \<lparr>rn_propertyTax = rx_propertyTax d, rn_waterTax = rx_waterTax d, rn_drainageTax = rx_drainageTax d,
        rn_penalty = rx_penalty d, rn_rebate = rx_rebate d, rn_arrears = rx_arrears d,
        rn_currentDemand = rx_currentDemand d, rn_totalPayable = rx_totalPayable d,
        rn_amountReceived = amountReceived, rn_outstandingAfter = outstandingAfter,
        rn_amountPaidAfter = amountPaidAfter, rn_assessmentYear = assessmentYear, rn_surveyId = surveyId,
        rn_municipalSurveyId = municipalSurveyId, rn_paymentMode = mode_text paymentMode,
        rn_receiptNumber = receiptNumber, rn_paidAt = paidAt\<rparr>) \<and>
   taxBreakdownFromReceiptSnapshot js other_num (Some (receiptSnapshotToJson s)) =
     Some \<lparr>bd_propertyTax = rn_propertyTax s, bd_waterTax = rn_waterTax s, bd_drainageTax = rn_drainageTax s,
           bd_penalty = rn_penalty s, bd_totalDemand = rn_totalPayable s\<rparr> \<and>
   assessmentYearNameFromSnapshot js other_num (Some (receiptSnapshotToJson s)) =
     (case rn_assessmentYear s of
        None \<Rightarrow> None | Some y \<Rightarrow> if trim (yl_name y) = [] then None else Some (trim (yl_name y)))"
proof (intro conjI)
  obtain es where e: "receiptSnapshotToJson s = JObj es" using stored_is_object by blast
  have n: "json_number js other_num (Some (JNum x)) = Some x" for x by (simp add: json_number_def)
  show "taxBreakdownFromReceiptSnapshot js other_num (Some (receiptSnapshotToJson s)) =
     Some \<lparr>bd_propertyTax = rn_propertyTax s, bd_waterTax = rn_waterTax s, bd_drainageTax = rn_drainageTax s,
           bd_penalty = rn_penalty s, bd_totalDemand = rn_totalPayable s\<rparr>"
    unfolding taxBreakdownFromReceiptSnapshot_def parse_stored[OF e] by (simp add: stored_fields[OF e] n Let_def)
  show "assessmentYearNameFromSnapshot js other_num (Some (receiptSnapshotToJson s)) =
     (case rn_assessmentYear s of
        None \<Rightarrow> None | Some y \<Rightarrow> if trim (yl_name y) = [] then None else Some (trim (yl_name y)))"
    unfolding assessmentYearNameFromSnapshot_def parse_stored[OF e]
    by (cases "rn_assessmentYear s") (simp_all add: stored_fields[OF e] asObject_def field_of_def)
next
  let ?b = "buildReceiptSnapshot d amountReceived outstandingAfter amountPaidAfter assessmentYear surveyId
         municipalSurveyId paymentMode receiptNumber paidAt"
  obtain es where e: "receiptSnapshotToJson ?b = JObj es" using stored_is_object by blast
  show "map_option typed_snapshot (parseReceiptSnapshot js other_num (Some (receiptSnapshotToJson ?b))) =
     Some (Some
       \<lparr>rn_propertyTax = rx_propertyTax d, rn_waterTax = rx_waterTax d, rn_drainageTax = rx_drainageTax d,
        rn_penalty = rx_penalty d, rn_rebate = rx_rebate d, rn_arrears = rx_arrears d,
        rn_currentDemand = rx_currentDemand d, rn_totalPayable = rx_totalPayable d,
        rn_amountReceived = amountReceived, rn_outstandingAfter = outstandingAfter,
        rn_amountPaidAfter = amountPaidAfter, rn_assessmentYear = assessmentYear, rn_surveyId = surveyId,
        rn_municipalSurveyId = municipalSurveyId, rn_paymentMode = mode_text paymentMode,
        rn_receiptNumber = receiptNumber, rn_paidAt = paidAt\<rparr>)"
    unfolding parse_stored[OF e] by (simp add: typed_stored[OF e]) (simp add: buildReceiptSnapshot_def)
qed

lemma receipt_snapshot_round_trip_witness:
  "map_option (\<lambda>es. map_option (\<lambda>r. (rn_rebate r, rn_receiptNumber r, rn_assessmentYear r)) (typed_snapshot es))
     (parseReceiptSnapshot \<lparr>num_text = (\<lambda>_. []), text_num = (\<lambda>_. None), encode_uri = (\<lambda>t. t), hmac_hex = (\<lambda>_ t. t)\<rparr> (\<lambda>_. None)
        (Some (receiptSnapshotToJson (buildReceiptSnapshot
           \<lparr>rx_propertyTax = 200, rx_waterTax = 50, rx_drainageTax = 20, rx_penalty = 5, rx_rebate = 15,
            rx_arrears = 100, rx_currentDemand = 275, rx_totalPayable = 360\<rparr>
           360 0 360 (Some \<lparr>yl_id = ''y1'', yl_code = ''2025'', yl_name = ''2025-26''\<rparr>) (Some ''s1'') None
           CASH ''R-1'' ''2025-06-01T00:00:00.000Z'')))) =
     Some (Some (15, ''R-1'', Some \<lparr>yl_id = ''y1'', yl_code = ''2025'', yl_name = ''2025-26''\<rparr>))"
  (is "map_option ?f ?p = _")
proof -
  have "map_option typed_snapshot ?p = Some (Some
     \<lparr>rn_propertyTax = 200, rn_waterTax = 50, rn_drainageTax = 20, rn_penalty = 5, rn_rebate = 15, rn_arrears = 100,
      rn_currentDemand = 275, rn_totalPayable = 360, rn_amountReceived = 360, rn_outstandingAfter = 0,
      rn_amountPaidAfter = 360, rn_assessmentYear = Some \<lparr>yl_id = ''y1'', yl_code = ''2025'', yl_name = ''2025-26''\<rparr>,
      rn_surveyId = Some ''s1'', rn_municipalSurveyId = None, rn_paymentMode = mode_text CASH,
      rn_receiptNumber = ''R-1'', rn_paidAt = ''2025-06-01T00:00:00.000Z''\<rparr>)"
    by (subst receipt_snapshot_round_trip[THEN conjunct1]) simp
  then show ?thesis by (cases ?p) auto
qed

end
