(* ===== verification/Payments.thy ===== *)
theory Payments
  imports Publishing Access AtomAuth ReceiptSnapshot
begin

text \<open>
  The payment service (\<open>apps/api/src/payments/payments.service.ts\<close>): online payments through a gateway,
  offline collection at the counter, gateway callbacks and requeries, refunds, receipts and lists.

  The environment \<open>pay_env\<close> holds what is outside: keys, random suffixes, the clock, the money column,
  process settings, the run time's text functions and the gateway provider. An operation returns the
  state it leaves and its error or result. The unique keys of the payment table are checked by
  \<open>store_payments\<close>; a violation inside a transaction undoes the transaction.
\<close>

record pay_env =
  pe_cuid :: "nat \<Rightarrow> string"
  pe_suffix :: "nat \<Rightarrow> string"
  pe_now :: int
  pe_col :: "js_number \<Rightarrow> js_number option"
  pe_js :: js_text
  pe_other_num :: "json \<Rightarrow> js_number option"
  pe_iso :: "int \<Rightarrow> string"
  pe_url_set :: "string \<Rightarrow> string \<Rightarrow> string \<Rightarrow> string"
  pe_process :: process_env
  pe_localeCompare :: "string \<Rightarrow> string \<Rightarrow> int"
  pe_gateway :: gateway

datatype token_failure = Merchant_invalid | Request_rejected | No_token

datatype payment_error =
    SURVEY_REQUIRED | SURVEY_NOT_FOUND | TAX_CONFIG_NOT_PUBLISHED | DUES_NOT_PAYABLE
  | Denied access_error | Offline offline_error | DEMAND_UNPUBLISHED | RECEIPT_NUMBER_EXISTS
  | PAYMENT_NOT_FOUND | RECEIPT_NOT_AVAILABLE | GATEWAY_TOKEN_FAILED token_failure | Auth_rejected string
  | Gateway_down | Only_successful_refundable | ATOM_TXN_REQUIRED | Exceeds_refundable | Database_error

type_synonym 'a paid = "ledger \<times> (payment_error + 'a)"

subsection \<open>Small rules\<close>

definition AMOUNT_TOLERANCE :: js_number where
  "AMOUNT_TOLERANCE = fl (1 / 100)"

definition given_text :: "string option \<Rightarrow> string option" where
  "given_text s = (case s of None \<Rightarrow> None | Some t \<Rightarrow> if trim t = [] then None else Some (trim t))"

definition buildPaymentCallbackIdempotencyKey :: "string option \<Rightarrow> string option \<Rightarrow> string option \<Rightarrow> string" where
  "buildPaymentCallbackIdempotencyKey merchTxnId atomTxnId idempotencyKey =
     (case given_text idempotencyKey of
        Some k \<Rightarrow> k
      | None \<Rightarrow> (case given_text merchTxnId of Some m \<Rightarrow> m | None \<Rightarrow> ''na''))"

definition amountsMatchWithinTolerance :: "js_number \<Rightarrow> js_number \<Rightarrow> bool" where
  "amountsMatchWithinTolerance expected actual \<longleftrightarrow> \<bar>fl (expected - actual)\<bar> \<le> AMOUNT_TOLERANCE"

definition isGatewaySuccess :: "string \<Rightarrow> bool" where
  "isGatewaySuccess statusCode \<longleftrightarrow>
     statusCode = ''OTS0000'' \<or> statusCode = ''SUCCESS'' \<or> toUpperCase statusCode = ''SUCCESS''"

definition newCitizenMerchTxnId :: "int \<Rightarrow> string \<Rightarrow> string" where
  "newCitizenMerchTxnId nowMs rnd = ''CHH-'' @ int_text nowMs @ ''-'' @ rnd"

text \<open>\<open>String(a ?? b ?? c ?? "").trim().toUpperCase()\<close> on fields of the gateway's answer; \<open>json_text\<close> is
  \<open>String\<close> of a JSON value.\<close>

definition first_field :: "json option list \<Rightarrow> json option" where
  "first_field vs = List.find (\<lambda>v. v \<noteq> JNull) (List.map_filter (\<lambda>v. v) vs)"

definition gatewayTokenFailureMessage :: "(json \<Rightarrow> string) \<Rightarrow> json option \<Rightarrow> token_failure" where
  "gatewayTokenFailureMessage json_text raw =
     (let body = (case raw of Some (JObj es) \<Rightarrow> Some es | Some (JArr xs) \<Rightarrow> Some [] | _ \<Rightarrow> None);
          details = (case field_of body ''responseDetails'' of
                       Some (JObj es) \<Rightarrow> Some es | Some (JArr xs) \<Rightarrow> Some [] | _ \<Rightarrow> None);
          text = (\<lambda>v. toUpperCase (trim (case v of None \<Rightarrow> [] | Some x \<Rightarrow> json_text x)));
          code = text (first_field [field_of details ''txnStatusCode'', field_of details ''statusCode'',
                                    field_of body ''txnStatusCode'']);
          description = text (first_field [field_of details ''txnDescription'', field_of details ''description'',
                                           field_of body ''txnDescription''])
      in if code = ''OTS0451'' \<or> contains_text description ''INVALID MERCHANT'' then Merchant_invalid
         else if contains_text description ''VALIDATION'' then Request_rejected
         else No_token)"

text \<open>The return and callback addresses.\<close>

definition defaultCitizenReturnUrl :: "process_env \<Rightarrow> string" where
  "defaultCitizenReturnUrl env =
     nullish (env ''ATOM_RETURN_URL'') ''http://localhost:3001/propertytax/payment/return''"

definition defaultCallbackUrl :: "process_env \<Rightarrow> string" where
  "defaultCallbackUrl env =
     nullish (env ''ATOM_CALLBACK_URL'') ''http://localhost:4000/api/v1/payments/gateway/callback''"

fun replace_first :: "string \<Rightarrow> string \<Rightarrow> string \<Rightarrow> string" where
  "replace_first old new [] = []"
| "replace_first old new (c # cs) =
     (if take (length old) (c # cs) = old then new @ drop (length old) (c # cs)
      else c # replace_first old new cs)"

definition defaultGatewayReturnUrl :: "process_env \<Rightarrow> string" where
  "defaultGatewayReturnUrl env =
     (if trimmed (env ''ATOM_GATEWAY_RETURN_URL'') \<noteq> [] then trimmed (env ''ATOM_GATEWAY_RETURN_URL'')
      else
       (let callback = defaultCallbackUrl env in
        if contains_text callback ''/gateway/callback''
        then replace_first ''/gateway/callback'' ''/gateway/return'' callback
        else ''http://localhost:4000/api/v1/payments/gateway/return''))"

definition citizenReturnRedirectUrl :: "pay_env \<Rightarrow> string option \<Rightarrow> string" where
  "citizenReturnRedirectUrl env merchTxnId =
     (let base = defaultCitizenReturnUrl (pe_process env) in
      case merchTxnId of
        Some m \<Rightarrow> if m \<noteq> [] then pe_url_set env base ''merchTxnId'' m else base
      | None \<Rightarrow> base)"

subsection \<open>The payment table\<close>

definition payments_unique :: "payment list \<Rightarrow> bool" where
  "payments_unique ps \<longleftrightarrow>
     distinct (map py_id ps) \<and> distinct (map py_paymentReference ps)
     \<and> distinct (List.map_filter py_merchTxnId ps) \<and> distinct (List.map_filter py_atomTxnId ps)
     \<and> distinct (List.map_filter py_receiptNumber ps) \<and> distinct (List.map_filter py_clientIdempotencyKey ps)"

definition store_payments :: "payment list \<Rightarrow> ledger \<Rightarrow> ledger option" where
  "store_payments ps db = (if payments_unique ps then Some (db\<lparr>lg_payments := ps\<rparr>) else None)"

definition find_payment :: "ledger \<Rightarrow> string \<Rightarrow> payment option" where
  "find_payment db i = List.find (\<lambda>p. py_id p = i) (lg_payments db)"

definition find_merch :: "ledger \<Rightarrow> string \<Rightarrow> payment option" where
  "find_merch db m = List.find (\<lambda>p. py_merchTxnId p = Some m) (lg_payments db)"

definition insert_payment :: "payment \<Rightarrow> ledger \<Rightarrow> ledger option" where
  "insert_payment p db =
     map_option (\<lambda>db'. db'\<lparr>lg_seq := Suc (lg_seq db)\<rparr>) (store_payments (lg_payments db @ [p]) db)"

definition update_payment :: "string \<Rightarrow> (payment \<Rightarrow> payment) \<Rightarrow> ledger \<Rightarrow> ledger option" where
  "update_payment i f db =
     store_payments (map (\<lambda>p. if py_id p = i then f p else p) (lg_payments db)) db"

definition set_status :: "string \<Rightarrow> payment_status \<Rightarrow> ledger \<Rightarrow> ledger" where
  "set_status i s db =
     db\<lparr>lg_payments := map (\<lambda>p. if py_id p = i then p\<lparr>py_status := s\<rparr> else p) (lg_payments db)\<rparr>"

definition add_transaction ::
  "string \<Rightarrow> string \<Rightarrow> json option \<Rightarrow> json option \<Rightarrow> string option \<Rightarrow> ledger \<Rightarrow> ledger" where
  "add_transaction paymentId direction request response statusCode db =
     db\<lparr>lg_transactions := lg_transactions db @
          [\<lparr>tx_paymentId = paymentId, tx_direction = direction, tx_requestPayload = request,
            tx_responsePayload = response, tx_statusCode = statusCode\<rparr>]\<rparr>"

subsection \<open>What a property owes\<close>

definition survey_res :: "ledger_survey \<Rightarrow> survey_resource" where
  "survey_res s = \<lparr>sr_id = ds_id s, sr_wardId = ls_wardId s, sr_createdById = ls_createdById s\<rparr>"

definition published_configs :: "ledger \<Rightarrow> string \<Rightarrow> ledger_config list" where
  "published_configs db wardId =
     filter (\<lambda>c. lc_wardId c = wardId \<and> lc_status c = C_PUBLISHED) (lg_configs db)"

definition resolveLatestPublishedAssessmentYearId :: "pay_env \<Rightarrow> ledger \<Rightarrow> string \<Rightarrow> string option" where
  "resolveLatestPublishedAssessmentYearId env db wardId =
     map_option dc_yearId (pickLatestPublishedConfig (pe_localeCompare env) (published_configs db wardId))"

record payable =
  pb_amount :: js_number
  pb_survey :: ledger_survey
  pb_wardId :: string
  pb_yearId :: string
  pb_demandId :: "string option"

definition resolveSurveyPayableAmount :: "pay_env \<Rightarrow> ledger \<Rightarrow> string \<Rightarrow> payment_error + payable" where
  "resolveSurveyPayableAmount env db surveyId =
     (case List.find (\<lambda>s. ds_id s = trim surveyId \<and> active_survey s) (lg_surveys db) of
        None \<Rightarrow> Inl SURVEY_NOT_FOUND
      | Some survey \<Rightarrow>
         (case pickLatestPublishedConfig (pe_localeCompare env) (published_configs db (ls_wardId survey)) of
            None \<Rightarrow> Inl TAX_CONFIG_NOT_PUBLISHED
          | Some config \<Rightarrow>
             (let yearId = dc_yearId config;
                  legacy =
                   (case computePublicDuesPayload survey config of
                      Inl _ \<Rightarrow> Inl DUES_NOT_PAYABLE
                    | Inr dues \<Rightarrow>
                       (if dp_totalDemand dues \<le> 0 then Inl DUES_NOT_PAYABLE
                        else Inr \<lparr>pb_amount = dp_totalDemand dues, pb_survey = survey,
                                  pb_wardId = ls_wardId survey, pb_yearId = yearId, pb_demandId = None\<rparr>))
              in case find_demand db (ds_id survey, yearId) of
                   Some demand \<Rightarrow>
                    (if dm_status demand = D_PUBLISHED
                     then (if dm_outstanding demand \<le> 0 then Inl DUES_NOT_PAYABLE
                           else Inr \<lparr>pb_amount = dm_outstanding demand, pb_survey = survey,
                                     pb_wardId = ls_wardId survey, pb_yearId = yearId,
                                     pb_demandId = Some (dm_id demand)\<rparr>)
                     else legacy)
                 | None \<Rightarrow> legacy)))"

subsection \<open>Online payments\<close>

record online_request =
  or_amount :: js_number
  or_surveyId :: "string option"
  or_wardId :: "string option"
  or_payerName :: "string option"
  or_payerMobile :: "string option"
  or_payerEmail :: "string option"
  or_yearId :: "string option"
  or_demandId :: "string option"

definition initiated_payment :: "pay_env \<Rightarrow> ledger \<Rightarrow> online_request \<Rightarrow> string option \<Rightarrow> js_number \<Rightarrow> payment" where
  "initiated_payment env db inp collectedById amount =
     (let merchTxnId = newCitizenMerchTxnId (pe_now env) (pe_suffix env (lg_seq db))
      in \<lparr>py_id = pe_cuid env (lg_seq db), py_paymentReference = merchTxnId, py_merchTxnId = Some merchTxnId,
          py_atomTxnId = None, py_surveyId = or_surveyId inp, py_wardId = or_wardId inp,
          py_yearId = given_text (or_yearId inp), py_demandId = given_text (or_demandId inp),
          py_payerName = or_payerName inp, py_payerMobile = or_payerMobile inp,
          py_payerEmail = or_payerEmail inp, py_amount = amount, py_currency = ''INR'', py_mode = ONLINE,
          py_status = INITIATED, py_gateway = Some (gw_name (pe_gateway env)), py_gatewayReference = None,
          py_receiptNumber = None, py_receiptSnapshot = None, py_collectionDate = None,
          py_chequeDdReference = None, py_remarks = None, py_collectedById = collectedById,
          py_refundableAmount = Some amount, py_clientIdempotencyKey = None, py_createdAt = pe_now env\<rparr>)"

definition createOnlinePayment ::
  "pay_env \<Rightarrow> ledger \<Rightarrow> online_request \<Rightarrow> string option \<Rightarrow> (json \<Rightarrow> string) \<Rightarrow> (payment \<times> create_result) paid" where
  "createOnlinePayment env db inp collectedById json_text =
     (case pe_col env (or_amount inp) of
        None \<Rightarrow> (db, Inl Database_error)
      | Some amount \<Rightarrow>
         (let payment = initiated_payment env db inp collectedById amount;
              merchTxnId = newCitizenMerchTxnId (pe_now env) (pe_suffix env (lg_seq db))
          in case insert_payment payment db of
               None \<Rightarrow> (db, Inl Database_error)
             | Some db1 \<Rightarrow>
                (case gw_createPayment (pe_gateway env)
                        \<lparr>cq_merchTxnId = merchTxnId, cq_amount = or_amount inp,
                         cq_customerName = or_payerName inp, cq_customerEmail = or_payerEmail inp,
                         cq_customerMobile = or_payerMobile inp,
                         cq_returnUrl = defaultGatewayReturnUrl (pe_process env),
                         cq_callbackUrl = defaultCallbackUrl (pe_process env)\<rparr> of
                   Inl e \<Rightarrow>
                    (set_status (py_id payment) FAILED db1,
                     Inl (case e of Auth_validation code \<Rightarrow> Auth_rejected code | Gateway_failure \<Rightarrow> Gateway_down))
                 | Inr result \<Rightarrow>
                    (let db2 = add_transaction (py_id payment) ''outbound''
                                 (map_option redactSensitivePaymentPayload (ct_raw result)) None (Some ''INIT'') db1
                     in if unset (ct_atomTokenId result) \<and> unset (ct_redirectUrl result)
                        then (set_status (py_id payment) FAILED db2,
                              Inl (GATEWAY_TOKEN_FAILED (gatewayTokenFailureMessage json_text (ct_raw result))))
                        else (set_status (py_id payment) PENDING db2,
                              Inr (payment\<lparr>py_status := PENDING\<rparr>, toClientGatewayResult result))))))"

definition pick_text :: "string option \<Rightarrow> string option \<Rightarrow> string option" where
  "pick_text a b = (case given_text a of Some t \<Rightarrow> Some t | None \<Rightarrow> if b = Some [] then None else b)"

definition createOnline ::
  "pay_env \<Rightarrow> ledger \<Rightarrow> online_request \<Rightarrow> auth_user \<Rightarrow> (json \<Rightarrow> string) \<Rightarrow> (payment \<times> create_result) paid" where
  "createOnline env db inp user json_text =
     (case given_text (or_surveyId inp) of
        None \<Rightarrow> (db, Inl SURVEY_REQUIRED)
      | Some _ \<Rightarrow>
         (case resolveSurveyPayableAmount env db (nullish (or_surveyId inp) []) of
            Inl e \<Rightarrow> (db, Inl e)
          | Inr p \<Rightarrow>
             (case bind_res (assertSurveyAccess user (survey_res (pb_survey p)) Survey_read)
                     (\<lambda>_. assertPaymentAccess user \<lparr>pm_id = [], pm_collectedById = Some (us_id user)\<rparr> Payment_create) of
                Inl e \<Rightarrow> (db, Inl (Denied e))
              | Inr _ \<Rightarrow>
                 createOnlinePayment env db
                   \<lparr>or_amount = pb_amount p, or_surveyId = Some (ds_id (pb_survey p)),
                    or_wardId = Some (case given_text (or_wardId inp) of Some w \<Rightarrow> w | None \<Rightarrow> pb_wardId p),
                    or_payerName = pick_text (or_payerName inp) (ds_ownerName (pb_survey p)),
                    or_payerMobile = pick_text (or_payerMobile inp) (ds_mobile (pb_survey p)),
                    or_payerEmail = given_text (or_payerEmail inp), or_yearId = Some (pb_yearId p),
                    or_demandId = pb_demandId p\<rparr>
                   (Some (us_id user)) json_text)))"

definition createCitizenOnline ::
  "pay_env \<Rightarrow> ledger \<Rightarrow> online_request \<Rightarrow> (json \<Rightarrow> string) \<Rightarrow> (payment \<times> create_result) paid" where
  "createCitizenOnline env db inp json_text = createOnlinePayment env db inp None json_text"

end
