(* ===== verification/PaymentFlow.thy ===== *)
theory PaymentFlow
  imports Payments
begin

text \<open>
  The rest of the payment service (\<open>payments.service.ts\<close>): collection at the counter, receipts, gateway
  callbacks, requeries, refunds, lists and settlements. A transaction is a function that returns the
  state it leaves or None when the database refuses a write, which undoes it.
\<close>

subsection \<open>Applying an amount to a demand\<close>

definition amounts_of :: "demand \<Rightarrow> receipt_amounts" where
  "amounts_of d =
     \<lparr>rx_propertyTax = dm_propertyTax d, rx_waterTax = dm_waterTax d, rx_drainageTax = dm_drainageTax d,
      rx_penalty = dm_penalty d, rx_rebate = dm_rebate d, rx_arrears = dm_arrears d,
      rx_currentDemand = dm_currentDemand d, rx_totalPayable = dm_totalPayable d\<rparr>"

definition year_label_of :: "ledger \<Rightarrow> string \<Rightarrow> year_label option" where
  "year_label_of db yearId =
     map_option (\<lambda>e. \<lparr>yl_id = yearId, yl_code = en_code e, yl_name = en_name e\<rparr>) (map_of (lg_entries db) yearId)"

definition municipal_id :: "ledger \<Rightarrow> string \<Rightarrow> string option" where
  "municipal_id db surveyId =
     map_option ts_surveyId (List.find (\<lambda>s. ds_id s = surveyId) (lg_surveys db))"

definition paid_row :: "js_number \<Rightarrow> js_number \<Rightarrow> demand \<Rightarrow> demand" where
  "paid_row amountPaid outstanding d = d\<lparr>dm_amountPaid := amountPaid, dm_outstanding := outstanding\<rparr>"

text \<open>Write the new balance of a demand; the columns may refuse it.\<close>

definition store_balance :: "pay_env \<Rightarrow> demand \<Rightarrow> js_number \<times> js_number \<Rightarrow> ledger \<Rightarrow> ledger option" where
  "store_balance env d balance db =
     (case (pe_col env (fst balance), pe_col env (snd balance)) of
        (Some p, Some u) \<Rightarrow> Some (update_demand (dm_id d) (paid_row p u) db)
      | _ \<Rightarrow> None)"

definition applied_demand :: "ledger \<Rightarrow> payment \<Rightarrow> string option" where
  "applied_demand db payment =
     (if \<not> unset (py_demandId payment) then py_demandId payment
      else if \<not> unset (py_surveyId payment) \<and> \<not> unset (py_yearId payment)
      then
       (let found = map_option dm_id (List.find (\<lambda>d. Some (dm_surveyId d) = py_surveyId payment \<and>
                        Some (dm_yearId d) = py_yearId payment \<and> dm_status d = D_PUBLISHED) (lg_demands db))
        in if unset found then None else found)
      else None)"

definition applyOnlineSuccessToDemand ::
  "pay_env \<Rightarrow> ledger \<Rightarrow> payment \<Rightarrow> string \<Rightarrow> int \<Rightarrow> (ledger \<times> (string \<times> json) option) option" where
  "applyOnlineSuccessToDemand env db payment receiptNumber paidAt =
     (case applied_demand db payment of
        None \<Rightarrow> Some (db, None)
      | Some demandId \<Rightarrow>
         (case find_demand_id db demandId of
            None \<Rightarrow> Some (db, None)
          | Some locked \<Rightarrow>
             (if dm_status locked \<noteq> D_PUBLISHED then Some (db, None)
              else
               (let balance = computeOutstandingAfterPayment (dm_totalPayable locked) (dm_amountPaid locked) (py_amount payment);
                    snapshot = buildReceiptSnapshot (amounts_of locked) (py_amount payment) (snd balance) (fst balance)
                                 (year_label_of db (dm_yearId locked)) (py_surveyId payment)
                                 (municipal_id db (dm_surveyId locked)) (py_mode payment) receiptNumber (pe_iso env paidAt)
                in map_option (\<lambda>db'. (db', Some (dm_id locked, receiptSnapshotToJson snapshot)))
                     (store_balance env locked balance db)))))"

subsection \<open>Receipts\<close>

record receipt_survey =
  cs_id :: string
  cs_surveyId :: string
  cs_ownerName :: "string option"
  cs_ownerFatherName :: "string option"
  cs_mobile :: "string option"
  cs_propertyNo :: "string option"
  cs_parcelNo :: "string option"
  cs_houseNo :: "string option"
  cs_streetName :: "string option"
  cs_locality :: "string option"
  cs_colony :: "string option"
  cs_city :: "string option"
  cs_pincode :: "string option"
  cs_propertyUse :: "string option"
  cs_taxRateZone :: "string option"
  cs_roadType :: "string option"
  cs_address :: "string option"

record staff_receipt =
  st_paymentId :: string
  st_paymentReference :: string
  st_receiptNumber :: string
  st_amount :: js_number
  st_currency :: string
  st_paymentMode :: payment_mode
  st_status :: payment_status
  st_payerName :: "string option"
  st_payerMobile :: "string option"
  st_chequeDdReference :: "string option"
  st_remarks :: "string option"
  st_collectionDate :: string
  st_collectedBy :: "(string \<times> string) option"
  st_assessmentYear :: "string option"
  st_taxBreakdown :: "tax_breakdown option"
  st_receiptSnapshot :: "(string \<times> json) list option"
  st_survey :: "receipt_survey option"
  st_ward :: "ward option"

definition receipt_address :: "ledger_survey \<Rightarrow> string option" where
  "receipt_address s =
     (let parts = filter (\<lambda>t. t \<noteq> []) (List.map_filter (\<lambda>v. v)
            [ds_houseNo s, ds_streetName s, ds_locality s, ds_colony s,
             Some (nullish (ds_city s) ''Nagar Panchayat Chhata''), ds_pincode s])
      in if parts \<noteq> [] then Some (join '', '' parts) else None)"

definition receipt_survey_of :: "ledger_survey \<Rightarrow> receipt_survey" where
  "receipt_survey_of s =
     \<lparr>cs_id = ds_id s, cs_surveyId = ts_surveyId s, cs_ownerName = ds_ownerName s,
      cs_ownerFatherName = ls_ownerFatherName s, cs_mobile = ds_mobile s, cs_propertyNo = ds_propertyNo s,
      cs_parcelNo = ds_parcelNo s, cs_houseNo = ds_houseNo s, cs_streetName = ds_streetName s,
      cs_locality = ds_locality s, cs_colony = ds_colony s, cs_city = ds_city s, cs_pincode = ds_pincode s,
      cs_propertyUse = ts_propertyUse s, cs_taxRateZone = ts_taxRateZone s, cs_roadType = ds_roadType s,
      cs_address = receipt_address s\<rparr>"

definition by_id :: "('a \<Rightarrow> string) \<Rightarrow> 'a list \<Rightarrow> string option \<Rightarrow> 'a option" where
  "by_id key rows i = (case i of None \<Rightarrow> None | Some v \<Rightarrow> List.find (\<lambda>r. key r = v) rows)"

definition toStaffReceipt :: "pay_env \<Rightarrow> ledger \<Rightarrow> payment \<Rightarrow> staff_receipt" where
  "toStaffReceipt env db p =
     \<lparr>st_paymentId = py_id p, st_paymentReference = py_paymentReference p,
      st_receiptNumber = nullish (py_receiptNumber p) (py_paymentReference p), st_amount = py_amount p,
      st_currency = py_currency p, st_paymentMode = py_mode p, st_status = py_status p,
      st_payerName = py_payerName p, st_payerMobile = py_payerMobile p,
      st_chequeDdReference = py_chequeDdReference p, st_remarks = py_remarks p,
      st_collectionDate = pe_iso env (nullish (py_collectionDate p) (py_createdAt p)),
      st_collectedBy = by_id fst (lg_users db) (py_collectedById p),
      st_assessmentYear = assessmentYearNameFromSnapshot (pe_js env) (pe_other_num env) (py_receiptSnapshot p),
      st_taxBreakdown = taxBreakdownFromReceiptSnapshot (pe_js env) (pe_other_num env) (py_receiptSnapshot p),
      st_receiptSnapshot = parseReceiptSnapshot (pe_js env) (pe_other_num env) (py_receiptSnapshot p),
      st_survey = map_option receipt_survey_of (by_id ds_id (lg_surveys db) (py_surveyId p)),
      st_ward = by_id wd_id (lg_wards db) (py_wardId p)\<rparr>"

definition payment_res :: "payment \<Rightarrow> payment_resource" where
  "payment_res p = \<lparr>pm_id = py_id p, pm_collectedById = py_collectedById p\<rparr>"

definition loadStaffReceiptPayment :: "ledger \<Rightarrow> string \<Rightarrow> auth_user \<Rightarrow> payment_error + payment" where
  "loadStaffReceiptPayment db paymentId user =
     (case find_payment db paymentId of
        None \<Rightarrow> Inl PAYMENT_NOT_FOUND
      | Some p \<Rightarrow>
         (case assertPaymentAccess user (payment_res p) Payment_read of
            Inl e \<Rightarrow> Inl (Denied e)
          | Inr _ \<Rightarrow> (if py_status p \<noteq> SUCCESS then Inl RECEIPT_NOT_AVAILABLE else Inr p)))"

definition getStaffReceipt :: "pay_env \<Rightarrow> ledger \<Rightarrow> string \<Rightarrow> auth_user \<Rightarrow> payment_error + staff_receipt" where
  "getStaffReceipt env db paymentId user =
     bind_res (loadStaffReceiptPayment db paymentId user) (\<lambda>p. Inr (toStaffReceipt env db p))"

subsection \<open>Collection at the counter\<close>

record offline_request =
  of_amount :: js_number
  of_mode :: payment_mode
  of_surveyId :: string
  of_wardId :: "string option"
  of_yearId :: "string option"
  of_payerName :: "string option"
  of_payerMobile :: "string option"
  of_receiptNumber :: "string option"
  of_collectionDate :: "int option"
  of_chequeDdReference :: "string option"
  of_remarks :: "string option"
  of_clientIdempotencyKey :: "string option"

definition findPublishedDemandForOffline ::
  "pay_env \<Rightarrow> ledger \<Rightarrow> string \<Rightarrow> string option \<Rightarrow> string \<Rightarrow> demand option" where
  "findPublishedDemandForOffline env db surveyId yearId wardId =
     (let latest = List.find (\<lambda>_. True) (sort_by latest_first
            (filter (\<lambda>d. dm_surveyId d = surveyId \<and> dm_status d = D_PUBLISHED) (lg_demands db)))
      in case yearId of
           Some y \<Rightarrow> find_demand db (surveyId, y)
         | None \<Rightarrow>
            (case resolveLatestPublishedAssessmentYearId env db wardId of
               None \<Rightarrow> latest
             | Some y \<Rightarrow>
                (case find_demand db (surveyId, y) of
                   Some d \<Rightarrow> if dm_status d = D_PUBLISHED then Some d else latest
                 | None \<Rightarrow> latest)))"

definition assertPublishedDemandPresent :: "demand option \<Rightarrow> payment_error + demand" where
  "assertPublishedDemandPresent demand =
     (case demand of
        None \<Rightarrow> Inl DEMAND_UNPUBLISHED
      | Some d \<Rightarrow> (if dm_status d \<noteq> D_PUBLISHED then Inl DEMAND_UNPUBLISHED else Inr d))"

definition offline_payment ::
  "pay_env \<Rightarrow> ledger \<Rightarrow> offline_request \<Rightarrow> ledger_survey \<Rightarrow> demand \<Rightarrow> string \<Rightarrow> json \<Rightarrow> string \<Rightarrow> js_number \<Rightarrow> payment" where
  "offline_payment env db inp survey locked userId snapshot receiptNumber amount =
     (let reference = ''OFF-'' @ int_text (pe_now env) @ ''-'' @ pe_suffix env (lg_seq db)
      in \<lparr>py_id = pe_cuid env (lg_seq db), py_paymentReference = reference, py_merchTxnId = None,
          py_atomTxnId = None, py_surveyId = Some (ds_id survey),
          py_wardId = Some (case given_text (of_wardId inp) of Some w \<Rightarrow> w | None \<Rightarrow> ls_wardId survey),
          py_yearId = Some (dm_yearId locked), py_demandId = Some (dm_id locked),
          py_payerName = (case given_text (of_payerName inp) of Some n \<Rightarrow> Some n | None \<Rightarrow> ds_ownerName survey),
          py_payerMobile = (case given_text (of_payerMobile inp) of Some n \<Rightarrow> Some n | None \<Rightarrow> ds_mobile survey),
          py_payerEmail = None, py_amount = amount, py_currency = ''INR'', py_mode = of_mode inp,
          py_status = SUCCESS, py_gateway = None, py_gatewayReference = None,
          py_receiptNumber = Some receiptNumber, py_receiptSnapshot = Some snapshot,
          py_collectionDate = Some (nullish (of_collectionDate inp) (pe_now env)),
          py_chequeDdReference = given_text (of_chequeDdReference inp), py_remarks = given_text (of_remarks inp),
          py_collectedById = Some userId, py_refundableAmount = Some amount,
          py_clientIdempotencyKey = given_text (of_clientIdempotencyKey inp), py_createdAt = pe_now env\<rparr>)"

text \<open>The transaction: the demand is read again under a lock, checked and paid, and the payment created.\<close>

definition offline_transaction ::
  "pay_env \<Rightarrow> ledger \<Rightarrow> offline_request \<Rightarrow> ledger_survey \<Rightarrow> string \<Rightarrow> string \<Rightarrow> payment_error + (ledger \<times> payment)" where
  "offline_transaction env db inp survey demandId userId =
     (case find_demand_id db demandId of
        None \<Rightarrow> Inl DEMAND_UNPUBLISHED
      | Some locked \<Rightarrow>
         (if dm_status locked \<noteq> D_PUBLISHED then Inl DEMAND_UNPUBLISHED
          else
           (case assertOfflineAmountAgainstOutstanding (of_amount inp) (dm_outstanding locked) of
              Inl e \<Rightarrow> Inl (Offline e)
            | Inr _ \<Rightarrow>
               (let balance = computeOutstandingAfterPayment (dm_totalPayable locked) (dm_amountPaid locked) (of_amount inp);
                    reference = ''OFF-'' @ int_text (pe_now env) @ ''-'' @ pe_suffix env (lg_seq db);
                    receiptNumber = (case given_text (of_receiptNumber inp) of Some r \<Rightarrow> r | None \<Rightarrow> reference);
                    snapshot = buildReceiptSnapshot (amounts_of locked) (of_amount inp) (snd balance) (fst balance)
                                 (year_label_of db (dm_yearId locked)) (Some (ds_id survey)) (Some (ts_surveyId survey))
                                 (of_mode inp) receiptNumber (pe_iso env (nullish (of_collectionDate inp) (pe_now env)))
                in case pe_col env (of_amount inp) of
                     None \<Rightarrow> Inl Database_error
                   | Some amount \<Rightarrow>
                      (let payment = offline_payment env db inp survey locked userId (receiptSnapshotToJson snapshot) receiptNumber amount
                       in case insert_payment payment db of
                            None \<Rightarrow> Inl RECEIPT_NUMBER_EXISTS
                          | Some db1 \<Rightarrow>
                             (case store_balance env locked balance db1 of
                                None \<Rightarrow> Inl Database_error
                              | Some db2 \<Rightarrow> Inr (db2, payment)))))))"

definition lift_offline :: "offline_error + 'a \<Rightarrow> payment_error + 'a" where
  "lift_offline r = (case r of Inl e \<Rightarrow> Inl (Offline e) | Inr x \<Rightarrow> Inr x)"

definition lift_access :: "access_error + 'a \<Rightarrow> payment_error + 'a" where
  "lift_access r = (case r of Inl e \<Rightarrow> Inl (Denied e) | Inr x \<Rightarrow> Inr x)"

definition offline_demand ::
  "pay_env \<Rightarrow> ledger \<Rightarrow> offline_request \<Rightarrow> auth_user \<Rightarrow> payment_error + (ledger_survey \<times> demand)" where
  "offline_demand env db inp user =
     (case List.find (\<lambda>s. ds_id s = of_surveyId inp) (lg_surveys db) of
        None \<Rightarrow> Inl SURVEY_NOT_FOUND
      | Some survey \<Rightarrow>
         bind_res (lift_access (assertSurveyAccess user (survey_res survey) Survey_read)) (\<lambda>_.
         bind_res (lift_access (assertPaymentAccess user \<lparr>pm_id = [], pm_collectedById = Some (us_id user)\<rparr>
                                  Payment_create_offline)) (\<lambda>_.
         bind_res (assertPublishedDemandPresent
                    (findPublishedDemandForOffline env db (ds_id survey) (given_text (of_yearId inp))
                       (case given_text (of_wardId inp) of Some w \<Rightarrow> w | None \<Rightarrow> ls_wardId survey))) (\<lambda>demand.
         bind_res (lift_offline (assertOfflineAmountAgainstOutstanding (of_amount inp) (dm_outstanding demand))) (\<lambda>_.
           Inr (survey, demand))))))"

definition find_key :: "ledger \<Rightarrow> string option \<Rightarrow> payment option" where
  "find_key db key =
     (case key of None \<Rightarrow> None | Some k \<Rightarrow> List.find (\<lambda>p. py_clientIdempotencyKey p = Some k) (lg_payments db))"

definition createOffline :: "pay_env \<Rightarrow> ledger \<Rightarrow> offline_request \<Rightarrow> auth_user \<Rightarrow> staff_receipt paid" where
  "createOffline env db inp user =
     (case bind_res (lift_offline (assertOfflinePaymentMode (of_mode inp))) (\<lambda>_.
           bind_res (guard (trim (of_surveyId inp) \<noteq> []) SURVEY_REQUIRED) (\<lambda>_.
             lift_offline (assertOfflineReference (of_mode inp) (of_chequeDdReference inp)))) of
        Inl e \<Rightarrow> (db, Inl e)
      | Inr _ \<Rightarrow>
         (case find_key db (given_text (of_clientIdempotencyKey inp)) of
            Some existing \<Rightarrow> (db, Inr (toStaffReceipt env db existing))
          | None \<Rightarrow>
             (case offline_demand env db inp user of
                Inl e \<Rightarrow> (db, Inl e)
              | Inr (survey, demand) \<Rightarrow>
                 (case offline_transaction env db inp survey (dm_id demand) (us_id user) of
                    Inl e \<Rightarrow>
                     (case (e, find_key db (given_text (of_clientIdempotencyKey inp))) of
                        (RECEIPT_NUMBER_EXISTS, Some raced) \<Rightarrow> (db, Inr (toStaffReceipt env db raced))
                      | _ \<Rightarrow> (db, Inl e))
                  | Inr (db1, payment) \<Rightarrow>
                     (let db2 = log_audit ''PAYMENT_OFFLINE_CREATED'' ''Payment'' (Some (py_id payment)) (Some (us_id user)) db1
                      in (db2, Inr (toStaffReceipt env db2 payment)))))))"

end
