(* ===== verification/Callbacks.thy ===== *)
theory Callbacks
  imports PaymentFlow
begin

text \<open>
  Gateway callbacks, requeries, refunds, lists and settlements of the payment service
  (\<open>payments.service.ts\<close>: \<open>handleCallback\<close>, \<open>requery\<close>, \<open>syncCitizenPaymentByMerchTxnId\<close>,
  \<open>finalizeRequerySuccess\<close>, \<open>refund\<close>, \<open>list\<close>, \<open>ingestSettlement\<close>).
\<close>

subsection \<open>Reading a callback\<close>

definition normalizeGatewayPayload ::
  "pay_env \<Rightarrow> (string \<times> json) list \<Rightarrow> callback_error + (string \<times> json) list" where
  "normalizeGatewayPayload env payload =
     (let decoded = (case gw_decryptPayload (pe_gateway env) of
            None \<Rightarrow> Inr (JObj payload)
          | Some decrypt \<Rightarrow>
             (if enc_data payload = [] then Inr (JObj payload)
              else (case decrypt (enc_data payload) of None \<Rightarrow> Inl CALLBACK_PARSE_FAILED | Some d \<Rightarrow> Inr d)))
      in bind_res decoded (\<lambda>d.
           let inner = extractAtomTxnFields (pe_js env) (Some d);
               flat = extractAtomTxnFields (pe_js env) (Some (JObj payload));
               chosen = inner\<lparr>tf_merchTxnId := nullish_opt (tf_merchTxnId inner) (tf_merchTxnId flat),
                             tf_atomTxnId := nullish_opt (tf_atomTxnId inner) (tf_atomTxnId flat),
                             tf_statusCode := (if tf_statusCode inner \<noteq> ''UNKNOWN'' then tf_statusCode inner
                                               else tf_statusCode flat),
                             tf_gatewayAmount := nullish_opt (tf_gatewayAmount inner) (tf_gatewayAmount flat)\<rparr>
           in Inr (set_field ''_decoded'' (Some d) (with_fields chosen (spread payload (object_entries d))))))"

definition text_of :: "json option \<Rightarrow> string option" where
  "text_of v = (case v of Some (JStr s) \<Rightarrow> Some s | _ \<Rightarrow> None)"

definition parseCallbackPayload ::
  "pay_env \<Rightarrow> (string \<times> json) list \<Rightarrow> callback_error + parsed_callback" where
  "parseCallbackPayload env payload =
     (if gw_name (pe_gateway env) = ''atom-ndps''
      then parseAtomEncryptedCallback (pe_js env) (pe_process env ''ATOM_RESP_HASH_KEY'')
             (gw_decryptPayload (pe_gateway env)) payload
      else
       bind_res (normalizeGatewayPayload env payload) (\<lambda>normalized.
         let fs = extractAtomTxnFields (pe_js env) (Some (JObj normalized))
         in Inr \<lparr>pc_normalized = normalized,
                 pc_merchTxnId = nullish_opt (tf_merchTxnId fs)
                   (nullish_opt (text_of (map_of normalized ''merchTxnId''))
                                (text_of (map_of normalized ''merchantTxnId''))),
                 pc_atomTxnId = nullish_opt (tf_atomTxnId fs) (text_of (map_of normalized ''atomTxnId'')),
                 pc_statusCode = tf_statusCode fs, pc_gatewayAmount = tf_gatewayAmount fs\<rparr>))"

subsection \<open>Handling a callback\<close>

datatype callback_result =
    Rejected string "string option"
  | Duplicate payment_callback string
  | Processed payment_callback string payment

definition rejectWebhook ::
  "string \<Rightarrow> string option \<Rightarrow> string option \<Rightarrow> ledger \<Rightarrow> callback_result paid" where
  "rejectWebhook code merchTxnId paymentId db =
     (log_audit ''PAYMENT_WEBHOOK_REJECTED'' ''Payment'' paymentId None db, Inr (Rejected code merchTxnId))"

definition find_callback :: "ledger \<Rightarrow> string \<Rightarrow> string \<Rightarrow> payment_callback option" where
  "find_callback db idempotencyKey merchTxnId =
     nullish_opt (List.find (\<lambda>c. cb_idempotencyKey c = Some idempotencyKey) (lg_callbacks db))
                 (List.find (\<lambda>c. cb_merchTxnId c = Some merchTxnId) (lg_callbacks db))"

definition update_callback :: "string \<Rightarrow> (payment_callback \<Rightarrow> payment_callback) \<Rightarrow> ledger \<Rightarrow> ledger" where
  "update_callback i f db =
     db\<lparr>lg_callbacks := map (\<lambda>c. if cb_id c = i then f c else c) (lg_callbacks db)\<rparr>"

definition seen_callback ::
  "string option \<Rightarrow> string \<Rightarrow> json \<Rightarrow> string \<Rightarrow> bool \<Rightarrow> payment_callback \<Rightarrow> payment_callback" where
  "seen_callback atomTxnId statusCode rawPayload idempotencyKey processed c =
     c\<lparr>cb_statusCode := Some statusCode, cb_atomTxnId := nullish_opt atomTxnId (cb_atomTxnId c),
       cb_rawPayload := rawPayload, cb_idempotencyKey := Some idempotencyKey, cb_processed := processed\<rparr>"

text \<open>The callback row is updated or created, unprocessed.\<close>

definition record_callback ::
  "pay_env \<Rightarrow> payment_callback option \<Rightarrow> payment \<Rightarrow> string \<Rightarrow> parsed_callback \<Rightarrow> json \<Rightarrow> string \<Rightarrow> ledger
     \<Rightarrow> ledger \<times> payment_callback" where
  "record_callback env existing payment merchTxnId parsed stored idempotencyKey db =
     (case existing of
        Some c \<Rightarrow>
         (let f = seen_callback (pc_atomTxnId parsed) (pc_statusCode parsed) stored idempotencyKey False
          in (update_callback (cb_id c) f db, f c))
      | None \<Rightarrow>
         (let c = \<lparr>cb_id = pe_cuid env (lg_seq db), cb_paymentId = Some (py_id payment),
                   cb_merchTxnId = Some merchTxnId, cb_atomTxnId = pc_atomTxnId parsed,
                   cb_statusCode = Some (pc_statusCode parsed), cb_rawPayload = stored, cb_processed = False,
                   cb_idempotencyKey = Some idempotencyKey\<rparr>
          in (db\<lparr>lg_callbacks := lg_callbacks db @ [c], lg_seq := Suc (lg_seq db)\<rparr>, c)))"

definition next_status :: "string \<Rightarrow> payment_status \<Rightarrow> payment_status" where
  "next_status statusCode current =
     (let success = isGatewaySuccess statusCode;
          nextStatus = (if success then SUCCESS else if statusCode = ''UNKNOWN'' then current else FAILED)
      in if current = SUCCESS \<and> \<not> success then SUCCESS else nextStatus)"

definition first_success :: "payment \<Rightarrow> bool" where
  "first_success payment \<longleftrightarrow> py_status payment \<noteq> SUCCESS \<and> py_receiptSnapshot payment = None"

definition receipt_number_of :: "payment \<Rightarrow> string" where
  "receipt_number_of p =
     nullish (py_receiptNumber p) (''RCP-'' @ nullish (py_merchTxnId p) (py_paymentReference p))"

definition with_extras :: "(string \<times> json) option \<Rightarrow> payment \<Rightarrow> payment" where
  "with_extras extras p =
     (case extras of
        None \<Rightarrow> p
      | Some (demandId, snapshot) \<Rightarrow> p\<lparr>py_demandId := Some demandId, py_receiptSnapshot := Some snapshot\<rparr>)"

definition with_receipt :: "string \<Rightarrow> int \<Rightarrow> payment \<Rightarrow> payment" where
  "with_receipt receiptNumber collectionDate p =
     p\<lparr>py_receiptNumber := Some receiptNumber, py_collectionDate := Some collectionDate\<rparr>"

definition called_back ::
  "payment_status \<Rightarrow> string option \<Rightarrow> bool \<Rightarrow> string \<Rightarrow> int \<Rightarrow> (string \<times> json) option \<Rightarrow> payment \<Rightarrow> payment" where
  "called_back status atomTxnId success receiptNumber collectionDate extras p =
     with_extras extras
       ((if success \<and> unset (py_receiptNumber p) then with_receipt receiptNumber collectionDate else id)
          (p\<lparr>py_status := status, py_atomTxnId := nullish_opt atomTxnId (py_atomTxnId p),
             py_gatewayReference := nullish_opt atomTxnId (py_gatewayReference p)\<rparr>))"

definition callback_transaction ::
  "pay_env \<Rightarrow> ledger \<Rightarrow> payment_callback option \<Rightarrow> payment \<Rightarrow> string \<Rightarrow> parsed_callback \<Rightarrow> json \<Rightarrow> string
     \<Rightarrow> (ledger \<times> payment_callback \<times> payment) option" where
  "callback_transaction env db existing payment merchTxnId parsed stored idempotencyKey =
     (let success = isGatewaySuccess (pc_statusCode parsed);
          (db1, callback) = record_callback env existing payment merchTxnId parsed stored idempotencyKey db;
          receiptNumber = receipt_number_of payment;
          collectionDate = nullish (py_collectionDate payment) (pe_now env)
      in case (if success \<and> first_success payment
               then applyOnlineSuccessToDemand env db1 payment receiptNumber collectionDate else Some (db1, None)) of
           None \<Rightarrow> None
         | Some (db2, extras) \<Rightarrow>
            (let f = called_back (next_status (pc_statusCode parsed) (py_status payment)) (pc_atomTxnId parsed)
                       success receiptNumber collectionDate extras
             in case update_payment (py_id payment) f db2 of
                  None \<Rightarrow> None
                | Some db3 \<Rightarrow>
                   (let db4 = add_transaction (py_id payment) ''callback'' None (Some stored) (Some (pc_statusCode parsed)) db3
                    in Some (update_callback (cb_id callback) (\<lambda>c. c\<lparr>cb_processed := True\<rparr>) db4,
                             callback\<lparr>cb_processed := True\<rparr>, f payment))))"

definition callback_audit :: "parsed_callback \<Rightarrow> payment \<Rightarrow> ledger \<Rightarrow> ledger" where
  "callback_audit parsed payment db =
     (let success = isGatewaySuccess (pc_statusCode parsed);
          effective = next_status (pc_statusCode parsed) (py_status payment);
          changed = (effective \<noteq> py_status payment)
      in if success \<and> changed then log_audit ''PAYMENT_SUCCESS'' ''Payment'' (Some (py_id payment)) None db
         else if \<not> success \<and> changed \<and> effective = FAILED
         then log_audit ''PAYMENT_FAILED'' ''Payment'' (Some (py_id payment)) None db
         else db)"

definition amount_mismatch :: "pay_env \<Rightarrow> payment \<Rightarrow> parsed_callback \<Rightarrow> bool" where
  "amount_mismatch env payment parsed \<longleftrightarrow>
     (case pc_gatewayAmount parsed of
        None \<Rightarrow> gw_name (pe_gateway env) = ''atom-ndps''
      | Some a \<Rightarrow> \<not> amountsMatchWithinTolerance (py_amount payment) a)"

text \<open>A parsed callback for a known payment: replays, the amount check, then the transaction.\<close>

definition settle_callback ::
  "pay_env \<Rightarrow> ledger \<Rightarrow> payment \<Rightarrow> string \<Rightarrow> parsed_callback \<Rightarrow> json \<Rightarrow> string \<Rightarrow> callback_result paid" where
  "settle_callback env db payment merchTxnId parsed stored idempotencyKey =
     (let existing = find_callback db idempotencyKey merchTxnId;
          replay = (case existing of
              None \<Rightarrow> False
            | Some c \<Rightarrow> cb_processed c \<and> \<not> shouldReprocessProcessedCallback True
                          (isGatewaySuccess (pc_statusCode parsed)) (py_status payment));
          settle =
           (if amount_mismatch env payment parsed
            then rejectWebhook ''AMOUNT_MISMATCH'' (Some merchTxnId) (Some (py_id payment)) db
            else
             (case callback_transaction env db existing payment merchTxnId parsed stored idempotencyKey of
                None \<Rightarrow> (db, Inl Database_error)
              | Some (db', cb, p) \<Rightarrow> (callback_audit parsed payment db', Inr (Processed cb merchTxnId p))))
      in case existing of
           Some c \<Rightarrow>
            (if replay
             then
              (if \<not> unset (pc_atomTxnId parsed) \<and> cb_atomTxnId c \<noteq> pc_atomTxnId parsed
               then (let f = seen_callback (pc_atomTxnId parsed) (pc_statusCode parsed) stored idempotencyKey (cb_processed c)
                     in (update_callback (cb_id c) f db, Inr (Duplicate (f c) merchTxnId)))
               else (db, Inr (Duplicate c merchTxnId)))
             else settle)
         | None \<Rightarrow> settle)"

fun callback_code :: "callback_error \<Rightarrow> string" where
  "callback_code MISSING_ENCDATA = ''MISSING_ENCDATA''"
| "callback_code DECRYPT_UNAVAILABLE = ''DECRYPT_UNAVAILABLE''"
| "callback_code DECRYPT_FAILED = ''DECRYPT_FAILED''"
| "callback_code INVALID_SIGNATURE = ''INVALID_SIGNATURE''"
| "callback_code MISSING_REQ_HASH_KEY = ''MISSING_REQ_HASH_KEY''"
| "callback_code CALLBACK_PARSE_FAILED = ''CALLBACK_PARSE_FAILED''"

definition handleCallback :: "pay_env \<Rightarrow> ledger \<Rightarrow> (string \<times> json) list \<Rightarrow> callback_result paid" where
  "handleCallback env db0 payload =
     (let db = log_audit ''PAYMENT_WEBHOOK_RECEIVED'' ''PaymentCallback'' None None db0 in
      case parseCallbackPayload env payload of
        Inl e \<Rightarrow> rejectWebhook (callback_code e) None None db
      | Inr parsed \<Rightarrow>
         (let stored = redactSensitivePaymentPayload (JObj (pc_normalized parsed));
              idempotencyKey = buildPaymentCallbackIdempotencyKey (pc_merchTxnId parsed) (pc_atomTxnId parsed)
                                 (text_of (map_of payload ''idempotencyKey''))
          in if unset (pc_merchTxnId parsed) then rejectWebhook ''MISSING_MERCH_TXN_ID'' None None db
             else
              (case find_merch db (nullish (pc_merchTxnId parsed) []) of
                 None \<Rightarrow> rejectWebhook ''UNKNOWN_MERCH_TXN_ID'' (pc_merchTxnId parsed) None db
               | Some payment \<Rightarrow>
                   settle_callback env db payment (nullish (pc_merchTxnId parsed) []) parsed stored idempotencyKey)))"

definition result_merch :: "callback_result \<Rightarrow> string option" where
  "result_merch r = (case r of Rejected _ m \<Rightarrow> m | Duplicate _ m \<Rightarrow> Some m | Processed _ m _ \<Rightarrow> Some m)"

definition handleGatewayReturn ::
  "pay_env \<Rightarrow> ledger \<Rightarrow> (string \<times> json) list \<Rightarrow> (callback_result \<times> string \<times> string option) paid" where
  "handleGatewayReturn env db payload =
     (case handleCallback env db payload of
        (db', Inl e) \<Rightarrow> (db', Inl e)
      | (db', Inr r) \<Rightarrow>
         (case (result_merch r, normalizeGatewayPayload env payload) of
            (Some m, _) \<Rightarrow> (db', Inr (r, citizenReturnRedirectUrl env (Some m), Some m))
          | (None, Inr normalized) \<Rightarrow>
             (let m = text_of (map_of normalized ''merchTxnId'')
              in (db', Inr (r, citizenReturnRedirectUrl env m, m)))
          | (None, Inl _) \<Rightarrow> (db', Inl Gateway_down)))"

subsection \<open>Requeries\<close>

definition requeried ::
  "string option \<Rightarrow> string \<Rightarrow> int \<Rightarrow> (string \<times> json) option \<Rightarrow> payment \<Rightarrow> payment" where
  "requeried atomTxnId receiptNumber collectionDate extras p =
     with_extras extras
       ((if unset (py_receiptNumber p) then with_receipt receiptNumber collectionDate else id)
          (p\<lparr>py_status := SUCCESS, py_atomTxnId := nullish_opt atomTxnId (py_atomTxnId p)\<rparr>))"

definition finalizeRequerySuccess ::
  "pay_env \<Rightarrow> ledger \<Rightarrow> payment \<Rightarrow> bool \<Rightarrow> string option \<Rightarrow> payment paid" where
  "finalizeRequerySuccess env db payment success atomTxnId =
     (if \<not> success
      then
       (let f = (\<lambda>p. p\<lparr>py_status := py_status payment, py_atomTxnId := nullish_opt atomTxnId (py_atomTxnId payment)\<rparr>)
        in case update_payment (py_id payment) f db of
             None \<Rightarrow> (db, Inl Database_error) | Some db' \<Rightarrow> (db', Inr (f payment)))
      else
       (let receiptNumber = receipt_number_of payment;
            collectionDate = nullish (py_collectionDate payment) (pe_now env)
        in case (if first_success payment
                 then applyOnlineSuccessToDemand env db payment receiptNumber collectionDate else Some (db, None)) of
             None \<Rightarrow> (db, Inl Database_error)
           | Some (db1, extras) \<Rightarrow>
              (let f = requeried atomTxnId receiptNumber collectionDate extras
               in case update_payment (py_id payment) f db1 of
                    None \<Rightarrow> (db, Inl Database_error) | Some db2 \<Rightarrow> (db2, Inr (f payment)))))"

definition requery :: "pay_env \<Rightarrow> ledger \<Rightarrow> string \<Rightarrow> auth_user \<Rightarrow> (payment \<times> requery_result) paid" where
  "requery env db paymentId user =
     (case find_payment db paymentId of
        None \<Rightarrow> (db, Inl PAYMENT_NOT_FOUND)
      | Some payment \<Rightarrow>
         (if unset (py_merchTxnId payment) then (db, Inl PAYMENT_NOT_FOUND)
          else
           (case assertPaymentAccess user (payment_res payment) Payment_requery of
              Inl e \<Rightarrow> (db, Inl (Denied e))
            | Inr _ \<Rightarrow>
               (case gw_requery (pe_gateway env) (nullish (py_merchTxnId payment) []) (py_amount payment) (py_createdAt payment) of
                  Inl _ \<Rightarrow> (db, Inl Gateway_down)
                | Inr result \<Rightarrow>
                   (let db1 = add_transaction paymentId ''requery'' None (Some (rq_raw result)) (Some (rq_statusCode result)) db
                    in case finalizeRequerySuccess env db1 payment (rq_success result) (rq_atomTxnId result) of
                         (db2, Inl e) \<Rightarrow> (db2, Inl e)
                       | (db2, Inr updated) \<Rightarrow>
                          (log_audit ''PAYMENT_REQUERY'' ''Payment'' (Some paymentId) (Some (us_id user)) db2,
                           Inr (updated, result)))))))"

definition syncCitizenPaymentByMerchTxnId :: "pay_env \<Rightarrow> ledger \<Rightarrow> string \<Rightarrow> payment paid" where
  "syncCitizenPaymentByMerchTxnId env db merchTxnId =
     (case find_merch db merchTxnId of
        None \<Rightarrow> (db, Inl PAYMENT_NOT_FOUND)
      | Some payment \<Rightarrow>
         (if unset (py_merchTxnId payment) then (db, Inl PAYMENT_NOT_FOUND)
          else if py_status payment = SUCCESS \<or> py_status payment = FAILED \<or> py_status payment = REFUNDED
          then (db, Inr payment)
          else
           (case gw_requery (pe_gateway env) merchTxnId (py_amount payment) (py_createdAt payment) of
              Inl _ \<Rightarrow> (db, Inl Gateway_down)
            | Inr result \<Rightarrow>
               finalizeRequerySuccess env
                 (add_transaction (py_id payment) ''requery'' None (Some (rq_raw result)) (Some (rq_statusCode result)) db)
                 payment (rq_success result) (rq_atomTxnId result))))"

subsection \<open>Refunds, lists and settlements\<close>

definition refunded :: "js_number \<Rightarrow> js_number \<Rightarrow> payment \<Rightarrow> payment" where
  "refunded remaining stored p =
     p\<lparr>py_refundableAmount := Some stored,
       py_status := (if remaining \<le> 0 then REFUNDED else PARTIALLY_REFUNDED)\<rparr>"

definition refund ::
  "pay_env \<Rightarrow> ledger \<Rightarrow> string \<Rightarrow> js_number \<Rightarrow> string option \<Rightarrow> auth_user \<Rightarrow> payment_refund paid" where
  "refund env db paymentId amount reason user =
     (case find_payment db paymentId of
        None \<Rightarrow> (db, Inl PAYMENT_NOT_FOUND)
      | Some payment \<Rightarrow>
         (case assertPaymentAccess user (payment_res payment) Payment_refund of
            Inl e \<Rightarrow> (db, Inl (Denied e))
          | Inr _ \<Rightarrow>
             (if py_status payment \<noteq> SUCCESS then (db, Inl Only_successful_refundable)
              else if given_text (py_atomTxnId payment) = None then (db, Inl ATOM_TXN_REQUIRED)
              else
               (let refundable = nullish (py_refundableAmount payment) (py_amount payment) in
                if amount > refundable then (db, Inl Exceeds_refundable)
                else
                 (case gw_refund (pe_gateway env) (nullish (py_merchTxnId payment) (py_paymentReference payment))
                         (nullish (py_atomTxnId payment) []) amount reason of
                    Inl _ \<Rightarrow> (db, Inl Gateway_down)
                  | Inr result \<Rightarrow>
                     (let reference = ''RF-'' @ int_text (pe_now env) in
                      case pe_col env amount of
                        None \<Rightarrow> (db, Inl Database_error)
                      | Some stored \<Rightarrow>
                         (if reference \<in> rf_refundReference ` set (lg_refunds db) then (db, Inl Database_error)
                          else
                           (let row = \<lparr>rf_paymentId = paymentId, rf_refundReference = reference, rf_amount = stored,
                                       rf_success = re_success result, rf_gatewayRefundId = re_gatewayRefundId result,
                                       rf_reason = reason, rf_rawResponse = redactSensitivePaymentPayload (re_raw result),
                                       rf_createdById = us_id user\<rparr>;
                                db1 = db\<lparr>lg_refunds := lg_refunds db @ [row]\<rparr>;
                                remaining = fl (refundable - amount)
                            in if \<not> canApplyRefundToPayment (re_success result) then (db1, Inr row)
                               else
                                (case pe_col env remaining of
                                   None \<Rightarrow> (db1, Inl Database_error)
                                 | Some left \<Rightarrow>
                                    (case update_payment paymentId (refunded remaining left) db1 of
                                       None \<Rightarrow> (db1, Inl Database_error)
                                     | Some db2 \<Rightarrow> (db2, Inr row)))))))))))"

definition operatorPaymentScope :: "auth_user \<Rightarrow> bool" where
  "operatorPaymentScope user \<longleftrightarrow>
     ''OPERATOR'' \<in> set (us_roles user) \<and> ''SUPER_ADMIN'' \<notin> set (us_roles user)
     \<and> ''DEPARTMENT_ADMIN'' \<notin> set (us_roles user) \<and> ''CLERK'' \<notin> set (us_roles user)"

record payment_query =
  pq_page :: "nat option"
  pq_pageSize :: "nat option"
  pq_status :: "payment_status option"
  pq_mode :: "payment_mode option"
  pq_wardId :: "string option"

definition payment_where :: "auth_user \<Rightarrow> payment_query \<Rightarrow> payment \<Rightarrow> bool" where
  "payment_where user q p \<longleftrightarrow>
     (case pq_status q of None \<Rightarrow> True | Some s \<Rightarrow> py_status p = s)
     \<and> (case pq_mode q of None \<Rightarrow> True | Some m \<Rightarrow> py_mode p = m)
     \<and> given (pq_wardId q) (\<lambda>w. py_wardId p = Some w)
     \<and> (operatorPaymentScope user \<longrightarrow> py_collectedById p = Some (us_id user))"

definition list_payments :: "ledger \<Rightarrow> payment_query \<Rightarrow> auth_user \<Rightarrow> payment_error + payment page" where
  "list_payments db q user =
     bind_res (lift_access (assertPaymentAccess user \<lparr>pm_id = [], pm_collectedById = Some (us_id user)\<rparr> Payment_read))
       (\<lambda>_. let page = nullish (pq_page q) 1; pageSize = nullish (pq_pageSize q) 20;
                rows = filter (payment_where user q) (lg_payments db)
            in Inr \<lparr>pg_items = take pageSize (drop ((page - 1) * pageSize)
                      (sort_by (\<lambda>a b. py_createdAt b - py_createdAt a) rows)),
                    pg_page = page, pg_pageSize = pageSize, pg_total = length rows,
                    pg_totalPages = max 1 ((length rows + pageSize - 1) div pageSize)\<rparr>)"

definition listRefunds :: "ledger \<Rightarrow> payment_refund list" where
  "listRefunds db = take 100 (rev (lg_refunds db))"

definition listSettlements :: "ledger \<Rightarrow> settlement list" where
  "listSettlements db = take 100 (rev (lg_settlements db))"

definition some_text :: "json option \<Rightarrow> string option" where
  "some_text v = (case v of Some (JStr s) \<Rightarrow> if s = [] then None else Some s | _ \<Rightarrow> None)"

text \<open>\<open>parse_date\<close> is \<open>new Date(String(x))\<close>; an amount that is no number or does not fit is refused.\<close>

definition ingestSettlement ::
  "pay_env \<Rightarrow> (json \<Rightarrow> int option) \<Rightarrow> ledger \<Rightarrow> (string \<times> json) list \<Rightarrow> settlement paid" where
  "ingestSettlement env parse_date db raw =
     (let amount = (case map_of raw ''amount'' of
            None \<Rightarrow> Some None
          | Some JNull \<Rightarrow> Some None
          | Some v \<Rightarrow> (case json_number (pe_js env) (pe_other_num env) (Some v) of
                          None \<Rightarrow> None | Some x \<Rightarrow> map_option Some (pe_col env x)))
      in case amount of
           None \<Rightarrow> (db, Inl Database_error)
         | Some a \<Rightarrow>
            (let row = \<lparr>se_settlementDate = (case map_of raw ''settlementDate'' of
                            None \<Rightarrow> None | Some v \<Rightarrow> if v \<in> {JNull, JBool False, JStr [], JNum 0} then None else parse_date v),
                        se_merchTxnId = some_text (map_of raw ''merchTxnId''),
                        se_atomTxnId = some_text (map_of raw ''atomTxnId''), se_amount = a,
                        se_status = some_text (map_of raw ''status''),
                        se_settlementUtr = some_text (map_of raw ''utr''), se_rawPayload = JObj raw\<rparr>
             in (db\<lparr>lg_settlements := lg_settlements db @ [row]\<rparr>, Inr row)))"

end
