(* ===== verification/YearEnd.thy ===== *)
theory YearEnd
  imports Publishing
begin

text \<open>
  The year-end run (\<open>previewYearEnd\<close>, \<open>commitYearEnd\<close> in
  \<open>apps/api/src/demands/demands.service.ts\<close>): the unpaid balances of the published demands of one
  year become arrears of the next year's demands, once per pair of years.

  The transaction is a fold over the previewed rows whose accumulator holds the state it would leave;
  an error discards it. Lemmas: a committed run is a no-op, the fold touches demands of the target
  year only, and every previewed survey ends with its arrear in the target year, exactly one per
  source year, so that nothing is carried twice.
\<close>

subsection \<open>Operations\<close>

record proposed_arrear =
  pr_surveyId :: string
  pr_municipalSurveyId :: string
  pr_ownerName :: "string option"
  pr_fromOutstanding :: js_number
  pr_sourceYearId :: string
  pr_targetYearId :: string

record year_end_preview =
  yp_count :: nat
  yp_totalArrears :: js_number
  yp_alreadyCommitted :: bool
  yp_proposedArrears :: "proposed_arrear list"

definition assertDistinctAssessmentYears :: "ledger \<Rightarrow> string \<Rightarrow> string \<Rightarrow> demand_error + unit" where
  "assertDistinctAssessmentYears db fromYearId toYearId =
     (if fromYearId = toYearId then Inl SameYear
      else
       (let years = filter (\<lambda>(i, _). i = fromYearId \<or> i = toYearId) (lg_entries db) in
        if length years \<noteq> 2 then Inl InvalidAssessmentYearId
        else guard (list_all (\<lambda>(_, e). en_category e = ''ASSESSMENT_YEAR'') years) InvalidAssessmentYear))"

definition find_run :: "ledger \<Rightarrow> string \<Rightarrow> string \<Rightarrow> year_end_run option" where
  "find_run db fromYearId toYearId =
     List.find (\<lambda>r. yr_fromYearId r = fromYearId \<and> yr_toYearId r = toYearId) (lg_runs db)"

definition is_committed :: "year_end_run option \<Rightarrow> bool" where
  "is_committed r \<longleftrightarrow> (case r of None \<Rightarrow> False | Some run \<Rightarrow> yr_status run = COMMITTED)"

definition larger_outstanding :: "demand \<Rightarrow> demand \<Rightarrow> int" where
  "larger_outstanding a b =
     (if dm_outstanding a > dm_outstanding b then - 1
      else if dm_outstanding a < dm_outstanding b then 1 else 0)"

definition unpaid_demands :: "ledger \<Rightarrow> string \<Rightarrow> demand list" where
  "unpaid_demands db yearId =
     take 5000 (sort_by larger_outstanding
       (filter (\<lambda>d. dm_yearId d = yearId \<and> dm_status d = D_PUBLISHED \<and> dm_outstanding d > 0) (lg_demands db)))"

definition propose :: "ledger \<Rightarrow> string \<Rightarrow> string \<Rightarrow> demand \<Rightarrow> proposed_arrear" where
  "propose db fromYearId toYearId d =
     (let survey = List.find (\<lambda>s. ds_id s = dm_surveyId d) (lg_surveys db)
      in \<lparr>pr_surveyId = dm_surveyId d,
          pr_municipalSurveyId = (case survey of None \<Rightarrow> [] | Some s \<Rightarrow> ts_surveyId s),
          pr_ownerName = (case survey of None \<Rightarrow> None | Some s \<Rightarrow> ds_ownerName s),
          pr_fromOutstanding = dm_outstanding d, pr_sourceYearId = fromYearId, pr_targetYearId = toYearId\<rparr>)"

definition previewYearEnd :: "ledger \<Rightarrow> string \<Rightarrow> string \<Rightarrow> demand_error + year_end_preview" where
  "previewYearEnd db fromYearId toYearId =
     bind_res (assertDistinctAssessmentYears db fromYearId toYearId)
       (\<lambda>_. let proposedArrears = map (propose db fromYearId toYearId) (unpaid_demands db fromYearId);
                totalArrears = foldl (\<lambda>s r. fl (s + pr_fromOutstanding r)) 0 proposedArrears
            in Inr \<lparr>yp_count = length proposedArrears, yp_totalArrears = roundMoney totalArrears,
                    yp_alreadyCommitted = is_committed (find_run db fromYearId toYearId),
                    yp_proposedArrears = proposedArrears\<rparr>)"

text \<open>The row that \<open>create\<close> makes for a survey without a demand in the target year, and the update of
  the balance after an arrear was added.\<close>

definition draft_row :: "js_number \<Rightarrow> demand \<Rightarrow> demand" where
  "draft_row out d =
     d\<lparr>dm_status := D_DRAFT, dm_arrears := out, dm_totalPayable := out, dm_outstanding := out,
       dm_amountPaid := 0, dm_currentDemand := 0, dm_verified := True\<rparr>"

definition arrear_row :: "js_number \<Rightarrow> js_number \<Rightarrow> js_number \<Rightarrow> demand \<Rightarrow> demand" where
  "arrear_row arrearsSum totalPayable outstanding d =
     d\<lparr>dm_arrears := arrearsSum, dm_totalPayable := totalPayable, dm_outstanding := outstanding\<rparr>"

definition add_arrear :: "(nat \<Rightarrow> string) \<Rightarrow> string \<Rightarrow> string \<Rightarrow> js_number \<Rightarrow> ledger \<Rightarrow> ledger" where
  "add_arrear cuid demandId sourceYearId amount db =
     db\<lparr>lg_arrears := lg_arrears db @ [\<lparr>da_id = cuid (lg_seq db), da_demandId = demandId,
                                       da_sourceYearId = sourceYearId, da_amount = amount\<rparr>],
        lg_seq := Suc (lg_seq db)\<rparr>"

definition new_balance :: "js_number \<Rightarrow> js_number \<Rightarrow> js_number \<Rightarrow> js_number \<times> js_number" where
  "new_balance currentDemand arrearsSum amountPaid =
     (let totalPayable = roundMoney (fl (currentDemand + arrearsSum));
          outstanding = roundMoney (max 0 (fl (totalPayable - amountPaid)))
      in (totalPayable, outstanding))"

definition carry_into ::
  "(nat \<Rightarrow> string) \<Rightarrow> (js_number \<Rightarrow> js_number option) \<Rightarrow> string \<Rightarrow> ledger \<Rightarrow> demand \<Rightarrow> js_number
     \<Rightarrow> ledger option" where
  "carry_into cuid col fromYearId db target out =
     (let arrearsSum = fl (foldl (\<lambda>s a. fl (s + da_amount a)) 0 (arrears_of db (dm_id target)) + out);
          (totalPayable, outstanding) = new_balance (dm_currentDemand target) arrearsSum (dm_amountPaid target)
      in case (col arrearsSum, col totalPayable, col outstanding) of
           (Some a, Some t, Some u) \<Rightarrow>
             Some (update_demand (dm_id target) (arrear_row a t u)
                     (add_arrear cuid (dm_id target) fromYearId out db))
         | _ \<Rightarrow> None)"

definition carry_step ::
  "(nat \<Rightarrow> string) \<Rightarrow> (js_number \<Rightarrow> js_number option) \<Rightarrow> string \<Rightarrow> string \<Rightarrow> (ledger \<times> nat \<times> nat) option
     \<Rightarrow> proposed_arrear \<Rightarrow> (ledger \<times> nat \<times> nat) option" where
  "carry_step cuid col fromYearId toYearId acc row =
     (case acc of
        None \<Rightarrow> None
      | Some (db, carried, skipped) \<Rightarrow>
         (let key = (pr_surveyId row, toYearId);
              out = pr_fromOutstanding row;
              db1 = (if find_demand db key = None then put_demand cuid db key (draft_row out) else db)
          in case find_demand db1 key of
               None \<Rightarrow> None
             | Some target \<Rightarrow>
                (if list_ex (\<lambda>a. da_sourceYearId a = fromYearId) (arrears_of db1 (dm_id target))
                 then Some (db1, carried, skipped + 1)
                 else map_option (\<lambda>db2. (db2, carried + 1, skipped))
                        (carry_into cuid col fromYearId db1 target out))))"

definition committed_run :: "year_end_summary \<Rightarrow> int \<Rightarrow> string option \<Rightarrow> year_end_run \<Rightarrow> year_end_run" where
  "committed_run summary now actorId r =
     r\<lparr>yr_status := COMMITTED, yr_summary := Some summary, yr_committedAt := Some now,
       yr_createdById := (case actorId of Some u \<Rightarrow> Some u | None \<Rightarrow> yr_createdById r)\<rparr>"

definition put_run ::
  "(nat \<Rightarrow> string) \<Rightarrow> string \<Rightarrow> string \<Rightarrow> (year_end_run \<Rightarrow> year_end_run) \<Rightarrow> ledger \<Rightarrow> ledger" where
  "put_run cuid fromYearId toYearId f db =
     (case find_run db fromYearId toYearId of
        Some run \<Rightarrow> db\<lparr>lg_runs := map (\<lambda>r. if yr_id r = yr_id run then f r else r) (lg_runs db)\<rparr>
      | None \<Rightarrow>
          db\<lparr>lg_runs := lg_runs db @ [f \<lparr>yr_id = cuid (lg_seq db), yr_fromYearId = fromYearId,
               yr_toYearId = toYearId, yr_status = PREVIEWED, yr_summary = None, yr_committedAt = None,
               yr_createdById = None\<rparr>],
             lg_seq := Suc (lg_seq db)\<rparr>)"

record commit_result =
  cr_noop :: bool
  cr_run :: year_end_run
  cr_summary :: "year_end_summary option"
  cr_carried :: "nat option"
  cr_skipped :: "nat option"

definition commit_new ::
  "(nat \<Rightarrow> string) \<Rightarrow> (js_number \<Rightarrow> js_number option) \<Rightarrow> int \<Rightarrow> ledger \<Rightarrow> string \<Rightarrow> string \<Rightarrow> string option
     \<Rightarrow> commit_result outcome" where
  "commit_new cuid col now db fromYearId toYearId actorId =
     (case previewYearEnd db fromYearId toYearId of
        Inl e \<Rightarrow> (db, Inl e)
      | Inr preview \<Rightarrow>
         (case foldl (carry_step cuid col fromYearId toYearId) (Some (db, 0, 0)) (yp_proposedArrears preview) of
            None \<Rightarrow> (db, Inl ColumnOverflow)
          | Some (db1, carried, skipped) \<Rightarrow>
             (let summary = \<lparr>ys_count = yp_count preview, ys_totalArrears = yp_totalArrears preview,
                             ys_carried = carried, ys_skipped = skipped\<rparr>;
                  db2 = put_run cuid fromYearId toYearId (committed_run summary now actorId) db1
              in case find_run db2 fromYearId toYearId of
                   None \<Rightarrow> (db, Inl ColumnOverflow)
                 | Some run \<Rightarrow>
                    (log_audit ''YEAR_END_COMMIT'' ''YearEndRun'' (Some (yr_id run)) actorId db2,
                     Inr \<lparr>cr_noop = False, cr_run = run, cr_summary = Some summary,
                          cr_carried = Some carried, cr_skipped = Some skipped\<rparr>))))"

definition commitYearEnd ::
  "(nat \<Rightarrow> string) \<Rightarrow> (js_number \<Rightarrow> js_number option) \<Rightarrow> int \<Rightarrow> ledger \<Rightarrow> string \<Rightarrow> string \<Rightarrow> string option
     \<Rightarrow> commit_result outcome" where
  "commitYearEnd cuid col now db fromYearId toYearId actorId =
     (case assertDistinctAssessmentYears db fromYearId toYearId of
        Inl e \<Rightarrow> (db, Inl e)
      | Inr _ \<Rightarrow>
         (case find_run db fromYearId toYearId of
            Some run \<Rightarrow>
              if yr_status run = COMMITTED
              then (db, Inr \<lparr>cr_noop = True, cr_run = run, cr_summary = yr_summary run, cr_carried = None,
                             cr_skipped = None\<rparr>)
              else commit_new cuid col now db fromYearId toYearId actorId
          | None \<Rightarrow> commit_new cuid col now db fromYearId toYearId actorId))"

subsection \<open>One row of the run\<close>

definition arrears_unique :: "ledger \<Rightarrow> bool" where
  "arrears_unique db \<longleftrightarrow> distinct (map (\<lambda>a. (da_demandId a, da_sourceYearId a)) (lg_arrears db))"

lemma row_updates_keys [simp]: "keeps_keys (draft_row out)" "keeps_keys (arrear_row a t u)"
  by (simp_all add: keeps_keys_def draft_row_def arrear_row_def)

lemma add_arrear_same [simp]:
  "lg_demands (add_arrear cuid i y out db) = lg_demands db" "lg_seq (add_arrear cuid i y out db) = Suc (lg_seq db)"
  "lg_runs (add_arrear cuid i y out db) = lg_runs db" "lg_entries (add_arrear cuid i y out db) = lg_entries db"
  "lg_payments (add_arrear cuid i y out db) = lg_payments db"
  "find_demand (add_arrear cuid i y out db) key = find_demand db key"
  by (simp_all add: add_arrear_def find_demand_def)

lemma add_arrear_ok: "demands_ok cuid db \<Longrightarrow> demands_ok cuid (add_arrear cuid i y out db)"
  unfolding demands_ok_def by (simp add: less_Suc_eq) blast

lemma update_demand_same [simp]:
  "lg_arrears (update_demand i f db) = lg_arrears db" "lg_runs (update_demand i f db) = lg_runs db"
  "lg_entries (update_demand i f db) = lg_entries db" "lg_payments (update_demand i f db) = lg_payments db"
  "lg_seq (update_demand i f db) = lg_seq db" "lg_surveys (update_demand i f db) = lg_surveys db"
  by (simp_all add: update_demand_def)

lemma has_arrear:
  "list_ex (\<lambda>a. da_sourceYearId a = y) (arrears_of db i) \<longleftrightarrow>
     (\<exists>a \<in> set (lg_arrears db). da_demandId a = i \<and> da_sourceYearId a = y)"
  by (auto simp: arrears_of_def list_ex_iff)

text \<open>Carrying one row: the target's demand exists afterwards and holds an arrear from the source
  year, which is new, of the row's amount, or was there already; nothing else changes.\<close>

lemma carry_step_row:
  assumes "demands_ok cuid db" "arrears_unique db"
    and "carry_step cuid col fromY toY (Some (db, c, s)) row = Some (db', c', s')"
  shows "demands_ok cuid db' \<and> arrears_unique db' \<and>
    (\<forall>key. key \<noteq> (pr_surveyId row, toY) \<longrightarrow> find_demand db' key = find_demand db key) \<and>
    lg_runs db' = lg_runs db \<and> lg_entries db' = lg_entries db \<and> lg_payments db' = lg_payments db \<and>
    (\<exists>d. find_demand db' (pr_surveyId row, toY) = Some d \<and>
       (case find_demand db (pr_surveyId row, toY) of None \<Rightarrow> True | Some e \<Rightarrow> dm_id e = dm_id d) \<and>
       (lg_arrears db' = lg_arrears db \<and> c' = c \<and> s' = Suc s \<and>
          (\<exists>a \<in> set (lg_arrears db). da_demandId a = dm_id d \<and> da_sourceYearId a = fromY)
        \<or> c' = Suc c \<and> s' = s \<and> (\<exists>i. lg_arrears db' = lg_arrears db @
             [\<lparr>da_id = i, da_demandId = dm_id d, da_sourceYearId = fromY, da_amount = pr_fromOutstanding row\<rparr>])))"
proof -
  let ?key = "(pr_surveyId row, toY)" and ?out = "pr_fromOutstanding row"
  define db1 where "db1 = (if find_demand db ?key = None then put_demand cuid db ?key (draft_row ?out) else db)"
  have ok1: "demands_ok cuid db1"
    using assms(1) put_demand_ok[OF assms(1)] by (simp add: db1_def)
  have f1: "find_demand db1 key = find_demand db key" if "key \<noteq> ?key" for key
    using that by (simp add: db1_def find_put_demand[OF assms(1)])
  have same1: "lg_arrears db1 = lg_arrears db" "lg_runs db1 = lg_runs db" "lg_entries db1 = lg_entries db"
    "lg_payments db1 = lg_payments db"
    by (simp_all add: db1_def)
  obtain t where t: "find_demand db1 ?key = Some t"
    using find_put_demand[OF assms(1)] by (cases "find_demand db ?key") (simp_all add: db1_def)
  have old: "case find_demand db ?key of None \<Rightarrow> True | Some e \<Rightarrow> dm_id e = dm_id t"
    using t by (auto simp: db1_def split: option.splits)
  show ?thesis
  proof (cases "list_ex (\<lambda>a. da_sourceYearId a = fromY) (arrears_of db1 (dm_id t))")
    case True
    then have "db' = db1" "c' = c" "s' = Suc s"
      using assms(3) t by (auto simp: carry_step_def Let_def db1_def[symmetric])
    then show ?thesis
      using True ok1 f1 same1 t old assms(2) by (auto simp: has_arrear arrears_unique_def)
  next
    case False
    then have "map_option (\<lambda>db2. (db2, c + 1, s)) (carry_into cuid col fromY db1 t ?out) = Some (db', c', s')"
      using assms(3) t by (simp add: carry_step_def Let_def db1_def[symmetric])
    then obtain a p u where db': "db' = update_demand (dm_id t) (arrear_row a p u) (add_arrear cuid (dm_id t) fromY ?out db1)"
      "c' = Suc c" "s' = s"
      by (auto simp: carry_into_def Let_def split: option.splits prod.splits)
    have ok2: "demands_ok cuid (add_arrear cuid (dm_id t) fromY ?out db1)" by (rule add_arrear_ok[OF ok1])
    have f2: "find_demand db' key = map_option (\<lambda>d. if dm_id d = dm_id t then arrear_row a p u d else d) (find_demand db1 key)"
      for key unfolding db'(1) by (simp add: find_update_demand[OF ok2])
    have other: "find_demand db' key = find_demand db key" if k: "key \<noteq> ?key" for key
    proof -
      have "dm_id d \<noteq> dm_id t" if "find_demand db1 key = Some d" for d
        using find_demand_id_unique[OF ok1] find_demand_in[OF that] find_demand_in[OF t] k by (metis option.inject)
      then show ?thesis unfolding f1[OF k, symmetric] f2[of key] by (cases "find_demand db1 key") simp_all
    qed
    have "arrears_unique db'"
      using assms(2) False same1(1) unfolding has_arrear arrears_unique_def
      by (auto simp: db'(1) add_arrear_def)
    moreover have "find_demand db' ?key = Some (arrear_row a p u t)" using f2[of ?key] t by simp
    moreover have "dm_id (arrear_row a p u t) = dm_id t" by (simp add: arrear_row_def)
    moreover have "lg_arrears db' = lg_arrears db @ [\<lparr>da_id = cuid (lg_seq db1), da_demandId = dm_id t,
        da_sourceYearId = fromY, da_amount = ?out\<rparr>]"
      "lg_runs db' = lg_runs db" "lg_entries db' = lg_entries db" "lg_payments db' = lg_payments db"
      using same1 by (simp_all add: db'(1), simp_all add: add_arrear_def)
    moreover have "demands_ok cuid db'" unfolding db'(1) by (rule update_demand_ok[OF ok2]) simp
    ultimately show ?thesis using other old db'(2,3) by (intro conjI exI[of _ "arrear_row a p u t"]) (auto split: option.splits)
  qed
qed

subsection \<open>The whole run\<close>

lemma carry_none: "foldl (carry_step cuid col fromY toY) None rows = None"
  by (induction rows) (simp_all add: carry_step_def)

lemma carry_rows:
  assumes "demands_ok cuid db" "arrears_unique db" "distinct (map pr_surveyId rows)"
    and "foldl (carry_step cuid col fromY toY) (Some (db, c, s)) rows = Some (db', c', s')"
  shows "demands_ok cuid db' \<and> arrears_unique db' \<and> c' + s' = c + s + length rows \<and>
    length (lg_arrears db') + c = length (lg_arrears db) + c' \<and>
    (\<forall>key. key \<notin> (\<lambda>r. (pr_surveyId r, toY)) ` set rows \<longrightarrow> find_demand db' key = find_demand db key) \<and>
    lg_runs db' = lg_runs db \<and> lg_entries db' = lg_entries db \<and> lg_payments db' = lg_payments db \<and>
    set (lg_arrears db) \<subseteq> set (lg_arrears db') \<and>
    (\<forall>r \<in> set rows. \<exists>d a. find_demand db' (pr_surveyId r, toY) = Some d \<and> a \<in> set (lg_arrears db') \<and>
       da_demandId a = dm_id d \<and> da_sourceYearId a = fromY \<and>
       (a \<in> set (lg_arrears db) \<or> da_amount a = pr_fromOutstanding r))"
  using assms
proof (induction rows arbitrary: db c s)
  case (Cons row rows)
  let ?key = "(pr_surveyId row, toY)"
  obtain db1 c1 s1 where st: "carry_step cuid col fromY toY (Some (db, c, s)) row = Some (db1, c1, s1)"
    using Cons.prems(4) carry_none by (cases "carry_step cuid col fromY toY (Some (db, c, s)) row") auto
  note one = carry_step_row[OF Cons.prems(1,2) st]
  obtain d where d: "find_demand db1 ?key = Some d"
    and disj: "lg_arrears db1 = lg_arrears db \<and> c1 = c \<and> s1 = Suc s \<and>
          (\<exists>a \<in> set (lg_arrears db). da_demandId a = dm_id d \<and> da_sourceYearId a = fromY)
        \<or> c1 = Suc c \<and> s1 = s \<and> (\<exists>i. lg_arrears db1 = lg_arrears db @
             [\<lparr>da_id = i, da_demandId = dm_id d, da_sourceYearId = fromY, da_amount = pr_fromOutstanding row\<rparr>])"
    using one by blast
  have dr: "distinct (map pr_surveyId rows)" "?key \<notin> (\<lambda>r. (pr_surveyId r, toY)) ` set rows"
    using Cons.prems(3) by auto
  have "foldl (carry_step cuid col fromY toY) (Some (db1, c1, s1)) rows = Some (db', c', s')"
    using Cons.prems(4) st by simp
  note IH = Cons.IH[OF one[THEN conjunct1] one[THEN conjunct2, THEN conjunct1] dr(1) this]
  have sub: "set (lg_arrears db) \<subseteq> set (lg_arrears db1)" using disj by auto
  have kd: "find_demand db' ?key = Some d" using IH dr(2) d by metis
  have "\<exists>d a. find_demand db' (pr_surveyId r, toY) = Some d \<and> a \<in> set (lg_arrears db') \<and>
       da_demandId a = dm_id d \<and> da_sourceYearId a = fromY \<and>
       (a \<in> set (lg_arrears db) \<or> da_amount a = pr_fromOutstanding r)" if r: "r \<in> set (row # rows)" for r
  proof (cases "r = row")
    case True
    have "\<exists>a \<in> set (lg_arrears db1). da_demandId a = dm_id d \<and> da_sourceYearId a = fromY \<and>
        (a \<in> set (lg_arrears db) \<or> da_amount a = pr_fromOutstanding row)"
      using disj by auto
    then show ?thesis using kd IH True by blast
  next
    case False
    then have rs: "r \<in> set rows" using r by simp
    then obtain e a where e: "find_demand db' (pr_surveyId r, toY) = Some e" "a \<in> set (lg_arrears db')"
      "da_demandId a = dm_id e" "da_sourceYearId a = fromY"
      "a \<in> set (lg_arrears db1) \<or> da_amount a = pr_fromOutstanding r"
      using IH by blast
    have "pr_surveyId r \<noteq> pr_surveyId row" using rs Cons.prems(3) by (metis distinct.simps(2) image_eqI list.map(2) list.set_map)
    then have "dm_id e \<noteq> dm_id d"
      using find_demand_id_unique[of cuid db'] IH find_demand_in[OF e(1)] find_demand_in[OF kd]
      by (metis option.inject prod.inject)
    then have "a \<in> set (lg_arrears db) \<or> da_amount a = pr_fromOutstanding r"
      using e(3,5) disj by auto
    then show ?thesis using e by blast
  qed
  moreover have "find_demand db' key = find_demand db key"
    if "key \<notin> (\<lambda>r. (pr_surveyId r, toY)) ` set (row # rows)" for key
  proof -
    have "key \<noteq> ?key" "key \<notin> (\<lambda>r. (pr_surveyId r, toY)) ` set rows" using that by auto
    then show ?thesis using one IH by metis
  qed
  moreover have "c1 + s1 = c + s + 1" "length (lg_arrears db1) + c = length (lg_arrears db) + c1"
    using disj by auto
  ultimately show ?case using IH one sub by auto
qed simp

lemma insert_by_set [simp]: "set (insert_by cmp x xs) = insert x (set xs)"
  by (induction xs) auto

lemma sort_by_set [simp]: "set (sort_by cmp xs) = set xs"
  by (induction xs) (simp_all add: sort_by_def)

lemma insert_by_distinct: "distinct (map f (insert_by cmp x xs)) = (f x \<notin> f ` set xs \<and> distinct (map f xs))"
  by (induction xs) auto

lemma sort_by_distinct [simp]: "distinct (map f (sort_by cmp xs)) = distinct (map f xs)"
  by (induction xs) (simp_all add: sort_by_def insert_by_distinct, simp flip: sort_by_def)

lemma unpaid_distinct:
  assumes "demands_ok cuid db"
  shows "distinct (map pr_surveyId (map (propose db fromY toY) (unpaid_demands db fromY)))"
proof -
  let ?ds = "filter (\<lambda>d. dm_yearId d = fromY \<and> dm_status d = D_PUBLISHED \<and> dm_outstanding d > 0) (lg_demands db)"
  have "distinct (map (\<lambda>d. (dm_surveyId d, dm_yearId d)) ?ds)"
    using assms by (simp add: demands_ok_def distinct_map_filter)
  moreover have "inj_on dm_surveyId (set ?ds)"
    using calculation by (auto simp: distinct_map inj_on_def)
  ultimately have "distinct (map dm_surveyId ?ds)" by (simp add: distinct_map)
  then have "distinct (map dm_surveyId (unpaid_demands db fromY))"
    by (simp add: unpaid_demands_def distinct_take flip: take_map)
  then show ?thesis by (simp add: propose_def comp_def Let_def)
qed

lemma put_run_same [simp]:
  "lg_demands (put_run cuid a b f db) = lg_demands db" "lg_entries (put_run cuid a b f db) = lg_entries db"
  "lg_arrears (put_run cuid a b f db) = lg_arrears db" "lg_payments (put_run cuid a b f db) = lg_payments db"
  "find_demand (put_run cuid a b f db) key = find_demand db key"
  by (simp_all add: put_run_def find_demand_def split: option.splits)

lemma put_run_ok: "demands_ok cuid db \<Longrightarrow> demands_ok cuid (put_run cuid a b f db)"
  by (auto simp: put_run_def demands_ok_def less_Suc_eq split: option.splits)

lemma find_map_id:
  "(\<And>x. P (g x) = P x) \<Longrightarrow> List.find P (map g xs) = map_option g (List.find P xs)"
  by (induction xs) auto

lemma find_put_run:
  assumes "\<And>r. yr_fromYearId (f r) = yr_fromYearId r \<and> yr_toYearId (f r) = yr_toYearId r"
  shows "\<exists>r. find_run (put_run cuid a b f db) a b = Some (f r)"
proof (cases "find_run db a b")
  case None
  then show ?thesis using assms by (auto simp: put_run_def find_run_def find_app)
next
  case (Some run)
  have "find_run (put_run cuid a b f db) a b = Some (f run)"
    using Some assms by (simp add: put_run_def find_run_def find_map_id)
  then show ?thesis by blast
qed

lemma commit_new_cases:
  assumes "commit_new cuid col now db fromY toY actorId = (db', Inr r)"
  obtains preview db1 c s and run :: year_end_run where "previewYearEnd db fromY toY = Inr preview"
    "foldl (carry_step cuid col fromY toY) (Some (db, 0, 0)) (yp_proposedArrears preview) = Some (db1, c, s)"
    "db' = log_audit ''YEAR_END_COMMIT'' ''YearEndRun'' (Some (yr_id run)) actorId
             (put_run cuid fromY toY (committed_run \<lparr>ys_count = yp_count preview,
                ys_totalArrears = yp_totalArrears preview, ys_carried = c, ys_skipped = s\<rparr> now actorId) db1)"
    "cr_carried r = Some c" "cr_skipped r = Some s" "\<not> cr_noop r"
  using assms unfolding commit_new_def
  by (auto simp: Let_def split: sum.splits option.splits prod.splits)

lemma commit_cases:
  assumes "commitYearEnd cuid col now db fromY toY actorId = (db', Inr r)"
  shows "assertDistinctAssessmentYears db fromY toY = Inr () \<and>
    (db' = db \<and> cr_noop r \<and> is_committed (find_run db fromY toY)
     \<or> \<not> is_committed (find_run db fromY toY) \<and> commit_new cuid col now db fromY toY actorId = (db', Inr r))"
  using assms unfolding commitYearEnd_def
  by (auto simp: is_committed_def split: sum.splits option.splits if_splits)

text \<open>C28. Committing a year end is idempotent: once a pair of years has been committed, committing it
  again, by anyone and at any later time, reports that nothing was done and changes nothing.\<close>

theorem year_end_idempotent:
  assumes "commitYearEnd cuid col now db fromY toY actorId = (db', Inr r)"
    and "demands_ok cuid db" "arrears_unique db"
  shows "\<exists>r'. commitYearEnd cuid col now' db' fromY toY actorId' = (db', Inr r') \<and> cr_noop r'"
proof -
  have noop: "\<exists>r'. commitYearEnd cuid col now' d fromY toY actorId' = (d, Inr r') \<and> cr_noop r'"
    if "assertDistinctAssessmentYears d fromY toY = Inr ()" "is_committed (find_run d fromY toY)" for d
    using that by (auto simp: commitYearEnd_def is_committed_def split: option.splits)
  consider "db' = db" "is_committed (find_run db fromY toY)"
    | "commit_new cuid col now db fromY toY actorId = (db', Inr r)"
    using commit_cases[OF assms(1)] by blast
  then show ?thesis
  proof cases
    case 1
    then show ?thesis using noop commit_cases[OF assms(1)] by blast
  next
    case 2
    from 2 show ?thesis
    proof (cases rule: commit_new_cases)
      case (1 preview db1 c s run)
      let ?rows = "yp_proposedArrears preview"
      let ?f = "committed_run \<lparr>ys_count = yp_count preview, ys_totalArrears = yp_totalArrears preview,
        ys_carried = c, ys_skipped = s\<rparr> now actorId"
      have "?rows = map (propose db fromY toY) (unpaid_demands db fromY)"
        using 1(1) by (auto simp: previewYearEnd_def res_iffs Let_def)
      then have "lg_entries db1 = lg_entries db"
        using carry_rows[OF assms(2,3) _ 1(2)] unpaid_distinct[OF assms(2)] by simp
      moreover obtain q where "find_run (put_run cuid fromY toY ?f db1) fromY toY = Some (?f q)"
        using find_put_run[of ?f cuid fromY toY db1] by (auto simp: committed_run_def)
      then have "is_committed (find_run db' fromY toY)"
        unfolding 1(3) by (simp add: find_run_def is_committed_def committed_run_def)
      moreover have "lg_entries db' = lg_entries db" unfolding 1(3) using calculation(1) by simp
      then have "assertDistinctAssessmentYears db' fromY toY = assertDistinctAssessmentYears db fromY toY"
        by (simp only: assertDistinctAssessmentYears_def)
      then have "assertDistinctAssessmentYears db' fromY toY = Inr ()" using commit_cases[OF assms(1)] by simp
      ultimately show ?thesis using noop by blast
    qed
  qed
qed

subsection \<open>The books stay balanced\<close>

lemma draft_balanced:
  assumes "in_column n" "0 \<le> n"
  shows "balanced (draft_row (paise n) d)"
  using assms by (intro balancedI[of n 0]) (simp_all add: draft_row_def max_def)

lemma carry_into_books:
  assumes "decimal_column col" "demands_ok cuid db" "books_balance db" "t \<in> set (lg_demands db)"
    and "carry_into cuid col fromY db t out = Some db'"
  shows "books_balance db'"
proof -
  obtain asum a p u where s:
    "col (roundMoney (fl (dm_currentDemand t + asum))) = Some p"
    "col (roundMoney (max 0 (fl (roundMoney (fl (dm_currentDemand t + asum)) - dm_amountPaid t)))) = Some u"
    "db' = update_demand (dm_id t) (arrear_row a p u) (add_arrear cuid (dm_id t) fromY out db)"
    using assms(5) unfolding carry_into_def new_balance_def Let_def by (auto split: option.splits)
  obtain n where n: "in_column n" "p = paise n" "roundMoney (fl (dm_currentDemand t + asum)) = paise n"
    by (rule stored_round[OF assms(1) s(1)])
  have "balanced t" using assms(3,4) by (simp add: books_balance_def)
  then obtain m where m: "in_column m" "dm_amountPaid t = paise m" by (auto simp: balanced_def)
  have u: "in_column (max 0 (n - m)) \<and> u = paise (max 0 (n - m))"
    using stored_balance[OF assms(1) n(1) m(1)] s(2) unfolding n(3) m(2) by blast
  have b: "balanced (arrear_row a p u t)"
    using u n(1,2) m by (intro balancedI[of n m]) (simp_all add: arrear_row_def)
  have "books_balance (add_arrear cuid (dm_id t) fromY out db)"
    using assms(3) by (simp add: books_balance_def)
  then show ?thesis unfolding s(3)
  proof (rule update_books)
    fix d assume "d \<in> set (lg_demands (add_arrear cuid (dm_id t) fromY out db))" "dm_id d = dm_id t"
    then have "d = t"
      using find_demand_id_unique[OF assms(2)] assms(4) by (metis add_arrear_same(1) option.inject)
    then show "balanced (arrear_row a p u d)" using b by simp
  qed
qed

lemma carry_step_books:
  assumes "decimal_column col" "demands_ok cuid db" "books_balance db"
    and "pr_fromOutstanding row = paise n" "in_column n" "0 \<le> n"
    and "carry_step cuid col fromY toY (Some (db, c, s)) row = Some (db', c', s')"
  shows "books_balance db'"
proof -
  let ?key = "(pr_surveyId row, toY)"
  let ?db = "if find_demand db ?key = None then put_demand cuid db ?key (draft_row (paise n)) else db"
  have ok: "demands_ok cuid ?db" using assms(2) put_demand_ok[OF assms(2)] by simp
  have b: "books_balance ?db"
    using assms(3) put_books[OF assms(3) _ assms(2)] draft_balanced[OF assms(5,6)] by simp
  obtain t where t: "find_demand ?db ?key = Some t" "db' = ?db \<or> carry_into cuid col fromY ?db t (paise n) = Some db'"
    using assms(7) unfolding carry_step_def assms(4) by (auto simp: Let_def split: option.splits if_splits)
  then show ?thesis using carry_into_books[OF assms(1) ok b] find_demand_in[OF t(1)] b by blast
qed

lemma unpaid_in: "d \<in> set (unpaid_demands db y) \<Longrightarrow> d \<in> set (lg_demands db)"
  using set_take_subset by (fastforce simp: unpaid_demands_def)

lemma carry_books:
  assumes "decimal_column col" "demands_ok cuid db" "arrears_unique db" "books_balance db"
    and "\<forall>r \<in> set rows. \<exists>n. pr_fromOutstanding r = paise n \<and> in_column n \<and> 0 \<le> n"
    and "foldl (carry_step cuid col fromY toY) (Some (db, c, s)) rows = Some (db', c', s')"
  shows "demands_ok cuid db' \<and> arrears_unique db' \<and> books_balance db'"
  using assms(2-)
proof (induction rows arbitrary: db c s)
  case (Cons row rows)
  obtain db1 c1 s1 where st: "carry_step cuid col fromY toY (Some (db, c, s)) row = Some (db1, c1, s1)"
    using Cons.prems(5) carry_none by (cases "carry_step cuid col fromY toY (Some (db, c, s)) row") auto
  obtain n where n: "pr_fromOutstanding row = paise n" "in_column n" "0 \<le> n" using Cons.prems(4) by auto
  show ?case
    using Cons.IH[of db1 c1 s1] Cons.prems(4,5) st carry_step_row[OF Cons.prems(1,2) st]
      carry_step_books[OF assms(1) Cons.prems(1,3) n st] by auto
qed simp

lemma commit_books:
  assumes "decimal_column col" "demands_ok cuid db" "arrears_unique db" "books_balance db"
    and "commitYearEnd cuid col now db fromY toY actorId = (db', r)"
  shows "demands_ok cuid db' \<and> arrears_unique db' \<and> books_balance db'"
proof (cases r)
  case (Inl e)
  then have "db' = db"
    using assms(5) unfolding commitYearEnd_def commit_new_def
    by (auto simp: Let_def split: sum.splits option.splits if_splits prod.splits)
  then show ?thesis using assms by simp
next
  case (Inr x)
  then consider "db' = db" | "commit_new cuid col now db fromY toY actorId = (db', Inr x)"
    using commit_cases[OF assms(5)[unfolded Inr]] by blast
  then show ?thesis
  proof cases
    case 2
    then show ?thesis
    proof (cases rule: commit_new_cases)
      case (1 preview db1 c s run)
      have "yp_proposedArrears preview = map (propose db fromY toY) (unpaid_demands db fromY)"
        using 1(1) by (auto simp: previewYearEnd_def res_iffs Let_def)
      moreover have "\<exists>n. dm_outstanding d = paise n \<and> in_column n \<and> 0 \<le> n" if "d \<in> set (unpaid_demands db fromY)" for d
        using unpaid_in[OF that] assms(4) balanced_outstanding by (metis books_balance_def)
      ultimately have "\<forall>r \<in> set (yp_proposedArrears preview). \<exists>n. pr_fromOutstanding r = paise n \<and> in_column n \<and> 0 \<le> n"
        by (auto simp: propose_def Let_def)
      from carry_books[OF assms(1-4) this 1(2)] show ?thesis
        using put_run_ok unfolding 1(3) by (simp add: books_balance_def arrears_unique_def)
    qed
  qed (use assms in simp)
qed

subsection \<open>A sample run\<close>

definition unpaid_demand :: demand where
  "unpaid_demand = (blank_demand unary plot_ledger (''s1'', ''y1''))
     \<lparr>dm_status := D_PUBLISHED, dm_propertyTax := 6000, dm_currentDemand := 6000, dm_totalPayable := 6000,
      dm_outstanding := 6000\<rparr>"

definition unpaid_ledger :: ledger where
  "unpaid_ledger = plot_ledger\<lparr>lg_seq := 1, lg_demands := [unpaid_demand]\<rparr>"

lemma unpaid_ledger_ok: "demands_ok unary unpaid_ledger" "arrears_unique unpaid_ledger"
  by (simp_all add: demands_ok_def inj_unary unpaid_ledger_def unpaid_demand_def blank_demand_def
      plot_ledger_def arrears_unique_def)

lemma unpaid_ledger_facts:
  "unpaid_demands unpaid_ledger ''y1'' = [unpaid_demand]"
  "assertDistinctAssessmentYears unpaid_ledger ''y1'' ''y2'' = Inr ()"
  "find_run unpaid_ledger ''y1'' ''y2'' = None" "find_demand unpaid_ledger (''s1'', ''y2'') = None"
  "dm_outstanding unpaid_demand = 6000" "dm_surveyId unpaid_demand = ''s1''" "dm_id unpaid_demand = unary 0"
  by (simp_all add: unpaid_demands_def unpaid_ledger_def unpaid_demand_def blank_demand_def sort_by_def
      assertDistinctAssessmentYears_def plot_ledger_def find_run_def find_demand_def guard_def)

lemma sample_commit:
  "\<exists>db' r. commitYearEnd unary round_column 5 unpaid_ledger ''y1'' ''y2'' None = (db', Inr r) \<and> \<not> cr_noop r"
proof -
  let ?row = "propose unpaid_ledger ''y1'' ''y2'' unpaid_demand"
  have row: "pr_surveyId ?row = ''s1''" "pr_fromOutstanding ?row = 6000"
    by (simp_all add: propose_def unpaid_ledger_facts Let_def)
  define db1 where "db1 = put_demand unary unpaid_ledger (''s1'', ''y2'') (draft_row 6000)"
  define t where "t = draft_row 6000 (blank_demand unary unpaid_ledger (''s1'', ''y2''))"
  have t: "find_demand db1 (''s1'', ''y2'') = Some t" "dm_currentDemand t = 0" "dm_amountPaid t = 0"
    by (simp_all add: db1_def t_def find_put_demand[OF unpaid_ledger_ok(1)] unpaid_ledger_facts)
       (simp_all add: draft_row_def blank_demand_def)
  have a: "arrears_of db1 i = []" for i
    by (simp add: db1_def arrears_of_def) (simp add: unpaid_ledger_def plot_ledger_def)
  obtain db2 where c: "carry_into unary round_column ''y1'' db1 t 6000 = Some db2"
    by (simp add: carry_into_def new_balance_def a t column_6000 Let_def)
  have step: "carry_step unary round_column ''y1'' ''y2'' (Some (unpaid_ledger, 0, 0)) ?row = Some (db2, 1, 0)"
    by (simp add: carry_step_def row unpaid_ledger_facts db1_def[symmetric] t a c Let_def)
  have p: "\<exists>preview. previewYearEnd unpaid_ledger ''y1'' ''y2'' = Inr preview \<and> yp_proposedArrears preview = [?row]"
    by (simp add: previewYearEnd_def unpaid_ledger_facts Let_def)
  then obtain preview where p: "previewYearEnd unpaid_ledger ''y1'' ''y2'' = Inr preview"
    "yp_proposedArrears preview = [?row]" by blast
  let ?s = "\<lparr>ys_count = yp_count preview, ys_totalArrears = yp_totalArrears preview, ys_carried = 1, ys_skipped = 0\<rparr>"
  obtain q where "find_run (put_run unary ''y1'' ''y2'' (committed_run ?s 5 None) db2) ''y1'' ''y2''
      = Some (committed_run ?s 5 None q)"
    using find_put_run[of "committed_run ?s 5 None" unary "''y1''" "''y2''" db2] by (auto simp: committed_run_def)
  then show ?thesis
    by (simp add: commitYearEnd_def unpaid_ledger_facts commit_new_def p step Let_def)
qed

lemma year_end_idempotent_witness:
  "\<exists>db' r r'. commitYearEnd unary round_column 5 unpaid_ledger ''y1'' ''y2'' None = (db', Inr r) \<and> \<not> cr_noop r \<and>
     commitYearEnd unary round_column 9 db' ''y1'' ''y2'' (Some ''u1'') = (db', Inr r') \<and> cr_noop r'"
  using sample_commit year_end_idempotent[OF _ unpaid_ledger_ok] by meson

end
