(* ===== verification/PaymentHistory.thy ===== *)
theory PaymentHistory
  imports PaymentFacts
begin

text \<open>
  One step of the payment tables, and that every operation of the payment service is such a step. A
  step is quiet (it touches neither payments nor demands), takes in a new payment (if \<open>new\<close>; it may be an
  offline collection that pays a demand), settles a payment (a callback or a requery, which applies
  the money to a demand only on the first success), or changes the status and the refundable amount
  of a payment.
\<close>

subsection \<open>Steps\<close>

text \<open>The demands \<open>ds'\<close> are \<open>ds\<close> with the amount paid into the published demand \<open>d\<close>.\<close>

definition paid_into :: "pay_env \<Rightarrow> demand list \<Rightarrow> js_number \<Rightarrow> demand \<Rightarrow> demand list \<Rightarrow> bool" where
  "paid_into env ds amount d ds' \<longleftrightarrow>
     d \<in> set ds \<and> dm_status d = D_PUBLISHED \<and>
     (\<exists>p u. pe_col env (fst (computeOutstandingAfterPayment (dm_totalPayable d) (dm_amountPaid d) amount)) = Some p
        \<and> pe_col env (snd (computeOutstandingAfterPayment (dm_totalPayable d) (dm_amountPaid d) amount)) = Some u
        \<and> ds' = map (\<lambda>e. if dm_id e = dm_id d then paid_row p u e else e) ds)"

text \<open>What a settlement may write to the row of its payment.\<close>

definition settled_as :: "payment \<Rightarrow> (string \<times> json) option \<Rightarrow> payment \<Rightarrow> bool" where
  "settled_as p extras q \<longleftrightarrow>
     py_id q = py_id p \<and> py_amount q = py_amount p \<and> py_merchTxnId q = py_merchTxnId p
     \<and> py_refundableAmount q = py_refundableAmount p
     \<and> (case extras of
          None \<Rightarrow> py_receiptSnapshot q = py_receiptSnapshot p \<and> py_demandId q = py_demandId p
        | Some (i, snapshot) \<Rightarrow> py_receiptSnapshot q = Some snapshot \<and> py_demandId q = Some i \<and> py_status q = SUCCESS)
     \<and> (unset (py_receiptNumber p) \<or> py_receiptNumber q = py_receiptNumber p)
     \<and> (py_status p = SUCCESS \<longrightarrow> py_status q = SUCCESS)"

definition replace_payment :: "payment \<Rightarrow> payment \<Rightarrow> payment list \<Rightarrow> payment list" where
  "replace_payment p q ps = map (\<lambda>r. if py_id r = py_id p then q else r) ps"

inductive money_step :: "pay_env \<Rightarrow> bool \<Rightarrow> ledger \<Rightarrow> ledger \<Rightarrow> bool" for env new where
  quiet: "lg_demands db' = lg_demands db \<Longrightarrow> lg_payments db' = lg_payments db \<Longrightarrow> lg_arrears db' = lg_arrears db \<Longrightarrow>
    lg_seq db \<le> lg_seq db' \<Longrightarrow> money_step env new db db'"
| settle: "p \<in> set (lg_payments db) \<Longrightarrow> lg_payments db' = replace_payment p q (lg_payments db) \<Longrightarrow>
    payments_unique (lg_payments db') \<Longrightarrow> settled_as p extras q \<Longrightarrow>
    (extras = None \<and> lg_demands db' = lg_demands db) \<or>
    (first_success p \<and> (\<exists>d snapshot. extras = Some (dm_id d, snapshot) \<and>
       paid_into env (lg_demands db) (py_amount p) d (lg_demands db'))) \<Longrightarrow>
    lg_arrears db' = lg_arrears db \<Longrightarrow> lg_seq db \<le> lg_seq db' \<Longrightarrow> money_step env new db db'"
| take_in: "new \<Longrightarrow> lg_payments db' = lg_payments db @ [p] \<Longrightarrow> payments_unique (lg_payments db') \<Longrightarrow>
    pe_col env x = Some (py_amount p) \<Longrightarrow> py_refundableAmount p = Some (py_amount p) \<Longrightarrow>
    (lg_demands db' = lg_demands db \<and> py_status p \<noteq> SUCCESS) \<or>
    (py_status p = SUCCESS \<and> py_receiptSnapshot p \<noteq> None \<and>
     (\<exists>d. py_demandId p = Some (dm_id d) \<and> paid_into env (lg_demands db) x d (lg_demands db'))) \<Longrightarrow>
    lg_arrears db' = lg_arrears db \<Longrightarrow> lg_seq db \<le> lg_seq db' \<Longrightarrow> money_step env new db db'"
| refund: "p \<in> set (lg_payments db) \<Longrightarrow> lg_payments db' = replace_payment p q (lg_payments db) \<Longrightarrow>
    payments_unique (lg_payments db') \<Longrightarrow> py_status p = SUCCESS \<Longrightarrow> pe_col env x = Some y \<Longrightarrow>
    q = p\<lparr>py_refundableAmount := Some y, py_status := s\<rparr> \<Longrightarrow> s \<in> {REFUNDED, PARTIALLY_REFUNDED} \<Longrightarrow>
    lg_demands db' = lg_demands db \<Longrightarrow> lg_arrears db' = lg_arrears db \<Longrightarrow> lg_seq db \<le> lg_seq db' \<Longrightarrow>
    money_step env new db db'"

lemma replace_payment_map:
  assumes "payments_unique ps" "p \<in> set ps"
  shows "map (\<lambda>r. if py_id r = py_id p then f r else r) ps = replace_payment p (f p) ps"
proof -
  have "r = p" if "r \<in> set ps" "py_id r = py_id p" for r
    using assms that by (auto simp: payments_unique_def distinct_map dest: inj_onD)
  then show ?thesis by (auto simp: replace_payment_def)
qed

lemma set_replace_payment:
  "r \<in> set (replace_payment p q ps) \<longleftrightarrow> (r \<in> set ps \<and> py_id r \<noteq> py_id p) \<or> (r = q \<and> (\<exists>r' \<in> set ps. py_id r' = py_id p))"
  by (auto simp: replace_payment_def)

subsection \<open>Settlements are steps\<close>

lemma unset_simps [simp]: "unset None" "unset (Some s) \<longleftrightarrow> s = []"
  by (simp_all add: unset_def)

lemma with_extras_simps [simp]:
  "with_extras None p = p"
  "with_extras (Some (i, s)) p = p\<lparr>py_demandId := Some i, py_receiptSnapshot := Some s\<rparr>"
  by (simp_all add: with_extras_def)

lemma called_back_settled:
  assumes "extras = None \<or> success" "success \<Longrightarrow> s = SUCCESS" "py_status p = SUCCESS \<Longrightarrow> s = SUCCESS"
  shows "settled_as p extras (called_back s a success rn t extras p)"
  using assms by (cases extras) (auto simp: settled_as_def called_back_def with_receipt_def)

lemma requeried_settled: "settled_as p extras (requeried a rn t extras p)"
  by (cases extras) (auto simp: settled_as_def requeried_def with_receipt_def)

lemma apply_paid_into:
  assumes "applyOnlineSuccessToDemand env db p rn t = Some (db', extras)"
  shows "(extras = None \<and> lg_demands db' = lg_demands db) \<or>
    (\<exists>d snapshot. extras = Some (dm_id d, snapshot) \<and> paid_into env (lg_demands db) (py_amount p) d (lg_demands db'))"
    and "lg_payments db' = lg_payments db" "lg_arrears db' = lg_arrears db" "lg_seq db' = lg_seq db"
proof -
  have "((extras = None \<and> lg_demands db' = lg_demands db) \<or>
    (\<exists>d snapshot. extras = Some (dm_id d, snapshot) \<and> paid_into env (lg_demands db) (py_amount p) d (lg_demands db')))
    \<and> lg_payments db' = lg_payments db \<and> lg_arrears db' = lg_arrears db \<and> lg_seq db' = lg_seq db"
    using assms
  proof (cases rule: apply_cases)
    case (2 i d snapshot)
    obtain p1 u where w: "pe_col env (fst (computeOutstandingAfterPayment (dm_totalPayable d) (dm_amountPaid d) (py_amount p))) = Some p1"
      "pe_col env (snd (computeOutstandingAfterPayment (dm_totalPayable d) (dm_amountPaid d) (py_amount p))) = Some u"
      "db' = update_demand (dm_id d) (paid_row p1 u) db"
      by (rule store_balanceD[OF 2(4)])
    have "paid_into env (lg_demands db) (py_amount p) d (lg_demands db')"
      using find_demand_id_in[OF 2(2)] 2(3) w by (auto simp: paid_into_def update_demand_def)
    then show ?thesis using 2(5) w(3) by auto
  qed simp
  then show "(extras = None \<and> lg_demands db' = lg_demands db) \<or>
    (\<exists>d snapshot. extras = Some (dm_id d, snapshot) \<and> paid_into env (lg_demands db) (py_amount p) d (lg_demands db'))"
    "lg_payments db' = lg_payments db" "lg_arrears db' = lg_arrears db" "lg_seq db' = lg_seq db" by blast+
qed

text \<open>A settlement: money applied when it is the first success, then the payment's update.\<close>

lemma settlement_step:
  assumes "payments_unique (lg_payments db)" "p \<in> set (lg_payments db)"
    and "lg_demands db1 = lg_demands db \<and> lg_payments db1 = lg_payments db \<and> lg_arrears db1 = lg_arrears db \<and> lg_seq db \<le> lg_seq db1"
    and "(if b \<and> first_success p then applyOnlineSuccessToDemand env db1 p rn t else Some (db1, None)) = Some (db2, extras)"
    and "update_payment (py_id p) f db2 = Some db3" "settled_as p extras (f p)"
  shows "money_step env new db db3 \<and> f p \<in> set (lg_payments db3) \<and>
    lg_payments db3 = replace_payment p (f p) (lg_payments db)"
proof -
  have a: "(extras = None \<and> lg_demands db2 = lg_demands db) \<or>
     (first_success p \<and> (\<exists>d snapshot. extras = Some (dm_id d, snapshot) \<and>
        paid_into env (lg_demands db) (py_amount p) d (lg_demands db2)))"
    and s: "lg_payments db2 = lg_payments db" "lg_arrears db2 = lg_arrears db" "lg_seq db \<le> lg_seq db2"
    using assms(3,4) apply_paid_into[of env db1 p rn t db2 extras] by (auto split: if_splits)
  note u = update_paymentD[OF assms(5)]
  have p: "lg_payments db3 = replace_payment p (f p) (lg_payments db)"
    using u replace_payment_map[OF assms(1,2)] s(1) by simp
  have "money_step env new db db3"
    by (rule money_step.settle[OF assms(2) p _ assms(6)]) (use u a s p in auto)
  then show ?thesis using p assms(2) by (auto simp: set_replace_payment)
qed

subsection \<open>Operations are steps\<close>

lemma quiet_same:
  "lg_demands db' = lg_demands db \<and> lg_payments db' = lg_payments db \<and> lg_arrears db' = lg_arrears db \<and> lg_seq db \<le> lg_seq db' \<Longrightarrow>
   money_step env new db db'"
  by (intro money_step.quiet) auto

lemma callback_audit_same [simp]:
  "lg_demands (callback_audit c p db) = lg_demands db" "lg_payments (callback_audit c p db) = lg_payments db"
  "lg_arrears (callback_audit c p db) = lg_arrears db" "lg_seq (callback_audit c p db) = lg_seq db"
  by (simp_all add: callback_audit_def Let_def)

lemma next_status_settles:
  "isGatewaySuccess c \<Longrightarrow> next_status c s = SUCCESS" "next_status c SUCCESS = SUCCESS"
  by (simp_all add: next_status_def Let_def)

definition same_money :: "ledger \<Rightarrow> ledger \<Rightarrow> bool" where
  "same_money db db' \<longleftrightarrow> lg_demands db' = lg_demands db \<and> lg_payments db' = lg_payments db \<and>
     lg_arrears db' = lg_arrears db \<and> lg_seq db' = lg_seq db"

lemma same_money_rules [simp]:
  "same_money db db" "same_money db (log_audit a e i u db)" "same_money db (callback_audit c p db)"
  "same_money db (add_transaction pid dir rq rs st db)" "same_money db (update_callback cid f db)"
  by (simp_all add: same_money_def)

lemma same_money_trans: "same_money a b \<Longrightarrow> same_money b c \<Longrightarrow> same_money a c"
  by (simp add: same_money_def)

lemma money_step_cong:
  assumes "same_money a a'" "same_money b b'" "money_step env new a b"
  shows "money_step env new a' b'"
  using assms(3)
proof cases
  case quiet
  then show ?thesis using assms(1,2) by (intro money_step.quiet) (simp_all add: same_money_def)
next
  case (settle p q extras)
  then show ?thesis using assms(1,2) by (intro money_step.settle[where p = p and q = q and extras = extras]) (simp_all add: same_money_def)
next
  case (take_in p x)
  then show ?thesis using assms(1,2) by (intro money_step.take_in[where p = p and x = x]) (simp_all add: same_money_def)
next
  case (refund p q x y s)
  then show ?thesis using assms(1,2)
    by (intro money_step.refund[where p = p and q = q and x = x and y = y and s = s]) (simp_all add: same_money_def)
qed

lemma same_money_step: "same_money db db' \<Longrightarrow> money_step env new db db'"
  by (intro quiet_same) (simp add: same_money_def)

lemma callback_transaction_step:
  assumes "payments_unique (lg_payments db)" "p \<in> set (lg_payments db)"
    and "callback_transaction env db existing p m parsed stored k = Some (db', c, q)"
  shows "money_step env new db db' \<and> lg_payments db' = replace_payment p q (lg_payments db) \<and>
    py_status q = next_status (pc_statusCode parsed) (py_status p)"
proof -
  obtain db1 c1 where r: "record_callback env existing p m parsed stored k db = (db1, c1)" by fastforce
  let ?b = "isGatewaySuccess (pc_statusCode parsed)" and ?rn = "receipt_number_of p"
  let ?t = "nullish (py_collectionDate p) (pe_now env)" and ?s = "next_status (pc_statusCode parsed) (py_status p)"
  obtain db2 extras db3 where a:
    "(if ?b \<and> first_success p then applyOnlineSuccessToDemand env db1 p ?rn ?t else Some (db1, None)) = Some (db2, extras)"
    and u: "update_payment (py_id p) (called_back ?s (pc_atomTxnId parsed) ?b ?rn ?t extras) db2 = Some db3"
    and d: "same_money db3 db'"
    and q: "q = called_back ?s (pc_atomTxnId parsed) ?b ?rn ?t extras p"
    using assms(3) r unfolding callback_transaction_def Let_def
    by (auto split: option.splits simp: same_money_def)
  have e: "extras = None \<or> ?b" using a by (auto split: if_splits)
  have sa: "settled_as p extras (called_back ?s (pc_atomTxnId parsed) ?b ?rn ?t extras p)"
    by (rule called_back_settled[OF e]) (auto simp: next_status_settles)
  note st = settlement_step[OF assms(1,2) record_callback_same[OF r] a u sa]
  have "py_status q = ?s" unfolding q
    by (cases extras) (auto simp: called_back_def with_receipt_def)
  moreover have "money_step env new db db'"
    by (rule money_step_cong[OF same_money_rules(1) d]) (use st in blast)
  ultimately show ?thesis using st d unfolding q same_money_def by metis
qed

lemma settle_callback_step:
  assumes "payments_unique (lg_payments db)" "p \<in> set (lg_payments db)"
    and "settle_callback env db p m parsed stored k = (db', r)"
  shows "money_step env new db db'"
    and "r = Inr (Processed c m' q) \<Longrightarrow> m' = m \<and> lg_payments db' = replace_payment p q (lg_payments db) \<and>
      py_status q = next_status (pc_statusCode parsed) (py_status p) \<and> \<not> amount_mismatch env p parsed"
proof -
  have "same_money db db' \<and> (\<forall>c m q. r \<noteq> Inr (Processed c m q)) \<or>
    (\<exists>db1 c q. callback_transaction env db (find_callback db k m) p m parsed stored k = Some (db1, c, q) \<and>
       db' = callback_audit parsed p db1 \<and> r = Inr (Processed c m q) \<and> \<not> amount_mismatch env p parsed)"
    using assms(3) unfolding settle_callback_def rejectWebhook_def Let_def
    by (auto split: option.splits if_splits)
  then consider "same_money db db'" "\<And>c m q. r \<noteq> Inr (Processed c m q)"
    | db1 c q where "callback_transaction env db (find_callback db k m) p m parsed stored k = Some (db1, c, q)"
       "db' = callback_audit parsed p db1" "r = Inr (Processed c m q)" "\<not> amount_mismatch env p parsed"
    by blast
  then have "money_step env new db db' \<and> (r = Inr (Processed c m' q) \<longrightarrow> m' = m \<and>
      lg_payments db' = replace_payment p q (lg_payments db) \<and>
      py_status q = next_status (pc_statusCode parsed) (py_status p) \<and> \<not> amount_mismatch env p parsed)"
  proof cases
    case 1
    then show ?thesis using same_money_step by blast
  next
    case 2
    note t = callback_transaction_step[OF assms(1,2) 2(1)]
    have "money_step env new db db'"
      by (rule money_step_cong[OF same_money_rules(1) _ t[THEN conjunct1]]) (simp add: 2(2))
    then show ?thesis using t 2 by auto
  qed
  then show "money_step env new db db'" and "r = Inr (Processed c m' q) \<Longrightarrow> m' = m \<and>
      lg_payments db' = replace_payment p q (lg_payments db) \<and>
      py_status q = next_status (pc_statusCode parsed) (py_status p) \<and> \<not> amount_mismatch env p parsed"
    by blast+
qed

lemma handleCallback_step:
  assumes "payments_unique (lg_payments db)" "handleCallback env db payload = (db', r)"
  shows "money_step env new db db'"
    and "r = Inr (Processed c m q) \<Longrightarrow> \<exists>parsed p. parseCallbackPayload env payload = Inr parsed \<and>
      find_merch db m = Some p \<and> lg_payments db' = replace_payment p q (lg_payments db) \<and>
      py_status q = next_status (pc_statusCode parsed) (py_status p) \<and> \<not> amount_mismatch env p parsed"
proof -
  let ?db = "log_audit ''PAYMENT_WEBHOOK_RECEIVED'' ''PaymentCallback'' None None db"
  have u: "payments_unique (lg_payments ?db)" and f: "find_merch ?db m = find_merch db m" for m
    using assms(1) by (simp_all add: find_merch_def)
  consider "same_money ?db db'" "\<And>c m q. r \<noteq> Inr (Processed c m q)"
    | parsed p m stored k where "parseCallbackPayload env payload = Inr parsed" "find_merch db m = Some p"
        "settle_callback env ?db p m parsed stored k = (db', r)"
    using assms(2) unfolding handleCallback_def rejectWebhook_def Let_def f
    by (auto split: sum.splits if_splits option.splits)
  then have "money_step env new db db' \<and> (r = Inr (Processed c m q) \<longrightarrow> (\<exists>parsed p.
      parseCallbackPayload env payload = Inr parsed \<and>
      find_merch db m = Some p \<and> lg_payments db' = replace_payment p q (lg_payments db) \<and>
      py_status q = next_status (pc_statusCode parsed) (py_status p) \<and> \<not> amount_mismatch env p parsed))"
  proof cases
    case 1
    then show ?thesis using same_money_step[OF same_money_trans[OF same_money_rules(2)]] by blast
  next
    case 2
    have p: "p \<in> set (lg_payments ?db)" using find_merch_in[OF 2(2)] by simp
    note t = settle_callback_step[OF u p 2(3)]
    have "money_step env new db db'"
      by (rule money_step_cong[OF _ same_money_rules(1) t(1)]) (simp add: same_money_def)
    then show ?thesis using t(2) 2(1,2) by auto
  qed
  then show "money_step env new db db'" and "r = Inr (Processed c m q) \<Longrightarrow> \<exists>parsed p.
      parseCallbackPayload env payload = Inr parsed \<and>
      find_merch db m = Some p \<and> lg_payments db' = replace_payment p q (lg_payments db) \<and>
      py_status q = next_status (pc_statusCode parsed) (py_status p) \<and> \<not> amount_mismatch env p parsed"
    by blast+
qed

lemma handleGatewayReturn_step:
  assumes "payments_unique (lg_payments db)" "handleGatewayReturn env db payload = (db', r)"
  shows "money_step env new db db'"
proof -
  obtain r0 where "handleCallback env db payload = (db', r0)"
    using assms(2) unfolding handleGatewayReturn_def Let_def
    by (auto split: prod.splits sum.splits option.splits)
  then show ?thesis by (rule handleCallback_step(1)[OF assms(1)])
qed

text \<open>Requeries.\<close>

lemma finalize_step:
  assumes "payments_unique (lg_payments db)" "p \<in> set (lg_payments db)"
    and "finalizeRequerySuccess env db p success a = (db', r)"
  shows "money_step env new db db'"
    and "r = Inr q \<Longrightarrow> q \<in> set (lg_payments db') \<and> py_id q = py_id p \<and> (success \<longrightarrow> py_status q = SUCCESS \<and> py_receiptNumber q \<noteq> None)"
proof -
  consider (failed) "db' = db" "\<exists>e. r = Inl e"
    | (unpaid) f where "\<not> success" "f = (\<lambda>q. q\<lparr>py_status := py_status p, py_atomTxnId := nullish_opt a (py_atomTxnId p)\<rparr>)"
        "update_payment (py_id p) f db = Some db'" "r = Inr (f p)"
    | (paid) db1 extras where "success"
        "(if True \<and> first_success p then applyOnlineSuccessToDemand env db p (receipt_number_of p)
            (nullish (py_collectionDate p) (pe_now env)) else Some (db, None)) = Some (db1, extras)"
        "update_payment (py_id p) (requeried a (receipt_number_of p) (nullish (py_collectionDate p) (pe_now env)) extras) db1 = Some db'"
        "r = Inr (requeried a (receipt_number_of p) (nullish (py_collectionDate p) (pe_now env)) extras p)"
    using assms(3) unfolding finalizeRequerySuccess_def Let_def
    by (auto split: if_splits option.splits)
  then have "money_step env new db db' \<and> (r = Inr q \<longrightarrow> q \<in> set (lg_payments db') \<and> py_id q = py_id p \<and>
      (success \<longrightarrow> py_status q = SUCCESS \<and> py_receiptNumber q \<noteq> None))"
  proof cases
    case failed
    then show ?thesis using same_money_step[OF same_money_rules(1)] by auto
  next
    case unpaid
    have "settled_as p None (f p)" unfolding unpaid(2) by (simp add: settled_as_def)
    then have "money_step env new db db' \<and> f p \<in> set (lg_payments db')"
      using settlement_step[where b = False and extras = None and ?db1.0 = db and env = env and new = new, OF assms(1,2) _ _ unpaid(3)] by auto
    then show ?thesis using unpaid(1,4) by (auto simp: unpaid(2))
  next
    case paid
    let ?q = "requeried a (receipt_number_of p) (nullish (py_collectionDate p) (pe_now env)) extras p"
    have "money_step env new db db' \<and> ?q \<in> set (lg_payments db')"
      using settlement_step[where new = new, OF assms(1,2) _ paid(2,3) requeried_settled] by auto
    moreover have "py_status ?q = SUCCESS \<and> py_id ?q = py_id p \<and> py_receiptNumber ?q \<noteq> None"
      by (cases extras) (auto simp: requeried_def with_receipt_def unset_def)
    ultimately show ?thesis using paid(1,4) by auto
  qed
  then show "money_step env new db db'"
    and "r = Inr q \<Longrightarrow> q \<in> set (lg_payments db') \<and> py_id q = py_id p \<and> (success \<longrightarrow> py_status q = SUCCESS \<and> py_receiptNumber q \<noteq> None)"
    by blast+
qed

lemma requery_step:
  assumes "payments_unique (lg_payments db)" "requery env db i user = (db', r)"
  shows "money_step env new db db'"
proof -
  consider "same_money db db'"
    | p and res :: requery_result and db2 r2 where "find_payment db i = Some p"
        "finalizeRequerySuccess env (add_transaction i ''requery'' None (Some (rq_raw res)) (Some (rq_statusCode res)) db) p
           (rq_success res) (rq_atomTxnId res) = (db2, r2)" "same_money db2 db'"
    using assms(2) unfolding requery_def Let_def
    by (auto split: option.splits if_splits sum.splits prod.splits)
  then show ?thesis
  proof cases
    case 1
    then show ?thesis by (rule same_money_step)
  next
    case 2
    let ?db = "add_transaction i ''requery'' None (Some (rq_raw res)) (Some (rq_statusCode res)) db"
    have "payments_unique (lg_payments ?db)" "p \<in> set (lg_payments ?db)"
      using assms(1) find_payment_id[OF 2(1)] by simp_all
    from money_step_cong[OF _ 2(3) finalize_step(1)[OF this 2(2)]] show ?thesis by (simp add: same_money_def)
  qed
qed

lemma sync_step:
  assumes "payments_unique (lg_payments db)" "syncCitizenPaymentByMerchTxnId env db m = (db', r)"
  shows "money_step env new db db'"
proof -
  consider "db' = db"
    | p and res :: requery_result and r2 where "find_merch db m = Some p"
        "finalizeRequerySuccess env (add_transaction (py_id p) ''requery'' None (Some (rq_raw res)) (Some (rq_statusCode res)) db) p
           (rq_success res) (rq_atomTxnId res) = (db', r2)"
    using assms(2) unfolding syncCitizenPaymentByMerchTxnId_def Let_def
    by (auto split: option.splits if_splits sum.splits prod.splits)
  then show ?thesis
  proof cases
    case 1
    then show ?thesis using same_money_step[OF same_money_rules(1)] by simp
  next
    case 2
    let ?db = "add_transaction (py_id p) ''requery'' None (Some (rq_raw res)) (Some (rq_statusCode res)) db"
    have "payments_unique (lg_payments ?db)" "p \<in> set (lg_payments ?db)"
      using assms(1) find_merch_in[OF 2(1)] by simp_all
    from money_step_cong[OF _ same_money_rules(1) finalize_step(1)[OF this 2(2)]] show ?thesis
      by (simp add: same_money_def)
  qed
qed

text \<open>Refunds.\<close>

lemma refund_cases:
  assumes "refund env db i amount reason user = (db', r)"
  obtains (quiet) "same_money db db'"
  | (refunded) p rs y where "find_payment db i = Some p" "py_status p = SUCCESS"
      "amount \<le> nullish (py_refundableAmount p) (py_amount p)"
      "pe_col env (fl (nullish (py_refundableAmount p) (py_amount p) - amount)) = Some y"
      "update_payment i (refunded (fl (nullish (py_refundableAmount p) (py_amount p) - amount)) y) (db\<lparr>lg_refunds := rs\<rparr>) = Some db'"
  using assms unfolding refund_def Let_def
  by (auto simp: same_money_def split: option.splits if_splits sum.splits)

lemma refund_step:
  assumes "payments_unique (lg_payments db)" "refund env db i amount reason user = (db', r)"
  shows "money_step env new db db'"
  using assms(2)
proof (cases rule: refund_cases)
  case quiet
  then show ?thesis by (rule same_money_step)
next
  case (refunded p rs y)
  let ?f = "Callbacks.refunded (fl (nullish (py_refundableAmount p) (py_amount p) - amount)) y"
  have p: "py_id p = i" "p \<in> set (lg_payments db)" using find_payment_id[OF refunded(1)] by simp_all
  note u = update_paymentD[OF refunded(5)]
  have "lg_payments db' = replace_payment p (?f p) (lg_payments db)"
    using u replace_payment_map[OF assms(1) p(2), of ?f] p(1) by simp
  then show ?thesis
    by (rule money_step.refund[OF p(2) _ _ refunded(2,4)]) (use u in \<open>auto simp: Callbacks.refunded_def split: if_splits\<close>)
qed

text \<open>New payments.\<close>

lemma map_filter_snoc:
  "List.map_filter k (xs @ [x]) = List.map_filter k xs @ (case k x of None \<Rightarrow> [] | Some y \<Rightarrow> [y])"
  by (simp add: map_filter_def split: option.splits)

lemma set_status_new:
  assumes "payments_unique (ps @ [p])" "lg_payments db = ps @ [p]"
  shows "lg_payments (set_status (py_id p) s db) = ps @ [p\<lparr>py_status := s\<rparr>] \<and> payments_unique (ps @ [p\<lparr>py_status := s\<rparr>])"
proof -
  have n: "py_id q \<noteq> py_id p" if "q \<in> set ps" for q
    using assms(1) that by (auto simp: payments_unique_def) (metis imageI)
  have "map (\<lambda>q. if py_id q = py_id p then q\<lparr>py_status := s\<rparr> else q) ps = map (\<lambda>q. q) ps"
    by (rule map_cong) (use n in auto)
  then have "lg_payments (set_status (py_id p) s db) = ps @ [p\<lparr>py_status := s\<rparr>]"
    using assms(2) by (simp add: set_status_def)
  moreover have "payments_unique (ps @ [p\<lparr>py_status := s\<rparr>])"
    using assms(1) by (simp add: payments_unique_def map_filter_snoc)
  ultimately show ?thesis by blast
qed

lemma createOnlinePayment_cases:
  assumes "createOnlinePayment env db inp c text = (db', r)"
  obtains (refused) "db' = db" "\<exists>e. r = Inl e"
  | (created) p x db1 db2 s where "pe_col env (or_amount inp) = Some x" "p = initiated_payment env db inp c x"
      "insert_payment p db = Some db1" "same_money db1 db2" "db' = set_status (py_id p) s db2" "s = PENDING \<or> s = FAILED"
      "\<forall>q g. r = Inr (q, g) \<longrightarrow> s = PENDING \<and> q = p\<lparr>py_status := PENDING\<rparr>"
proof -
  note c = assms[unfolded createOnlinePayment_def Let_def]
  show thesis
  proof (cases "pe_col env (or_amount inp)")
    case None
    then show thesis using c refused by auto
  next
    case (Some x)
    let ?p = "initiated_payment env db inp c x"
    show thesis
    proof (cases "insert_payment ?p db")
      case None
      then show thesis using c Some refused by auto
    next
      case (Some db1)
      obtain db2 s where "same_money db1 db2" "db' = set_status (py_id ?p) s db2" "s = PENDING \<or> s = FAILED"
        "\<forall>q g. r = Inr (q, g) \<longrightarrow> s = PENDING \<and> q = ?p\<lparr>py_status := PENDING\<rparr>"
        using c Some \<open>pe_col env (or_amount inp) = Some x\<close>
        by (auto split: sum.splits if_splits) (blast intro: same_money_rules)+
      then show thesis using created Some \<open>pe_col env (or_amount inp) = Some x\<close> by blast
    qed
  qed
qed

lemma createOnlinePayment_step:
  assumes "createOnlinePayment env db inp c text = (db', r)"
  shows "money_step env True db db'"
  using assms
proof (cases rule: createOnlinePayment_cases)
  case refused
  then show ?thesis using same_money_step[OF same_money_rules(1)] by simp
next
  case (created p x db1 db2 s)
  note i = insert_paymentD[OF created(3)]
  have f: "lg_payments db2 = lg_payments db @ [p]" "lg_demands db2 = lg_demands db" "lg_arrears db2 = lg_arrears db"
    "lg_seq db2 = Suc (lg_seq db)" using i created(4) by (simp_all add: same_money_def)
  have n: "lg_payments db' = lg_payments db @ [p\<lparr>py_status := s\<rparr>] \<and> payments_unique (lg_payments db @ [p\<lparr>py_status := s\<rparr>])"
    using set_status_new[of "lg_payments db" p db2 s] i f(1) created(5) by simp
  show ?thesis
    by (rule money_step.take_in[where p = "p\<lparr>py_status := s\<rparr>" and x = "or_amount inp"])
      (use n f created in \<open>auto simp: initiated_payment_def Let_def\<close>)
qed

lemma createOnline_step:
  assumes "createOnline env db inp user text = (db', r)"
  shows "money_step env True db db'"
proof -
  consider "db' = db" | inp' where "createOnlinePayment env db inp' (Some (us_id user)) text = (db', r)"
    using assms unfolding createOnline_def by (auto split: option.splits sum.splits)
  then show ?thesis
    by cases (auto intro: createOnlinePayment_step same_money_step)
qed

lemma createCitizenOnline_step: "createCitizenOnline env db inp text = (db', r) \<Longrightarrow> money_step env True db db'"
  unfolding createCitizenOnline_def by (rule createOnlinePayment_step)

text \<open>Collection at the counter.\<close>

lemma offline_transaction_cases:
  assumes "offline_transaction env db inp survey i userId = Inr (db', p)"
  obtains d x snapshot rn db1 where "find_demand_id db i = Some d" "dm_status d = D_PUBLISHED"
    "assertOfflineAmountAgainstOutstanding (of_amount inp) (dm_outstanding d) = Inr ()"
    "pe_col env (of_amount inp) = Some x" "p = offline_payment env db inp survey d userId snapshot rn x"
    "insert_payment p db = Some db1"
    "store_balance env d (computeOutstandingAfterPayment (dm_totalPayable d) (dm_amountPaid d) (of_amount inp)) db1 = Some db'"
  using assms unfolding offline_transaction_def Let_def
  by (auto split: option.splits if_splits sum.splits)

lemma offline_transaction_step:
  assumes "offline_transaction env db inp survey i userId = Inr (db', p)"
  shows "money_step env True db db' \<and> lg_payments db' = lg_payments db @ [p] \<and> py_status p = SUCCESS \<and>
    (\<exists>d. find_demand_id db i = Some d \<and> dm_status d = D_PUBLISHED \<and> py_demandId p = Some i \<and>
       assertOfflineAmountAgainstOutstanding (of_amount inp) (dm_outstanding d) = Inr () \<and>
       pe_col env (of_amount inp) = Some (py_amount p) \<and>
       paid_into env (lg_demands db) (of_amount inp) d (lg_demands db'))"
proof -
  obtain d x snapshot rn db1 where c: "find_demand_id db i = Some d" "dm_status d = D_PUBLISHED"
    "assertOfflineAmountAgainstOutstanding (of_amount inp) (dm_outstanding d) = Inr ()"
    "pe_col env (of_amount inp) = Some x" "p = offline_payment env db inp survey d userId snapshot rn x"
    "insert_payment p db = Some db1"
    "store_balance env d (computeOutstandingAfterPayment (dm_totalPayable d) (dm_amountPaid d) (of_amount inp)) db1 = Some db'"
    by (rule offline_transaction_cases[OF assms])
  note i = insert_paymentD[OF c(6)] and d = find_demand_id_in[OF c(1)]
  obtain p1 u where b: "pe_col env (fst (computeOutstandingAfterPayment (dm_totalPayable d) (dm_amountPaid d) (of_amount inp))) = Some p1"
    "pe_col env (snd (computeOutstandingAfterPayment (dm_totalPayable d) (dm_amountPaid d) (of_amount inp))) = Some u"
    "db' = update_demand (dm_id d) (paid_row p1 u) db1"
    by (rule store_balanceD[OF c(7)])
  have pi: "paid_into env (lg_demands db) (of_amount inp) d (lg_demands db')"
    using d c(2) b i by (auto simp: paid_into_def update_demand_def)
  have p: "py_amount p = x" "py_refundableAmount p = Some x" "py_status p = SUCCESS" "py_receiptSnapshot p \<noteq> None"
    "py_demandId p = Some (dm_id d)" by (simp_all add: c(5) offline_payment_def Let_def)
  have "money_step env True db db'"
    by (rule money_step.take_in[where p = p and x = "of_amount inp"]) (use i b p pi c(4) in \<open>auto simp: update_demand_def\<close>)
  then show ?thesis using i b p pi c d by (auto simp: update_demand_def)
qed

lemma createOffline_cases:
  assumes "createOffline env db inp user = (db', r)"
  obtains (refused) e where "db' = db" "r = Inl e"
  | (seen) p where "db' = db" "find_key db (given_text (of_clientIdempotencyKey inp)) = Some p"
      "r = Inr (toStaffReceipt env db p)"
  | (collected) survey demand p db1 where "assertOfflinePaymentMode (of_mode inp) = Inr ()"
      "find_key db (given_text (of_clientIdempotencyKey inp)) = None"
      "offline_demand env db inp user = Inr (survey, demand)"
      "offline_transaction env db inp survey (dm_id demand) (us_id user) = Inr (db1, p)" "same_money db1 db'"
      "r = Inr (toStaffReceipt env db' p)"
  using assms unfolding createOffline_def Let_def
  by (auto split: sum.splits option.splits prod.splits payment_error.splits simp: res_iffs lift_offline_def)

lemma createOffline_step:
  assumes "createOffline env db inp user = (db', r)"
  shows "money_step env True db db'"
  using assms
proof (cases rule: createOffline_cases)
  case (collected survey demand p db1)
  show ?thesis
    by (rule money_step_cong[OF same_money_rules(1) collected(5)])
      (use offline_transaction_step[OF collected(4)] in blast)
qed (simp_all add: same_money_step)

lemma ingestSettlement_step: "ingestSettlement env parse db raw = (db', r) \<Longrightarrow> money_step env True db db'"
  unfolding ingestSettlement_def Let_def
  by (intro same_money_step) (auto simp: same_money_def split: option.splits)

subsection \<open>What a step keeps\<close>

definition payments_ok :: "ledger \<Rightarrow> bool" where
  "payments_ok db \<longleftrightarrow> payments_unique (lg_payments db) \<and>
     (\<forall>p \<in> set (lg_payments db). \<exists>n. in_column n \<and> py_amount p = paise n)"

definition system_ok :: "(nat \<Rightarrow> string) \<Rightarrow> ledger \<Rightarrow> bool" where
  "system_ok cuid db \<longleftrightarrow> ledger_ok cuid db \<and> payments_ok db"

text \<open>Every receipt that was written stays as it was written.\<close>

definition keeps_receipts :: "ledger \<Rightarrow> ledger \<Rightarrow> bool" where
  "keeps_receipts db db' \<longleftrightarrow>
     (\<forall>p \<in> set (lg_payments db). \<exists>q \<in> set (lg_payments db'). py_id q = py_id p \<and> py_amount q = py_amount p \<and>
        (py_receiptSnapshot p \<noteq> None \<longrightarrow> py_receiptSnapshot q = py_receiptSnapshot p \<and> py_demandId q = py_demandId p) \<and>
        (\<not> unset (py_receiptNumber p) \<longrightarrow> py_receiptNumber q = py_receiptNumber p))"

lemma keeps_receipts_same: "lg_payments db' = lg_payments db \<Longrightarrow> keeps_receipts db db'"
  by (auto simp: keeps_receipts_def)

lemma keeps_receipts_trans:
  assumes "keeps_receipts a b" "keeps_receipts b c"
  shows "keeps_receipts a c"
  unfolding keeps_receipts_def
proof
  fix p assume "p \<in> set (lg_payments a)"
  then obtain q where q: "q \<in> set (lg_payments b)" "py_id q = py_id p" "py_amount q = py_amount p"
    "py_receiptSnapshot p \<noteq> None \<Longrightarrow> py_receiptSnapshot q = py_receiptSnapshot p \<and> py_demandId q = py_demandId p"
    "\<not> unset (py_receiptNumber p) \<Longrightarrow> py_receiptNumber q = py_receiptNumber p"
    using assms(1) unfolding keeps_receipts_def by blast
  obtain r where r: "r \<in> set (lg_payments c)" "py_id r = py_id q" "py_amount r = py_amount q"
    "py_receiptSnapshot q \<noteq> None \<Longrightarrow> py_receiptSnapshot r = py_receiptSnapshot q \<and> py_demandId r = py_demandId q"
    "\<not> unset (py_receiptNumber q) \<Longrightarrow> py_receiptNumber r = py_receiptNumber q"
    using assms(2) q(1) unfolding keeps_receipts_def by blast
  show "\<exists>q \<in> set (lg_payments c). py_id q = py_id p \<and> py_amount q = py_amount p \<and>
      (py_receiptSnapshot p \<noteq> None \<longrightarrow> py_receiptSnapshot q = py_receiptSnapshot p \<and> py_demandId q = py_demandId p) \<and>
      (\<not> unset (py_receiptNumber p) \<longrightarrow> py_receiptNumber q = py_receiptNumber p)"
    by (rule bexI[OF _ r(1)]) (use q r in auto)
qed

lemma keeps_receipts_replace:
  assumes "payments_unique (lg_payments db)" "p \<in> set (lg_payments db)" "lg_payments db' = replace_payment p q (lg_payments db)"
    and "py_id q = py_id p" "py_amount q = py_amount p"
    and "py_receiptSnapshot p \<noteq> None \<Longrightarrow> py_receiptSnapshot q = py_receiptSnapshot p \<and> py_demandId q = py_demandId p"
    and "\<not> unset (py_receiptNumber p) \<Longrightarrow> py_receiptNumber q = py_receiptNumber p"
  shows "keeps_receipts db db'"
  unfolding keeps_receipts_def
proof
  fix r assume r: "r \<in> set (lg_payments db)"
  show "\<exists>q \<in> set (lg_payments db'). py_id q = py_id r \<and> py_amount q = py_amount r \<and>
      (py_receiptSnapshot r \<noteq> None \<longrightarrow> py_receiptSnapshot q = py_receiptSnapshot r \<and> py_demandId q = py_demandId r) \<and>
      (\<not> unset (py_receiptNumber r) \<longrightarrow> py_receiptNumber q = py_receiptNumber r)"
  proof (cases "py_id r = py_id p")
    case True
    then have "r = p" using assms(1,2) r by (auto simp: payments_unique_def distinct_map dest: inj_onD)
    then show ?thesis using assms r by (intro bexI[of _ q]) (auto simp: set_replace_payment)
  next
    case False
    then show ?thesis using assms(3) r by (intro bexI[of _ r]) (auto simp: set_replace_payment)
  qed
qed

lemma paid_into_ok:
  assumes "decimal_column (pe_col env)" "demands_ok cuid db" "books_balance db" "paid_into env (lg_demands db) x d (lg_demands db')"
    and "lg_seq db \<le> lg_seq db'"
  shows "demands_ok cuid db' \<and> books_balance db'"
proof -
  obtain p u where w: "pe_col env (fst (computeOutstandingAfterPayment (dm_totalPayable d) (dm_amountPaid d) x)) = Some p"
    "pe_col env (snd (computeOutstandingAfterPayment (dm_totalPayable d) (dm_amountPaid d) x)) = Some u"
    and m: "lg_demands db' = lg_demands (update_demand (dm_id d) (paid_row p u) db)" and d: "d \<in> set (lg_demands db)"
    using assms(4) by (auto simp: paid_into_def update_demand_def)
  obtain p0 u0 where b: "computeOutstandingAfterPayment (dm_totalPayable d) (dm_amountPaid d) x = (p0, u0)" by fastforce
  have "books_balance (update_demand (dm_id d) (paid_row p u) db)"
  proof (rule update_books[OF assms(3)])
    fix e assume "e \<in> set (lg_demands db)" "dm_id e = dm_id d" "balanced e"
    then have e: "e = d" using find_demand_id_unique[OF assms(2)] d by (metis option.inject)
    have c: "pe_col env p0 = Some p" "pe_col env u0 = Some u" using w b by simp_all
    show "balanced (paid_row p u e)"
      using paid_balance[OF assms(1) \<open>balanced e\<close>[unfolded e] b c] e by blast
  qed
  moreover have "demands_ok cuid db'"
    by (rule demands_ok_mono[OF update_demand_ok[OF assms(2) paid_row_keys] m])
      (use assms(5) in \<open>simp add: update_demand_def\<close>)
  ultimately show ?thesis using m by (simp add: books_balance_def)
qed

lemma money_step_ok:
  assumes "decimal_column (pe_col env)" "system_ok cuid db" "money_step env new db db'"
  shows "system_ok cuid db' \<and> keeps_receipts db db'"
proof -
  have ok: "demands_ok cuid db" "books_balance db" "arrears_unique db" "payments_unique (lg_payments db)"
    "\<And>p. p \<in> set (lg_payments db) \<Longrightarrow> \<exists>n. in_column n \<and> py_amount p = paise n"
    using assms(2) by (auto simp: system_ok_def ledger_ok_def payments_ok_def)
  have d: "demands_ok cuid db' \<and> books_balance db'"
    if "lg_demands db' = lg_demands db \<or> (\<exists>x d. paid_into env (lg_demands db) x d (lg_demands db'))" "lg_seq db \<le> lg_seq db'"
    using that paid_into_ok[OF assms(1) ok(1,2)] demands_ok_mono[OF ok(1)] ok(2)
    by (auto simp: books_balance_def)
  from assms(3) show ?thesis
  proof cases
    case quiet
    then show ?thesis
      using d ok by (auto simp: system_ok_def ledger_ok_def payments_ok_def arrears_unique_def keeps_receipts_same)
  next
    case (settle p q extras)
    have q: "py_id q = py_id p" "py_amount q = py_amount p"
      "py_receiptSnapshot p \<noteq> None \<Longrightarrow> py_receiptSnapshot q = py_receiptSnapshot p \<and> py_demandId q = py_demandId p"
      "\<not> unset (py_receiptNumber p) \<Longrightarrow> py_receiptNumber q = py_receiptNumber p"
      using settle(4,5) by (auto simp: settled_as_def first_success_def split: option.splits)
    have "payments_ok db'"
      using settle(1-3) ok(5) q(2) by (auto simp: payments_ok_def set_replace_payment)
    then show ?thesis using d settle ok(3) keeps_receipts_replace[OF ok(4) settle(1,2) q]
      by (auto simp: system_ok_def ledger_ok_def arrears_unique_def)
  next
    case (take_in p x)
    have "payments_ok db'" using take_in col_whole_paise[OF assms(1)] ok(5) by (auto simp: payments_ok_def)
    moreover have "keeps_receipts db db'" using take_in(2) by (auto simp: keeps_receipts_def)
    ultimately show ?thesis using d take_in ok(3) by (auto simp: system_ok_def ledger_ok_def arrears_unique_def)
  next
    case (refund p q x y s)
    have q: "py_id q = py_id p" "py_amount q = py_amount p" using refund(6) by simp_all
    have "payments_ok db'"
      using refund(1-3) ok(5) q(2) by (auto simp: payments_ok_def set_replace_payment)
    then show ?thesis using d refund ok(3) keeps_receipts_replace[OF ok(4) refund(1,2) q]
      by (auto simp: system_ok_def ledger_ok_def arrears_unique_def)
  qed
qed

definition keeps_success :: "ledger \<Rightarrow> ledger \<Rightarrow> bool" where
  "keeps_success db db' \<longleftrightarrow>
     (\<forall>p \<in> set (lg_payments db). py_status p = SUCCESS \<longrightarrow>
        (\<exists>q \<in> set (lg_payments db'). py_id q = py_id p \<and> py_status q \<in> {SUCCESS, REFUNDED, PARTIALLY_REFUNDED}))"

lemma keeps_success_same: "lg_payments db' = lg_payments db \<Longrightarrow> keeps_success db db'"
  by (auto simp: keeps_success_def)

lemma keeps_success_replace:
  assumes "payments_unique (lg_payments db)" "p \<in> set (lg_payments db)" "lg_payments db' = replace_payment p q (lg_payments db)"
    and "py_id q = py_id p" "py_status p = SUCCESS \<Longrightarrow> py_status q \<in> {SUCCESS, REFUNDED, PARTIALLY_REFUNDED}"
  shows "keeps_success db db'"
  unfolding keeps_success_def
proof (intro ballI impI)
  fix r assume r: "r \<in> set (lg_payments db)" "py_status r = SUCCESS"
  show "\<exists>q \<in> set (lg_payments db'). py_id q = py_id r \<and> py_status q \<in> {SUCCESS, REFUNDED, PARTIALLY_REFUNDED}"
  proof (cases "py_id r = py_id p")
    case True
    then have "r = p" using assms(1,2) r by (auto simp: payments_unique_def distinct_map dest: inj_onD)
    then show ?thesis using assms r by (intro bexI[of _ q]) (auto simp: set_replace_payment)
  next
    case False
    then show ?thesis using assms(3) r by (intro bexI[of _ r]) (auto simp: set_replace_payment)
  qed
qed

lemma money_step_success:
  assumes "payments_unique (lg_payments db)" "money_step env new db db'"
  shows "keeps_success db db'"
  using assms(2)
proof cases
  case (settle p q extras)
  then show ?thesis by (intro keeps_success_replace[OF assms(1) settle(1,2)]) (auto simp: settled_as_def)
next
  case (take_in p x)
  then show ?thesis by (auto simp: keeps_success_def)
next
  case (refund p q x y s)
  then show ?thesis by (intro keeps_success_replace[OF assms(1) refund(1,2)]) auto
qed (simp add: keeps_success_same)

end
