(* ===== verification/Settlement.thy ===== *)
theory Settlement
  imports PaymentHistory
begin

text \<open>
  The guarantees of the payment service, one operation at a time: the counter collects exactly what it
  reports or nothing, a client key collects once, a gateway's answer pays a demand exactly and only the
  first time, a citizen's sync settles what the gateway reports as paid, and a refund takes exactly
  its amount off what is refundable.
\<close>

subsection \<open>Exact amounts\<close>

lemma paid_into_exact:
  assumes "decimal_column (pe_col env)" "demands_ok cuid db" "books_balance db"
    and "paid_into env (lg_demands db) (paise n) d (lg_demands db')" "in_column n"
  obtains t a where "dm_totalPayable d = paise t" "dm_amountPaid d = paise a" "dm_outstanding d = paise (max 0 (t - a))"
    "in_column t" "in_column a" "in_column (a + n)" "find_demand_id db (dm_id d) = Some d"
    "find_demand_id db' (dm_id d) = Some (paid_row (paise (a + n)) (paise (max 0 (t - (a + n)))) d)"
    "\<forall>j. j \<noteq> dm_id d \<longrightarrow> find_demand_id db' j = find_demand_id db j"
proof -
  obtain p u where w: "pe_col env (fst (computeOutstandingAfterPayment (dm_totalPayable d) (dm_amountPaid d) (paise n))) = Some p"
    "pe_col env (snd (computeOutstandingAfterPayment (dm_totalPayable d) (dm_amountPaid d) (paise n))) = Some u"
    and m: "lg_demands db' = map (\<lambda>e. if dm_id e = dm_id d then paid_row p u e else e) (lg_demands db)"
    and d: "d \<in> set (lg_demands db)"
    using assms(4) by (auto simp: paid_into_def)
  have "balanced d" using assms(3) d by (simp add: books_balance_def)
  then obtain t a where ta: "in_column t" "in_column a" "in_column (max 0 (t - a))" "dm_totalPayable d = paise t"
    "dm_amountPaid d = paise a" "dm_outstanding d = paise (max 0 (t - a))"
    by (auto simp: balanced_def)
  have p0: "fst (computeOutstandingAfterPayment (paise t) (paise a) (paise n)) = paise (a + n)"
    using roundMoney_add[OF ta(2) assms(5)] by (simp add: computeOutstandingAfterPayment_def Let_def)
  have p: "in_column (a + n)" "p = paise (a + n)"
    using col_paise[OF assms(1)] w(1) unfolding ta(4,5) p0 by blast+
  have "snd (computeOutstandingAfterPayment (paise t) (paise a) (paise n)) = paise (max 0 (t - (a + n)))"
    using p0 roundMoney_sub_max[OF ta(1) p(1)] by (simp add: computeOutstandingAfterPayment_def Let_def)
  then have u: "u = paise (max 0 (t - (a + n)))"
    using col_paise[OF assms(1)] w(2) unfolding ta(4,5) by simp
  have f: "find_demand_id db (dm_id d) = Some d" by (rule find_demand_id_unique[OF assms(2) d])
  have g: "find_demand_id db' j = map_option (\<lambda>e. if dm_id e = dm_id d then paid_row p u e else e) (find_demand_id db j)" for j
    unfolding find_demand_id_def m by (rule find_map_id) (simp add: paid_row_def)
  have "find_demand_id db' j = find_demand_id db j" if "j \<noteq> dm_id d" for j
    unfolding g using find_demand_id_in[of db j] that by (cases "find_demand_id db j") auto
  moreover have "find_demand_id db' (dm_id d) = Some (paid_row p u d)" by (simp add: g f)
  ultimately show thesis using ta p u f by (intro that[of t a]) auto
qed

lemma system_okD:
  assumes "system_ok cuid db"
  shows "demands_ok cuid db" "books_balance db" "payments_unique (lg_payments db)"
    "p \<in> set (lg_payments db) \<Longrightarrow> \<exists>n. in_column n \<and> py_amount p = paise n"
  using assms by (auto simp: system_ok_def ledger_ok_def payments_ok_def)

subsection \<open>The counter\<close>

text \<open>C4. A collection at the counter that succeeds creates one successful payment over exactly the
  amount, for a published demand that had at least that much outstanding; the paid amount of that
  demand grows by exactly the amount, its outstanding amount shrinks by exactly the amount, and no
  other demand and no other payment changes.\<close>

theorem offline_collection_exact:
  assumes "decimal_column (pe_col env)" "system_ok cuid db" "of_amount inp = paise n" "in_column n"
    and "find_key db (given_text (of_clientIdempotencyKey inp)) = None"
    and "createOffline env db inp user = (db', Inr receipt)"
  shows "\<exists>p d t a. lg_payments db' = lg_payments db @ [p] \<and> py_status p = SUCCESS \<and> py_amount p = paise n \<and>
    receipt = toStaffReceipt env db' p \<and> py_demandId p = Some (dm_id d) \<and>
    find_demand_id db (dm_id d) = Some d \<and> dm_status d = D_PUBLISHED \<and>
    dm_totalPayable d = paise t \<and> dm_amountPaid d = paise a \<and> dm_outstanding d = paise (t - a) \<and>
    0 < n \<and> n \<le> t - a \<and>
    find_demand_id db' (dm_id d) = Some (paid_row (paise (a + n)) (paise (t - a - n)) d) \<and>
    (\<forall>j. j \<noteq> dm_id d \<longrightarrow> find_demand_id db' j = find_demand_id db j)"
  using assms(6)
proof (cases rule: createOffline_cases)
  case (collected survey demand p db1)
  note ok = system_okD[OF assms(2)]
  obtain d where d: "find_demand_id db (dm_id demand) = Some d" "dm_status d = D_PUBLISHED"
    "py_demandId p = Some (dm_id demand)" "assertOfflineAmountAgainstOutstanding (paise n) (dm_outstanding d) = Inr ()"
    "pe_col env (paise n) = Some (py_amount p)" "paid_into env (lg_demands db) (paise n) d (lg_demands db1)"
    "lg_payments db1 = lg_payments db @ [p]" "py_status p = SUCCESS"
    using offline_transaction_step[OF collected(4)] assms(3) by metis
  have same: "lg_demands db' = lg_demands db1" "lg_payments db' = lg_payments db1"
    using collected(5) by (simp_all add: same_money_def)
  have pi: "paid_into env (lg_demands db) (paise n) d (lg_demands db')" using d(6) same by simp
  have dd: "dm_id demand = dm_id d" using find_demand_id_in[OF d(1)] by simp
  have am: "py_amount p = paise n" using d(5) col_paise[OF assms(1)] by blast
  from paid_into_exact[OF assms(1) ok(1,2) pi assms(4)]
  obtain t a where e: "dm_totalPayable d = paise t" "dm_amountPaid d = paise a" "dm_outstanding d = paise (max 0 (t - a))"
    "in_column t" "in_column a" "in_column (a + n)" "find_demand_id db (dm_id d) = Some d"
    "find_demand_id db' (dm_id d) = Some (paid_row (paise (a + n)) (paise (max 0 (t - (a + n)))) d)"
    "\<forall>j. j \<noteq> dm_id d \<longrightarrow> find_demand_id db' j = find_demand_id db j"
    by metis
  have "balanced d" using find_demand_id_balanced[OF ok(2) d(1)] .
  then obtain k where k: "dm_outstanding d = paise k" "in_column k" by (auto simp: balanced_def)
  have "paise (max 0 (t - a)) = paise k" using k e by simp
  have c: "in_column (max 0 (t - a))"
    using \<open>balanced d\<close> e(1,2,4,5) paise_inject by (auto simp: balanced_def)
  have n: "0 < n" "n \<le> max 0 (t - a)"
    using offline_amount_iff[OF assms(4) c] d(4) e(3) by auto
  then have m: "max 0 (t - a) = t - a" "max 0 (t - (a + n)) = t - a - n" by auto
  show ?thesis
    by (intro exI[of _ p] exI[of _ d] exI[of _ t] exI[of _ a])
      (use d e m n am dd same collected(6) in auto)
qed (use assms(5) in auto)

text \<open>C26. A collection that fails writes nothing at all: no payment, no change of a demand, no audit
  entry. The failure is one of the service's own refusals, a denied access, a duplicate key, or a value
  that does not fit its column.\<close>

theorem failed_collection_writes_nothing:
  assumes "createOffline env db inp user = (db', Inl e)"
  shows "db' = db \<and> (e \<in> {SURVEY_REQUIRED, SURVEY_NOT_FOUND, DEMAND_UNPUBLISHED, RECEIPT_NUMBER_EXISTS, Database_error} \<or>
    (\<exists>x. e = Denied x) \<or> (\<exists>x. e = Offline x))"
proof -
  have "db' = db" using assms by (cases rule: createOffline_cases) auto
  moreover have o: "x \<in> {DEMAND_UNPUBLISHED, RECEIPT_NUMBER_EXISTS, Database_error} \<or> (\<exists>y. x = Offline y)"
    if "offline_transaction env db inp s i u = Inl x" for s i u x
    using that unfolding offline_transaction_def Let_def by (auto split: option.splits if_splits sum.splits)
  have f: "x \<in> {SURVEY_NOT_FOUND, DEMAND_UNPUBLISHED} \<or> (\<exists>y. x = Offline y) \<or> (\<exists>y. x = Denied y)"
    if "offline_demand env db inp user = Inl x" for x
    using that unfolding offline_demand_def assertPublishedDemandPresent_def lift_offline_def lift_access_def
    by (auto simp: res_iffs split: option.splits if_splits sum.splits)
  have "e = SURVEY_REQUIRED \<or> (\<exists>x. e = Offline x) \<or> offline_demand env db inp user = Inl e \<or>
    (\<exists>s i u. offline_transaction env db inp s i u = Inl e)"
    using assms unfolding createOffline_def Let_def
    by (auto simp: res_iffs lift_offline_def guard_def
        split: sum.splits option.splits prod.splits payment_error.splits if_splits)
  then have "e \<in> {SURVEY_REQUIRED, SURVEY_NOT_FOUND, DEMAND_UNPUBLISHED, RECEIPT_NUMBER_EXISTS, Database_error} \<or>
    (\<exists>x. e = Denied x) \<or> (\<exists>x. e = Offline x)"
    using o f by blast
  ultimately show ?thesis by blast
qed

text \<open>C24. A client key collects once: whoever repeats a collection with the key of one that succeeded,
  at any later time and with any other amount, gets the receipt of that first payment and nothing is
  written.\<close>

theorem client_key_collects_once:
  assumes "createOffline env db inp user = (db', Inr receipt)"
    and "given_text (of_clientIdempotencyKey inp) = Some k" "given_text (of_clientIdempotencyKey inp2) = Some k"
    and "assertOfflinePaymentMode (of_mode inp2) = Inr ()" "trim (of_surveyId inp2) \<noteq> []"
    and "assertOfflineReference (of_mode inp2) (of_chequeDdReference inp2) = Inr ()"
  shows "\<exists>receipt2. createOffline env2 db' inp2 user2 = (db', Inr receipt2) \<and>
    st_paymentId receipt2 = st_paymentId receipt \<and> st_receiptNumber receipt2 = st_receiptNumber receipt \<and>
    st_amount receipt2 = st_amount receipt \<and> st_paymentReference receipt2 = st_paymentReference receipt"
proof -
  have "\<exists>p. find_key db' (Some k) = Some p \<and> (\<exists>e. receipt = toStaffReceipt env e p)"
    using assms(1)
  proof (cases rule: createOffline_cases)
    case (collected survey demand p db1)
    have "py_clientIdempotencyKey p = Some k"
      by (rule offline_transaction_cases[OF collected(4)]) (simp add: offline_payment_def Let_def assms(2))
    moreover have "lg_payments db' = lg_payments db @ [p]"
      using offline_transaction_step[OF collected(4)] collected(5) by (simp add: same_money_def)
    ultimately have "find_key db' (Some k) = Some p"
      using collected(2)[unfolded assms(2)] by (simp add: find_key_def find_app)
    then show ?thesis using collected(6) by auto
  qed (use assms(2) in auto)
  then obtain p e where p: "find_key db' (Some k) = Some p" "receipt = toStaffReceipt env e p" by blast
  have "createOffline env2 db' inp2 user2 = (db', Inr (toStaffReceipt env2 db' p))"
    using p(1) assms(3-6) by (simp add: createOffline_def lift_offline_def guard_def)
  then show ?thesis by (simp add: p(2) toStaffReceipt_def)
qed

subsection \<open>Answers of the gateway\<close>

lemma settled_pays:
  assumes "decimal_column (pe_col env)" "system_ok cuid db" "money_step env False db db'" "lg_demands db' \<noteq> lg_demands db"
  obtains p q d n t a where "p \<in> set (lg_payments db)" "first_success p" "q \<in> set (lg_payments db')" "py_id q = py_id p"
    "py_status q = SUCCESS" "py_receiptSnapshot q \<noteq> None" "py_demandId q = Some (dm_id d)" "py_amount p = paise n"
    "dm_status d = D_PUBLISHED" "dm_totalPayable d = paise t" "dm_amountPaid d = paise a"
    "find_demand_id db (dm_id d) = Some d"
    "find_demand_id db' (dm_id d) = Some (paid_row (paise (a + n)) (paise (max 0 (t - (a + n)))) d)"
    "\<forall>j. j \<noteq> dm_id d \<longrightarrow> find_demand_id db' j = find_demand_id db j"
  using assms(3)
proof cases
  case (settle p q extras)
  note ok = system_okD[OF assms(2)]
  from settle(5) assms(4) obtain d snapshot where d: "first_success p" "extras = Some (dm_id d, snapshot)"
    "paid_into env (lg_demands db) (py_amount p) d (lg_demands db')" by auto
  obtain n where n: "in_column n" "py_amount p = paise n" using ok(4)[OF settle(1)] by blast
  from paid_into_exact[OF assms(1) ok(1,2) d(3)[unfolded n(2)] n(1)]
  obtain t a where e: "dm_totalPayable d = paise t" "dm_amountPaid d = paise a" "find_demand_id db (dm_id d) = Some d"
    "find_demand_id db' (dm_id d) = Some (paid_row (paise (a + n)) (paise (max 0 (t - (a + n)))) d)"
    "\<forall>j. j \<noteq> dm_id d \<longrightarrow> find_demand_id db' j = find_demand_id db j" by metis
  have "q \<in> set (lg_payments db')" using settle(1,2) by (auto simp: set_replace_payment)
  then show thesis
    using that[of p q d n t a] settle(1,4) d n e by (auto simp: settled_as_def paid_into_def)
qed (use assms(4) in auto)

text \<open>C3. However a gateway's answer arrives (callback, requery by staff, or the citizen's sync), it
  either leaves all demands alone or pays one published demand by exactly the amount of the payment.
  It pays only for a payment that was neither successful nor had a receipt snapshot, and that payment
  is successful with a snapshot afterwards, so no later answer can pay for it again.\<close>

theorem gateway_pays_once:
  assumes "decimal_column (pe_col env)" "system_ok cuid db"
    and "handleCallback env db payload = (db', r1) \<or> requery env db paymentId user = (db', r2) \<or>
         syncCitizenPaymentByMerchTxnId env db m = (db', r3)"
  shows "lg_demands db' = lg_demands db \<or>
    (\<exists>p q d n t a. p \<in> set (lg_payments db) \<and> py_status p \<noteq> SUCCESS \<and> py_receiptSnapshot p = None \<and>
       q \<in> set (lg_payments db') \<and> py_id q = py_id p \<and> py_status q = SUCCESS \<and> py_receiptSnapshot q \<noteq> None \<and>
       py_demandId q = Some (dm_id d) \<and> py_amount p = paise n \<and> dm_status d = D_PUBLISHED \<and>
       dm_totalPayable d = paise t \<and> dm_amountPaid d = paise a \<and> find_demand_id db (dm_id d) = Some d \<and>
       find_demand_id db' (dm_id d) = Some (paid_row (paise (a + n)) (paise (max 0 (t - (a + n)))) d) \<and>
       (\<forall>j. j \<noteq> dm_id d \<longrightarrow> find_demand_id db' j = find_demand_id db j))"
proof -
  have st: "money_step env False db db'"
    using assms(3) handleCallback_step(1) requery_step sync_step system_okD(3)[OF assms(2)] by blast
  show ?thesis
  proof (cases "lg_demands db' = lg_demands db")
    case False
    show ?thesis
      by (rule settled_pays[OF assms(1,2) st False], rule disjI2, unfold first_success_def, blast)
  qed blast
qed

subsection \<open>Liveness of the sync\<close>

lemma replace_payment_other: "py_id p \<notin> py_id ` set ps \<Longrightarrow> replace_payment p q ps = ps"
  by (induction ps) (auto simp: replace_payment_def)

lemma map_filter_Cons: "List.map_filter k (x # xs) = (case k x of None \<Rightarrow> [] | Some y \<Rightarrow> [y]) @ List.map_filter k xs"
  by (simp add: map_filter_def split: option.splits)

lemma set_map_filter_key: "y \<in> set (List.map_filter k xs) \<longleftrightarrow> (\<exists>x \<in> set xs. k x = Some y)"
  by (induction xs) (auto simp: map_filter_Cons map_filter_def split: option.splits)

lemma distinct_key_inj:
  "distinct (List.map_filter k xs) \<Longrightarrow> x \<in> set xs \<Longrightarrow> y \<in> set xs \<Longrightarrow> k x = Some v \<Longrightarrow> k y = Some v \<Longrightarrow> x = y"
  by (induction xs) (auto simp: map_filter_Cons set_map_filter_key split: option.splits)

lemma distinct_replace:
  assumes "distinct (List.map_filter k ps)" "distinct (map py_id ps)" "py_id q = py_id p"
    and "\<And>r y. r \<in> set ps \<Longrightarrow> py_id r \<noteq> py_id p \<Longrightarrow> k q = Some y \<Longrightarrow> k r \<noteq> Some y"
  shows "distinct (List.map_filter k (replace_payment p q ps))"
  using assms(1,2,4)
proof (induction ps)
  case (Cons r ps)
  have c: "replace_payment p q (r # ps) = (if py_id r = py_id p then q else r) # replace_payment p q ps"
    by (simp add: replace_payment_def)
  have d: "distinct (List.map_filter k (replace_payment p q ps))"
    using Cons by (auto simp: map_filter_Cons split: option.splits)
  show ?case
  proof (cases "py_id r = py_id p")
    case True
    then have n: "replace_payment p q ps = ps" "py_id p \<notin> py_id ` set ps"
      using Cons.prems(2) by (auto intro: replace_payment_other)
    have "k r' \<noteq> Some y" if "r' \<in> set ps" "k q = Some y" for r' y
      using Cons.prems(3)[of r' y] that n(2) by (metis image_eqI list.set_intros(2))
    then show ?thesis using d True unfolding c n
      by (auto simp: map_filter_Cons set_map_filter_key split: option.splits)
  next
    case False
    have "k r' \<noteq> Some y" if "r' \<in> set (replace_payment p q ps)" "k r = Some y" for r' y
    proof (cases "r' = q")
      case True
      then show ?thesis using Cons.prems(3)[of r y] False that by auto
    next
      case False
      then have "r' \<in> set ps" using that(1) by (auto simp: set_replace_payment)
      then show ?thesis using Cons.prems(1) that(2) by (auto simp: map_filter_Cons set_map_filter_key)
    qed
    then show ?thesis using d False unfolding c
      by (auto simp: map_filter_Cons set_map_filter_key split: option.splits)
  qed
qed (simp add: replace_payment_def)

lemma payments_unique_replace:
  assumes "payments_unique ps" "p \<in> set ps" "py_id q = py_id p" "py_paymentReference q = py_paymentReference p"
    and "py_merchTxnId q = py_merchTxnId p" "py_clientIdempotencyKey q = py_clientIdempotencyKey p"
    and "\<And>r y. r \<in> set ps \<Longrightarrow> py_id r \<noteq> py_id p \<Longrightarrow> py_atomTxnId q = Some y \<Longrightarrow> py_atomTxnId r \<noteq> Some y"
    and "\<And>r y. r \<in> set ps \<Longrightarrow> py_id r \<noteq> py_id p \<Longrightarrow> py_receiptNumber q = Some y \<Longrightarrow> py_receiptNumber r \<noteq> Some y"
  shows "payments_unique (replace_payment p q ps)"
proof -
  have u: "distinct (map py_id ps)" using assms(1) by (simp add: payments_unique_def)
  have eq: "r = p" if "r \<in> set ps" "py_id r = py_id p" for r
    using u assms(2) that by (auto simp: distinct_map dest: inj_onD)
  have m: "map f (replace_payment p q ps) = map f ps" if "f q = f p" for f :: "payment \<Rightarrow> string"
    using that eq by (auto simp: replace_payment_def)
  have k: "k r \<noteq> Some y" if "distinct (List.map_filter k ps)" "k q = k p" "r \<in> set ps" "py_id r \<noteq> py_id p" "k q = Some y" for k r y
  proof
    assume "k r = Some y"
    moreover have "k p = Some y" using that(2,5) by simp
    ultimately have "r = p" by (rule distinct_key_inj[OF that(1,3) assms(2)])
    then show False using that(4) by simp
  qed
  show ?thesis
    using assms m[of py_id] m[of py_paymentReference] unfolding payments_unique_def
    by (auto intro!: distinct_replace dest: k)
qed

text \<open>The columns take the new balance of every demand when the amounts stay in range.\<close>

lemma apply_succeeds:
  assumes "decimal_column (pe_col env)" "books_balance db" "py_amount p = paise n" "in_column n" "0 \<le> n"
    and "\<forall>d \<in> set (lg_demands db). \<forall>a. dm_amountPaid d = paise a \<longrightarrow> in_column (a + n)"
  shows "\<exists>db1 extras. applyOnlineSuccessToDemand env db p rn t = Some (db1, extras)"
proof -
  have "\<exists>db'. store_balance env d (computeOutstandingAfterPayment (dm_totalPayable d) (dm_amountPaid d) (paise n)) db = Some db'"
    if f: "find_demand_id db i = Some d" for i d
  proof -
    have "d \<in> set (lg_demands db)" "balanced d"
      using find_demand_id_in[OF f] find_demand_id_balanced[OF assms(2) f] by simp_all
    then obtain t a where ta: "in_column t" "in_column a" "in_column (max 0 (t - a))" "dm_totalPayable d = paise t"
      "dm_amountPaid d = paise a" "in_column (a + n)"
      using assms(6) by (auto simp: balanced_def)
    have u: "in_column (max 0 (t - (a + n)))"
      by (rule in_column_mono[OF ta(3)]) (use assms(5) in auto)
    show ?thesis
      using roundMoney_add[OF ta(2) assms(4)] roundMoney_sub_max[OF ta(1,6)] col_money[OF assms(1) ta(6)] col_money[OF assms(1) u]
      by (simp add: store_balance_def computeOutstandingAfterPayment_def Let_def ta(4,5))
  qed
  then show ?thesis
    unfolding applyOnlineSuccessToDemand_def assms(3) Let_def
    by (auto split: option.splits)
qed

text \<open>C14. A citizen who returns from a payment that the gateway reports as paid sees it settled: when
  the gateway answers with success, the transaction id and the receipt number are not taken by another
  payment and the amounts stay in range, the sync of an open payment ends with a successful payment
  that has a receipt number; a second sync, by then or later, returns that same payment and changes
  nothing.\<close>

theorem citizen_sync_settles:
  assumes "decimal_column (pe_col env)" "system_ok cuid db" "find_merch db m = Some p" "m \<noteq> []"
    and "py_status p \<in> {INITIATED, PENDING}"
    and "gw_requery (pe_gateway env) m (py_amount p) (py_createdAt p) = Inr res" "rq_success res"
    and "\<forall>r \<in> set (lg_payments db). py_id r \<noteq> py_id p \<longrightarrow>
          (\<forall>x. nullish_opt (rq_atomTxnId res) (py_atomTxnId p) = Some x \<longrightarrow> py_atomTxnId r \<noteq> Some x) \<and>
          py_receiptNumber r \<noteq> Some (receipt_number_of p)"
    and "py_amount p = paise n" "in_column n" "0 \<le> n"
    and "\<forall>d \<in> set (lg_demands db). \<forall>a. dm_amountPaid d = paise a \<longrightarrow> in_column (a + n)"
  shows "\<exists>db' q. syncCitizenPaymentByMerchTxnId env db m = (db', Inr q) \<and> py_status q = SUCCESS \<and>
    py_receiptNumber q \<noteq> None \<and> find_merch db' m = Some q \<and>
    syncCitizenPaymentByMerchTxnId env2 db' m = (db', Inr q)"
proof -
  note ok = system_okD[OF assms(2)] and p = find_merch_in[OF assms(3)]
  let ?db = "add_transaction (py_id p) ''requery'' None (Some (rq_raw res)) (Some (rq_statusCode res)) db"
  let ?rn = "receipt_number_of p" and ?t = "nullish (py_collectionDate p) (pe_now env)"
  have b: "books_balance ?db" "lg_demands ?db = lg_demands db" "lg_payments ?db = lg_payments db"
    using ok(2) by (simp_all add: books_balance_def)
  obtain db1 extras where a: "(if first_success p then applyOnlineSuccessToDemand env ?db p ?rn ?t else Some (?db, None)) = Some (db1, extras)"
    using apply_succeeds[OF assms(1) b(1) assms(9-11), of ?rn ?t] assms(12) b(2) by (cases "first_success p") auto
  let ?f = "requeried (rq_atomTxnId res) ?rn ?t extras"
  let ?q = "?f p"
  have q: "py_id ?q = py_id p" "py_paymentReference ?q = py_paymentReference p" "py_merchTxnId ?q = py_merchTxnId p"
    "py_clientIdempotencyKey ?q = py_clientIdempotencyKey p" "py_status ?q = SUCCESS"
    "py_atomTxnId ?q = nullish_opt (rq_atomTxnId res) (py_atomTxnId p)"
    "py_receiptNumber ?q = Some ?rn"
    by (cases extras; cases "py_receiptNumber p"; auto simp: requeried_def with_receipt_def receipt_number_of_def)+
  have pay: "lg_payments db1 = lg_payments db"
    using a apply_paid_into(2)[of env ?db p ?rn ?t db1 extras] b(3) by (auto split: if_splits)
  have u: "payments_unique (replace_payment p ?q (lg_payments db))"
    by (rule payments_unique_replace[OF ok(3) p[THEN conjunct1]]) (use q assms(8) in auto)
  define db2 where "db2 = db1\<lparr>lg_payments := replace_payment p ?q (lg_payments db)\<rparr>"
  have up: "update_payment (py_id p) ?f db1 = Some db2"
    using u replace_payment_map[OF ok(3) p[THEN conjunct1], of ?f]
    by (simp add: update_payment_def store_payments_def pay db2_def)
  have fin: "finalizeRequerySuccess env ?db p True (rq_atomTxnId res) = (db2, Inr ?q)"
    unfolding finalizeRequerySuccess_def Let_def using a up by simp
  have s1: "syncCitizenPaymentByMerchTxnId env db m = (db2, Inr ?q)"
    unfolding syncCitizenPaymentByMerchTxnId_def Let_def
    using assms(3-7) p fin by auto
  have qi: "?q \<in> set (lg_payments db2)" "py_merchTxnId ?q = Some m" "payments_unique (lg_payments db2)"
    using p q u by (auto simp: db2_def set_replace_payment)
  then obtain r where r: "find_merch db2 m = Some r"
    by (cases "find_merch db2 m") (auto simp: find_merch_def find_None_iff)
  have "r = ?q"
    by (rule distinct_key_inj[of py_merchTxnId "lg_payments db2" r ?q m])
      (use find_merch_in[OF r] qi in \<open>auto simp: payments_unique_def\<close>)
  then have s2: "syncCitizenPaymentByMerchTxnId env2 db2 m = (db2, Inr ?q)"
    using r q(5) qi(2) assms(4) by (simp add: syncCitizenPaymentByMerchTxnId_def)
  show ?thesis using s1 s2 q(5,7) r \<open>r = ?q\<close> by blast
qed

subsection \<open>Refunds\<close>

lemma refund_Inr:
  assumes "refund env db i amount reason user = (db', Inr row)" "find_payment db i = Some p"
  obtains stored rs where "py_status p = SUCCESS" "amount \<le> nullish (py_refundableAmount p) (py_amount p)"
    "pe_col env amount = Some stored" "rf_amount row = stored" "rf_paymentId row = i" "rs = lg_refunds db @ [row]"
    "(\<not> rf_success row \<and> db' = db\<lparr>lg_refunds := rs\<rparr>) \<or>
     (rf_success row \<and> (\<exists>y. pe_col env (fl (nullish (py_refundableAmount p) (py_amount p) - amount)) = Some y \<and>
        update_payment i (refunded (fl (nullish (py_refundableAmount p) (py_amount p) - amount)) y) (db\<lparr>lg_refunds := rs\<rparr>) = Some db'))"
  using assms unfolding refund_def Let_def
  by (auto simp: canApplyRefundToPayment_def split: option.splits if_splits sum.splits)

lemma refund_remaining:
  assumes "decimal_column col" "in_column k" "in_column n" "n \<le> k" "col (fl (paise k - paise n)) = Some y"
  shows "y = paise (k - n) \<and> (fl (paise k - paise n) \<le> 0 \<longleftrightarrow> n = k)"
proof -
  have near: "near_paise (1 + 1) (1 + 1 + (1 + 1)) (fl (paise k - paise n)) (k - n)"
    by (rule near_sub[OF near_paise_self[OF assms(2)] near_paise_self[OF assms(3)]]) auto
  then have b: "\<bar>fl (paise k - paise n) - of_int (k - n) / 100\<bar> \<le> 4 / 9000" "\<bar>k - n\<bar> \<le> int 2 * 100000000000000"
    by (simp_all add: near_paise_def)
  have "near_paise 8 36 (fl (paise k - paise n)) (k - n)"
    unfolding near_paise_def using b by auto
  then have "y = paise (k - n)"
    using assms(1,5) by (auto simp: decimal_column_def split: if_splits)
  moreover have "fl (paise k - paise n) \<le> 0 \<longleftrightarrow> n = k"
  proof (cases "n = k")
    case False
    then have "(1 :: rat) \<le> of_int (k - n)" using assms(4) by simp
    moreover have "0 < y" if "(1 :: rat) \<le> x" "\<bar>y - x / 100\<bar> \<le> 4 / 9000" for x y using that by linarith
    ultimately have "0 < fl (paise k - paise n)" using b(1) by blast
    then show ?thesis using False by simp
  qed simp
  ultimately show ?thesis by blast
qed

text \<open>C17. A refund never exceeds what is refundable. One that is recorded was for a successful payment and
  for at most its refundable amount; when the gateway confirmed it, the refundable amount shrinks by
  exactly the refunded amount and the payment is refunded if nothing is left and partially refunded
  otherwise; when the gateway refused, the refund is recorded and the payment is as before. Demands are
  never touched.\<close>

theorem refund_is_bounded:
  assumes "decimal_column (pe_col env)" "payments_unique (lg_payments db)" "in_column n" "in_column k"
    and "find_payment db i = Some p" "nullish (py_refundableAmount p) (py_amount p) = paise k"
    and "refund env db i (paise n) reason user = (db', Inr row)"
  shows "py_status p = SUCCESS \<and> n \<le> k \<and> rf_amount row = paise n \<and> lg_refunds db' = lg_refunds db @ [row] \<and>
    lg_demands db' = lg_demands db \<and>
    (if rf_success row
     then find_payment db' i = Some (p\<lparr>py_refundableAmount := Some (paise (k - n)),
            py_status := (if n = k then REFUNDED else PARTIALLY_REFUNDED)\<rparr>)
     else lg_payments db' = lg_payments db)"
proof -
  obtain rs stored where r: "py_status p = SUCCESS" "paise n \<le> paise k" "pe_col env (paise n) = Some stored"
    "rf_amount row = stored" "rs = lg_refunds db @ [row]"
    "(\<not> rf_success row \<and> db' = db\<lparr>lg_refunds := rs\<rparr>) \<or>
     (rf_success row \<and> (\<exists>y. pe_col env (fl (paise k - paise n)) = Some y \<and>
        update_payment i (refunded (fl (paise k - paise n)) y) (db\<lparr>lg_refunds := rs\<rparr>) = Some db'))"
    by (rule refund_Inr[OF assms(7,5)]) (simp add: assms(6))
  have n: "n \<le> k" using r(2) paise_le_iff[OF assms(3,4)] by simp
  have st: "stored = paise n" using r(3) col_paise[OF assms(1)] by blast
  show ?thesis
  proof (cases "rf_success row")
    case True
    then obtain y where y: "pe_col env (fl (paise k - paise n)) = Some y"
      "update_payment i (refunded (fl (paise k - paise n)) y) (db\<lparr>lg_refunds := rs\<rparr>) = Some db'" using r(6) by blast
    note u = update_paymentD[OF y(2)]
    note m = refund_remaining[OF assms(1,4,3) n y(1)]
    have f: "find_payment db' i = Some (refunded (fl (paise k - paise n)) y p)"
      using find_payment_update[OF y(2), of i] assms(5) find_payment_id[OF assms(5)]
      by (simp add: refunded_def find_payment_def)
    have q: "refunded (fl (paise k - paise n)) y p = p\<lparr>py_refundableAmount := Some (paise (k - n)),
        py_status := (if n = k then REFUNDED else PARTIALLY_REFUNDED)\<rparr>"
      using m by (simp add: refunded_def)
    show ?thesis using True r(1,4,5) st n u f unfolding q by simp
  next
    case False
    then show ?thesis using r n st by auto
  qed
qed

subsection \<open>A sample\<close>

text \<open>The unpaid plot of the year-end sample, a pending online payment for it, and a desk with the sandbox
  gateway.\<close>

definition desk_env :: pay_env where
  "desk_env =
     \<lparr>pe_cuid = unary, pe_suffix = (\<lambda>_. ''0f0f0f0f''), pe_now = 2000, pe_col = round_column, pe_js = plain_js,
      pe_other_num = (\<lambda>_. None), pe_iso = (\<lambda>_. ''2025-01-01''), pe_url_set = (\<lambda>base k v. base),
      pe_process = (\<lambda>_. None), pe_localeCompare = (\<lambda>_ _. 0),
      pe_gateway = sandbox_provider plain_js None (\<lambda>_. ''e30='')\<rparr>"

definition pending_payment :: payment where
  "pending_payment =
     \<lparr>py_id = unary 1, py_paymentReference = ''CHH-1'', py_merchTxnId = Some ''CHH-1'', py_atomTxnId = None,
      py_surveyId = Some ''s1'', py_wardId = Some ''w1'', py_yearId = Some ''y1'', py_demandId = Some (unary 0),
      py_payerName = Some ''Asha'', py_payerMobile = None, py_payerEmail = None, py_amount = 6000,
      py_currency = ''INR'', py_mode = ONLINE, py_status = PENDING, py_gateway = Some ''sandbox'',
      py_gatewayReference = None, py_receiptNumber = None, py_receiptSnapshot = None, py_collectionDate = None,
      py_chequeDdReference = None, py_remarks = None, py_collectedById = None, py_refundableAmount = Some 6000,
      py_clientIdempotencyKey = None, py_createdAt = 1000\<rparr>"

definition due_ledger :: ledger where
  "due_ledger = unpaid_ledger\<lparr>lg_seq := 2, lg_payments := [pending_payment]\<rparr>"

lemma money_6000: "6000 = paise 600000" "in_column 600000"
  by (simp_all add: paise_def in_column_def)

lemma unpaid_demand_facts:
  "dm_totalPayable unpaid_demand = paise 600000" "dm_amountPaid unpaid_demand = paise 0"
  "dm_outstanding unpaid_demand = paise 600000" "dm_status unpaid_demand = D_PUBLISHED" "dm_id unpaid_demand = unary 0"
  "dm_surveyId unpaid_demand = ''s1''" "dm_yearId unpaid_demand = ''y1''"
  by (simp_all add: unpaid_demand_def blank_demand_def plot_ledger_def money_6000 flip: money_6000(1))

lemma unpaid_demand_balanced: "balanced unpaid_demand"
  by (rule balancedI[of 600000 0]) (simp_all add: unpaid_demand_facts money_6000(2))

lemma due_ledger_facts:
  "lg_demands due_ledger = [unpaid_demand]" "lg_payments due_ledger = [pending_payment]" "lg_seq due_ledger = 2"
  "lg_arrears due_ledger = []" "find_payment due_ledger (unary 1) = Some pending_payment"
  "find_merch due_ledger ''CHH-1'' = Some pending_payment"
  by (simp_all add: due_ledger_def unpaid_ledger_def plot_ledger_def find_payment_def find_merch_def pending_payment_def)

lemma due_ledger_ok: "system_ok unary due_ledger"
proof -
  have "demands_ok unary due_ledger"
    by (rule demands_ok_mono[OF unpaid_ledger_ok(1)]) (simp_all add: due_ledger_def unpaid_ledger_def)
  moreover have "payments_unique [pending_payment]"
    by (simp add: payments_unique_def map_filter_def)
  moreover have "py_amount pending_payment = paise 600000"
    by (simp add: pending_payment_def money_6000)
  ultimately show ?thesis
    using money_6000(2) unpaid_demand_balanced
    by (auto simp: system_ok_def ledger_ok_def books_balance_def arrears_unique_def payments_ok_def due_ledger_facts)
qed

lemma desk_column: "decimal_column (pe_col desk_env)"
  by (simp add: desk_env_def round_column_decimal)

definition sandbox_answer :: requery_result where
  "sandbox_answer = \<lparr>rq_statusCode = ''OTS0000'', rq_success = True, rq_atomTxnId = Some ''SANDBOX-CHH-1'',
     rq_amount = None, rq_raw = JObj [(''provider'', JStr ''sandbox''), (''merchTxnId'', JStr ''CHH-1'')]\<rparr>"

lemma desk_requery: "gw_requery (pe_gateway desk_env) ''CHH-1'' x t = Inr sandbox_answer"
  by (simp add: desk_env_def sandbox_provider_def sandbox_answer_def)

lemma citizen_sync_settles_witness:
  "\<exists>db' q. syncCitizenPaymentByMerchTxnId desk_env due_ledger ''CHH-1'' = (db', Inr q) \<and> py_status q = SUCCESS \<and>
     py_receiptNumber q \<noteq> None \<and> syncCitizenPaymentByMerchTxnId desk_env db' ''CHH-1'' = (db', Inr q)"
proof -
  have c: "\<forall>d \<in> set (lg_demands due_ledger). \<forall>a. dm_amountPaid d = paise a \<longrightarrow> in_column (a + 600000)"
  proof -
    have "a = 0" if "paise 0 = paise a" for a
    proof -
      have "in_column a" by (rule in_column_of_paise) (simp flip: that)
      then show ?thesis using paise_inject[of 0 a] that by simp
    qed
    then have "in_column (a + 600000)" if "paise 0 = paise a" for a using that money_6000(2) by (metis add_0)
    then show ?thesis unfolding due_ledger_facts by (simp add: unpaid_demand_facts(2))
  qed
  have p: "py_status pending_payment \<in> {INITIATED, PENDING}" "py_amount pending_payment = paise 600000" "rq_success sandbox_answer"
    by (simp_all add: pending_payment_def money_6000 sandbox_answer_def)
  show ?thesis
    using citizen_sync_settles[OF desk_column due_ledger_ok due_ledger_facts(6) _ p(1) desk_requery p(3) _ p(2) money_6000(2) _ c,
        of desk_env]
    by (auto simp: due_ledger_facts)
qed

text \<open>Paying the sample's demand, by the sync and at the counter.\<close>

lemma desk_balance: "computeOutstandingAfterPayment (paise 600000) (paise 0) (paise 600000) = (paise 600000, paise 0)"
  using roundMoney_add[of 0 600000] roundMoney_sub_max[of 600000 600000]
  by (simp add: computeOutstandingAfterPayment_def money_6000(2) del: paise_0)

lemma desk_store:
  "store_balance desk_env unpaid_demand (paise 600000, paise 0) db =
     Some (update_demand (unary 0) (paid_row (paise 600000) (paise 0)) db)"
  using col_money[OF round_column_decimal money_6000(2)] col_money[OF round_column_decimal, of 0]
  by (simp add: store_balance_def desk_env_def unpaid_demand_facts del: paise_0)

lemma desk_apply:
  assumes "lg_demands db = [unpaid_demand]"
  shows "\<exists>snapshot. applyOnlineSuccessToDemand desk_env db pending_payment rn t =
    Some (update_demand (unary 0) (paid_row (paise 600000) (paise 0)) db, Some (unary 0, snapshot))"
proof -
  have "applied_demand db pending_payment = Some (unary 0)"
    by (simp add: applied_demand_def pending_payment_def unary_def)
  moreover have "find_demand_id db (unary 0) = Some unpaid_demand"
    by (simp add: find_demand_id_def assms unpaid_demand_facts)
  moreover have "py_amount pending_payment = paise 600000" by (simp add: pending_payment_def money_6000)
  ultimately show ?thesis
    by (simp add: applyOnlineSuccessToDemand_def Let_def unpaid_demand_facts(1,2,4,5) desk_balance desk_store del: paise_0)
qed

lemma payments_unique_single: "payments_unique [p]"
  by (simp add: payments_unique_def map_filter_def)

lemma pending_id: "py_id pending_payment = unary 1"
  by (simp add: pending_payment_def)

lemma desk_sync_pays:
  "\<exists>db' q. syncCitizenPaymentByMerchTxnId desk_env due_ledger ''CHH-1'' = (db', Inr q) \<and>
     lg_demands db' = [paid_row (paise 600000) (paise 0) unpaid_demand]"
proof -
  let ?db = "add_transaction (unary 1) ''requery'' None (Some (rq_raw sandbox_answer)) (Some (rq_statusCode sandbox_answer)) due_ledger"
  let ?db1 = "update_demand (unary 0) (paid_row (paise 600000) (paise 0)) ?db"
  obtain snapshot where a: "applyOnlineSuccessToDemand desk_env ?db pending_payment (receipt_number_of pending_payment) 2000
      = Some (?db1, Some (unary 0, snapshot))"
    using desk_apply[of ?db] by (auto simp: due_ledger_facts)
  let ?f = "requeried (Some ''SANDBOX-CHH-1'') (receipt_number_of pending_payment) 2000 (Some (unary 0, snapshot))"
  have u: "update_payment (unary 1) ?f ?db1 = Some (?db1\<lparr>lg_payments := [?f pending_payment]\<rparr>)"
    by (simp add: update_payment_def store_payments_def due_ledger_facts pending_id payments_unique_single)
  have i: "py_id pending_payment = unary 1" "first_success pending_payment" "py_merchTxnId pending_payment = Some ''CHH-1''"
    "py_collectionDate pending_payment = None" "py_status pending_payment = PENDING" "pe_now desk_env = 2000"
    "rq_success sandbox_answer" "rq_atomTxnId sandbox_answer = Some ''SANDBOX-CHH-1''"
    by (simp_all add: pending_payment_def first_success_def desk_env_def sandbox_answer_def)
  have "finalizeRequerySuccess desk_env ?db pending_payment True (Some ''SANDBOX-CHH-1'')
      = (?db1\<lparr>lg_payments := [?f pending_payment]\<rparr>, Inr (?f pending_payment))"
    using a u by (simp add: finalizeRequerySuccess_def i Let_def)
  then have "syncCitizenPaymentByMerchTxnId desk_env due_ledger ''CHH-1''
      = (?db1\<lparr>lg_payments := [?f pending_payment]\<rparr>, Inr (?f pending_payment))"
    by (simp add: syncCitizenPaymentByMerchTxnId_def due_ledger_facts(6) i desk_requery)
  then show ?thesis
    by (simp add: update_demand_def due_ledger_facts unpaid_demand_facts)
qed

lemma gateway_pays_once_witness:
  "\<exists>db' q p' d. syncCitizenPaymentByMerchTxnId desk_env due_ledger ''CHH-1'' = (db', Inr q) \<and>
     p' \<in> set (lg_payments db') \<and> py_status p' = SUCCESS \<and> py_receiptSnapshot p' \<noteq> None \<and>
     find_demand_id db' (unary 0) = Some d \<and> dm_amountPaid d = 6000"
proof -
  obtain db' q where s: "syncCitizenPaymentByMerchTxnId desk_env due_ledger ''CHH-1'' = (db', Inr q)"
    "lg_demands db' = [paid_row (paise 600000) (paise 0) unpaid_demand]"
    using desk_sync_pays by blast
  have "unpaid_demand \<noteq> paid_row (paise 600000) (paise 0) unpaid_demand"
  proof -
    have "dm_amountPaid unpaid_demand \<noteq> dm_amountPaid (paid_row (paise 600000) (paise 0) unpaid_demand)"
      by (simp add: paid_row_def unpaid_demand_facts(2) flip: money_6000(1))
    then show ?thesis by metis
  qed
  then have "\<exists>p'. p' \<in> set (lg_payments db') \<and> py_status p' = SUCCESS \<and> py_receiptSnapshot p' \<noteq> None"
    using gateway_pays_once[OF desk_column due_ledger_ok, of "[]" db' undefined "[]" undefined undefined "''CHH-1''" "Inr q"] s
    by (auto simp: due_ledger_facts)
  then show ?thesis
    using s by (auto simp: find_demand_id_def paid_row_def unpaid_demand_facts simp flip: money_6000(1))
qed

definition sample_clerk :: auth_user where
  "sample_clerk =
     \<lparr>us_id = ''u1'', us_email = ''c@x'', us_name = ''Clerk'', us_phone = None, us_status = ''ACTIVE'',
      us_permissions = [''survey:read'', ''payment:offline:create'', ''refund:create''], us_roles = [''CLERK'']\<rparr>"

definition cash_request :: offline_request where
  "cash_request =
     \<lparr>of_amount = 6000, of_mode = CASH, of_surveyId = ''s1'', of_wardId = None, of_yearId = Some ''y1'',
      of_payerName = None, of_payerMobile = None, of_receiptNumber = None, of_collectionDate = None,
      of_chequeDdReference = None, of_remarks = None, of_clientIdempotencyKey = Some ''k1''\<rparr>"

lemma clerk_may:
  "assertSurveyAccess sample_clerk s Survey_read = Inr ()" "assertPaymentAccess sample_clerk p Payment_create_offline = Inr ()"
  "assertPaymentAccess sample_clerk p Payment_refund = Inr ()"
  by (simp_all add: assertSurveyAccess_def assertPaymentAccess_def hasBroadResourceAccess_def res_iffs hasPermission_def
      sample_clerk_def)

lemma unpaid_ledger_system: "system_ok unary unpaid_ledger"
  using unpaid_ledger_ok unpaid_demand_balanced
  by (simp add: system_ok_def ledger_ok_def books_balance_def payments_ok_def payments_unique_def)
     (simp add: unpaid_ledger_def plot_ledger_def map_filter_def)

lemma cash_texts:
  "given_text (of_clientIdempotencyKey cash_request) = Some ''k1''" "given_text (of_yearId cash_request) = Some ''y1''"
  "trim (of_surveyId cash_request) \<noteq> []" "of_amount cash_request = paise 600000" "of_mode cash_request = CASH"
  "given_text (of_wardId cash_request) = None" "of_surveyId cash_request = ''s1''"
  "assertOfflineReference CASH x = Inr ()"
  "assertOfflinePaymentMode CASH = Inr ()"
proof -
  have "trim ''k1'' = ''k1''" "trim ''y1'' = ''y1''" "trim ''s1'' = ''s1''" by code_simp+
  then show "given_text (of_clientIdempotencyKey cash_request) = Some ''k1''" "given_text (of_yearId cash_request) = Some ''y1''"
    "trim (of_surveyId cash_request) \<noteq> []" "of_amount cash_request = paise 600000" "of_mode cash_request = CASH"
    "given_text (of_wardId cash_request) = None" "of_surveyId cash_request = ''s1''"
    "assertOfflineReference CASH x = Inr ()" "assertOfflinePaymentMode CASH = Inr ()"
    by (simp_all add: cash_request_def given_text_def money_6000(1) assertOfflineReference_def MODES_REQUIRING_REFERENCE_def
        assertOfflinePaymentMode_def OFFLINE_PAYMENT_MODES_def)
qed

lemma cash_collects:
  "\<exists>db' receipt. createOffline desk_env unpaid_ledger cash_request sample_clerk = (db', Inr receipt)"
proof -
  have l: "lg_payments unpaid_ledger = []" "lg_demands unpaid_ledger = [unpaid_demand]" "lg_surveys unpaid_ledger = [plot_survey]"
    by (simp_all add: unpaid_ledger_def plot_ledger_def)
  have ac: "assertOfflineAmountAgainstOutstanding (paise 600000) (paise 600000) = Inr ()"
    using offline_amount_iff[OF money_6000(2) money_6000(2)] by simp
  have "offline_demand desk_env unpaid_ledger cash_request sample_clerk = Inr (plot_survey, unpaid_demand)"
    by (simp add: offline_demand_def l cash_texts clerk_may lift_access_def lift_offline_def findPublishedDemandForOffline_def
        find_demand_def assertPublishedDemandPresent_def unpaid_demand_facts ac res_iffs Let_def)
       (simp add: plot_survey_def)
  moreover have "\<exists>db1 p. offline_transaction desk_env unpaid_ledger cash_request plot_survey (unary 0) (us_id sample_clerk) = Inr (db1, p)"
  proof -
    have f: "find_demand_id unpaid_ledger (unary 0) = Some unpaid_demand"
      by (simp add: find_demand_id_def l unpaid_demand_facts)
    have c: "pe_col desk_env (paise 600000) = Some (paise 600000)"
      using col_money[OF desk_column money_6000(2)] .
    show ?thesis
      by (simp add: offline_transaction_def f unpaid_demand_facts cash_texts ac desk_balance c insert_payment_def
          store_payments_def l payments_unique_single desk_store Let_def del: paise_0)
  qed
  moreover have "find_key unpaid_ledger k = None" for k
    by (simp add: find_key_def l split: option.splits)
  ultimately show ?thesis
    using cash_texts(3)
    by (auto simp: createOffline_def cash_texts lift_offline_def guard_def unpaid_demand_facts Let_def simp del: cash_texts(7))
qed

lemma offline_collection_exact_witness:
  "\<exists>db' receipt p. createOffline desk_env unpaid_ledger cash_request sample_clerk = (db', Inr receipt) \<and>
     lg_payments db' = [p] \<and> py_status p = SUCCESS \<and> py_amount p = 6000 \<and> st_amount receipt = 6000 \<and>
     py_demandId p = Some (unary 0)"
proof -
  obtain db' receipt where c: "createOffline desk_env unpaid_ledger cash_request sample_clerk = (db', Inr receipt)"
    using cash_collects by blast
  have l: "lg_payments unpaid_ledger = []" "lg_demands unpaid_ledger = [unpaid_demand]"
    by (simp_all add: unpaid_ledger_def plot_ledger_def)
  have k: "find_key unpaid_ledger (given_text (of_clientIdempotencyKey cash_request)) = None"
    by (simp add: find_key_def l split: option.splits)
  obtain p d where d: "lg_payments db' = [p]" "py_status p = SUCCESS" "py_amount p = 6000" "receipt = toStaffReceipt desk_env db' p"
    "py_demandId p = Some (dm_id d)" "find_demand_id unpaid_ledger (dm_id d) = Some d"
    using offline_collection_exact[OF desk_column unpaid_ledger_system cash_texts(4) money_6000(2) k c]
    by (auto simp: l simp flip: money_6000(1))
  have "d = unpaid_demand" using find_demand_id_in[OF d(6)] by (simp add: l)
  then have "dm_id d = unary 0" by (simp add: unpaid_demand_facts)
  moreover have "st_amount receipt = 6000" by (simp add: d(3,4) toStaffReceipt_def)
  ultimately show ?thesis using c d by metis
qed

lemma failed_collection_writes_nothing_witness:
  "createOffline desk_env due_ledger (cash_request\<lparr>of_mode := ONLINE\<rparr>) sample_clerk = (due_ledger, Inl (Offline UseOnlineEndpoint)) \<and>
   (\<exists>x. Offline UseOnlineEndpoint = Offline x)"
proof -
  obtain db' where c: "createOffline desk_env due_ledger (cash_request\<lparr>of_mode := ONLINE\<rparr>) sample_clerk = (db', Inl (Offline UseOnlineEndpoint))"
    by (simp add: createOffline_def assertOfflinePaymentMode_def lift_offline_def)
  then show ?thesis using failed_collection_writes_nothing[OF c] by simp
qed

lemma client_key_collects_once_witness:
  "\<exists>db' r1 r2. createOffline desk_env unpaid_ledger cash_request sample_clerk = (db', Inr r1) \<and>
     createOffline desk_env db' (cash_request\<lparr>of_amount := 1\<rparr>) sample_operator = (db', Inr r2) \<and>
     st_paymentId r2 = st_paymentId r1 \<and> st_amount r2 = st_amount r1"
proof -
  obtain db' r1 where c: "createOffline desk_env unpaid_ledger cash_request sample_clerk = (db', Inr r1)"
    using cash_collects by blast
  have "\<exists>r2. createOffline desk_env db' (cash_request\<lparr>of_amount := 1\<rparr>) sample_operator = (db', Inr r2) \<and>
    st_paymentId r2 = st_paymentId r1 \<and> st_receiptNumber r2 = st_receiptNumber r1 \<and> st_amount r2 = st_amount r1 \<and>
    st_paymentReference r2 = st_paymentReference r1"
    by (rule client_key_collects_once[OF c]) (use cash_texts in simp_all)
  then show ?thesis using c by blast
qed

text \<open>A full refund of the sample payment through the sandbox.\<close>

lemma desk_refunds:
  fixes db :: ledger
  defines "db \<equiv> due_ledger\<lparr>lg_payments := [pending_payment\<lparr>py_status := SUCCESS, py_atomTxnId := Some ''A1''\<rparr>]\<rparr>"
  shows "\<exists>db' row. refund desk_env db (unary 1) (paise 600000) None sample_clerk = (db', Inr row) \<and> rf_success row"
proof -
  let ?p = "pending_payment\<lparr>py_status := SUCCESS, py_atomTxnId := Some ''A1''\<rparr>"
  have p: "find_payment db (unary 1) = Some ?p" "lg_payments db = [?p]" "lg_refunds db = []"
    by (simp_all add: db_def find_payment_def pending_id due_ledger_def unpaid_ledger_def plot_ledger_def)
  have q: "py_status ?p = SUCCESS" "py_atomTxnId ?p = Some ''A1''" "nullish (py_refundableAmount ?p) (py_amount ?p) = paise 600000"
    by (simp_all add: pending_payment_def money_6000(1))
  have t: "given_text (Some ''A1'') = Some ''A1''" by code_simp
  have c: "pe_col desk_env (paise 600000) = Some (paise 600000)" "pe_col desk_env 0 = Some 0"
    using col_money[OF desk_column money_6000(2)] col_money[OF desk_column, of 0] by simp_all
  have q': "nullish (py_refundableAmount pending_payment) (py_amount pending_payment) = paise 600000"
    by (simp add: pending_payment_def money_6000(1))
  obtain res where g: "gw_refund (pe_gateway desk_env) (nullish (py_merchTxnId pending_payment) (py_paymentReference pending_payment))
      ''A1'' (paise 600000) None = Inr res" "re_success res"
    by (simp add: desk_env_def sandbox_provider_def)
  show ?thesis
    unfolding refund_def Let_def
    by (simp add: p p(1)[unfolded One_nat_def] q' t c clerk_may g update_payment_def store_payments_def payments_unique_single
        canApplyRefundToPayment_def)
qed

lemma refund_is_bounded_witness:
  "\<exists>db' row q. refund desk_env (due_ledger\<lparr>lg_payments := [pending_payment\<lparr>py_status := SUCCESS, py_atomTxnId := Some ''A1''\<rparr>]\<rparr>)
     (unary 1) (paise 600000) None sample_clerk = (db', Inr row) \<and> find_payment db' (unary 1) = Some q \<and>
     py_status q = REFUNDED \<and> py_refundableAmount q = Some 0"
proof -
  let ?p = "pending_payment\<lparr>py_status := SUCCESS, py_atomTxnId := Some ''A1''\<rparr>"
  let ?db = "due_ledger\<lparr>lg_payments := [?p]\<rparr>"
  obtain db' row where r: "refund desk_env ?db (unary 1) (paise 600000) None sample_clerk = (db', Inr row)" "rf_success row"
    using desk_refunds by blast
  have p: "find_payment ?db (unary 1) = Some ?p" "payments_unique (lg_payments ?db)"
    "nullish (py_refundableAmount ?p) (py_amount ?p) = paise 600000"
    by (simp_all add: find_payment_def pending_id payments_unique_single) (simp add: pending_payment_def money_6000(1))
  show ?thesis
    using refund_is_bounded[OF desk_column p(2) money_6000(2) money_6000(2) p(1,3) r(1)] r by auto
qed

end
