(* ===== verification/LedgerSystem.thy ===== *)
theory LedgerSystem
  imports Settlement
begin

text \<open>
  The ledger as a state machine: a step is one call of an operation of the demands service or of the
  payments service, by anyone, with any environment (clock, gateway, settings), or a change that
  other services make to the tables that demands and payments only read (surveys, configurations,
  rules, reference entries, wards, users). Operations run one at a time: each is one or more database
  transactions, and the interleaving of two calls is not modelled.

  The locale \<open>guarded_system\<close> is what such a machine owes its readers: an invariant and a relation
  between earlier and later states. It is interpreted on the steps of the ledger.
\<close>

locale guarded_system =
  fixes step :: "'s \<Rightarrow> 's \<Rightarrow> bool"
    and good :: "'s \<Rightarrow> bool"
    and later :: "'s \<Rightarrow> 's \<Rightarrow> bool"
  assumes step_good: "good s \<Longrightarrow> step s t \<Longrightarrow> good t"
    and step_later: "good s \<Longrightarrow> step s t \<Longrightarrow> later s t"
    and later_refl: "later s s"
    and later_trans: "later s t \<Longrightarrow> later t u \<Longrightarrow> later s u"
begin

lemma run_good: "step\<^sup>*\<^sup>* s t \<Longrightarrow> good s \<Longrightarrow> good t"
  by (induction rule: rtranclp_induct) (auto intro: step_good)

lemma run_later: "step\<^sup>*\<^sup>* s t \<Longrightarrow> good s \<Longrightarrow> later s t"
proof (induction rule: rtranclp_induct)
  case (step t u)
  then have "good t" using run_good by blast
  then show ?case using step step_later later_trans by blast
qed (rule later_refl)

end

subsection \<open>Steps\<close>

inductive ledger_step :: "(nat \<Rightarrow> string) \<Rightarrow> (js_number \<Rightarrow> js_number option) \<Rightarrow> ledger \<Rightarrow> ledger \<Rightarrow> bool" for cuid col where
  publish: "publish cuid col now db surveyId yearId actorId = (db', r) \<Longrightarrow> ledger_step cuid col db db'"
| publishForWard: "publishForWard cuid col now db wardId yearId actorId = (db', r) \<Longrightarrow> ledger_step cuid col db db'"
| commitYearEnd: "commitYearEnd cuid col now db fromYearId toYearId actorId = (db', r) \<Longrightarrow> ledger_step cuid col db db'"
| createOnline: "pe_cuid env = cuid \<Longrightarrow> pe_col env = col \<Longrightarrow> createOnline env db inp user text = (db', r) \<Longrightarrow>
    ledger_step cuid col db db'"
| createCitizenOnline: "pe_cuid env = cuid \<Longrightarrow> pe_col env = col \<Longrightarrow> createCitizenOnline env db inp text = (db', r) \<Longrightarrow>
    ledger_step cuid col db db'"
| createOffline: "pe_cuid env = cuid \<Longrightarrow> pe_col env = col \<Longrightarrow> createOffline env db inp' user = (db', r) \<Longrightarrow>
    ledger_step cuid col db db'"
| handleCallback: "pe_cuid env = cuid \<Longrightarrow> pe_col env = col \<Longrightarrow> handleCallback env db payload = (db', r) \<Longrightarrow>
    ledger_step cuid col db db'"
| handleGatewayReturn: "pe_cuid env = cuid \<Longrightarrow> pe_col env = col \<Longrightarrow> handleGatewayReturn env db payload = (db', r) \<Longrightarrow>
    ledger_step cuid col db db'"
| requery: "pe_cuid env = cuid \<Longrightarrow> pe_col env = col \<Longrightarrow> requery env db paymentId user = (db', r) \<Longrightarrow>
    ledger_step cuid col db db'"
| syncCitizen: "pe_cuid env = cuid \<Longrightarrow> pe_col env = col \<Longrightarrow> syncCitizenPaymentByMerchTxnId env db merchTxnId = (db', r) \<Longrightarrow>
    ledger_step cuid col db db'"
| refund: "pe_cuid env = cuid \<Longrightarrow> pe_col env = col \<Longrightarrow> refund env db paymentId amount reason user = (db', r) \<Longrightarrow>
    ledger_step cuid col db db'"
| ingestSettlement: "pe_cuid env = cuid \<Longrightarrow> pe_col env = col \<Longrightarrow> ingestSettlement env parse_date db raw = (db', r) \<Longrightarrow>
    ledger_step cuid col db db'"
| elsewhere: "lg_demands db' = lg_demands db \<Longrightarrow> lg_payments db' = lg_payments db \<Longrightarrow> lg_arrears db' = lg_arrears db \<Longrightarrow>
    lg_seq db \<le> lg_seq db' \<Longrightarrow> ledger_step cuid col db db'"

subsection \<open>The demands service keeps payments and their keys\<close>

lemma publish_same:
  assumes "publish cuid col now db surveyId yearId actorId = (db', r)"
  shows "lg_payments db' = lg_payments db \<and> lg_arrears db' = lg_arrears db"
  using only_demands_tables[OF only_demands_publish[OF assms]] by blast

lemma publishForWard_same:
  assumes "publishForWard cuid col now db wardId yearId actorId = (db', r)"
  shows "lg_payments db' = lg_payments db \<and> lg_arrears db' = lg_arrears db"
  using only_demands_tables[OF only_demands_publishForWard[OF assms]] by blast

lemma carry_step_payments:
  "carry_step cuid col a b (Some (db, c, k)) row = Some (db', c', k') \<Longrightarrow> lg_payments db' = lg_payments db"
  unfolding carry_step_def carry_into_def Let_def
  by (auto split: option.splits if_splits prod.splits)

lemma carry_payments:
  "foldl (carry_step cuid col a b) (Some (db, c, k)) rows = Some (db', c', k') \<Longrightarrow> lg_payments db' = lg_payments db"
proof (induction rows arbitrary: db c k)
  case (Cons row rows)
  obtain db1 c1 k1 where s: "carry_step cuid col a b (Some (db, c, k)) row = Some (db1, c1, k1)"
    using Cons.prems by (cases "carry_step cuid col a b (Some (db, c, k)) row") (auto simp: carry_none)
  then show ?case using Cons carry_step_payments[OF s] by simp
qed simp

lemma commit_payments:
  assumes "commitYearEnd cuid col now db fromY toY actorId = (db', r)"
  shows "lg_payments db' = lg_payments db"
proof -
  have "lg_payments (put_run cuid a b f x) = lg_payments x" for a b f x
    by (simp add: put_run_def split: option.splits)
  then have n: "lg_payments db' = lg_payments db" if "commit_new cuid col now db fromY toY actorId = (db', r)"
    using that unfolding commit_new_def Let_def
    by (auto dest: carry_payments split: sum.splits option.splits prod.splits)
  from assms show ?thesis unfolding commitYearEnd_def
    by (auto dest: n split: sum.splits option.splits if_splits)
qed

subsection \<open>Every step keeps the ledger in order\<close>

lemma system_step:
  assumes "decimal_column col" "system_ok cuid db" "ledger_step cuid col db db'"
  shows "system_ok cuid db' \<and> keeps_receipts db db' \<and> keeps_success db db'"
proof -
  have ok: "demands_ok cuid db" "books_balance db" "arrears_unique db" "payments_ok db" "payments_unique (lg_payments db)"
    using assms(2) by (auto simp: system_ok_def ledger_ok_def payments_ok_def)
  have own: ?thesis if "demands_ok cuid db' \<and> books_balance db'" "arrears_unique db'" "lg_payments db' = lg_payments db"
    using that ok(4) by (simp add: system_ok_def ledger_ok_def payments_ok_def keeps_receipts_same keeps_success_same)
  have arr: "arrears_unique db'" if "lg_arrears db' = lg_arrears db" using ok(3) that by (simp add: arrears_unique_def)
  have pay: ?thesis if "pe_col env = col" "money_step env new db db'" for env new
    using money_step_ok[OF _ assms(2) that(2)] money_step_success[OF ok(5) that(2)] assms(1) that(1) by blast
  from assms(3) show ?thesis
  proof cases
    case (publish now surveyId yearId actorId r)
    then show ?thesis using own publish_books[OF assms(1) ok(1,2)] publish_same arr by blast
  next
    case (publishForWard now wardId yearId actorId r)
    then show ?thesis using own publishForWard_books[OF assms(1) ok(1,2)] publishForWard_same arr by blast
  next
    case (commitYearEnd now fromYearId toYearId actorId r)
    then show ?thesis using own commit_books[OF assms(1) ok(1,3,2)] commit_payments by blast
  next
    case elsewhere
    then show ?thesis
      using own arr demands_ok_mono[OF ok(1)] ok(2) by (simp add: books_balance_def)
  qed (rule pay, assumption, erule createOnline_step createCitizenOnline_step createOffline_step
        handleCallback_step(1)[OF ok(5)] handleGatewayReturn_step[OF ok(5)] requery_step[OF ok(5)]
        sync_step[OF ok(5)] refund_step[OF ok(5)] ingestSettlement_step)+
qed

interpretation ledger_system: guarded_system "\<lambda>db db'. decimal_column col \<and> ledger_step cuid col db db'"
    "system_ok cuid" keeps_receipts for cuid col
  by unfold_locales
    (auto dest: system_step keeps_receipts_trans simp: keeps_receipts_same intro: keeps_receipts_trans)

lemma decimal_run:
  "decimal_column col \<Longrightarrow> (ledger_step cuid col)\<^sup>*\<^sup>* = (\<lambda>db db'. decimal_column col \<and> ledger_step cuid col db db')\<^sup>*\<^sup>*"
  by simp

definition empty_ledger :: ledger where
  "empty_ledger =
     \<lparr>lg_seq = 0, lg_wards = [], lg_users = [], lg_entries = [], lg_surveys = [], lg_configs = [], lg_rules = [],
      lg_demands = [], lg_arrears = [], lg_runs = [], lg_payments = [], lg_callbacks = [], lg_transactions = [],
      lg_refunds = [], lg_settlements = [], lg_audit = []\<rparr>"

lemma empty_ledger_ok: "inj cuid \<Longrightarrow> system_ok cuid empty_ledger"
  by (simp add: system_ok_def ledger_ok_def payments_ok_def demands_ok_def books_balance_def arrears_unique_def
      payments_unique_def empty_ledger_def map_filter_def)

text \<open>C2. Starting from an empty database, whatever operations run, in whatever order and with whatever
  gateway answers, every demand stays balanced: payable, paid and outstanding are whole paise, and the
  outstanding amount is exactly the payable amount minus the paid amount, or zero. Survey and year stay
  unique among demands, arrears are carried at most once per source year, and the keys of payments
  (reference, merchant transaction, Atom transaction, receipt number, idempotency key) stay unique.\<close>

theorem books_always_balance:
  assumes "inj cuid" "decimal_column col" "(ledger_step cuid col)\<^sup>*\<^sup>* empty_ledger db"
  shows "books_balance db \<and> demands_ok cuid db \<and> arrears_unique db \<and> payments_unique (lg_payments db)"
  using ledger_system.run_good[OF assms(3)[unfolded decimal_run[OF assms(2)]] empty_ledger_ok[OF assms(1)]]
  by (simp add: system_ok_def ledger_ok_def payments_ok_def)

text \<open>C6. A receipt is final. Once a payment carries a receipt snapshot, no sequence of operations of
  the demands and payments services changes that snapshot, the demand it was applied to, the amount or
  a receipt number that was given out, and the payment never disappears.\<close>

theorem receipts_are_final:
  assumes "decimal_column col" "system_ok cuid db" "(ledger_step cuid col)\<^sup>*\<^sup>* db db'"
    and "find_payment db i = Some p" "py_receiptSnapshot p = Some s"
  shows "\<exists>q. find_payment db' i = Some q \<and> py_receiptSnapshot q = Some s \<and> py_demandId q = py_demandId p \<and>
    py_amount q = py_amount p \<and> (\<not> unset (py_receiptNumber p) \<longrightarrow> py_receiptNumber q = py_receiptNumber p)"
proof -
  note r = assms(3)[unfolded decimal_run[OF assms(1)]]
  note p = find_payment_id[OF assms(4)]
  have u: "payments_unique (lg_payments db')"
    using ledger_system.run_good[OF r assms(2)] by (simp add: system_ok_def payments_ok_def)
  obtain q where q: "q \<in> set (lg_payments db')" "py_id q = py_id p" "py_amount q = py_amount p"
    "py_receiptSnapshot q = py_receiptSnapshot p \<and> py_demandId q = py_demandId p"
    "\<not> unset (py_receiptNumber p) \<longrightarrow> py_receiptNumber q = py_receiptNumber p"
    using ledger_system.run_later[OF r assms(2)] p assms(5) unfolding keeps_receipts_def by blast
  then show ?thesis using find_payment_in[OF u q(1)] p assms(5) by auto
qed

text \<open>C18. A successful payment is never lost: no single operation of the demands and payments services
  deletes it or turns it into a failed, cancelled or open one; it stays successful, or becomes
  refunded or partially refunded.\<close>

theorem success_is_not_lost:
  assumes "decimal_column col" "system_ok cuid db" "ledger_step cuid col db db'"
    and "find_payment db i = Some p" "py_status p = SUCCESS"
  shows "\<exists>q. find_payment db' i = Some q \<and> py_status q \<in> {SUCCESS, REFUNDED, PARTIALLY_REFUNDED}"
proof -
  note s = system_step[OF assms(1-3)] and p = find_payment_id[OF assms(4)]
  have "payments_unique (lg_payments db')" using s by (simp add: system_ok_def payments_ok_def)
  then show ?thesis using s p assms(5) find_payment_in unfolding keeps_success_def by metis
qed

subsection \<open>A sample run\<close>

text \<open>Setting up the ward and publishing its plot; then the sandbox settles the pending payment.\<close>

lemma books_always_balance_witness:
  "\<exists>db d. (ledger_step unary round_column)\<^sup>*\<^sup>* empty_ledger db \<and> find_demand db (''s1'', ''y1'') = Some d \<and> books_balance db"
proof -
  obtain db d where p: "publish unary round_column 1000 plot_ledger ''s1'' ''y1'' (Some ''u1'') = (db, Inr d)"
    using plot_publish by blast
  have s: "ledger_step unary round_column empty_ledger plot_ledger"
    by (rule ledger_step.elsewhere) (simp_all add: empty_ledger_def plot_ledger_def)
  have "(ledger_step unary round_column)\<^sup>*\<^sup>* empty_ledger plot_ledger" using s by (rule r_into_rtranclp)
  then have "(ledger_step unary round_column)\<^sup>*\<^sup>* empty_ledger db"
    using ledger_step.publish[OF p] by (rule rtranclp.rtrancl_into_rtrancl)
  moreover have "find_demand db (''s1'', ''y1'') = Some d"
    by (rule publish_cases[OF p]) simp
  ultimately show ?thesis
    using books_always_balance[OF inj_unary round_column_decimal] by blast
qed

definition settled_ledger :: ledger where
  "settled_ledger = due_ledger\<lparr>lg_payments := [pending_payment
     \<lparr>py_status := SUCCESS, py_atomTxnId := Some ''A1'', py_receiptSnapshot := Some JNull, py_receiptNumber := Some ''RCP-1''\<rparr>]\<rparr>"

lemma settled_ledger_facts:
  "lg_payments settled_ledger = [pending_payment
     \<lparr>py_status := SUCCESS, py_atomTxnId := Some ''A1'', py_receiptSnapshot := Some JNull, py_receiptNumber := Some ''RCP-1''\<rparr>]"
  "find_payment settled_ledger (unary 1) = Some (pending_payment
     \<lparr>py_status := SUCCESS, py_atomTxnId := Some ''A1'', py_receiptSnapshot := Some JNull, py_receiptNumber := Some ''RCP-1''\<rparr>)"
  by (simp_all add: settled_ledger_def find_payment_def pending_id)

lemma settled_ledger_ok: "system_ok unary settled_ledger"
proof -
  have "ledger_ok unary settled_ledger"
    by (rule ledger_ok_frame[of _ due_ledger]) (use due_ledger_ok in \<open>simp_all add: system_ok_def settled_ledger_def\<close>)
  then show ?thesis
    using money_6000 by (auto simp: system_ok_def payments_ok_def settled_ledger_facts payments_unique_single pending_payment_def)
qed

text \<open>A late failure callback for the settled payment.\<close>

definition late_failure :: "(string \<times> json) list" where
  "late_failure = [(''merchTxnId'', JStr ''CHH-1''), (''statusCode'', JStr ''FAILED''), (''amount'', JNum 6000)]"

lemma late_failure_step:
  "handleCallback desk_env settled_ledger late_failure = (db', r) \<Longrightarrow> ledger_step unary round_column settled_ledger db'"
  by (rule ledger_step.handleCallback[of desk_env]) (simp_all add: desk_env_def)

lemma receipts_are_final_witness:
  "\<exists>db' r q. handleCallback desk_env settled_ledger late_failure = (db', r) \<and>
     find_payment db' (unary 1) = Some q \<and> py_receiptSnapshot q = Some JNull \<and> py_receiptNumber q = Some ''RCP-1''"
proof -
  obtain db' r where h: "handleCallback desk_env settled_ledger late_failure = (db', r)" by fastforce
  have "(ledger_step unary round_column)\<^sup>*\<^sup>* settled_ledger db'" using late_failure_step[OF h] by (rule r_into_rtranclp)
  from receipts_are_final[OF round_column_decimal settled_ledger_ok this settled_ledger_facts(2)] show ?thesis
    using h by (auto simp: unset_def)
qed

lemma success_is_not_lost_witness:
  "\<exists>db' r q. handleCallback desk_env settled_ledger late_failure = (db', r) \<and>
     find_payment db' (unary 1) = Some q \<and> py_status q \<noteq> FAILED"
proof -
  obtain db' r where h: "handleCallback desk_env settled_ledger late_failure = (db', r)" by fastforce
  from success_is_not_lost[OF round_column_decimal settled_ledger_ok late_failure_step[OF h] settled_ledger_facts(2)]
  show ?thesis using h by auto
qed

end
