(* ===== verification/CitizenPortal.thy ===== *)
theory CitizenPortal
  imports LedgerSystem
begin

text \<open>
  The citizens' side of property tax (\<open>public-property-tax/public-property-tax.service.ts\<close>): the search
  for a property, its dues, starting an online payment, its status and its receipt. The service reads
  the tables of \<open>Ledger\<close> and starts payments through the payments service.

  The columns \<open>updatedAt\<close> are kept by the database client and reach the receipt as a function of the
  payment; text comparison and collation of the database are the parameters in \<open>db_text\<close>.

  Lemmas: the due status in a list of search results is the one the dues page shows; a started payment
  asks for exactly what is due, which is what the counter's own computation says; while it is open no
  second one can be started.
\<close>

datatype portal_error =
    SURVEY_ID_REQUIRED | P_SURVEY_NOT_FOUND | P_TAX_CONFIG_NOT_PUBLISHED | P_DUES_NOT_PAYABLE
  | ALREADY_PAID_FOR_YEAR | PAYMENT_IN_PROGRESS | GATEWAY_CHECKOUT_MISSING | MERCH_TXN_REQUIRED
  | P_PAYMENT_NOT_FOUND | P_RECEIPT_NOT_AVAILABLE | WARD_NUMBER_REQUIRED | WARD_NOT_FOUND
  | PROPERTY_ID_REQUIRED | OWNER_SEARCH_INVALID owner_search_error | Not_computable | Payments payment_error

subsection \<open>Wards and dues\<close>

definition listWards :: "ledger \<Rightarrow> ward list" where
  "listWards db = sort_by (\<lambda>a b. wd_number a - wd_number b) (filter wd_isActive (lg_wards db))"

definition countSuccessfulPaymentsForYear :: "ledger \<Rightarrow> string \<Rightarrow> string \<Rightarrow> nat" where
  "countSuccessfulPaymentsForYear db surveyId yearId =
     length (filter (\<lambda>p. py_surveyId p = Some surveyId \<and> py_yearId p = Some yearId \<and> py_status p = SUCCESS)
               (lg_payments db))"

record public_dues =
  pu_payload :: dues_payload
  pu_paidForYear :: bool
  pu_demandId :: "string option"
  pu_outstanding :: "js_number option"
  pu_payable :: "js_number option"

definition find_active :: "ledger \<Rightarrow> string \<Rightarrow> ledger_survey option" where
  "find_active db i = List.find (\<lambda>s. ds_id s = i \<and> active_survey s) (lg_surveys db)"

definition public_dues_of :: "ledger \<Rightarrow> ledger_survey \<Rightarrow> ledger_config \<Rightarrow> dues_payload \<Rightarrow> public_dues" where
  "public_dues_of db survey config payload =
     (let demand = (case find_demand db (ds_id survey, dc_yearId config) of
                      Some d \<Rightarrow> if dm_status d = D_PUBLISHED then Some d else None | None \<Rightarrow> None);
          outstanding = map_option dm_outstanding demand;
          successCount = (if demand \<noteq> None then 0
                          else countSuccessfulPaymentsForYear db (ds_id survey) (dc_yearId config))
      in \<lparr>pu_payload = payload,
          pu_paidForYear = isAlreadyPaidForYear (dc_yearId config) successCount outstanding (demand \<noteq> None),
          pu_demandId = map_option dm_id demand, pu_outstanding = outstanding,
          pu_payable = (if demand \<noteq> None then outstanding else Some (dp_totalDemand payload))\<rparr>)"

definition getDues :: "pay_env \<Rightarrow> ledger \<Rightarrow> string \<Rightarrow> portal_error + public_dues" where
  "getDues env db surveyCuid =
     (let i = trim surveyCuid in
      if i = [] then Inl SURVEY_ID_REQUIRED
      else
       (case find_active db i of
          None \<Rightarrow> Inl P_SURVEY_NOT_FOUND
        | Some survey \<Rightarrow>
           (case pickLatestPublishedConfig (pe_localeCompare env) (published_configs db (ls_wardId survey)) of
              None \<Rightarrow> Inl P_TAX_CONFIG_NOT_PUBLISHED
            | Some config \<Rightarrow>
               (case computePublicDuesPayload survey config of
                  Inl _ \<Rightarrow> Inl Not_computable
                | Inr payload \<Rightarrow> Inr (public_dues_of db survey config payload)))))"

subsection \<open>Starting a payment\<close>

record citizen_request =
  cz_surveyId :: string
  cz_payerMobile :: string
  cz_payerEmail :: string

definition open_citizen_payments :: "pay_env \<Rightarrow> ledger \<Rightarrow> string \<Rightarrow> string \<Rightarrow> open_payment list" where
  "open_citizen_payments env db surveyId yearId =
     take 5 (map (\<lambda>p. \<lparr>op_id = py_id p, op_status = py_status p, op_createdAt = py_createdAt p\<rparr>)
       (filter (\<lambda>p. py_surveyId p = Some surveyId \<and> py_yearId p = Some yearId \<and> py_mode p = ONLINE
                  \<and> (py_status p = INITIATED \<or> py_status p = PENDING)
                  \<and> py_createdAt p \<ge> pe_now env - CITIZEN_PAYMENT_IN_PROGRESS_WINDOW_MS)
         (lg_payments db)))"

definition payable_of :: "public_dues \<Rightarrow> js_number" where
  "payable_of dues = nullish (nullish_opt (pu_payable dues) (pu_outstanding dues)) (dp_totalDemand (pu_payload dues))"

definition citizen_online_request :: "citizen_request \<Rightarrow> public_dues \<Rightarrow> ledger_survey \<Rightarrow> online_request" where
  "citizen_online_request dto dues survey =
     \<lparr>or_amount = payable_of dues, or_surveyId = Some (ds_id survey), or_wardId = Some (ls_wardId survey),
      or_payerName = ds_ownerName survey, or_payerMobile = Some (cz_payerMobile dto),
      or_payerEmail = Some (trim (cz_payerEmail dto)),
      or_yearId = Some (dp_assessmentYearId (pu_payload dues)), or_demandId = pu_demandId dues\<rparr>"

text \<open>Where the browser goes: the token checkout of the gateway, or a redirect.\<close>

record aipay_checkout =
  ac_atomTokenId :: string
  ac_merchId :: string
  ac_custEmail :: string
  ac_custMobile :: string
  ac_returnUrl :: string
  ac_cdnUrl :: string
  ac_prod :: bool

datatype checkout = Aipay aipay_checkout | Redirect string

record citizen_checkout =
  ck_paymentId :: string
  ck_merchTxnId :: "string option"
  ck_amount :: js_number
  ck_currency :: string
  ck_checkout :: checkout
  ck_assessmentYear :: string
  ck_surveyId :: string

definition gateway_return_url :: "process_env \<Rightarrow> string" where
  "gateway_return_url env =
     (if trimmed (env ''ATOM_GATEWAY_RETURN_URL'') \<noteq> [] then trimmed (env ''ATOM_GATEWAY_RETURN_URL'')
      else
       (let callback = or_text (trimmed (env ''ATOM_CALLBACK_URL''))
                         ''http://localhost:4000/api/v1/payments/gateway/callback''
        in if contains_text callback ''/gateway/callback''
           then replace_first ''/gateway/callback'' ''/gateway/return'' callback
           else ''http://localhost:4000/api/v1/payments/gateway/return''))"

definition checkout_prod :: "process_env \<Rightarrow> bool" where
  "checkout_prod env \<longleftrightarrow> toLowerCase (trimmed (env ''ATOM_CHECKOUT_ENV'')) = ''prod''"

definition checkout_cdn :: "process_env \<Rightarrow> string" where
  "checkout_cdn env =
     or_text (trimmed (env ''ATOM_CHECKOUT_CDN''))
       (if checkout_prod env then ''https://psa.atomtech.in/staticdata/ots/js/atomcheckout.js''
        else ''https://pgtest.atomtech.in/staticdata/ots/js/atomcheckout.js'')"

definition checkout_of ::
  "process_env \<Rightarrow> citizen_request \<Rightarrow> create_result \<Rightarrow> portal_error + checkout" where
  "checkout_of env dto gw =
     (if \<not> unset (ct_atomTokenId gw) \<and> \<not> unset (ct_merchId gw)
      then Inr (Aipay \<lparr>ac_atomTokenId = nullish (ct_atomTokenId gw) [], ac_merchId = nullish (ct_merchId gw) [],
                       ac_custEmail = trim (cz_payerEmail dto), ac_custMobile = cz_payerMobile dto,
                       ac_returnUrl = gateway_return_url env, ac_cdnUrl = checkout_cdn env,
                       ac_prod = checkout_prod env\<rparr>)
      else if unset (ct_redirectUrl gw) then Inl GATEWAY_CHECKOUT_MISSING
      else Inr (Redirect (nullish (ct_redirectUrl gw) [])))"

definition start_payment ::
  "pay_env \<Rightarrow> ledger \<Rightarrow> citizen_request \<Rightarrow> public_dues \<Rightarrow> ledger_survey \<Rightarrow> (json \<Rightarrow> string)
     \<Rightarrow> ledger \<times> (portal_error + citizen_checkout)" where
  "start_payment env db dto dues survey json_text =
     (case createCitizenOnline env db (citizen_online_request dto dues survey) json_text of
        (db', Inl e) \<Rightarrow> (db', Inl (Payments e))
      | (db', Inr (p, gw)) \<Rightarrow>
         (db', bind_res (checkout_of (pe_process env) dto gw)
            (\<lambda>c. Inr \<lparr>ck_paymentId = py_id p, ck_merchTxnId = py_merchTxnId p, ck_amount = py_amount p,
                      ck_currency = py_currency p, ck_checkout = c,
                      ck_assessmentYear = dp_assessmentYearName (pu_payload dues),
                      ck_surveyId = dp_surveyId (pu_payload dues)\<rparr>)))"

definition createPayment ::
  "pay_env \<Rightarrow> ledger \<Rightarrow> citizen_request \<Rightarrow> (json \<Rightarrow> string) \<Rightarrow> ledger \<times> (portal_error + citizen_checkout)" where
  "createPayment env db dto json_text =
     (case getDues env db (cz_surveyId dto) of
        Inl e \<Rightarrow> (db, Inl e)
      | Inr dues \<Rightarrow>
         (if payable_of dues \<le> 0 then (db, Inl P_DUES_NOT_PAYABLE)
          else if pu_paidForYear dues then (db, Inl ALREADY_PAID_FOR_YEAR)
          else
           (case find_active db (dp_id (pu_payload dues)) of
              None \<Rightarrow> (db, Inl P_SURVEY_NOT_FOUND)
            | Some survey \<Rightarrow>
               (if hasRecentOpenCitizenPayment
                     (open_citizen_payments env db (ds_id survey) (dp_assessmentYearId (pu_payload dues)))
                     (pe_now env) CITIZEN_PAYMENT_IN_PROGRESS_WINDOW_MS
                then (db, Inl PAYMENT_IN_PROGRESS)
                else start_payment env db dto dues survey json_text))))"

subsection \<open>Status and receipt of a payment\<close>

record payment_view =
  pv_paymentId :: string
  pv_merchTxnId :: "string option"
  pv_receiptNumber :: "string option"
  pv_status :: payment_status
  pv_amount :: js_number
  pv_currency :: string
  pv_payerMobileMasked :: string
  pv_id :: "string option"
  pv_surveyId :: "string option"
  pv_wardNumber :: "int option"
  pv_wardName :: "string option"
  pv_propertyNo :: "string option"
  pv_parcelNo :: "string option"
  pv_createdAt :: string
  pv_updatedAt :: string

definition payment_view_of :: "pay_env \<Rightarrow> (payment \<Rightarrow> int) \<Rightarrow> ledger \<Rightarrow> payment \<Rightarrow> payment_view" where
  "payment_view_of env updatedAt db p =
     (let survey = (if unset (py_surveyId p) then None else by_id ds_id (lg_surveys db) (py_surveyId p))
      in \<lparr>pv_paymentId = py_id p, pv_merchTxnId = py_merchTxnId p, pv_receiptNumber = py_receiptNumber p,
          pv_status = py_status p, pv_amount = py_amount p, pv_currency = py_currency p,
          pv_payerMobileMasked = maskMobile (py_payerMobile p), pv_id = py_surveyId p,
          pv_surveyId = map_option ts_surveyId survey, pv_wardNumber = map_option ds_wardNumber survey,
          pv_wardName = map_option ds_wardName survey,
          pv_propertyNo = Option.bind survey ds_propertyNo, pv_parcelNo = Option.bind survey ds_parcelNo,
          pv_createdAt = pe_iso env (py_createdAt p), pv_updatedAt = pe_iso env (updatedAt p)\<rparr>)"

definition getPaymentByMerchTxnId ::
  "pay_env \<Rightarrow> (payment \<Rightarrow> int) \<Rightarrow> ledger \<Rightarrow> string \<Rightarrow> bool \<Rightarrow> ledger \<times> (portal_error + payment_view)" where
  "getPaymentByMerchTxnId env updatedAt db merchTxnId sync =
     (let i = trim merchTxnId in
      if i = [] then (db, Inl MERCH_TXN_REQUIRED)
      else if sync
      then (case syncCitizenPaymentByMerchTxnId env db i of
              (db', Inl e) \<Rightarrow> (db', Inl (Payments e))
            | (db', Inr p) \<Rightarrow> (db', Inr (payment_view_of env updatedAt db' p)))
      else (case find_merch db i of
              None \<Rightarrow> (db, Inl P_PAYMENT_NOT_FOUND)
            | Some p \<Rightarrow> (db, Inr (payment_view_of env updatedAt db p))))"

record public_receipt =
  rv_view :: payment_view
  rv_receiptNumber :: string
  rv_paidAt :: string
  rv_assessmentYear :: "string option"
  rv_ownerName :: "string option"
  rv_ownerFatherName :: "string option"
  rv_taxBreakdown :: "tax_breakdown option"
  rv_gateway :: "string option"
  rv_atomTxnId :: "string option"

definition breakdown_of_dues :: "dues_payload \<Rightarrow> tax_breakdown" where
  "breakdown_of_dues d =
     \<lparr>bd_propertyTax = dp_propertyTax d, bd_waterTax = dp_waterTax d, bd_drainageTax = dp_drainageTax d,
      bd_penalty = dp_penalty d, bd_totalDemand = dp_totalDemand d\<rparr>"

definition public_receipt_of ::
  "pay_env \<Rightarrow> (payment \<Rightarrow> int) \<Rightarrow> ledger \<Rightarrow> string \<Rightarrow> payment_view \<Rightarrow> payment \<Rightarrow> public_receipt" where
  "public_receipt_of env updatedAt db merchTxnId view p =
     (let year = assessmentYearNameFromSnapshot (pe_js env) (pe_other_num env) (py_receiptSnapshot p);
          breakdown = taxBreakdownFromReceiptSnapshot (pe_js env) (pe_other_num env) (py_receiptSnapshot p);
          dues = (if breakdown = None \<or> year = None
                  then (case getDues env db (nullish (py_surveyId p) []) of Inl _ \<Rightarrow> None | Inr d \<Rightarrow> Some (pu_payload d))
                  else None);
          survey = by_id ds_id (lg_surveys db) (py_surveyId p)
      in \<lparr>rv_view = view,
          rv_receiptNumber = nullish (pv_receiptNumber view) (''RCP-'' @ nullish (pv_merchTxnId view) merchTxnId),
          rv_paidAt = pe_iso env (nullish (py_collectionDate p) (updatedAt p)),
          rv_assessmentYear = nullish_opt year (map_option dp_assessmentYearName dues),
          rv_ownerName = nullish_opt (Option.bind survey ds_ownerName) (py_payerName p),
          rv_ownerFatherName = Option.bind survey ls_ownerFatherName,
          rv_taxBreakdown = nullish_opt breakdown (map_option breakdown_of_dues dues),
          rv_gateway = py_gateway p, rv_atomTxnId = py_atomTxnId p\<rparr>)"

definition getReceipt ::
  "pay_env \<Rightarrow> (payment \<Rightarrow> int) \<Rightarrow> ledger \<Rightarrow> string \<Rightarrow> ledger \<times> (portal_error + public_receipt)" where
  "getReceipt env updatedAt db merchTxnId =
     (case getPaymentByMerchTxnId env updatedAt db merchTxnId True of
        (db', Inl e) \<Rightarrow> (db', Inl e)
      | (db', Inr view) \<Rightarrow>
         (if pv_status view \<noteq> SUCCESS then (db', Inl P_RECEIPT_NOT_AVAILABLE)
          else
           (case find_merch db' (trim merchTxnId) of
              None \<Rightarrow> (db', Inl P_RECEIPT_NOT_AVAILABLE)
            | Some p \<Rightarrow>
               (if unset (py_surveyId p) then (db', Inl P_RECEIPT_NOT_AVAILABLE)
                else (db', Inr (public_receipt_of env updatedAt db' merchTxnId view p))))))"

subsection \<open>Search\<close>

record db_text =
  dx_contains :: "string \<Rightarrow> string \<Rightarrow> bool"
  dx_equals :: "string \<Rightarrow> string \<Rightarrow> bool"
  dx_collate :: "string \<Rightarrow> string \<Rightarrow> int"

datatype search_mode = By_ward | By_propertyId | By_owner

record search_query =
  sq_mode :: search_mode
  sq_wardNumber :: "int option"
  sq_propertyNo :: "string option"
  sq_propertyId :: "string option"
  sq_ownerName :: "string option"
  sq_mobile :: "string option"
  sq_page :: "nat option"
  sq_pageSize :: "nat option"

definition opt_holds :: "string option \<Rightarrow> (string \<Rightarrow> bool) \<Rightarrow> bool" where
  "opt_holds v f = (case v of None \<Rightarrow> False | Some s \<Rightarrow> f s)"

definition buildWhere ::
  "db_text \<Rightarrow> ledger \<Rightarrow> search_query \<Rightarrow> portal_error + (ledger_survey \<Rightarrow> bool)" where
  "buildWhere dx db q =
     (case sq_mode q of
        By_ward \<Rightarrow>
         (case sq_wardNumber q of
            None \<Rightarrow> Inl WARD_NUMBER_REQUIRED
          | Some n \<Rightarrow>
             (case List.find (\<lambda>w. wd_number w = n \<and> wd_isActive w) (lg_wards db) of
                None \<Rightarrow> Inl WARD_NOT_FOUND
              | Some w \<Rightarrow>
                 (let hint = trimmed (sq_propertyNo q); has = (\<lambda>v. opt_holds v (\<lambda>s. dx_contains dx s hint))
                  in Inr (\<lambda>s. active_survey s \<and> ls_wardId s = wd_id w
                     \<and> (hint = [] \<or> has (ds_propertyNo s) \<or> has (ds_parcelNo s) \<or> has (ds_houseNo s))))))
      | By_propertyId \<Rightarrow>
         (let i = trimmed (sq_propertyId q); is = (\<lambda>v. opt_holds v (\<lambda>s. dx_equals dx s i))
          in if i = [] then Inl PROPERTY_ID_REQUIRED
             else Inr (\<lambda>s. active_survey s \<and> (is (Some (ts_surveyId s)) \<or> is (ds_parcelNo s) \<or> is (ds_propertyNo s))))
      | By_owner \<Rightarrow>
         (let ownerName = trimmed (sq_ownerName q); mobile = trimmed (sq_mobile q)
          in case assertOwnerSearchInput ownerName mobile of
               Some e \<Rightarrow> Inl (OWNER_SEARCH_INVALID e)
             | None \<Rightarrow>
                Inr (\<lambda>s. active_survey s \<and> opt_holds (ds_ownerName s) (\<lambda>n. dx_contains dx n ownerName)
                       \<and> ds_mobile s = Some (normalizeMobileDigits mobile))))"

text \<open>The two maps that the status of a row reads: outstanding by survey and year, paid years by survey.\<close>

definition due_key :: "string \<Rightarrow> string \<Rightarrow> string" where
  "due_key surveyId yearId = surveyId @ '':'' @ yearId"

definition year_by_ward :: "pay_env \<Rightarrow> ledger \<Rightarrow> string list \<Rightarrow> (string \<times> string) list" where
  "year_by_ward env db wardIds =
     (let published = filter (\<lambda>c. lc_wardId c \<in> set wardIds \<and> lc_status c = C_PUBLISHED) (lg_configs db)
      in List.map_filter
           (\<lambda>w. map_option (\<lambda>c. (w, dc_yearId c))
                  (pickLatestPublishedConfig (pe_localeCompare env) (filter (\<lambda>c. lc_wardId c = w) published)))
           wardIds)"

definition demand_by_key :: "demand list \<Rightarrow> string \<Rightarrow> js_number option" where
  "demand_by_key ds = foldl (\<lambda>m d. m(due_key (dm_surveyId d) (dm_yearId d) \<mapsto> dm_outstanding d)) Map.empty ds"

definition paid_years_step :: "(string \<Rightarrow> string list option) \<Rightarrow> payment \<Rightarrow> (string \<Rightarrow> string list option)" where
  "paid_years_step m p =
     (if unset (py_surveyId p) \<or> unset (py_yearId p) then m
      else
       (let s = nullish (py_surveyId p) []; y = nullish (py_yearId p) []
        in m(s \<mapsto> List.insert y (nullish (m s) []))))"

definition resolveSearchDueStatuses ::
  "pay_env \<Rightarrow> ledger \<Rightarrow> ledger_survey list \<Rightarrow> string \<Rightarrow> due_status option" where
  "resolveSearchDueStatuses env db rows =
     (let yearOf = year_by_ward env db (new_set (map ls_wardId rows));
          surveyIds = map ds_id rows;
          yearIds = new_set (map snd yearOf);
          demands = (if yearIds = [] then []
                     else filter (\<lambda>d. dm_surveyId d \<in> set surveyIds \<and> dm_yearId d \<in> set yearIds
                                    \<and> dm_status d = D_PUBLISHED) (lg_demands db));
          successPayments = (if yearIds = [] then []
                     else filter (\<lambda>p. py_surveyId p \<in> Some ` set surveyIds \<and> py_status p = SUCCESS
                                    \<and> py_yearId p \<in> Some ` set yearIds) (lg_payments db));
          demandOf = demand_by_key demands;
          paidYears = foldl paid_years_step Map.empty successPayments
      in foldl (\<lambda>m row.
           let yearId = map_of yearOf (ls_wardId row);
               demand = (if unset yearId then None else demandOf (due_key (ds_id row) (nullish yearId [])))
           in m(ds_id row \<mapsto> resolveDueStatus yearId (nullish (paidYears (ds_id row)) []) demand (demand \<noteq> None)))
         Map.empty rows)"

record search_item =
  si_id :: string
  si_surveyId :: string
  si_wardNumber :: int
  si_wardName :: string
  si_propertyNo :: "string option"
  si_parcelNo :: "string option"
  si_ownerNameMasked :: string
  si_mobileMasked :: string
  si_locality :: "string option"
  si_dueStatus :: due_status

definition search_item_of :: "(string \<Rightarrow> due_status option) \<Rightarrow> ledger_survey \<Rightarrow> search_item" where
  "search_item_of status s =
     \<lparr>si_id = ds_id s, si_surveyId = ts_surveyId s, si_wardNumber = ds_wardNumber s, si_wardName = ds_wardName s,
      si_propertyNo = ds_propertyNo s, si_parcelNo = ds_parcelNo s,
      si_ownerNameMasked = maskOwnerName (ds_ownerName s), si_mobileMasked = maskMobile (ds_mobile s),
      si_locality = ds_locality s, si_dueStatus = nullish (status (ds_id s)) DUE\<rparr>"

definition search_order :: "db_text \<Rightarrow> ledger_survey \<Rightarrow> ledger_survey \<Rightarrow> int" where
  "search_order dx a b =
     (if ds_wardNumber a \<noteq> ds_wardNumber b then ds_wardNumber a - ds_wardNumber b
      else dx_collate dx (ts_surveyId a) (ts_surveyId b))"

record search_page =
  sp_items :: "search_item list"
  sp_page :: nat
  sp_pageSize :: nat
  sp_total :: nat

definition search :: "pay_env \<Rightarrow> db_text \<Rightarrow> ledger \<Rightarrow> search_query \<Rightarrow> portal_error + search_page" where
  "search env dx db q =
     (let page = nullish (sq_page q) 1; pageSize = min (nullish (sq_pageSize q) 10) 20 in
      bind_res (buildWhere dx db q) (\<lambda>wanted.
        let found = filter wanted (lg_surveys db);
            rows = take pageSize (drop ((page - 1) * pageSize) (sort_by (search_order dx) found));
            status = resolveSearchDueStatuses env db rows
        in Inr \<lparr>sp_items = map (search_item_of status) rows, sp_page = page, sp_pageSize = pageSize,
                sp_total = length found\<rparr>))"

subsection \<open>Keys\<close>

text \<open>Primary keys are cuids: letters and digits.\<close>

definition plain_id :: "string \<Rightarrow> bool" where
  "plain_id s \<longleftrightarrow> s \<noteq> [] \<and> list_all (\<lambda>c. is_letter c \<or> is_digit c) s"

definition plain_keys :: "ledger \<Rightarrow> bool" where
  "plain_keys db \<longleftrightarrow>
     distinct (map ds_id (lg_surveys db)) \<and> (\<forall>s \<in> set (lg_surveys db). plain_id (ds_id s))
     \<and> (\<forall>c \<in> set (lg_configs db). plain_id (dc_yearId c))
     \<and> (\<forall>d \<in> set (lg_demands db). plain_id (dm_surveyId d))"

lemma plain_char:
  assumes "plain_id s" "c \<in> set s"
  shows "\<not> is_space c \<and> c \<noteq> CHR '':''"
proof -
  have "list_all (\<lambda>c. \<not> (is_letter c \<or> is_digit c))
      (CHR '':'' # [CHR 0x20, CHR 0x09, CHR 0x0A, CHR 0x0B, CHR 0x0C, CHR 0x0D, CHR 0xA0])"
    by (simp add: is_letter_def is_digit_def)
  moreover have "is_letter c \<or> is_digit c" using assms by (simp add: plain_id_def list_all_iff)
  ultimately show ?thesis unfolding list_all_iff is_space_def by (metis list.set_intros)
qed

lemma plain_trim [simp]: "plain_id s \<Longrightarrow> trim s = s"
  using plain_char[of s "hd s"] plain_char[of s "last s"] by (intro trim_id) auto

lemma plain_ne [simp]: "plain_id s \<Longrightarrow> s \<noteq> []"
  by (simp add: plain_id_def)

lemma plain_colon: "plain_id s \<Longrightarrow> CHR '':'' \<notin> set s"
  using plain_char[of s "CHR '':''"] by blast

lemma due_key_inj:
  assumes "plain_id s" "plain_id s'" "due_key s y = due_key s' y'"
  shows "s = s' \<and> y = y'"
proof -
  have "split_char CHR '':'' (due_key s y) = s # split_char CHR '':'' y"
    "split_char CHR '':'' (due_key s' y') = s' # split_char CHR '':'' y'"
    using assms(1,2)[THEN plain_colon] by (simp_all add: due_key_def split_char_append)
  then show ?thesis using assms(3) by (simp add: due_key_def)
qed

lemma find_active_id: "find_active db i = Some s \<Longrightarrow> ds_id s = i \<and> s \<in> set (lg_surveys db) \<and> active_survey s"
  using find_Some_in by (fastforce simp: find_active_def)

lemma find_active_in:
  assumes "plain_keys db" "s \<in> set (lg_surveys db)" "active_survey s"
  shows "find_active db (ds_id s) = Some s"
proof -
  obtain t where t: "find_active db (ds_id s) = Some t"
    using assms(2,3) by (cases "find_active db (ds_id s)") (auto simp: find_active_def find_None_iff)
  then show ?thesis
    using find_active_id[OF t] assms(1,2) by (auto simp: plain_keys_def distinct_map dest: inj_onD)
qed

lemma set_sort_by [simp]: "set (sort_by cmp xs) = set xs"
proof -
  have i: "set (insert_by cmp x ys) = insert x (set ys)" for x ys by (induction ys) auto
  show ?thesis by (induction xs) (auto simp: sort_by_def i)
qed

lemma pick_published:
  fixes cs :: "'a dues_config_scheme list"
  assumes "pickLatestPublishedConfig lc cs = Some c"
  shows "c \<in> set cs"
proof -
  obtain cs' where "sort_by (config_order lc) cs = c # cs'"
    using assms by (auto simp: pickLatestPublishedConfig_def split: list.splits)
  then show ?thesis using set_sort_by[of "config_order lc" cs] by (metis list.set_intros(1))
qed

lemma getDuesD:
  assumes "getDues env db i = Inr dues"
  obtains survey config payload where "find_active db (trim i) = Some survey"
    "pickLatestPublishedConfig (pe_localeCompare env) (published_configs db (ls_wardId survey)) = Some config"
    "computePublicDuesPayload survey config = Inr payload" "dues = public_dues_of db survey config payload"
  using assms by (auto simp: getDues_def Let_def split: if_splits option.splits sum.splits)

lemma payload_facts:
  assumes "computePublicDuesPayload survey config = Inr payload"
  shows "dp_id payload = ds_id survey" "dp_assessmentYearId payload = dc_yearId config"
    "dp_surveyId payload = ts_surveyId survey" "dp_mobileMasked payload = maskMobile (ds_mobile survey)"
    "dp_assessmentYearName payload = dc_yearName config"
  using assms by (auto simp: computePublicDuesPayload_def Let_def res_iffs)

subsection \<open>The list of results agrees with the dues page\<close>

lemma foldl_upd:
  "inj_on k (set xs) \<Longrightarrow> foldl (\<lambda>m x. m(k x \<mapsto> f x)) m xs i =
     (case List.find (\<lambda>x. k x = i) xs of Some x \<Rightarrow> Some (f x) | None \<Rightarrow> m i)"
proof (induction xs arbitrary: m)
  case (Cons x xs)
  then have "inj_on k (set xs)" by simp
  note IH = Cons.IH[OF this, of "m(k x \<mapsto> f x)"]
  show ?case
  proof (cases "k x = i")
    case True
    have "y = x" if "List.find (\<lambda>x. k x = i) xs = Some y" for y
      using find_Some_in[OF that] True inj_onD[OF Cons.prems, of y x] by simp
    then show ?thesis using IH True by (auto split: option.splits)
  qed (use IH in \<open>simp split: option.splits\<close>)
qed simp

lemma map_of_map_filter:
  "map_of (List.map_filter (\<lambda>w. map_option (\<lambda>c. (w, g c)) (f w)) ws) v =
     (if v \<in> set ws then map_option g (f v) else None)"
  by (induction ws) (auto simp: List.map_filter_def split: option.splits)

lemma year_by_ward_of:
  assumes "w \<in> set ws"
  shows "map_of (year_by_ward env db ws) w =
    map_option dc_yearId (pickLatestPublishedConfig (pe_localeCompare env) (published_configs db w))"
proof -
  have "filter (\<lambda>c. lc_wardId c = w) (filter (\<lambda>c. lc_wardId c \<in> set ws \<and> lc_status c = C_PUBLISHED) (lg_configs db))
    = published_configs db w"
    using assms by (auto simp: published_configs_def intro: filter_cong)
  then show ?thesis using assms by (simp add: year_by_ward_def map_of_map_filter Let_def)
qed

lemma paid_years:
  assumes "s \<noteq> []" "y \<noteq> []"
  shows "y \<in> set (nullish (foldl paid_years_step m ps s) []) \<longleftrightarrow>
    y \<in> set (nullish (m s) []) \<or> (\<exists>p \<in> set ps. py_surveyId p = Some s \<and> py_yearId p = Some y)"
proof (induction ps arbitrary: m)
  case (Cons p ps)
  have "y \<in> set (nullish (paid_years_step m p s) []) \<longleftrightarrow>
      y \<in> set (nullish (m s) []) \<or> py_surveyId p = Some s \<and> py_yearId p = Some y"
    using assms by (cases "py_surveyId p"; cases "py_yearId p") (auto simp: paid_years_step_def Let_def)
  then show ?case by (simp add: Cons.IH)
qed simp

lemma demand_by_key_of:
  assumes "demands_ok cuid db" "\<forall>d \<in> set ds. plain_id (dm_surveyId d)" "plain_id s"
    "ds = filter P (lg_demands db)"
  shows "demand_by_key ds (due_key s y) =
    (case find_demand db (s, y) of Some d \<Rightarrow> if P d then Some (dm_outstanding d) else None | None \<Rightarrow> None)"
proof -
  let ?k = "\<lambda>d. due_key (dm_surveyId d) (dm_yearId d)"
  have inj: "inj_on (\<lambda>d. (dm_surveyId d, dm_yearId d)) (set (lg_demands db))"
    using assms(1) by (simp add: demands_ok_def distinct_map)
  have "inj_on ?k (set ds)"
  proof (rule inj_onI)
    fix d e assume de: "d \<in> set ds" "e \<in> set ds" "?k d = ?k e"
    then have "(dm_surveyId d, dm_yearId d) = (dm_surveyId e, dm_yearId e)"
      using due_key_inj[of "dm_surveyId d" "dm_surveyId e"] assms(2) by simp
    then show "d = e" using inj de(1,2) assms(4) by (auto dest: inj_onD)
  qed
  then have m: "demand_by_key ds (due_key s y) =
      map_option dm_outstanding (List.find (\<lambda>d. ?k d = due_key s y) ds)"
    by (simp add: demand_by_key_def foldl_upd split: option.splits)
  have k: "?k d = due_key s y \<longleftrightarrow> (dm_surveyId d, dm_yearId d) = (s, y)" if "d \<in> set ds" for d
    using due_key_inj[of "dm_surveyId d" s] assms(2,3) that by auto
  show ?thesis
  proof (cases "find_demand db (s, y)")
    case None
    then have "List.find (\<lambda>d. ?k d = due_key s y) ds = None"
      using k assms(4) by (auto simp: find_demand_def find_None_iff)
    then show ?thesis using m None by simp
  next
    case (Some d)
    have d: "d \<in> set (lg_demands db)" "(dm_surveyId d, dm_yearId d) = (s, y)"
      using Some find_Some_in[of _ "lg_demands db" d] by (auto simp: find_demand_def)
    have u: "e = d" if "e \<in> set ds" "?k e = due_key s y" for e
      using k[OF that(1)] that d inj assms(4) by (auto dest: inj_onD)
    show ?thesis
    proof (cases "P d")
      case True
      then have "d \<in> set ds" "?k d = due_key s y" using d assms(4) by auto
      then obtain e where e: "List.find (\<lambda>d. ?k d = due_key s y) ds = Some e"
        by (cases "List.find (\<lambda>d. ?k d = due_key s y) ds") (auto simp: find_None_iff)
      then have "e = d" using u[of e] find_Some_in[OF e] by auto
      then show ?thesis using m e Some True by simp
    next
      case False
      then have "List.find (\<lambda>d. ?k d = due_key s y) ds = None"
        using u assms(4) by (auto simp: find_None_iff)
      then show ?thesis using m Some False by simp
    qed
  qed
qed

lemma search_rows:
  assumes "search env dx db q = Inr page"
  obtains rows where "set rows \<subseteq> set (lg_surveys db)" "\<forall>s \<in> set rows. active_survey s"
    "sp_items page = map (search_item_of (resolveSearchDueStatuses env db rows)) rows"
proof -
  obtain wanted where w: "buildWhere dx db q = Inr wanted"
    using assms by (auto simp: search_def res_iffs Let_def)
  let ?f = "filter wanted (lg_surveys db)"
  let ?n = "min (nullish (sq_pageSize q) 10) 20"
  let ?rows = "take ?n (drop ((nullish (sq_page q) 1 - 1) * ?n) (sort_by (search_order dx) ?f))"
  have "active_survey s" if "wanted s" for s
    using w that by (auto simp: buildWhere_def Let_def split: search_mode.splits option.splits if_splits)
  moreover have "set ?rows \<subseteq> set ?f"
    by (auto dest!: in_set_takeD in_set_dropD)
  ultimately show thesis
    using assms w by (intro that[of ?rows]) (auto simp: search_def Let_def)
qed

lemma row_status:
  assumes "demands_ok cuid db" "plain_keys db" "set rows \<subseteq> set (lg_surveys db)" "s \<in> set rows"
    "pickLatestPublishedConfig (pe_localeCompare env) (published_configs db (ls_wardId s)) = Some config"
  shows "resolveSearchDueStatuses env db rows (ds_id s) =
    Some (if pu_paidForYear (public_dues_of db s config payload) then NO_DUE else DUE)"
proof -
  let ?y = "dc_yearId config"
  let ?yo = "year_by_ward env db (new_set (map ls_wardId rows))"
  let ?ys = "new_set (map snd ?yo)"
  let ?P = "\<lambda>d. dm_surveyId d \<in> set (map ds_id rows) \<and> dm_yearId d \<in> set ?ys \<and> dm_status d = D_PUBLISHED"
  let ?ps = "filter (\<lambda>p. py_surveyId p \<in> Some ` set (map ds_id rows) \<and> py_status p = SUCCESS
      \<and> py_yearId p \<in> Some ` set ?ys) (lg_payments db)"
  have c: "config \<in> set (lg_configs db)" using pick_published[OF assms(5)] by (auto simp: published_configs_def)
  have y: "plain_id ?y" using c assms(2) by (simp add: plain_keys_def)
  have i: "plain_id (ds_id s)" using assms(2-4) by (auto simp: plain_keys_def)
  have inj: "inj_on ds_id (set rows)"
    using assms(2,3) by (auto simp: plain_keys_def distinct_map intro: inj_on_subset)
  have yo: "map_of ?yo (ls_wardId s) = Some ?y" using year_by_ward_of assms(4,5) by simp
  then have "snd (ls_wardId s, ?y) \<in> snd ` set ?yo" by (intro imageI map_of_SomeD)
  then have m: "?y \<in> set ?ys" by simp
  have ne: "?ys \<noteq> []"
  proof
    assume "?ys = []"
    with m show False by (simp only: list.set(1) empty_iff)
  qed
  have k: "demand_by_key (filter ?P (lg_demands db)) (due_key (ds_id s) ?y) =
      (case find_demand db (ds_id s, ?y) of Some d \<Rightarrow> if ?P d then Some (dm_outstanding d) else None | None \<Rightarrow> None)"
    by (rule demand_by_key_of[OF assms(1) _ i]) (use assms(2) in \<open>auto simp: plain_keys_def\<close>)
  have kd: "demand_by_key (filter ?P (lg_demands db)) (due_key (ds_id s) ?y) =
      (case find_demand db (ds_id s, ?y) of Some d \<Rightarrow> if dm_status d = D_PUBLISHED then Some (dm_outstanding d) else None | None \<Rightarrow> None)"
    unfolding k using m assms(4) find_demand_in[of db "(ds_id s, ?y)"] by (auto split: option.splits)
  have paid: "?y \<in> set (nullish (foldl paid_years_step Map.empty ?ps (ds_id s)) []) \<longleftrightarrow>
      countSuccessfulPaymentsForYear db (ds_id s) ?y > 0"
    using paid_years[of "ds_id s" ?y Map.empty ?ps] i y m assms(4)
    by (auto simp: countSuccessfulPaymentsForYear_def filter_empty_conv)
  have f: "List.find (\<lambda>x. ds_id x = ds_id s) rows = Some s"
    using assms(4) inj by (cases "List.find (\<lambda>x. ds_id x = ds_id s) rows")
      (auto simp: find_None_iff dest!: find_Some_in inj_onD)
  have "resolveSearchDueStatuses env db rows (ds_id s) =
      Some (resolveDueStatus (Some ?y) (nullish (foldl paid_years_step Map.empty ?ps (ds_id s)) [])
        (demand_by_key (filter ?P (lg_demands db)) (due_key (ds_id s) ?y))
        (demand_by_key (filter ?P (lg_demands db)) (due_key (ds_id s) ?y) \<noteq> None))"
    unfolding resolveSearchDueStatuses_def Let_def foldl_upd[OF inj] f using yo y ne by simp
  then show ?thesis
    using paid y unfolding kd
    by (auto simp: resolveDueStatus_def isAlreadyPaidForYear_def public_dues_of_def Let_def split: option.splits)
qed

text \<open>C16. The list of search results and the dues page agree: whenever the dues of a listed property can
  be shown, the list says "no due" exactly when the dues page says that the current year is paid, and
  both show the same municipal id and the same masked mobile number.\<close>

theorem search_status_matches_dues:
  assumes "demands_ok cuid db" "plain_keys db" "search env dx db q = Inr page" "item \<in> set (sp_items page)"
    "getDues env db (si_id item) = Inr dues"
  shows "(si_dueStatus item = NO_DUE \<longleftrightarrow> pu_paidForYear dues) \<and>
    si_surveyId item = dp_surveyId (pu_payload dues) \<and> si_mobileMasked item = dp_mobileMasked (pu_payload dues)"
proof -
  obtain rows where rows: "set rows \<subseteq> set (lg_surveys db)" "\<forall>s \<in> set rows. active_survey s"
    "sp_items page = map (search_item_of (resolveSearchDueStatuses env db rows)) rows"
    by (rule search_rows[OF assms(3)])
  then obtain s where s: "s \<in> set rows" "item = search_item_of (resolveSearchDueStatuses env db rows) s"
    using assms(4) by auto
  have f: "find_active db (ds_id s) = Some s" "plain_id (ds_id s)"
    using find_active_in[OF assms(2)] rows s(1) assms(2) by (auto simp: plain_keys_def)
  have i: "si_id item = ds_id s" using s(2) by (simp add: search_item_of_def)
  obtain config payload where c: "pickLatestPublishedConfig (pe_localeCompare env) (published_configs db (ls_wardId s)) = Some config"
    "computePublicDuesPayload s config = Inr payload" "dues = public_dues_of db s config payload"
    using getDuesD[OF assms(5)] f unfolding i by (metis option.inject plain_trim)
  have "resolveSearchDueStatuses env db rows (ds_id s) =
      Some (if pu_paidForYear dues then NO_DUE else DUE)"
    unfolding c(3) by (rule row_status[OF assms(1,2) rows(1) s(1) c(1)])
  then show ?thesis using s(2) payload_facts[OF c(2)] by (simp add: search_item_of_def c(3) public_dues_of_def Let_def)
qed

subsection \<open>Starting a payment\<close>

lemma createOnlinePaymentD:
  assumes "createOnlinePayment env db inp by jt = (db', Inr (p, gw))"
  obtains amount where "pe_col env (or_amount inp) = Some amount"
    "p = initiated_payment env db inp by amount\<lparr>py_status := PENDING\<rparr>"
    "lg_payments db' = lg_payments db @ [p]" "lg_demands db' = lg_demands db" "lg_surveys db' = lg_surveys db"
    "lg_configs db' = lg_configs db"
    "\<exists>t. db' = db\<lparr>lg_payments := lg_payments db @ [p], lg_transactions := lg_transactions db @ [t],
                  lg_seq := Suc (lg_seq db)\<rparr> \<and> tx_paymentId t = py_id p \<and> tx_direction t = ''outbound''"
    "\<exists>q g. gw_createPayment (pe_gateway env) q = Inr g \<and> cq_amount q = or_amount inp \<and> py_merchTxnId p = Some (cq_merchTxnId q)"
proof -
  obtain amount where a: "pe_col env (or_amount inp) = Some amount"
    using assms by (auto simp: createOnlinePayment_def split: option.splits)
  let ?p = "initiated_payment env db inp by amount"
  obtain db1 r where i: "insert_payment ?p db = Some db1" and r: "p = ?p\<lparr>py_status := PENDING\<rparr>"
    "db' = set_status (py_id ?p) PENDING (add_transaction (py_id ?p) ''outbound'' r None (Some ''INIT'') db1)"
    using assms a by (auto simp: createOnlinePayment_def Let_def split: option.splits sum.splits if_splits)
  have asked: "\<exists>q g. gw_createPayment (pe_gateway env) q = Inr g \<and> cq_amount q = or_amount inp \<and>
      py_merchTxnId p = Some (cq_merchTxnId q)"
  proof -
    obtain g where g: "gw_createPayment (pe_gateway env)
                        \<lparr>cq_merchTxnId = newCitizenMerchTxnId (pe_now env) (pe_suffix env (lg_seq db)),
                         cq_amount = or_amount inp,
                         cq_customerName = or_payerName inp, cq_customerEmail = or_payerEmail inp,
                         cq_customerMobile = or_payerMobile inp,
                         cq_returnUrl = defaultGatewayReturnUrl (pe_process env),
                         cq_callbackUrl = defaultCallbackUrl (pe_process env)\<rparr> = Inr g"
      using assms a i by (auto simp: createOnlinePayment_def Let_def split: sum.splits)
    show ?thesis
      by (intro exI conjI, rule g) (simp_all add: r(1) initiated_payment_def Let_def)
  qed
  note d = insert_paymentD[OF i]
  have "py_id ?p \<notin> py_id ` set (lg_payments db)" using d by (simp add: payments_unique_def)
  then have "py_id q \<noteq> py_id ?p" if "q \<in> set (lg_payments db)" for q using that by (metis imageI)
  then have "map (\<lambda>q. if py_id q = py_id ?p then q\<lparr>py_status := PENDING\<rparr> else q) (lg_payments db) = lg_payments db"
    by (simp add: map_idI)
  then have ps: "map (\<lambda>q. if py_id q = py_id ?p then q\<lparr>py_status := PENDING\<rparr> else q) (lg_payments db1) = lg_payments db @ [p]"
    using d r(1) by simp
  define t where "t = \<lparr>tx_paymentId = py_id ?p, tx_direction = ''outbound'', tx_requestPayload = r,
      tx_responsePayload = None, tx_statusCode = Some ''INIT''\<rparr>"
  have db': "db' = db\<lparr>lg_payments := lg_payments db @ [p], lg_transactions := lg_transactions db @ [t], lg_seq := Suc (lg_seq db)\<rparr>"
    unfolding r(2) set_status_def add_transaction_def t_def[symmetric] using ps d by simp
  have t: "tx_paymentId t = py_id p" "tx_direction t = ''outbound''" by (simp_all add: t_def r(1))
  show thesis
    by (rule that[OF a r(1) _ _ _ _ _ asked]) (use t in \<open>auto simp: db'\<close>)
qed

lemma createPaymentD:
  assumes "createPayment env db dto jt = (db', Inr c)"
  obtains survey dues p gw where "getDues env db (cz_surveyId dto) = Inr dues" "0 < payable_of dues"
    "\<not> pu_paidForYear dues" "find_active db (dp_id (pu_payload dues)) = Some survey"
    "\<not> hasRecentOpenCitizenPayment (open_citizen_payments env db (ds_id survey) (dp_assessmentYearId (pu_payload dues)))
       (pe_now env) CITIZEN_PAYMENT_IN_PROGRESS_WINDOW_MS"
    "createOnlinePayment env db (citizen_online_request dto dues survey) None jt = (db', Inr (p, gw))"
    "ck_amount c = py_amount p"
proof -
  obtain dues where d: "getDues env db (cz_surveyId dto) = Inr dues"
    using assms by (auto simp: createPayment_def split: sum.splits)
  obtain survey where s: "0 < payable_of dues" "\<not> pu_paidForYear dues"
    "find_active db (dp_id (pu_payload dues)) = Some survey"
    "\<not> hasRecentOpenCitizenPayment (open_citizen_payments env db (ds_id survey) (dp_assessmentYearId (pu_payload dues)))
       (pe_now env) CITIZEN_PAYMENT_IN_PROGRESS_WINDOW_MS"
    "start_payment env db dto dues survey jt = (db', Inr c)"
    using assms d by (auto simp: createPayment_def split: if_splits option.splits)
  then obtain p gw where "createOnlinePayment env db (citizen_online_request dto dues survey) None jt = (db', Inr (p, gw))"
    "ck_amount c = py_amount p"
    by (auto simp: start_payment_def createCitizenOnline_def res_iffs split: prod.splits sum.splits)
  then show thesis using that d s by blast
qed

lemma public_payable:
  "payable_of (public_dues_of db survey config payload) =
     (case find_demand db (ds_id survey, dc_yearId config) of
        Some d \<Rightarrow> if dm_status d = D_PUBLISHED then dm_outstanding d else dp_totalDemand payload
      | None \<Rightarrow> dp_totalDemand payload)"
  "pu_demandId (public_dues_of db survey config payload) =
     (case find_demand db (ds_id survey, dc_yearId config) of
        Some d \<Rightarrow> if dm_status d = D_PUBLISHED then Some (dm_id d) else None | None \<Rightarrow> None)"
  "pu_payload (public_dues_of db survey config payload) = payload"
  by (simp_all add: payable_of_def public_dues_of_def Let_def split: option.splits)

lemma payable_shown:
  assumes "getDues env db i = Inr dues"
  shows "pu_payable dues = Some (payable_of dues)"
proof -
  obtain survey config payload where "dues = public_dues_of db survey config payload"
    using getDuesD[OF assms] by metis
  then show ?thesis
    by (auto simp: public_dues_of_def payable_of_def Let_def nullish_def nullish_opt_def split: option.splits if_splits)
qed

lemma payable_whole_paise:
  assumes "books_balance db" "getDues env db i = Inr dues"
  shows "\<exists>n. payable_of dues = paise n"
proof -
  obtain survey config payload where c: "computePublicDuesPayload survey config = Inr payload"
    "dues = public_dues_of db survey config payload"
    using getDuesD[OF assms(2)] by metis
  obtain x where x: "survey_tax survey (taxConfigToRateTable config) = Inr x" "dp_totalDemand payload = xt_totalDemand x"
    using c(1) by (auto simp: computePublicDuesPayload_def Let_def res_iffs)
  have "\<exists>n. dp_totalDemand payload = paise n"
    using x by (auto simp: survey_tax_def computeSurveyExportTax_def computeDemandTotals_def Let_def roundMoney_alt split: if_splits prod.splits)
  moreover have "\<exists>n. dm_outstanding d = paise n" if "find_demand db k = Some d" for d k
    using find_demand_in[OF that] assms(1) by (auto simp: books_balance_def balanced_def)
  ultimately show ?thesis unfolding c(2) public_payable by (auto split: option.splits)
qed

lemma dues_agree:
  assumes "getDues env db i = Inr dues" "0 < payable_of dues"
  shows "\<exists>survey. resolveSurveyPayableAmount env db i =
      Inr \<lparr>pb_amount = payable_of dues, pb_survey = survey, pb_wardId = ls_wardId survey,
           pb_yearId = dp_assessmentYearId (pu_payload dues), pb_demandId = pu_demandId dues\<rparr> \<and>
    ds_id survey = trim i \<and> dp_id (pu_payload dues) = ds_id survey"
proof -
  obtain survey config payload where c: "find_active db (trim i) = Some survey"
    "pickLatestPublishedConfig (pe_localeCompare env) (published_configs db (ls_wardId survey)) = Some config"
    "computePublicDuesPayload survey config = Inr payload" "dues = public_dues_of db survey config payload"
    by (rule getDuesD[OF assms(1)])
  have p: "0 < (case find_demand db (ds_id survey, dc_yearId config) of
        Some d \<Rightarrow> if dm_status d = D_PUBLISHED then dm_outstanding d else dp_totalDemand payload
      | None \<Rightarrow> dp_totalDemand payload)"
    using assms(2) unfolding c(4) public_payable .
  have "resolveSurveyPayableAmount env db i =
      Inr \<lparr>pb_amount = payable_of dues, pb_survey = survey, pb_wardId = ls_wardId survey,
           pb_yearId = dp_assessmentYearId (pu_payload dues), pb_demandId = pu_demandId dues\<rparr>"
    using c(1) p unfolding resolveSurveyPayableAmount_def find_active_def c(4) public_payable payload_facts[OF c(3)]
    by (auto simp: c(2,3) Let_def split: option.splits if_splits)
  then show ?thesis using find_active_id[OF c(1)] payload_facts[OF c(3)] c(4) by (auto simp: public_payable)
qed

text \<open>C19. A payment that a citizen can start asks for exactly what is due: one payment is added, online
  and waiting for the gateway, over the positive amount that the dues of the property name as payable;
  the gateway is asked for the same amount under the reference of the payment, and the staff side's own
  computation of the payable amount names this amount, the year and the demand of the payment. The year
  was not paid yet. Besides the payment, the row of its gateway exchange is added; nothing else in the
  database changes, no demand and no other payment.\<close>

theorem citizen_pays_what_is_due:
  assumes "decimal_column (pe_col env)" "books_balance db" "createPayment env db dto jt = (db', Inr c)"
  shows "\<exists>p r t dues q g. getDues env db (cz_surveyId dto) = Inr dues \<and> \<not> pu_paidForYear dues \<and>
    pu_payable dues = Some (py_amount p) \<and> py_amount p = payable_of dues \<and> 0 < payable_of dues \<and>
    ck_amount c = payable_of dues \<and> gw_createPayment (pe_gateway env) q = Inr g \<and> cq_amount q = payable_of dues \<and>
    py_merchTxnId p = Some (cq_merchTxnId q) \<and>
    db' = db\<lparr>lg_payments := lg_payments db @ [p], lg_transactions := lg_transactions db @ [t],
             lg_seq := Suc (lg_seq db)\<rparr> \<and> tx_paymentId t = py_id p \<and> tx_direction t = ''outbound'' \<and>
    resolveSurveyPayableAmount env db (cz_surveyId dto) = Inr r \<and> pb_amount r = payable_of dues \<and>
    py_surveyId p = Some (ds_id (pb_survey r)) \<and>
    py_yearId p = given_text (Some (pb_yearId r)) \<and> py_demandId p = given_text (pb_demandId r) \<and>
    py_mode p = ONLINE \<and> py_status p = PENDING"
proof -
  obtain survey dues p gw where a: "getDues env db (cz_surveyId dto) = Inr dues" "0 < payable_of dues"
    "\<not> pu_paidForYear dues" "find_active db (dp_id (pu_payload dues)) = Some survey"
    "createOnlinePayment env db (citizen_online_request dto dues survey) None jt = (db', Inr (p, gw))"
    "ck_amount c = py_amount p"
    using createPaymentD[OF assms(3)] by metis
  obtain amount t q g where p: "pe_col env (payable_of dues) = Some amount"
    "p = initiated_payment env db (citizen_online_request dto dues survey) None amount\<lparr>py_status := PENDING\<rparr>"
    and t: "db' = db\<lparr>lg_payments := lg_payments db @ [p], lg_transactions := lg_transactions db @ [t],
               lg_seq := Suc (lg_seq db)\<rparr>" "tx_paymentId t = py_id p" "tx_direction t = ''outbound''"
    and q: "gw_createPayment (pe_gateway env) q = Inr g" "cq_amount q = payable_of dues"
      "py_merchTxnId p = Some (cq_merchTxnId q)"
  proof (rule createOnlinePaymentD[OF a(5)])
    fix amount
    assume "pe_col env (or_amount (citizen_online_request dto dues survey)) = Some amount"
      "p = initiated_payment env db (citizen_online_request dto dues survey) None amount\<lparr>py_status := PENDING\<rparr>"
      "\<exists>t. db' = db\<lparr>lg_payments := lg_payments db @ [p], lg_transactions := lg_transactions db @ [t],
                  lg_seq := Suc (lg_seq db)\<rparr> \<and> tx_paymentId t = py_id p \<and> tx_direction t = ''outbound''"
      "\<exists>q g. gw_createPayment (pe_gateway env) q = Inr g \<and> cq_amount q = or_amount (citizen_online_request dto dues survey)
         \<and> py_merchTxnId p = Some (cq_merchTxnId q)"
    then show thesis using that by (auto simp: citizen_online_request_def)
  qed
  have amount: "amount = payable_of dues"
    using payable_whole_paise[OF assms(2) a(1)] p(1) col_paise[OF assms(1)] by metis
  obtain s where s: "resolveSurveyPayableAmount env db (cz_surveyId dto) =
      Inr \<lparr>pb_amount = payable_of dues, pb_survey = s, pb_wardId = ls_wardId s,
           pb_yearId = dp_assessmentYearId (pu_payload dues), pb_demandId = pu_demandId dues\<rparr>"
    "dp_id (pu_payload dues) = ds_id s"
    using dues_agree[OF a(1,2)] by metis
  have fields: "py_amount p = payable_of dues" "py_surveyId p = Some (ds_id survey)"
    "py_yearId p = given_text (Some (dp_assessmentYearId (pu_payload dues)))" "py_demandId p = given_text (pu_demandId dues)"
    "py_mode p = ONLINE" "py_status p = PENDING"
    by (simp_all add: p(2) amount initiated_payment_def citizen_online_request_def Let_def)
  have shown: "pu_payable dues = Some (py_amount p)" using payable_shown[OF a(1)] fields(1) by simp
  show ?thesis
    by (rule exI[of _ p], rule exI, rule exI[of _ t], rule exI[of _ dues], rule exI[of _ q], rule exI[of _ g],
        intro conjI, rule a(1), rule a(3), rule shown, rule fields(1), rule a(2), simp only: a(6) fields(1), rule q(1), rule q(2),
        rule q(3), rule t(1), rule t(2), rule t(3), rule s(1))
      (use fields s(2) find_active_id[OF a(4)] in simp_all)
qed

lemma getDues_cong:
  assumes "lg_surveys db' = lg_surveys db" "lg_configs db' = lg_configs db" "lg_demands db' = lg_demands db"
    "pe_localeCompare env' = pe_localeCompare env" "trim i' = trim i"
    "\<And>s y. countSuccessfulPaymentsForYear db' s y = countSuccessfulPaymentsForYear db s y"
  shows "getDues env' db' i' = getDues env db i"
  unfolding getDues_def find_active_def published_configs_def public_dues_of_def find_demand_def assms ..

lemma open_payment_found:
  assumes "p \<in> set (lg_payments db)" "py_surveyId p = Some s" "py_yearId p = Some y" "py_mode p = ONLINE"
    "py_status p = INITIATED \<or> py_status p = PENDING"
    "pe_now env - CITIZEN_PAYMENT_IN_PROGRESS_WINDOW_MS \<le> py_createdAt p"
  shows "hasRecentOpenCitizenPayment (open_citizen_payments env db s y) (pe_now env) CITIZEN_PAYMENT_IN_PROGRESS_WINDOW_MS"
proof -
  let ?P = "\<lambda>p. py_surveyId p = Some s \<and> py_yearId p = Some y \<and> py_mode p = ONLINE
      \<and> (py_status p = INITIATED \<or> py_status p = PENDING)
      \<and> py_createdAt p \<ge> pe_now env - CITIZEN_PAYMENT_IN_PROGRESS_WINDOW_MS"
  have "filter ?P (lg_payments db) \<noteq> []" using assms by (auto simp: filter_empty_conv)
  then obtain q qs where q: "filter ?P (lg_payments db) = q # qs" by (cases "filter ?P (lg_payments db)") auto
  then have "?P q" by (metis (mono_tags, lifting) filter_eq_ConsD)
  then show ?thesis unfolding hasRecentOpenCitizenPayment_def open_citizen_payments_def q by (simp add: Let_def)
qed

text \<open>C20. A citizen's payment blocks a second one: as long as the payment that was started is open and the
  clock is at most fifteen minutes further, another request for the same property is refused as "in
  progress" and changes nothing, whoever sends it.\<close>

theorem citizen_cannot_start_twice:
  assumes "plain_keys db" "createPayment env db dto jt = (db', Inr c)"
    "pe_localeCompare env' = pe_localeCompare env"
    "pe_now env' \<le> pe_now env + CITIZEN_PAYMENT_IN_PROGRESS_WINDOW_MS"
    "trim (cz_surveyId dto') = trim (cz_surveyId dto)"
  shows "createPayment env' db' dto' jt' = (db', Inl PAYMENT_IN_PROGRESS)"
proof -
  obtain survey dues p gw where a: "getDues env db (cz_surveyId dto) = Inr dues" "0 < payable_of dues"
    "\<not> pu_paidForYear dues" "find_active db (dp_id (pu_payload dues)) = Some survey"
    "createOnlinePayment env db (citizen_online_request dto dues survey) None jt = (db', Inr (p, gw))"
    using createPaymentD[OF assms(2)] by metis
  obtain amount where p: "p = initiated_payment env db (citizen_online_request dto dues survey) None amount\<lparr>py_status := PENDING\<rparr>"
    "lg_payments db' = lg_payments db @ [p]" and s: "lg_demands db' = lg_demands db" "lg_surveys db' = lg_surveys db"
    "lg_configs db' = lg_configs db"
    using createOnlinePaymentD[OF a(5)] by metis
  let ?y = "dp_assessmentYearId (pu_payload dues)"
  obtain config payload sv where c: "pickLatestPublishedConfig (pe_localeCompare env) (published_configs db (ls_wardId sv)) = Some config"
    "computePublicDuesPayload sv config = Inr payload" "dues = public_dues_of db sv config payload"
    using getDuesD[OF a(1)] by metis
  have "config \<in> set (lg_configs db)" using pick_published[OF c(1)] by (auto simp: published_configs_def)
  then have "plain_id ?y" using assms(1) payload_facts[OF c(2)] by (simp add: c(3) public_payable plain_keys_def)
  then have f: "py_status p = PENDING" "py_surveyId p = Some (ds_id survey)" "py_yearId p = Some ?y" "py_mode p = ONLINE"
    "py_createdAt p = pe_now env"
    by (simp_all add: p(1) initiated_payment_def citizen_online_request_def Let_def given_text_def)
  have "countSuccessfulPaymentsForYear db' i y = countSuccessfulPaymentsForYear db i y" for i y
    by (simp add: countSuccessfulPaymentsForYear_def p(2) f(1))
  then have d: "getDues env' db' (cz_surveyId dto') = Inr dues"
    using getDues_cong[OF s(2,3,1) assms(3,5)] a(1) by metis
  have "find_active db' (dp_id (pu_payload dues)) = Some survey" using a(4) by (simp add: find_active_def s)
  moreover have "hasRecentOpenCitizenPayment (open_citizen_payments env' db' (ds_id survey) ?y) (pe_now env')
      CITIZEN_PAYMENT_IN_PROGRESS_WINDOW_MS"
    by (rule open_payment_found[of p]) (use f p(2) assms(4) in auto)
  ultimately show ?thesis using d a(2,3) by (simp add: createPayment_def)
qed

subsection \<open>At a sample\<close>

text \<open>The open plot with its demand of 6000 and no payment yet; the sandbox gateway answers.\<close>

lemma plain_samples:
  "plain_id ''s1''" "plain_id ''y1''"
  by (simp_all add: plain_id_def is_letter_def is_digit_def)

lemma unpaid_tables:
  "lg_surveys unpaid_ledger = [plot_survey]" "lg_configs unpaid_ledger = [plot_config]"
  "lg_demands unpaid_ledger = [unpaid_demand]" "lg_payments unpaid_ledger = []"
  by (simp_all add: unpaid_ledger_def plot_ledger_def)

lemma unpaid_plain: "plain_keys unpaid_ledger"
  by (simp add: plain_keys_def unpaid_tables unpaid_demand_facts plot_survey_def plot_config_def plain_samples)

lemma plot_payload: "\<exists>payload. computePublicDuesPayload plot_survey plot_config = Inr payload"
proof -
  obtain x where "survey_tax plot_survey (taxConfigToRateTable plot_config) = Inr x"
    using plot_tax unfolding plot_rates_def by blast
  then show ?thesis by (simp add: computePublicDuesPayload_def Let_def)
qed

lemma unpaid_dues:
  obtains dues where "getDues desk_env unpaid_ledger ''s1'' = Inr dues" "payable_of dues = 6000"
    "\<not> pu_paidForYear dues" "dp_id (pu_payload dues) = ''s1''" "dp_assessmentYearId (pu_payload dues) = ''y1''"
    "pu_demandId dues = Some (unary 0)"
proof -
  obtain payload where p: "computePublicDuesPayload plot_survey plot_config = Inr payload" using plot_payload by blast
  have a: "find_active unpaid_ledger (trim ''s1'') = Some plot_survey"
    by (simp add: find_active_def unpaid_tables plain_samples active_survey_def plot_survey_def)
  have w: "ls_wardId plot_survey = ''w1''" "ds_id plot_survey = ''s1''" "dc_yearId plot_config = ''y1''"
    "lc_wardId plot_config = ''w1''" "lc_status plot_config = C_PUBLISHED"
    by (simp_all add: plot_survey_def plot_config_def)
  have c: "pickLatestPublishedConfig (pe_localeCompare desk_env) (published_configs unpaid_ledger (ls_wardId plot_survey))
      = Some plot_config"
    by (simp add: published_configs_def unpaid_tables w pickLatestPublishedConfig_def sort_by_def)
  have d: "find_demand unpaid_ledger (''s1'', ''y1'') = Some unpaid_demand"
    by (simp add: find_demand_def unpaid_tables unpaid_demand_facts)
  have "getDues desk_env unpaid_ledger ''s1'' = Inr (public_dues_of unpaid_ledger plot_survey plot_config payload)"
    unfolding getDues_def Let_def a option.case c p sum.case by (simp add: plain_samples)
  moreover have "\<not> pu_paidForYear (public_dues_of unpaid_ledger plot_survey plot_config payload)"
    by (simp add: public_dues_of_def w d unpaid_demand_facts isAlreadyPaidForYear_def plain_samples Let_def flip: money_6000(1))
  ultimately show thesis
    using public_payable[of unpaid_ledger plot_survey plot_config payload] payload_facts[OF p] money_6000(1)
    by (intro that) (simp_all add: w d unpaid_demand_facts)
qed

definition asha_request :: citizen_request where
  "asha_request = \<lparr>cz_surveyId = ''s1'', cz_payerMobile = ''9876543210'', cz_payerEmail = ''asha@example.in''\<rparr>"

lemma desk_creates:
  "\<exists>gw. gw_createPayment (pe_gateway desk_env) q = Inr gw \<and> ct_redirectUrl gw = Some (''http://localhost:3001/propertytax/payment/return''
      @ ''?merchTxnId='' @ encode_uri plain_js (cq_merchTxnId q) @ ''&sandbox=1'') \<and> ct_atomTokenId gw = None"
  by (simp add: desk_env_def sandbox_provider_def)

lemma desk_online:
  assumes "or_amount inp = 6000"
  shows "\<exists>db' p gw. createOnlinePayment desk_env unpaid_ledger inp None jt = (db', Inr (p, gw)) \<and>
    \<not> unset (ct_redirectUrl gw) \<and> ct_atomTokenId gw = None"
proof -
  have c: "pe_col desk_env (or_amount inp) = Some 6000" using column_6000(1) by (simp add: assms desk_env_def)
  obtain db1 where i: "insert_payment (initiated_payment desk_env unpaid_ledger inp None 6000) unpaid_ledger = Some db1"
    by (simp add: insert_payment_def store_payments_def unpaid_tables payments_unique_single)
  show ?thesis
    using desk_creates[of "\<lparr>cq_merchTxnId = newCitizenMerchTxnId (pe_now desk_env) (pe_suffix desk_env (lg_seq unpaid_ledger)),
         cq_amount = or_amount inp, cq_customerName = or_payerName inp, cq_customerEmail = or_payerEmail inp,
         cq_customerMobile = or_payerMobile inp, cq_returnUrl = defaultGatewayReturnUrl (pe_process desk_env),
         cq_callbackUrl = defaultCallbackUrl (pe_process desk_env)\<rparr>"]
    by (auto simp: createOnlinePayment_def c i Let_def toClientGatewayResult_def)
qed

lemma asha_starts: "\<exists>db' c. createPayment desk_env unpaid_ledger asha_request jt = (db', Inr c)"
proof -
  obtain dues where d: "getDues desk_env unpaid_ledger ''s1'' = Inr dues" "payable_of dues = 6000"
    "\<not> pu_paidForYear dues" "dp_id (pu_payload dues) = ''s1''"
    by (rule unpaid_dues)
  have f: "find_active unpaid_ledger ''s1'' = Some plot_survey"
    by (simp add: find_active_def unpaid_tables active_survey_def plot_survey_def)
  have a: "or_amount (citizen_online_request asha_request dues plot_survey) = 6000"
    by (simp add: citizen_online_request_def d(2))
  obtain db' p gw where o: "createOnlinePayment desk_env unpaid_ledger (citizen_online_request asha_request dues plot_survey) None jt
      = (db', Inr (p, gw))" "\<not> unset (ct_redirectUrl gw)" "ct_atomTokenId gw = None"
    using desk_online[of "citizen_online_request asha_request dues plot_survey"] a by blast
  have "checkout_of env asha_request gw = Inr (Redirect (nullish (ct_redirectUrl gw) []))" for env
    using o(2,3) by (simp add: checkout_of_def)
  then have "\<exists>c. start_payment desk_env unpaid_ledger asha_request dues plot_survey jt = (db', Inr c)"
    by (simp add: start_payment_def createCitizenOnline_def o(1))
  then show ?thesis
    using d f by (auto simp: createPayment_def asha_request_def open_citizen_payments_def unpaid_tables hasRecentOpenCitizenPayment_def)
qed

lemma unpaid_books: "books_balance unpaid_ledger"
  using due_ledger_ok by (simp add: system_ok_def ledger_ok_def books_balance_def due_ledger_facts unpaid_tables)

lemma citizen_pays_what_is_due_witness:
  "\<exists>db' c p. createPayment desk_env unpaid_ledger asha_request (\<lambda>_. []) = (db', Inr c) \<and>
     lg_payments db' = [p] \<and> ck_amount c = py_amount p \<and> 0 < py_amount p \<and> py_status p = PENDING"
proof -
  obtain db' c where c: "createPayment desk_env unpaid_ledger asha_request (\<lambda>_. []) = (db', Inr c)"
    using asha_starts by blast
  show ?thesis
    using citizen_pays_what_is_due[OF desk_column unpaid_books c] c by (auto simp: unpaid_tables)
qed

lemma citizen_cannot_start_twice_witness:
  "\<exists>db' c. createPayment desk_env unpaid_ledger asha_request (\<lambda>_. []) = (db', Inr c) \<and>
     createPayment (desk_env\<lparr>pe_now := 60000\<rparr>) db' (asha_request\<lparr>cz_payerMobile := ''9000000001''\<rparr>) (\<lambda>_. []) =
       (db', Inl PAYMENT_IN_PROGRESS)"
proof -
  obtain db' c where c: "createPayment desk_env unpaid_ledger asha_request (\<lambda>_. []) = (db', Inr c)"
    using asha_starts by blast
  have "pe_now (desk_env\<lparr>pe_now := 60000\<rparr>) \<le> pe_now desk_env + CITIZEN_PAYMENT_IN_PROGRESS_WINDOW_MS"
    by (simp add: desk_env_def CITIZEN_PAYMENT_IN_PROGRESS_WINDOW_MS_def)
  then have "createPayment (desk_env\<lparr>pe_now := 60000\<rparr>) db' (asha_request\<lparr>cz_payerMobile := ''9000000001''\<rparr>) (\<lambda>_. []) =
      (db', Inl PAYMENT_IN_PROGRESS)"
    by (intro citizen_cannot_start_twice[OF unpaid_plain c]) simp_all
  then show ?thesis using c by blast
qed

definition exact_text :: db_text where
  "exact_text = \<lparr>dx_contains = contains_text, dx_equals = (=), dx_collate = (\<lambda>_ _. 0)\<rparr>"

definition plot_query :: search_query where
  "plot_query = \<lparr>sq_mode = By_propertyId, sq_wardNumber = None, sq_propertyNo = None, sq_propertyId = Some ''PLOT-1'',
     sq_ownerName = None, sq_mobile = None, sq_page = None, sq_pageSize = None\<rparr>"

lemma search_status_matches_dues_witness:
  "\<exists>page item dues. search desk_env exact_text unpaid_ledger plot_query = Inr page \<and> sp_items page = [item] \<and>
     getDues desk_env unpaid_ledger ''s1'' = Inr dues \<and> si_dueStatus item = DUE \<and> \<not> pu_paidForYear dues"
proof -
  obtain dues where d: "getDues desk_env unpaid_ledger ''s1'' = Inr dues" "\<not> pu_paidForYear dues" by (rule unpaid_dues)
  have t: "trim ''PLOT-1'' = ''PLOT-1''" by code_simp
  let ?item = "search_item_of (resolveSearchDueStatuses desk_env unpaid_ledger [plot_survey]) plot_survey"
  have "\<exists>page. search desk_env exact_text unpaid_ledger plot_query = Inr page \<and> sp_items page = [?item]"
    by (simp add: search_def buildWhere_def plot_query_def trimmed_def t exact_text_def unpaid_tables Let_def opt_holds_def
        active_survey_def sort_by_def) (simp add: plot_survey_def)
  then obtain page where p: "search desk_env exact_text unpaid_ledger plot_query = Inr page" "sp_items page = [?item]" by blast
  have i: "si_id ?item = ''s1''" by (simp add: search_item_of_def plot_survey_def)
  have "si_dueStatus ?item \<noteq> NO_DUE"
    using search_status_matches_dues[OF unpaid_ledger_ok(1) unpaid_plain p(1), of ?item dues] d unfolding i p(2) by simp
  then show ?thesis using p d by (cases "si_dueStatus ?item") auto
qed

end
