(* ===== verification/Sessions.thy ===== *)
theory Sessions
  imports AtomAuth Access Ledger
begin

text \<open>
  Staff sessions (\<open>apps/api/src/auth\<close>): \<open>session.service.ts\<close>, the cache of \<open>redis-session.cache.ts\<close>,
  \<open>session.constants.ts\<close>, \<open>token-hash.ts\<close>, and the guard that turns a token into a user
  (\<open>auth.guard.ts\<close>).

  The state holds the tables Session, PasswordResetToken and User and the Redis keys; a key lives until
  its expiry time. The environment holds the clock (milliseconds), whether Redis answers, the random
  tokens, the keyed hash and the settings. An operation returns the state it leaves and an error or a
  result; an error of Redis is the error of the service at that point, with what was written before.
\<close>

record auth_env =
  av_cuid :: "nat \<Rightarrow> string"
  av_token :: "nat \<Rightarrow> string"
  av_hmac :: "string \<Rightarrow> string"
  av_now :: int
  av_redis :: bool
  av_js :: js_text
  av_process :: process_env

datatype auth_error =
    AUTH_STORE_UNAVAILABLE | AUTH_SESSION_MISSING | AUTH_SESSION_INVALID | User_inactive | No_staff_role
  | INVALID_CREDENTIALS | RESET_TOKEN_INVALID | TOO_MANY_ATTEMPTS | SESSION_NOT_FOUND | INVALID_ORIGIN
  | PASSWORD_TOO_SHORT | PASSWORD_TOO_LONG | CREDENTIAL_ACCOUNT_NOT_FOUND | INVALID_PASSWORD | Auth_database_error

record session_row =
  sx_id :: string
  sx_tokenHash :: string
  sx_userId :: string
  sx_expiresAt :: int
  sx_lastActiveAt :: int
  sx_createdAt :: int
  sx_revokedAt :: "int option"
  sx_ipAddress :: "string option"
  sx_userAgent :: "string option"

record cached_session =
  cd_sessionId :: string
  cd_userId :: string
  cd_createdAt :: int
  cd_lastActivityAt :: int
  cd_expiresAt :: int

record reset_row =
  rk_id :: string
  rk_userId :: string
  rk_tokenHash :: string
  rk_expiresAt :: int
  rk_usedAt :: "int option"
  rk_failedAttempts :: nat

text \<open>A user with the roles and the permissions of each role.\<close>

record staff_user =
  sf_id :: string
  sf_email :: string
  sf_name :: string
  sf_phone :: "string option"
  sf_status :: string
  sf_passwordHash :: "string option"
  sf_roles :: "(string \<times> string list) list"
  sf_lastLoginAt :: "int option"

record auth_store =
  ax_seq :: nat
  ax_sessions :: "session_row list"
  ax_cache :: "string \<Rightarrow> (cached_session \<times> int) option"
  ax_resets :: "reset_row list"
  ax_users :: "staff_user list"
  ax_failures :: "string \<Rightarrow> (nat \<times> int) option"
  ax_locks :: "string \<Rightarrow> int option"
  ax_audit :: "audit_entry list"

type_synonym 'a authed = "auth_store \<times> (auth_error + 'a)"

subsection \<open>Settings and expiry\<close>

definition SESSION_TTL_SECONDS :: int where
  "SESSION_TTL_SECONDS = 60 * 60 * 24 * 7"

definition SESSION_REFRESH_THRESHOLD_SECONDS :: int where
  "SESSION_REFRESH_THRESHOLD_SECONDS = 60 * 60 * 24"

definition PASSWORD_RESET_TTL_SECONDS :: int where
  "PASSWORD_RESET_TTL_SECONDS = 30 * 60"

definition PASSWORD_RESET_MAX_ATTEMPTS :: nat where
  "PASSWORD_RESET_MAX_ATTEMPTS = 5"

text \<open>\<open>raw ? Number(raw) : fallback\<close>, kept when it is a finite positive number.\<close>

definition seconds_setting :: "js_text \<Rightarrow> string option \<Rightarrow> js_number \<Rightarrow> js_number" where
  "seconds_setting js raw fallback =
     (let parsed = (if nullish raw [] = [] then Some fallback else text_num js (nullish raw []))
      in case parsed of Some x \<Rightarrow> if x > 0 then x else fallback | None \<Rightarrow> fallback)"

definition sessionIdleTimeoutSeconds :: "auth_env \<Rightarrow> js_number" where
  "sessionIdleTimeoutSeconds env =
     seconds_setting (av_js env)
       (nullish_opt (av_process env ''SESSION_IDLE_TTL'') (av_process env ''SESSION_IDLE_TIMEOUT_SECONDS'')) 1800"

definition sessionAbsoluteTimeoutSeconds :: "auth_env \<Rightarrow> js_number" where
  "sessionAbsoluteTimeoutSeconds env =
     seconds_setting (av_js env)
       (nullish_opt (av_process env ''SESSION_ABSOLUTE_TTL'') (av_process env ''SESSION_ABSOLUTE_TIMEOUT_SECONDS''))
       (of_int SESSION_TTL_SECONDS)"

definition isIdleExpired :: "auth_env \<Rightarrow> int \<Rightarrow> bool" where
  "isIdleExpired env lastActiveAt \<longleftrightarrow>
     fl (of_int lastActiveAt + fl (sessionIdleTimeoutSeconds env * 1000)) \<le> of_int (av_now env)"

definition isAbsoluteExpired :: "auth_env \<Rightarrow> int \<Rightarrow> bool" where
  "isAbsoluteExpired env createdAt \<longleftrightarrow>
     fl (of_int createdAt + fl (sessionAbsoluteTimeoutSeconds env * 1000)) \<le> of_int (av_now env)"

definition session_expired :: "auth_env \<Rightarrow> int \<Rightarrow> int \<Rightarrow> int \<Rightarrow> bool" where
  "session_expired env expiresAt lastActiveAt createdAt \<longleftrightarrow>
     expiresAt \<le> av_now env \<or> isIdleExpired env lastActiveAt \<or> isAbsoluteExpired env createdAt"

definition redisTtlSeconds :: "auth_env \<Rightarrow> int \<Rightarrow> int \<Rightarrow> int" where
  "redisTtlSeconds env expiresAt lastActiveAt =
     (let idleRemaining = fl (fl (of_int lastActiveAt + fl (sessionIdleTimeoutSeconds env * 1000)) - of_int (av_now env));
          absoluteRemaining = of_int (expiresAt - av_now env)
      in max 1 \<lfloor>fl (min idleRemaining absoluteRemaining / 1000)\<rfloor>)"

subsection \<open>Tokens and the cache\<close>

definition hashOpaqueToken :: "auth_env \<Rightarrow> string \<Rightarrow> string \<Rightarrow> string" where
  "hashOpaqueToken env raw purpose = av_hmac env (purpose @ '':'' @ trim raw)"

definition hashSessionToken :: "auth_env \<Rightarrow> string \<Rightarrow> string" where
  "hashSessionToken env raw = hashOpaqueToken env raw ''session''"

text \<open>A key that has expired is removed when it is read.\<close>

definition cache_get :: "auth_env \<Rightarrow> auth_store \<Rightarrow> string \<Rightarrow> cached_session option authed" where
  "cache_get env st h =
     (if \<not> av_redis env then (st, Inl AUTH_STORE_UNAVAILABLE)
      else
       (case ax_cache st h of
          None \<Rightarrow> (st, Inr None)
        | Some (c, until) \<Rightarrow>
           (if av_now env < until then (st, Inr (Some c))
            else (st\<lparr>ax_cache := (ax_cache st)(h := None)\<rparr>, Inr None))))"

definition cache_set :: "auth_env \<Rightarrow> auth_store \<Rightarrow> string \<Rightarrow> cached_session \<Rightarrow> int \<Rightarrow> unit authed" where
  "cache_set env st h c ttl =
     (if \<not> av_redis env then (st, Inl AUTH_STORE_UNAVAILABLE)
      else (st\<lparr>ax_cache := (ax_cache st)(h \<mapsto> (c, av_now env + max 1 ttl * 1000))\<rparr>, Inr ()))"

definition deleteCache :: "auth_env \<Rightarrow> auth_store \<Rightarrow> string \<Rightarrow> unit authed" where
  "deleteCache env st h =
     (if \<not> av_redis env then (st, Inl AUTH_STORE_UNAVAILABLE)
      else (st\<lparr>ax_cache := (ax_cache st)(h := None)\<rparr>, Inr ()))"

record session_record =
  se_id :: string
  se_rawToken :: string
  se_userId :: string
  se_expiresAt :: int
  se_lastActiveAt :: int
  se_createdAt :: int
  se_ipAddress :: "string option"
  se_userAgent :: "string option"

definition toRecord :: "session_row \<Rightarrow> string \<Rightarrow> session_record" where
  "toRecord r raw =
     \<lparr>se_id = sx_id r, se_rawToken = raw, se_userId = sx_userId r, se_expiresAt = sx_expiresAt r,
      se_lastActiveAt = sx_lastActiveAt r, se_createdAt = sx_createdAt r, se_ipAddress = sx_ipAddress r,
      se_userAgent = sx_userAgent r\<rparr>"

definition cached_of :: "session_record \<Rightarrow> cached_session" where
  "cached_of s =
     \<lparr>cd_sessionId = se_id s, cd_userId = se_userId s, cd_createdAt = se_createdAt s,
      cd_lastActivityAt = se_lastActiveAt s, cd_expiresAt = se_expiresAt s\<rparr>"

definition writeCache :: "auth_env \<Rightarrow> auth_store \<Rightarrow> session_record \<Rightarrow> unit authed" where
  "writeCache env st s =
     cache_set env st (hashSessionToken env (se_rawToken s)) (cached_of s)
       (redisTtlSeconds env (se_expiresAt s) (se_lastActiveAt s))"

subsection \<open>Rows\<close>

definition update_sessions :: "(session_row \<Rightarrow> bool) \<Rightarrow> (session_row \<Rightarrow> session_row) \<Rightarrow> auth_store \<Rightarrow> auth_store" where
  "update_sessions P f st = st\<lparr>ax_sessions := map (\<lambda>r. if P r then f r else r) (ax_sessions st)\<rparr>"

definition revoke_where :: "auth_env \<Rightarrow> (session_row \<Rightarrow> bool) \<Rightarrow> auth_store \<Rightarrow> auth_store" where
  "revoke_where env P st =
     update_sessions (\<lambda>r. P r \<and> sx_revokedAt r = None) (\<lambda>r. r\<lparr>sx_revokedAt := Some (av_now env)\<rparr>) st"

definition find_session :: "auth_store \<Rightarrow> string \<Rightarrow> session_row option" where
  "find_session st h = List.find (\<lambda>r. sx_tokenHash r = h) (ax_sessions st)"

subsection \<open>The session service\<close>

definition createSession ::
  "auth_env \<Rightarrow> auth_store \<Rightarrow> string \<Rightarrow> string option \<Rightarrow> string option \<Rightarrow> session_record authed" where
  "createSession env st userId ipAddress userAgent =
     (let rawToken = av_token env (ax_seq st);
          row = \<lparr>sx_id = av_cuid env (ax_seq st), sx_tokenHash = hashSessionToken env rawToken, sx_userId = userId,
                 sx_expiresAt = av_now env + SESSION_TTL_SECONDS * 1000, sx_lastActiveAt = av_now env,
                 sx_createdAt = av_now env, sx_revokedAt = None, sx_ipAddress = ipAddress, sx_userAgent = userAgent\<rparr>
      in if find_session st (sx_tokenHash row) \<noteq> None then (st, Inl Auth_database_error)
         else
          (let st1 = st\<lparr>ax_seq := Suc (ax_seq st), ax_sessions := ax_sessions st @ [row]\<rparr>;
               s = toRecord row rawToken
           in and_then (writeCache env st1 s) (\<lambda>st2 _. (st2, Inr s))))"

definition from_cache :: "cached_session \<Rightarrow> string \<Rightarrow> session_record" where
  "from_cache c raw =
     \<lparr>se_id = cd_sessionId c, se_rawToken = raw, se_userId = cd_userId c, se_expiresAt = cd_expiresAt c,
      se_lastActiveAt = cd_lastActivityAt c, se_createdAt = cd_createdAt c, se_ipAddress = None,
      se_userAgent = None\<rparr>"

definition findValidSession :: "auth_env \<Rightarrow> auth_store \<Rightarrow> string option \<Rightarrow> session_record option authed" where
  "findValidSession env st rawToken =
     (let raw = nullish rawToken []; h = hashSessionToken env raw in
      if trim raw = [] then (st, Inr None)
      else and_then (cache_get env st h) (\<lambda>st cached.
       (case cached of
          Some c \<Rightarrow>
           (if session_expired env (cd_expiresAt c) (cd_lastActivityAt c) (cd_createdAt c)
            then and_then (deleteCache env st h)
                   (\<lambda>st _. (revoke_where env (\<lambda>r. sx_id r = cd_sessionId c) st, Inr None))
            else (st, Inr (Some (from_cache c (trim raw)))))
        | None \<Rightarrow>
           (case find_session st h of
              None \<Rightarrow> (st, Inr None)
            | Some r \<Rightarrow>
               (if sx_revokedAt r \<noteq> None then (st, Inr None)
                else if session_expired env (sx_expiresAt r) (sx_lastActiveAt r) (sx_createdAt r)
                then (revoke_where env (\<lambda>x. sx_id x = sx_id r) st, Inr None)
                else (let s = toRecord r (trim raw)
                      in and_then (writeCache env st s) (\<lambda>st _. (st, Inr (Some s)))))))))"

definition touchSession :: "auth_env \<Rightarrow> auth_store \<Rightarrow> session_record \<Rightarrow> unit authed" where
  "touchSession env st s =
     and_then (writeCache env st (s\<lparr>se_lastActiveAt := av_now env\<rparr>)) (\<lambda>st _.
       (update_sessions (\<lambda>r. sx_id r = se_id s) (\<lambda>r. r\<lparr>sx_lastActiveAt := av_now env\<rparr>) st, Inr ()))"

definition deleteSessionByToken :: "auth_env \<Rightarrow> auth_store \<Rightarrow> string option \<Rightarrow> unit authed" where
  "deleteSessionByToken env st rawToken =
     (let raw = nullish rawToken []; h = hashSessionToken env raw in
      if trim raw = [] then (st, Inr ())
      else and_then (deleteCache env st h)
             (\<lambda>st _. (revoke_where env (\<lambda>r. sx_tokenHash r = h) st, Inr ())))"

definition deleteSessionById :: "auth_env \<Rightarrow> auth_store \<Rightarrow> string \<Rightarrow> string \<Rightarrow> bool authed" where
  "deleteSessionById env st sessionId userId =
     (case List.find (\<lambda>r. sx_id r = sessionId \<and> sx_userId r = userId \<and> sx_revokedAt r = None) (ax_sessions st) of
        None \<Rightarrow> (st, Inr False)
      | Some r \<Rightarrow>
         and_then (deleteCache env st (sx_tokenHash r)) (\<lambda>st _.
           (update_sessions (\<lambda>x. sx_id x = sessionId) (\<lambda>x. x\<lparr>sx_revokedAt := Some (av_now env)\<rparr>) st, Inr True)))"

fun delete_hashes :: "auth_env \<Rightarrow> auth_store \<Rightarrow> string list \<Rightarrow> unit authed" where
  "delete_hashes env st [] = (st, Inr ())"
| "delete_hashes env st (h # hs) = and_then (deleteCache env st h) (\<lambda>st _. delete_hashes env st hs)"

definition live_of_user :: "string \<Rightarrow> string option \<Rightarrow> session_row \<Rightarrow> bool" where
  "live_of_user userId exceptId r \<longleftrightarrow>
     sx_userId r = userId \<and> sx_revokedAt r = None
     \<and> (nullish exceptId [] \<noteq> [] \<longrightarrow> sx_id r \<noteq> nullish exceptId [])"

definition revokeAllUserSessions :: "auth_env \<Rightarrow> auth_store \<Rightarrow> string \<Rightarrow> string option \<Rightarrow> nat authed" where
  "revokeAllUserSessions env st userId exceptId =
     (let rows = filter (live_of_user userId exceptId) (ax_sessions st)
      in and_then (delete_hashes env st (map sx_tokenHash rows)) (\<lambda>st _.
           (revoke_where env (live_of_user userId exceptId) st,
            Inr (length (filter (live_of_user userId exceptId) (ax_sessions st))))))"

record session_item =
  sl_id :: string
  sl_createdAt :: int
  sl_lastActiveAt :: int
  sl_expiresAt :: int
  sl_ipAddress :: "string option"
  sl_userAgent :: "string option"
  sl_current :: bool

definition listUserSessions :: "auth_store \<Rightarrow> string \<Rightarrow> string option \<Rightarrow> session_item list" where
  "listUserSessions st userId currentId =
     map (\<lambda>r. \<lparr>sl_id = sx_id r, sl_createdAt = sx_createdAt r, sl_lastActiveAt = sx_lastActiveAt r,
               sl_expiresAt = sx_expiresAt r, sl_ipAddress = sx_ipAddress r, sl_userAgent = sx_userAgent r,
               sl_current = (Some (sx_id r) = currentId)\<rparr>)
       (sort_by (\<lambda>a b. sx_lastActiveAt b - sx_lastActiveAt a)
         (filter (\<lambda>r. sx_userId r = userId \<and> sx_revokedAt r = None) (ax_sessions st)))"

definition refreshSessionIfNeeded :: "auth_env \<Rightarrow> auth_store \<Rightarrow> session_record \<Rightarrow> session_record option authed" where
  "refreshSessionIfNeeded env st s =
     (if \<not> se_expiresAt s - av_now env < SESSION_REFRESH_THRESHOLD_SECONDS * 1000
      then and_then (touchSession env st s) (\<lambda>st _. (st, Inr None))
      else
       (let rawToken = av_token env (ax_seq st);
            h = hashSessionToken env rawToken;
            rotate = (\<lambda>r. r\<lparr>sx_tokenHash := h, sx_expiresAt := av_now env + SESSION_TTL_SECONDS * 1000,
                            sx_lastActiveAt := av_now env\<rparr>)
        in case List.find (\<lambda>r. sx_id r = se_id s) (ax_sessions st) of
             None \<Rightarrow> (st, Inl Auth_database_error)
           | Some r \<Rightarrow>
              (if list_ex (\<lambda>x. sx_tokenHash x = h \<and> sx_id x \<noteq> se_id s) (ax_sessions st) then (st, Inl Auth_database_error)
               else
                (let st1 = (update_sessions (\<lambda>x. sx_id x = se_id s) rotate st)\<lparr>ax_seq := Suc (ax_seq st)\<rparr>;
                     new = toRecord (rotate r) rawToken
                 in and_then (deleteCache env st1 (hashSessionToken env (se_rawToken s))) (\<lambda>st _.
                    and_then (writeCache env st new) (\<lambda>st _. (st, Inr (Some new))))))))"

end
