(* ===== verification/Logins.thy ===== *)
theory Logins
  imports Sessions
begin

text \<open>
  Who is logged in: the guard in front of every staff route (\<open>auth.guard.ts\<close>), log in and log out
  (\<open>auth.service.ts\<close>), the lock after repeated failures (\<open>login-protection.service.ts\<close>), password
  hashes and their policy (\<open>password-hash.ts\<close>, \<open>password-policy.ts\<close>), password resets
  (\<open>session.service.ts\<close>) and the routes of \<open>auth.controller.ts\<close>.

  The password algorithms (argon2, bcrypt, scrypt) and the digest of an email address are parameters.
\<close>

subsection \<open>Passwords\<close>

record password_env =
  pw_argon2_hash :: "string \<Rightarrow> string"
  pw_argon2_verify :: "string \<Rightarrow> string \<Rightarrow> bool option"
  pw_bcrypt_compare :: "string \<Rightarrow> string \<Rightarrow> bool"
  pw_scrypt_hex :: "string \<Rightarrow> string \<Rightarrow> string"
  pw_sha32 :: "string \<Rightarrow> string"

definition isBcryptHash :: "string \<Rightarrow> bool" where
  "isBcryptHash h = prefix ''$2'' h"

definition isArgon2Hash :: "string \<Rightarrow> bool" where
  "isArgon2Hash h = prefix ''$argon2'' h"

definition hex_text :: "string \<Rightarrow> bool" where
  "hex_text s \<longleftrightarrow> s \<noteq> [] \<and> list_all (\<lambda>c. c \<in> set ''0123456789abcdefABCDEF'') s"

definition isLegacyBetterAuthHash :: "string \<Rightarrow> bool" where
  "isLegacyBetterAuthHash h =
     (case split_char CHR '':'' h of salt # key # _ \<Rightarrow> hex_text salt \<and> hex_text key | _ \<Rightarrow> False)"

definition verifyLegacyBetterAuthHash :: "password_env \<Rightarrow> string \<Rightarrow> string \<Rightarrow> bool" where
  "verifyLegacyBetterAuthHash pw h password =
     (case split_char CHR '':'' h of
        salt # keyHex # _ \<Rightarrow> salt \<noteq> [] \<and> keyHex \<noteq> [] \<and> pw_scrypt_hex pw password salt = keyHex
      | _ \<Rightarrow> False)"

definition verifyPassword :: "password_env \<Rightarrow> string \<Rightarrow> string \<Rightarrow> bool" where
  "verifyPassword pw password storedHash =
     (if storedHash = [] then False
      else if isArgon2Hash storedHash then nullish (pw_argon2_verify pw storedHash password) False
      else if isBcryptHash storedHash then pw_bcrypt_compare pw password storedHash
      else if isLegacyBetterAuthHash storedHash then verifyLegacyBetterAuthHash pw storedHash password
      else False)"

definition shouldUpgradePasswordHash :: "string \<Rightarrow> bool" where
  "shouldUpgradePasswordHash h \<longleftrightarrow> isLegacyBetterAuthHash h \<or> isBcryptHash h"

definition PASSWORD_MIN_LENGTH :: nat where "PASSWORD_MIN_LENGTH = 12"

definition PASSWORD_MAX_LENGTH :: nat where "PASSWORD_MAX_LENGTH = 128"

definition assertPasswordPolicy :: "string \<Rightarrow> auth_error + unit" where
  "assertPasswordPolicy password =
     (if length password < PASSWORD_MIN_LENGTH then Inl PASSWORD_TOO_SHORT
      else if PASSWORD_MAX_LENGTH < length password then Inl PASSWORD_TOO_LONG else Inr ())"

subsection \<open>Users\<close>

definition find_user :: "auth_store \<Rightarrow> string \<Rightarrow> staff_user option" where
  "find_user st i = List.find (\<lambda>u. sf_id u = i) (ax_users st)"

definition find_email :: "auth_store \<Rightarrow> string \<Rightarrow> staff_user option" where
  "find_email st e = List.find (\<lambda>u. sf_email u = e) (ax_users st)"

definition update_user :: "string \<Rightarrow> (staff_user \<Rightarrow> staff_user) \<Rightarrow> auth_store \<Rightarrow> auth_store" where
  "update_user i f st = st\<lparr>ax_users := map (\<lambda>u. if sf_id u = i then f u else u) (ax_users st)\<rparr>"

definition auth_audit :: "string \<Rightarrow> string \<Rightarrow> string option \<Rightarrow> string option \<Rightarrow> auth_store \<Rightarrow> auth_store" where
  "auth_audit action entity entityId actorId st =
     st\<lparr>ax_audit := ax_audit st @ [\<lparr>au_action = action, au_entity = entity, au_entityId = entityId,
                                    au_actorId = actorId\<rparr>]\<rparr>"

definition role_codes :: "staff_user \<Rightarrow> string list" where
  "role_codes u = map fst (sf_roles u)"

definition permission_codes :: "staff_user \<Rightarrow> string list" where
  "permission_codes u = new_set (concat (map snd (sf_roles u)))"

definition auth_user_of :: "staff_user \<Rightarrow> auth_user" where
  "auth_user_of u =
     \<lparr>us_id = sf_id u, us_email = sf_email u, us_name = sf_name u, us_phone = sf_phone u,
      us_status = sf_status u, us_permissions = permission_codes u, us_roles = role_codes u\<rparr>"

text \<open>\<open>AuthService.getUserPermissions\<close>\<close>

definition getUserPermissions :: "auth_store \<Rightarrow> string \<Rightarrow> string list" where
  "getUserPermissions st userId = (case find_user st userId of None \<Rightarrow> [] | Some u \<Rightarrow> permission_codes u)"

subsection \<open>The guard\<close>

text \<open>The result: no user on a public route; otherwise the user and, after a rotation, the new token.\<close>

definition canActivate ::
  "auth_env \<Rightarrow> auth_store \<Rightarrow> bool \<Rightarrow> string option \<Rightarrow> (auth_user \<times> session_record option) option authed" where
  "canActivate env st isPublic token =
     (if isPublic then (st, Inr None)
      else and_then (findValidSession env st token) (\<lambda>st found.
       (case found of
          None \<Rightarrow> (st, Inl (if trim (nullish token []) \<noteq> [] then AUTH_SESSION_INVALID else AUTH_SESSION_MISSING))
        | Some s \<Rightarrow>
           and_then (refreshSessionIfNeeded env st s) (\<lambda>st refreshed.
           and_then (if refreshed = None then touchSession env st s else (st, Inr ())) (\<lambda>st _.
            (case find_user st (se_userId s) of
               None \<Rightarrow> (st, Inl User_inactive)
             | Some u \<Rightarrow>
                (if sf_status u \<noteq> ''ACTIVE'' then (st, Inl User_inactive)
                 else if \<not> list_ex isStaffRoleCode (role_codes u) then (st, Inl No_staff_role)
                 else (st, Inr (Some (auth_user_of u, refreshed))))))))))"

subsection \<open>The login lock\<close>

definition LOGIN_MAX_FAILURES :: nat where "LOGIN_MAX_FAILURES = 10"

definition LOGIN_LOCKOUT_SECONDS :: int where "LOGIN_LOCKOUT_SECONDS = 15 * 60"

definition emailKey :: "password_env \<Rightarrow> string \<Rightarrow> string" where
  "emailKey pw email = pw_sha32 pw (toLowerCase (trim email))"

text \<open>\<open>TTL\<close> of Redis: the seconds left, to the nearest second.\<close>

definition redis_ttl :: "auth_env \<Rightarrow> int option \<Rightarrow> int" where
  "redis_ttl env until =
     (case until of None \<Rightarrow> - 2 | Some t \<Rightarrow> if av_now env < t then (t - av_now env + 500) div 1000 else - 2)"

definition getLockUntil :: "auth_env \<Rightarrow> password_env \<Rightarrow> auth_store \<Rightarrow> string \<Rightarrow> auth_error + int option" where
  "getLockUntil env pw st email =
     (if \<not> av_redis env then Inl AUTH_STORE_UNAVAILABLE
      else
       (let ttl = redis_ttl env (ax_locks st (emailKey pw email))
        in Inr (if ttl > 0 then Some (av_now env + ttl * 1000) else None)))"

definition assertLoginAllowed :: "auth_env \<Rightarrow> password_env \<Rightarrow> auth_store \<Rightarrow> string \<Rightarrow> auth_error + unit" where
  "assertLoginAllowed env pw st email =
     bind_res (getLockUntil env pw st email)
       (\<lambda>lockedUntil. case lockedUntil of
          Some t \<Rightarrow> if t > av_now env then Inl INVALID_CREDENTIALS else Inr () | None \<Rightarrow> Inr ())"

definition incrementFailures :: "auth_env \<Rightarrow> password_env \<Rightarrow> auth_store \<Rightarrow> string \<Rightarrow> nat authed" where
  "incrementFailures env pw st email =
     (if \<not> av_redis env then (st, Inl AUTH_STORE_UNAVAILABLE)
      else
       (let key = emailKey pw email;
            entry = (case ax_failures st key of
                       Some (n, until) \<Rightarrow> if av_now env < until then (Suc n, until)
                                       else (1, av_now env + LOGIN_LOCKOUT_SECONDS * 1000)
                     | None \<Rightarrow> (1, av_now env + LOGIN_LOCKOUT_SECONDS * 1000))
        in (st\<lparr>ax_failures := (ax_failures st)(key \<mapsto> entry)\<rparr>, Inr (fst entry))))"

definition setLock :: "auth_env \<Rightarrow> password_env \<Rightarrow> auth_store \<Rightarrow> string \<Rightarrow> unit authed" where
  "setLock env pw st email =
     (if \<not> av_redis env then (st, Inl AUTH_STORE_UNAVAILABLE)
      else (st\<lparr>ax_locks := (ax_locks st)(emailKey pw email \<mapsto> av_now env + LOGIN_LOCKOUT_SECONDS * 1000)\<rparr>, Inr ()))"

definition recordLoginFailure :: "auth_env \<Rightarrow> password_env \<Rightarrow> auth_store \<Rightarrow> string \<Rightarrow> bool authed" where
  "recordLoginFailure env pw st email =
     and_then (incrementFailures env pw st email) (\<lambda>st failures.
       if failures \<ge> LOGIN_MAX_FAILURES
       then and_then (setLock env pw st email) (\<lambda>st _. (st, Inr True))
       else (st, Inr False))"

definition clearLoginFailures :: "auth_env \<Rightarrow> password_env \<Rightarrow> auth_store \<Rightarrow> string \<Rightarrow> unit authed" where
  "clearLoginFailures env pw st email =
     (if \<not> av_redis env then (st, Inl AUTH_STORE_UNAVAILABLE)
      else (st\<lparr>ax_failures := (ax_failures st)(emailKey pw email := None),
              ax_locks := (ax_locks st)(emailKey pw email := None)\<rparr>, Inr ()))"

subsection \<open>Log in and log out\<close>

definition login_fail ::
  "auth_env \<Rightarrow> password_env \<Rightarrow> auth_store \<Rightarrow> string \<Rightarrow> string option \<Rightarrow> 'a authed" where
  "login_fail env pw st email entityId =
     and_then (recordLoginFailure env pw st email) (\<lambda>st locked.
       (auth_audit (if locked then ''auth.account_locked'' else ''auth.login_failed'') ''User'' entityId None st,
        Inl INVALID_CREDENTIALS))"

definition log_in :: "auth_env \<Rightarrow> password_env \<Rightarrow> auth_store \<Rightarrow> staff_user \<Rightarrow> string \<Rightarrow> string \<Rightarrow> string option
    \<Rightarrow> string option \<Rightarrow> session_record authed" where
  "log_in env pw st user email password ipAddress userAgent =
     and_then (clearLoginFailures env pw st email) (\<lambda>st _.
       let st1 = (if shouldUpgradePasswordHash (nullish (sf_passwordHash user) [])
                  then update_user (sf_id user) (\<lambda>u. u\<lparr>sf_passwordHash := Some (pw_argon2_hash pw password)\<rparr>) st else st)
       in and_then (createSession env st1 (sf_id user) ipAddress userAgent) (\<lambda>st s.
            (auth_audit ''auth.login'' ''User'' (Some (sf_id user)) (Some (sf_id user))
               (update_user (sf_id user) (\<lambda>u. u\<lparr>sf_lastLoginAt := Some (av_now env)\<rparr>) st), Inr s)))"

definition login ::
  "auth_env \<Rightarrow> password_env \<Rightarrow> auth_store \<Rightarrow> string \<Rightarrow> string \<Rightarrow> string option \<Rightarrow> string option \<Rightarrow> session_record authed" where
  "login env pw st email0 password ipAddress userAgent =
     (let email = toLowerCase (trim email0) in
      case assertLoginAllowed env pw st email of
        Inl e \<Rightarrow> (st, Inl e)
      | Inr _ \<Rightarrow>
         (case find_email st email of
            None \<Rightarrow> login_fail env pw st email None
          | Some user \<Rightarrow>
             (if nullish (sf_passwordHash user) [] = [] then login_fail env pw st email None
              else if \<not> verifyPassword pw password (nullish (sf_passwordHash user) [])
              then login_fail env pw st email (Some (sf_id user))
              else if sf_status user \<noteq> ''ACTIVE'' then login_fail env pw st email (Some (sf_id user))
              else if \<not> list_ex isStaffRoleCode (role_codes user) then login_fail env pw st email (Some (sf_id user))
              else log_in env pw st user email password ipAddress userAgent)))"

definition logout :: "auth_env \<Rightarrow> auth_store \<Rightarrow> string option \<Rightarrow> string option \<Rightarrow> unit authed" where
  "logout env st token actorId =
     and_then (deleteSessionByToken env st token)
       (\<lambda>st _. (auth_audit ''auth.logout'' ''User'' None actorId st, Inr ()))"

subsection \<open>Password resets\<close>

definition hashResetToken :: "auth_env \<Rightarrow> string \<Rightarrow> string" where
  "hashResetToken env raw = hashOpaqueToken env raw ''password-reset''"

definition createPasswordResetTokenForUser ::
  "auth_env \<Rightarrow> auth_store \<Rightarrow> string \<Rightarrow> (string \<times> int) option authed" where
  "createPasswordResetTokenForUser env st userId =
     (case find_user st userId of
        None \<Rightarrow> (st, Inr None)
      | Some u \<Rightarrow>
         (if nullish (sf_passwordHash u) [] = [] then (st, Inr None)
          else
           (let rawToken = av_token env (ax_seq st);
                expiresAt = av_now env + PASSWORD_RESET_TTL_SECONDS * 1000;
                row = \<lparr>rk_id = av_cuid env (ax_seq st), rk_userId = userId, rk_tokenHash = hashResetToken env rawToken,
                       rk_expiresAt = expiresAt, rk_usedAt = None, rk_failedAttempts = 0\<rparr>;
                kept = filter (\<lambda>r. \<not> (rk_userId r = userId \<and> rk_usedAt r = None)) (ax_resets st)
            in if rk_tokenHash row \<in> rk_tokenHash ` set kept
               then (st\<lparr>ax_resets := kept\<rparr>, Inl Auth_database_error)
               else (st\<lparr>ax_seq := Suc (ax_seq st), ax_resets := kept @ [row]\<rparr>, Inr (Some (rawToken, expiresAt))))))"

definition use_reset :: "auth_env \<Rightarrow> reset_row \<Rightarrow> reset_row \<Rightarrow> reset_row" where
  "use_reset env r x =
     (if rk_id x = rk_id r \<or> rk_userId x = rk_userId r \<and> rk_usedAt x = None
      then x\<lparr>rk_usedAt := Some (av_now env)\<rparr> else x)"

definition consumePasswordResetToken ::
  "auth_env \<Rightarrow> password_env \<Rightarrow> auth_store \<Rightarrow> string \<Rightarrow> string \<Rightarrow> string authed" where
  "consumePasswordResetToken env pw st rawToken newPassword =
     (if trim rawToken = [] then (st, Inl RESET_TOKEN_INVALID)
      else
       (case List.find (\<lambda>r. rk_tokenHash r = hashResetToken env (trim rawToken)) (ax_resets st) of
          None \<Rightarrow> (st, Inl RESET_TOKEN_INVALID)
        | Some r \<Rightarrow>
           (if rk_usedAt r \<noteq> None \<or> rk_expiresAt r \<le> av_now env then (st, Inl RESET_TOKEN_INVALID)
            else if rk_failedAttempts r \<ge> PASSWORD_RESET_MAX_ATTEMPTS then (st, Inl TOO_MANY_ATTEMPTS)
            else if find_user st (rk_userId r) = None then (st, Inl Auth_database_error)
            else
             (let st1 = (update_user (rk_userId r) (\<lambda>u. u\<lparr>sf_passwordHash := Some (pw_argon2_hash pw newPassword)\<rparr>) st)
                          \<lparr>ax_resets := map (use_reset env r) (ax_resets st)\<rparr>
              in and_then (revokeAllUserSessions env st1 (rk_userId r) None)
                   (\<lambda>st _. (st, Inr (rk_userId r)))))))"

subsection \<open>Routes\<close>

definition resolveTrustedOrigins :: "process_env \<Rightarrow> string list" where
  "resolveTrustedOrigins env =
     filter (\<lambda>t. t \<noteq> [])
       (map (\<lambda>t. rev (dropWhile (\<lambda>c. c = CHR ''/'') (rev (trim t))))
         (split_char CHR '','' (nullish (env ''CORS_ORIGIN'') ''http://localhost:3000'')))"

definition assertTrustedOrigin :: "process_env \<Rightarrow> string option \<Rightarrow> auth_error + unit" where
  "assertTrustedOrigin env originHeader =
     (let given = trimmed originHeader in
      if given = [] then Inr ()
      else guard (rev (dropWhile (\<lambda>c. c = CHR ''/'') (rev given)) \<in> set (resolveTrustedOrigins env)) INVALID_ORIGIN)"

definition after_check :: "auth_store \<Rightarrow> (auth_error + unit) \<Rightarrow> 'a authed \<Rightarrow> 'a authed" where
  "after_check st c m = (case c of Inl e \<Rightarrow> (st, Inl e) | Inr _ \<Rightarrow> m)"

definition login_route ::
  "auth_env \<Rightarrow> password_env \<Rightarrow> auth_store \<Rightarrow> string option \<Rightarrow> string \<Rightarrow> string \<Rightarrow> string option \<Rightarrow> string option
     \<Rightarrow> session_record authed" where
  "login_route env pw st origin email password ipAddress userAgent =
     after_check st (assertTrustedOrigin (av_process env) origin)
       (login env pw st email password ipAddress userAgent)"

definition logout_route :: "auth_env \<Rightarrow> auth_store \<Rightarrow> string option \<Rightarrow> string option \<Rightarrow> unit authed" where
  "logout_route env st origin token =
     after_check st (assertTrustedOrigin (av_process env) origin)
       (and_then (findValidSession env st token) (\<lambda>st s. logout env st token (map_option se_userId s)))"

definition revokeSession :: "auth_env \<Rightarrow> auth_store \<Rightarrow> string option \<Rightarrow> auth_user \<Rightarrow> string \<Rightarrow> unit authed" where
  "revokeSession env st origin user sessionId =
     after_check st (assertTrustedOrigin (av_process env) origin)
       (and_then (deleteSessionById env st sessionId (us_id user)) (\<lambda>st removed.
          if \<not> removed then (st, Inl SESSION_NOT_FOUND)
          else (auth_audit ''auth.session_revoked'' ''Session'' (Some sessionId) (Some (us_id user)) st, Inr ())))"

definition revokeAllSessions ::
  "auth_env \<Rightarrow> auth_store \<Rightarrow> string option \<Rightarrow> auth_user \<Rightarrow> string option \<Rightarrow> bool option \<Rightarrow> nat authed" where
  "revokeAllSessions env st origin user token keepCurrent =
     after_check st (assertTrustedOrigin (av_process env) origin)
       (and_then (findValidSession env st token) (\<lambda>st current.
        and_then (revokeAllUserSessions env st (us_id user)
                    (if keepCurrent \<noteq> Some False then map_option se_id current else None)) (\<lambda>st count.
          (auth_audit ''auth.logout_all'' ''User'' (Some (us_id user)) (Some (us_id user)) st, Inr count))))"

definition changePassword ::
  "auth_env \<Rightarrow> password_env \<Rightarrow> auth_store \<Rightarrow> string option \<Rightarrow> auth_user \<Rightarrow> string \<Rightarrow> string \<Rightarrow> unit authed" where
  "changePassword env pw st origin user currentPassword newPassword =
     after_check st (bind_res (assertTrustedOrigin (av_process env) origin) (\<lambda>_. assertPasswordPolicy newPassword))
       (case find_user st (us_id user) of
          None \<Rightarrow> (st, Inl CREDENTIAL_ACCOUNT_NOT_FOUND)
        | Some u \<Rightarrow>
           (if nullish (sf_passwordHash u) [] = [] then (st, Inl CREDENTIAL_ACCOUNT_NOT_FOUND)
            else if \<not> verifyPassword pw currentPassword (nullish (sf_passwordHash u) []) then (st, Inl INVALID_PASSWORD)
            else (auth_audit ''auth.password_change'' ''User'' (Some (us_id user)) (Some (us_id user))
                    (update_user (us_id user) (\<lambda>x. x\<lparr>sf_passwordHash := Some (pw_argon2_hash pw newPassword)\<rparr>) st), Inr ())))"

definition resetPassword ::
  "auth_env \<Rightarrow> password_env \<Rightarrow> auth_store \<Rightarrow> string option \<Rightarrow> string \<Rightarrow> string \<Rightarrow> unit authed" where
  "resetPassword env pw st origin token newPassword =
     after_check st (bind_res (assertTrustedOrigin (av_process env) origin) (\<lambda>_. assertPasswordPolicy newPassword))
       (and_then (consumePasswordResetToken env pw st token newPassword) (\<lambda>st userId.
          (auth_audit ''auth.password_reset'' ''User'' (Some userId) None st, Inr ())))"

end
