(* ===== verification/SessionFacts.thy ===== *)
theory SessionFacts
  imports Logins
begin

text \<open>
  Sessions stay what the table says: every cached session is the image of one row that is not revoked,
  under the hash of that row. The lemmas prove this invariant for each operation, the step relation
  \<open>auth_step\<close> collects the routes (each runs as a whole, and Redis answers), and the properties follow:
  a revoked session never authenticates again, a password reset works once and ends every session of
  the user, and ten wrong passwords lock the login for a quarter of an hour, not longer.
\<close>

subsection \<open>The invariant\<close>

definition agrees :: "session_row \<Rightarrow> cached_session \<Rightarrow> bool" where
  "agrees r c \<longleftrightarrow>
     sx_revokedAt r = None \<and> cd_sessionId c = sx_id r \<and> cd_userId c = sx_userId r
     \<and> cd_createdAt c = sx_createdAt r \<and> cd_lastActivityAt c = sx_lastActiveAt r \<and> cd_expiresAt c = sx_expiresAt r"

definition sessions_ok :: "(nat \<Rightarrow> string) \<Rightarrow> auth_store \<Rightarrow> bool" where
  "sessions_ok cuid st \<longleftrightarrow>
     inj cuid \<and> distinct (map sx_id (ax_sessions st)) \<and> distinct (map sx_tokenHash (ax_sessions st))
     \<and> (\<forall>r \<in> set (ax_sessions st). \<exists>i < ax_seq st. sx_id r = cuid i)
     \<and> (\<forall>h c t. ax_cache st h = Some (c, t) \<longrightarrow>
          (\<exists>r \<in> set (ax_sessions st). sx_tokenHash r = h \<and> agrees r c))"

text \<open>What never comes back: the rows that are revoked, by their id and the hash of their token.\<close>

definition revoked :: "auth_store \<Rightarrow> (string \<times> string) set" where
  "revoked st = (\<lambda>r. (sx_id r, sx_tokenHash r)) ` {r \<in> set (ax_sessions st). sx_revokedAt r \<noteq> None}"

lemma revokedI:
  "r \<in> set (ax_sessions st) \<Longrightarrow> sx_revokedAt r \<noteq> None \<Longrightarrow> x = (sx_id r, sx_tokenHash r) \<Longrightarrow> x \<in> revoked st"
  unfolding revoked_def by (rule image_eqI[of _ _ r]) simp_all

text \<open>An operation that keeps the invariant and the revoked sessions.\<close>

definition keeps :: "(nat \<Rightarrow> string) \<Rightarrow> auth_store \<Rightarrow> auth_store \<Rightarrow> bool" where
  "keeps cuid st st' \<longleftrightarrow> (sessions_ok cuid st \<longrightarrow> sessions_ok cuid st' \<and> revoked st \<subseteq> revoked st')"

lemma keeps_refl [simp]: "keeps cuid st st"
  by (simp add: keeps_def)

lemma keeps_trans: "keeps cuid a b \<Longrightarrow> keeps cuid b c \<Longrightarrow> keeps cuid a c"
  by (auto simp: keeps_def)

lemma keepsI:
  "(sessions_ok cuid st \<Longrightarrow> sessions_ok cuid st') \<Longrightarrow> (sessions_ok cuid st \<Longrightarrow> revoked st \<subseteq> revoked st') \<Longrightarrow>
   keeps cuid st st'"
  by (simp add: keeps_def)

lemma sessions_okI:
  assumes "inj cuid" "distinct (map sx_id (ax_sessions st))" "distinct (map sx_tokenHash (ax_sessions st))"
    "\<And>r. r \<in> set (ax_sessions st) \<Longrightarrow> \<exists>i < ax_seq st. sx_id r = cuid i"
    "\<And>h c t. ax_cache st h = Some (c, t) \<Longrightarrow> \<exists>r \<in> set (ax_sessions st). sx_tokenHash r = h \<and> agrees r c"
  shows "sessions_ok cuid st"
  using assms unfolding sessions_ok_def by blast

lemma sessions_okD:
  assumes "sessions_ok cuid st"
  shows "inj cuid" "distinct (map sx_id (ax_sessions st))" "distinct (map sx_tokenHash (ax_sessions st))"
    "r \<in> set (ax_sessions st) \<Longrightarrow> \<exists>i < ax_seq st. sx_id r = cuid i"
    "ax_cache st h = Some (c, t) \<Longrightarrow> \<exists>r \<in> set (ax_sessions st). sx_tokenHash r = h \<and> agrees r c"
  using assms unfolding sessions_ok_def by blast+

text \<open>A write that maps the rows: the ids stay, the hashes stay distinct, the cache agrees with the new
  rows and nothing that was revoked becomes live.\<close>

lemma rows_keep:
  assumes "ax_sessions st' = map f (ax_sessions st)" "\<And>r. sx_id (f r) = sx_id r"
    "\<And>r. r \<in> set (ax_sessions st) \<Longrightarrow> sx_revokedAt r \<noteq> None \<Longrightarrow>
        sx_revokedAt (f r) \<noteq> None \<and> sx_tokenHash (f r) = sx_tokenHash r"
    "ax_seq st \<le> ax_seq st'"
    "sessions_ok cuid st \<Longrightarrow> distinct (map (\<lambda>r. sx_tokenHash (f r)) (ax_sessions st))"
    "\<And>h c t. sessions_ok cuid st \<Longrightarrow> ax_cache st' h = Some (c, t) \<Longrightarrow>
       \<exists>r \<in> set (ax_sessions st). sx_tokenHash (f r) = h \<and> agrees (f r) c"
  shows "keeps cuid st st'"
proof (rule keepsI)
  assume ok: "sessions_ok cuid st"
  note d = sessions_okD[OF ok]
  show "sessions_ok cuid st'"
  proof (rule sessions_okI)
    show "inj cuid" by (rule d(1))
    show "distinct (map sx_id (ax_sessions st'))" using d(2) by (simp add: assms(1,2) comp_def)
    show "distinct (map sx_tokenHash (ax_sessions st'))" using assms(5)[OF ok] by (simp add: assms(1) comp_def)
    show "\<exists>i < ax_seq st'. sx_id r = cuid i" if r: "r \<in> set (ax_sessions st')" for r
    proof -
      obtain x where x: "r = f x" "x \<in> set (ax_sessions st)" using r by (auto simp: assms(1))
      obtain i where "i < ax_seq st" "sx_id x = cuid i" using d(4)[OF x(2)] by blast
      then show ?thesis using x(1) assms(2,4) by (intro exI[of _ i]) simp
    qed
    show "\<exists>r \<in> set (ax_sessions st'). sx_tokenHash r = h \<and> agrees r c" if "ax_cache st' h = Some (c, t)" for h c t
      using assms(6)[OF ok that] by (auto simp: assms(1))
  qed
next
  show "revoked st \<subseteq> revoked st'"
  proof
    fix x assume "x \<in> revoked st"
    then obtain r where r: "r \<in> set (ax_sessions st)" "sx_revokedAt r \<noteq> None"
      "x = (sx_id r, sx_tokenHash r)"
      unfolding revoked_def by blast
    show "x \<in> revoked st'"
      by (rule revokedI[of "f r"]) (use r assms(3)[OF r(1,2)] in \<open>simp_all add: assms(1,2)\<close>)
  qed
qed

lemma keeps_frame:
  assumes "ax_sessions st' = ax_sessions st" "ax_cache st' = ax_cache st" "ax_seq st \<le> ax_seq st'"
  shows "keeps cuid st st'"
proof (rule rows_keep[where f = "\<lambda>r. r"])
  show "distinct (map sx_tokenHash (ax_sessions st))" if "sessions_ok cuid st" by (rule sessions_okD(3)[OF that])
  show "\<exists>r \<in> set (ax_sessions st). sx_tokenHash r = h \<and> agrees r c"
    if "sessions_ok cuid st" "ax_cache st' h = Some (c, t)" for h c t
    using sessions_okD(5)[OF that(1)] that(2) assms(2) by simp
qed (use assms in simp_all)

lemma unique_id: "sessions_ok cuid st \<Longrightarrow> r \<in> set (ax_sessions st) \<Longrightarrow> r' \<in> set (ax_sessions st) \<Longrightarrow> sx_id r = sx_id r' \<Longrightarrow> r = r'"
  by (auto simp: sessions_ok_def distinct_map dest: inj_onD)

lemma unique_hash:
  "sessions_ok cuid st \<Longrightarrow> r \<in> set (ax_sessions st) \<Longrightarrow> r' \<in> set (ax_sessions st) \<Longrightarrow> sx_tokenHash r = sx_tokenHash r' \<Longrightarrow> r = r'"
  by (auto simp: sessions_ok_def distinct_map dest: inj_onD)

lemma find_session_in: "find_session st h = Some r \<Longrightarrow> r \<in> set (ax_sessions st) \<and> sx_tokenHash r = h"
  using find_Some_in by (fastforce simp: find_session_def)

subsection \<open>The writes\<close>

lemma cache_delete_keeps: "keeps cuid st (st\<lparr>ax_cache := (ax_cache st)(h := None)\<rparr>)"
  by (auto simp: keeps_def sessions_ok_def revoked_def split: if_splits)

lemma deleteCache_keeps: "deleteCache env st h = (st', res) \<Longrightarrow> keeps cuid st st'"
  by (auto simp: deleteCache_def cache_delete_keeps split: if_splits)

lemma deleteCache_up: "av_redis env \<Longrightarrow> deleteCache env st h = (st\<lparr>ax_cache := (ax_cache st)(h := None)\<rparr>, Inr ())"
  by (simp add: deleteCache_def)

text \<open>A revocation keeps the invariant when no cached session is among the revoked rows.\<close>

lemma revoke_keeps:
  assumes "\<And>r. r \<in> set (ax_sessions st) \<Longrightarrow> P r \<Longrightarrow> ax_cache st (sx_tokenHash r) = None"
  shows "keeps cuid st (update_sessions P (\<lambda>r. r\<lparr>sx_revokedAt := Some t\<rparr>) st)"
proof (rule rows_keep[where f = "\<lambda>r. if P r then r\<lparr>sx_revokedAt := Some t\<rparr> else r"])
  let ?f = "\<lambda>r. if P r then r\<lparr>sx_revokedAt := Some t\<rparr> else r"
  have h: "sx_tokenHash (?f r) = sx_tokenHash r" for r by simp
  assume ok: "sessions_ok cuid st"
  show "distinct (map (\<lambda>r. sx_tokenHash (?f r)) (ax_sessions st))" unfolding h by (rule sessions_okD(3)[OF ok])
  fix k c u assume "ax_cache (update_sessions P (\<lambda>r. r\<lparr>sx_revokedAt := Some t\<rparr>) st) k = Some (c, u)"
  then have e: "ax_cache st k = Some (c, u)" by (simp add: update_sessions_def)
  obtain r where r: "r \<in> set (ax_sessions st)" "sx_tokenHash r = k" "agrees r c"
    using sessions_okD(5)[OF ok e] by blast
  then have "\<not> P r" using assms[OF r(1)] e by auto
  then show "\<exists>r \<in> set (ax_sessions st). sx_tokenHash (?f r) = k \<and> agrees (?f r) c" using r by (intro bexI[of _ r]) simp_all
qed (simp_all add: update_sessions_def)

lemma revoke_where_keeps:
  assumes "\<And>r. r \<in> set (ax_sessions st) \<Longrightarrow> P r \<Longrightarrow> sx_revokedAt r = None \<Longrightarrow> ax_cache st (sx_tokenHash r) = None"
  shows "keeps cuid st (revoke_where env P st)"
  unfolding revoke_where_def by (rule revoke_keeps) (use assms in blast)

text \<open>A cache entry for a row of the table.\<close>

lemma cache_row_keeps:
  assumes "r \<in> set (ax_sessions st)" "agrees r c"
  shows "keeps cuid st (st\<lparr>ax_cache := (ax_cache st)(sx_tokenHash r \<mapsto> (c, t))\<rparr>)"
  using assms by (auto simp: keeps_def sessions_ok_def revoked_def)

subsection \<open>Looking a session up\<close>

text \<open>A record that stands for a row: what the lookup hands to the guard.\<close>

definition stands_for :: "auth_env \<Rightarrow> session_record \<Rightarrow> session_row \<Rightarrow> bool" where
  "stands_for env s r \<longleftrightarrow>
     sx_tokenHash r = hashSessionToken env (se_rawToken s) \<and> agrees r (cached_of s)"

lemma hash_trim [simp]: "hashSessionToken env (trim raw) = hashSessionToken env raw"
  by (simp add: hashSessionToken_def hashOpaqueToken_def)

lemma cached_of_from [simp]: "cached_of (from_cache c raw) = c"
  by (simp add: cached_of_def from_cache_def)

lemma agrees_toRecord [simp]: "agrees r (cached_of (toRecord r raw)) \<longleftrightarrow> sx_revokedAt r = None"
  by (simp add: agrees_def cached_of_def toRecord_def)

lemma raw_token_simps [simp]:
  "se_rawToken (from_cache c raw) = raw" "se_rawToken (toRecord r raw) = raw"
  by (simp_all add: from_cache_def toRecord_def)

lemma writeCache_up:
  "av_redis env \<Longrightarrow> \<exists>t. writeCache env st s =
     (st\<lparr>ax_cache := (ax_cache st)(hashSessionToken env (se_rawToken s) \<mapsto> (cached_of s, t))\<rparr>, Inr ())"
  by (rule exI[of _ "av_now env + max 1 (redisTtlSeconds env (se_expiresAt s) (se_lastActiveAt s)) * 1000"])
    (simp add: writeCache_def cache_set_def)

lemma writeCache_keeps:
  assumes "av_redis env" "r \<in> set (ax_sessions st)" "stands_for env s r" "writeCache env st s = (st', res)"
  shows "keeps cuid st st'"
proof -
  obtain t where "st' = st\<lparr>ax_cache := (ax_cache st)(sx_tokenHash r \<mapsto> (cached_of s, t))\<rparr>"
    using writeCache_up[OF assms(1), of st s] assms(3,4) by (auto simp: stands_for_def)
  then show ?thesis using cache_row_keeps[OF assms(2)] assms(3) by (simp add: stands_for_def)
qed

lemma cache_get_up:
  assumes "av_redis env"
  obtains c where "cache_get env st h = (st, Inr (Some c))" "\<exists>t. ax_cache st h = Some (c, t)"
  | st1 where "cache_get env st h = (st1, Inr None)" "ax_cache st1 = (ax_cache st)(h := None)"
      "st1 = st\<lparr>ax_cache := ax_cache st1\<rparr>"
proof (cases "ax_cache st h")
  case None
  then have "ax_cache st = (ax_cache st)(h := None)" by auto
  then show thesis using assms None by (intro that(2)[of st]) (simp_all add: cache_get_def)
next
  case (Some e)
  then show thesis
    using assms that(1)[of "fst e"] that(2)[of "st\<lparr>ax_cache := (ax_cache st)(h := None)\<rparr>"]
    by (cases e; cases "av_now env < snd e") (simp_all add: cache_get_def)
qed

lemma findValidSession_cases:
  assumes "av_redis env" "sessions_ok cuid st" "findValidSession env st token = (st', res)"
  shows "keeps cuid st st' \<and> ax_users st' = ax_users st \<and>
    (\<exists>found. res = Inr found \<and> (\<forall>s. found = Some s \<longrightarrow> trim (nullish token []) \<noteq> [] \<and>
       se_rawToken s = trim (nullish token []) \<and> ax_sessions st' = ax_sessions st \<and>
       (\<exists>r \<in> set (ax_sessions st). stands_for env s r \<and>
          \<not> session_expired env (sx_expiresAt r) (sx_lastActiveAt r) (sx_createdAt r))))"
proof (cases "trim (nullish token []) = []")
  case True
  then show ?thesis using assms(3) by (auto simp: findValidSession_def Let_def)
next
  case False
  let ?h = "hashSessionToken env (nullish token [])"
  show ?thesis
  proof (rule cache_get_up[OF assms(1), of st ?h])
    fix c assume c: "cache_get env st ?h = (st, Inr (Some c))" "\<exists>t. ax_cache st ?h = Some (c, t)"
    then obtain r where r: "r \<in> set (ax_sessions st)" "sx_tokenHash r = ?h" "agrees r c"
      using sessions_okD(5)[OF assms(2)] by blast
    show ?thesis
    proof (cases "session_expired env (cd_expiresAt c) (cd_lastActivityAt c) (cd_createdAt c)")
      case True
      let ?st = "st\<lparr>ax_cache := (ax_cache st)(?h := None)\<rparr>"
      have "st' = revoke_where env (\<lambda>x. sx_id x = cd_sessionId c) ?st \<and> res = Inr None"
        using assms(3) False c(1) True by (auto simp: findValidSession_def Let_def deleteCache_up[OF assms(1)])
      moreover have k: "keeps cuid ?st (revoke_where env (\<lambda>x. sx_id x = cd_sessionId c) ?st)"
      proof (rule revoke_where_keeps)
        fix x assume "x \<in> set (ax_sessions ?st)" "sx_id x = cd_sessionId c"
        then have "x = r" using unique_id[OF assms(2), of x r] r by (simp add: agrees_def)
        then show "ax_cache ?st (sx_tokenHash x) = None" using r(2) by simp
      qed
      moreover note keeps_trans[OF cache_delete_keeps k]
      moreover have "ax_users (revoke_where env (\<lambda>x. sx_id x = cd_sessionId c) ?st) = ax_users st"
        by (simp add: revoke_where_def update_sessions_def)
      ultimately show ?thesis by simp
    next
      case valid: False
      have "st' = st" "res = Inr (Some (from_cache c (trim (nullish token []))))"
        using assms(3) False c(1) valid by (auto simp: findValidSession_def Let_def)
      then show ?thesis using r False valid by (auto simp: stands_for_def agrees_def intro!: bexI[of _ r])
    qed
  next
    fix st1 assume c: "cache_get env st ?h = (st1, Inr None)" "ax_cache st1 = (ax_cache st)(?h := None)"
      "st1 = st\<lparr>ax_cache := ax_cache st1\<rparr>"
    have same: "ax_sessions st1 = ax_sessions st" "ax_users st1 = ax_users st" by (subst c(3); simp)+
    have k: "keeps cuid st st1" using cache_delete_keeps[of cuid st ?h] c(2,3) by simp
    note u = assms(3)[unfolded findValidSession_def Let_def if_not_P[OF False] c(1) and_then_simps option.case]
    show ?thesis
    proof (cases "find_session st1 ?h")
      case None
      then show ?thesis using u k same by auto
    next
      case (Some r)
      have r: "r \<in> set (ax_sessions st1)" "sx_tokenHash r = ?h" using find_session_in[OF Some] by auto
      consider "sx_revokedAt r \<noteq> None" | "sx_revokedAt r = None" "session_expired env (sx_expiresAt r) (sx_lastActiveAt r) (sx_createdAt r)"
        | "sx_revokedAt r = None" "\<not> session_expired env (sx_expiresAt r) (sx_lastActiveAt r) (sx_createdAt r)" by blast
      then show ?thesis
      proof cases
        case 1
        then show ?thesis using u Some k same by auto
      next
        case 2
        have "keeps cuid st1 (revoke_where env (\<lambda>x. sx_id x = sx_id r) st1)"
        proof (rule revoke_where_keeps)
          fix x assume "x \<in> set (ax_sessions st1)" "sx_id x = sx_id r"
          then have "x = r" using unique_id[OF assms(2), of x r] r by (simp add: same)
          then show "ax_cache st1 (sx_tokenHash x) = None" using r(2) c(2) by simp
        qed
        note k' = keeps_trans[OF k this]
        have "ax_users (revoke_where env (\<lambda>x. sx_id x = sx_id r) st1) = ax_users st"
          by (simp add: revoke_where_def update_sessions_def same)
        moreover have "st' = revoke_where env (\<lambda>x. sx_id x = sx_id r) st1 \<and> res = Inr None"
          using u Some 2 by simp
        ultimately show ?thesis using k' by simp
      next
        case 3
        let ?s = "toRecord r (trim (nullish token []))"
        have s: "stands_for env ?s r" using 3(1) r(2) by (simp add: stands_for_def)
        obtain t where w: "writeCache env st1 ?s =
            (st1\<lparr>ax_cache := (ax_cache st1)(hashSessionToken env (se_rawToken ?s) \<mapsto> (cached_of ?s, t))\<rparr>, Inr ())"
          using writeCache_up[OF assms(1)] by blast
        show ?thesis using u Some 3 w keeps_trans[OF k writeCache_keeps[OF assms(1) r(1) s w]] same r(1) s False
          by (auto intro!: bexI[of _ r])
      qed
    qed
  qed
qed

subsection \<open>Touching and rotating\<close>

text \<open>Apart from the time of last activity, which the guard's record may lag behind.\<close>

definition same_session :: "auth_env \<Rightarrow> session_record \<Rightarrow> session_row \<Rightarrow> bool" where
  "same_session env s r \<longleftrightarrow>
     sx_tokenHash r = hashSessionToken env (se_rawToken s) \<and> sx_revokedAt r = None \<and> se_id s = sx_id r
     \<and> se_userId s = sx_userId r \<and> se_createdAt s = sx_createdAt r \<and> se_expiresAt s = sx_expiresAt r"

lemma stands_same: "stands_for env s r \<Longrightarrow> same_session env s r"
  by (simp add: stands_for_def same_session_def agrees_def cached_of_def)

lemma touch_keeps:
  assumes "av_redis env" "r \<in> set (ax_sessions st)" "same_session env s r" "touchSession env st s = (st', res)"
  shows "keeps cuid st st' \<and> res = Inr () \<and> ax_users st' = ax_users st \<and> (\<exists>r \<in> set (ax_sessions st'). same_session env s r)"
proof -
  let ?f = "\<lambda>r. if sx_id r = se_id s then r\<lparr>sx_lastActiveAt := av_now env\<rparr> else r"
  let ?c = "cached_of (s\<lparr>se_lastActiveAt := av_now env\<rparr>)"
  obtain t where w: "writeCache env st (s\<lparr>se_lastActiveAt := av_now env\<rparr>) =
      (st\<lparr>ax_cache := (ax_cache st)(sx_tokenHash r \<mapsto> (?c, t))\<rparr>, Inr ())"
    using writeCache_up[OF assms(1), of st "s\<lparr>se_lastActiveAt := av_now env\<rparr>"] assms(3)
    by (auto simp: same_session_def)
  then have st': "st' = st\<lparr>ax_cache := (ax_cache st)(sx_tokenHash r \<mapsto> (?c, t)), ax_sessions := map ?f (ax_sessions st)\<rparr>"
    "res = Inr ()"
    using assms(4) by (simp_all add: touchSession_def update_sessions_def)
  have "keeps cuid st st'"
  proof (rule rows_keep[where f = ?f])
    have h: "sx_tokenHash (?f x) = sx_tokenHash x" for x by simp
    assume ok: "sessions_ok cuid st"
    show "distinct (map (\<lambda>r. sx_tokenHash (?f r)) (ax_sessions st))" unfolding h by (rule sessions_okD(3)[OF ok])
    fix k c u assume e: "ax_cache st' k = Some (c, u)"
    show "\<exists>r \<in> set (ax_sessions st). sx_tokenHash (?f r) = k \<and> agrees (?f r) c"
    proof (cases "k = sx_tokenHash r")
      case True
      then have "c = ?c" using e st' by simp
      then show ?thesis
        using assms(2,3) True by (intro bexI[of _ r]) (simp_all add: same_session_def agrees_def cached_of_def)
    next
      case False
      then have "ax_cache st k = Some (c, u)" using e st' by simp
      then obtain x where x: "x \<in> set (ax_sessions st)" "sx_tokenHash x = k" "agrees x c"
        using sessions_okD(5)[OF ok] by blast
      then have "sx_id x \<noteq> se_id s" using unique_id[OF ok x(1) assms(2)] False assms(3) by (auto simp: same_session_def)
      then show ?thesis using x by (intro bexI[of _ x]) simp_all
    qed
  qed (simp_all add: st')
  moreover have "?f r \<in> set (ax_sessions st')" using assms(2) by (simp add: st')
  moreover have "same_session env s (?f r)" using assms(3) by (simp add: same_session_def)
  moreover have "ax_users st' = ax_users st" by (simp add: st')
  ultimately show ?thesis using st'(2) by blast
qed

lemma refresh_keeps:
  assumes "av_redis env" "sessions_ok cuid st" "r \<in> set (ax_sessions st)" "same_session env s r"
    "refreshSessionIfNeeded env st s = (st', res)"
  shows "keeps cuid st st' \<and> ax_users st' = ax_users st \<and> (res = Inr None \<longrightarrow> (\<exists>r \<in> set (ax_sessions st'). same_session env s r))"
proof (cases "se_expiresAt s - av_now env < SESSION_REFRESH_THRESHOLD_SECONDS * 1000")
  case False
  obtain st1 where t: "touchSession env st s = (st1, Inr ())"
    using touch_keeps[OF assms(1,3,4)] by (cases "touchSession env st s") blast
  then have "st' = st1" using assms(5) False by (simp add: refreshSessionIfNeeded_def)
  then show ?thesis using touch_keeps[OF assms(1,3,4) t] by blast
next
  case True
  let ?raw = "av_token env (ax_seq st)"
  let ?h = "hashSessionToken env ?raw"
  let ?rot = "\<lambda>r. r\<lparr>sx_tokenHash := ?h, sx_expiresAt := av_now env + SESSION_TTL_SECONDS * 1000, sx_lastActiveAt := av_now env\<rparr>"
  let ?f = "\<lambda>x. if sx_id x = se_id s then ?rot x else x"
  have i: "sx_id r = se_id s" and old: "hashSessionToken env (se_rawToken s) = sx_tokenHash r"
    and live: "sx_revokedAt r = None" using assms(4) by (simp_all add: same_session_def)
  obtain r0 where r0: "List.find (\<lambda>r. sx_id r = se_id s) (ax_sessions st) = Some r0"
    using assms(3) i by (cases "List.find (\<lambda>r. sx_id r = se_id s) (ax_sessions st)") (auto simp: find_None_iff)
  then have "r0 = r" using find_Some_in[OF r0] unique_id[OF assms(2) _ assms(3)] i by simp
  note f = r0[unfolded this]
  show ?thesis
  proof (cases "list_ex (\<lambda>x. sx_tokenHash x = ?h \<and> sx_id x \<noteq> se_id s) (ax_sessions st)")
    case clash: True
    then have "st' = st \<and> res = Inl Auth_database_error"
      using assms(5) True f by (simp add: refreshSessionIfNeeded_def Let_def)
    then show ?thesis by simp
  next
    case fresh: False
    let ?new = "toRecord (?rot r) ?raw"
    let ?st1 = "(update_sessions (\<lambda>x. sx_id x = se_id s) ?rot st)\<lparr>ax_seq := Suc (ax_seq st)\<rparr>"
    let ?st2 = "?st1\<lparr>ax_cache := (ax_cache ?st1)(sx_tokenHash r := None)\<rparr>"
    obtain t where w: "writeCache env ?st2 ?new = (?st2\<lparr>ax_cache := (ax_cache ?st2)(?h \<mapsto> (cached_of ?new, t))\<rparr>, Inr ())"
      using writeCache_up[OF assms(1), of ?st2 ?new] by auto
    have res: "st' = ?st2\<lparr>ax_cache := (ax_cache ?st2)(?h \<mapsto> (cached_of ?new, t))\<rparr>" "res = Inr (Some ?new)"
      using assms(5) True f fresh w
      by (simp_all add: refreshSessionIfNeeded_def Let_def deleteCache_up[OF assms(1)] old)
    have "keeps cuid st st'"
    proof (rule rows_keep[where f = ?f])
      show "distinct (map (\<lambda>r. sx_tokenHash (?f r)) (ax_sessions st))"
        using distinct_map_update[OF sessions_okD(2)[OF assms(2)] sessions_okD(3)[OF assms(2)], of ?h "se_id s"] fresh
        by (simp add: list_ex_iff if_distrib cong: if_cong)
      fix k c u assume e: "ax_cache st' k = Some (c, u)"
      show "\<exists>r \<in> set (ax_sessions st). sx_tokenHash (?f r) = k \<and> agrees (?f r) c"
      proof (cases "k = ?h")
        case True
        then have "c = cached_of ?new" using e by (simp add: res)
        then show ?thesis using assms(3) i live True by (intro bexI[of _ r]) simp_all
      next
        case False
        then have "ax_cache st k = Some (c, u)" "k \<noteq> sx_tokenHash r"
          using e by (auto simp: res update_sessions_def split: if_splits)
        then obtain x where x: "x \<in> set (ax_sessions st)" "sx_tokenHash x = k" "agrees x c" "x \<noteq> r"
          using sessions_okD(5)[OF assms(2)] by blast
        then have "sx_id x \<noteq> se_id s" using unique_id[OF assms(2) x(1) assms(3)] i by auto
        then show ?thesis using x by (intro bexI[of _ x]) simp_all
      qed
    next
      fix x assume x: "x \<in> set (ax_sessions st)" "sx_revokedAt x \<noteq> None"
      then have "sx_id x \<noteq> se_id s" using unique_id[OF assms(2) x(1) assms(3)] i live by auto
      then show "sx_revokedAt (?f x) \<noteq> None \<and> sx_tokenHash (?f x) = sx_tokenHash x" using x by simp
    qed (simp_all add: res update_sessions_def)
    then show ?thesis by (simp add: res update_sessions_def)
  qed
qed

subsection \<open>The guard\<close>

lemma guard_cases:
  assumes "av_redis env" "sessions_ok cuid st" "canActivate env st False token = (st', res)"
  shows "keeps cuid st st' \<and> (\<forall>u c. res = Inr (Some (u, c)) \<longrightarrow>
    (\<exists>r \<in> set (ax_sessions st). sx_tokenHash r = hashSessionToken env (nullish token []) \<and> sx_revokedAt r = None \<and>
       \<not> session_expired env (sx_expiresAt r) (sx_lastActiveAt r) (sx_createdAt r) \<and>
       (\<exists>su. find_user st (sx_userId r) = Some su \<and> sf_status su = ''ACTIVE'' \<and>
          list_ex isStaffRoleCode (role_codes su) \<and> u = auth_user_of su)))"
proof -
  obtain st1 found where f: "findValidSession env st token = (st1, Inr found)" "keeps cuid st st1" "ax_users st1 = ax_users st"
    using findValidSession_cases[OF assms(1,2)] by (cases "findValidSession env st token") blast
  show ?thesis
  proof (cases found)
    case None
    then show ?thesis using assms(3) f by (auto simp: canActivate_def)
  next
    case (Some s)
    obtain r where r: "se_rawToken s = trim (nullish token [])" "ax_sessions st1 = ax_sessions st" "r \<in> set (ax_sessions st)"
      "stands_for env s r" "\<not> session_expired env (sx_expiresAt r) (sx_lastActiveAt r) (sx_createdAt r)"
      using findValidSession_cases[OF assms(1,2) f(1)] Some by blast
    have ok1: "sessions_ok cuid st1" using f(2) assms(2) by (simp add: keeps_def)
    obtain st2 ref where rf: "refreshSessionIfNeeded env st1 s = (st2, ref)" by (cases "refreshSessionIfNeeded env st1 s")
    note k2 = refresh_keeps[OF assms(1) ok1 _ stands_same[OF r(4)] rf, unfolded r(2), OF r(3)]
    show ?thesis
    proof (cases ref)
      case (Inl e)
      then show ?thesis using assms(3) f(1) Some rf k2 keeps_trans[OF f(2)] by (auto simp: canActivate_def)
    next
      case (Inr rfd)
      obtain st3 where t: "(if rfd = None then touchSession env st2 s else (st2, Inr ())) = (st3, Inr ())"
        and k3: "keeps cuid st2 st3" "ax_users st3 = ax_users st2"
      proof (cases rfd)
        case None
        then obtain x where "x \<in> set (ax_sessions st2)" "same_session env s x" using k2 Inr by blast
        then show thesis using touch_keeps[OF assms(1)] that None by (cases "touchSession env st2 s") fastforce
      qed (use that in simp)
      note k = keeps_trans[OF f(2) keeps_trans[OF conjunct1[OF k2] k3(1)]]
      have u: "find_user st3 i = find_user st i" for i using k3(2) k2 f(3) by (simp add: find_user_def)
      have id: "se_userId s = sx_userId r" "sx_tokenHash r = hashSessionToken env (nullish token [])" "sx_revokedAt r = None"
        using stands_same[OF r(4)] r(1) by (simp_all add: same_session_def)
      show ?thesis
        using assms(3) f(1) Some rf Inr t k r id u
        by (auto simp: canActivate_def split: option.splits if_splits)
    qed
  qed
qed

subsection \<open>Opening and revoking\<close>

lemma createSession_keeps:
  assumes "av_redis env" "createSession env st userId ip ua = (st', res)"
  shows "keeps (av_cuid env) st st' \<and> ax_users st' = ax_users st"
proof (cases "find_session st (hashSessionToken env (av_token env (ax_seq st)))")
  case (Some r)
  then show ?thesis using assms(2) by (auto simp: createSession_def Let_def)
next
  case None
  let ?raw = "av_token env (ax_seq st)"
  define row where "row = \<lparr>sx_id = av_cuid env (ax_seq st), sx_tokenHash = hashSessionToken env ?raw, sx_userId = userId,
    sx_expiresAt = av_now env + SESSION_TTL_SECONDS * 1000, sx_lastActiveAt = av_now env,
    sx_createdAt = av_now env, sx_revokedAt = None, sx_ipAddress = ip, sx_userAgent = ua\<rparr>"
  let ?st1 = "st\<lparr>ax_seq := Suc (ax_seq st), ax_sessions := ax_sessions st @ [row]\<rparr>"
  have h: "sx_tokenHash row = hashSessionToken env ?raw" by (simp add: row_def)
  have fresh: "sx_tokenHash row \<notin> sx_tokenHash ` set (ax_sessions st)"
    using None by (auto simp: h find_session_def find_None_iff)
  have k1: "keeps (av_cuid env) st ?st1"
  proof (rule keepsI)
    assume ok: "sessions_ok (av_cuid env) st"
    note d = sessions_okD[OF ok]
    have "sx_id row \<notin> sx_id ` set (ax_sessions st)"
      using d(1,4) by (force simp: row_def dest: injD)
    then show "sessions_ok (av_cuid env) ?st1"
    proof (intro sessions_okI)
      show "\<exists>i < ax_seq ?st1. sx_id r = av_cuid env i" if r: "r \<in> set (ax_sessions ?st1)" for r
      proof (cases "r = row")
        case False
        then obtain i where "i < ax_seq st" "sx_id r = av_cuid env i" using r d(4)[of r] by auto
        then show ?thesis by (intro exI[of _ i]) simp
      qed (auto simp: row_def intro: exI[of _ "ax_seq st"])
      show "\<exists>r \<in> set (ax_sessions ?st1). sx_tokenHash r = k \<and> agrees r c" if "ax_cache ?st1 k = Some (c, t)" for k c t
        using d(5)[of k c t] that by auto
    qed (use d(1-3) fresh in simp_all)
  qed (auto simp: revoked_def)
  have w: "createSession env st userId ip ua =
      and_then (writeCache env ?st1 (toRecord row ?raw)) (\<lambda>st2 _. (st2, Inr (toRecord row ?raw)))"
    using None by (simp add: createSession_def Let_def row_def)
  obtain st2 x where x: "writeCache env ?st1 (toRecord row ?raw) = (st2, x)" by (cases "writeCache env ?st1 (toRecord row ?raw)")
  have "stands_for env (toRecord row ?raw) row" by (simp add: stands_for_def h) (simp add: row_def)
  then have "keeps (av_cuid env) ?st1 st2" using writeCache_keeps[OF assms(1) _ _ x, of row] by simp
  then have "keeps (av_cuid env) st st2" using keeps_trans[OF k1] by blast
  moreover have "st' = st2" using assms(2) w x writeCache_up[OF assms(1), of ?st1 "toRecord row ?raw"] by auto
  moreover have "ax_users st2 = ax_users st" using writeCache_up[OF assms(1), of ?st1 "toRecord row ?raw"] x by auto
  ultimately show ?thesis by simp
qed

lemma deleteSessionByToken_keeps:
  assumes "av_redis env" "deleteSessionByToken env st token = (st', res)"
  shows "keeps cuid st st' \<and> ax_users st' = ax_users st \<and>
    (trim (nullish token []) \<noteq> [] \<longrightarrow>
       (\<forall>r \<in> set (ax_sessions st). sx_tokenHash r = hashSessionToken env (nullish token []) \<longrightarrow>
          (sx_id r, sx_tokenHash r) \<in> revoked st'))"
proof (cases "trim (nullish token []) = []")
  case True
  then show ?thesis using assms by (simp add: deleteSessionByToken_def Let_def)
next
  case False
  let ?h = "hashSessionToken env (nullish token [])"
  let ?st = "st\<lparr>ax_cache := (ax_cache st)(?h := None)\<rparr>"
  have s: "st' = revoke_where env (\<lambda>r. sx_tokenHash r = ?h) ?st"
    using assms False by (simp add: deleteSessionByToken_def Let_def deleteCache_up[OF assms(1)])
  have "keeps cuid ?st st'" unfolding s by (rule revoke_where_keeps) simp
  then have "keeps cuid st st'" by (rule keeps_trans[OF cache_delete_keeps])
  moreover have "(sx_id r, sx_tokenHash r) \<in> revoked st'"
    if r: "r \<in> set (ax_sessions st)" "sx_tokenHash r = ?h" for r
    by (rule revokedI[of "if sx_revokedAt r = None then r\<lparr>sx_revokedAt := Some (av_now env)\<rparr> else r"])
       (use r in \<open>auto simp: s revoke_where_def update_sessions_def intro!: image_eqI[of _ _ r]\<close>)
  ultimately show ?thesis by (simp add: s revoke_where_def update_sessions_def)
qed

lemma deleteSessionById_keeps:
  assumes "av_redis env" "deleteSessionById env st i userId = (st', res)" "sessions_ok cuid st"
  shows "keeps cuid st st' \<and> ax_users st' = ax_users st \<and> (res = Inr True \<longrightarrow> (\<forall>r \<in> set (ax_sessions st). sx_id r = i \<longrightarrow> (i, sx_tokenHash r) \<in> revoked st'))"
proof (cases "List.find (\<lambda>r. sx_id r = i \<and> sx_userId r = userId \<and> sx_revokedAt r = None) (ax_sessions st)")
  case None
  then show ?thesis using assms(2) by (auto simp: deleteSessionById_def)
next
  case (Some r)
  have r: "r \<in> set (ax_sessions st)" "sx_id r = i" using find_Some_in[OF Some] by simp_all
  let ?st = "st\<lparr>ax_cache := (ax_cache st)(sx_tokenHash r := None)\<rparr>"
  have s: "st' = update_sessions (\<lambda>x. sx_id x = i) (\<lambda>x. x\<lparr>sx_revokedAt := Some (av_now env)\<rparr>) ?st" "res = Inr True"
    using assms(2) Some by (simp_all add: deleteSessionById_def deleteCache_up[OF assms(1)])
  have "keeps cuid ?st st'" unfolding s(1)
  proof (rule revoke_keeps)
    fix x assume "x \<in> set (ax_sessions ?st)" "sx_id x = i"
    then have "x = r" using unique_id[OF assms(3), of x r] r by simp
    then show "ax_cache ?st (sx_tokenHash x) = None" by simp
  qed
  then have "keeps cuid st st'" by (rule keeps_trans[OF cache_delete_keeps])
  moreover have "(i, sx_tokenHash x) \<in> revoked st'" if x: "x \<in> set (ax_sessions st)" "sx_id x = i" for x
    by (rule revokedI[of "x\<lparr>sx_revokedAt := Some (av_now env)\<rparr>"])
       (use x in \<open>auto simp: s(1) update_sessions_def intro!: image_eqI[of _ _ x]\<close>)
  ultimately show ?thesis by (simp add: s(1) update_sessions_def)
qed

lemma delete_hashes_up:
  "av_redis env \<Longrightarrow> delete_hashes env st hs = (st\<lparr>ax_cache := (\<lambda>k. if k \<in> set hs then None else ax_cache st k)\<rparr>, Inr ())"
proof (induction hs arbitrary: st)
  case (Cons h hs)
  have "(\<lambda>k. if k \<in> set hs then None else ((ax_cache st)(h := None)) k) =
      (\<lambda>k. if k \<in> set (h # hs) then None else ax_cache st k)" by auto
  then show ?case using Cons by (simp add: deleteCache_up cong: if_cong)
qed simp

lemma revokeAll_keeps:
  assumes "av_redis env" "revokeAllUserSessions env st userId exceptId = (st', res)"
  shows "keeps cuid st st' \<and> ax_users st' = ax_users st \<and> ax_resets st' = ax_resets st \<and> (\<exists>n. res = Inr n) \<and>
    (\<forall>r \<in> set (ax_sessions st'). \<not> live_of_user userId exceptId r) \<and>
    (\<forall>r \<in> set (ax_sessions st). sx_userId r = userId \<and> sx_id r \<noteq> nullish exceptId [] \<longrightarrow>
       (sx_id r, sx_tokenHash r) \<in> revoked st')"
proof -
  let ?hs = "map sx_tokenHash (filter (live_of_user userId exceptId) (ax_sessions st))"
  let ?st = "st\<lparr>ax_cache := (\<lambda>k. if k \<in> set ?hs then None else ax_cache st k)\<rparr>"
  have s: "st' = revoke_where env (live_of_user userId exceptId) ?st" "\<exists>n. res = Inr n"
    using assms(2) by (auto simp: revokeAllUserSessions_def Let_def delete_hashes_up[OF assms(1)])
  have "keeps cuid st ?st"
  proof (rule rows_keep[where f = "\<lambda>r. r"])
    show "distinct (map sx_tokenHash (ax_sessions st))" if "sessions_ok cuid st" by (rule sessions_okD(3)[OF that])
    show "\<exists>r \<in> set (ax_sessions st). sx_tokenHash r = h \<and> agrees r c"
      if "sessions_ok cuid st" "ax_cache ?st h = Some (c, t)" for h c t
      using sessions_okD(5)[OF that(1), of h c t] that(2) by (simp split: if_splits)
  qed simp_all
  moreover have "keeps cuid ?st st'" unfolding s by (rule revoke_where_keeps) auto
  ultimately have "keeps cuid st st'" by (rule keeps_trans)
  moreover have "\<not> live_of_user userId exceptId r" if r: "r \<in> set (ax_sessions st')" for r
  proof -
    let ?g = "\<lambda>r. if live_of_user userId exceptId r \<and> sx_revokedAt r = None
        then r\<lparr>sx_revokedAt := Some (av_now env)\<rparr> else r"
    have "ax_sessions st' = map ?g (ax_sessions st)" by (simp add: s(1) revoke_where_def update_sessions_def)
    then have "r \<in> ?g ` set (ax_sessions st)" using r by (simp only: set_map)
    then obtain x where "r = ?g x" by (rule imageE)
    then show ?thesis by (auto simp: live_of_user_def)
  qed
  moreover have "(sx_id r, sx_tokenHash r) \<in> revoked st'"
    if r: "r \<in> set (ax_sessions st)" "sx_userId r = userId" "sx_id r \<noteq> nullish exceptId []" for r
    by (rule revokedI[of "if sx_revokedAt r = None then r\<lparr>sx_revokedAt := Some (av_now env)\<rparr> else r"])
       (use r in \<open>auto simp: s(1) revoke_where_def update_sessions_def live_of_user_def intro!: image_eqI[of _ _ r]\<close>)
  moreover have "ax_users st' = ax_users st" "ax_resets st' = ax_resets st"
    by (simp_all add: s(1) revoke_where_def update_sessions_def)
  ultimately show ?thesis using s(2) by blast
qed

subsection \<open>The routes\<close>

lemma audit_same [simp]:
  "ax_sessions (auth_audit a e i u st) = ax_sessions st" "ax_cache (auth_audit a e i u st) = ax_cache st"
  "ax_seq (auth_audit a e i u st) = ax_seq st" "ax_users (auth_audit a e i u st) = ax_users st"
  "ax_resets (auth_audit a e i u st) = ax_resets st" "ax_failures (auth_audit a e i u st) = ax_failures st"
  "ax_locks (auth_audit a e i u st) = ax_locks st"
  by (simp_all add: auth_audit_def)

lemma update_user_same [simp]:
  "ax_sessions (update_user i f st) = ax_sessions st" "ax_cache (update_user i f st) = ax_cache st"
  "ax_seq (update_user i f st) = ax_seq st" "ax_failures (update_user i f st) = ax_failures st"
  "ax_locks (update_user i f st) = ax_locks st" "ax_resets (update_user i f st) = ax_resets st"
  by (simp_all add: update_user_def)

lemma login_fail_keeps: "login_fail env pw st email entityId = (st', res) \<Longrightarrow> keeps cuid st st'"
  by (rule keeps_frame)
    (auto simp: login_fail_def recordLoginFailure_def incrementFailures_def setLock_def Let_def and_then_def
      split: if_splits prod.splits sum.splits)

lemma login_keeps:
  assumes "av_redis env" "login env pw st email password ip ua = (st', res)"
  shows "keeps (av_cuid env) st st'"
proof -
  let ?e = "toLowerCase (trim email)"
  consider "st' = st" | i where "login_fail env pw st ?e i = (st', res)"
    | user where "log_in env pw st user ?e password ip ua = (st', res)"
    using assms(2) by (auto simp: login_def Let_def split: sum.splits option.splits if_splits)
  then show ?thesis
  proof cases
    case 1
    then show ?thesis by simp
  next
    case (2 i)
    then show ?thesis by (rule login_fail_keeps)
  next
    case (3 user)
    define st0 where "st0 = st\<lparr>ax_failures := (ax_failures st)(emailKey pw ?e := None), ax_locks := (ax_locks st)(emailKey pw ?e := None)\<rparr>"
    define st1 where "st1 = (if shouldUpgradePasswordHash (nullish (sf_passwordHash user) [])
        then update_user (sf_id user) (\<lambda>u. u\<lparr>sf_passwordHash := Some (pw_argon2_hash pw password)\<rparr>) st0 else st0)"
    obtain st2 r where c: "createSession env st1 (sf_id user) ip ua = (st2, r)" by (cases "createSession env st1 (sf_id user) ip ua")
    have "keeps (av_cuid env) st st1" by (rule keeps_frame) (simp_all add: st1_def st0_def)
    then have k: "keeps (av_cuid env) st st2"
      by (rule keeps_trans) (use createSession_keeps[OF assms(1) c] in blast)
    have e: "log_in env pw st user ?e password ip ua = and_then (st2, r) (\<lambda>st s.
        (auth_audit ''auth.login'' ''User'' (Some (sf_id user)) (Some (sf_id user))
           (update_user (sf_id user) (\<lambda>u. u\<lparr>sf_lastLoginAt := Some (av_now env)\<rparr>) st), Inr s))"
      using assms(1) unfolding log_in_def clearLoginFailures_def by (simp add: st0_def[symmetric] st1_def[symmetric] Let_def c)
    show ?thesis
    proof (cases r)
      case (Inl x)
      then show ?thesis using k 3 e by simp
    next
      case (Inr s)
      have "keeps (av_cuid env) st2 st'" using 3 e Inr by (intro keeps_frame) auto
      then show ?thesis using keeps_trans[OF k] by blast
    qed
  qed
qed

lemma consume_keeps:
  assumes "av_redis env" "consumePasswordResetToken env pw st raw new = (st', res)"
  shows "keeps cuid st st'"
proof (cases "\<exists>uid. res = Inr uid \<or> st' \<noteq> st")
  case False
  then show ?thesis by auto
next
  case True
  then obtain r where r: "and_then (revokeAllUserSessions env
       ((update_user (rk_userId r) (\<lambda>u. u\<lparr>sf_passwordHash := Some (pw_argon2_hash pw new)\<rparr>) st)\<lparr>ax_resets := map (use_reset env r) (ax_resets st)\<rparr>)
       (rk_userId r) None) (\<lambda>st _. (st, Inr (rk_userId r))) = (st', res)"
    using assms(2) by (auto simp: consumePasswordResetToken_def Let_def split: if_splits option.splits)
  let ?st1 = "(update_user (rk_userId r) (\<lambda>u. u\<lparr>sf_passwordHash := Some (pw_argon2_hash pw new)\<rparr>) st)\<lparr>ax_resets := map (use_reset env r) (ax_resets st)\<rparr>"
  obtain st2 x where x: "revokeAllUserSessions env ?st1 (rk_userId r) None = (st2, x)"
    by (cases "revokeAllUserSessions env ?st1 (rk_userId r) None")
  have "keeps cuid st ?st1" by (rule keeps_frame) simp_all
  moreover have "keeps cuid ?st1 st2" "\<exists>n. x = Inr n" using revokeAll_keeps[OF assms(1) x] by blast+
  moreover have "st' = st2" using r x calculation(3) by auto
  ultimately show ?thesis using keeps_trans by blast
qed

text \<open>One request after the other; what other parts of the program do to the users is a step of its own.\<close>

inductive auth_step :: "(nat \<Rightarrow> string) \<Rightarrow> auth_store \<Rightarrow> auth_store \<Rightarrow> bool" for cuid where
  guarded: "av_cuid env = cuid \<Longrightarrow> av_redis env \<Longrightarrow> canActivate env st isPublic token = (st', r1) \<Longrightarrow> auth_step cuid st st'"
| logs_in: "av_cuid env = cuid \<Longrightarrow> av_redis env \<Longrightarrow> login_route env pw st origin email password ip ua = (st', r2) \<Longrightarrow>
    auth_step cuid st st'"
| logs_out: "av_redis env \<Longrightarrow> logout_route env st origin token = (st', r3) \<Longrightarrow> auth_step cuid st st'"
| revokes_one: "av_redis env \<Longrightarrow> revokeSession env st origin user i = (st', r3) \<Longrightarrow> auth_step cuid st st'"
| revokes_all: "av_redis env \<Longrightarrow> revokeAllSessions env st origin user token keep = (st', r4) \<Longrightarrow> auth_step cuid st st'"
| changes_password: "changePassword env pw st origin user old new = (st', r3) \<Longrightarrow> auth_step cuid st st'"
| asks_reset: "createPasswordResetTokenForUser env st i = (st', r5) \<Longrightarrow> auth_step cuid st st'"
| resets_password: "av_redis env \<Longrightarrow> resetPassword env pw st origin token new = (st', r3) \<Longrightarrow> auth_step cuid st st'"
| users_change: "auth_step cuid st (st\<lparr>ax_users := us\<rparr>)"

lemma after_check_cases: "after_check st c m = (st', r) \<Longrightarrow> st' = st \<or> m = (st', r)"
  by (auto simp: after_check_def split: sum.splits)

lemma guard_keeps:
  assumes "av_redis env" "sessions_ok cuid st" "canActivate env st isPublic token = (st', r)"
  shows "keeps cuid st st'"
  using assms guard_cases[OF assms(1,2)] by (cases isPublic) (auto simp: canActivate_def)

lemma logout_route_keeps:
  assumes "av_redis env" "sessions_ok cuid st" "logout_route env st origin token = (st', r)"
  shows "keeps cuid st st'"
proof -
  obtain st1 found where f: "findValidSession env st token = (st1, Inr found)" "keeps cuid st st1"
    using findValidSession_cases[OF assms(1,2)] by (cases "findValidSession env st token") blast
  obtain st2 x where d: "deleteSessionByToken env st1 token = (st2, x)" by (cases "deleteSessionByToken env st1 token")
  have k: "keeps cuid st st2" using keeps_trans[OF f(2)] deleteSessionByToken_keeps[OF assms(1) d] by blast
  have "keeps cuid st2 (auth_audit a e i u st2)" for a e i u by (rule keeps_frame) simp_all
  then show ?thesis
    using after_check_cases[OF assms(3)[unfolded logout_route_def]] f(1) d keeps_trans[OF k] k
    by (cases x) (auto simp: logout_def)
qed

lemma revokeSession_keeps:
  assumes "av_redis env" "sessions_ok cuid st" "revokeSession env st origin user i = (st', r)"
  shows "keeps cuid st st'"
proof -
  obtain st1 x where d: "deleteSessionById env st i (us_id user) = (st1, x)" by (cases "deleteSessionById env st i (us_id user)")
  have k: "keeps cuid st st1" using deleteSessionById_keeps[OF assms(1) d assms(2)] by blast
  have "keeps cuid st1 (auth_audit a e i u st1)" for a e i u by (rule keeps_frame) simp_all
  then show ?thesis
    using after_check_cases[OF assms(3)[unfolded revokeSession_def]] d keeps_trans[OF k] k
    by (cases x) (auto split: if_splits)
qed

lemma revokeAllSessions_keeps:
  assumes "av_redis env" "sessions_ok cuid st" "revokeAllSessions env st origin user token keep = (st', r)"
  shows "keeps cuid st st'"
proof -
  obtain st1 found where f: "findValidSession env st token = (st1, Inr found)" "keeps cuid st st1"
    using findValidSession_cases[OF assms(1,2)] by (cases "findValidSession env st token") blast
  let ?e = "if keep \<noteq> Some False then map_option se_id found else None"
  obtain st2 x where d: "revokeAllUserSessions env st1 (us_id user) ?e = (st2, x)"
    by (cases "revokeAllUserSessions env st1 (us_id user) ?e")
  have k: "keeps cuid st st2" using keeps_trans[OF f(2)] revokeAll_keeps[OF assms(1) d] by blast
  have "keeps cuid st2 (auth_audit a e i u st2)" for a e i u by (rule keeps_frame) simp_all
  then show ?thesis
    using after_check_cases[OF assms(3)[unfolded revokeAllSessions_def]] f(1) d keeps_trans[OF k] k
    by (cases x) auto
qed

lemma changePassword_keeps: "changePassword env pw st origin user old new = (st', r) \<Longrightarrow> keeps cuid st st'"
  by (rule keeps_frame) (auto simp: changePassword_def after_check_def split: sum.splits option.splits if_splits)

lemma createReset_keeps: "createPasswordResetTokenForUser env st i = (st', r) \<Longrightarrow> keeps cuid st st'"
  by (rule keeps_frame) (auto simp: createPasswordResetTokenForUser_def Let_def split: option.splits if_splits)

lemma resetPassword_keeps:
  assumes "av_redis env" "resetPassword env pw st origin token new = (st', r)"
  shows "keeps cuid st st'"
proof -
  obtain st1 x where d: "consumePasswordResetToken env pw st token new = (st1, x)" by (cases "consumePasswordResetToken env pw st token new")
  have k: "keeps cuid st st1" by (rule consume_keeps[OF assms(1) d])
  have "keeps cuid st1 (auth_audit a e i u st1)" for a e i u by (rule keeps_frame) simp_all
  then show ?thesis
    using after_check_cases[OF assms(2)[unfolded resetPassword_def]] d keeps_trans[OF k] k
    by (cases x) auto
qed

lemma auth_step_keeps:
  assumes "sessions_ok cuid st" "auth_step cuid st st'"
  shows "sessions_ok cuid st' \<and> revoked st \<subseteq> revoked st'"
proof -
  from assms(2) have "keeps cuid st st'"
  proof cases
    case (guarded env p t r1)
    then show ?thesis using guard_keeps assms(1) by blast
  next
    case (logs_in env pw origin email password ip ua r2)
    then show ?thesis using after_check_cases[OF logs_in(3)[unfolded login_route_def]] login_keeps[OF logs_in(2)] by auto
  next
    case (logs_out env origin token r3)
    then show ?thesis using logout_route_keeps assms(1) by blast
  next
    case (revokes_one env origin user i r3)
    then show ?thesis using revokeSession_keeps assms(1) by blast
  next
    case (revokes_all env origin user token keep r4)
    then show ?thesis using revokeAllSessions_keeps assms(1) by blast
  next
    case (changes_password env pw origin user old new r3)
    then show ?thesis using changePassword_keeps by blast
  next
    case (asks_reset env i r5)
    then show ?thesis using createReset_keeps by blast
  next
    case (resets_password env pw origin token new r3)
    then show ?thesis using resetPassword_keeps by blast
  next
    case (users_change us)
    then show ?thesis by (intro keeps_frame) simp_all
  qed
  then show ?thesis using assms(1) by (simp add: keeps_def)
qed

lemma auth_steps_keep:
  assumes "(auth_step cuid)\<^sup>*\<^sup>* st st'" "sessions_ok cuid st"
  shows "sessions_ok cuid st' \<and> revoked st \<subseteq> revoked st'"
  using assms by (induction rule: rtranclp_induct) (use auth_step_keeps in \<open>auto, blast\<close>)

subsection \<open>Revoked sessions\<close>

text \<open>The three ways to end a session: by its token (logout), by its id (revocation of one session), by its
  user (revocation of all sessions, except the current one where that is asked).\<close>

definition ends_session :: "auth_env \<Rightarrow> auth_store \<Rightarrow> session_row \<Rightarrow> auth_store \<Rightarrow> bool" where
  "ends_session env st r st1 \<longleftrightarrow>
     (\<exists>raw. deleteSessionByToken env st (Some raw) = (st1, Inr ()) \<and> trim raw \<noteq> []
        \<and> hashSessionToken env raw = sx_tokenHash r)
     \<or> (\<exists>userId. deleteSessionById env st (sx_id r) userId = (st1, Inr True))
     \<or> (\<exists>exceptId n. revokeAllUserSessions env st (sx_userId r) exceptId = (st1, Inr n)
        \<and> sx_id r \<noteq> nullish exceptId [])"

lemma ended_revoked:
  assumes "av_redis env" "sessions_ok cuid st" "r \<in> set (ax_sessions st)" "ends_session env st r st1"
  shows "sessions_ok cuid st1 \<and> (sx_id r, sx_tokenHash r) \<in> revoked st1"
  using assms(4) unfolding ends_session_def
proof (elim disjE exE conjE)
  fix raw assume "deleteSessionByToken env st (Some raw) = (st1, Inr ())" "trim raw \<noteq> []"
    "hashSessionToken env raw = sx_tokenHash r"
  then show ?thesis
    using deleteSessionByToken_keeps[OF assms(1), of st "Some raw" st1 "Inr ()" cuid] assms(2,3) by (auto simp: keeps_def)
next
  fix userId assume "deleteSessionById env st (sx_id r) userId = (st1, Inr True)"
  from deleteSessionById_keeps[OF assms(1) this assms(2)] show ?thesis using assms(2,3) by (auto simp: keeps_def)
next
  fix exceptId n assume "revokeAllUserSessions env st (sx_userId r) exceptId = (st1, Inr n)" "sx_id r \<noteq> nullish exceptId []"
  then show ?thesis
    using revokeAll_keeps[OF assms(1), of st "sx_userId r" exceptId st1 "Inr n" cuid] assms(2,3) by (auto simp: keeps_def)
qed

text \<open>C15. As long as Redis answers, a session that is ended is dead. Once it was ended by logout with its
  token, by a revocation of its id or by a revocation of the sessions of its user, then after whatever
  requests follow its token is never let in again; and a request that is let in has a token that belongs
  to another session, one that is not revoked and neither expired nor idle, of an active user with a staff
  role, and the user handed to the route is that user.\<close>

theorem revoked_session_is_dead:
  assumes "sessions_ok cuid st" "r \<in> set (ax_sessions st)" "av_redis env0" "ends_session env0 st r st1"
    and "(auth_step cuid)\<^sup>*\<^sup>* st1 st'" "av_redis env"
  shows "(hashSessionToken env (nullish token []) = sx_tokenHash r \<longrightarrow>
      (\<nexists>st'' u c. canActivate env st' False token = (st'', Inr (Some (u, c))))) \<and>
    (canActivate env st' False token = (st'', Inr (Some (u, c))) \<longrightarrow>
      (\<exists>q su. q \<in> set (ax_sessions st') \<and> sx_tokenHash q = hashSessionToken env (nullish token []) \<and>
        sx_id q \<noteq> sx_id r \<and> sx_revokedAt q = None \<and>
        \<not> session_expired env (sx_expiresAt q) (sx_lastActiveAt q) (sx_createdAt q) \<and>
        find_user st' (sx_userId q) = Some su \<and> sf_status su = ''ACTIVE'' \<and>
        list_ex isStaffRoleCode (role_codes su) \<and> u = auth_user_of su))"
proof -
  have k1: "sessions_ok cuid st1" "(sx_id r, sx_tokenHash r) \<in> revoked st1"
    using ended_revoked[OF assms(3,1,2,4)] by auto
  have k: "sessions_ok cuid st'" "revoked st1 \<subseteq> revoked st'" using auth_steps_keep[OF assms(5) k1(1)] by auto
  have "(sx_id r, sx_tokenHash r) \<in> revoked st'" using k(2) k1(2) by blast
  then obtain x where x: "x \<in> set (ax_sessions st')" "sx_revokedAt x \<noteq> None" "sx_id x = sx_id r" "sx_tokenHash x = sx_tokenHash r"
    unfolding revoked_def by auto
  have let_in: "\<exists>q su. q \<in> set (ax_sessions st') \<and> sx_tokenHash q = hashSessionToken env (nullish token []) \<and>
        sx_id q \<noteq> sx_id r \<and> sx_revokedAt q = None \<and>
        \<not> session_expired env (sx_expiresAt q) (sx_lastActiveAt q) (sx_createdAt q) \<and>
        find_user st' (sx_userId q) = Some su \<and> sf_status su = ''ACTIVE'' \<and>
        list_ex isStaffRoleCode (role_codes su) \<and> u = auth_user_of su"
    if g: "canActivate env st' False token = (st'', Inr (Some (u, c)))" for st'' u c
  proof -
    obtain q su where q: "q \<in> set (ax_sessions st')" "sx_tokenHash q = hashSessionToken env (nullish token [])"
      "sx_revokedAt q = None" "\<not> session_expired env (sx_expiresAt q) (sx_lastActiveAt q) (sx_createdAt q)"
      "find_user st' (sx_userId q) = Some su" "sf_status su = ''ACTIVE''" "list_ex isStaffRoleCode (role_codes su)"
      "u = auth_user_of su"
      using guard_cases[OF assms(6) k(1) g] by blast
    have "sx_id q \<noteq> sx_id r" using unique_id[OF k(1) x(1) q(1)] x(2,3) q(3) by auto
    then show ?thesis using q by blast
  qed
  have "\<nexists>st'' u c. canActivate env st' False token = (st'', Inr (Some (u, c)))"
    if h: "hashSessionToken env (nullish token []) = sx_tokenHash r"
  proof
    assume "\<exists>st'' u c. canActivate env st' False token = (st'', Inr (Some (u, c)))"
    then obtain q where q: "q \<in> set (ax_sessions st')" "sx_tokenHash q = sx_tokenHash r" "sx_id q \<noteq> sx_id r"
      using let_in unfolding h by blast
    then show False using unique_hash[OF k(1) x(1) q(1)] x(3,4) by auto
  qed
  then show ?thesis using let_in by blast
qed

subsection \<open>Password resets\<close>

lemma consumeD:
  assumes "av_redis env" "consumePasswordResetToken env pw st raw new = (st', Inr uid)"
  obtains r u where "List.find (\<lambda>r. rk_tokenHash r = hashResetToken env (trim raw)) (ax_resets st) = Some r"
    "rk_userId r = uid" "trim raw \<noteq> []" "find_user st uid = Some u"
    "ax_resets st' = map (use_reset env r) (ax_resets st)"
    "ax_users st' = map (\<lambda>u. if sf_id u = uid then u\<lparr>sf_passwordHash := Some (pw_argon2_hash pw new)\<rparr> else u) (ax_users st)"
    "\<forall>x \<in> set (ax_sessions st'). sx_userId x = uid \<longrightarrow> sx_revokedAt x \<noteq> None"
proof -
  obtain r where r: "trim raw \<noteq> []"
    "List.find (\<lambda>r. rk_tokenHash r = hashResetToken env (trim raw)) (ax_resets st) = Some r"
    "find_user st (rk_userId r) \<noteq> None"
    "and_then (revokeAllUserSessions env
       ((update_user (rk_userId r) (\<lambda>u. u\<lparr>sf_passwordHash := Some (pw_argon2_hash pw new)\<rparr>) st)\<lparr>ax_resets := map (use_reset env r) (ax_resets st)\<rparr>)
       (rk_userId r) None) (\<lambda>st _. (st, Inr (rk_userId r))) = (st', Inr uid)"
    using assms(2) by (auto simp: consumePasswordResetToken_def Let_def split: if_splits option.splits)
  let ?st1 = "(update_user (rk_userId r) (\<lambda>u. u\<lparr>sf_passwordHash := Some (pw_argon2_hash pw new)\<rparr>) st)\<lparr>ax_resets := map (use_reset env r) (ax_resets st)\<rparr>"
  obtain st2 x where x: "revokeAllUserSessions env ?st1 (rk_userId r) None = (st2, x)"
    by (cases "revokeAllUserSessions env ?st1 (rk_userId r) None")
  note k = revokeAll_keeps[OF assms(1) x, where cuid = "av_cuid env"]
  then obtain n where "x = Inr n" by blast
  then have "st' = st2" "uid = rk_userId r" using r(4) x by auto
  moreover obtain u where "find_user st (rk_userId r) = Some u" using r(3) by blast
  ultimately show thesis using r k by (intro that[of r u]) (auto simp: update_user_def live_of_user_def)
qed

text \<open>C21. A password reset works once and shuts everyone out: after it succeeded, the same link is refused
  without any change, no link of that user is left, every session of the user is revoked, so that no
  request is let in as that user, and the stored password is the hash of the new one.\<close>

theorem password_reset_is_final:
  assumes "av_redis env" "sessions_ok cuid st" "distinct (map rk_id (ax_resets st))"
    "consumePasswordResetToken env pw st raw new = (st', Inr uid)"
    "av_redis env2" "av_hmac env2 = av_hmac env"
  shows "consumePasswordResetToken env2 pw2 st' raw new2 = (st', Inl RESET_TOKEN_INVALID) \<and>
    (\<forall>r \<in> set (ax_resets st'). rk_userId r = uid \<longrightarrow> rk_usedAt r \<noteq> None) \<and>
    (\<forall>token st'' u c. canActivate env2 st' False token = (st'', Inr (Some (u, c))) \<longrightarrow> us_id u \<noteq> uid) \<and>
    (\<exists>u. find_user st' uid = Some u \<and> sf_passwordHash u = Some (pw_argon2_hash pw new))"
proof -
  obtain r u where r: "List.find (\<lambda>r. rk_tokenHash r = hashResetToken env (trim raw)) (ax_resets st) = Some r"
    "rk_userId r = uid" "trim raw \<noteq> []" "find_user st uid = Some u"
    and m: "ax_resets st' = map (use_reset env r) (ax_resets st)"
    "ax_users st' = map (\<lambda>u. if sf_id u = uid then u\<lparr>sf_passwordHash := Some (pw_argon2_hash pw new)\<rparr> else u) (ax_users st)"
    and dead: "\<forall>x \<in> set (ax_sessions st'). sx_userId x = uid \<longrightarrow> sx_revokedAt x \<noteq> None"
    by (rule consumeD[OF assms(1,4)])
  have rin: "r \<in> set (ax_resets st)" using find_Some_in[OF r(1)] by simp
  have h: "hashResetToken env2 t = hashResetToken env t" for t by (simp add: hashResetToken_def hashOpaqueToken_def assms(6))
  have "List.find (\<lambda>x. rk_tokenHash x = hashResetToken env2 (trim raw)) (ax_resets st') = Some (use_reset env r r)"
  proof -
    have "rk_tokenHash (use_reset env r x) = rk_tokenHash x" for x by (simp add: use_reset_def)
    then have "List.find (\<lambda>x. rk_tokenHash x = k) (map (use_reset env r) xs) =
        map_option (use_reset env r) (List.find (\<lambda>x. rk_tokenHash x = k) xs)" for k xs
      by (induction xs) simp_all
    then show ?thesis using r(1) by (simp add: m(1) h)
  qed
  then have "consumePasswordResetToken env2 pw2 st' raw new2 = (st', Inl RESET_TOKEN_INVALID)"
    using r(3) by (simp add: consumePasswordResetToken_def) (simp add: use_reset_def)
  moreover have "\<forall>x \<in> set (ax_resets st'). rk_userId x = uid \<longrightarrow> rk_usedAt x \<noteq> None"
    using r(2) by (auto simp: m(1) use_reset_def)
  moreover have "us_id v \<noteq> uid" if g: "canActivate env2 st' False token = (st'', Inr (Some (v, c)))" for token st'' v c
  proof -
    have "sessions_ok cuid st'" using consume_keeps[OF assms(1,4)] assms(2) by (simp add: keeps_def)
    from guard_cases[OF assms(5) this g] obtain x su where x: "x \<in> set (ax_sessions st')" "sx_revokedAt x = None"
      "find_user st' (sx_userId x) = Some su" "v = auth_user_of su" by blast
    have "us_id v = sx_userId x" using find_Some_in[OF x(3)[unfolded find_user_def]] x(4) by (simp add: auth_user_of_def)
    then show ?thesis using dead x(1,2) by auto
  qed
  moreover have "\<exists>u. find_user st' uid = Some u \<and> sf_passwordHash u = Some (pw_argon2_hash pw new)"
  proof -
    let ?g = "\<lambda>u. if sf_id u = uid then u\<lparr>sf_passwordHash := Some (pw_argon2_hash pw new)\<rparr> else u"
    have f: "List.find (\<lambda>u. sf_id u = uid) (map ?g us) = map_option ?g (List.find (\<lambda>u. sf_id u = uid) us)" for us
      by (induction us) simp_all
    have "find_user st' uid = Some (?g u)" using r(4) unfolding find_user_def m(2) f by simp
    moreover have "sf_id u = uid" using find_Some_in[OF r(4)[unfolded find_user_def]] by simp
    ultimately show ?thesis by simp
  qed
  ultimately show ?thesis by blast
qed

subsection \<open>The login lock\<close>

definition wrong_login :: "password_env \<Rightarrow> auth_store \<Rightarrow> string \<Rightarrow> string \<Rightarrow> bool" where
  "wrong_login pw st email password \<longleftrightarrow>
     (case find_email st (toLowerCase (trim email)) of
        None \<Rightarrow> True
      | Some u \<Rightarrow> nullish (sf_passwordHash u) [] = [] \<or> \<not> verifyPassword pw password (nullish (sf_passwordHash u) [])
          \<or> sf_status u \<noteq> ''ACTIVE'' \<or> \<not> list_ex isStaffRoleCode (role_codes u))"

definition failed_logins ::
  "password_env \<Rightarrow> string \<Rightarrow> (auth_env \<times> string) list \<Rightarrow> auth_store \<Rightarrow> auth_store" where
  "failed_logins pw email attempts st =
     foldl (\<lambda>st (env, password). fst (login env pw st email password None None)) st attempts"

lemma unlocked: "av_redis env \<Longrightarrow> ax_locks st (emailKey pw e) = None \<Longrightarrow> assertLoginAllowed env pw st e = Inr ()"
  by (simp add: assertLoginAllowed_def getLockUntil_def redis_ttl_def)

lemma wrong_login_fails:
  assumes "wrong_login pw st email p" "assertLoginAllowed env pw st (toLowerCase (trim email)) = Inr ()"
  shows "\<exists>i. login env pw st email p ip ua = login_fail env pw st (toLowerCase (trim email)) i"
  using assms by (auto simp: login_def wrong_login_def Let_def split: option.splits)

text \<open>One more failure, counted from the first of the window.\<close>

lemma count_failure:
  assumes "av_redis env" "av_now env < until" "n = 0 \<Longrightarrow> until = av_now env + LOGIN_LOCKOUT_SECONDS * 1000"
    "ax_failures st (emailKey pw e) = (if n = 0 then None else Some (n, until))"
  shows "\<exists>x. login_fail env pw st e i = (x, Inl INVALID_CREDENTIALS) \<and>
    (ax_users x = ax_users st \<and> ax_sessions x = ax_sessions st \<and> ax_seq x = ax_seq st) \<and>
    ax_failures x (emailKey pw e) = Some (Suc n, until) \<and>
    ax_locks x = (if LOGIN_MAX_FAILURES \<le> Suc n then (ax_locks st)(emailKey pw e \<mapsto> av_now env + LOGIN_LOCKOUT_SECONDS * 1000)
                  else ax_locks st)"
  using assms
  by (auto simp: login_fail_def recordLoginFailure_def incrementFailures_def setLock_def Let_def)

lemma wrong_same_users: "ax_users st' = ax_users st \<Longrightarrow> wrong_login pw st' email p = wrong_login pw st email p"
  by (simp add: wrong_login_def find_email_def)

lemma failures_counted:
  assumes "\<forall>(env, p) \<in> set attempts. av_redis env \<and> av_now env < until \<and> wrong_login pw st email p"
    "n = 0 \<Longrightarrow> until = av_now (fst (hd attempts)) + LOGIN_LOCKOUT_SECONDS * 1000"
    "ax_failures st (emailKey pw (toLowerCase (trim email))) = (if n = 0 then None else Some (n, until))"
    "ax_locks st (emailKey pw (toLowerCase (trim email))) = None" "n + length attempts = LOGIN_MAX_FAILURES"
    "attempts \<noteq> []"
  shows "\<exists>x. failed_logins pw email attempts st = x \<and>
    (ax_users x = ax_users st \<and> ax_sessions x = ax_sessions st \<and> ax_seq x = ax_seq st) \<and>
    ax_failures x (emailKey pw (toLowerCase (trim email))) = Some (LOGIN_MAX_FAILURES, until) \<and>
    ax_locks x (emailKey pw (toLowerCase (trim email))) = Some (av_now (fst (last attempts)) + LOGIN_LOCKOUT_SECONDS * 1000)"
  using assms
proof (induction attempts arbitrary: n st)
  case (Cons a as)
  let ?e = "toLowerCase (trim email)"
  obtain env p where a: "a = (env, p)" by (cases a)
  have c: "av_redis env" "av_now env < until" "wrong_login pw st email p" using Cons.prems(1) a by auto
  obtain i where i: "login env pw st email p None None = login_fail env pw st ?e i"
    using wrong_login_fails[OF c(3) unlocked[OF c(1) Cons.prems(4)]] by blast
  obtain x where y: "login_fail env pw st ?e i = (x, Inl INVALID_CREDENTIALS :: auth_error + session_record)"
    "ax_users x = ax_users st \<and> ax_sessions x = ax_sessions st \<and> ax_seq x = ax_seq st"
    "ax_failures x (emailKey pw ?e) = Some (Suc n, until)"
    "ax_locks x = (if LOGIN_MAX_FAILURES \<le> Suc n then (ax_locks st)(emailKey pw ?e \<mapsto> av_now env + LOGIN_LOCKOUT_SECONDS * 1000)
                  else ax_locks st)"
    using count_failure[OF c(1,2) _ Cons.prems(3), of i] Cons.prems(2) a by auto
  have "fst (login env pw st email p None None) = x" by (simp add: i y(1))
  note x = this y(2-4)
  have f: "failed_logins pw email (a # as) st = failed_logins pw email as x" by (simp add: failed_logins_def a x(1))
  show ?case
  proof (cases "as = []")
    case True
    then show ?thesis using x Cons.prems(5) a f by (simp add: failed_logins_def)
  next
    case False
    then have lt: "\<not> LOGIN_MAX_FAILURES \<le> Suc n" using Cons.prems(5) by (cases as) auto
    have "\<exists>y. failed_logins pw email as x = y \<and>
      (ax_users y = ax_users x \<and> ax_sessions y = ax_sessions x \<and> ax_seq y = ax_seq x) \<and>
      ax_failures y (emailKey pw ?e) = Some (LOGIN_MAX_FAILURES, until) \<and>
      ax_locks y (emailKey pw ?e) = Some (av_now (fst (last as)) + LOGIN_LOCKOUT_SECONDS * 1000)"
    proof (rule Cons.IH[where n = "Suc n"])
      show "\<forall>(env, p) \<in> set as. av_redis env \<and> av_now env < until \<and> wrong_login pw x email p"
        using Cons.prems(1) wrong_same_users[of x st] x(2) by auto
      show "ax_failures x (emailKey pw ?e) = (if Suc n = 0 then None else Some (Suc n, until))" using x(3) by simp
      show "ax_locks x (emailKey pw ?e) = None" using x(4) lt Cons.prems(4) by simp
      show "Suc n + length as = LOGIN_MAX_FAILURES" using Cons.prems(5) by simp
    qed (use False in simp_all)
    then show ?thesis using f x(2) False by simp
  qed
qed simp

text \<open>C22. Ten wrong logins in a row, all within fifteen minutes of the first, lock the address: until half a
  second before fifteen minutes after the last of them, every login for that address, also the one with
  the right password, is refused like a wrong one, and changes nothing.\<close>

theorem ten_failures_lock_the_login:
  assumes "length attempts = LOGIN_MAX_FAILURES"
    "\<forall>(env, p) \<in> set attempts. av_redis env \<and> wrong_login pw st email p \<and>
       av_now env < av_now (fst (hd attempts)) + LOGIN_LOCKOUT_SECONDS * 1000"
    "ax_failures st (emailKey pw (toLowerCase (trim email))) = None"
    "ax_locks st (emailKey pw (toLowerCase (trim email))) = None"
    "av_redis env" "av_now env + 500 \<le> av_now (fst (last attempts)) + LOGIN_LOCKOUT_SECONDS * 1000"
  shows "login env pw (failed_logins pw email attempts st) email password ip ua =
    (failed_logins pw email attempts st, Inl INVALID_CREDENTIALS)"
proof -
  let ?e = "toLowerCase (trim email)"
  let ?x = "failed_logins pw email attempts st"
  have "attempts \<noteq> []" using assms(1) by (auto simp: LOGIN_MAX_FAILURES_def)
  then have l: "ax_locks ?x (emailKey pw ?e) = Some (av_now (fst (last attempts)) + LOGIN_LOCKOUT_SECONDS * 1000)"
    using failures_counted[of attempts "av_now (fst (hd attempts)) + LOGIN_LOCKOUT_SECONDS * 1000" pw st email 0] assms by auto
  have t: "redis_ttl env (ax_locks ?x (emailKey pw ?e)) > 0"
    using assms(6) unfolding l redis_ttl_def by simp
  have "assertLoginAllowed env pw ?x ?e = Inl INVALID_CREDENTIALS"
    using t assms(5) by (simp add: assertLoginAllowed_def getLockUntil_def Let_def)
  then show ?thesis by (simp add: login_def Let_def)
qed

lemma createSession_Inr:
  assumes "av_redis env" "find_session st (hashSessionToken env (av_token env (ax_seq st))) = None"
  shows "\<exists>st' s. createSession env st userId ip ua = (st', Inr s) \<and> se_userId s = userId \<and> ax_failures st' = ax_failures st"
proof -
  define row where "row = \<lparr>sx_id = av_cuid env (ax_seq st), sx_tokenHash = hashSessionToken env (av_token env (ax_seq st)),
    sx_userId = userId, sx_expiresAt = av_now env + SESSION_TTL_SECONDS * 1000, sx_lastActiveAt = av_now env,
    sx_createdAt = av_now env, sx_revokedAt = None, sx_ipAddress = ip, sx_userAgent = ua\<rparr>"
  let ?s = "toRecord row (av_token env (ax_seq st))"
  let ?st1 = "st\<lparr>ax_seq := Suc (ax_seq st), ax_sessions := ax_sessions st @ [row]\<rparr>"
  obtain t where "writeCache env ?st1 ?s =
      (?st1\<lparr>ax_cache := (ax_cache ?st1)(hashSessionToken env (se_rawToken ?s) \<mapsto> (cached_of ?s, t))\<rparr>, Inr ())"
    using writeCache_up[OF assms(1)] by blast
  moreover have "createSession env st userId ip ua = and_then (writeCache env ?st1 ?s) (\<lambda>st2 _. (st2, Inr ?s))"
    using assms(2) by (simp add: createSession_def Let_def row_def)
  moreover have "se_userId ?s = userId" by (simp add: toRecord_def row_def)
  ultimately show ?thesis by simp
qed

text \<open>C23. The lock ends: fifteen minutes after the last of the ten failures the right password of an active
  member of staff logs in again, with a new session for that user, and the failures are forgotten.\<close>

theorem login_lock_ends:
  assumes "length attempts = LOGIN_MAX_FAILURES"
    "\<forall>(env, p) \<in> set attempts. av_redis env \<and> wrong_login pw st email p \<and>
       av_now env < av_now (fst (hd attempts)) + LOGIN_LOCKOUT_SECONDS * 1000"
    "ax_failures st (emailKey pw (toLowerCase (trim email))) = None"
    "ax_locks st (emailKey pw (toLowerCase (trim email))) = None"
    "av_redis env" "av_now (fst (last attempts)) + LOGIN_LOCKOUT_SECONDS * 1000 \<le> av_now env"
    "find_email st (toLowerCase (trim email)) = Some u" "\<not> wrong_login pw st email password"
    "find_session st (hashSessionToken env (av_token env (ax_seq st))) = None"
  shows "\<exists>st' s. login env pw (failed_logins pw email attempts st) email password ip ua = (st', Inr s) \<and>
    se_userId s = sf_id u \<and> ax_failures st' (emailKey pw (toLowerCase (trim email))) = None"
proof -
  let ?e = "toLowerCase (trim email)"
  let ?x = "failed_logins pw email attempts st"
  have "attempts \<noteq> []" using assms(1) by (auto simp: LOGIN_MAX_FAILURES_def)
  then have l: "ax_locks ?x (emailKey pw ?e) = Some (av_now (fst (last attempts)) + LOGIN_LOCKOUT_SECONDS * 1000)"
    "ax_users ?x = ax_users st" "ax_sessions ?x = ax_sessions st" "ax_seq ?x = ax_seq st"
    using failures_counted[of attempts "av_now (fst (hd attempts)) + LOGIN_LOCKOUT_SECONDS * 1000" pw st email 0] assms by auto
  have "redis_ttl env (ax_locks ?x (emailKey pw ?e)) = - 2"
    using assms(6) unfolding l(1) redis_ttl_def by simp
  then have a: "assertLoginAllowed env pw ?x ?e = Inr ()"
    using assms(5) by (simp add: assertLoginAllowed_def getLockUntil_def Let_def)
  have u: "find_email ?x ?e = Some u" using assms(7) l(2) by (simp add: find_email_def)
  have r: "nullish (sf_passwordHash u) [] \<noteq> []" "verifyPassword pw password (nullish (sf_passwordHash u) [])"
    "sf_status u = ''ACTIVE''" "list_ex isStaffRoleCode (role_codes u)"
    using assms(7,8) by (auto simp: wrong_login_def)
  define x0 where "x0 = ?x\<lparr>ax_failures := (ax_failures ?x)(emailKey pw ?e := None), ax_locks := (ax_locks ?x)(emailKey pw ?e := None)\<rparr>"
  define x1 where "x1 = (if shouldUpgradePasswordHash (nullish (sf_passwordHash u) [])
      then update_user (sf_id u) (\<lambda>u. u\<lparr>sf_passwordHash := Some (pw_argon2_hash pw password)\<rparr>) x0 else x0)"
  have "find_session x1 (hashSessionToken env (av_token env (ax_seq x1))) = None"
    using assms(9) l(3,4) by (simp add: find_session_def x1_def x0_def)
  then obtain x2 s where c: "createSession env x1 (sf_id u) ip ua = (x2, Inr s)" "se_userId s = sf_id u"
    "ax_failures x2 = ax_failures x1"
    using createSession_Inr[OF assms(5)] by blast
  have "log_in env pw ?x u ?e password ip ua =
      (auth_audit ''auth.login'' ''User'' (Some (sf_id u)) (Some (sf_id u))
         (update_user (sf_id u) (\<lambda>u. u\<lparr>sf_lastLoginAt := Some (av_now env)\<rparr>) x2), Inr s)"
    unfolding log_in_def clearLoginFailures_def using assms(5)
    by (simp add: x0_def[symmetric] x1_def[symmetric] Let_def c(1))
  moreover have "login env pw ?x email password ip ua = log_in env pw ?x u ?e password ip ua"
    using r by (simp add: login_def a u Let_def)
  moreover have "ax_failures x2 (emailKey pw ?e) = None" by (simp add: c(3) x1_def x0_def)
  ultimately show ?thesis using c(2) by simp
qed

subsection \<open>At a sample\<close>

lemma guard_accepts:
  assumes "av_redis env" "sessions_ok cuid st" "r \<in> set (ax_sessions st)" "sx_revokedAt r = None"
    "sx_tokenHash r = hashSessionToken env (nullish token [])" "trim (nullish token []) \<noteq> []"
    "ax_cache st (sx_tokenHash r) = None"
    "\<not> session_expired env (sx_expiresAt r) (sx_lastActiveAt r) (sx_createdAt r)"
    "SESSION_REFRESH_THRESHOLD_SECONDS * 1000 \<le> sx_expiresAt r - av_now env"
    "find_user st (sx_userId r) = Some u" "sf_status u = ''ACTIVE''" "list_ex isStaffRoleCode (role_codes u)"
  shows "\<exists>st'. canActivate env st False token = (st', Inr (Some (auth_user_of u, None)))"
proof -
  let ?h = "hashSessionToken env (nullish token [])"
  let ?s = "toRecord r (trim (nullish token []))"
  obtain x where "find_session st ?h = Some x"
    using assms(3,5) by (cases "find_session st ?h") (auto simp: find_session_def find_None_iff)
  moreover from this have "x = r" using find_session_in unique_hash[OF assms(2) _ assms(3)] assms(5) by metis
  ultimately have f: "find_session st ?h = Some r" by simp
  have g: "cache_get env st ?h = (st, Inr None)" using assms(1,5,7) by (simp add: cache_get_def)
  obtain t where w: "writeCache env st ?s = (st\<lparr>ax_cache := (ax_cache st)(?h \<mapsto> (cached_of ?s, t))\<rparr>, Inr ())"
    using writeCache_up[OF assms(1), of st ?s] by auto
  let ?st1 = "st\<lparr>ax_cache := (ax_cache st)(?h \<mapsto> (cached_of ?s, t))\<rparr>"
  have v: "findValidSession env st token = (?st1, Inr (Some ?s))"
    using assms(4,6,8) by (simp add: findValidSession_def Let_def g f w)
  have s: "same_session env ?s r" using assms(4,5) by (simp add: same_session_def toRecord_def)
  obtain st2 where t2: "touchSession env ?st1 ?s = (st2, Inr ())"
    using touch_keeps[OF assms(1) _ s, of ?st1] assms(3) by (cases "touchSession env ?st1 ?s") auto
  obtain r2 where r2: "r2 \<in> set (ax_sessions st2)" "same_session env ?s r2" "ax_users st2 = ax_users st"
    using touch_keeps[OF assms(1) _ s t2] assms(3) by auto
  obtain st3 where t3: "touchSession env st2 ?s = (st3, Inr ())" "ax_users st3 = ax_users st"
    using touch_keeps[OF assms(1) r2(1,2)] r2(3) by (cases "touchSession env st2 ?s") fastforce
  have "refreshSessionIfNeeded env ?st1 ?s = (st2, Inr None)"
    using assms(9) by (simp add: refreshSessionIfNeeded_def t2) (simp add: toRecord_def)
  moreover have "find_user st3 (se_userId ?s) = Some u"
    using assms(10) t3(2) by (simp add: find_user_def toRecord_def)
  ultimately show ?thesis using assms(11,12) t3(1) by (simp add: canActivate_def v)
qed

definition desk_auth :: auth_env where
  "desk_auth = \<lparr>av_cuid = unary, av_token = (\<lambda>n. CHR ''t'' # unary n), av_hmac = (\<lambda>s. s), av_now = 1000,
     av_redis = True, av_js = plain_js, av_process = (\<lambda>_. None)\<rparr>"

definition plain_passwords :: password_env where
  "plain_passwords = \<lparr>pw_argon2_hash = (\<lambda>p. ''$argon2'' @ p), pw_argon2_verify = (\<lambda>h p. Some (h = ''$argon2'' @ p)),
     pw_bcrypt_compare = (\<lambda>_ _. False), pw_scrypt_hex = (\<lambda>_ _. []), pw_sha32 = (\<lambda>s. s)\<rparr>"

definition meera :: staff_user where
  "meera = \<lparr>sf_id = ''u1'', sf_email = ''meera@x.in'', sf_name = ''Meera'', sf_phone = None, sf_status = ''ACTIVE'',
     sf_passwordHash = Some ''$argon2right'', sf_roles = [(''CLERK'', [''payment:read''])], sf_lastLoginAt = None\<rparr>"

definition session_at :: "string \<Rightarrow> string \<Rightarrow> int option \<Rightarrow> session_row" where
  "session_at i h gone = \<lparr>sx_id = i, sx_tokenHash = h, sx_userId = ''u1'', sx_expiresAt = 604800000, sx_lastActiveAt = 0,
     sx_createdAt = 0, sx_revokedAt = gone, sx_ipAddress = None, sx_userAgent = None\<rparr>"

definition two_sessions :: auth_store where
  "two_sessions = \<lparr>ax_seq = 2, ax_sessions = [session_at (unary 0) ''session:a'' (Some 500), session_at (unary 1) ''session:b'' None],
     ax_cache = Map.empty, ax_resets = [\<lparr>rk_id = unary 5, rk_userId = ''u1'', rk_tokenHash = ''password-reset:link'',
       rk_expiresAt = 9000, rk_usedAt = None, rk_failedAttempts = 0\<rparr>],
     ax_users = [meera], ax_failures = Map.empty, ax_locks = Map.empty, ax_audit = []\<rparr>"

lemma two_sessions_ok: "sessions_ok unary two_sessions"
proof (rule sessions_okI)
  show "\<exists>i < ax_seq two_sessions. sx_id r = unary i" if "r \<in> set (ax_sessions two_sessions)" for r
    using that by (auto simp: two_sessions_def session_at_def intro: exI[of _ "0::nat"] exI[of _ "Suc 0"])
qed (simp_all add: two_sessions_def session_at_def inj_unary unary_def)

lemma desk_timeouts: "sessionIdleTimeoutSeconds desk_auth = 1800" "sessionAbsoluteTimeoutSeconds desk_auth = 604800"
  by (simp_all add: sessionIdleTimeoutSeconds_def sessionAbsoluteTimeoutSeconds_def seconds_setting_def desk_auth_def
      SESSION_TTL_SECONDS_def)

lemma desk_live: "\<not> session_expired desk_auth 604800000 0 0"
proof -
  have "fl (1800 * 1000) = 1800000" "fl 1800000 = 1800000" "fl (604800 * 1000) = 604800000" "fl 604800000 = 604800000"
    using fl_of_int[of 1800000] fl_of_int[of 604800000] by simp_all
  then show ?thesis
    by (simp add: session_expired_def isIdleExpired_def isAbsoluteExpired_def desk_timeouts) (simp add: desk_auth_def)
qed

lemma revoked_session_is_dead_witness:
  "\<exists>st1. deleteSessionByToken desk_auth two_sessions (Some ''b'') = (st1, Inr ()) \<and>
     (\<exists>st'. canActivate desk_auth two_sessions False (Some ''b'') = (st', Inr (Some (auth_user_of meera, None)))) \<and>
     (\<nexists>st' u c. canActivate desk_auth st1 False (Some ''b'') = (st', Inr (Some (u, c))))"
proof -
  let ?r = "session_at (unary 1) ''session:b'' None"
  have h: "trim ''b'' = ''b''" by code_simp
  have e: "av_redis desk_auth" "hashSessionToken desk_auth ''b'' = ''session:b''" "av_now desk_auth = 1000"
    by (simp_all add: desk_auth_def hashSessionToken_def hashOpaqueToken_def h)
  have m: "find_user two_sessions ''u1'' = Some meera" "sf_status meera = ''ACTIVE''" "list_ex isStaffRoleCode (role_codes meera)"
    by (simp_all add: find_user_def two_sessions_def meera_def role_codes_def isStaffRoleCode_def STAFF_ROLE_CODES_def)
  have s: "?r \<in> set (ax_sessions two_sessions)" "ax_cache two_sessions (sx_tokenHash ?r) = None" by (simp_all add: two_sessions_def)
  have r: "sx_revokedAt (session_at i h g) = g" "sx_tokenHash (session_at i h g) = h" "sx_userId (session_at i h g) = ''u1''"
    "sx_expiresAt (session_at i h g) = 604800000" "sx_lastActiveAt (session_at i h g) = 0"
    "sx_createdAt (session_at i h g) = 0" for i h g by (simp_all add: session_at_def)
  have g: "\<exists>st'. canActivate desk_auth two_sessions False (Some ''b'') = (st', Inr (Some (auth_user_of meera, None)))"
    by (rule guard_accepts[OF e(1) two_sessions_ok s(1)])
      (simp_all add: r e h s(2)[unfolded r] desk_live m SESSION_REFRESH_THRESHOLD_SECONDS_def)
  obtain st1 where d: "deleteSessionByToken desk_auth two_sessions (Some ''b'') = (st1, Inr ())"
    by (simp add: deleteSessionByToken_def Let_def h deleteCache_up[OF e(1)])
  have ends: "ends_session desk_auth two_sessions ?r st1"
    unfolding ends_session_def by (rule disjI1, rule exI[of _ "''b''"]) (simp add: d e h r)
  have "hashSessionToken desk_auth (nullish (Some ''b'') []) = sx_tokenHash ?r" by (simp add: e r)
  then show ?thesis
    using revoked_session_is_dead[OF two_sessions_ok s(1) e(1) ends rtranclp.rtrancl_refl e(1), of "Some ''b''"] g d by blast
qed

lemma desk_resets:
  "\<exists>st'. consumePasswordResetToken desk_auth plain_passwords two_sessions ''link'' ''a new password'' = (st', Inr ''u1'')"
proof -
  have h: "trim ''link'' = ''link''" by code_simp
  define r where "r = \<lparr>rk_id = unary 5, rk_userId = ''u1'', rk_tokenHash = ''password-reset:link'',
       rk_expiresAt = 9000, rk_usedAt = None, rk_failedAttempts = 0\<rparr>"
  have f: "List.find (\<lambda>r. rk_tokenHash r = hashResetToken desk_auth (trim ''link'')) (ax_resets two_sessions) = Some r"
    by (simp add: h hashResetToken_def hashOpaqueToken_def desk_auth_def two_sessions_def r_def)
  have r: "rk_usedAt r = None" "rk_expiresAt r = 9000" "rk_userId r = ''u1''" "rk_failedAttempts r = 0" by (simp_all add: r_def)
  have u: "find_user two_sessions ''u1'' = Some meera" by (simp add: find_user_def two_sessions_def meera_def)
  let ?st1 = "(update_user ''u1'' (\<lambda>u. u\<lparr>sf_passwordHash := Some (pw_argon2_hash plain_passwords ''a new password'')\<rparr>) two_sessions)
      \<lparr>ax_resets := map (use_reset desk_auth r) (ax_resets two_sessions)\<rparr>"
  obtain st2 n where x: "revokeAllUserSessions desk_auth ?st1 ''u1'' None = (st2, Inr n)"
    using revokeAll_keeps[of desk_auth ?st1 "''u1''" None, where cuid = unary]
    by (cases "revokeAllUserSessions desk_auth ?st1 ''u1'' None") (auto simp: desk_auth_def)
  have "av_now desk_auth = 1000" by (simp add: desk_auth_def)
  then have "consumePasswordResetToken desk_auth plain_passwords two_sessions ''link'' ''a new password'' = (st2, Inr ''u1'')"
    unfolding consumePasswordResetToken_def f option.case by (simp add: h r u x PASSWORD_RESET_MAX_ATTEMPTS_def)
  then show ?thesis by blast
qed

lemma password_reset_is_final_witness:
  "\<exists>st'. consumePasswordResetToken desk_auth plain_passwords two_sessions ''link'' ''a new password'' = (st', Inr ''u1'') \<and>
     consumePasswordResetToken (desk_auth\<lparr>av_now := 1001\<rparr>) plain_passwords st' ''link'' ''another password'' =
       (st', Inl RESET_TOKEN_INVALID) \<and>
     (\<exists>u. find_user st' ''u1'' = Some u \<and> sf_passwordHash u = Some ''$argon2a new password'')"
proof -
  obtain st' where c: "consumePasswordResetToken desk_auth plain_passwords two_sessions ''link'' ''a new password'' = (st', Inr ''u1'')"
    using desk_resets by blast
  have a: "av_redis desk_auth" "av_redis (desk_auth\<lparr>av_now := 1001\<rparr>)" "av_hmac (desk_auth\<lparr>av_now := 1001\<rparr>) = av_hmac desk_auth"
    by (simp_all add: desk_auth_def)
  have d: "distinct (map rk_id (ax_resets two_sessions))" by (simp add: two_sessions_def)
  have p: "pw_argon2_hash plain_passwords ''a new password'' = ''$argon2a new password''" by (simp add: plain_passwords_def)
  show ?thesis
    using password_reset_is_final[OF a(1) two_sessions_ok d c a(2,3), of plain_passwords "''another password''"] c p by auto
qed

definition ten_wrong :: "(auth_env \<times> string) list" where
  "ten_wrong = replicate 10 (desk_auth, ''wrong'')"

lemma meera_logins:
  "wrong_login plain_passwords two_sessions ''Meera@x.in'' ''wrong''"
  "\<not> wrong_login plain_passwords two_sessions ''Meera@x.in'' ''right''"
  "find_email two_sessions (toLowerCase (trim ''Meera@x.in'')) = Some meera"
proof -
  have t: "toLowerCase (trim ''Meera@x.in'') = ''meera@x.in''" by code_simp
  show f: "find_email two_sessions (toLowerCase (trim ''Meera@x.in'')) = Some meera"
    by (simp add: t find_email_def two_sessions_def meera_def)
  have a: "isArgon2Hash ''$argon2right''" by code_simp
  have "verifyPassword plain_passwords ''right'' ''$argon2right''" "\<not> verifyPassword plain_passwords ''wrong'' ''$argon2right''"
    by (simp_all add: verifyPassword_def a plain_passwords_def)
  then show "wrong_login plain_passwords two_sessions ''Meera@x.in'' ''wrong''"
    "\<not> wrong_login plain_passwords two_sessions ''Meera@x.in'' ''right''"
    unfolding wrong_login_def f by (simp_all add: meera_def role_codes_def isStaffRoleCode_def STAFF_ROLE_CODES_def)
qed

lemma ten_wrong_facts:
  "length ten_wrong = LOGIN_MAX_FAILURES"
  "\<forall>(env, p) \<in> set ten_wrong. av_redis env \<and> wrong_login plain_passwords two_sessions ''Meera@x.in'' p \<and>
     av_now env < av_now (fst (hd ten_wrong)) + LOGIN_LOCKOUT_SECONDS * 1000"
  "av_now (fst (last ten_wrong)) = 1000" "ax_failures two_sessions k = None" "ax_locks two_sessions k = None"
  using meera_logins(1)
  by (simp_all add: ten_wrong_def LOGIN_MAX_FAILURES_def LOGIN_LOCKOUT_SECONDS_def two_sessions_def desk_auth_def)

lemma ten_failures_lock_the_login_witness:
  "login (desk_auth\<lparr>av_now := 60000\<rparr>) plain_passwords (failed_logins plain_passwords ''Meera@x.in'' ten_wrong two_sessions)
     ''Meera@x.in'' ''right'' None None =
   (failed_logins plain_passwords ''Meera@x.in'' ten_wrong two_sessions, Inl INVALID_CREDENTIALS)"
  by (rule ten_failures_lock_the_login[OF ten_wrong_facts(1,2,4,5)])
    (simp_all add: ten_wrong_facts(3) LOGIN_LOCKOUT_SECONDS_def, simp add: desk_auth_def)

lemma login_lock_ends_witness:
  "\<exists>st' s. login (desk_auth\<lparr>av_now := 901000\<rparr>) plain_passwords
       (failed_logins plain_passwords ''Meera@x.in'' ten_wrong two_sessions) ''Meera@x.in'' ''right'' None None = (st', Inr s) \<and>
     se_userId s = ''u1''"
proof -
  have "av_redis (desk_auth\<lparr>av_now := 901000\<rparr>)" by (simp add: desk_auth_def)
  moreover have "av_now (fst (last ten_wrong)) + LOGIN_LOCKOUT_SECONDS * 1000 \<le> av_now (desk_auth\<lparr>av_now := 901000\<rparr>)"
    by (simp add: ten_wrong_facts(3) LOGIN_LOCKOUT_SECONDS_def)
  moreover have "find_session two_sessions (hashSessionToken (desk_auth\<lparr>av_now := 901000\<rparr>)
      (av_token (desk_auth\<lparr>av_now := 901000\<rparr>) (ax_seq two_sessions))) = None"
    by (simp add: find_session_def two_sessions_def session_at_def hashSessionToken_def hashOpaqueToken_def desk_auth_def unary_def) code_simp
  moreover have "sf_id meera = ''u1''" by (simp add: meera_def)
  ultimately show ?thesis
    using login_lock_ends[OF ten_wrong_facts(1,2,4,5) _ _ meera_logins(3,2)] by fastforce
qed

end
