(* ===== verification/TaxConfigs.thy ===== *)
theory TaxConfigs
  imports YearEnd
begin

text \<open>
  The rates of a ward (\<open>apps/api/src/tax-configs/tax-configs.service.ts\<close>): a configuration per ward and
  assessment year with six percentages, one rate cell per rate zone and construction type, and a table
  of version snapshots. \<open>rate_book\<close> holds these tables next to the ledger; the ledger's published
  configurations are a view of them (\<open>book_view\<close>), so that publishing rates runs the ward-wide
  publication of demands on what has just been written. Nothing here runs in a transaction: an error
  leaves what was written before it.
\<close>

subsection \<open>Tables\<close>

record rate_params =
  rp_propertyTaxPct :: js_number
  rp_waterTaxPct :: js_number
  rp_drainageTaxPct :: js_number
  rp_penaltyPct :: js_number
  rp_assessablePct :: js_number
  rp_commercialAssessablePct :: js_number

record config_row =
  cg_id :: string
  cg_wardId :: string
  cg_yearId :: string
  cg_status :: config_status
  cg_version :: int
  cg_effectiveFrom :: "int option"
  cg_params :: rate_params
  cg_publishedAt :: "int option"
  cg_publishedById :: "string option"
  cg_changeReason :: "string option"
  cg_updatedAt :: int

record cell_row =
  cl_configId :: string
  cl_roadWidthEntryId :: string
  cl_constructionEntryId :: string
  cl_annualRatePerSqFt :: js_number

text \<open>The rates as a request or a snapshot has them.\<close>

record rate_patch =
  rq_propertyTaxPct :: "js_number option"
  rq_waterTaxPct :: "js_number option"
  rq_drainageTaxPct :: "js_number option"
  rq_penaltyPct :: "js_number option"
  rq_assessablePct :: "js_number option"
  rq_commercialAssessablePct :: "js_number option"

record cell_input =
  ci_roadWidthEntryId :: string
  ci_constructionEntryId :: string
  ci_annualRatePerSqFt :: js_number

record rate_snapshot =
  rs_params :: rate_params
  rs_cells :: "cell_input list"

record version_row =
  vn_configId :: string
  vn_version :: int
  vn_snapshot :: rate_snapshot
  vn_reason :: "string option"
  vn_createdById :: "string option"
  vn_createdAt :: int

record rate_book =
  rb_configs :: "config_row list"
  rb_cells :: "cell_row list"
  rb_versions :: "version_row list"
  rb_ledger :: ledger

text \<open>The environment: fresh ids, the columns of money, percentages and rates, the clock, \<open>new Date\<close> of a
  text, and \<open>localeCompare\<close>.\<close>

record rate_env =
  rv_cuid :: "nat \<Rightarrow> string"
  rv_col :: "js_number \<Rightarrow> js_number option"
  rv_pct :: "js_number \<Rightarrow> js_number option"
  rv_rate :: "js_number \<Rightarrow> js_number option"
  rv_now :: int
  rv_date :: "string \<Rightarrow> int option"
  rv_localeCompare :: "string \<Rightarrow> string \<Rightarrow> int"

datatype config_error =
    Ward_missing | Year_missing | Config_missing | Config_archived | Config_immutable | Config_unpublished
  | Config_database_error | Demands_failed demand_error

type_synonym 'a rated = "rate_book \<times> (config_error + 'a)"

subsection \<open>Reading\<close>

definition find_config :: "rate_book \<Rightarrow> string \<Rightarrow> string \<Rightarrow> config_row option" where
  "find_config b wardId yearId = List.find (\<lambda>g. cg_wardId g = wardId \<and> cg_yearId g = yearId) (rb_configs b)"

definition config_by_id :: "rate_book \<Rightarrow> string \<Rightarrow> config_row option" where
  "config_by_id b i = List.find (\<lambda>g. cg_id g = i) (rb_configs b)"

definition cells_of :: "rate_book \<Rightarrow> string \<Rightarrow> cell_row list" where
  "cells_of b i = filter (\<lambda>c. cl_configId c = i) (rb_cells b)"

definition entry_text :: "(entry \<Rightarrow> string) \<Rightarrow> ledger \<Rightarrow> string \<Rightarrow> string" where
  "entry_text f db i = (case map_of (lg_entries db) i of None \<Rightarrow> [] | Some e \<Rightarrow> f e)"

definition ledger_config_of :: "rate_book \<Rightarrow> config_row \<Rightarrow> ledger_config" where
  "ledger_config_of b g =
     (let p = cg_params g; db = rb_ledger b in
      \<lparr>cf_assessablePct = Finite (rp_assessablePct p),
       cf_commercialAssessablePct = Finite (rp_commercialAssessablePct p),
       cf_propertyTaxPct = Finite (rp_propertyTaxPct p), cf_waterTaxPct = Finite (rp_waterTaxPct p),
       cf_drainageTaxPct = Finite (rp_drainageTaxPct p), cf_penaltyPct = Finite (rp_penaltyPct p),
       cf_cells = map (\<lambda>c. \<lparr>rc_roadWidthCode = entry_text en_code db (cl_roadWidthEntryId c),
                            rc_constructionCode = entry_text en_code db (cl_constructionEntryId c),
                            rc_annualRatePerSqFt = Finite (cl_annualRatePerSqFt c)\<rparr>) (cells_of b (cg_id g)),
       dc_id = cg_id g, dc_version = cg_version g, dc_yearId = cg_yearId g,
       dc_yearCode = entry_text en_code db (cg_yearId g), dc_yearName = entry_text en_name db (cg_yearId g),
       dc_updatedAt = cg_updatedAt g, lc_wardId = cg_wardId g, lc_status = cg_status g\<rparr>)"

definition book_view :: "rate_book \<Rightarrow> ledger" where
  "book_view b = (rb_ledger b)\<lparr>lg_configs := map (ledger_config_of b) (rb_configs b)\<rparr>"

definition getPublishedForWard :: "rate_book \<Rightarrow> string \<Rightarrow> string \<Rightarrow> config_error + config_row" where
  "getPublishedForWard b wardId yearId =
     (case find_config b wardId yearId of
        None \<Rightarrow> Inl Config_unpublished
      | Some g \<Rightarrow> if cg_status g \<noteq> C_PUBLISHED then Inl Config_unpublished else Inr g)"

definition listVersions :: "rate_book \<Rightarrow> string \<Rightarrow> version_row list" where
  "listVersions b i = sort_by (\<lambda>v w. vn_version w - vn_version v) (filter (\<lambda>v. vn_configId v = i) (rb_versions b))"

subsection \<open>Writing\<close>

definition rate_audit :: "string \<Rightarrow> string \<Rightarrow> string option \<Rightarrow> rate_book \<Rightarrow> rate_book" where
  "rate_audit action i actorId b =
     b\<lparr>rb_ledger := log_audit action ''TaxConfig'' (Some i) actorId (rb_ledger b)\<rparr>"

text \<open>\<open>taxConfig.update\<close>: the row must exist, and the write sets \<open>updatedAt\<close>.\<close>

definition update_config :: "rate_env \<Rightarrow> rate_book \<Rightarrow> string \<Rightarrow> (config_row \<Rightarrow> config_row) \<Rightarrow> config_row rated" where
  "update_config env b i f =
     (case config_by_id b i of
        None \<Rightarrow> (b, Inl Config_database_error)
      | Some g \<Rightarrow>
         (let g' = (f g)\<lparr>cg_updatedAt := rv_now env\<rparr>
          in (b\<lparr>rb_configs := map (\<lambda>x. if cg_id x = i then g' else x) (rb_configs b)\<rparr>, Inr g')))"

definition same_cell :: "string \<Rightarrow> string \<Rightarrow> string \<Rightarrow> cell_row \<Rightarrow> bool" where
  "same_cell i road construction c \<longleftrightarrow>
     cl_configId c = i \<and> cl_roadWidthEntryId c = road \<and> cl_constructionEntryId c = construction"

definition entry_exists :: "rate_book \<Rightarrow> string \<Rightarrow> bool" where
  "entry_exists b i \<longleftrightarrow> map_of (lg_entries (rb_ledger b)) i \<noteq> None"

definition upsert_cell ::
  "rate_book \<Rightarrow> string \<Rightarrow> string \<Rightarrow> string \<Rightarrow> js_number \<Rightarrow> (cell_row \<Rightarrow> cell_row) \<Rightarrow> unit rated" where
  "upsert_cell b i road construction new_rate f =
     (if list_ex (same_cell i road construction) (rb_cells b)
      then (b\<lparr>rb_cells := map (\<lambda>c. if same_cell i road construction c then f c else c) (rb_cells b)\<rparr>, Inr ())
      else if \<not> entry_exists b road \<or> \<not> entry_exists b construction then (b, Inl Config_database_error)
      else (b\<lparr>rb_cells := rb_cells b @ [\<lparr>cl_configId = i, cl_roadWidthEntryId = road,
                cl_constructionEntryId = construction, cl_annualRatePerSqFt = new_rate\<rparr>]\<rparr>, Inr ()))"

fun writeCells :: "rate_env \<Rightarrow> rate_book \<Rightarrow> string \<Rightarrow> cell_input list \<Rightarrow> unit rated" where
  "writeCells env b i [] = (b, Inr ())"
| "writeCells env b i (c # cs) =
     (case rv_rate env (ci_annualRatePerSqFt c) of
        None \<Rightarrow> (b, Inl Config_database_error)
      | Some rate \<Rightarrow>
         and_then (upsert_cell b i (ci_roadWidthEntryId c) (ci_constructionEntryId c) rate
                     (cl_annualRatePerSqFt_update (\<lambda>_. rate)))
           (\<lambda>b _. writeCells env b i cs))"

text \<open>An undefined field of an update leaves its column as it is.\<close>

definition col_or :: "rate_env \<Rightarrow> js_number \<Rightarrow> js_number option \<Rightarrow> js_number option" where
  "col_or env old v = (case v of None \<Rightarrow> Some old | Some x \<Rightarrow> rv_pct env x)"

definition stored_params :: "rate_env \<Rightarrow> rate_params \<Rightarrow> rate_patch \<Rightarrow> rate_params option" where
  "stored_params env p q =
     (case those [col_or env (rp_propertyTaxPct p) (rq_propertyTaxPct q),
                  col_or env (rp_waterTaxPct p) (rq_waterTaxPct q),
                  col_or env (rp_drainageTaxPct p) (rq_drainageTaxPct q),
                  col_or env (rp_penaltyPct p) (rq_penaltyPct q),
                  col_or env (rp_assessablePct p) (rq_assessablePct q),
                  col_or env (rp_commercialAssessablePct p) (rq_commercialAssessablePct q)] of
        Some [a, w, d, n, s, c] \<Rightarrow>
          Some \<lparr>rp_propertyTaxPct = a, rp_waterTaxPct = w, rp_drainageTaxPct = d, rp_penaltyPct = n,
                rp_assessablePct = s, rp_commercialAssessablePct = c\<rparr>
      | _ \<Rightarrow> None)"

definition whole_patch :: "rate_params \<Rightarrow> rate_patch" where
  "whole_patch p =
     \<lparr>rq_propertyTaxPct = Some (rp_propertyTaxPct p), rq_waterTaxPct = Some (rp_waterTaxPct p),
      rq_drainageTaxPct = Some (rp_drainageTaxPct p), rq_penaltyPct = Some (rp_penaltyPct p),
      rq_assessablePct = Some (rp_assessablePct p),
      rq_commercialAssessablePct = Some (rp_commercialAssessablePct p)\<rparr>"

definition patch_params :: "rate_env \<Rightarrow> rate_book \<Rightarrow> string \<Rightarrow> rate_patch \<Rightarrow> config_row rated" where
  "patch_params env b i q =
     (case config_by_id b i of
        None \<Rightarrow> (b, Inl Config_database_error)
      | Some g \<Rightarrow>
         (case stored_params env (cg_params g) q of
            None \<Rightarrow> (b, Inl Config_database_error)
          | Some p \<Rightarrow> update_config env b i (cg_params_update (\<lambda>_. p))))"

definition writeParams :: "rate_env \<Rightarrow> rate_book \<Rightarrow> string \<Rightarrow> rate_params \<Rightarrow> config_row rated" where
  "writeParams env b i params = patch_params env b i (whole_patch params)"

definition add_version :: "rate_env \<Rightarrow> string \<Rightarrow> int \<Rightarrow> rate_snapshot \<Rightarrow> string option \<Rightarrow> string option \<Rightarrow> rate_book \<Rightarrow> rate_book" where
  "add_version env i version snapshot reason actorId b =
     b\<lparr>rb_versions := rb_versions b @ [\<lparr>vn_configId = i, vn_version = version, vn_snapshot = snapshot,
         vn_reason = reason, vn_createdById = actorId, vn_createdAt = rv_now env\<rparr>]\<rparr>"

subsection \<open>A configuration and its matrix\<close>

definition matrix_entries :: "rate_book \<Rightarrow> string \<Rightarrow> string list" where
  "matrix_entries b category =
     map fst (sort_by (\<lambda>x y. en_sortOrder (snd x) - en_sortOrder (snd y))
       (filter (\<lambda>(_, e). en_category e = category \<and> en_active e) (lg_entries (rb_ledger b))))"

fun ensure_cells :: "rate_book \<Rightarrow> string \<Rightarrow> (string \<times> string) list \<Rightarrow> unit rated" where
  "ensure_cells b i [] = (b, Inr ())"
| "ensure_cells b i ((road, construction) # ps) =
     and_then (upsert_cell b i road construction 0 (\<lambda>c. c)) (\<lambda>b _. ensure_cells b i ps)"

definition ensureMatrixCells :: "rate_book \<Rightarrow> string \<Rightarrow> unit rated" where
  "ensureMatrixCells b i =
     ensure_cells b i (List.product (matrix_entries b ''TAX_RATE_ZONE'') (matrix_entries b ''CONSTRUCTION_TYPE''))"

definition default_params :: rate_params where
  "default_params =
     \<lparr>rp_propertyTaxPct = 10, rp_waterTaxPct = 15 / 2, rp_drainageTaxPct = 5 / 2, rp_penaltyPct = 0,
      rp_assessablePct = 80, rp_commercialAssessablePct = 80\<rparr>"

definition new_config :: "rate_env \<Rightarrow> string \<Rightarrow> string \<Rightarrow> string \<Rightarrow> config_row" where
  "new_config env i wardId yearId =
     \<lparr>cg_id = i, cg_wardId = wardId, cg_yearId = yearId, cg_status = C_DRAFT, cg_version = 1,
      cg_effectiveFrom = None, cg_params = default_params, cg_publishedAt = None, cg_publishedById = None,
      cg_changeReason = None, cg_updatedAt = rv_now env\<rparr>"

definition getOrCreate :: "rate_env \<Rightarrow> rate_book \<Rightarrow> string \<Rightarrow> string \<Rightarrow> string option \<Rightarrow> config_row rated" where
  "getOrCreate env b wardId yearId actorId =
     (case find_config b wardId yearId of
        Some g \<Rightarrow> (b, Inr g)
      | None \<Rightarrow>
         (if wardId \<notin> wd_id ` set (lg_wards (rb_ledger b)) then (b, Inl Ward_missing)
          else if \<not> entry_exists b yearId then (b, Inl Year_missing)
          else
           (let i = rv_cuid env (lg_seq (rb_ledger b));
                created = new_config env i wardId yearId;
                b1 = b\<lparr>rb_configs := rb_configs b @ [created],
                       rb_ledger := (rb_ledger b)\<lparr>lg_seq := Suc (lg_seq (rb_ledger b))\<rparr>\<rparr>
            in and_then (ensureMatrixCells b1 i) (\<lambda>b2 _. (rate_audit ''CREATE'' i actorId b2, Inr created)))))"

subsection \<open>Drafts\<close>

definition assertEditableDraft :: "config_row \<Rightarrow> config_error + unit" where
  "assertEditableDraft g =
     (case cg_status g of C_ARCHIVED \<Rightarrow> Inl Config_archived | C_PUBLISHED \<Rightarrow> Inl Config_immutable | C_DRAFT \<Rightarrow> Inr ())"

definition updateParams :: "rate_env \<Rightarrow> rate_book \<Rightarrow> string \<Rightarrow> rate_patch \<Rightarrow> string option \<Rightarrow> config_row rated" where
  "updateParams env b i dto actorId =
     (case config_by_id b i of
        None \<Rightarrow> (b, Inl Config_missing)
      | Some g \<Rightarrow>
         and_then (b, assertEditableDraft g) (\<lambda>b _.
         and_then (patch_params env b i dto) (\<lambda>b updated.
           (rate_audit ''UPDATE_PARAMS'' i actorId b, Inr updated))))"

definition upsertCells :: "rate_env \<Rightarrow> rate_book \<Rightarrow> string \<Rightarrow> cell_input list \<Rightarrow> string option \<Rightarrow> config_row rated" where
  "upsertCells env b i cells actorId =
     (case config_by_id b i of
        None \<Rightarrow> (b, Inl Config_missing)
      | Some g \<Rightarrow>
         (case cg_status g of
            C_ARCHIVED \<Rightarrow> (b, Inl Config_archived)
          | C_PUBLISHED \<Rightarrow> (b, Inl Config_immutable)
          | C_DRAFT \<Rightarrow>
             and_then (writeCells env b i cells) (\<lambda>b _. (rate_audit ''UPSERT_CELLS'' i actorId b, Inr g))))"

subsection \<open>Publication\<close>

definition resolveParams :: "config_row \<Rightarrow> rate_patch \<Rightarrow> rate_params" where
  "resolveParams g dto =
     (let p = cg_params g in
      \<lparr>rp_propertyTaxPct = nullish (rq_propertyTaxPct dto) (rp_propertyTaxPct p),
       rp_waterTaxPct = nullish (rq_waterTaxPct dto) (rp_waterTaxPct p),
       rp_drainageTaxPct = nullish (rq_drainageTaxPct dto) (rp_drainageTaxPct p),
       rp_penaltyPct = nullish (rq_penaltyPct dto) (rp_penaltyPct p),
       rp_assessablePct = nullish (rq_assessablePct dto) (rp_assessablePct p),
       rp_commercialAssessablePct = nullish (rq_commercialAssessablePct dto) (rp_commercialAssessablePct p)\<rparr>)"

definition input_of_cell :: "cell_row \<Rightarrow> cell_input" where
  "input_of_cell c =
     \<lparr>ci_roadWidthEntryId = cl_roadWidthEntryId c, ci_constructionEntryId = cl_constructionEntryId c,
      ci_annualRatePerSqFt = cl_annualRatePerSqFt c\<rparr>"

definition resolveCells :: "rate_book \<Rightarrow> config_row \<Rightarrow> cell_input list \<Rightarrow> cell_input list" where
  "resolveCells b g cells = (if cells \<noteq> [] then cells else map input_of_cell (cells_of b (cg_id g)))"

definition cell_order :: "(string \<Rightarrow> string \<Rightarrow> int) \<Rightarrow> cell_input \<Rightarrow> cell_input \<Rightarrow> int" where
  "cell_order localeCompare x y =
     localeCompare (ci_roadWidthEntryId x @ '':'' @ ci_constructionEntryId x)
                   (ci_roadWidthEntryId y @ '':'' @ ci_constructionEntryId y)"

definition buildRateSnapshot :: "rate_env \<Rightarrow> cell_input list \<Rightarrow> rate_params \<Rightarrow> rate_snapshot" where
  "buildRateSnapshot env cells params =
     \<lparr>rs_params = params, rs_cells = sort_by (cell_order (rv_localeCompare env)) cells\<rparr>"

definition rateSnapshotsEqual :: "rate_snapshot \<Rightarrow> rate_snapshot \<Rightarrow> bool" where
  "rateSnapshotsEqual a b \<longleftrightarrow>
     list_all (\<lambda>key. key (rs_params a) = key (rs_params b))
       [rp_propertyTaxPct, rp_waterTaxPct, rp_drainageTaxPct, rp_penaltyPct, rp_assessablePct, rp_commercialAssessablePct] \<and>
     length (rs_cells a) = length (rs_cells b) \<and>
     list_all (\<lambda>(x, y). ci_roadWidthEntryId x = ci_roadWidthEntryId y \<and>
                         ci_constructionEntryId x = ci_constructionEntryId y \<and>
                         ci_annualRatePerSqFt x = ci_annualRatePerSqFt y)
       (zip (rs_cells a) (rs_cells b))"

text \<open>Publishing the demands of the ward, on the tables as they are now.\<close>

definition publish_demands :: "rate_env \<Rightarrow> rate_book \<Rightarrow> string \<Rightarrow> string \<Rightarrow> string option \<Rightarrow> ward_result rated" where
  "publish_demands env b wardId yearId actorId =
     (case publishForWard (rv_cuid env) (rv_col env) (rv_now env) (book_view b) wardId yearId actorId of
        (db, Inl e) \<Rightarrow> (b\<lparr>rb_ledger := db\<rparr>, Inl (Demands_failed e))
      | (db, Inr r) \<Rightarrow> (b\<lparr>rb_ledger := db\<rparr>, Inr r))"

record publish_request =
  pq_reason :: "string option"
  pq_effectiveFrom :: "string option"
  pq_cells :: "cell_input list"
  pq_params :: rate_patch

record publish_result =
  pz_config :: config_row
  pz_demands :: ward_result
  pz_ratesUnchanged :: bool

definition has_payload :: "publish_request \<Rightarrow> bool" where
  "has_payload dto \<longleftrightarrow>
     (let q = pq_params dto in
      pq_cells dto \<noteq> [] \<or> rq_propertyTaxPct q \<noteq> None \<or> rq_waterTaxPct q \<noteq> None \<or> rq_drainageTaxPct q \<noteq> None
      \<or> rq_penaltyPct q \<noteq> None \<or> rq_assessablePct q \<noteq> None \<or> rq_commercialAssessablePct q \<noteq> None)"

definition published_config :: "rate_env \<Rightarrow> publish_request \<Rightarrow> int \<Rightarrow> string option \<Rightarrow> int option \<Rightarrow> config_row \<Rightarrow> config_row" where
  "published_config env dto version actorId effectiveFrom g =
     g\<lparr>cg_status := C_PUBLISHED, cg_version := version, cg_publishedAt := Some (rv_now env),
       cg_publishedById := (if actorId = None then cg_publishedById g else actorId),
       cg_changeReason := (if pq_reason dto = None then cg_changeReason g else pq_reason dto),
       cg_effectiveFrom := (if effectiveFrom = None then cg_effectiveFrom g else effectiveFrom)\<rparr>"

text \<open>The end of a publication: the row, the audit entry, the demands of the ward.\<close>

definition finish_publication ::
  "rate_env \<Rightarrow> rate_book \<Rightarrow> string \<Rightarrow> publish_request \<Rightarrow> int \<Rightarrow> bool \<Rightarrow> string option \<Rightarrow> publish_result rated" where
  "finish_publication env b i dto version ratesUnchanged actorId =
     (let effective = (if unset (pq_effectiveFrom dto) then None else Some (rv_date env (nullish (pq_effectiveFrom dto) []))) in
      if effective = Some None then (b, Inl Config_database_error)
      else
       and_then (update_config env b i
                   (published_config env dto version actorId (Option.bind effective (\<lambda>x. x)))) (\<lambda>b published.
       and_then (publish_demands env (rate_audit ''PUBLISH'' i actorId b) (cg_wardId published) (cg_yearId published) actorId)
         (\<lambda>b demands. (b, Inr \<lparr>pz_config = published, pz_demands = demands, pz_ratesUnchanged = ratesUnchanged\<rparr>))))"

definition publish_config ::
  "rate_env \<Rightarrow> rate_book \<Rightarrow> string \<Rightarrow> publish_request \<Rightarrow> string option \<Rightarrow> publish_result rated" where
  "publish_config env b i dto actorId =
     (case config_by_id b i of
        None \<Rightarrow> (b, Inl Config_missing)
      | Some g \<Rightarrow>
         (if cg_status g = C_ARCHIVED then (b, Inl Config_archived)
          else
           (let cells = resolveCells b g (pq_cells dto);
                params = resolveParams g (pq_params dto);
                nextSnapshot = buildRateSnapshot env cells params;
                currentSnapshot = buildRateSnapshot env (resolveCells b g []) (resolveParams g (whole_patch (cg_params g)));
                ratesUnchanged = (cg_status g = C_PUBLISHED \<and> rateSnapshotsEqual currentSnapshot nextSnapshot)
            in
            if ratesUnchanged then finish_publication env b i dto (cg_version g) True actorId
            else
             and_then (if has_payload dto
                       then and_then (writeCells env b i cells) (\<lambda>b _. writeParams env b i params)
                       else (b, Inr g))
               (\<lambda>b g'.
                 (let bumped = cg_version g' + (if cg_status g' = C_PUBLISHED then 1 else 0);
                      version = (if bumped = 0 then cg_version g' else bumped);
                      snapshot = buildRateSnapshot env (resolveCells b g' (if has_payload dto then cells else []))
                                   (if has_payload dto then params else cg_params g')
                  in finish_publication env (add_version env i version snapshot (pq_reason dto) actorId b) i dto version
                       False actorId)))))"

subsection \<open>Copying to all wards\<close>

definition applyRatesToConfig ::
  "rate_env \<Rightarrow> rate_book \<Rightarrow> config_row \<Rightarrow> cell_input list \<Rightarrow> rate_params \<Rightarrow> string option \<Rightarrow> config_row rated" where
  "applyRatesToConfig env b config cells params actorId =
     (if cg_status config = C_ARCHIVED then (b, Inl Config_archived)
      else
       and_then (writeCells env b (cg_id config) cells) (\<lambda>b _.
       and_then (writeParams env b (cg_id config) params) (\<lambda>b written.
       and_then (if cg_status config = C_PUBLISHED
                 then update_config env
                        (add_version env (cg_id config) (cg_version config + 1)
                           \<lparr>rs_params = params, rs_cells = cells\<rparr> None actorId b)
                        (cg_id config)
                        (\<lambda>g. g\<lparr>cg_version := cg_version config + 1, cg_publishedAt := Some (rv_now env),
                               cg_publishedById := (if actorId = None then cg_publishedById g else actorId)\<rparr>)
                 else (b, Inr written)) (\<lambda>b updated.
         (rate_audit ''APPLY_RATES'' (cg_id config) actorId b, Inr updated)))))"

text \<open>Rates at a fixed version: the snapshot of that version is overwritten when there is one.\<close>

definition set_version :: "rate_env \<Rightarrow> string \<Rightarrow> int \<Rightarrow> rate_snapshot \<Rightarrow> string option \<Rightarrow> rate_book \<Rightarrow> rate_book" where
  "set_version env i version snapshot actorId b =
     (let is_it = (\<lambda>v. vn_configId v = i \<and> vn_version v = version) in
      if list_ex is_it (rb_versions b)
      then b\<lparr>rb_versions := takeWhile (\<lambda>v. \<not> is_it v) (rb_versions b)
               @ map (\<lambda>v. v\<lparr>vn_snapshot := snapshot, vn_createdById := (if actorId = None then vn_createdById v else actorId)\<rparr>)
                   (take 1 (dropWhile (\<lambda>v. \<not> is_it v) (rb_versions b)))
               @ drop 1 (dropWhile (\<lambda>v. \<not> is_it v) (rb_versions b))\<rparr>
      else add_version env i version snapshot None actorId b)"

definition applyPublishedRatesAtVersion ::
  "rate_env \<Rightarrow> rate_book \<Rightarrow> config_row \<Rightarrow> cell_input list \<Rightarrow> rate_params \<Rightarrow> int \<Rightarrow> string option \<Rightarrow> unit rated" where
  "applyPublishedRatesAtVersion env b config cells params version actorId =
     (if cg_status config = C_ARCHIVED then (b, Inl Config_archived)
      else
       and_then (writeCells env b (cg_id config) cells) (\<lambda>b _.
       and_then (writeParams env b (cg_id config) params) (\<lambda>b _.
       and_then (update_config env
                   (set_version env (cg_id config) version (buildRateSnapshot env cells params) actorId b) (cg_id config)
                   (\<lambda>g. g\<lparr>cg_status := C_PUBLISHED, cg_version := version, cg_publishedAt := Some (rv_now env),
                          cg_publishedById := (if actorId = None then cg_publishedById g else actorId)\<rparr>)) (\<lambda>b _.
         (rate_audit ''COPY_PUBLISH'' (cg_id config) actorId b, Inr ())))))"

record copy_request =
  cq_sourceWardId :: string
  cq_yearId :: string
  cq_cells :: "cell_input list"
  cq_params :: rate_patch

record copy_counts =
  cn_updated :: nat
  cn_skippedArchived :: nat
  cn_demandsCreated :: nat
  cn_demandsUpdated :: nat

record copy_result =
  cr_updated :: nat
  cr_skippedPublished :: nat
  cr_skippedArchived :: nat
  cr_version :: "int option"
  cr_created :: nat
  cr_demandsUpdated :: nat
  cr_total :: nat

definition copy_to_ward ::
  "rate_env \<Rightarrow> copy_request \<Rightarrow> config_row \<Rightarrow> cell_input list \<Rightarrow> rate_params \<Rightarrow> string option \<Rightarrow> rate_book \<Rightarrow> string
     \<Rightarrow> copy_counts \<Rightarrow> copy_counts rated" where
  "copy_to_ward env dto source cells params actorId b wardId n =
     and_then (if wardId = cq_sourceWardId dto then (b, Inr source) else getOrCreate env b wardId (cq_yearId dto) actorId)
       (\<lambda>b config.
         (if cg_status config = C_ARCHIVED
          then (b, Inr (if wardId \<noteq> cq_sourceWardId dto then n\<lparr>cn_skippedArchived := cn_skippedArchived n + 1\<rparr> else n))
          else
           and_then
             (if cg_status source = C_PUBLISHED
              then and_then (applyPublishedRatesAtVersion env b config cells params (cg_version source) actorId) (\<lambda>b _.
                   and_then (publish_demands env b (cg_wardId config) (cq_yearId dto) actorId) (\<lambda>b counts.
                     (b, Inr (n\<lparr>cn_demandsCreated := cn_demandsCreated n + wr_created counts,
                               cn_demandsUpdated := cn_demandsUpdated n + wr_updated counts\<rparr>))))
              else and_then (applyRatesToConfig env b config cells params actorId) (\<lambda>b _. (b, Inr n)))
             (\<lambda>b n. (b, Inr (if wardId \<noteq> cq_sourceWardId dto then n\<lparr>cn_updated := cn_updated n + 1\<rparr> else n)))))"

fun copy_loop :: "(rate_book \<Rightarrow> string \<Rightarrow> copy_counts \<Rightarrow> copy_counts rated) \<Rightarrow> rate_book \<Rightarrow> string list \<Rightarrow> copy_counts \<Rightarrow> copy_counts rated" where
  "copy_loop step b [] n = (b, Inr n)"
| "copy_loop step b (w # ws) n = and_then (step b w n) (\<lambda>b n. copy_loop step b ws n)"

definition copyToAllWards :: "rate_env \<Rightarrow> rate_book \<Rightarrow> copy_request \<Rightarrow> string option \<Rightarrow> copy_result rated" where
  "copyToAllWards env b dto actorId =
     and_then (getOrCreate env b (cq_sourceWardId dto) (cq_yearId dto) actorId) (\<lambda>b source.
       (let cells = resolveCells b source (cq_cells dto);
            params = resolveParams source (cq_params dto);
            aligned = (cg_status source = C_PUBLISHED);
            wards = map wd_id (filter wd_isActive (lg_wards (rb_ledger b)))
        in and_then (copy_loop (copy_to_ward env dto source cells params actorId) b wards
                       \<lparr>cn_updated = 0, cn_skippedArchived = 0, cn_demandsCreated = 0, cn_demandsUpdated = 0\<rparr>)
             (\<lambda>b n. (b, Inr \<lparr>cr_updated = cn_updated n, cr_skippedPublished = cn_skippedArchived n,
                             cr_skippedArchived = cn_skippedArchived n,
                             cr_version = (if aligned then Some (cg_version source) else None),
                             cr_created = cn_demandsCreated n, cr_demandsUpdated = cn_demandsUpdated n,
                             cr_total = cn_demandsCreated n + cn_demandsUpdated n\<rparr>))))"

subsection \<open>Preview\<close>

record preview_request =
  pr_wardId :: string
  pr_yearId :: string
  pr_areaSqFt :: js_number
  pr_roadWidthEntryId :: string
  pr_constructionEntryId :: string
  pr_gisUseCode :: "string option"

definition preview :: "rate_env \<Rightarrow> rate_book \<Rightarrow> preview_request \<Rightarrow> preview_demand rated" where
  "preview env b dto =
     and_then (getOrCreate env b (pr_wardId dto) (pr_yearId dto) None) (\<lambda>b g.
       (let cell = List.find (same_cell (cg_id g) (pr_roadWidthEntryId dto) (pr_constructionEntryId dto)) (rb_cells b);
            p = cg_params g
        in (b, Inr (computeGisPreviewDemand
              \<lparr>pi_areaSqFt = pr_areaSqFt dto,
               pi_baseMonthlyRate = (case cell of None \<Rightarrow> 0 | Some c \<Rightarrow> cl_annualRatePerSqFt c),
               pi_gisUseCode = Some (nullish (pr_gisUseCode dto) ''R''),
               pi_assessablePct = rp_assessablePct p, pi_commercialAssessablePct = rp_commercialAssessablePct p,
               pi_propertyTaxPct = rp_propertyTaxPct p, pi_waterTaxPct = rp_waterTaxPct p,
               pi_drainageTaxPct = rp_drainageTaxPct p, pi_penaltyPct = rp_penaltyPct p\<rparr>))))"

end
