(* ===== verification/TaxConfigFacts.thy ===== *)
theory TaxConfigFacts
  imports TaxConfigs
begin

text \<open>
  Facts about the rates of a ward: what each write of the rate tables changes, that a published version
  records the rates that are live, that the demands of the ward are published at that version, and that
  copying to all wards leaves every ward with the same rates at the same version.
\<close>

subsection \<open>The tables stay keyed\<close>

definition rate_key :: "cell_input \<Rightarrow> string \<times> string" where
  "rate_key c = (ci_roadWidthEntryId c, ci_constructionEntryId c)"

definition cell_key :: "cell_row \<Rightarrow> string \<times> string \<times> string" where
  "cell_key c = (cl_configId c, cl_roadWidthEntryId c, cl_constructionEntryId c)"

text \<open>The rates of a configuration as they are in the table.\<close>

definition live :: "rate_book \<Rightarrow> string \<Rightarrow> cell_input set" where
  "live b i = input_of_cell ` set (cells_of b i)"

text \<open>A value that a column holds reads back as it is.\<close>

definition fits :: "(js_number \<Rightarrow> js_number option) \<Rightarrow> js_number \<Rightarrow> bool" where
  "fits col x \<longleftrightarrow> col x = Some x"

definition column :: "(js_number \<Rightarrow> js_number option) \<Rightarrow> bool" where
  "column col \<longleftrightarrow> (\<forall>x y. col x = Some y \<longrightarrow> fits col y)"

definition params_fit :: "rate_env \<Rightarrow> rate_params \<Rightarrow> bool" where
  "params_fit env p \<longleftrightarrow>
     fits (rv_pct env) (rp_propertyTaxPct p) \<and> fits (rv_pct env) (rp_waterTaxPct p) \<and>
     fits (rv_pct env) (rp_drainageTaxPct p) \<and> fits (rv_pct env) (rp_penaltyPct p) \<and>
     fits (rv_pct env) (rp_assessablePct p) \<and> fits (rv_pct env) (rp_commercialAssessablePct p)"

definition cells_fit :: "rate_env \<Rightarrow> cell_input list \<Rightarrow> bool" where
  "cells_fit env cells \<longleftrightarrow>
     distinct (map rate_key cells) \<and> (\<forall>c \<in> set cells. fits (rv_rate env) (ci_annualRatePerSqFt c))"

definition book_ok :: "rate_env \<Rightarrow> rate_book \<Rightarrow> bool" where
  "book_ok env b \<longleftrightarrow>
     distinct (map cg_id (rb_configs b)) \<and>
     distinct (map (\<lambda>g. (cg_wardId g, cg_yearId g)) (rb_configs b)) \<and>
     distinct (map cell_key (rb_cells b)) \<and>
     (\<forall>g \<in> set (rb_configs b). 1 \<le> cg_version g \<and> params_fit env (cg_params g) \<and>
        (\<exists>n < lg_seq (rb_ledger b). cg_id g = rv_cuid env n)) \<and>
     (\<forall>c \<in> set (rb_cells b). fits (rv_rate env) (cl_annualRatePerSqFt c) \<and>
        cl_configId c \<in> cg_id ` set (rb_configs b))"

lemma find_map_keep:
  "\<forall>x \<in> set xs. P (h x) = P x \<Longrightarrow> List.find P (map h xs) = map_option h (List.find P xs)"
  by (induction xs) auto

lemma update_config_Inr:
  assumes "update_config env b i f = (b', Inr g')"
  obtains g where "config_by_id b i = Some g" "g' = (f g)\<lparr>cg_updatedAt := rv_now env\<rparr>"
    "b' = b\<lparr>rb_configs := map (\<lambda>x. if cg_id x = i then g' else x) (rb_configs b)\<rparr>"
  using assms by (auto simp: update_config_def Let_def split: option.splits)

lemma config_in: "config_by_id b i = Some g \<Longrightarrow> g \<in> set (rb_configs b) \<and> cg_id g = i"
  unfolding config_by_id_def by (rule find_Some_in)

lemma config_by_id_set:
  assumes "cg_id g' = i" "config_by_id b i \<noteq> None"
  shows "config_by_id (b\<lparr>rb_configs := map (\<lambda>x. if cg_id x = i then g' else x) (rb_configs b)\<rparr>) j =
    (if j = i then Some g' else config_by_id b j)"
proof -
  have "List.find (\<lambda>g. cg_id g = j) (map (\<lambda>x. if cg_id x = i then g' else x) (rb_configs b)) =
     map_option (\<lambda>x. if cg_id x = i then g' else x) (config_by_id b j)"
    unfolding config_by_id_def by (rule find_map_keep) (use assms(1) in auto)
  then have e: "config_by_id (b\<lparr>rb_configs := map (\<lambda>x. if cg_id x = i then g' else x) (rb_configs b)\<rparr>) j =
     map_option (\<lambda>x. if cg_id x = i then g' else x) (config_by_id b j)"
    by (simp add: config_by_id_def)
  show ?thesis
  proof (cases "config_by_id b j")
    case None
    then show ?thesis using e assms(2) by auto
  next
    case (Some x)
    then have "cg_id x = j" using config_in by blast
    then show ?thesis using e Some by simp
  qed
qed

lemma config_of_in:
  assumes "distinct (map cg_id (rb_configs b))" "g \<in> set (rb_configs b)"
  shows "config_by_id b (cg_id g) = Some g"
proof -
  have "config_by_id b (cg_id g) \<noteq> None" using assms(2) by (auto simp: config_by_id_def find_None_iff)
  then obtain x where x: "config_by_id b (cg_id g) = Some x" by auto
  moreover have "inj_on cg_id (set (rb_configs b))" using assms(1) by (simp add: distinct_map)
  ultimately have "x = g" using config_in[OF x] assms(2) by (auto dest!: inj_onD)
  then show ?thesis using x by simp
qed

lemma find_config_of_in:
  assumes "distinct (map (\<lambda>g. (cg_wardId g, cg_yearId g)) (rb_configs b))" "g \<in> set (rb_configs b)"
  shows "find_config b (cg_wardId g) (cg_yearId g) = Some g"
proof -
  let ?P = "\<lambda>x. cg_wardId x = cg_wardId g \<and> cg_yearId x = cg_yearId g"
  have "List.find ?P (rb_configs b) \<noteq> None" using assms(2) by (auto simp: find_None_iff)
  then obtain x where x: "List.find ?P (rb_configs b) = Some x" by auto
  have "x \<in> set (rb_configs b) \<and> ?P x" using x by (rule find_Some_in)
  moreover have "inj_on (\<lambda>g. (cg_wardId g, cg_yearId g)) (set (rb_configs b))"
    using assms(1) by (simp add: distinct_map)
  ultimately have "x = g" using assms(2) by (auto dest!: inj_onD)
  then show ?thesis using x by (simp add: find_config_def)
qed

subsection \<open>Writing cells\<close>

lemma filter_map_keep:
  "\<forall>x \<in> set xs. P (h x) = P x \<Longrightarrow> filter P (map h xs) = map h (filter P xs)"
  by (induction xs) auto

definition cell_written :: "string \<Rightarrow> string \<Rightarrow> string \<Rightarrow> (cell_row \<Rightarrow> cell_row) \<Rightarrow> cell_row \<Rightarrow> cell_row" where
  "cell_written i road construction f c = (if same_cell i road construction c then f c else c)"

lemma upsert_cell_Inr:
  assumes "upsert_cell b i road construction r f = (b', Inr u)"
  shows "b' = b\<lparr>rb_cells := (if list_ex (same_cell i road construction) (rb_cells b)
      then map (cell_written i road construction f) (rb_cells b)
      else rb_cells b @ [\<lparr>cl_configId = i, cl_roadWidthEntryId = road, cl_constructionEntryId = construction,
                          cl_annualRatePerSqFt = r\<rparr>])\<rparr>"
  using assms by (auto simp: upsert_cell_def cell_written_def[abs_def] split: if_splits)

lemma cells_of_upsert:
  assumes "upsert_cell b i road construction r f = (b', Inr u)" "\<And>c. cell_key (f c) = cell_key c"
  shows "cells_of b' j = (if j \<noteq> i then cells_of b j
      else if list_ex (same_cell i road construction) (rb_cells b)
      then map (cell_written i road construction f) (cells_of b i)
      else cells_of b i @ [\<lparr>cl_configId = i, cl_roadWidthEntryId = road, cl_constructionEntryId = construction,
                            cl_annualRatePerSqFt = r\<rparr>])"
proof -
  have k: "cl_configId (cell_written i road construction f c) = cl_configId c" for c
    using assms(2)[of c] by (simp add: cell_written_def cell_key_def)
  then have m: "filter (\<lambda>c. cl_configId c = j) (map (cell_written i road construction f) (rb_cells b)) =
      map (cell_written i road construction f) (cells_of b j)"
    unfolding cells_of_def by (intro filter_map_keep) simp
  have "map (cell_written i road construction f) (cells_of b j) = cells_of b j" if "j \<noteq> i"
    using that by (intro map_idI) (auto simp: cells_of_def cell_written_def same_cell_def)
  then show ?thesis
    unfolding upsert_cell_Inr[OF assms(1)] using m by (auto simp: cells_of_def)
qed

text \<open>The rows of every other configuration, and every other table, stay as they are.\<close>

definition cells_only :: "string \<Rightarrow> rate_book \<Rightarrow> rate_book \<Rightarrow> bool" where
  "cells_only i b b' \<longleftrightarrow>
     rb_configs b' = rb_configs b \<and> rb_versions b' = rb_versions b \<and> rb_ledger b' = rb_ledger b \<and>
     (\<forall>j. j \<noteq> i \<longrightarrow> cells_of b' j = cells_of b j)"

lemma cells_only_refl [simp]: "cells_only i b b"
  by (simp add: cells_only_def)

lemma cells_only_trans: "cells_only i b c \<Longrightarrow> cells_only i c d \<Longrightarrow> cells_only i b d"
  by (simp add: cells_only_def)

lemma upsert_cells_only:
  assumes "upsert_cell b i road construction r f = (b', Inr u)" "\<And>c. cell_key (f c) = cell_key c"
  shows "cells_only i b b'"
  using cells_of_upsert[OF assms] upsert_cell_Inr[OF assms(1)] by (auto simp: cells_only_def)

lemma input_written:
  assumes "cl_configId c = i"
  shows "input_of_cell (cell_written i road construction (cl_annualRatePerSqFt_update (\<lambda>_. r)) c) =
    (if rate_key (input_of_cell c) = (road, construction)
     then \<lparr>ci_roadWidthEntryId = road, ci_constructionEntryId = construction, ci_annualRatePerSqFt = r\<rparr>
     else input_of_cell c)"
  using assms by (auto simp: cell_written_def same_cell_def input_of_cell_def rate_key_def)

lemma live_upsert:
  assumes "upsert_cell b i road construction r (cl_annualRatePerSqFt_update (\<lambda>_. r)) = (b', Inr u)"
  shows "live b' i = insert \<lparr>ci_roadWidthEntryId = road, ci_constructionEntryId = construction, ci_annualRatePerSqFt = r\<rparr>
    {x \<in> live b i. rate_key x \<noteq> (road, construction)}"
proof -
  let ?new = "\<lparr>ci_roadWidthEntryId = road, ci_constructionEntryId = construction, ci_annualRatePerSqFt = r\<rparr>"
  let ?w = "cell_written i road construction (cl_annualRatePerSqFt_update (\<lambda>_. r))"
  have k: "cell_key (cl_annualRatePerSqFt_update (\<lambda>_. r) c) = cell_key c" for c by (simp add: cell_key_def)
  have m: "cl_configId c = i" if "c \<in> set (cells_of b i)" for c using that by (simp add: cells_of_def)
  have has: "list_ex (same_cell i road construction) (rb_cells b) \<longleftrightarrow>
      (\<exists>c \<in> set (cells_of b i). rate_key (input_of_cell c) = (road, construction))"
    by (auto simp: list_ex_iff same_cell_def cells_of_def rate_key_def input_of_cell_def)
  show ?thesis
  proof (cases "list_ex (same_cell i road construction) (rb_cells b)")
    case True
    have "input_of_cell ` ?w ` set (cells_of b i) =
        (\<lambda>c. if rate_key (input_of_cell c) = (road, construction) then ?new else input_of_cell c) ` set (cells_of b i)"
      unfolding image_image by (intro image_cong refl) (simp add: input_written m)
    then show ?thesis using True cells_of_upsert[OF assms k, of i] unfolding has by (auto simp: live_def)
  next
    case False
    then have "\<forall>c \<in> set (cells_of b i). rate_key (input_of_cell c) \<noteq> (road, construction)" unfolding has by blast
    then show ?thesis using False cells_of_upsert[OF assms k, of i] by (auto simp: live_def input_of_cell_def)
  qed
qed

lemma writeCells_Cons:
  assumes "writeCells env b i (c # cs) = (b', Inr u)"
  obtains rate b1 where "rv_rate env (ci_annualRatePerSqFt c) = Some rate"
    "upsert_cell b i (ci_roadWidthEntryId c) (ci_constructionEntryId c) rate (cl_annualRatePerSqFt_update (\<lambda>_. rate)) = (b1, Inr ())"
    "writeCells env b1 i cs = (b', Inr u)"
  using assms by (auto simp: and_then_Inr split: option.splits)

lemma writeCells_only: "writeCells env b i cells = (b', Inr u) \<Longrightarrow> cells_only i b b'"
proof (induction cells arbitrary: b)
  case (Cons c cs)
  obtain rate b1 where w:
    "upsert_cell b i (ci_roadWidthEntryId c) (ci_constructionEntryId c) rate (cl_annualRatePerSqFt_update (\<lambda>_. rate)) = (b1, Inr ())"
    "writeCells env b1 i cs = (b', Inr u)"
    using Cons.prems by (rule writeCells_Cons)
  have "cells_only i b b1" by (rule upsert_cells_only[OF w(1)]) (simp add: cell_key_def)
  then show ?case using Cons.IH[OF w(2)] by (rule cells_only_trans)
qed simp

lemma live_writeCells:
  assumes "writeCells env b i cells = (b', Inr u)" "cells_fit env cells"
  shows "live b' i = set cells \<union> {x \<in> live b i. rate_key x \<notin> rate_key ` set cells}"
  using assms
proof (induction cells arbitrary: b)
  case (Cons c cs)
  obtain rate b1 where w: "rv_rate env (ci_annualRatePerSqFt c) = Some rate"
    "upsert_cell b i (ci_roadWidthEntryId c) (ci_constructionEntryId c) rate (cl_annualRatePerSqFt_update (\<lambda>_. rate)) = (b1, Inr ())"
    "writeCells env b1 i cs = (b', Inr u)"
    using Cons.prems(1) by (rule writeCells_Cons)
  have r: "rate = ci_annualRatePerSqFt c" using w(1) Cons.prems(2) by (simp add: cells_fit_def fits_def)
  have n: "rate_key c \<notin> rate_key ` set cs" using Cons.prems(2) by (simp add: cells_fit_def)
  have "live b1 i = insert c {x \<in> live b i. rate_key x \<noteq> rate_key c}"
    using live_upsert[OF w(2)] by (cases c) (simp add: r rate_key_def)
  moreover have "live b' i = set cs \<union> {x \<in> live b1 i. rate_key x \<notin> rate_key ` set cs}"
    by (rule Cons.IH[OF w(3)]) (use Cons.prems(2) in \<open>simp add: cells_fit_def\<close>)
  ultimately show ?case using n by auto
qed (auto simp: live_def)

subsection \<open>Every write keeps the tables\<close>

lemma cell_key_written: "\<lbrakk>\<And>c. cell_key (f c) = cell_key c\<rbrakk> \<Longrightarrow> cell_key (cell_written i road construction f c) = cell_key c"
  by (simp add: cell_written_def)

lemma upsert_book_ok:
  assumes "book_ok env b" "i \<in> cg_id ` set (rb_configs b)" "fits (rv_rate env) r"
    and "upsert_cell b i road construction r f = (b', Inr u)"
    and f: "\<And>c. cell_key (f c) = cell_key c"
      "\<And>c. fits (rv_rate env) (cl_annualRatePerSqFt c) \<Longrightarrow> fits (rv_rate env) (cl_annualRatePerSqFt (f c))"
  shows "book_ok env b'"
proof -
  let ?w = "cell_written i road construction f"
  have k: "cell_key (?w c) = cell_key c" for c by (rule cell_key_written) (rule f(1))
  have conf: "cl_configId (?w c) = cl_configId c" for c using k[of c] by (simp add: cell_key_def)
  have fit: "fits (rv_rate env) (cl_annualRatePerSqFt (?w c))" if "fits (rv_rate env) (cl_annualRatePerSqFt c)" for c
    using that f(2) by (simp add: cell_written_def)
  note b' = upsert_cell_Inr[OF assms(4)]
  show ?thesis
  proof (cases "list_ex (same_cell i road construction) (rb_cells b)")
    case True
    then show ?thesis using assms(1) fit unfolding b' book_ok_def by (simp add: o_def k conf)
  next
    case False
    then have "(i, road, construction) \<notin> cell_key ` set (rb_cells b)"
      by (auto simp: list_ex_iff same_cell_def cell_key_def)
    then show ?thesis using assms(1,2,3) False unfolding b' book_ok_def by (simp add: cell_key_def)
  qed
qed

lemma writeCells_ok:
  assumes "writeCells env b i cells = (b', Inr u)" "column (rv_rate env)" "book_ok env b" "i \<in> cg_id ` set (rb_configs b)"
  shows "book_ok env b'"
  using assms(1,3,4)
proof (induction cells arbitrary: b)
  case (Cons c cs)
  obtain rate b1 where w: "rv_rate env (ci_annualRatePerSqFt c) = Some rate"
    "upsert_cell b i (ci_roadWidthEntryId c) (ci_constructionEntryId c) rate (cl_annualRatePerSqFt_update (\<lambda>_. rate)) = (b1, Inr ())"
    "writeCells env b1 i cs = (b', Inr u)"
    using Cons.prems(1) by (rule writeCells_Cons)
  have f: "fits (rv_rate env) rate" using w(1) assms(2) by (auto simp: column_def)
  have "book_ok env b1"
    by (rule upsert_book_ok[OF Cons.prems(2,3) f w(2)]) (simp_all add: cell_key_def f)
  moreover have "cells_only i b b1" by (rule upsert_cells_only[OF w(2)]) (simp add: cell_key_def)
  ultimately show ?case using Cons.IH[OF w(3)] Cons.prems(3) by (simp add: cells_only_def)
qed simp

subsection \<open>Writing the row\<close>

definition set_row :: "config_row \<Rightarrow> rate_book \<Rightarrow> rate_book" where
  "set_row g' b = b\<lparr>rb_configs := map (\<lambda>x. if cg_id x = cg_id g' then g' else x) (rb_configs b)\<rparr>"

lemma set_row_simps [simp]:
  "rb_cells (set_row g b) = rb_cells b" "rb_versions (set_row g b) = rb_versions b"
  "rb_ledger (set_row g b) = rb_ledger b" "cells_of (set_row g b) j = cells_of b j" "live (set_row g b) j = live b j"
  by (simp_all add: set_row_def cells_of_def live_def)

lemma other_tables [simp]:
  "config_by_id (b\<lparr>rb_ledger := db\<rparr>) j = config_by_id b j" "live (b\<lparr>rb_ledger := db\<rparr>) j = live b j"
  "config_by_id (add_version env i v s reason u b) j = config_by_id b j"
  "live (add_version env i v s reason u b) j = live b j"
  "rb_ledger (add_version env i v s reason u b) = rb_ledger b"
  by (simp_all add: config_by_id_def live_def cells_of_def add_version_def)

lemma config_by_id_set_row:
  "config_by_id b (cg_id g') \<noteq> None \<Longrightarrow> config_by_id (set_row g' b) j = (if j = cg_id g' then Some g' else config_by_id b j)"
  unfolding set_row_def by (rule config_by_id_set) simp_all

lemma set_row_twice: "cg_id g = cg_id g' \<Longrightarrow> set_row g (set_row g' b) = set_row g b"
  by (simp add: set_row_def o_def)

lemma update_config_row:
  assumes "update_config env b i f = (b', Inr g')" "\<And>g. cg_id (f g) = cg_id g"
  obtains g where "config_by_id b i = Some g" "cg_id g = i" "g' = (f g)\<lparr>cg_updatedAt := rv_now env\<rparr>"
    "cg_id g' = i" "b' = set_row g' b"
proof -
  obtain g where g: "config_by_id b i = Some g" "g' = (f g)\<lparr>cg_updatedAt := rv_now env\<rparr>"
    "b' = b\<lparr>rb_configs := map (\<lambda>x. if cg_id x = i then g' else x) (rb_configs b)\<rparr>"
    using assms(1) by (rule update_config_Inr)
  have "cg_id g = i" using config_in[OF g(1)] by blast
  then show thesis using that g assms(2) by (simp add: set_row_def)
qed

lemma set_row_map:
  assumes "distinct (map cg_id (rb_configs b))" "config_by_id b i = Some g" "cg_id g' = i" "f g' = f g"
  shows "map f (rb_configs (set_row g' b)) = map f (rb_configs b)"
proof -
  have g: "g \<in> set (rb_configs b)" "cg_id g = i" using config_in[OF assms(2)] by auto
  have "inj_on cg_id (set (rb_configs b))" using assms(1) by (simp add: distinct_map)
  then have "x = g" if "x \<in> set (rb_configs b)" "cg_id x = i" for x using that g by (auto dest: inj_onD)
  then show ?thesis using assms(3,4) by (simp add: set_row_def)
qed

lemma set_row_ok:
  assumes "book_ok env b" "config_by_id b i = Some g" "cg_id g' = i" "cg_wardId g' = cg_wardId g"
    and "cg_yearId g' = cg_yearId g" "1 \<le> cg_version g'" "params_fit env (cg_params g')"
  shows "book_ok env (set_row g' b)"
proof -
  have d: "distinct (map cg_id (rb_configs b))" using assms(1) by (simp add: book_ok_def)
  have g: "g \<in> set (rb_configs b)" "cg_id g = i" using config_in[OF assms(2)] by auto
  have id: "map cg_id (rb_configs (set_row g' b)) = map cg_id (rb_configs b)"
    by (rule set_row_map[OF d assms(2)]) (simp_all add: assms(3) g)
  have key: "map (\<lambda>g. (cg_wardId g, cg_yearId g)) (rb_configs (set_row g' b)) = map (\<lambda>g. (cg_wardId g, cg_yearId g)) (rb_configs b)"
    by (rule set_row_map[OF d assms(2)]) (simp_all add: assms(3,4,5) g)
  have ids: "cg_id ` set (rb_configs (set_row g' b)) = cg_id ` set (rb_configs b)" using arg_cong[OF id, of set] by simp
  have rows: "set (rb_configs (set_row g' b)) \<subseteq> insert g' (set (rb_configs b))" by (auto simp: set_row_def)
  let ?ok = "\<lambda>x. 1 \<le> cg_version x \<and> params_fit env (cg_params x) \<and> (\<exists>n < lg_seq (rb_ledger b). cg_id x = rv_cuid env n)"
  have old: "\<forall>x \<in> set (rb_configs b). ?ok x" using assms(1) by (simp add: book_ok_def)
  have "?ok g'" using old g assms(3,6,7) by auto
  then have "\<forall>x \<in> set (rb_configs (set_row g' b)). ?ok x" using old rows by blast
  then show ?thesis
    unfolding book_ok_def id key set_row_simps ids using assms(1) by (simp add: book_ok_def)
qed

lemma stored_whole:
  assumes "params_fit env q"
  shows "stored_params env p (whole_patch q) = Some q"
  using assms by (simp add: stored_params_def whole_patch_def col_or_def params_fit_def fits_def)

lemma writeParams_row:
  assumes "writeParams env b i q = (b', Inr g')" "params_fit env q"
  obtains g where "config_by_id b i = Some g" "cg_id g = i"
    "g' = g\<lparr>cg_params := q, cg_updatedAt := rv_now env\<rparr>" "b' = set_row g' b"
proof -
  obtain g0 where g0: "config_by_id b i = Some g0"
    using assms(1) by (auto simp: writeParams_def patch_params_def split: option.splits)
  then have u: "update_config env b i (cg_params_update (\<lambda>_. q)) = (b', Inr g')"
    using assms by (simp add: writeParams_def patch_params_def stored_whole)
  obtain g where "config_by_id b i = Some g" "cg_id g = i" "g' = (cg_params_update (\<lambda>_. q) g)\<lparr>cg_updatedAt := rv_now env\<rparr>"
    "cg_id g' = i" "b' = set_row g' b"
    by (rule update_config_row[OF u]) simp_all
  then show thesis using that by simp
qed

subsection \<open>Publishing rates\<close>

lemma cells_equal:
  "length xs = length ys \<Longrightarrow>
    list_all (\<lambda>(x, y). ci_roadWidthEntryId x = ci_roadWidthEntryId y \<and>
      ci_constructionEntryId x = ci_constructionEntryId y \<and> ci_annualRatePerSqFt x = ci_annualRatePerSqFt y) (zip xs ys)
    \<longleftrightarrow> xs = (ys :: cell_input list)"
  by (induction xs ys rule: list_induct2) auto

lemma rateSnapshotsEqual_iff [simp]: "rateSnapshotsEqual a b \<longleftrightarrow> a = b"
proof -
  have "list_all (\<lambda>key. key (rs_params a) = key (rs_params b))
       [rp_propertyTaxPct, rp_waterTaxPct, rp_drainageTaxPct, rp_penaltyPct, rp_assessablePct, rp_commercialAssessablePct]
     \<longleftrightarrow> rs_params a = rs_params b"
    by (cases "rs_params a"; cases "rs_params b") simp
  then have "rateSnapshotsEqual a b \<longleftrightarrow> rs_params a = rs_params b \<and> rs_cells a = rs_cells b"
    unfolding rateSnapshotsEqual_def
    by (cases "length (rs_cells a) = length (rs_cells b)") (simp_all only: cells_equal, auto)
  then show ?thesis by (cases a; cases b) simp
qed

lemma resolveParams_none:
  "resolveParams g (whole_patch p) = p"
  by (simp add: resolveParams_def whole_patch_def nullish_def)

lemma set_snapshot [simp]: "set (rs_cells (buildRateSnapshot env cells params)) = set cells"
  "rs_params (buildRateSnapshot env cells params) = params"
  by (simp_all add: buildRateSnapshot_def)

lemma publish_demands_Inr:
  assumes "publish_demands env b w y u = (b', Inr r)"
  obtains db where "publishForWard (rv_cuid env) (rv_col env) (rv_now env) (book_view b) w y u = (db, Inr r)"
    "b' = b\<lparr>rb_ledger := db\<rparr>"
  using assms by (auto simp: publish_demands_def split: prod.splits sum.splits)

lemma finish_publication_Inr:
  assumes "finish_publication env b i dto version unchanged actorId = (b', Inr r)"
  obtains g eff db where "config_by_id b i = Some g" "cg_id g = i"
    "pz_config r = (published_config env dto version actorId eff g)\<lparr>cg_updatedAt := rv_now env\<rparr>"
    "publishForWard (rv_cuid env) (rv_col env) (rv_now env)
       (book_view (rate_audit ''PUBLISH'' i actorId (set_row (pz_config r) b))) (cg_wardId g) (cg_yearId g) actorId
       = (db, Inr (pz_demands r))"
    "b' = (set_row (pz_config r) b)\<lparr>rb_ledger := db\<rparr>" "pz_ratesUnchanged r = unchanged"
proof -
  obtain eff b1 g' b2 n where u: "update_config env b i (published_config env dto version actorId eff) = (b1, Inr g')"
    "publish_demands env (rate_audit ''PUBLISH'' i actorId b1) (cg_wardId g') (cg_yearId g') actorId = (b2, Inr n)"
    "b' = b2" "r = \<lparr>pz_config = g', pz_demands = n, pz_ratesUnchanged = unchanged\<rparr>"
    using assms unfolding finish_publication_def Let_def by (auto simp: and_then_Inr split: if_splits)
  obtain g where g: "config_by_id b i = Some g" "cg_id g = i"
    "g' = (published_config env dto version actorId eff g)\<lparr>cg_updatedAt := rv_now env\<rparr>" "cg_id g' = i" "b1 = set_row g' b"
    by (rule update_config_row[OF u(1)]) (simp_all add: published_config_def)
  obtain db where "publishForWard (rv_cuid env) (rv_col env) (rv_now env)
      (book_view (rate_audit ''PUBLISH'' i actorId b1)) (cg_wardId g') (cg_yearId g') actorId = (db, Inr n)"
    "b2 = (rate_audit ''PUBLISH'' i actorId b1)\<lparr>rb_ledger := db\<rparr>"
    using u(2) by (rule publish_demands_Inr)
  then show thesis
    by (intro that[OF g(1,2)]) (simp_all add: u(3,4) g(3,5) published_config_def rate_audit_def)
qed

lemma rates_written:
  assumes "config_by_id b i = Some g" "cells_fit env C" "params_fit env P"
    and "and_then (writeCells env b i C) (\<lambda>b _. writeParams env b i P) = (b1, Inr g1)"
  shows "g1 = g\<lparr>cg_params := P, cg_updatedAt := rv_now env\<rparr>" "cg_id g1 = i"
    "config_by_id b1 j = (if j = i then Some g1 else config_by_id b j)"
    "live b1 i = set C \<union> {x \<in> live b i. rate_key x \<notin> rate_key ` set C}" "j \<noteq> i \<Longrightarrow> live b1 j = live b j"
    "rb_versions b1 = rb_versions b" "rb_ledger b1 = rb_ledger b" "rb_configs b1 = rb_configs (set_row g1 b)"
proof -
  obtain bx where w: "writeCells env b i C = (bx, Inr ())" "writeParams env bx i P = (b1, Inr g1)"
    using assms(4) by (auto simp: and_then_Inr)
  have o: "cells_only i b bx" by (rule writeCells_only[OF w(1)])
  have c: "config_by_id bx k = config_by_id b k" for k using o by (simp add: cells_only_def config_by_id_def)
  obtain g' where g': "config_by_id bx i = Some g'" "cg_id g' = i"
    "g1 = g'\<lparr>cg_params := P, cg_updatedAt := rv_now env\<rparr>" "b1 = set_row g1 bx"
    using w(2) assms(3) by (rule writeParams_row)
  have "g' = g" using g'(1) assms(1) by (simp add: c)
  then show g1: "g1 = g\<lparr>cg_params := P, cg_updatedAt := rv_now env\<rparr>" and i: "cg_id g1 = i" using g' by simp_all
  have "config_by_id bx (cg_id g1) \<noteq> None" using g'(1) i by simp
  note set = config_by_id_set_row[OF this]
  show "config_by_id b1 j = (if j = i then Some g1 else config_by_id b j)"
    unfolding g'(4) set c i ..
  show "live b1 i = set C \<union> {x \<in> live b i. rate_key x \<notin> rate_key ` set C}"
    unfolding g'(4) set_row_simps by (rule live_writeCells[OF w(1) assms(2)])
  show "live b1 j = live b j" if "j \<noteq> i"
    unfolding g'(4) set_row_simps using o that by (simp add: cells_only_def live_def)
  show "rb_versions b1 = rb_versions b" "rb_ledger b1 = rb_ledger b"
    unfolding g'(4) set_row_simps using o by (simp_all add: cells_only_def)
  show "rb_configs b1 = rb_configs (set_row g1 b)"
    unfolding g'(4) using o by (simp add: cells_only_def set_row_def)
qed

lemma live_cells_fit:
  assumes "book_ok env b"
  shows "cells_fit env (map input_of_cell (cells_of b i))"
proof -
  have d: "distinct (map cell_key (cells_of b i))"
    using assms distinct_map_filter unfolding book_ok_def cells_of_def by blast
  have k: "cell_key c = (i, rate_key (input_of_cell c))" if "c \<in> set (cells_of b i)" for c
    using that by (simp add: cells_of_def cell_key_def rate_key_def input_of_cell_def)
  have "map cell_key (cells_of b i) = map (Pair i) (map rate_key (map input_of_cell (cells_of b i)))"
    using k by simp
  then have "distinct (map rate_key (map input_of_cell (cells_of b i)))" using d by (metis distinct_map)
  then show ?thesis
    using assms by (auto simp: cells_fit_def book_ok_def cells_of_def input_of_cell_def)
qed

lemma resolved_cells:
  assumes "book_ok env b" "cg_id g = i" "cells_fit env cells"
  shows "cells_fit env (resolveCells b g cells)"
    "set (resolveCells b g cells) = (if cells = [] then live b i else set cells)"
  using assms live_cells_fit[OF assms(1), of i] by (auto simp: resolveCells_def live_def)

lemma no_payload:
  "\<not> has_payload dto \<Longrightarrow> pq_cells dto = [] \<and> resolveParams g (pq_params dto) = cg_params g"
  by (simp add: has_payload_def resolveParams_def Let_def nullish_def)

lemma publish_config_same:
  assumes "config_by_id b i = Some g" "publish_config env b i dto actorId = (b', Inr r)" "cg_status g = C_PUBLISHED"
    and "buildRateSnapshot env (resolveCells b g []) (cg_params g)
      = buildRateSnapshot env (resolveCells b g (pq_cells dto)) (resolveParams g (pq_params dto))"
  shows "finish_publication env b i dto (cg_version g) True actorId = (b', Inr r)"
    "cg_params g = resolveParams g (pq_params dto)" "set (resolveCells b g (pq_cells dto)) = set (resolveCells b g [])"
proof -
  show "finish_publication env b i dto (cg_version g) True actorId = (b', Inr r)"
    using assms by (simp add: publish_config_def Let_def resolveParams_none split: if_splits)
  show "cg_params g = resolveParams g (pq_params dto)" "set (resolveCells b g (pq_cells dto)) = set (resolveCells b g [])"
    using assms(4) by (metis set_snapshot)+
qed

lemma publish_config_new:
  assumes "book_ok env b" "config_by_id b i = Some g" "cells_fit env (pq_cells dto)"
    and "params_fit env (resolveParams g (pq_params dto))" "publish_config env b i dto actorId = (b', Inr r)"
    and new: "\<not> (cg_status g = C_PUBLISHED \<and> buildRateSnapshot env (resolveCells b g []) (cg_params g)
      = buildRateSnapshot env (resolveCells b g (pq_cells dto)) (resolveParams g (pq_params dto)))"
  obtains b1 g1 snapshot where
    "cg_version g1 = cg_version g \<and> cg_status g1 = cg_status g \<and> cg_id g1 = i \<and> cg_wardId g1 = cg_wardId g \<and>
     cg_yearId g1 = cg_yearId g \<and> cg_params g1 = resolveParams g (pq_params dto)"
    "\<forall>k. config_by_id b1 k = (if k = i then Some g1 else config_by_id b k)" "rb_versions b1 = rb_versions b"
    "rb_ledger b1 = rb_ledger b" "rb_configs b1 = rb_configs (set_row g1 b)"
    "live b1 i = set (resolveCells b g (pq_cells dto)) \<union>
       {x \<in> live b i. rate_key x \<notin> rate_key ` set (resolveCells b g (pq_cells dto))}"
    "\<forall>k. k \<noteq> i \<longrightarrow> live b1 k = live b k"
    "rs_params snapshot = resolveParams g (pq_params dto)" "set (rs_cells snapshot) = set (resolveCells b g (pq_cells dto))"
    "finish_publication env
       (add_version env i (cg_version g + (if cg_status g = C_PUBLISHED then 1 else 0)) snapshot (pq_reason dto) actorId b1)
       i dto (cg_version g + (if cg_status g = C_PUBLISHED then 1 else 0)) False actorId = (b', Inr r)"
proof -
  let ?C = "resolveCells b g (pq_cells dto)" and ?P = "resolveParams g (pq_params dto)"
  have gi: "g \<in> set (rb_configs b)" "cg_id g = i" using config_in[OF assms(2)] by auto
  note C = resolved_cells[OF assms(1) gi(2) assms(3)]
  obtain b1 g1 where m: "(if has_payload dto then and_then (writeCells env b i ?C) (\<lambda>b _. writeParams env b i ?P)
      else (b, Inr g)) = (b1, Inr g1)"
    and rest: "(let bumped = cg_version g1 + (if cg_status g1 = C_PUBLISHED then 1 else 0);
        version = (if bumped = 0 then cg_version g1 else bumped);
        snapshot = buildRateSnapshot env (resolveCells b1 g1 (if has_payload dto then ?C else []))
                     (if has_payload dto then ?P else cg_params g1)
      in finish_publication env (add_version env i version snapshot (pq_reason dto) actorId b1) i dto version
           False actorId) = (b', Inr r)"
    using assms(5) new
    by (auto simp: publish_config_def assms(2) Let_def resolveParams_none and_then_Inr split: if_splits)
  note w = rates_written[OF assms(2) C(1) assms(4)]
  have same: "set_row g b = b"
    using map_idI[of "rb_configs b" "\<lambda>x. if cg_id x = i then g else x"] config_of_in[of b] assms(1,2) gi
    by (auto simp: set_row_def book_ok_def) (metis (no_types, lifting) map_idI option.inject rate_book.surjective rate_book.update_convs(1))
  have g1: "cg_version g1 = cg_version g \<and> cg_status g1 = cg_status g \<and> cg_id g1 = i \<and> cg_wardId g1 = cg_wardId g \<and>
      cg_yearId g1 = cg_yearId g \<and> cg_params g1 = ?P"
    using m w(1,2)[of b1 g1] no_payload[of dto g] gi(2) by (auto split: if_splits)
  have b1: "config_by_id b1 k = (if k = i then Some g1 else config_by_id b k)" "rb_versions b1 = rb_versions b"
    "live b1 i = set ?C \<union> {x \<in> live b i. rate_key x \<notin> rate_key ` set ?C}"
    "k \<noteq> i \<Longrightarrow> live b1 k = live b k" "rb_ledger b1 = rb_ledger b"
    "rb_configs b1 = rb_configs (set_row g1 b)" for k
    using m w(3-8)[of b1 g1] C(2) no_payload[of dto g] assms(2) same by (auto split: if_splits)
  have cells: "set (resolveCells b1 g1 (if has_payload dto then ?C else [])) = set ?C"
  proof (cases "has_payload dto")
    case True
    have "set (resolveCells b1 g1 ?C) = set ?C"
    proof (cases "?C = []")
      case empty: True
      then have "live b i = {}" using C(2) by (auto simp: resolveCells_def live_def split: if_splits)
      then have "live b1 i = {}" using b1(3) empty by simp
      then show ?thesis using empty g1 by (auto simp: resolveCells_def live_def)
    qed (simp add: resolveCells_def)
    then show ?thesis using True by simp
  next
    case False
    then have "b1 = b" using m by simp
    then show ?thesis using no_payload[OF False, of g] g1 False gi(2) by (simp add: resolveCells_def)
  qed
  have "1 \<le> cg_version g" using assms(1) gi by (simp add: book_ok_def)
  then have nz: "cg_version g + (if cg_status g = C_PUBLISHED then 1 else 0) \<noteq> 0" by simp
  have row: "cg_version g1 = cg_version g" "cg_status g1 = cg_status g" using g1 by simp_all
  let ?snap = "buildRateSnapshot env (resolveCells b1 g1 (if has_payload dto then ?C else []))
    (if has_payload dto then ?P else cg_params g1)"
  let ?v = "cg_version g + (if cg_status g = C_PUBLISHED then 1 else 0)"
  have fin: "finish_publication env (add_version env i ?v ?snap (pq_reason dto) actorId b1) i dto ?v False actorId
      = (b', Inr r)"
    using rest unfolding Let_def row if_not_P[OF nz] .
  have snap: "rs_params ?snap = ?P" "set (rs_cells ?snap) = set ?C"
    using g1 cells by simp_all
  show thesis
    by (rule that[OF g1 _ b1(2,5,6,3) _ snap fin]) (use b1(1,4) in blast)+
qed

text \<open>C11. A successful publication of a configuration leaves exactly the rates that were asked for: the
  percentages are those of the request over the stored ones; the cells are those of the request and the
  stored ones that it does not name (the cells of the request are distinct and the values fit their
  columns). When this changes something or the configuration was a draft, one version row is added under
  the version that the configuration now has, one more than before when it was published already. The row
  holds the percentages that are now live and the cells of the request, or the stored ones when it has
  none: these are exactly the live cells when the request names every stored cell or none; of a partial
  request the row holds only the cells named, not the others that stay live. When nothing changes, no
  version row is added and the version stays. The rates of every other configuration stay as they are.\<close>

theorem published_rates_are_recorded:
  assumes "book_ok env b" "config_by_id b i = Some g" "cells_fit env (pq_cells dto)"
    and "params_fit env (resolveParams g (pq_params dto))" "publish_config env b i dto actorId = (b', Inr r)"
  shows "config_by_id b' i = Some (pz_config r) \<and> cg_status (pz_config r) = C_PUBLISHED \<and>
    cg_params (pz_config r) = resolveParams g (pq_params dto) \<and>
    live b' i = set (pq_cells dto) \<union> {x \<in> live b i. rate_key x \<notin> rate_key ` set (pq_cells dto)} \<and>
    (if pz_ratesUnchanged r then rb_versions b' = rb_versions b \<and> cg_version (pz_config r) = cg_version g
     else \<exists>v. rb_versions b' = rb_versions b @ [v] \<and> vn_configId v = i \<and>
            vn_version v = cg_version (pz_config r) \<and> rs_params (vn_snapshot v) = cg_params (pz_config r) \<and>
            set (rs_cells (vn_snapshot v)) = (if pq_cells dto = [] then live b i else set (pq_cells dto)) \<and>
            (pq_cells dto = [] \<or> rate_key ` live b i \<subseteq> rate_key ` set (pq_cells dto) \<longrightarrow>
               set (rs_cells (vn_snapshot v)) = live b' i) \<and>
            cg_version (pz_config r) = (if cg_status g = C_PUBLISHED then cg_version g + 1 else cg_version g)) \<and>
    (\<forall>j. j \<noteq> i \<longrightarrow> config_by_id b' j = config_by_id b j \<and> live b' j = live b j)"
proof -
  let ?C = "resolveCells b g (pq_cells dto)" and ?P = "resolveParams g (pq_params dto)"
  have gi: "cg_id g = i" using config_in[OF assms(2)] by auto
  note C = resolved_cells[OF assms(1) gi assms(3)]
  show ?thesis
  proof (cases "cg_status g = C_PUBLISHED \<and>
      buildRateSnapshot env (resolveCells b g []) (cg_params g) = buildRateSnapshot env ?C ?P")
    case True
    note u = publish_config_same[OF assms(2,5) True[THEN conjunct1] True[THEN conjunct2]]
    obtain g2 eff db where f: "config_by_id b i = Some g2" "cg_id g2 = i"
      "pz_config r = (published_config env dto (cg_version g) actorId eff g2)\<lparr>cg_updatedAt := rv_now env\<rparr>"
      "b' = (set_row (pz_config r) b)\<lparr>rb_ledger := db\<rparr>" "pz_ratesUnchanged r = True"
      by (rule finish_publication_Inr[OF u(1)])
    have [simp]: "g2 = g" using f(1) assms(2) by simp
    have "set ?C = live b i" using u(3) gi by (simp add: resolveCells_def live_def)
    moreover have "config_by_id b (cg_id (pz_config r)) \<noteq> None" "cg_id (pz_config r) = i"
      using assms(2) gi by (simp_all add: f(3) published_config_def)
    ultimately show ?thesis
      using f(5) C(2) u(2) assms(2)
      by (auto simp: f(4) config_by_id_set_row split: if_splits) (simp_all add: f(3) published_config_def)
  next
    case False
    let ?v = "cg_version g + (if cg_status g = C_PUBLISHED then 1 else 0)"
    obtain b1 g1 snapshot where n: "cg_id g1 = i" "cg_params g1 = ?P" "cg_status g1 = cg_status g"
      "\<forall>k. config_by_id b1 k = (if k = i then Some g1 else config_by_id b k)" "rb_versions b1 = rb_versions b"
      "live b1 i = set ?C \<union> {x \<in> live b i. rate_key x \<notin> rate_key ` set ?C}"
      "\<forall>k. k \<noteq> i \<longrightarrow> live b1 k = live b k" "rs_params snapshot = ?P" "set (rs_cells snapshot) = set ?C"
      "finish_publication env (add_version env i ?v snapshot (pq_reason dto) actorId b1) i dto ?v False actorId = (b', Inr r)"
      by (rule publish_config_new[OF assms False]) blast
    obtain g2 eff db where f: "config_by_id (add_version env i ?v snapshot (pq_reason dto) actorId b1) i = Some g2" "cg_id g2 = i"
      "pz_config r = (published_config env dto ?v actorId eff g2)\<lparr>cg_updatedAt := rv_now env\<rparr>"
      "b' = (set_row (pz_config r) (add_version env i ?v snapshot (pq_reason dto) actorId b1))\<lparr>rb_ledger := db\<rparr>"
      "pz_ratesUnchanged r = False"
      by (rule finish_publication_Inr[OF n(10)])
    have [simp]: "g2 = g1" using f(1) n(4) by simp
    have z: "cg_id (pz_config r) = i" "cg_status (pz_config r) = C_PUBLISHED" "cg_params (pz_config r) = ?P"
      "cg_version (pz_config r) = ?v"
      using n(1,2) by (simp_all add: f(3) published_config_def)
    have c: "config_by_id b' k = (if k = i then Some (pz_config r) else config_by_id b k)" for k
      using n(4) by (simp add: f(4) config_by_id_set_row z(1))
    have l: "live b' k = live b1 k" for k by (simp add: f(4))
    have v: "rb_versions b' = rb_versions b @ [\<lparr>vn_configId = i, vn_version = ?v, vn_snapshot = snapshot,
         vn_reason = pq_reason dto, vn_createdById = actorId, vn_createdAt = rv_now env\<rparr>]"
      using n(5) by (simp add: f(4) add_version_def)
    show ?thesis
      using c z(2,3) l n(6-9) C(2) v unfolding f(5) z(4) by (auto split: if_splits)
  qed
qed

subsection \<open>The demands of the ward\<close>

lemma book_view_simps [simp]:
  "lg_surveys (book_view b) = lg_surveys (rb_ledger b)" "lg_demands (book_view b) = lg_demands (rb_ledger b)"
  "lg_seq (book_view b) = lg_seq (rb_ledger b)" "lg_wards (book_view b) = lg_wards (rb_ledger b)"
  "lg_entries (book_view b) = lg_entries (rb_ledger b)"
  by (simp_all add: book_view_def)

lemma rate_audit_simps [simp]:
  "lg_surveys (rb_ledger (rate_audit a i u b)) = lg_surveys (rb_ledger b)"
  "lg_demands (rb_ledger (rate_audit a i u b)) = lg_demands (rb_ledger b)"
  "lg_seq (rb_ledger (rate_audit a i u b)) = lg_seq (rb_ledger b)"
  "lg_wards (rb_ledger (rate_audit a i u b)) = lg_wards (rb_ledger b)"
  "lg_entries (rb_ledger (rate_audit a i u b)) = lg_entries (rb_ledger b)"
  "rb_configs (rate_audit a i u b) = rb_configs b" "rb_cells (rate_audit a i u b) = rb_cells b"
  "rb_versions (rate_audit a i u b) = rb_versions b"
  by (simp_all add: rate_audit_def log_audit_def)

lemma view_find:
  "List.find (\<lambda>c. lc_wardId c = w \<and> dc_yearId c = y) (map (ledger_config_of b) (rb_configs b))
    = map_option (ledger_config_of b) (find_config b w y)"
proof -
  have "List.find P (map f xs) = map_option f (List.find (P \<circ> f) xs)" for P :: "ledger_config \<Rightarrow> bool" and f and xs :: "config_row list"
    by (induction xs) auto
  then show ?thesis by (simp add: find_config_def ledger_config_of_def Let_def o_def)
qed

lemma view_config:
  assumes "loadPublishedTaxConfigForDues (book_view b) w y = Inr cfg" "find_config b w y = Some g"
  shows "dc_id cfg = cg_id g" "dc_version cfg = cg_version g" "cg_status g = C_PUBLISHED"
proof -
  have "cfg = ledger_config_of b g" "cg_status g = C_PUBLISHED"
    using assms view_find[of w y b]
    by (simp_all add: loadPublishedTaxConfigForDues_def book_view_def ledger_config_of_def Let_def split: if_splits)
  then show "dc_id cfg = cg_id g" "dc_version cfg = cg_version g" "cg_status g = C_PUBLISHED"
    by (simp_all add: ledger_config_of_def Let_def)
qed

definition demand_at :: "ledger \<Rightarrow> string \<Rightarrow> string \<Rightarrow> string \<Rightarrow> int \<Rightarrow> bool" where
  "demand_at db surveyId yearId configId version \<longleftrightarrow>
     (\<exists>d sn. find_demand db (surveyId, yearId) = Some d \<and> dm_status d = D_PUBLISHED \<and> balanced d \<and>
        dm_snapshot d = Some sn \<and> sn_taxConfigId sn = configId \<and> sn_taxConfigVersion sn = version)"

lemma assessed_row_snapshot:
  assumes "assessable col yearId cfg rules preserve survey db"
  shows "\<exists>sn. dm_snapshot (assessed_row col now yearId cfg rules preserve actorId survey db d) = Some sn \<and>
    sn_taxConfigId sn = dc_id cfg \<and> sn_taxConfigVersion sn = dc_version cfg"
  using assms by (auto simp: assessable_def assessed_row_def published_row_def Let_def split: sum.splits option.splits)

lemma published_demands:
  assumes "decimal_column (rv_col env)" "demands_ok (rv_cuid env) (rb_ledger b)"
    and "distinct (map ds_id (lg_surveys (rb_ledger b)))"
    and "publishForWard (rv_cuid env) (rv_col env) (rv_now env) (book_view b) w y u = (db, Inr r)"
    and "find_config b w y = Some g"
    and "s \<in> set (lg_surveys (rb_ledger b))" "ls_wardId s = w" "active_survey s"
  shows "demand_at db (ds_id s) y (cg_id g) (cg_version g)"
proof -
  have ok: "demands_ok (rv_cuid env) (book_view b)" "distinct (map ds_id (lg_surveys (book_view b)))"
    using assms(2,3) by (simp_all add: demands_ok_def)
  obtain cfg rules where w: "loadPublishedTaxConfigForDues (book_view b) w y = Inr cfg" "demands_ok (rv_cuid env) db"
    "\<forall>x \<in> set (ward_surveys (book_view b) w). assessable (rv_col env) y cfg rules True x (book_view b) \<and>
      (\<exists>t. find_demand db (ds_id x, y) = Some (ward_row (rv_col env) (rv_now env) y cfg rules u x (book_view b)
         (case find_demand (book_view b) (ds_id x, y) of Some d \<Rightarrow> d
          | None \<Rightarrow> blank_demand (rv_cuid env) t (ds_id x, y))))"
    by (rule ward_rows[OF ok assms(4)])
  have s: "s \<in> set (ward_surveys (book_view b) w)" using assms(6-8) by (simp add: ward_surveys_def)
  obtain d where d: "find_demand db (ds_id s, y) = Some (ward_row (rv_col env) (rv_now env) y cfg rules u s (book_view b) d)"
    using w(3) s by blast
  have a: "assessable (rv_col env) y cfg rules True s (book_view b)" using w(3) s by blast
  show ?thesis
    unfolding demand_at_def d
    using assessed_row_published(1,2)[OF assms(1) a refl] assessed_row_snapshot[OF a] view_config[OF w(1) assms(5)]
    by (metis option.inject)
qed

definition rows_ok :: "config_row list \<Rightarrow> bool" where
  "rows_ok gs \<longleftrightarrow> distinct (map cg_id gs) \<and> distinct (map (\<lambda>g. (cg_wardId g, cg_yearId g)) gs)"

lemma book_rows_ok: "book_ok env b \<Longrightarrow> rows_ok (rb_configs b)"
  by (simp add: book_ok_def rows_ok_def)

lemma rows_ok_set_row:
  assumes "rows_ok (rb_configs b)" "config_by_id b i = Some g" "cg_id g' = i" "cg_wardId g' = cg_wardId g"
    and "cg_yearId g' = cg_yearId g"
  shows "rows_ok (rb_configs (set_row g' b))"
proof -
  have d: "distinct (map cg_id (rb_configs b))" using assms(1) by (simp add: rows_ok_def)
  have "cg_id g = i" using config_in[OF assms(2)] by blast
  then have "map cg_id (rb_configs (set_row g' b)) = map cg_id (rb_configs b)"
    "map (\<lambda>g. (cg_wardId g, cg_yearId g)) (rb_configs (set_row g' b)) = map (\<lambda>g. (cg_wardId g, cg_yearId g)) (rb_configs b)"
    by (intro set_row_map[OF d assms(2)]; simp add: assms(3,4,5))+
  then show ?thesis using assms(1) by (simp add: rows_ok_def)
qed

lemma find_config_set_row:
  assumes "rows_ok (rb_configs (set_row g' b))" "config_by_id b (cg_id g') \<noteq> None"
  shows "find_config (set_row g' b) (cg_wardId g') (cg_yearId g') = Some g'"
proof -
  have "config_by_id (set_row g' b) (cg_id g') = Some g'" using config_by_id_set_row[OF assms(2)] by simp
  then have "g' \<in> set (rb_configs (set_row g' b))" using config_in by blast
  moreover have "distinct (map (\<lambda>g. (cg_wardId g, cg_yearId g)) (rb_configs (set_row g' b)))"
    using assms(1) by (simp add: rows_ok_def)
  ultimately show ?thesis using find_config_of_in by blast
qed

lemma finish_demands:
  assumes "finish_publication env b i dto version unchanged actorId = (b', Inr r)" "rows_ok (rb_configs b)"
    and "decimal_column (rv_col env)" "demands_ok (rv_cuid env) (rb_ledger b)"
    and "distinct (map ds_id (lg_surveys (rb_ledger b)))" "config_by_id b i = Some g"
    and "s \<in> set (lg_surveys (rb_ledger b))" "ls_wardId s = cg_wardId g" "active_survey s"
  shows "demand_at (rb_ledger b') (ds_id s) (cg_yearId g) i (cg_version (pz_config r))"
proof -
  obtain g2 eff db where f: "config_by_id b i = Some g2" "cg_id g2 = i"
    "pz_config r = (published_config env dto version actorId eff g2)\<lparr>cg_updatedAt := rv_now env\<rparr>"
    "publishForWard (rv_cuid env) (rv_col env) (rv_now env)
       (book_view (rate_audit ''PUBLISH'' i actorId (set_row (pz_config r) b))) (cg_wardId g2) (cg_yearId g2) actorId
       = (db, Inr (pz_demands r))"
    "b' = (set_row (pz_config r) b)\<lparr>rb_ledger := db\<rparr>" "pz_ratesUnchanged r = unchanged"
    by (rule finish_publication_Inr[OF assms(1)])
  have [simp]: "g2 = g" using f(1) assms(6) by simp
  have z: "cg_id (pz_config r) = i" "cg_wardId (pz_config r) = cg_wardId g" "cg_yearId (pz_config r) = cg_yearId g"
    "cg_params (pz_config r) = cg_params g" "cg_version (pz_config r) = version"
    using f(2) by (simp_all add: f(3) published_config_def)
  have ok: "rows_ok (rb_configs (set_row (pz_config r) b))"
    by (rule rows_ok_set_row[OF assms(2,6) z(1,2,3)])
  let ?b = "rate_audit ''PUBLISH'' i actorId (set_row (pz_config r) b)"
  have "find_config (set_row (pz_config r) b) (cg_wardId (pz_config r)) (cg_yearId (pz_config r)) = Some (pz_config r)"
    using ok assms(6) z(1) by (intro find_config_set_row) simp_all
  then have fc: "find_config ?b (cg_wardId g) (cg_yearId g) = Some (pz_config r)"
    by (simp add: find_config_def z(2,3))
  have "demand_at db (ds_id s) (cg_yearId g) (cg_id (pz_config r)) (cg_version (pz_config r))"
    by (rule published_demands[where b = ?b and w = "cg_wardId g"])
      (use assms(3,4,5,7-9) f(4) fc in \<open>simp_all add: demands_ok_def\<close>)
  then show ?thesis by (simp add: f(5) z(1))
qed

text \<open>C12. Publishing the rates of a ward publishes the demands of the ward with it: afterwards every active
  survey of the ward has a published, balanced demand for the year of the configuration, and its
  snapshot names this configuration at exactly the version that was published.\<close>

theorem rates_reach_every_demand:
  assumes "book_ok env b" "decimal_column (rv_col env)" "demands_ok (rv_cuid env) (rb_ledger b)"
    and "distinct (map ds_id (lg_surveys (rb_ledger b)))" "config_by_id b i = Some g" "cells_fit env (pq_cells dto)"
    and "params_fit env (resolveParams g (pq_params dto))" "publish_config env b i dto actorId = (b', Inr r)"
    and "s \<in> set (lg_surveys (rb_ledger b))" "ls_wardId s = cg_wardId g" "active_survey s"
  shows "\<exists>d sn. find_demand (rb_ledger b') (ds_id s, cg_yearId g) = Some d \<and> dm_status d = D_PUBLISHED \<and> balanced d \<and>
    dm_snapshot d = Some sn \<and> sn_taxConfigId sn = i \<and> sn_taxConfigVersion sn = cg_version (pz_config r)"
proof -
  let ?C = "resolveCells b g (pq_cells dto)" and ?P = "resolveParams g (pq_params dto)"
  have ok: "rows_ok (rb_configs b)" using assms(1) by (rule book_rows_ok)
  show ?thesis
    unfolding demand_at_def[symmetric]
  proof (cases "cg_status g = C_PUBLISHED \<and>
      buildRateSnapshot env (resolveCells b g []) (cg_params g) = buildRateSnapshot env ?C ?P")
    case True
    show "demand_at (rb_ledger b') (ds_id s) (cg_yearId g) i (cg_version (pz_config r))"
      by (rule finish_demands[OF publish_config_same(1)[OF assms(5,8) True[THEN conjunct1] True[THEN conjunct2]]
            ok assms(2-5,9-11)])
  next
    case False
    let ?v = "cg_version g + (if cg_status g = C_PUBLISHED then 1 else 0)"
    obtain b1 g1 snapshot where n: "cg_id g1 = i" "cg_wardId g1 = cg_wardId g" "cg_yearId g1 = cg_yearId g"
      "\<forall>k. config_by_id b1 k = (if k = i then Some g1 else config_by_id b k)" "rb_ledger b1 = rb_ledger b"
      "rb_configs b1 = rb_configs (set_row g1 b)"
      "finish_publication env (add_version env i ?v snapshot (pq_reason dto) actorId b1) i dto ?v False actorId = (b', Inr r)"
      by (rule publish_config_new[OF assms(1,5-8) False]) blast
    have ok1: "rows_ok (rb_configs (add_version env i ?v snapshot (pq_reason dto) actorId b1))"
      using rows_ok_set_row[OF ok assms(5) n(1,2,3)] n(6) by (simp add: add_version_def)
    show "demand_at (rb_ledger b') (ds_id s) (cg_yearId g) i (cg_version (pz_config r))"
      unfolding n(3)[symmetric]
      by (rule finish_demands[OF n(7) ok1]) (use assms(2,3,4,9-11) n(2,4,5) in simp_all)
  qed
qed

subsection \<open>Copying to all wards\<close>

text \<open>What one ward's turn leaves of the others: their rows and their rates; and its own row keeps its id.\<close>

definition others_keep :: "string \<Rightarrow> string \<Rightarrow> rate_book \<Rightarrow> rate_book \<Rightarrow> bool" where
  "others_keep w y b b' \<longleftrightarrow> (\<forall>x \<in> set (rb_configs b).
     if cg_wardId x = w \<and> cg_yearId x = y
     then \<exists>x' \<in> set (rb_configs b'). cg_id x' = cg_id x \<and> cg_wardId x' = w \<and> cg_yearId x' = y
     else x \<in> set (rb_configs b') \<and> live b' (cg_id x) = live b (cg_id x))"

lemma others_keep_refl: "others_keep w y b b"
  by (auto simp: others_keep_def)

lemma others_keep_trans:
  assumes "others_keep w y a b" "others_keep w y b c"
  shows "others_keep w y a c"
  unfolding others_keep_def
proof
  fix x assume x: "x \<in> set (rb_configs a)"
  have ab: "if cg_wardId x = w \<and> cg_yearId x = y
     then \<exists>x' \<in> set (rb_configs b). cg_id x' = cg_id x \<and> cg_wardId x' = w \<and> cg_yearId x' = y
     else x \<in> set (rb_configs b) \<and> live b (cg_id x) = live a (cg_id x)"
    using assms(1) x unfolding others_keep_def by blast
  have bc: "if cg_wardId z = w \<and> cg_yearId z = y
     then \<exists>x' \<in> set (rb_configs c). cg_id x' = cg_id z \<and> cg_wardId x' = w \<and> cg_yearId x' = y
     else z \<in> set (rb_configs c) \<and> live c (cg_id z) = live b (cg_id z)" if "z \<in> set (rb_configs b)" for z
    using assms(2) that unfolding others_keep_def by blast
  show "if cg_wardId x = w \<and> cg_yearId x = y
     then \<exists>x' \<in> set (rb_configs c). cg_id x' = cg_id x \<and> cg_wardId x' = w \<and> cg_yearId x' = y
     else x \<in> set (rb_configs c) \<and> live c (cg_id x) = live a (cg_id x)"
  proof (cases "cg_wardId x = w \<and> cg_yearId x = y")
    case True
    then obtain x' where x': "x' \<in> set (rb_configs b)" "cg_id x' = cg_id x" "cg_wardId x' = w" "cg_yearId x' = y"
      using ab by auto
    then show ?thesis using True bc[OF x'(1)] by simp
  next
    case False
    then show ?thesis using ab bc[of x] by auto
  qed
qed

lemma book_ok_row:
  "book_ok env b \<Longrightarrow> g \<in> set (rb_configs b) \<Longrightarrow>
    1 \<le> cg_version g \<and> params_fit env (cg_params g) \<and> (\<exists>n < lg_seq (rb_ledger b). cg_id g = rv_cuid env n)"
  by (simp add: book_ok_def)

lemma book_ok_ledger:
  assumes "book_ok env b" "rb_configs b' = rb_configs b" "rb_cells b' = rb_cells b"
    and "lg_seq (rb_ledger b) \<le> lg_seq (rb_ledger b')"
  shows "book_ok env b'"
proof -
  have "\<exists>n < lg_seq (rb_ledger b'). cg_id g = rv_cuid env n" if g: "g \<in> set (rb_configs b)" for g
  proof -
    obtain n where "n < lg_seq (rb_ledger b)" "cg_id g = rv_cuid env n"
      using book_ok_row[OF assms(1) g] by blast
    then show ?thesis using assms(4) by (intro exI[of _ n]) simp
  qed
  then show ?thesis using assms(1) by (simp add: book_ok_def assms(2,3))
qed

lemma live_same: "rb_cells b' = rb_cells b \<Longrightarrow> live b' = live b"
  by (simp add: fun_eq_iff live_def cells_of_def)

lemma ensure_cells_only: "ensure_cells b i ps = (b', Inr u) \<Longrightarrow> cells_only i b b'"
proof (induction ps arbitrary: b)
  case (Cons p ps)
  obtain road con where p: "p = (road, con)" by fastforce
  obtain b1 where u: "upsert_cell b i road con 0 (\<lambda>c. c) = (b1, Inr ())" "ensure_cells b1 i ps = (b', Inr u)"
    using Cons.prems by (auto simp: p and_then_Inr)
  have "cells_only i b b1" by (rule upsert_cells_only[OF u(1)]) simp
  then show ?case using Cons.IH[OF u(2)] by (rule cells_only_trans)
qed simp

lemma ensure_cells_ok:
  assumes "ensure_cells b i ps = (b', Inr u)" "book_ok env b" "i \<in> cg_id ` set (rb_configs b)" "fits (rv_rate env) 0"
  shows "book_ok env b'"
  using assms(1-3)
proof (induction ps arbitrary: b)
  case (Cons p ps)
  obtain road con where p: "p = (road, con)" by fastforce
  obtain b1 where u: "upsert_cell b i road con 0 (\<lambda>c. c) = (b1, Inr ())" "ensure_cells b1 i ps = (b', Inr u)"
    using Cons.prems(1) by (auto simp: p and_then_Inr)
  have "book_ok env b1"
    by (rule upsert_book_ok[OF Cons.prems(2,3) assms(4) u(1)]) simp_all
  moreover have "cells_only i b b1" by (rule upsert_cells_only[OF u(1)]) simp
  ultimately show ?case using Cons.IH[OF u(2)] Cons.prems(3) by (simp add: cells_only_def)
qed simp

definition defaults_fit :: "rate_env \<Rightarrow> bool" where
  "defaults_fit env \<longleftrightarrow> inj (rv_cuid env) \<and> column (rv_rate env) \<and> fits (rv_rate env) 0 \<and> params_fit env default_params"

lemma getOrCreate_facts:
  assumes "getOrCreate env b w y u = (b', Inr g)" "book_ok env b" "defaults_fit env"
  shows "book_ok env b'" "g \<in> set (rb_configs b')" "cg_wardId g = w" "cg_yearId g = y" "others_keep w y b b'"
    "lg_wards (rb_ledger b') = lg_wards (rb_ledger b)"
proof -
  have "book_ok env b' \<and> g \<in> set (rb_configs b') \<and> cg_wardId g = w \<and> cg_yearId g = y \<and> others_keep w y b b' \<and>
    lg_wards (rb_ledger b') = lg_wards (rb_ledger b)"
  proof (cases "find_config b w y")
    case (Some g0)
    then have "g0 \<in> set (rb_configs b) \<and> cg_wardId g0 = w \<and> cg_yearId g0 = y"
      unfolding find_config_def by (rule find_Some_in)
    then show ?thesis using assms(1,2) Some by (auto simp: getOrCreate_def others_keep_refl)
  next
    case None
    let ?i = "rv_cuid env (lg_seq (rb_ledger b))"
    define b1 where "b1 = b\<lparr>rb_configs := rb_configs b @ [new_config env ?i w y],
        rb_ledger := (rb_ledger b)\<lparr>lg_seq := Suc (lg_seq (rb_ledger b))\<rparr>\<rparr>"
    obtain b2 where e: "ensureMatrixCells b1 ?i = (b2, Inr ())" "b' = rate_audit ''CREATE'' ?i u b2" "g = new_config env ?i w y"
      using assms(1) None by (auto simp: getOrCreate_def Let_def and_then_Inr b1_def split: if_splits)
    have old: "\<exists>n < lg_seq (rb_ledger b). cg_id x = rv_cuid env n" if "x \<in> set (rb_configs b)" for x
      using assms(2) that by (simp add: book_ok_def)
    have fresh: "cg_id x \<noteq> ?i" if "x \<in> set (rb_configs b)" for x
      using old[OF that] assms(3) by (auto simp: defaults_fit_def inj_eq)
    have nokey: "\<not> (cg_wardId x = w \<and> cg_yearId x = y)" if "x \<in> set (rb_configs b)" for x
      using None that by (auto simp: find_config_def find_None_iff)
    have seq: "\<exists>n < Suc (lg_seq (rb_ledger b)). cg_id x = rv_cuid env n" if "x \<in> set (rb_configs b)" for x
      using old[OF that] less_SucI by blast
    have rows: "\<forall>x \<in> set (rb_configs b). 1 \<le> cg_version x \<and> params_fit env (cg_params x) \<and>
        (\<exists>n < Suc (lg_seq (rb_ledger b)). cg_id x = rv_cuid env n)"
      using assms(2) seq by (simp add: book_ok_def)
    have cells: "\<forall>c \<in> set (rb_cells b). fits (rv_rate env) (cl_annualRatePerSqFt c) \<and>
        cl_configId c \<in> insert ?i (cg_id ` set (rb_configs b))"
      using assms(2) by (simp add: book_ok_def)
    have "?i \<notin> cg_id ` set (rb_configs b)" using fresh by (metis imageE)
    then have d1: "distinct (map cg_id (rb_configs b @ [new_config env ?i w y]))"
      using assms(2) by (simp add: book_ok_def new_config_def)
    have "(w, y) \<notin> (\<lambda>g. (cg_wardId g, cg_yearId g)) ` set (rb_configs b)"
    proof
      assume "(w, y) \<in> (\<lambda>g. (cg_wardId g, cg_yearId g)) ` set (rb_configs b)"
      then obtain x where "x \<in> set (rb_configs b)" "(w, y) = (cg_wardId x, cg_yearId x)" by (rule imageE)
      then show False using nokey[of x] by simp
    qed
    then have d2: "distinct (map (\<lambda>g. (cg_wardId g, cg_yearId g)) (rb_configs b @ [new_config env ?i w y]))"
      using assms(2) by (simp add: book_ok_def new_config_def)
    have "\<exists>n < Suc (lg_seq (rb_ledger b)). cg_id (new_config env ?i w y) = rv_cuid env n"
      by (intro exI[of _ "lg_seq (rb_ledger b)"]) (simp add: new_config_def)
    moreover have "1 \<le> cg_version (new_config env ?i w y)" "params_fit env (cg_params (new_config env ?i w y))"
      using assms(3) by (simp_all add: new_config_def defaults_fit_def)
    ultimately have rows': "\<forall>x \<in> set (rb_configs b @ [new_config env ?i w y]). 1 \<le> cg_version x \<and>
        params_fit env (cg_params x) \<and> (\<exists>n < Suc (lg_seq (rb_ledger b)). cg_id x = rv_cuid env n)"
      using rows by (metis UnE empty_iff list.set(1) list.set(2) insertE set_append)
    have cells': "\<forall>c \<in> set (rb_cells b). fits (rv_rate env) (cl_annualRatePerSqFt c) \<and>
        cl_configId c \<in> cg_id ` set (rb_configs b @ [new_config env ?i w y])"
      using cells by (simp add: new_config_def)
    have b1: "rb_configs b1 = rb_configs b @ [new_config env ?i w y]" "rb_cells b1 = rb_cells b"
      "lg_seq (rb_ledger b1) = Suc (lg_seq (rb_ledger b))" by (simp_all add: b1_def)
    have "book_ok env b1"
      unfolding book_ok_def b1 using d1 d2 rows' cells' assms(2)[unfolded book_ok_def] by blast
    moreover have "?i \<in> cg_id ` set (rb_configs b1)" by (simp add: b1 new_config_def)
    moreover have "fits (rv_rate env) 0" using assms(3) by (simp add: defaults_fit_def)
    ultimately have ok: "book_ok env b2" using ensure_cells_ok[OF e(1)[unfolded ensureMatrixCells_def]] by blast
    have c: "cells_only ?i b1 b2" using e(1) ensure_cells_only unfolding ensureMatrixCells_def by blast
    have "live b' (cg_id x) = live b (cg_id x)" if "x \<in> set (rb_configs b)" for x
    proof -
      have "cells_of b2 (cg_id x) = cells_of b1 (cg_id x)" using c fresh[OF that] by (simp add: cells_only_def)
      then show ?thesis by (simp add: e(2) live_def cells_of_def b1_def)
    qed
    moreover have "rb_configs b' = rb_configs b @ [g]" using c by (simp add: e(2,3) cells_only_def b1_def)
    ultimately have "others_keep w y b b'" using nokey by (auto simp: others_keep_def)
    moreover have "book_ok env b'" by (rule book_ok_ledger[OF ok]) (simp_all add: e(2))
    ultimately show ?thesis
      using c by (auto simp: e(2,3) cells_only_def b1_def new_config_def)
  qed
  then show "book_ok env b'" "g \<in> set (rb_configs b')" "cg_wardId g = w" "cg_yearId g = y" "others_keep w y b b'"
    "lg_wards (rb_ledger b') = lg_wards (rb_ledger b)" by blast+
qed

lemma others_keep_set_row:
  assumes "rows_ok (rb_configs b)" "config_by_id b i = Some g" "cg_id g' = i" "cg_wardId g' = cg_wardId g"
    and "cg_yearId g' = cg_yearId g" "rb_configs b' = rb_configs (set_row g' b)" "\<forall>j. j \<noteq> i \<longrightarrow> live b' j = live b j"
  shows "others_keep (cg_wardId g) (cg_yearId g) b b'"
  unfolding others_keep_def
proof
  fix x assume x: "x \<in> set (rb_configs b)"
  have g: "g \<in> set (rb_configs b)" "cg_id g = i" using config_in[OF assms(2)] by auto
  have "inj_on (\<lambda>g. (cg_wardId g, cg_yearId g)) (set (rb_configs b))" "inj_on cg_id (set (rb_configs b))"
    using assms(1) by (simp_all add: rows_ok_def distinct_map)
  then have same: "cg_wardId x = cg_wardId g \<and> cg_yearId x = cg_yearId g \<longleftrightarrow> cg_id x = i"
    using x g by (auto dest: inj_onD)
  have row: "(if cg_id x = i then g' else x) \<in> set (rb_configs b')"
    using x assms(3) unfolding assms(6) set_row_def by auto
  show "if cg_wardId x = cg_wardId g \<and> cg_yearId x = cg_yearId g
     then \<exists>x' \<in> set (rb_configs b'). cg_id x' = cg_id x \<and> cg_wardId x' = cg_wardId g \<and> cg_yearId x' = cg_yearId g
     else x \<in> set (rb_configs b') \<and> live b' (cg_id x) = live b (cg_id x)"
    using row assms(3,4,5,7) same by (cases "cg_id x = i") auto
qed

text \<open>A ward that has the rates of the source at its version, or whose configuration is archived.\<close>

definition aligned :: "cell_input list \<Rightarrow> rate_params \<Rightarrow> int \<Rightarrow> string \<Rightarrow> rate_book \<Rightarrow> string \<Rightarrow> bool" where
  "aligned cells params version y b w \<longleftrightarrow> (\<exists>g \<in> set (rb_configs b). cg_wardId g = w \<and> cg_yearId g = y \<and>
     cg_status g = C_PUBLISHED \<and> cg_version g = version \<and> cg_params g = params \<and> set cells \<subseteq> live b (cg_id g))"

definition adds_only :: "string \<Rightarrow> string \<Rightarrow> rate_book \<Rightarrow> rate_book \<Rightarrow> bool" where
  "adds_only w y b b' \<longleftrightarrow>
     (\<forall>x \<in> set (rb_configs b'). \<not> (cg_wardId x = w \<and> cg_yearId x = y) \<longrightarrow> x \<in> set (rb_configs b))"

lemma adds_only_same: "rb_configs b' = rb_configs b \<Longrightarrow> adds_only w y b b'"
  by (simp add: adds_only_def)

lemma adds_only_trans: "adds_only w y a b \<Longrightarrow> adds_only w y b c \<Longrightarrow> adds_only w y a c"
  by (auto simp: adds_only_def)

lemma find_config_other:
  assumes "book_ok env b" "book_ok env b'" "others_keep w y b b'" "adds_only w y b b'" "v \<noteq> w"
  shows "find_config b' v y = find_config b v y"
proof -
  have d: "distinct (map (\<lambda>g. (cg_wardId g, cg_yearId g)) (rb_configs b))"
    "distinct (map (\<lambda>g. (cg_wardId g, cg_yearId g)) (rb_configs b'))"
    using assms(1,2) by (simp_all add: book_ok_def)
  show ?thesis
  proof (cases "find_config b v y")
    case (Some g)
    then have g: "g \<in> set (rb_configs b)" "cg_wardId g = v" "cg_yearId g = y"
      unfolding find_config_def by (auto dest: find_Some_in)
    then have "g \<in> set (rb_configs b')" using assms(3,5) by (auto simp: others_keep_def)
    then show ?thesis using find_config_of_in[OF d(2)] g Some by auto
  next
    case None
    have "find_config b' v y = None"
    proof (rule ccontr)
      assume "find_config b' v y \<noteq> None"
      then obtain g where "find_config b' v y = Some g" by auto
      then have g: "g \<in> set (rb_configs b')" "cg_wardId g = v" "cg_yearId g = y"
        unfolding find_config_def by (auto dest: find_Some_in)
      then have "g \<in> set (rb_configs b)" using assms(4,5) by (auto simp: adds_only_def)
      then show False using find_config_of_in[OF d(1)] g None by auto
    qed
    then show ?thesis using None by simp
  qed
qed

text \<open>Which configuration a ward has after the copy: an archived one stays as it was, else a published one
  that is aligned with the source.\<close>

definition copied_ward ::
  "cell_input list \<Rightarrow> rate_params \<Rightarrow> int \<Rightarrow> string \<Rightarrow> config_row option \<Rightarrow> rate_book \<Rightarrow> string \<Rightarrow> bool" where
  "copied_ward cells params version y earlier b w \<longleftrightarrow>
     (if \<exists>g0. earlier = Some g0 \<and> cg_status g0 = C_ARCHIVED then find_config b w y = earlier
      else \<exists>g. find_config b w y = Some g \<and> cg_status g = C_PUBLISHED \<and> cg_version g = version
             \<and> cg_params g = params \<and> set cells \<subseteq> live b (cg_id g))"

lemma aligned_copied:
  assumes "aligned cells params version y b w" "book_ok env b" "\<not> (\<exists>g0. earlier = Some g0 \<and> cg_status g0 = C_ARCHIVED)"
  shows "copied_ward cells params version y earlier b w"
proof -
  obtain g where g: "g \<in> set (rb_configs b)" "cg_wardId g = w" "cg_yearId g = y" "cg_status g = C_PUBLISHED"
    "cg_version g = version" "cg_params g = params" "set cells \<subseteq> live b (cg_id g)"
    using assms(1) by (auto simp: aligned_def)
  have "find_config b (cg_wardId g) (cg_yearId g) = Some g"
    by (rule find_config_of_in[OF _ g(1)]) (use assms(2) in \<open>simp add: book_ok_def\<close>)
  then have "find_config b w y = Some g" using g(2,3) by simp
  then show ?thesis unfolding copied_ward_def if_not_P[OF assms(3)] using g(4-) by blast
qed

lemma copied_keep:
  assumes "copied_ward cells params version y earlier b v" "book_ok env b" "book_ok env b'"
    and "others_keep w y b b'" "adds_only w y b b'" "v \<noteq> w"
  shows "copied_ward cells params version y earlier b' v"
proof -
  have f: "find_config b' v y = find_config b v y" by (rule find_config_other[OF assms(2-6)])
  have "live b' (cg_id g) = live b (cg_id g)" if "find_config b v y = Some g" for g
  proof -
    have "g \<in> set (rb_configs b)" "cg_wardId g = v" using that unfolding find_config_def by (auto dest: find_Some_in)
    then show ?thesis using assms(4,6) by (auto simp: others_keep_def)
  qed
  then show ?thesis using assms(1) unfolding copied_ward_def f by (auto split: if_splits)
qed

lemma set_version_tables [simp]:
  "rb_configs (set_version env i v s u b) = rb_configs b" "rb_cells (set_version env i v s u b) = rb_cells b"
  "rb_ledger (set_version env i v s u b) = rb_ledger b"
  by (simp_all add: set_version_def add_version_def Let_def)

lemma apply_published_facts:
  assumes "applyPublishedRatesAtVersion env b config cells params version u = (b', Inr r)" "book_ok env b" "column (rv_rate env)"
    and "cells_fit env cells" "params_fit env params" "1 \<le> version" "cur \<in> set (rb_configs b)" "cg_id cur = cg_id config"
  shows "book_ok env b'" "aligned cells params version (cg_yearId cur) b' (cg_wardId cur)"
    "others_keep (cg_wardId cur) (cg_yearId cur) b b'" "lg_wards (rb_ledger b') = lg_wards (rb_ledger b)"
    "adds_only (cg_wardId cur) (cg_yearId cur) b b'"
proof -
  let ?i = "cg_id config"
  have rows: "rows_ok (rb_configs b)" using assms(2) by (rule book_rows_ok)
  have cur: "config_by_id b ?i = Some cur"
    using config_of_in[of b cur] rows assms(7,8) by (simp add: rows_ok_def)
  obtain b1 g1 b2 g2 where a: "and_then (writeCells env b ?i cells) (\<lambda>b _. writeParams env b ?i params) = (b1, Inr g1)"
    "update_config env (set_version env ?i version (buildRateSnapshot env cells params) u b1) ?i
       (\<lambda>g. g\<lparr>cg_status := C_PUBLISHED, cg_version := version, cg_publishedAt := Some (rv_now env),
              cg_publishedById := (if u = None then cg_publishedById g else u)\<rparr>) = (b2, Inr g2)"
    "b' = rate_audit ''COPY_PUBLISH'' ?i u b2"
    using assms(1) by (auto simp: applyPublishedRatesAtVersion_def and_then_Inr split: if_splits)
  note w = rates_written[OF cur assms(4,5) a(1)]
  let ?b = "set_version env ?i version (buildRateSnapshot env cells params) u b1"
  obtain g where g: "config_by_id ?b ?i = Some g"
    "g2 = (g\<lparr>cg_status := C_PUBLISHED, cg_version := version, cg_publishedAt := Some (rv_now env),
              cg_publishedById := (if u = None then cg_publishedById g else u)\<rparr>)\<lparr>cg_updatedAt := rv_now env\<rparr>"
    "cg_id g2 = ?i" "b2 = set_row g2 ?b"
    by (rule update_config_row[OF a(2)]) simp_all
  have "config_by_id ?b ?i = config_by_id b1 ?i" by (simp add: config_by_id_def)
  then have [simp]: "g = g1" using g(1) w(3)[of ?i] by simp
  have g2: "cg_wardId g2 = cg_wardId cur" "cg_yearId g2 = cg_yearId cur" "cg_params g2 = params" "cg_version g2 = version"
    "cg_status g2 = C_PUBLISHED"
    by (simp_all add: g(2) w(1))
  have configs: "rb_configs b' = rb_configs (set_row g2 b)"
  proof -
    have "rb_configs (set_row g2 b1) = rb_configs (set_row g2 b)"
      using w(2) g(3) by (simp add: set_row_def w(8) o_def)
    then show ?thesis by (simp add: a(3) g(4) set_row_def)
  qed
  show "adds_only (cg_wardId cur) (cg_yearId cur) b b'"
    using g2(1,2) by (auto simp: adds_only_def configs set_row_def)
  have live: "live b' = live b1" by (rule live_same) (simp add: a(3) g(4))
  show "others_keep (cg_wardId cur) (cg_yearId cur) b b'"
    by (rule others_keep_set_row[OF rows cur g(3) g2(1,2) configs]) (simp add: live w(5))
  show "lg_wards (rb_ledger b') = lg_wards (rb_ledger b)" by (simp add: a(3) g(4) w(7))
  have "g2 \<in> set (rb_configs b')"
    using assms(7,8) g(3) unfolding configs set_row_def by (auto simp: image_iff)
  then show "aligned cells params version (cg_yearId cur) b' (cg_wardId cur)"
    unfolding aligned_def using g2 g(3) w(4) live by (intro bexI[of _ g2]) auto
  obtain bx where x: "writeCells env b ?i cells = (bx, Inr ())" using a(1) by (auto simp: and_then_Inr)
  have "book_ok env bx" using writeCells_ok[OF x assms(3,2)] assms(7,8) by (metis imageI)
  moreover have bx: "rb_configs bx = rb_configs b" using writeCells_only[OF x] by (simp add: cells_only_def)
  moreover have "config_by_id bx ?i = Some cur" using cur by (simp add: config_by_id_def bx)
  ultimately have ok: "book_ok env (set_row g2 bx)"
    using assms(5,6) g(3) g2 by (intro set_row_ok) simp_all
  have "b1 = set_row g1 bx"
    using a(1) x assms(5) by (auto simp: and_then_Inr elim!: writeParams_row)
  then have "rb_cells b' = rb_cells (set_row g2 bx)" "lg_seq (rb_ledger b') = lg_seq (rb_ledger (set_row g2 bx))"
    by (simp_all add: a(3) g(4))
  moreover have "rb_configs b' = rb_configs (set_row g2 bx)" unfolding configs by (simp add: set_row_def bx)
  ultimately show "book_ok env b'" using book_ok_ledger[OF ok] by simp
qed

lemma publish_demands_facts:
  assumes "publish_demands env b w y u = (b', Inr r)" "book_ok env b"
  shows "book_ok env b'" "rb_configs b' = rb_configs b" "live b' = live b" "lg_wards (rb_ledger b') = lg_wards (rb_ledger b)"
proof -
  obtain db where d: "publishForWard (rv_cuid env) (rv_col env) (rv_now env) (book_view b) w y u = (db, Inr r)"
    "b' = b\<lparr>rb_ledger := db\<rparr>"
    using assms(1) by (rule publish_demands_Inr)
  note o = only_demands_tables[OF only_demands_publishForWard[OF d(1)]]
  show "rb_configs b' = rb_configs b" "live b' = live b" "lg_wards (rb_ledger b') = lg_wards (rb_ledger b)"
    using o by (simp_all add: d(2) fun_eq_iff)
  show "book_ok env b'" by (rule book_ok_ledger[OF assms(2)]) (use o in \<open>simp_all add: d(2)\<close>)
qed

lemma getOrCreate_adds: "getOrCreate env b w y u = (b', Inr g) \<Longrightarrow> adds_only w y b b'"
proof -
  assume a: "getOrCreate env b w y u = (b', Inr g)"
  show ?thesis
  proof (cases "find_config b w y")
    case None
    let ?i = "rv_cuid env (lg_seq (rb_ledger b))"
    let ?b1 = "b\<lparr>rb_configs := rb_configs b @ [new_config env ?i w y],
        rb_ledger := (rb_ledger b)\<lparr>lg_seq := Suc (lg_seq (rb_ledger b))\<rparr>\<rparr>"
    obtain b2 where e: "ensureMatrixCells ?b1 ?i = (b2, Inr ())" "b' = rate_audit ''CREATE'' ?i u b2"
      using a None by (auto simp: getOrCreate_def Let_def and_then_Inr split: if_splits)
    have "rb_configs b2 = rb_configs ?b1" using e(1) ensure_cells_only unfolding ensureMatrixCells_def cells_only_def by blast
    then show ?thesis by (auto simp: e(2) adds_only_def new_config_def)
  qed (use a in \<open>simp add: getOrCreate_def adds_only_same\<close>)
qed

lemma copy_to_ward_facts:
  assumes "copy_to_ward env dto source cells params u b w n = (b', Inr n')" "book_ok env b" "defaults_fit env"
    and "cells_fit env cells" "params_fit env params" "1 \<le> cg_version source" "cg_status source = C_PUBLISHED"
    and "w = cq_sourceWardId dto \<Longrightarrow> find_config b w (cq_yearId dto) = Some source"
  shows "book_ok env b'" "others_keep w (cq_yearId dto) b b'" "adds_only w (cq_yearId dto) b b'"
    "copied_ward cells params (cg_version source) (cq_yearId dto) (find_config b w (cq_yearId dto)) b' w"
proof -
  let ?y = "cq_yearId dto"
  obtain b1 config where c: "(if w = cq_sourceWardId dto then (b, Inr source) else getOrCreate env b w ?y u) = (b1, Inr config)"
    using assms(1) by (auto simp: copy_to_ward_def and_then_Inr)
  have got: "getOrCreate env b w ?y u = (b1, Inr config)"
    using c assms(8) by (auto simp: getOrCreate_def split: if_splits)
  note g = getOrCreate_facts[OF got assms(2,3)] and adds1 = getOrCreate_adds[OF got]
  have known: "find_config b w ?y = Some x \<Longrightarrow> config = x \<and> b1 = b" for x
    using got by (auto simp: getOrCreate_def)
  have created: "find_config b w ?y = None \<Longrightarrow> cg_status config = C_DRAFT"
    using got by (auto simp: getOrCreate_def Let_def and_then_Inr new_config_def split: if_splits)
  have "book_ok env b' \<and> others_keep w ?y b b' \<and> adds_only w ?y b b' \<and>
    copied_ward cells params (cg_version source) ?y (find_config b w ?y) b' w"
  proof (cases "cg_status config = C_ARCHIVED")
    case True
    then have b': "b' = b1" using assms(1) c by (auto simp: copy_to_ward_def split: if_splits)
    obtain x where "find_config b w ?y = Some x" using created True by (cases "find_config b w ?y") auto
    then have "find_config b w ?y = Some config" "b1 = b" using known by auto
    then show ?thesis using g adds1 b' True by (simp add: copied_ward_def)
  next
    case False
    obtain b2 r m where a: "applyPublishedRatesAtVersion env b1 config cells params (cg_version source) u = (b2, Inr r)"
      "publish_demands env b2 w ?y u = (b', Inr m)"
      using assms(1,7) c False g(3) by (auto simp: copy_to_ward_def and_then_Inr split: if_splits)
    have "column (rv_rate env)" using assms(3) by (simp add: defaults_fit_def)
    note p = apply_published_facts[OF a(1) g(1) this assms(4,5,6) g(2) refl, unfolded g(3,4)]
    note q = publish_demands_facts[OF a(2) p(1)]
    have keep: "others_keep w ?y b b'" using others_keep_trans[OF g(5) p(3)] q by (simp add: others_keep_def)
    have adds: "adds_only w ?y b b'" using adds_only_trans[OF adds1 p(5)] q(2) by (simp add: adds_only_def)
    have al: "aligned cells params (cg_version source) ?y b' w" using p(2) q by (simp add: aligned_def)
    have "\<not> (\<exists>g0. find_config b w ?y = Some g0 \<and> cg_status g0 = C_ARCHIVED)" using known False by auto
    then show ?thesis using keep adds q(1) aligned_copied[OF al q(1)] by blast
  qed
  then show "book_ok env b'" "others_keep w ?y b b'" "adds_only w ?y b b'"
    "copied_ward cells params (cg_version source) ?y (find_config b w ?y) b' w" by blast+
qed

lemma copy_loop_facts:
  assumes "copy_loop (copy_to_ward env dto source cells params u) b ws n = (b', Inr n')" "book_ok env b" "defaults_fit env"
    and "cells_fit env cells" "params_fit env params" "1 \<le> cg_version source" "cg_status source = C_PUBLISHED"
    and "distinct ws" "\<forall>w \<in> set ws. find_config b w (cq_yearId dto) = find_config b0 w (cq_yearId dto)"
    and "find_config b0 (cq_sourceWardId dto) (cq_yearId dto) = Some source"
    and "\<forall>w \<in> W. w \<notin> set ws \<and>
      copied_ward cells params (cg_version source) (cq_yearId dto) (find_config b0 w (cq_yearId dto)) b w"
  shows "\<forall>w \<in> W \<union> set ws.
    copied_ward cells params (cg_version source) (cq_yearId dto) (find_config b0 w (cq_yearId dto)) b' w"
  using assms(1,2,8,9,11)
proof (induction ws arbitrary: b n W)
  case (Cons w ws)
  let ?y = "cq_yearId dto"
  obtain b1 n1 where s: "copy_to_ward env dto source cells params u b w n = (b1, Inr n1)"
    "copy_loop (copy_to_ward env dto source cells params u) b1 ws n1 = (b', Inr n')"
    using Cons.prems(1) by (auto simp: and_then_Inr)
  have src: "w = cq_sourceWardId dto \<Longrightarrow> find_config b w ?y = Some source" using Cons.prems(4) assms(10) by simp
  note f = copy_to_ward_facts[OF s(1) Cons.prems(2) assms(3-7) src]
  have w: "w \<notin> set ws" "distinct ws" using Cons.prems(3) by simp_all
  have later: "\<forall>v \<in> set ws. find_config b1 v ?y = find_config b0 v ?y"
    using find_config_other[OF Cons.prems(2) f(1,2,3)] Cons.prems(4) w(1) by (metis list.set_intros(2))
  have "find_config b w ?y = find_config b0 w ?y" using Cons.prems(4) by simp
  then have now: "copied_ward cells params (cg_version source) ?y (find_config b0 w ?y) b1 w" using f(4) by simp
  have "\<forall>v \<in> insert w W. v \<notin> set ws \<and> copied_ward cells params (cg_version source) ?y (find_config b0 v ?y) b1 v"
    using now w(1) Cons.prems(5) copied_keep[OF _ Cons.prems(2) f(1,2,3)] by auto
  from Cons.IH[OF s(2) f(1) w(2) later this] show ?case by simp
qed simp

text \<open>C13. Copying the published rates of a ward to all wards aligns them: when the copy succeeds, every active
  ward whose configuration for the year was not archived, also one that had none, has a configuration that
  is published at the version of the source ward, with the percentages and every cell of the copy; an
  archived configuration is left as it was. (The cells of the request are distinct and the values fit
  their columns.)\<close>

theorem copy_aligns_all_wards:
  assumes "book_ok env b" "defaults_fit env" "distinct (map wd_id (lg_wards (rb_ledger b)))"
    and "find_config b (cq_sourceWardId dto) (cq_yearId dto) = Some source" "cg_status source = C_PUBLISHED"
    and "cells_fit env (cq_cells dto)" "params_fit env (resolveParams source (cq_params dto))"
    and "copyToAllWards env b dto actorId = (b', Inr r)" "ward \<in> set (lg_wards (rb_ledger b))" "wd_isActive ward"
  shows "if \<exists>g0. find_config b (wd_id ward) (cq_yearId dto) = Some g0 \<and> cg_status g0 = C_ARCHIVED
    then find_config b' (wd_id ward) (cq_yearId dto) = find_config b (wd_id ward) (cq_yearId dto)
    else \<exists>g. find_config b' (wd_id ward) (cq_yearId dto) = Some g \<and> cg_status g = C_PUBLISHED \<and>
      cg_version g = cg_version source \<and> cg_params g = resolveParams source (cq_params dto) \<and>
      set (resolveCells b source (cq_cells dto)) \<subseteq> live b' (cg_id g)"
proof -
  let ?cells = "resolveCells b source (cq_cells dto)" and ?params = "resolveParams source (cq_params dto)"
  let ?wards = "map wd_id (filter wd_isActive (lg_wards (rb_ledger b)))"
  have src: "source \<in> set (rb_configs b)"
    using find_Some_in[OF assms(4)[unfolded find_config_def]] by auto
  obtain n n' where l: "copy_loop (copy_to_ward env dto source ?cells ?params actorId) b ?wards n = (b', Inr n')"
    using assms(8) by (auto simp: copyToAllWards_def getOrCreate_def assms(4) and_then_Inr Let_def)
  have fit: "cells_fit env ?cells"
    using assms(1,6) live_cells_fit by (simp add: resolveCells_def)
  have "\<forall>w \<in> {} \<union> set ?wards.
      copied_ward ?cells ?params (cg_version source) (cq_yearId dto) (find_config b w (cq_yearId dto)) b' w"
    by (rule copy_loop_facts[OF l assms(1,2) fit assms(7) _ assms(5) _ _ assms(4)])
      (use book_ok_row[OF assms(1) src] distinct_map_filter[OF assms(3)] in auto)
  moreover have "wd_id ward \<in> set ?wards" using assms(9,10) by simp
  ultimately have "copied_ward ?cells ?params (cg_version source) (cq_yearId dto)
      (find_config b (wd_id ward) (cq_yearId dto)) b' (wd_id ward)" by blast
  then show ?thesis unfolding copied_ward_def .
qed

subsection \<open>A sample\<close>

text \<open>Two wards, the first with published rates; a request changes its one cell.\<close>

definition sample_env :: rate_env where
  "sample_env =
     \<lparr>rv_cuid = unary, rv_col = round_column, rv_pct = Some, rv_rate = Some, rv_now = 1000, rv_date = (\<lambda>_. None),
      rv_localeCompare = (\<lambda>_ _. 0)\<rparr>"

definition sample_params :: rate_params where
  "sample_params =
     \<lparr>rp_propertyTaxPct = 25, rp_waterTaxPct = 10, rp_drainageTaxPct = 5, rp_penaltyPct = 0,
      rp_assessablePct = 80, rp_commercialAssessablePct = 80\<rparr>"

definition sample_config :: "int \<Rightarrow> int \<Rightarrow> config_row" where
  "sample_config version updatedAt =
     \<lparr>cg_id = unary 0, cg_wardId = ''w1'', cg_yearId = ''y1'', cg_status = C_PUBLISHED, cg_version = version,
      cg_effectiveFrom = None, cg_params = sample_params, cg_publishedAt = Some updatedAt, cg_publishedById = None,
      cg_changeReason = None, cg_updatedAt = updatedAt\<rparr>"

definition sample_cell :: "js_number \<Rightarrow> cell_row" where
  "sample_cell rate =
     \<lparr>cl_configId = unary 0, cl_roadWidthEntryId = ''z1'', cl_constructionEntryId = ''k1'', cl_annualRatePerSqFt = rate\<rparr>"

definition sample_ledger :: "ledger_survey list \<Rightarrow> ledger" where
  "sample_ledger surveys = plot_ledger\<lparr>lg_seq := 1,
     lg_wards := [\<lparr>wd_id = ''w1'', wd_number = 1, wd_name = ''Ward 1'', wd_code = ''001'', wd_isActive = True\<rparr>,
                  \<lparr>wd_id = ''w2'', wd_number = 2, wd_name = ''Ward 2'', wd_code = ''002'', wd_isActive = True\<rparr>],
     lg_entries := [(''y1'', \<lparr>en_category = ''ASSESSMENT_YEAR'', en_code = ''2024-25'', en_name = ''2024-25'',
                              en_active = True, en_sortOrder = 0\<rparr>),
                    (''z1'', \<lparr>en_category = ''TAX_RATE_ZONE'', en_code = ''BELOW_9M'', en_name = ''Zone 1'',
                              en_active = True, en_sortOrder = 0\<rparr>),
                    (''k1'', \<lparr>en_category = ''CONSTRUCTION_TYPE'', en_code = ''OPEN_LAND'', en_name = ''Open land'',
                              en_active = True, en_sortOrder = 0\<rparr>)],
     lg_surveys := surveys, lg_configs := []\<rparr>"

definition sample_book :: "ledger_survey list \<Rightarrow> rate_book" where
  "sample_book surveys =
     \<lparr>rb_configs = [sample_config 1 0], rb_cells = [sample_cell 3], rb_versions = [], rb_ledger = sample_ledger surveys\<rparr>"

definition no_patch :: rate_patch where
  "no_patch =
     \<lparr>rq_propertyTaxPct = None, rq_waterTaxPct = None, rq_drainageTaxPct = None, rq_penaltyPct = None,
      rq_assessablePct = None, rq_commercialAssessablePct = None\<rparr>"

definition lower_rate :: cell_input where
  "lower_rate = \<lparr>ci_roadWidthEntryId = ''z1'', ci_constructionEntryId = ''k1'', ci_annualRatePerSqFt = 2\<rparr>"

definition sample_request :: publish_request where
  "sample_request = \<lparr>pq_reason = Some ''revision'', pq_effectiveFrom = None, pq_cells = [lower_rate], pq_params = no_patch\<rparr>"

lemma sample_fits [simp]:
  "params_fit sample_env p" "fits (rv_rate sample_env) x" "fits (rv_pct sample_env) x" "rv_rate sample_env x = Some x"
  "rv_pct sample_env x = Some x" "rv_now sample_env = 1000" "column (rv_rate sample_env)" "rv_cuid sample_env = unary"
  by (simp_all add: sample_env_def params_fit_def fits_def column_def)

lemma sample_defaults: "defaults_fit sample_env"
  by (simp add: defaults_fit_def inj_unary)

lemma sample_ok: "book_ok sample_env (sample_book surveys)"
  by (simp add: book_ok_def sample_book_def sample_config_def sample_cell_def sample_ledger_def)

lemma sample_config_found: "config_by_id (sample_book surveys) (unary 0) = Some (sample_config 1 0)"
  by (simp add: config_by_id_def sample_book_def sample_config_def)

lemma sample_written:
  "writeCells sample_env (sample_book surveys) (unary 0) [lower_rate]
     = ((sample_book surveys)\<lparr>rb_cells := [sample_cell 2]\<rparr>, Inr ())"
  by (simp add: upsert_cell_def sample_book_def same_cell_def sample_cell_def lower_rate_def)

lemma sample_params_written:
  "writeParams sample_env b (i) p =
     (case config_by_id b (i) of None \<Rightarrow> (b, Inl Config_database_error)
      | Some g \<Rightarrow> update_config sample_env b (i) (cg_params_update (\<lambda>_. p)))"
  by (simp add: writeParams_def patch_params_def stored_whole split: option.split)

definition revised_book :: "ledger_survey list \<Rightarrow> rate_book" where
  "revised_book surveys =
     (let g = (sample_config 2 1000)\<lparr>cg_changeReason := Some ''revision''\<rparr> in
      \<lparr>rb_configs = [g], rb_cells = [sample_cell 2],
       rb_versions = [\<lparr>vn_configId = unary 0, vn_version = 2,
          vn_snapshot = \<lparr>rs_params = sample_params, rs_cells = [lower_rate]\<rparr>, vn_reason = Some ''revision'',
          vn_createdById = None, vn_createdAt = 1000\<rparr>],
       rb_ledger = log_audit ''PUBLISH'' ''TaxConfig'' (Some (unary 0)) None (sample_ledger surveys)\<rparr>)"

lemma sample_publication:
  "publish_config sample_env (sample_book surveys) (unary 0) sample_request None =
     (case publish_demands sample_env (revised_book surveys) ''w1'' ''y1'' None of
        (b, Inl e) \<Rightarrow> (b, Inl e)
      | (b, Inr n) \<Rightarrow> (b, Inr \<lparr>pz_config = (sample_config 2 1000)\<lparr>cg_changeReason := Some ''revision''\<rparr>,
                               pz_demands = n, pz_ratesUnchanged = False\<rparr>))"
proof -
  have c: "resolveCells (sample_book surveys) (sample_config 1 0) [] = [lower_rate\<lparr>ci_annualRatePerSqFt := 3\<rparr>]"
    "resolveCells b g [lower_rate] = [lower_rate]" for b g
    by (simp_all add: resolveCells_def cells_of_def sample_book_def sample_cell_def sample_config_def input_of_cell_def lower_rate_def)
  have p: "resolveParams (sample_config 1 0) no_patch = sample_params" "has_payload sample_request"
    by (simp_all add: resolveParams_def no_patch_def sample_config_def nullish_def has_payload_def sample_request_def Let_def sample_params_def)
  have s: "buildRateSnapshot sample_env [lower_rate\<lparr>ci_annualRatePerSqFt := 3\<rparr>] q \<noteq> buildRateSnapshot sample_env [lower_rate] q'" for q q'
    by (simp add: buildRateSnapshot_def sort_by_def lower_rate_def)
  have row: "cg_status (sample_config v t) = C_PUBLISHED" "cg_version (sample_config v t) = v"
    "cg_params (sample_config v t) = sample_params" "cg_wardId (sample_config v t) = ''w1''"
    "cg_yearId (sample_config v t) = ''y1''" for v t
    by (simp_all add: sample_config_def)
  let ?b1 = "(sample_book surveys)\<lparr>rb_cells := [sample_cell 2]\<rparr>"
  let ?g1 = "(sample_config 1 0)\<lparr>cg_updatedAt := 1000\<rparr>"
  have w: "writeParams sample_env ?b1 (unary 0) sample_params = (?b1\<lparr>rb_configs := [?g1]\<rparr>, Inr ?g1)"
    by (simp add: sample_params_written config_by_id_def sample_book_def update_config_def sample_config_def Let_def)
  have u: "update_config sample_env (add_version sample_env (unary 0) 2 snap (Some ''revision'') None (?b1\<lparr>rb_configs := [?g1]\<rparr>)) (unary 0)
      (published_config sample_env sample_request 2 None None)
    = (add_version sample_env (unary 0) 2 snap (Some ''revision'') None
         (?b1\<lparr>rb_configs := [(sample_config 2 1000)\<lparr>cg_changeReason := Some ''revision''\<rparr>]\<rparr>),
       Inr ((sample_config 2 1000)\<lparr>cg_changeReason := Some ''revision''\<rparr>))" for snap
    by (simp add: update_config_def config_by_id_def add_version_def published_config_def sample_config_def sample_request_def Let_def)
  have r: "rate_audit ''PUBLISH'' (unary 0) None (add_version sample_env (unary 0) 2
      (buildRateSnapshot sample_env [lower_rate] sample_params) (Some ''revision'') None
      (?b1\<lparr>rb_configs := [(sample_config 2 1000)\<lparr>cg_changeReason := Some ''revision''\<rparr>]\<rparr>)) = revised_book surveys"
    by (simp add: rate_audit_def add_version_def revised_book_def sample_book_def buildRateSnapshot_def sort_by_def Let_def)
  have req: "pq_cells sample_request = [lower_rate]" "pq_params sample_request = no_patch" "pq_effectiveFrom sample_request = None"
    "pq_reason sample_request = Some ''revision''"
    by (simp_all add: sample_request_def)
  show ?thesis
    by (simp add: publish_config_def sample_config_found row req c p s sample_written w Let_def finish_publication_def u r
        resolveParams_none unset_def and_then_def[of "publish_demands _ _ _ _ _"] del: writeCells.simps split: prod.splits sum.splits)
qed

lemma revised_view:
  "rb_ledger (revised_book surveys) = log_audit ''PUBLISH'' ''TaxConfig'' (Some (unary 0)) None (sample_ledger surveys)"
  by (simp add: revised_book_def Let_def)

lemma revised_config:
  "loadPublishedTaxConfigForDues (book_view (revised_book surveys)) ''w1'' ''y1''
    = Inr (ledger_config_of (revised_book surveys) ((sample_config 2 1000)\<lparr>cg_changeReason := Some ''revision''\<rparr>))"
  by (simp add: loadPublishedTaxConfigForDues_def book_view_def revised_book_def Let_def ledger_config_of_def sample_config_def)

lemma revised_rates:
  "taxConfigToRateTable (ledger_config_of (revised_book surveys) ((sample_config 2 1000)\<lparr>cg_changeReason := Some ''revision''\<rparr>))
    = plot_rates"
  by (simp add: taxConfigToRateTable_def plot_rates_def plot_config_def ledger_config_of_def revised_book_def cells_of_def
      sample_config_def sample_cell_def sample_params_def entry_text_def sample_ledger_def log_audit_def rate_cell_step_def
      toTaxNumber_def is_missing_def Let_def)

lemma revised_publication:
  "\<exists>b n. publish_demands sample_env (revised_book [plot_survey]) ''w1'' ''y1'' None = (b, Inr n)"
proof -
  let ?db = "book_view (revised_book [plot_survey])"
  let ?cfg = "ledger_config_of (revised_book [plot_survey]) ((sample_config 2 1000)\<lparr>cg_changeReason := Some ''revision''\<rparr>)"
  have c: "assertAssessmentYear ?db ''y1'' = Inr ()" "loadPublishedRules ?db ''y1'' 1000 = []"
    "ward_surveys ?db ''w1'' = [plot_survey]" "''w1'' \<in> wd_id ` set (lg_wards (rb_ledger (revised_book [plot_survey])))" "lg_demands ?db = []" "lg_payments ?db = []"
    by (simp_all add: assertAssessmentYear_def loadPublishedRules_def book_view_def revised_view sample_ledger_def plot_ledger_def
        log_audit_def guard_def ward_surveys_def active_survey_def plot_survey_def)
  have a: "assessable round_column y ?cfg [] preserve plot_survey ?db" for y preserve
    by (rule plot_assessed_with[OF revised_rates c(5,6)])
  have "\<exists>db r. publishForWard unary round_column 1000 ?db ''w1'' ''y1'' None = (db, Inr r)"
    by (simp add: publishForWard_def c revised_config ward_pages_foldl ward_step_def upsert_alt a Let_def)
  then show ?thesis by (auto simp: publish_demands_def sample_env_def)
qed

lemma sample_live: "live (sample_book surveys) (unary 0) = {lower_rate\<lparr>ci_annualRatePerSqFt := 3\<rparr>}"
  by (simp add: live_def cells_of_def sample_book_def sample_cell_def input_of_cell_def lower_rate_def)

lemma sample_published:
  obtains b' r where "publish_config sample_env (sample_book [plot_survey]) (unary 0) sample_request None = (b', Inr r)"
    "pz_ratesUnchanged r = False" "cg_version (pz_config r) = 2"
proof -
  obtain b n where "publish_demands sample_env (revised_book [plot_survey]) ''w1'' ''y1'' None = (b, Inr n)"
    using revised_publication by blast
  then have "publish_config sample_env (sample_book [plot_survey]) (unary 0) sample_request None
      = (b, Inr \<lparr>pz_config = (sample_config 2 1000)\<lparr>cg_changeReason := Some ''revision''\<rparr>, pz_demands = n,
                 pz_ratesUnchanged = False\<rparr>)"
    by (simp add: sample_publication)
  then show thesis by (rule that) (simp_all add: sample_config_def)
qed

lemma sample_request_ok: "cells_fit sample_env (pq_cells sample_request)"
  by (simp add: cells_fit_def sample_request_def lower_rate_def)

lemma published_rates_are_recorded_witness:
  "\<exists>b' r. publish_config sample_env (sample_book [plot_survey]) (unary 0) sample_request None = (b', Inr r) \<and>
     live b' (unary 0) = {lower_rate} \<and> cg_version (pz_config r) = 2 \<and>
     (\<exists>v. rb_versions b' = [v] \<and> vn_version v = 2 \<and> set (rs_cells (vn_snapshot v)) = {lower_rate})"
proof -
  obtain b' r where p: "publish_config sample_env (sample_book [plot_survey]) (unary 0) sample_request None = (b', Inr r)"
    "pz_ratesUnchanged r = False" "cg_version (pz_config r) = 2"
    by (rule sample_published)
  note t = published_rates_are_recorded[OF sample_ok sample_config_found sample_request_ok sample_fits(1) p(1)]
  have "rb_versions (sample_book [plot_survey]) = []" "pq_cells sample_request = [lower_rate]"
    by (simp_all add: sample_book_def sample_request_def)
  moreover have "{x \<in> live (sample_book [plot_survey]) (unary 0). rate_key x \<notin> rate_key ` {lower_rate}} = {}"
    by (auto simp: sample_live rate_key_def lower_rate_def)
  ultimately show ?thesis using t p by auto
qed

lemma rates_reach_every_demand_witness:
  "\<exists>b' r d sn. publish_config sample_env (sample_book [plot_survey]) (unary 0) sample_request None = (b', Inr r) \<and>
     find_demand (rb_ledger b') (''s1'', ''y1'') = Some d \<and> dm_snapshot d = Some sn \<and> sn_taxConfigVersion sn = 2"
proof -
  obtain b' r where p: "publish_config sample_env (sample_book [plot_survey]) (unary 0) sample_request None = (b', Inr r)"
    "pz_ratesUnchanged r = False" "cg_version (pz_config r) = 2"
    by (rule sample_published)
  have h: "decimal_column (rv_col sample_env)" "demands_ok (rv_cuid sample_env) (rb_ledger (sample_book [plot_survey]))"
    "distinct (map ds_id (lg_surveys (rb_ledger (sample_book [plot_survey]))))"
    "plot_survey \<in> set (lg_surveys (rb_ledger (sample_book [plot_survey])))"
    "ls_wardId plot_survey = cg_wardId (sample_config 1 0)" "active_survey plot_survey"
    using round_column_decimal inj_unary
    by (simp_all add: sample_env_def sample_book_def sample_ledger_def plot_ledger_def demands_ok_def plot_survey_def
        sample_config_def active_survey_def)
  have "ds_id plot_survey = ''s1''" "cg_yearId (sample_config 1 0) = ''y1''" by (simp_all add: plot_survey_def sample_config_def)
  then show ?thesis
    using rates_reach_every_demand[OF sample_ok h(1-3) sample_config_found sample_request_ok sample_fits(1) p(1) h(4-6)] p(1,3)
    by auto
qed

lemma no_surveys:
  assumes "lg_surveys (rb_ledger b) = []" "w \<in> wd_id ` set (lg_wards (rb_ledger b))"
    and "assertAssessmentYear (rb_ledger b) y = Inr ()" "find_config b w y = Some g" "cg_status g = C_PUBLISHED"
  shows "publish_demands env b w y u =
    (b\<lparr>rb_ledger := log_audit ''PUBLISH_WARD'' ''PropertyDemand'' (Some (w @ '':'' @ y)) u (book_view b)\<rparr>,
     Inr \<lparr>wr_created = 0, wr_updated = 0, wr_total = 0\<rparr>)"
proof -
  have "lc_status (ledger_config_of b g) = C_PUBLISHED" by (simp add: ledger_config_of_def Let_def assms(5))
  then have "loadPublishedTaxConfigForDues (book_view b) w y = Inr (ledger_config_of b g)"
    using view_find[of w y b] by (simp add: loadPublishedTaxConfigForDues_def book_view_def assms(4))
  moreover have "assertAssessmentYear (book_view b) y = Inr ()" "ward_surveys (book_view b) w = []"
    using assms(1,3) by (simp_all add: assertAssessmentYear_def ward_surveys_def)
  ultimately show ?thesis
    using assms(2) by (simp add: publish_demands_def publishForWard_def ward_pages_foldl)
qed

definition copy_sample :: copy_request where
  "copy_sample = \<lparr>cq_sourceWardId = ''w1'', cq_yearId = ''y1'', cq_cells = [lower_rate], cq_params = no_patch\<rparr>"

definition copy_book :: rate_book where
  "copy_book = (sample_book [])\<lparr>rb_ledger := (sample_ledger [])\<lparr>
     lg_wards := [\<lparr>wd_id = ''w1'', wd_number = 1, wd_name = ''Ward 1'', wd_code = ''001'', wd_isActive = False\<rparr>,
                  \<lparr>wd_id = ''w2'', wd_number = 2, wd_name = ''Ward 2'', wd_code = ''002'', wd_isActive = True\<rparr>]\<rparr>\<rparr>"

definition new_cell :: "js_number \<Rightarrow> cell_row" where
  "new_cell rate =
     \<lparr>cl_configId = unary (Suc 0), cl_roadWidthEntryId = ''z1'', cl_constructionEntryId = ''k1'', cl_annualRatePerSqFt = rate\<rparr>"

definition created_book :: rate_book where
  "created_book = copy_book\<lparr>rb_configs := [sample_config 1 0, new_config sample_env (unary (Suc 0)) ''w2'' ''y1''],
     rb_cells := [sample_cell 3, new_cell 0],
     rb_ledger := log_audit ''CREATE'' ''TaxConfig'' (Some (unary (Suc 0))) None ((rb_ledger copy_book)\<lparr>lg_seq := 2\<rparr>)\<rparr>"

lemma unary_ne [simp]: "unary 0 \<noteq> unary (Suc 0)" "unary (Suc 0) \<noteq> unary 0"
  by (simp_all add: unary_def)

lemma copy_created: "getOrCreate sample_env copy_book ''w2'' ''y1'' None = (created_book, Inr (new_config sample_env (unary (Suc 0)) ''w2'' ''y1''))"
proof -
  have "find_config copy_book ''w2'' ''y1'' = None" "''w2'' \<in> wd_id ` set (lg_wards (rb_ledger copy_book))"
    "entry_exists copy_book ''y1''" "lg_seq (rb_ledger copy_book) = 1"
    by (simp_all add: find_config_def copy_book_def sample_book_def sample_config_def entry_exists_def sample_ledger_def)
  moreover have "ensureMatrixCells (copy_book\<lparr>rb_configs := rb_configs copy_book @ [new_config sample_env (unary (Suc 0)) ''w2'' ''y1''],
       rb_ledger := (rb_ledger copy_book)\<lparr>lg_seq := 2\<rparr>\<rparr>) (unary (Suc 0))
     = (created_book\<lparr>rb_ledger := (rb_ledger copy_book)\<lparr>lg_seq := 2\<rparr>\<rparr>, Inr ())"
    by (simp add: ensureMatrixCells_def matrix_entries_def sort_by_def upsert_cell_def same_cell_def created_book_def copy_book_def
        sample_book_def sample_cell_def new_cell_def sample_ledger_def entry_exists_def)
  ultimately show ?thesis
    by (simp add: getOrCreate_def Let_def rate_audit_def created_book_def numeral_2_eq_2)
qed

lemma copy_applied:
  "\<exists>b2. applyPublishedRatesAtVersion sample_env created_book (new_config sample_env (unary (Suc 0)) ''w2'' ''y1'') [lower_rate] sample_params 1 None
     = (b2, Inr ()) \<and> lg_surveys (rb_ledger b2) = [] \<and> lg_wards (rb_ledger b2) = lg_wards (rb_ledger copy_book) \<and>
     lg_entries (rb_ledger b2) = lg_entries (rb_ledger copy_book) \<and>
     (\<exists>g. find_config b2 ''w2'' ''y1'' = Some g \<and> cg_status g = C_PUBLISHED)"
  by (simp add: applyPublishedRatesAtVersion_def new_config_def lower_rate_def upsert_cell_def same_cell_def created_book_def
      copy_book_def sample_book_def new_cell_def sample_cell_def sample_config_def sample_params_written config_by_id_def
      update_config_def Let_def set_version_def add_version_def find_config_def rate_audit_def log_audit_def sample_ledger_def plot_ledger_def)

lemma copy_done: "\<exists>b' r. copyToAllWards sample_env copy_book copy_sample None = (b', Inr r)"
proof -
  obtain b2 g where a: "applyPublishedRatesAtVersion sample_env created_book (new_config sample_env (unary (Suc 0)) ''w2'' ''y1'') [lower_rate] sample_params 1 None
     = (b2, Inr ())" "lg_surveys (rb_ledger b2) = []" "lg_wards (rb_ledger b2) = lg_wards (rb_ledger copy_book)"
    "lg_entries (rb_ledger b2) = lg_entries (rb_ledger copy_book)" "find_config b2 ''w2'' ''y1'' = Some g" "cg_status g = C_PUBLISHED"
    using copy_applied by blast
  have w: "''w2'' \<in> wd_id ` set (lg_wards (rb_ledger b2))" "assertAssessmentYear (rb_ledger b2) ''y1'' = Inr ()"
    by (simp_all add: a(3,4) assertAssessmentYear_def guard_def copy_book_def sample_ledger_def)
  have f: "find_config copy_book ''w1'' ''y1'' = Some (sample_config 1 0)"
    "map wd_id (filter wd_isActive (lg_wards (rb_ledger copy_book))) = [''w2'']"
    by (simp_all add: find_config_def copy_book_def sample_book_def sample_config_def)
  have p: "resolveParams (sample_config 1 0) no_patch = sample_params" "resolveCells b s [lower_rate] = [lower_rate]" for b s
    by (simp_all add: resolveParams_def no_patch_def sample_config_def nullish_def Let_def sample_params_def resolveCells_def)
  have c: "cg_status (sample_config 1 0) = C_PUBLISHED" "cg_version (sample_config 1 0) = 1"
    "cg_status (new_config sample_env i w y) = C_DRAFT" "cg_wardId (new_config sample_env i w y) = w" for i w y
    by (simp_all add: sample_config_def new_config_def)
  show ?thesis
    by (simp add: copyToAllWards_def copy_sample_def getOrCreate_def[of _ _ "''w1''"] f Let_def p copy_to_ward_def copy_created c a(1)
        no_surveys[OF a(2) w a(5,6)])
qed

lemma copy_aligns_all_wards_witness:
  "\<exists>b' r g. copyToAllWards sample_env copy_book copy_sample None = (b', Inr r) \<and> find_config b' ''w2'' ''y1'' = Some g \<and>
     cg_status g = C_PUBLISHED \<and> cg_version g = 1 \<and> lower_rate \<in> live b' (cg_id g)"
proof -
  obtain b' r where d: "copyToAllWards sample_env copy_book copy_sample None = (b', Inr r)" using copy_done by blast
  let ?w = "\<lparr>wd_id = ''w2'', wd_number = 2, wd_name = ''Ward 2'', wd_code = ''002'', wd_isActive = True\<rparr>"
  have h: "book_ok sample_env copy_book" "distinct (map wd_id (lg_wards (rb_ledger copy_book)))"
    "find_config copy_book (cq_sourceWardId copy_sample) (cq_yearId copy_sample) = Some (sample_config 1 0)"
    "cg_status (sample_config 1 0) = C_PUBLISHED" "cells_fit sample_env (cq_cells copy_sample)"
    "?w \<in> set (lg_wards (rb_ledger copy_book))" "wd_isActive ?w"
    using sample_ok[of "[]"]
    by (simp_all add: copy_book_def book_ok_def find_config_def copy_sample_def sample_book_def sample_config_def cells_fit_def
        sample_ledger_def)
  have none: "find_config copy_book ''w2'' ''y1'' = None"
    by (simp add: find_config_def copy_book_def sample_book_def sample_config_def)
  have e: "wd_id ?w = ''w2''" "cq_yearId copy_sample = ''y1''" "cg_version (sample_config 1 0) = 1"
    "set (resolveCells copy_book (sample_config 1 0) (cq_cells copy_sample)) = {lower_rate}"
    by (simp_all add: copy_sample_def sample_config_def resolveCells_def)
  show ?thesis
    using copy_aligns_all_wards[OF h(1) sample_defaults h(2,3,4,5) sample_fits(1) d h(6,7), unfolded e] d none by auto
qed

end
