(* ===== verification/YearEndFacts.thy ===== *)
theory YearEndFacts
  imports YearEnd
begin

text \<open>
  What a committed year end leaves behind. The relation \<open>carried_to\<close> says what one previewed row does
  to the demand of its survey in the new year; it composes over the rows because they have distinct
  surveys, and its sums are exact in paise.
\<close>

subsection \<open>One row\<close>

definition carried_to ::
  "(js_number \<Rightarrow> js_number option) \<Rightarrow> ledger \<Rightarrow> ledger \<Rightarrow> string \<times> string \<Rightarrow> string \<Rightarrow> js_number \<Rightarrow> bool" where
  "carried_to col db db' key fromY out \<longleftrightarrow>
     (\<exists>t. find_demand db' key = Some t \<and>
        (find_demand db key = Some t \<and> arrears_of db' (dm_id t) = arrears_of db (dm_id t)
           \<and> (\<exists>a \<in> set (arrears_of db (dm_id t)). da_sourceYearId a = fromY)
         \<or> (\<forall>a \<in> set (arrears_of db (dm_id t)). da_sourceYearId a \<noteq> fromY)
           \<and> (\<exists>i. arrears_of db' (dm_id t) = arrears_of db (dm_id t) @
                [\<lparr>da_id = i, da_demandId = dm_id t, da_sourceYearId = fromY, da_amount = out\<rparr>])
           \<and> (case find_demand db key of
                Some e \<Rightarrow> t = e\<lparr>dm_arrears := dm_arrears t, dm_totalPayable := dm_totalPayable t,
                                dm_outstanding := dm_outstanding t\<rparr>
              | None \<Rightarrow> dm_status t = D_DRAFT \<and> dm_currentDemand t = 0 \<and> dm_amountPaid t = 0)
           \<and> (let arrearsSum = fl (foldl (\<lambda>s a. fl (s + da_amount a)) 0 (arrears_of db (dm_id t)) + out);
                  payable = roundMoney (fl (dm_currentDemand t + arrearsSum))
              in col arrearsSum = Some (dm_arrears t) \<and> col payable = Some (dm_totalPayable t)
                 \<and> col (roundMoney (max 0 (fl (payable - dm_amountPaid t)))) = Some (dm_outstanding t))))"

text \<open>The tables that a year end does not touch.\<close>

definition year_end_frame :: "ledger \<Rightarrow> ledger \<Rightarrow> bool" where
  "year_end_frame db db' \<longleftrightarrow>
     lg_wards db' = lg_wards db \<and> lg_users db' = lg_users db \<and> lg_entries db' = lg_entries db \<and>
     lg_surveys db' = lg_surveys db \<and> lg_configs db' = lg_configs db \<and> lg_rules db' = lg_rules db \<and>
     lg_payments db' = lg_payments db \<and> lg_callbacks db' = lg_callbacks db \<and>
     lg_transactions db' = lg_transactions db \<and> lg_refunds db' = lg_refunds db \<and>
     lg_settlements db' = lg_settlements db"

lemma frame_put_demand: "year_end_frame db (put_demand cuid db key f)"
  by (simp add: year_end_frame_def put_demand_def update_demand_def split: option.split)

lemma frame_carried: "year_end_frame db (update_demand i f (add_arrear cuid j y out db))"
  by (simp add: year_end_frame_def update_demand_def add_arrear_def)

text \<open>The foreign key of arrears: each belongs to a demand.\<close>

definition arrears_owned :: "ledger \<Rightarrow> bool" where
  "arrears_owned db \<longleftrightarrow> da_demandId ` set (lg_arrears db) \<subseteq> dm_id ` set (lg_demands db)"

lemma ids_update_demand [simp]: "keeps_keys f \<Longrightarrow> dm_id ` set (lg_demands (update_demand i f db)) = dm_id ` set (lg_demands db)"
proof -
  assume "keeps_keys f"
  then have "map dm_id (lg_demands (update_demand i f db)) = map dm_id (lg_demands db)"
    by (simp add: update_demand_def keeps_keys_def)
  then show ?thesis by (metis list.set_map)
qed

lemma ids_put_demand: "keeps_keys f \<Longrightarrow> dm_id ` set (lg_demands db) \<subseteq> dm_id ` set (lg_demands (put_demand cuid db key f))"
  by (cases "find_demand db key") (auto simp: put_demand_def)

lemma fresh_id_owned:
  assumes "demands_ok cuid db" "arrears_owned db"
  shows "arrears_of db (cuid (lg_seq db)) = []"
proof -
  have "dm_id d \<noteq> cuid (lg_seq db)" if d: "d \<in> set (lg_demands db)" for d
  proof -
    obtain i where "i < lg_seq db" "dm_id d = cuid i" using assms(1) d by (auto simp: demands_ok_def)
    then show ?thesis using assms(1) by (auto simp: demands_ok_def dest: injD)
  qed
  then have "cuid (lg_seq db) \<notin> da_demandId ` set (lg_arrears db)"
    using assms(2) unfolding arrears_owned_def by (metis imageE subsetD)
  then show ?thesis unfolding arrears_of_def filter_empty_conv by (metis imageI)
qed

lemma arrears_of_add:
  "arrears_of (add_arrear cuid i y out db) j = arrears_of db j @
     (if j = i then [\<lparr>da_id = cuid (lg_seq db), da_demandId = i, da_sourceYearId = y, da_amount = out\<rparr>] else [])"
  by (simp add: arrears_of_def add_arrear_def)

lemma arrears_of_same: "lg_arrears db' = lg_arrears db \<Longrightarrow> arrears_of db' = arrears_of db"
  by (simp add: arrears_of_def fun_eq_iff)

lemma carry_step_carried:
  assumes "demands_ok cuid db" "arrears_owned db"
    and "carry_step cuid col fromY toY (Some (db, c, s)) row = Some (db', c', s')"
  shows "carried_to col db db' (pr_surveyId row, toY) fromY (pr_fromOutstanding row) \<and> year_end_frame db db' \<and>
    arrears_owned db' \<and>
    (\<exists>t. find_demand db' (pr_surveyId row, toY) = Some t \<and>
       (\<forall>i. i \<noteq> dm_id t \<longrightarrow> arrears_of db' i = arrears_of db i))"
proof -
  let ?key = "(pr_surveyId row, toY)" and ?out = "pr_fromOutstanding row"
  define db1 where "db1 = (if find_demand db ?key = None then put_demand cuid db ?key (draft_row ?out) else db)"
  have ok1: "demands_ok cuid db1" using assms(1) put_demand_ok[OF assms(1)] by (simp add: db1_def)
  have frame1: "year_end_frame db db1" using frame_put_demand by (simp add: db1_def year_end_frame_def)
  have arr1: "arrears_of db1 = arrears_of db" by (rule arrears_of_same) (simp add: db1_def)
  have own1: "arrears_owned db1"
    using assms(2) ids_put_demand[of "draft_row ?out" db cuid ?key] by (auto simp: db1_def arrears_owned_def)
  obtain t where t: "find_demand db1 ?key = Some t"
    using find_put_demand[OF assms(1)] by (cases "find_demand db ?key") (simp_all add: db1_def)
  have base: "case find_demand db ?key of Some e \<Rightarrow> t = e
      | None \<Rightarrow> dm_status t = D_DRAFT \<and> dm_currentDemand t = 0 \<and> dm_amountPaid t = 0 \<and> arrears_of db (dm_id t) = []"
  proof (cases "find_demand db ?key")
    case None
    then have n: "t = draft_row ?out (blank_demand cuid db ?key)"
      using t find_put_demand[OF assms(1), of "draft_row ?out" ?key ?key] by (simp add: db1_def)
    then have "dm_id t = cuid (lg_seq db)" by (simp add: draft_row_def blank_demand_def)
    then show ?thesis using None n fresh_id_owned[OF assms(1,2)] by (simp add: draft_row_def)
  qed (use t in \<open>simp add: db1_def\<close>)
  show ?thesis
  proof (cases "list_ex (\<lambda>a. da_sourceYearId a = fromY) (arrears_of db1 (dm_id t))")
    case True
    then have d: "db' = db1"
      using assms(3) t by (auto simp: carry_step_def Let_def db1_def[symmetric])
    have had: "\<exists>a \<in> set (arrears_of db (dm_id t)). da_sourceYearId a = fromY"
      using True unfolding arr1 by (simp add: list_ex_iff)
    then have "find_demand db ?key = Some t" using base by (cases "find_demand db ?key") auto
    then have "carried_to col db db' ?key fromY ?out"
      unfolding carried_to_def d using t arr1 had by (intro exI[of _ t] conjI disjI1) auto
    then show ?thesis using t frame1 own1 arr1 d by auto
  next
    case False
    then have "map_option (\<lambda>db2. (db2, c + 1, s)) (carry_into cuid col fromY db1 t ?out) = Some (db', c', s')"
      using assms(3) t by (simp add: carry_step_def Let_def db1_def[symmetric])
    then have into: "carry_into cuid col fromY db1 t ?out = Some db'" by auto
    define asum where "asum = fl (foldl (\<lambda>s a. fl (s + da_amount a)) 0 (arrears_of db (dm_id t)) + ?out)"
    define p where "p = roundMoney (fl (dm_currentDemand t + asum))"
    obtain a y u where c: "col asum = Some a" "col p = Some y" "col (roundMoney (max 0 (fl (p - dm_amountPaid t)))) = Some u"
      and db': "db' = update_demand (dm_id t) (arrear_row a y u) (add_arrear cuid (dm_id t) fromY ?out db1)"
      using into unfolding carry_into_def new_balance_def Let_def arr1 prod.case asum_def p_def
      by (auto split: option.splits)
    have ok2: "demands_ok cuid (add_arrear cuid (dm_id t) fromY ?out db1)" by (rule add_arrear_ok[OF ok1])
    let ?t = "arrear_row a y u t"
    have t': "find_demand db' ?key = Some ?t"
      unfolding db' by (simp add: find_update_demand[OF ok2] t)
    have r: "dm_id ?t = dm_id t" "dm_arrears ?t = a" "dm_totalPayable ?t = y" "dm_outstanding ?t = u"
      "dm_currentDemand ?t = dm_currentDemand t" "dm_amountPaid ?t = dm_amountPaid t" "dm_status ?t = dm_status t"
      by (simp_all add: arrear_row_def)
    have arr: "arrears_of db' j = arrears_of db j @
        (if j = dm_id t then [\<lparr>da_id = cuid (lg_seq db1), da_demandId = dm_id t, da_sourceYearId = fromY, da_amount = ?out\<rparr>] else [])" for j
      unfolding db' arrears_of_same[OF update_demand_same(1)] arrears_of_add arr1 by (rule refl)
    have none: "\<forall>a \<in> set (arrears_of db (dm_id t)). da_sourceYearId a \<noteq> fromY"
      using False unfolding arr1 by (simp add: list_ex_iff)
    have frow: "case find_demand db ?key of
        Some e \<Rightarrow> ?t = e\<lparr>dm_arrears := dm_arrears ?t, dm_totalPayable := dm_totalPayable ?t, dm_outstanding := dm_outstanding ?t\<rparr>
      | None \<Rightarrow> dm_status ?t = D_DRAFT \<and> dm_currentDemand ?t = 0 \<and> dm_amountPaid ?t = 0"
      using base by (cases "find_demand db ?key") (simp_all add: r, simp add: arrear_row_def)
    have "carried_to col db db' ?key fromY ?out"
      unfolding carried_to_def
      by (intro exI[of _ ?t] conjI disjI2 t')
         (use none arr frow c in \<open>simp_all add: r Let_def asum_def[symmetric] p_def[symmetric] del: option.case\<close>)
    moreover have "year_end_frame db db'"
      using frame1 frame_carried[of db1] unfolding db' year_end_frame_def by simp
    moreover have "arrears_owned db'"
    proof -
      have "dm_id t \<in> dm_id ` set (lg_demands db1)" using find_demand_in[OF t] by blast
      then show ?thesis using own1 unfolding db' arrears_owned_def by (simp add: add_arrear_def)
    qed
    ultimately show ?thesis using t' arr r(1) by auto
  qed
qed

subsection \<open>All rows\<close>

lemma carried_to_later:
  "carried_to col db db1 key fromY out \<Longrightarrow> find_demand db1 key = Some t \<Longrightarrow> find_demand db' key = Some t \<Longrightarrow>
   arrears_of db' (dm_id t) = arrears_of db1 (dm_id t) \<Longrightarrow> carried_to col db db' key fromY out"
  unfolding carried_to_def by auto

lemma carried_to_earlier:
  "carried_to col db1 db' key fromY out \<Longrightarrow> find_demand db1 key = find_demand db key \<Longrightarrow> find_demand db' key = Some t \<Longrightarrow>
   arrears_of db1 (dm_id t) = arrears_of db (dm_id t) \<Longrightarrow> carried_to col db db' key fromY out"
  unfolding carried_to_def by auto

lemma year_end_frame_refl: "year_end_frame db db"
  by (simp add: year_end_frame_def)

lemma year_end_frame_trans: "year_end_frame a b \<Longrightarrow> year_end_frame b c \<Longrightarrow> year_end_frame a c"
  by (simp add: year_end_frame_def)

lemma carry_all:
  assumes "demands_ok cuid db" "arrears_unique db" "arrears_owned db" "distinct (map pr_surveyId rows)"
    and "foldl (carry_step cuid col fromY toY) (Some (db, c, s)) rows = Some (db', c', s')"
  shows "year_end_frame db db' \<and>
    (\<forall>r \<in> set rows. carried_to col db db' (pr_surveyId r, toY) fromY (pr_fromOutstanding r)) \<and>
    (\<forall>i. (\<forall>r \<in> set rows. \<forall>t. find_demand db' (pr_surveyId r, toY) = Some t \<longrightarrow> dm_id t \<noteq> i) \<longrightarrow>
       arrears_of db' i = arrears_of db i)"
  using assms
proof (induction rows arbitrary: db c s)
  case (Cons row rows)
  let ?key = "(pr_surveyId row, toY)"
  obtain db1 c1 s1 where st: "carry_step cuid col fromY toY (Some (db, c, s)) row = Some (db1, c1, s1)"
    using Cons.prems(5) carry_none by (cases "carry_step cuid col fromY toY (Some (db, c, s)) row") auto
  note one = carry_step_row[OF Cons.prems(1,2) st] and two = carry_step_carried[OF Cons.prems(1,3) st]
  have rest: "foldl (carry_step cuid col fromY toY) (Some (db1, c1, s1)) rows = Some (db', c', s')"
    using Cons.prems(5) st by simp
  have ok1: "demands_ok cuid db1" "arrears_unique db1" "arrears_owned db1" using one two by blast+
  have dr: "distinct (map pr_surveyId rows)" "pr_surveyId row \<notin> pr_surveyId ` set rows" using Cons.prems(4) by auto
  note rows = carry_rows[OF ok1(1,2) dr(1) rest] and IH = Cons.IH[OF ok1 dr(1) rest]
  have ok': "demands_ok cuid db'" using rows by blast
  obtain t where t: "find_demand db1 ?key = Some t" "\<forall>i. i \<noteq> dm_id t \<longrightarrow> arrears_of db1 i = arrears_of db i"
    using two by blast
  have "?key \<notin> (\<lambda>r. (pr_surveyId r, toY)) ` set rows" using dr(2) by auto
  then have t': "find_demand db' ?key = Some t" using rows t(1) by metis
  have ids: "dm_id e \<noteq> dm_id t" if "r \<in> set rows" "find_demand db' (pr_surveyId r, toY) = Some e" for r e
  proof
    assume same: "dm_id e = dm_id t"
    have "e = t"
      using find_demand_id_unique[OF ok'] find_demand_in[OF that(2)] find_demand_in[OF t'] same by (metis option.inject)
    then have "pr_surveyId r = pr_surveyId row" using find_demand_in[OF that(2)] find_demand_in[OF t'] by simp
    then show False using dr(2) that(1) by (metis image_eqI)
  qed
  have head: "carried_to col db db' ?key fromY (pr_fromOutstanding row)"
  proof (rule carried_to_later)
    show "arrears_of db' (dm_id t) = arrears_of db1 (dm_id t)" using IH ids by blast
  qed (use two t t' in blast)+
  have tail: "carried_to col db db' (pr_surveyId r, toY) fromY (pr_fromOutstanding r)" if r: "r \<in> set rows" for r
  proof -
    have c: "carried_to col db1 db' (pr_surveyId r, toY) fromY (pr_fromOutstanding r)" using IH r by blast
    then obtain e where e: "find_demand db' (pr_surveyId r, toY) = Some e" by (auto simp: carried_to_def)
    have "(pr_surveyId r, toY) \<noteq> ?key" using dr(2) r by (metis image_eqI prod.inject)
    then have "find_demand db1 (pr_surveyId r, toY) = find_demand db (pr_surveyId r, toY)" using one by blast
    moreover have "arrears_of db1 (dm_id e) = arrears_of db (dm_id e)" using t(2) ids[OF r e] by blast
    ultimately show ?thesis by (rule carried_to_earlier[OF c _ e])
  qed
  have other: "arrears_of db' i = arrears_of db i"
    if "\<forall>r \<in> set (row # rows). \<forall>t. find_demand db' (pr_surveyId r, toY) = Some t \<longrightarrow> dm_id t \<noteq> i" for i
    using that t' t(2) IH by (metis list.set_intros(1) list.set_intros(2))
  have "year_end_frame db db'" using two IH year_end_frame_trans by blast
  then show ?case using head tail other by auto
qed (simp add: year_end_frame_refl)

subsection \<open>Exact sums\<close>

text \<open>Amounts are values of their decimal columns.\<close>

definition money_columns :: "ledger \<Rightarrow> bool" where
  "money_columns db \<longleftrightarrow>
     (\<forall>d \<in> set (lg_demands db). \<exists>n. in_column n \<and> dm_currentDemand d = paise n) \<and>
     (\<forall>a \<in> set (lg_arrears db). \<exists>n. in_column n \<and> da_amount a = paise n)"

fun fold_width :: "nat \<Rightarrow> nat" where
  "fold_width 0 = 0"
| "fold_width (Suc k) = fold_width k + 1 + Suc k"

lemma near_paise_mono: "near_paise p w x n \<Longrightarrow> p \<le> q \<Longrightarrow> w \<le> v \<Longrightarrow> near_paise q v x n"
proof -
  assume a: "near_paise p w x n" "p \<le> q" "w \<le> v"
  have "int p * 100000000000000 \<le> int q * 100000000000000" using a(2) by simp
  moreover have "(of_nat w :: rat) / 9000 \<le> of_nat v / 9000" using a(3) by (simp add: divide_right_mono)
  ultimately show ?thesis using a(1) unfolding near_paise_def by linarith
qed

lemma near_fold:
  "\<forall>a \<in> set as. \<exists>n. in_column n \<and> da_amount a = paise n \<Longrightarrow> length as \<le> 50 \<Longrightarrow>
   near_paise (length as) (fold_width (length as)) (foldl (\<lambda>s a. fl (s + da_amount a)) 0 as)
     (\<Sum>a \<leftarrow> as. paise_of (da_amount a))"
proof (induction as rule: rev_induct)
  case Nil
  then show ?case by (simp add: near_paise_def)
next
  case (snoc a as)
  obtain n where n: "in_column n" "da_amount a = paise n" using snoc.prems(1) by auto
  have w: "fold_width k \<le> k * (k + 3)" for k
  proof (induction k)
    case (Suc k)
    have "Suc k * (Suc k + 3) = k * (k + 3) + (2 * k + 4)" by (simp add: algebra_simps)
    then show ?case using Suc by simp
  qed simp
  have "fold_width (length as) \<le> length as * (length as + 3)" by (rule w)
  also have "\<dots> \<le> 50 * 53" using snoc.prems(2) by (intro mult_mono) auto
  finally have le: "1 + fold_width (length as) \<le> 9000" by simp
  have "near_paise (1 + length as) (1 + fold_width (length as) + (1 + length as))
      (fl (da_amount a + foldl (\<lambda>s a. fl (s + da_amount a)) 0 as)) (n + (\<Sum>a \<leftarrow> as. paise_of (da_amount a)))"
    using snoc near_paise_self[OF n(1)] n(2) by (intro near_add) (use le in auto)
  then show ?case using n by (simp add: paise_of_paise add.commute add.left_commute)
qed

lemma fold_width_six: "k \<le> 6 \<Longrightarrow> fold_width k \<le> 27"
proof -
  assume "k \<le> 6"
  moreover have "mono fold_width" by (rule monoI, erule dec_induct) auto
  ultimately have "fold_width k \<le> fold_width 6" by (rule monoD[rotated])
  then show ?thesis by (simp add: numeral_eq_Suc)
qed

lemma carried_amounts:
  assumes "decimal_column col" "in_column c" "in_column m" "dm_currentDemand t = paise c" "dm_amountPaid t = paise m"
    and "\<forall>a \<in> set as. \<exists>n. in_column n \<and> da_amount a = paise n" "length as \<le> 6"
    and "asum = foldl (\<lambda>s a. fl (s + da_amount a)) 0 as"
    and "payable = roundMoney (fl (dm_currentDemand t + asum))"
    and "col asum = Some a" "col payable = Some p"
    and "col (roundMoney (max 0 (fl (payable - dm_amountPaid t)))) = Some u"
  shows "a = paise (\<Sum>a \<leftarrow> as. paise_of (da_amount a)) \<and>
    p = paise (paise_of (dm_currentDemand t) + (\<Sum>a \<leftarrow> as. paise_of (da_amount a))) \<and>
    u = paise (max 0 (paise_of (dm_currentDemand t) + (\<Sum>a \<leftarrow> as. paise_of (da_amount a)) - paise_of (dm_amountPaid t)))"
proof -
  let ?n = "\<Sum>a \<leftarrow> as. paise_of (da_amount a)"
  have l50: "length as \<le> 50" using assms(7) by linarith
  have near: "near_paise 6 27 asum ?n"
    unfolding assms(8) by (rule near_paise_mono[OF near_fold[OF assms(6) l50] assms(7) fold_width_six[OF assms(7)]])
  then have "near_paise 8 36 asum ?n" by (rule near_paise_mono) simp_all
  then have "col asum = (if in_column ?n then Some (paise ?n) else None)"
    using assms(1) unfolding decimal_column_def by blast
  then have a: "a = paise ?n" using assms(10) by (simp split: if_splits)
  have "near_paise (1 + 6) (1 + 27 + (1 + 6)) (fl (paise c + asum)) (c + ?n)"
    by (rule near_add[OF near_paise_self[OF assms(2)] near]) simp_all
  then have pay: "payable = paise (c + ?n)"
    unfolding assms(9,4) by (intro roundMoney_near[where p = 7 and w = 35]) simp_all
  have p: "in_column (c + ?n)" "p = paise (c + ?n)" using col_paise[OF assms(1)] assms(11) unfolding pay by blast+
  have "u = paise (max 0 (c + ?n - m))"
    using stored_balance[OF assms(1) p(1) assms(3)] assms(12) unfolding pay assms(5) by blast
  moreover have "paise_of (dm_currentDemand t) = c" "paise_of (dm_amountPaid t) = m"
    using assms(2-5) by (simp_all add: paise_of_paise)
  ultimately show ?thesis using a p(2) by simp
qed

subsection \<open>Which balances are carried\<close>

lemma insert_by_sorted:
  "sorted_wrt (\<lambda>a b. dm_outstanding b \<le> dm_outstanding a) xs \<Longrightarrow>
   sorted_wrt (\<lambda>a b. dm_outstanding b \<le> dm_outstanding a) (insert_by larger_outstanding x xs)"
proof (induction xs)
  case (Cons y ys)
  then show ?case by (auto simp: larger_outstanding_def split: if_splits)
qed simp

lemma sort_by_sorted: "sorted_wrt (\<lambda>a b. dm_outstanding b \<le> dm_outstanding a) (sort_by larger_outstanding xs)"
  by (induction xs) (simp_all add: sort_by_def insert_by_sorted)

lemma sort_by_length [simp]: "length (sort_by cmp xs) = length xs"
proof -
  have "length (insert_by cmp x ys) = Suc (length ys)" for x ys by (induction ys) auto
  then show ?thesis by (induction xs) (simp_all add: sort_by_def)
qed

lemma unpaid_selection:
  assumes "ds = filter (\<lambda>d. dm_yearId d = y \<and> dm_status d = D_PUBLISHED \<and> dm_outstanding d > 0) (lg_demands db)"
  shows "set (unpaid_demands db y) \<subseteq> set ds" "length (unpaid_demands db y) = min 5000 (length ds)"
    "\<forall>d \<in> set (unpaid_demands db y). \<forall>e \<in> set ds - set (unpaid_demands db y). dm_outstanding e \<le> dm_outstanding d"
proof -
  let ?xs = "sort_by larger_outstanding ds"
  have u: "unpaid_demands db y = take 5000 ?xs" by (simp add: unpaid_demands_def assms)
  show "set (unpaid_demands db y) \<subseteq> set ds" unfolding u using set_take_subset[of 5000 ?xs] by simp
  show "length (unpaid_demands db y) = min 5000 (length ds)" unfolding u by simp
  have "sorted_wrt (\<lambda>a b. dm_outstanding b \<le> dm_outstanding a) (take 5000 ?xs @ drop 5000 ?xs)"
    by (simp add: sort_by_sorted)
  then have le: "\<forall>d \<in> set (take 5000 ?xs). \<forall>e \<in> set (drop 5000 ?xs). dm_outstanding e \<le> dm_outstanding d"
    unfolding sorted_wrt_append by blast
  have "e \<in> set (drop 5000 ?xs)" if "e \<in> set ds" "e \<notin> set (take 5000 ?xs)" for e
    using that append_take_drop_id[of 5000 ?xs] by (metis Un_iff set_append sort_by_set)
  then show "\<forall>d \<in> set (unpaid_demands db y). \<forall>e \<in> set ds - set (unpaid_demands db y). dm_outstanding e \<le> dm_outstanding d"
    unfolding u using le by blast
qed

lemma frame_put_run: "year_end_frame db (put_run cuid a b f db)"
  by (simp add: year_end_frame_def put_run_def split: option.split)

lemma frame_log_audit: "year_end_frame db (log_audit x y i u db)"
  by (simp add: year_end_frame_def log_audit_def)

text \<open>A carried balance, with its amounts.\<close>

lemma carried_to_exact:
  assumes "decimal_column col" "books_balance db" "money_columns db" "d \<in> set (lg_demands db)"
    and "carried_to col db db' key fromY (dm_outstanding d)"
  shows "\<exists>t. find_demand db' key = Some t \<and>
       (find_demand db key = Some t \<and> arrears_of db' (dm_id t) = arrears_of db (dm_id t)
          \<and> (\<exists>a \<in> set (arrears_of db (dm_id t)). da_sourceYearId a = fromY)
        \<or> (\<forall>a \<in> set (arrears_of db (dm_id t)). da_sourceYearId a \<noteq> fromY)
          \<and> (\<exists>i. arrears_of db' (dm_id t) = arrears_of db (dm_id t) @
               [\<lparr>da_id = i, da_demandId = dm_id t, da_sourceYearId = fromY, da_amount = dm_outstanding d\<rparr>])
          \<and> (case find_demand db key of
               Some e \<Rightarrow> t = e\<lparr>dm_arrears := dm_arrears t, dm_totalPayable := dm_totalPayable t,
                               dm_outstanding := dm_outstanding t\<rparr>
             | None \<Rightarrow> dm_status t = D_DRAFT \<and> dm_currentDemand t = 0 \<and> dm_amountPaid t = 0)
          \<and> (length (arrears_of db' (dm_id t)) \<le> 6 \<longrightarrow>
               (let n = \<Sum>a \<leftarrow> arrears_of db' (dm_id t). paise_of (da_amount a);
                    payable = paise_of (dm_currentDemand t) + n
                in dm_arrears t = paise n \<and> dm_totalPayable t = paise payable
                   \<and> dm_outstanding t = paise (max 0 (payable - paise_of (dm_amountPaid t))))))"
proof -
  obtain t where t: "find_demand db' key = Some t"
    and "find_demand db key = Some t \<and> arrears_of db' (dm_id t) = arrears_of db (dm_id t)
           \<and> (\<exists>a \<in> set (arrears_of db (dm_id t)). da_sourceYearId a = fromY)
         \<or> (\<forall>a \<in> set (arrears_of db (dm_id t)). da_sourceYearId a \<noteq> fromY)
           \<and> (\<exists>i. arrears_of db' (dm_id t) = arrears_of db (dm_id t) @
                [\<lparr>da_id = i, da_demandId = dm_id t, da_sourceYearId = fromY, da_amount = dm_outstanding d\<rparr>])
           \<and> (case find_demand db key of
                Some e \<Rightarrow> t = e\<lparr>dm_arrears := dm_arrears t, dm_totalPayable := dm_totalPayable t,
                                dm_outstanding := dm_outstanding t\<rparr>
              | None \<Rightarrow> dm_status t = D_DRAFT \<and> dm_currentDemand t = 0 \<and> dm_amountPaid t = 0)
           \<and> (let arrearsSum = fl (foldl (\<lambda>s a. fl (s + da_amount a)) 0 (arrears_of db (dm_id t)) + dm_outstanding d);
                  payable = roundMoney (fl (dm_currentDemand t + arrearsSum))
              in col arrearsSum = Some (dm_arrears t) \<and> col payable = Some (dm_totalPayable t)
                 \<and> col (roundMoney (max 0 (fl (payable - dm_amountPaid t)))) = Some (dm_outstanding t))"
      (is "?had \<or> ?new")
    using assms(5) unfolding carried_to_def by blast
  then consider ?had | ?new by blast
  then show ?thesis
  proof cases
    case 1
    then show ?thesis using t by (intro exI[of _ t]) simp
  next
    case 2
    let ?as = "arrears_of db' (dm_id t)"
    obtain i where i: "?as = arrears_of db (dm_id t) @
        [\<lparr>da_id = i, da_demandId = dm_id t, da_sourceYearId = fromY, da_amount = dm_outstanding d\<rparr>]"
      using 2 by blast
    define asum where "asum = fl (foldl (\<lambda>s a. fl (s + da_amount a)) 0 (arrears_of db (dm_id t)) + dm_outstanding d)"
    define payable where "payable = roundMoney (fl (dm_currentDemand t + asum))"
    have cols: "col asum = Some (dm_arrears t)" "col payable = Some (dm_totalPayable t)"
      "col (roundMoney (max 0 (fl (payable - dm_amountPaid t)))) = Some (dm_outstanding t)"
      using 2 unfolding Let_def asum_def payable_def by blast+
    have sum: "asum = foldl (\<lambda>s a. fl (s + da_amount a)) 0 ?as" by (simp add: asum_def i)
    have money: "\<exists>c m. in_column c \<and> in_column m \<and> dm_currentDemand t = paise c \<and> dm_amountPaid t = paise m"
    proof (cases "find_demand db key")
      case None
      then have "dm_currentDemand t = paise 0" "dm_amountPaid t = paise 0" using 2 by simp_all
      then show ?thesis by (intro exI[of _ 0]) (simp add: in_column_def)
    next
      case (Some e)
      then have te: "t = e\<lparr>dm_arrears := dm_arrears t, dm_totalPayable := dm_totalPayable t,
          dm_outstanding := dm_outstanding t\<rparr>" using 2 by simp
      have same: "dm_currentDemand t = dm_currentDemand e" "dm_amountPaid t = dm_amountPaid e"
        by (subst te, simp)+
      have e: "e \<in> set (lg_demands db)" using find_demand_in[OF Some] by blast
      obtain m where "in_column m" "dm_amountPaid e = paise m"
        using assms(2) e by (auto simp: books_balance_def balanced_def)
      moreover obtain c where "in_column c" "dm_currentDemand e = paise c"
        using assms(3) e by (auto simp: money_columns_def)
      ultimately show ?thesis unfolding same by blast
    qed
    obtain out where out: "dm_outstanding d = paise out" "in_column out"
      using balanced_outstanding[of d] assms(2,4) unfolding books_balance_def by blast
    have rows: "\<forall>a \<in> set ?as. \<exists>n. in_column n \<and> da_amount a = paise n"
      using assms(3) out unfolding i money_columns_def by (auto simp: arrears_of_def)
    obtain cc m where m: "in_column cc" "in_column m" "dm_currentDemand t = paise cc" "dm_amountPaid t = paise m"
      using money by blast
    have exact: "length ?as \<le> 6 \<longrightarrow>
               (let n = \<Sum>a \<leftarrow> ?as. paise_of (da_amount a); payable = paise_of (dm_currentDemand t) + n
                in dm_arrears t = paise n \<and> dm_totalPayable t = paise payable
                   \<and> dm_outstanding t = paise (max 0 (payable - paise_of (dm_amountPaid t))))"
      using carried_amounts[OF assms(1) m rows _ sum payable_def cols] unfolding Let_def by blast
    show ?thesis using t 2 exact by (intro exI[of _ t] conjI disjI2) (blast+)
  qed
qed

text \<open>C5. A committed year end carries every selected balance exactly once and books it. Selected are
  the unpaid published demands of the old year, at most 5000, the largest balances first. For each, the
  demand of the same survey in the new year either holds an arrear from the old year already, and then
  it and its arrears stay as they are, or gets exactly one new arrear of the whole outstanding amount.
  Then a demand that did not exist is a draft with nothing else due or paid, and of one that existed only
  the arrears, the total payable and the outstanding amount change: the arrears are the exact sum of the
  arrear rows (of up to six of them), the total payable is the current demand plus the arrears, the
  outstanding amount that less what was paid, or zero. No demand holds two arrears from one year, the
  counts add up, all other demands with their arrears stay as they are, those of the old year included,
  and no table but demands, arrears, runs and the audit log changes.\<close>

theorem year_end_carries_once:
  assumes "decimal_column col" "demands_ok cuid db" "books_balance db" "money_columns db"
    and "arrears_unique db" "arrears_owned db"
    and "commitYearEnd cuid col now db fromY toY actorId = (db', Inr r)" "\<not> cr_noop r"
    and "ds = filter (\<lambda>d. dm_yearId d = fromY \<and> dm_status d = D_PUBLISHED \<and> dm_outstanding d > 0) (lg_demands db)"
  shows "set (unpaid_demands db fromY) \<subseteq> set ds \<and> length (unpaid_demands db fromY) = min 5000 (length ds) \<and>
    (\<forall>d \<in> set (unpaid_demands db fromY). \<forall>e \<in> set ds - set (unpaid_demands db fromY). dm_outstanding e \<le> dm_outstanding d) \<and>
    (\<forall>d \<in> set (unpaid_demands db fromY). \<exists>t. find_demand db' (dm_surveyId d, toY) = Some t \<and>
       (find_demand db (dm_surveyId d, toY) = Some t \<and> arrears_of db' (dm_id t) = arrears_of db (dm_id t)
          \<and> (\<exists>a \<in> set (arrears_of db (dm_id t)). da_sourceYearId a = fromY)
        \<or> (\<forall>a \<in> set (arrears_of db (dm_id t)). da_sourceYearId a \<noteq> fromY)
          \<and> (\<exists>i. arrears_of db' (dm_id t) = arrears_of db (dm_id t) @
               [\<lparr>da_id = i, da_demandId = dm_id t, da_sourceYearId = fromY, da_amount = dm_outstanding d\<rparr>])
          \<and> (case find_demand db (dm_surveyId d, toY) of
               Some e \<Rightarrow> t = e\<lparr>dm_arrears := dm_arrears t, dm_totalPayable := dm_totalPayable t,
                               dm_outstanding := dm_outstanding t\<rparr>
             | None \<Rightarrow> dm_status t = D_DRAFT \<and> dm_currentDemand t = 0 \<and> dm_amountPaid t = 0)
          \<and> (length (arrears_of db' (dm_id t)) \<le> 6 \<longrightarrow>
               (let n = \<Sum>a \<leftarrow> arrears_of db' (dm_id t). paise_of (da_amount a);
                    payable = paise_of (dm_currentDemand t) + n
                in dm_arrears t = paise n \<and> dm_totalPayable t = paise payable
                   \<and> dm_outstanding t = paise (max 0 (payable - paise_of (dm_amountPaid t))))))) \<and>
    arrears_unique db' \<and> demands_ok cuid db' \<and>
    (\<exists>c s. cr_carried r = Some c \<and> cr_skipped r = Some s \<and> c + s = length (unpaid_demands db fromY) \<and>
       length (lg_arrears db') = length (lg_arrears db) + c) \<and>
    (\<forall>key. key \<notin> (\<lambda>d. (dm_surveyId d, toY)) ` set (unpaid_demands db fromY) \<longrightarrow>
       find_demand db' key = find_demand db key \<and>
       (\<forall>e. find_demand db key = Some e \<longrightarrow> arrears_of db' (dm_id e) = arrears_of db (dm_id e))) \<and>
    year_end_frame db db'"
proof -
  have "commit_new cuid col now db fromY toY actorId = (db', Inr r)"
    using commit_cases[OF assms(7)] assms(8) by blast
  then show ?thesis
  proof (cases rule: commit_new_cases)
    case (1 preview db1 c s run)
    have rows: "yp_proposedArrears preview = map (propose db fromY toY) (unpaid_demands db fromY)"
      using 1(1) by (auto simp: previewYearEnd_def res_iffs Let_def)
    have dist: "distinct (map pr_surveyId (yp_proposedArrears preview))" unfolding rows by (rule unpaid_distinct[OF assms(2)])
    note c = carry_rows[OF assms(2,5) dist 1(2)] and all = carry_all[OF assms(2,5,6) dist 1(2)]
    have same: "find_demand db' = find_demand db1" "arrears_of db' = arrears_of db1" "lg_arrears db' = lg_arrears db1"
      "year_end_frame db1 db'"
      unfolding 1(3)
      by (simp_all add: fun_eq_iff arrears_of_def)
         (rule year_end_frame_trans[OF frame_put_run frame_log_audit])
    have one: "carried_to col db db' (dm_surveyId d, toY) fromY (dm_outstanding d)"
      if "d \<in> set (unpaid_demands db fromY)" for d
    proof -
      have "propose db fromY toY d \<in> set (yp_proposedArrears preview)" unfolding rows using that by simp
      moreover have "pr_surveyId (propose db fromY toY d) = dm_surveyId d"
        "pr_fromOutstanding (propose db fromY toY d) = dm_outstanding d" by (simp_all add: propose_def Let_def)
      ultimately have "carried_to col db db1 (dm_surveyId d, toY) fromY (dm_outstanding d)" using all by metis
      then show ?thesis unfolding carried_to_def same(1,2) by assumption
    qed
    have keys: "(\<lambda>r. (pr_surveyId r, toY)) ` set (yp_proposedArrears preview)
        = (\<lambda>d. (dm_surveyId d, toY)) ` set (unpaid_demands db fromY)"
      unfolding rows by (simp add: image_image propose_def Let_def)
    have other: "find_demand db' key = find_demand db key \<and>
        (\<forall>e. find_demand db key = Some e \<longrightarrow> arrears_of db' (dm_id e) = arrears_of db (dm_id e))"
      if k: "key \<notin> (\<lambda>d. (dm_surveyId d, toY)) ` set (unpaid_demands db fromY)" for key
    proof -
      have fk: "find_demand db1 key = find_demand db key" using c k unfolding keys by blast
      have "arrears_of db1 (dm_id e) = arrears_of db (dm_id e)" if e: "find_demand db key = Some e" for e
      proof -
        have ok1: "demands_ok cuid db1" using c by blast
        have e1: "find_demand db1 key = Some e" using fk e by simp
        have "dm_id t \<noteq> dm_id e"
          if r: "row \<in> set (yp_proposedArrears preview)" and t: "find_demand db1 (pr_surveyId row, toY) = Some t" for row t
        proof
          assume "dm_id t = dm_id e"
          then have "t = e"
            using find_demand_id_unique[OF ok1] find_demand_in[OF t] find_demand_in[OF e1] by (metis option.inject)
          then have "key = (pr_surveyId row, toY)" using find_demand_in[OF t] find_demand_in[OF e1] by metis
          then show False using k r unfolding keys[symmetric] by blast
        qed
        then show ?thesis using all by blast
      qed
      then show ?thesis using fk same(1,2) by simp
    qed
    note sel = unpaid_selection[OF assms(9)]
    have books: "d \<in> set (lg_demands db)" if "d \<in> set (unpaid_demands db fromY)" for d
      using sel(1) that assms(9) by auto
    have unique: "arrears_unique db'" "demands_ok cuid db'"
      using c put_run_ok unfolding 1(3) by (simp_all add: arrears_unique_def)
    have counts: "\<exists>c s. cr_carried r = Some c \<and> cr_skipped r = Some s \<and> c + s = length (unpaid_demands db fromY) \<and>
       length (lg_arrears db') = length (lg_arrears db) + c"
      using c 1(4,5) unfolding same(3) by (intro exI[of _ c] exI[of _ s]) (simp add: rows)
    have frame: "year_end_frame db db'" using all same(4) year_end_frame_trans by blast
    show ?thesis
      by (intro conjI ballI allI impI sel(1,2) unique counts frame
          carried_to_exact[OF assms(1,3,4) books one] sel(3)[rule_format] other[THEN conjunct1] other[THEN conjunct2, rule_format])
  qed
qed

lemma year_end_carries_once_witness:
  "\<exists>db' r t. commitYearEnd unary round_column 5 unpaid_ledger ''y1'' ''y2'' None = (db', Inr r) \<and>
     find_demand db' (''s1'', ''y2'') = Some t \<and> length (arrears_of db' (dm_id t)) = 1 \<and>
     dm_status t = D_DRAFT \<and> dm_arrears t = paise 600000 \<and> dm_totalPayable t = paise 600000 \<and>
     dm_outstanding t = paise 600000"
proof -
  obtain db' r where c: "commitYearEnd unary round_column 5 unpaid_ledger ''y1'' ''y2'' None = (db', Inr r)" "\<not> cr_noop r"
    using sample_commit by blast
  have arr: "lg_arrears unpaid_ledger = []" by (simp add: unpaid_ledger_def plot_ledger_def)
  have dem: "lg_demands unpaid_ledger = [unpaid_demand]" by (simp add: unpaid_ledger_def)
  have p: "paise 600000 = 6000" "in_column 600000" "paise_of 6000 = 600000"
    using paise_of_paise[of 600000] by (simp_all add: paise_def in_column_def)
  have amounts: "dm_totalPayable unpaid_demand = 6000" "dm_outstanding unpaid_demand = 6000"
    "dm_currentDemand unpaid_demand = 6000" "dm_amountPaid unpaid_demand = 0"
    by (simp_all add: unpaid_demand_def blank_demand_def)
  have "balanced unpaid_demand"
    by (rule balancedI[of 600000 0]) (use p amounts in \<open>simp_all add: in_column_def\<close>)
  then have books: "books_balance unpaid_ledger" by (simp add: books_balance_def dem)
  have money: "money_columns unpaid_ledger"
    unfolding money_columns_def using p amounts by (auto simp: dem arr intro!: exI[of _ 600000])
  have own: "arrears_owned unpaid_ledger" by (simp add: arrears_owned_def arr)
  have old: "find_demand unpaid_ledger (''s1'', ''y2'') = None" by (rule unpaid_ledger_facts)
  have none: "arrears_of unpaid_ledger i = []" for i by (simp add: arrears_of_def arr)
  note y = year_end_carries_once[OF round_column_decimal unpaid_ledger_ok(1) books money unpaid_ledger_ok(2) own c refl]
  have mem: "unpaid_demand \<in> set (unpaid_demands unpaid_ledger ''y1'')" by (simp add: unpaid_ledger_facts)
  obtain t i where t: "find_demand db' (''s1'', ''y2'') = Some t"
    "arrears_of db' (dm_id t) = [\<lparr>da_id = i, da_demandId = dm_id t, da_sourceYearId = ''y1'', da_amount = 6000\<rparr>]"
    "dm_status t = D_DRAFT" "dm_currentDemand t = 0" "dm_amountPaid t = 0"
    "dm_arrears t = paise 600000 \<and> dm_totalPayable t = paise 600000 \<and> dm_outstanding t = paise 600000"
    using y[THEN conjunct2, THEN conjunct2, THEN conjunct2, THEN conjunct1, rule_format, OF mem]
    by (auto simp: unpaid_ledger_facts(5,6) old none p(3) Let_def)
  then show ?thesis using c(1) by auto
qed

end
