(* ===== verification/AmountWords.thy ===== *)
theory AmountWords
  imports Money
begin

text \<open>
  \<open>payments/inr-words.ts\<close>: an amount in words with the Indian grouping (crore, lakh, thousand,
  hundred), as it is printed on a receipt. The quotients are those of the code: the floor of a
  rounded division. A reader of such words, \<open>read_amount\<close>, states what they mean.
\<close>

subsection \<open>The code\<close>

definition ONES :: "string list" where
  "ONES = ['''', ''One'', ''Two'', ''Three'', ''Four'', ''Five'', ''Six'', ''Seven'', ''Eight'', ''Nine'', ''Ten'',
     ''Eleven'', ''Twelve'', ''Thirteen'', ''Fourteen'', ''Fifteen'', ''Sixteen'', ''Seventeen'', ''Eighteen'', ''Nineteen'']"

definition TENS :: "string list" where
  "TENS = ['''', '''', ''Twenty'', ''Thirty'', ''Forty'', ''Fifty'', ''Sixty'', ''Seventy'', ''Eighty'', ''Ninety'']"

text \<open>\<open>xs[i]\<close>, undefined past the end; a template literal prints that as a word.\<close>

definition js_at :: "'a list \<Rightarrow> int \<Rightarrow> 'a option" where
  "js_at xs i = (if 0 \<le> i \<and> nat i < length xs then Some (xs ! nat i) else None)"

definition in_template :: "string option \<Rightarrow> string" where
  "in_template s = nullish s ''undefined''"

definition floor_div :: "int \<Rightarrow> int \<Rightarrow> int" where
  "floor_div n d = \<lfloor>fl (of_int n / of_int d)\<rfloor>"

definition twoDigits :: "int \<Rightarrow> string" where
  "twoDigits n =
     (if n < 20 then nullish (js_at ONES n) []
      else
       (let ten = floor_div n 10; one = n mod 10;
            tensWord = nullish (js_at TENS ten) [];
            onesWord = nullish (js_at ONES one) []
        in if one = 0 then tensWord else trim (tensWord @ '' '' @ onesWord)))"

definition threeDigits :: "int \<Rightarrow> string" where
  "threeDigits n =
     (if n = 0 then []
      else if n < 100 then twoDigits n
      else
       (let hundred = floor_div n 100; rest = n mod 100
        in if rest = 0 then in_template (js_at ONES hundred) @ '' Hundred''
           else in_template (js_at ONES hundred) @ '' Hundred '' @ twoDigits rest))"

datatype words_error = Negative_number | Negative_amount

definition integerToIndianWords :: "js_number \<Rightarrow> words_error + string" where
  "integerToIndianWords n =
     (if n < 0 then Inl Negative_number
      else
       (let v = \<lfloor>n\<rfloor> in
        if v = 0 then Inr ''Zero''
        else
         (let crore = floor_div v 10000000;
              lakh = floor_div (v mod 10000000) 100000;
              thousand = floor_div (v mod 100000) 1000;
              hundred = v mod 1000
          in Inr (join '' ''
               ((if crore > 0 then [threeDigits crore @ '' Crore''] else [])
                @ (if lakh > 0 then [threeDigits lakh @ '' Lakh''] else [])
                @ (if thousand > 0 then [threeDigits thousand @ '' Thousand''] else [])
                @ (if hundred > 0 then [threeDigits hundred] else []))))))"

definition formatInrAmountInWords :: "js_number \<Rightarrow> words_error + string" where
  "formatInrAmountInWords amount =
     (if amount < 0 then Inl Negative_amount
      else
       (let rounded = roundMoney amount;
            rupees = \<lfloor>fl (rounded + fl (1 / 1000000000))\<rfloor>;
            paise = js_round_int (fl (fl (rounded - of_int rupees) * 100))
        in
        if rupees = 0 \<and> paise = 0 then Inr ''Rupees Zero Only''
        else
         bind_res (integerToIndianWords (of_int rupees)) (\<lambda>rupeeWords.
           (if paise = 0 then Inr (''Rupees '' @ rupeeWords @ '' Only'')
            else
             bind_res (integerToIndianWords (of_int paise)) (\<lambda>paiseWords.
               Inr (if rupees = 0 then ''Rupees Zero and Paise '' @ paiseWords @ '' Only''
                    else ''Rupees '' @ rupeeWords @ '' and Paise '' @ paiseWords @ '' Only''))))))"

subsection \<open>What the words mean\<close>

text \<open>Reading from the left: a word of the tables counts its index, \<open>Hundred\<close> multiplies the group, a
  larger unit closes it. Every other word counts nothing.\<close>

definition word_value :: "string \<Rightarrow> int" where
  "word_value w =
     (case map_of (zip ONES [0..19]) w of
        Some n \<Rightarrow> n
      | None \<Rightarrow> (case map_of (zip TENS [0..9]) w of Some n \<Rightarrow> 10 * n | None \<Rightarrow> 0))"

fun read_words :: "string list \<Rightarrow> int \<Rightarrow> int \<Rightarrow> int" where
  "read_words [] acc cur = acc + cur"
| "read_words (w # ws) acc cur =
     (if w = ''Hundred'' then read_words ws acc (cur * 100)
      else if w = ''Thousand'' then read_words ws (acc + cur * 1000) 0
      else if w = ''Lakh'' then read_words ws (acc + cur * 100000) 0
      else if w = ''Crore'' then read_words ws (acc + cur * 10000000) 0
      else read_words ws acc (cur + word_value w))"

definition read_integer :: "string \<Rightarrow> int" where
  "read_integer s = read_words (split_char (CHR '' '') s) 0 0"

text \<open>In paise: the rupees up to \<open>and\<close>, the paise after it.\<close>

definition read_amount :: "string \<Rightarrow> int" where
  "read_amount s =
     (let ws = split_char (CHR '' '') s; rupees = takeWhile (\<lambda>w. w \<noteq> ''and'') ws
      in 100 * read_words rupees 0 0 + read_words (drop (length rupees) ws) 0 0)"

subsection \<open>The quotients are exact\<close>

lemma floor_div_exact:
  assumes "0 \<le> n" "n < 9007199254740992" "0 < d"
  shows "floor_div n d = n div d"
proof -
  let ?q = "n div d" and ?x = "of_int n / of_int d :: rat"
  have d: "(0::rat) < of_int d" using assms(3) by simp
  have prod: "?q * d \<le> n" using assms(3) by (simp add: minus_mod_eq_div_mult [symmetric])
  have q: "0 \<le> ?q" using assms by (simp add: pos_imp_zdiv_nonneg_iff)
  then have "?q * 1 \<le> ?q * d" using assms(3) by (intro mult_left_mono) simp_all
  then have q: "0 \<le> ?q" "?q \<le> n" using prod q by simp_all
  have "of_int ?q = fl (of_int ?q)" using fl_of_int[of ?q] q assms(2) by simp
  also have "\<dots> \<le> fl ?x"
  proof (rule fl_mono)
    have "(of_int ?q :: rat) * of_int d \<le> of_int n" using prod unfolding of_int_mult[symmetric] of_int_le_iff .
    then show "of_int ?q \<le> ?x" using d by (simp add: le_divide_eq)
  qed
  finally have low: "of_int ?q \<le> fl ?x" .
  have "n + 1 \<le> (?q + 1) * d"
    using mult_div_mod_eq[of d n] pos_mod_bound[OF assms(3), of n] unfolding distrib_right mult.commute[of ?q d] by linarith
  then have "(of_int n :: rat) + 1 \<le> (of_int ?q + 1) * of_int d"
    by (metis of_int_1 of_int_add of_int_le_iff of_int_mult)
  then have up: "?x + 1 / of_int d \<le> of_int ?q + 1" using d by (simp add: field_simps)
  have "0 \<le> ?x" using assms(1) d by simp
  then have "\<bar>fl ?x - ?x\<bar> \<le> ?x / 9007199254740992" using fl_err_num[of ?x] by simp
  moreover have "?x / 9007199254740992 < 1 / of_int d"
    using d assms(2) by (simp add: field_simps)
  ultimately have "fl ?x < of_int ?q + 1" using up by linarith
  then show ?thesis unfolding floor_div_def using low by (intro floor_unique) simp_all
qed

subsection \<open>Reading the words back\<close>

definition scale_word :: "string \<Rightarrow> bool" where
  "scale_word w \<longleftrightarrow> w = ''Hundred'' \<or> w = ''Thousand'' \<or> w = ''Lakh'' \<or> w = ''Crore''"

lemma read_words_plain:
  assumes "list_all (\<lambda>w. \<not> scale_word w) ws"
  shows "read_words (ws @ vs) acc cur = read_words vs acc (cur + sum_list (map word_value ws))"
  using assms by (induction ws arbitrary: cur) (auto simp: scale_word_def add.assoc)

abbreviation words_in :: "string \<Rightarrow> string list" where
  "words_in s \<equiv> split_char (CHR '' '') s"

lemma words_in_space: "words_in (s @ CHR '' '' # t) = words_in s @ words_in t"
  by (induction s) (auto split: list.splits simp: split_char_ne)

text \<open>A text whose words carry no unit, and count \<open>n\<close> together.\<close>

definition counts :: "string \<Rightarrow> int \<Rightarrow> bool" where
  "counts s n \<longleftrightarrow>
     list_all (\<lambda>w. \<not> scale_word w \<and> w \<noteq> ''and'') (words_in s) \<and> sum_list (map word_value (words_in s)) = n"

lemma counts_space: "counts s m \<Longrightarrow> counts t n \<Longrightarrow> counts (s @ CHR '' '' # t) (m + n)"
  by (simp add: counts_def words_in_space)

definition neat :: "string \<Rightarrow> bool" where
  "neat s \<longleftrightarrow> s \<noteq> [] \<and> \<not> is_space (hd s) \<and> \<not> is_space (last s)"

lemma neat_space: "neat s \<Longrightarrow> neat t \<Longrightarrow> trim (s @ CHR '' '' # t) = s @ CHR '' '' # t"
  by (rule trim_id) (simp add: neat_def)

lemma ones_words:
  assumes "0 < n" "n < 20"
  shows "\<exists>w. js_at ONES n = Some w \<and> counts w n \<and> neat w"
proof -
  have "\<forall>n \<in> set [1..19]. counts (ONES ! nat n) n \<and> neat (ONES ! nat n)" by code_simp
  moreover have "n \<in> set [1..19]" unfolding set_upto using assms by simp
  moreover have "length ONES = 20" by (simp add: ONES_def)
  ultimately show ?thesis using assms unfolding js_at_def by auto
qed

lemma tens_words:
  assumes "2 \<le> n" "n < 10"
  shows "\<exists>w. js_at TENS n = Some w \<and> counts w (10 * n) \<and> neat w"
proof -
  have "\<forall>n \<in> set [2..9]. counts (TENS ! nat n) (10 * n) \<and> neat (TENS ! nat n)" by code_simp
  moreover have "n \<in> set [2..9]" unfolding set_upto using assms by simp
  moreover have "length TENS = 10" by (simp add: TENS_def)
  ultimately show ?thesis using assms unfolding js_at_def by auto
qed

lemma two_digits_count:
  assumes "0 < n" "n < 100"
  shows "counts (twoDigits n) n"
proof (cases "n < 20")
  case True
  then show ?thesis using ones_words[OF assms(1)] by (auto simp: twoDigits_def)
next
  case False
  have ten: "floor_div n 10 = n div 10" using assms by (intro floor_div_exact) simp_all
  have "2 \<le> n div 10" "n div 10 < 10" using False assms by linarith+
  then obtain t where t: "js_at TENS (n div 10) = Some t" "counts t (10 * (n div 10))" "neat t"
    using tens_words by blast
  have n: "n = 10 * (n div 10) + n mod 10" by simp
  show ?thesis
  proof (cases "n mod 10 = 0")
    case True
    then show ?thesis using t False n by (simp add: twoDigits_def ten)
  next
    case r: False
    have "0 < n mod 10" "n mod 10 < 20" using r pos_mod_sign[of 10 n] pos_mod_bound[of 10 n] by linarith+
    then obtain w where w: "js_at ONES (n mod 10) = Some w" "counts w (n mod 10)" "neat w"
      using ones_words by blast
    then have "twoDigits n = t @ CHR '' '' # w" using t r False by (simp add: twoDigits_def ten neat_space)
    then show ?thesis using counts_space[OF t(2) w(2)] n by metis
  qed
qed

lemma read_counted:
  "counts s n \<Longrightarrow> read_words (words_in s @ vs) acc cur = read_words vs acc (cur + n)"
  unfolding counts_def by (metis (no_types, lifting) list.pred_mono_strong read_words_plain)

text \<open>A group below 2000 is read as its number; above that the table of ones is read past its end.\<close>

definition reads :: "string \<Rightarrow> int \<Rightarrow> bool" where
  "reads s n \<longleftrightarrow> ''and'' \<notin> set (words_in s) \<and>
     (\<forall>vs acc. read_words (words_in s @ vs) acc 0 = read_words vs acc n)"

lemma reads_counts: "counts s n \<Longrightarrow> reads s n"
  by (auto simp: reads_def read_counted) (auto simp: counts_def list_all_iff)

lemma three_digits_read:
  assumes "0 < n" "n < 2000"
  shows "reads (threeDigits n) n"
proof (cases "n < 100")
  case True
  then show ?thesis using assms reads_counts[OF two_digits_count[of n]] by (simp add: threeDigits_def)
next
  case False
  have hundred: "floor_div n 100 = n div 100" using assms by (intro floor_div_exact) simp_all
  have "0 < n div 100" "n div 100 < 20" using False assms by linarith+
  then obtain h where h: "js_at ONES (n div 100) = Some h" "counts h (n div 100)"
    using ones_words by blast
  have n: "n = 100 * (n div 100) + n mod 100" by simp
  have front: "words_in (h @ '' Hundred'') = words_in h @ [''Hundred'']"
    using words_in_space[of h "''Hundred''"] by simp
  show ?thesis
  proof (cases "n mod 100 = 0")
    case True
    then have "threeDigits n = h @ '' Hundred''" using False h by (simp add: threeDigits_def hundred in_template_def)
    then show ?thesis using h(2) front n True
      by (auto simp: reads_def read_counted) (auto simp: counts_def list_all_iff)
  next
    case r: False
    let ?r = "twoDigits (n mod 100)"
    have c: "counts ?r (n mod 100)"
      using r pos_mod_sign[of 100 n] pos_mod_bound[of 100 n] by (intro two_digits_count) linarith+
    have "threeDigits n = (h @ '' Hundred'') @ CHR '' '' # ?r"
      using False r h by (simp add: threeDigits_def hundred in_template_def)
    then have ws: "words_in (threeDigits n) = words_in h @ ''Hundred'' # words_in ?r"
      using words_in_space[of "h @ '' Hundred''" ?r] front by simp
    have "read_words (words_in (threeDigits n) @ vs) acc 0 = read_words vs acc n" for vs acc
      using n by (simp add: ws read_counted[OF h(2)] read_counted[OF c])
    moreover have "''and'' \<notin> set (words_in (threeDigits n))"
      using h(2) c by (auto simp: ws counts_def list_all_iff)
    ultimately show ?thesis by (simp add: reads_def)
  qed
qed

lemma words_in_join: "ps \<noteq> [] \<Longrightarrow> words_in (join '' '' ps) = concat (map words_in ps)"
  by (induction "'' ''" ps rule: join.induct) (simp_all add: words_in_space)

text \<open>One group with its unit, left out when it is zero.\<close>

definition unit_part :: "string \<Rightarrow> int \<Rightarrow> string list" where
  "unit_part u k = (if k > 0 then [threeDigits k @ CHR '' '' # u] else [])"

lemma unit_part_read:
  assumes "0 \<le> k" "k < 2000" "(u, m) \<in> {(''Thousand'', 1000), (''Lakh'', 100000), (''Crore'', 10000000)}"
  shows "read_words (concat (map words_in (unit_part u k)) @ vs) acc 0 = read_words vs (acc + k * m) 0"
    and "''and'' \<notin> set (concat (map words_in (unit_part u k)))"
proof -
  have u: "words_in u = [u]" using assms(3) by auto
  have "0 < k \<Longrightarrow> reads (threeDigits k) k" by (rule three_digits_read) (simp_all add: assms(2))
  then show "read_words (concat (map words_in (unit_part u k)) @ vs) acc 0 = read_words vs (acc + k * m) 0"
    using assms(1,3) u by (auto simp: unit_part_def reads_def words_in_space)
  have "u \<noteq> ''and''" using assms(3) by auto
  then show "''and'' \<notin> set (concat (map words_in (unit_part u k)))"
    using assms(1) u \<open>0 < k \<Longrightarrow> reads (threeDigits k) k\<close> by (auto simp: unit_part_def reads_def words_in_space)
qed

definition reads_split :: "string \<Rightarrow> int \<Rightarrow> bool" where
  "reads_split s n \<longleftrightarrow> ''and'' \<notin> set (words_in s) \<and>
     (\<exists>hi lo. n = hi + lo \<and> (\<forall>vs acc. read_words (words_in s @ vs) acc 0 = read_words vs (acc + hi) lo))"

lemma integer_words_read:
  assumes "0 \<le> n" "n < 20000000000"
  shows "\<exists>s. integerToIndianWords (of_int n) = Inr s \<and> reads_split s n"
proof (cases "n = 0")
  case True
  have "reads_split ''Zero'' 0"
    unfolding reads_split_def by (auto simp: word_value_def ONES_def TENS_def upto.simps intro!: exI[of _ 0])
  then show ?thesis using True by (simp add: integerToIndianWords_def)
next
  case False
  let ?c = "n div 10000000" and ?l = "n mod 10000000 div 100000" and ?t = "n mod 100000 div 1000" and ?h = "n mod 1000"
  let ?last = "if ?h > 0 then [threeDigits ?h] else []"
  let ?ps = "unit_part ''Crore'' ?c @ unit_part ''Lakh'' ?l @ unit_part ''Thousand'' ?t @ ?last"
  have bounds: "0 \<le> ?c" "?c < 2000" "0 \<le> ?l" "?l < 2000" "0 \<le> ?t" "?t < 2000" "0 \<le> ?h" "?h < 2000"
    using assms pos_mod_bound[of 1000 n] pos_mod_bound[of 100000 n] pos_mod_bound[of 10000000 n]
      pos_mod_sign[of 1000 n] pos_mod_sign[of 100000 n] pos_mod_sign[of 10000000 n] by linarith+
  have "n mod 10000000 mod 100000 = n mod 100000" "n mod 100000 mod 1000 = n mod 1000"
    by (simp_all add: mod_mod_cancel)
  then have sum: "n = ?c * 10000000 + ?l * 100000 + ?t * 1000 + ?h"
    using div_mult_mod_eq[of n 10000000] div_mult_mod_eq[of "n mod 10000000" 100000]
      div_mult_mod_eq[of "n mod 100000" 1000] by linarith
  have q: "floor_div n 10000000 = ?c" "floor_div (n mod 10000000) 100000 = ?l" "floor_div (n mod 100000) 1000 = ?t"
    using assms pos_mod_bound[of 100000 n] pos_mod_bound[of 10000000 n] by (auto intro!: floor_div_exact)
  have "\<not> n < 0" using assms(1) by simp
  then have s: "integerToIndianWords (of_int n) = Inr (join '' '' ?ps)"
    using False unfolding integerToIndianWords_def Let_def floor_of_int q unit_part_def of_int_less_0_iff
    by (simp only: if_False)
  have ne: "?ps \<noteq> []"
  proof
    assume "?ps = []"
    then have "unit_part ''Crore'' ?c = []" "unit_part ''Lakh'' ?l = []" "unit_part ''Thousand'' ?t = []" "?last = []"
      by (simp_all only: append_is_Nil_conv)
    then have "\<not> 0 < ?c" "\<not> 0 < ?l" "\<not> 0 < ?t" "\<not> 0 < ?h"
      unfolding unit_part_def by (simp_all only: split: if_splits) blast+
    then show False using sum False bounds by linarith
  qed
  have last: "0 < ?h \<Longrightarrow> reads (threeDigits ?h) ?h" by (rule three_digits_read) (simp_all add: bounds(8))
  then have last_read: "read_words (concat (map words_in ?last) @ vs) acc 0 = read_words vs acc ?h" for vs acc
  proof (cases "0 < ?h")
    case True
    then show ?thesis using last by (simp add: reads_def)
  next
    case False
    then have "?h = 0" using bounds(7) by linarith
    then show ?thesis by (simp only: less_irrefl if_False list.map concat.simps append_Nil)
  qed
  have "''and'' \<notin> set (words_in (join '' '' ?ps))"
    using unit_part_read(2)[OF bounds(1,2), of "''Crore''"] unit_part_read(2)[OF bounds(3,4), of "''Lakh''"]
      unit_part_read(2)[OF bounds(5,6), of "''Thousand''"] last
    unfolding words_in_join[OF ne] by (auto simp: reads_def)
  moreover have "read_words (words_in (join '' '' ?ps) @ vs) acc 0
      = read_words vs (acc + (?c * 10000000 + ?l * 100000 + ?t * 1000)) ?h" for vs acc
    unfolding words_in_join[OF ne] map_append concat_append append_assoc
    using unit_part_read(1)[OF bounds(1,2), of "''Crore''"] unit_part_read(1)[OF bounds(3,4), of "''Lakh''"]
      unit_part_read(1)[OF bounds(5,6), of "''Thousand''"] last_read by (simp add: add.assoc del: append_assoc)
  ultimately have "reads_split (join '' '' ?ps) n"
    unfolding reads_split_def using sum by blast
  then show ?thesis using s by blast
qed

subsection \<open>Amounts\<close>

lemma fl_err_small: "0 \<le> y \<Longrightarrow> y \<le> 1000000000001 \<Longrightarrow> \<bar>fl y - y\<bar> \<le> 1 / 8000"
  using fl_err_num[of y] by simp

lemma rupees_of_paise:
  assumes "0 \<le> p" "in_column p"
  shows "\<lfloor>fl (paise p + fl (1 / 1000000000))\<rfloor> = p div 100"
proof -
  let ?e = "fl (1 / 1000000000)" and ?x = "of_int p / 100 :: rat" and ?q = "p div 100"
  have e: "0 \<le> ?e" "?e \<le> 1 / 500000000"
    using fl_mono[of 0 "1 / 1000000000"] fl_err_num[of "1 / 1000000000"] by (simp, linarith)
  have p: "of_int p < (100000000000000 :: rat)" using assms(2) unfolding in_column_def by simp
  have n: "\<bar>paise p - ?x\<bar> \<le> 1 / 9000"
    using near_paise_self[OF assms(2)] by (simp add: near_paise_def)
  have size: "0 \<le> paise p + ?e" "paise p + ?e \<le> 1000000000001"
    using paise_nonneg[OF assms(1)] e n p by linarith+
  have err: "\<bar>fl (paise p + ?e) - (paise p + ?e)\<bar> \<le> 1 / 8000"
    using size by (rule fl_err_small)
  have split: "?x = of_int ?q + of_int (p mod 100) / 100"
  proof -
    have "(of_int p :: rat) = of_int (100 * ?q + p mod 100)" by simp
    then show ?thesis unfolding of_int_add of_int_mult by simp
  qed
  have r: "of_int (p mod 100) \<le> (99 :: rat)" "0 \<le> (of_int (p mod 100) :: rat)"
    using pos_mod_bound[of 100 p] pos_mod_sign[of 100 p] by simp_all
  have low: "of_int ?q \<le> fl (paise p + ?e)"
  proof (cases "p mod 100 = 0")
    case True
    have q: "\<bar>?q\<bar> < 2 ^ 53" using assms unfolding in_column_def by simp
    have "paise p = of_int ?q" using fl_of_int[OF q] True split by (simp add: paise_def)
    then have "fl (of_int ?q) \<le> fl (paise p + ?e)" using e by (intro fl_mono) simp
    then show ?thesis using fl_of_int[OF q] by simp
  next
    case False
    then have "1 \<le> p mod 100" using pos_mod_sign[of 100 p] by linarith
    then have "(1 :: rat) \<le> of_int (p mod 100)" by simp
    then show ?thesis using err n split e by linarith
  qed
  have "fl (paise p + ?e) < of_int ?q + 1" using err n split e r by linarith
  then show ?thesis using low by (intro floor_unique) simp_all
qed

lemma paise_left:
  assumes "0 \<le> p" "in_column p"
  shows "js_round_int (fl (fl (paise p - of_int (p div 100)) * 100)) = p mod 100"
proof -
  let ?q = "p div 100"
  have c: "in_column (100 * ?q)" using assms unfolding in_column_def by linarith
  have q: "\<bar>?q\<bar> < 2 ^ 53" using assms unfolding in_column_def by simp
  have "paise (100 * ?q) = of_int ?q" using fl_of_int[OF q] by (simp add: paise_def)
  then have "near_paise 2 4 (fl (paise p - of_int ?q)) (p - 100 * ?q)"
    using near_sub[OF near_paise_self[OF assms(2)] near_paise_self[OF c]] by (simp add: numeral_eq_Suc)
  then have "paise_of (fl (paise p - of_int ?q)) = p - 100 * ?q" by (rule near_paise_of) simp_all
  then show ?thesis by (simp add: paise_of_def minus_mult_div_eq_mod)
qed

lemma words_rupees: "words_in (''Rupees '' @ s) = ''Rupees'' # words_in s"
  using words_in_space[of "''Rupees''" s] by simp

lemma words_only: "words_in (s @ '' Only'') = words_in s @ [''Only'']"
  using words_in_space[of s "''Only''"] by simp

lemma words_paise: "words_in (s @ '' and Paise '' @ t) = words_in s @ ''and'' # ''Paise'' # words_in t"
  using words_in_space[of s "''and Paise '' @ t"] words_in_space[of "''and''" "''Paise '' @ t"]
    words_in_space[of "''Paise''" t] by simp

lemma word_value_other: "word_value ''Rupees'' = 0" "word_value ''and'' = 0" "word_value ''Paise'' = 0" "word_value ''Only'' = 0"
  by code_simp+

lemma reads_splitD:
  assumes "reads_split s n"
  shows "read_words (words_in s) acc 0 = acc + n" "read_words (words_in s @ [''Only'']) acc 0 = acc + n"
    "''and'' \<notin> set (words_in s)"
proof -
  obtain hi lo where "n = hi + lo" and r: "\<And>vs. read_words (words_in s @ vs) acc 0 = read_words vs (acc + hi) lo"
    using assms unfolding reads_split_def by blast
  then show "read_words (words_in s) acc 0 = acc + n" "read_words (words_in s @ [''Only'']) acc 0 = acc + n"
    using r[of "[]"] by (simp_all add: word_value_other)
  show "''and'' \<notin> set (words_in s)" using assms by (simp add: reads_split_def)
qed

lemma read_rupees_only:
  assumes "reads_split s n"
  shows "read_amount (''Rupees '' @ s @ '' Only'') = 100 * n"
proof -
  let ?ws = "''Rupees'' # words_in s @ [''Only'']"
  have ws: "words_in (''Rupees '' @ s @ '' Only'') = ?ws" unfolding words_rupees words_only ..
  have "takeWhile (\<lambda>w. w \<noteq> ''and'') ?ws = ?ws"
    using reads_splitD(3)[OF assms] by (simp add: takeWhile_eq_all_conv) metis
  then show ?thesis unfolding read_amount_def ws Let_def
    using reads_splitD(2)[OF assms, of 0] by (simp add: word_value_other)
qed

lemma read_rupees_paise:
  assumes "reads_split s m" "reads_split t n"
  shows "read_amount (''Rupees '' @ s @ '' and Paise '' @ t @ '' Only'') = 100 * m + n"
proof -
  let ?ws = "(''Rupees'' # words_in s) @ ''and'' # ''Paise'' # words_in t @ [''Only'']"
  have ws: "words_in (''Rupees '' @ s @ '' and Paise '' @ t @ '' Only'') = ?ws"
    unfolding words_rupees words_paise words_only by simp
  have "takeWhile (\<lambda>w. w \<noteq> ''and'') ?ws = ''Rupees'' # words_in s"
    using reads_splitD(3)[OF assms(1)] by (subst takeWhile_append2) auto
  then show ?thesis unfolding read_amount_def ws Let_def
    using reads_splitD(1)[OF assms(1), of 0] reads_splitD(2)[OF assms(2), of 0] by (simp add: word_value_other)
qed



end
