(* ===== verification/TaxAdjustments.thy ===== *)
theory TaxAdjustments
  imports LedgerSystem
begin

text \<open>
  \<open>tax-adjustments/tax-adjustments.service.ts\<close>: the rules of rebates and penalties. A rule is created as
  a draft, may be changed and removed while it is one, is published, and is archived; publication of
  demands loads the published rules of the ledger (\<open>loadPublishedRules\<close>). The table is the list
  \<open>ab_rows\<close>; \<open>rule_view\<close> is the ledger with the columns of it that the demands service reads.
\<close>

subsection \<open>Rows, requests, environment\<close>

record adjustment_row = rule_row +
  aj_name :: string
  aj_publishedAt :: "int option"
  aj_publishedById :: "string option"
  aj_updatedAt :: int

record adjustment_book =
  ab_rows :: "adjustment_row list"
  ab_ledger :: ledger

text \<open>Ids, the columns of the value and the cap, the clock, \<open>new Date(text).getTime()\<close> (\<open>None\<close> is not a
  number), and the collation of the database.\<close>

record adjustment_env =
  ae_cuid :: "nat \<Rightarrow> string"
  ae_value :: "js_number \<Rightarrow> js_number option"
  ae_cap :: "js_number \<Rightarrow> js_number option"
  ae_now :: int
  ae_date :: "string \<Rightarrow> int option"
  ae_collate :: "string \<Rightarrow> string \<Rightarrow> int"

datatype adjustment_error =
    Rule_missing | Edit_archived | Edit_published | Publish_archived | Remove_published
  | Year_invalid | Range_invalid | Rule_database_error

type_synonym 'a adjusted = "adjustment_book \<times> (adjustment_error + 'a)"

record rule_query =
  rl_kind :: "rule_kind option"
  rl_head :: "rule_head option"
  rl_status :: "rule_status option"
  rl_search :: "string option"

record rule_create =
  nr_kind :: rule_kind
  nr_head :: rule_head
  nr_name :: string
  nr_method :: rule_method
  nr_value :: js_number
  nr_cap :: "js_number option"
  nr_yearId :: "string option"
  nr_effectiveFrom :: "string option"
  nr_effectiveTo :: "string option"

text \<open>In an update a field may be undefined (\<open>None\<close>), null (\<open>Some None\<close>) or a value.\<close>

record rule_update =
  ur_name :: "string option"
  ur_method :: "rule_method option"
  ur_value :: "js_number option"
  ur_cap :: "js_number option option"
  ur_yearId :: "string option option"
  ur_effectiveFrom :: "string option option"
  ur_effectiveTo :: "string option option"

text \<open>What the decorators of the request classes let through.\<close>

definition create_valid :: "rule_create \<Rightarrow> bool" where
  "create_valid dto \<longleftrightarrow> 2 \<le> length (nr_name dto) \<and> 0 \<le> nr_value dto \<and> (\<forall>c. nr_cap dto = Some c \<longrightarrow> 0 \<le> c)"

definition update_valid :: "rule_update \<Rightarrow> bool" where
  "update_valid dto \<longleftrightarrow>
     (\<forall>n. ur_name dto = Some n \<longrightarrow> 2 \<le> length n) \<and> (\<forall>v. ur_value dto = Some v \<longrightarrow> 0 \<le> v)
     \<and> (\<forall>c. ur_cap dto = Some (Some c) \<longrightarrow> 0 \<le> c)"

subsection \<open>Reading\<close>

definition rule_view :: "adjustment_book \<Rightarrow> ledger" where
  "rule_view b = (ab_ledger b)\<lparr>lg_rules := map rule_row.truncate (ab_rows b)\<rparr>"

definition find_rule :: "adjustment_book \<Rightarrow> string \<Rightarrow> adjustment_row option" where
  "find_rule b i = List.find (\<lambda>r. ru_id r = i) (ab_rows b)"

definition getById :: "adjustment_book \<Rightarrow> string \<Rightarrow> adjustment_error + adjustment_row" where
  "getById b i = (case find_rule b i of None \<Rightarrow> Inl Rule_missing | Some r \<Rightarrow> Inr r)"

definition rule_matches :: "rule_query \<Rightarrow> adjustment_row \<Rightarrow> bool" where
  "rule_matches q r \<longleftrightarrow>
     (case rl_kind q of None \<Rightarrow> True | Some k \<Rightarrow> tr_kind r = k)
     \<and> (case rl_head q of None \<Rightarrow> True | Some h \<Rightarrow> tr_head r = h)
     \<and> (case rl_status q of None \<Rightarrow> True | Some s \<Rightarrow> ru_status r = s)
     \<and> (let search = trim (nullish (rl_search q) []) in
        search = [] \<or> contains_insensitive search (Some (aj_name r)))"

definition list_rules :: "adjustment_env \<Rightarrow> adjustment_book \<Rightarrow> rule_query \<Rightarrow> adjustment_row list" where
  "list_rules env b q =
     sort_by (\<lambda>x y. if aj_updatedAt x = aj_updatedAt y then ae_collate env (aj_name x) (aj_name y)
                    else aj_updatedAt y - aj_updatedAt x)
       (filter (rule_matches q) (ab_rows b))"

subsection \<open>Checks\<close>

definition assertAdjustmentYear :: "adjustment_book \<Rightarrow> string option \<Rightarrow> adjustment_error + unit" where
  "assertAdjustmentYear b yearId =
     (if unset yearId then Inr ()
      else
       (case map_of (lg_entries (ab_ledger b)) (nullish yearId []) of
          None \<Rightarrow> Inl Year_invalid
        | Some year \<Rightarrow> guard (en_category year = ''ASSESSMENT_YEAR'') Year_invalid))"

text \<open>A moment of a request: missing, or what \<open>new Date\<close> makes of the text. The moment of a row is
  written as ISO text and read back unchanged.\<close>

definition moment :: "adjustment_env \<Rightarrow> string option \<Rightarrow> int option option" where
  "moment env s = (if unset s then None else Some (ae_date env (nullish s [])))"

definition assertEffectiveRange :: "int option option \<Rightarrow> int option option \<Rightarrow> adjustment_error + unit" where
  "assertEffectiveRange from until =
     (case (from, until) of
        (Some (Some f), Some (Some t)) \<Rightarrow> guard (\<not> f > t) Range_invalid
      | _ \<Rightarrow> Inr ())"

text \<open>\<open>toDate\<close>: an invalid date is refused by the database.\<close>

definition toDate :: "adjustment_env \<Rightarrow> string option \<Rightarrow> int option option" where
  "toDate env s = (case moment env s of None \<Rightarrow> Some None | Some None \<Rightarrow> None | Some (Some t) \<Rightarrow> Some (Some t))"

definition rule_audit :: "string \<Rightarrow> string \<Rightarrow> string option \<Rightarrow> adjustment_book \<Rightarrow> adjustment_book" where
  "rule_audit action i actorId b =
     b\<lparr>ab_ledger := log_audit action ''TaxAdjustmentRule'' (Some i) actorId (ab_ledger b)\<rparr>"

definition put_rule :: "adjustment_row \<Rightarrow> adjustment_book \<Rightarrow> adjustment_book" where
  "put_rule r b = b\<lparr>ab_rows := map (\<lambda>x. if ru_id x = ru_id r then r else x) (ab_rows b)\<rparr>"

subsection \<open>Operations\<close>

definition new_rule ::
  "adjustment_env \<Rightarrow> string \<Rightarrow> rule_create \<Rightarrow> adjustment_row option" where
  "new_rule env i dto =
     Option.bind (ae_value env (nr_value dto)) (\<lambda>v.
     Option.bind (case nr_cap dto of None \<Rightarrow> Some None | Some c \<Rightarrow> map_option Some (ae_cap env c)) (\<lambda>c.
     Option.bind (toDate env (nr_effectiveFrom dto)) (\<lambda>from.
     Option.bind (toDate env (nr_effectiveTo dto)) (\<lambda>until.
       Some \<lparr>tr_kind = nr_kind dto, tr_head = nr_head dto, tr_method = nr_method dto, tr_value = v, tr_cap = c,
             ru_id = i, ru_yearId = (if unset (nr_yearId dto) then None else nr_yearId dto), ru_status = R_DRAFT,
             ru_effectiveFrom = from, ru_effectiveTo = until, aj_name = trim (nr_name dto),
             aj_publishedAt = None, aj_publishedById = None, aj_updatedAt = ae_now env\<rparr>))))"

definition create_rule ::
  "adjustment_env \<Rightarrow> adjustment_book \<Rightarrow> rule_create \<Rightarrow> string option \<Rightarrow> adjustment_row adjusted" where
  "create_rule env b dto actorId =
     (case bind_res (assertAdjustmentYear b (nr_yearId dto))
             (\<lambda>_. assertEffectiveRange (moment env (nr_effectiveFrom dto)) (moment env (nr_effectiveTo dto))) of
        Inl e \<Rightarrow> (b, Inl e)
      | Inr _ \<Rightarrow>
         (let i = ae_cuid env (lg_seq (ab_ledger b)) in
          case new_rule env i dto of
            None \<Rightarrow> (b, Inl Rule_database_error)
          | Some r \<Rightarrow>
             (rule_audit ''CREATE'' i actorId
                (b\<lparr>ab_rows := ab_rows b @ [r], ab_ledger := (ab_ledger b)\<lparr>lg_seq := lg_seq (ab_ledger b) + 1\<rparr>\<rparr>),
              Inr r)))"

text \<open>The data of an update: every field that is not undefined.\<close>

definition patched_rule :: "adjustment_env \<Rightarrow> rule_update \<Rightarrow> adjustment_row \<Rightarrow> adjustment_row option" where
  "patched_rule env dto r =
     Option.bind (case ur_value dto of None \<Rightarrow> Some (tr_value r) | Some v \<Rightarrow> ae_value env v) (\<lambda>v.
     Option.bind (case ur_cap dto of None \<Rightarrow> Some (tr_cap r) | Some None \<Rightarrow> Some None
                  | Some (Some c) \<Rightarrow> map_option Some (ae_cap env c)) (\<lambda>c.
     Option.bind (case ur_effectiveFrom dto of None \<Rightarrow> Some (ru_effectiveFrom r) | Some s \<Rightarrow> toDate env s) (\<lambda>from.
     Option.bind (case ur_effectiveTo dto of None \<Rightarrow> Some (ru_effectiveTo r) | Some s \<Rightarrow> toDate env s) (\<lambda>until.
       Some (r\<lparr>tr_method := nullish (ur_method dto) (tr_method r), tr_value := v, tr_cap := c,
               ru_yearId := (case ur_yearId dto of None \<Rightarrow> ru_yearId r | Some y \<Rightarrow> (if unset y then None else y)),
               ru_effectiveFrom := from, ru_effectiveTo := until,
               aj_name := (case ur_name dto of None \<Rightarrow> aj_name r | Some n \<Rightarrow> trim n),
               aj_updatedAt := ae_now env\<rparr>)))))"

definition update_rule ::
  "adjustment_env \<Rightarrow> adjustment_book \<Rightarrow> string \<Rightarrow> rule_update \<Rightarrow> string option \<Rightarrow> adjustment_row adjusted" where
  "update_rule env b i dto actorId =
     (case getById b i of
        Inl e \<Rightarrow> (b, Inl e)
      | Inr r \<Rightarrow>
         (if ru_status r = R_ARCHIVED then (b, Inl Edit_archived)
          else if ru_status r = R_PUBLISHED then (b, Inl Edit_published)
          else
           (case bind_res (case ur_yearId dto of None \<Rightarrow> Inr () | Some y \<Rightarrow> assertAdjustmentYear b y)
                   (\<lambda>_. assertEffectiveRange
                      (case ur_effectiveFrom dto of None \<Rightarrow> map_option Some (ru_effectiveFrom r) | Some s \<Rightarrow> moment env s)
                      (case ur_effectiveTo dto of None \<Rightarrow> map_option Some (ru_effectiveTo r) | Some s \<Rightarrow> moment env s)) of
              Inl e \<Rightarrow> (b, Inl e)
            | Inr _ \<Rightarrow>
               (case patched_rule env dto r of
                  None \<Rightarrow> (b, Inl Rule_database_error)
                | Some r' \<Rightarrow> (rule_audit ''UPDATE'' i actorId (put_rule r' b), Inr r')))))"

definition publish_rule ::
  "adjustment_env \<Rightarrow> adjustment_book \<Rightarrow> string \<Rightarrow> string option \<Rightarrow> adjustment_row adjusted" where
  "publish_rule env b i actorId =
     (case getById b i of
        Inl e \<Rightarrow> (b, Inl e)
      | Inr r \<Rightarrow>
         (if ru_status r = R_ARCHIVED then (b, Inl Publish_archived)
          else
           (let r' = r\<lparr>ru_status := R_PUBLISHED, aj_publishedAt := Some (ae_now env),
                       aj_publishedById := (if actorId = None then aj_publishedById r else actorId),
                       aj_updatedAt := ae_now env\<rparr>
            in (rule_audit ''PUBLISH'' i actorId (put_rule r' b), Inr r'))))"

definition archive_rule ::
  "adjustment_env \<Rightarrow> adjustment_book \<Rightarrow> string \<Rightarrow> string option \<Rightarrow> adjustment_row adjusted" where
  "archive_rule env b i actorId =
     (case getById b i of
        Inl e \<Rightarrow> (b, Inl e)
      | Inr r \<Rightarrow>
         (if ru_status r = R_ARCHIVED then (b, Inr r)
          else
           (let r' = r\<lparr>ru_status := R_ARCHIVED, aj_updatedAt := ae_now env\<rparr>
            in (rule_audit ''ARCHIVE'' i actorId (put_rule r' b), Inr r'))))"

definition remove_rule :: "adjustment_book \<Rightarrow> string \<Rightarrow> string option \<Rightarrow> unit adjusted" where
  "remove_rule b i actorId =
     (case getById b i of
        Inl e \<Rightarrow> (b, Inl e)
      | Inr r \<Rightarrow>
         (if ru_status r = R_PUBLISHED then (b, Inl Remove_published)
          else (rule_audit ''DELETE'' i actorId (b\<lparr>ab_rows := filter (\<lambda>x. ru_id x \<noteq> i) (ab_rows b)\<rparr>), Inr ())))"

text \<open>One call of the service, or of another one that leaves the table alone.\<close>

inductive rule_step :: "(nat \<Rightarrow> string) \<Rightarrow> (js_number \<Rightarrow> js_number option) \<Rightarrow> (js_number \<Rightarrow> js_number option)
    \<Rightarrow> adjustment_book \<Rightarrow> adjustment_book \<Rightarrow> bool" for cuid vcol ccol where
  create: "create_rule env b dto actorId = (b', x) \<Longrightarrow> create_valid dto \<Longrightarrow> ae_cuid env = cuid \<Longrightarrow> ae_value env = vcol \<Longrightarrow>
    ae_cap env = ccol \<Longrightarrow> rule_step cuid vcol ccol b b'"
| update: "update_rule env b i up actorId = (b', x) \<Longrightarrow> update_valid up \<Longrightarrow> ae_value env = vcol \<Longrightarrow> ae_cap env = ccol \<Longrightarrow>
    rule_step cuid vcol ccol b b'"
| publish: "publish_rule env b i actorId = (b', x) \<Longrightarrow> rule_step cuid vcol ccol b b'"
| archive: "archive_rule env b i actorId = (b', x) \<Longrightarrow> rule_step cuid vcol ccol b b'"
| remove: "remove_rule b i actorId = (b', y) \<Longrightarrow> rule_step cuid vcol ccol b b'"
| elsewhere: "ab_rows b' = ab_rows b \<Longrightarrow> lg_seq (ab_ledger b) \<le> lg_seq (ab_ledger b') \<Longrightarrow> rule_step cuid vcol ccol b b'"

end
