(* ===== verification/TaxAdjustmentFacts.thy ===== *)
theory TaxAdjustmentFacts
  imports TaxAdjustments
begin

text \<open>
  The life of a rule. Each operation of the service is one \<open>table_step\<close>, the abstract specification: a
  draft row appears, one row moves along its life cycle, or a row that is not published disappears. From
  it follow the invariant of the table and what runs preserve, as an interpretation of
  \<open>guarded_system\<close>.
\<close>

subsection \<open>The abstract specification\<close>

definition terms :: "adjustment_row \<Rightarrow> tax_rule \<times> string option \<times> int option \<times> int option \<times> string" where
  "terms r = (tax_rule.truncate r, ru_yearId r, ru_effectiveFrom r, ru_effectiveTo r, aj_name r)"

definition sound_rule :: "adjustment_row \<Rightarrow> bool" where
  "sound_rule r \<longleftrightarrow> 0 \<le> tr_value r \<and> (\<forall>c. tr_cap r = Some c \<longrightarrow> 0 \<le> c) \<and>
     (\<forall>f t. ru_effectiveFrom r = Some f \<longrightarrow> ru_effectiveTo r = Some t \<longrightarrow> f \<le> t)"

definition moves :: "adjustment_row \<Rightarrow> adjustment_row \<Rightarrow> bool" where
  "moves r r' \<longleftrightarrow> ru_id r' = ru_id r \<and>
     (ru_status r = R_DRAFT \<and> ru_status r' = R_DRAFT \<and> (sound_rule r \<longrightarrow> sound_rule r') \<or>
      terms r' = terms r \<and> ru_status r \<noteq> R_ARCHIVED \<and> ru_status r' \<in> {R_PUBLISHED, R_ARCHIVED})"

inductive table_step :: "(nat \<Rightarrow> string) \<Rightarrow> adjustment_book \<Rightarrow> adjustment_book \<Rightarrow> bool" for cuid where
  same: "ab_rows b' = ab_rows b \<Longrightarrow> lg_seq (ab_ledger b) \<le> lg_seq (ab_ledger b') \<Longrightarrow> table_step cuid b b'"
| appears: "ab_rows b' = ab_rows b @ [r] \<Longrightarrow> ru_id r = cuid (lg_seq (ab_ledger b)) \<Longrightarrow> ru_status r = R_DRAFT \<Longrightarrow>
    sound_rule r \<Longrightarrow> lg_seq (ab_ledger b') = lg_seq (ab_ledger b) + 1 \<Longrightarrow> table_step cuid b b'"
| row_moves: "find_rule b i = Some r \<Longrightarrow> moves r r' \<Longrightarrow> ab_rows b' = ab_rows (put_rule r' b) \<Longrightarrow>
    lg_seq (ab_ledger b') = lg_seq (ab_ledger b) \<Longrightarrow> table_step cuid b b'"
| disappears: "find_rule b i = Some r \<Longrightarrow> ru_status r \<noteq> R_PUBLISHED \<Longrightarrow>
    ab_rows b' = filter (\<lambda>x. ru_id x \<noteq> i) (ab_rows b) \<Longrightarrow> lg_seq (ab_ledger b') = lg_seq (ab_ledger b) \<Longrightarrow>
    table_step cuid b b'"

definition sign_kept :: "(js_number \<Rightarrow> js_number option) \<Rightarrow> bool" where
  "sign_kept col \<longleftrightarrow> (\<forall>x y. 0 \<le> x \<longrightarrow> col x = Some y \<longrightarrow> 0 \<le> y)"

subsection \<open>The operations implement it\<close>

lemma rule_audit_simps [simp]:
  "ab_rows (rule_audit a i u b) = ab_rows b" "lg_seq (ab_ledger (rule_audit a i u b)) = lg_seq (ab_ledger b)"
  by (simp_all add: rule_audit_def log_audit_def)

lemma put_rule_ledger [simp]: "ab_ledger (put_rule r b) = ab_ledger b"
  by (simp add: put_rule_def)

lemma find_rule_id: "find_rule b i = Some r \<Longrightarrow> ru_id r = i \<and> r \<in> set (ab_rows b)"
  unfolding find_rule_def by (drule find_Some_in) blast

lemma getById_Inr: "getById b i = Inr r \<longleftrightarrow> find_rule b i = Some r"
  by (simp add: getById_def split: option.splits)

lemma toDate_moment: "toDate env s = Some t \<Longrightarrow> moment env s = map_option Some t"
  by (auto simp: toDate_def split: option.splits)

lemma range_ok:
  "assertEffectiveRange (map_option Some f) (map_option Some t) = Inr u \<Longrightarrow> f = Some a \<Longrightarrow> t = Some b \<Longrightarrow> a \<le> b"
  by (simp add: assertEffectiveRange_def)

lemma create_step:
  assumes "create_rule env b dto actorId = (b', x)" "create_valid dto" "sign_kept (ae_value env)" "sign_kept (ae_cap env)"
  shows "table_step (ae_cuid env) b b'"
proof -
  let ?i = "ae_cuid env (lg_seq (ab_ledger b))"
  have "\<exists>u. assertEffectiveRange (moment env (nr_effectiveFrom dto)) (moment env (nr_effectiveTo dto)) = Inr u"
    if "new_rule env ?i dto = Some r" "b' \<noteq> b" for r
    using assms(1) that by (auto simp: create_rule_def bind_res_Inr_iff split: sum.splits)
  moreover have "sound_rule r \<and> ru_id r = ?i \<and> ru_status r = R_DRAFT"
    if n: "new_rule env ?i dto = Some r"
      and range: "\<exists>u. assertEffectiveRange (moment env (nr_effectiveFrom dto)) (moment env (nr_effectiveTo dto)) = Inr u" for r
  proof -
    obtain v c f t where v: "ae_value env (nr_value dto) = Some v"
      and c: "(case nr_cap dto of None \<Rightarrow> Some None | Some c \<Rightarrow> map_option Some (ae_cap env c)) = Some c"
      and ft: "toDate env (nr_effectiveFrom dto) = Some f" "toDate env (nr_effectiveTo dto) = Some t"
      and r: "tr_value r = v" "tr_cap r = c" "ru_effectiveFrom r = f" "ru_effectiveTo r = t" "ru_id r = ?i"
        "ru_status r = R_DRAFT"
      using n unfolding new_rule_def bind_eq_Some_conv by auto
    have "0 \<le> v" using v assms(2,3) unfolding create_valid_def sign_kept_def by blast
    moreover have "0 \<le> c'" if "c = Some c'" for c'
      using c that assms(2,4) unfolding create_valid_def sign_kept_def by (auto split: option.splits)
    ultimately show ?thesis using r range_ok range ft[THEN toDate_moment] unfolding sound_rule_def by auto
  qed
  ultimately have new: "new_rule env ?i dto = Some r \<Longrightarrow> b' \<noteq> b \<Longrightarrow> sound_rule r \<and> ru_id r = ?i \<and> ru_status r = R_DRAFT" for r
    by blast
  show ?thesis
  proof (cases "b' = b")
    case True
    then show ?thesis by (intro table_step.same) simp_all
  next
    case False
    then obtain r where n: "new_rule env ?i dto = Some r" and b': "ab_rows b' = ab_rows b @ [r]"
      "lg_seq (ab_ledger b') = lg_seq (ab_ledger b) + 1"
      using assms(1) by (auto simp: create_rule_def Let_def split: sum.splits option.splits)
    show ?thesis by (rule table_step.appears[OF b'(1)]) (use new[OF n False] b' in simp_all)
  qed
qed

lemma update_step:
  assumes "update_rule env b i dto actorId = (b', x)" "update_valid dto" "sign_kept (ae_value env)" "sign_kept (ae_cap env)"
  shows "table_step cuid b b'"
proof (cases "b' = b")
  case True
  then show ?thesis by (intro table_step.same) simp_all
next
  case False
  obtain r r' where r: "find_rule b i = Some r" "ru_status r = R_DRAFT" and p: "patched_rule env dto r = Some r'"
    and b': "ab_rows b' = ab_rows (put_rule r' b)" "lg_seq (ab_ledger b') = lg_seq (ab_ledger b)"
    and range: "\<exists>u. assertEffectiveRange
        (case ur_effectiveFrom dto of None \<Rightarrow> map_option Some (ru_effectiveFrom r) | Some s \<Rightarrow> moment env s)
        (case ur_effectiveTo dto of None \<Rightarrow> map_option Some (ru_effectiveTo r) | Some s \<Rightarrow> moment env s) = Inr u"
  proof -
    obtain r where r: "getById b i = Inr r" using assms(1) False by (cases "getById b i") (auto simp: update_rule_def)
    have d: "ru_status r = R_DRAFT"
      using assms(1) False r by (cases "ru_status r") (auto simp: update_rule_def)
    show thesis
    proof (rule that[of r])
      show "find_rule b i = Some r" "ru_status r = R_DRAFT" using r d by (simp_all add: getById_Inr)
      show "patched_rule env dto r = Some (projr x)" "ab_rows b' = ab_rows (put_rule (projr x) b)"
        "lg_seq (ab_ledger b') = lg_seq (ab_ledger b)"
        using assms(1) False r d by (auto simp: update_rule_def split: sum.splits option.splits)
      show "\<exists>u. assertEffectiveRange
        (case ur_effectiveFrom dto of None \<Rightarrow> map_option Some (ru_effectiveFrom r) | Some s \<Rightarrow> moment env s)
        (case ur_effectiveTo dto of None \<Rightarrow> map_option Some (ru_effectiveTo r) | Some s \<Rightarrow> moment env s) = Inr u"
        using assms(1) False r d unfolding update_rule_def by (auto simp: bind_res_Inr_iff split: sum.splits)
    qed
  qed
  obtain v c f t where v: "(case ur_value dto of None \<Rightarrow> Some (tr_value r) | Some v \<Rightarrow> ae_value env v) = Some v"
    and c: "(case ur_cap dto of None \<Rightarrow> Some (tr_cap r) | Some None \<Rightarrow> Some None
             | Some (Some c) \<Rightarrow> map_option Some (ae_cap env c)) = Some c"
    and f: "(case ur_effectiveFrom dto of None \<Rightarrow> Some (ru_effectiveFrom r) | Some s \<Rightarrow> toDate env s) = Some f"
    and t: "(case ur_effectiveTo dto of None \<Rightarrow> Some (ru_effectiveTo r) | Some s \<Rightarrow> toDate env s) = Some t"
    and r': "tr_value r' = v" "tr_cap r' = c" "ru_effectiveFrom r' = f" "ru_effectiveTo r' = t" "ru_id r' = ru_id r"
      "ru_status r' = ru_status r"
    using p unfolding patched_rule_def bind_eq_Some_conv by auto
  have "sound_rule r'" if s: "sound_rule r"
  proof -
    have "0 \<le> v" using v s assms(2,3) unfolding update_valid_def sign_kept_def sound_rule_def
      by (auto split: option.splits)
    moreover have "0 \<le> c'" if "c = Some c'" for c'
      using c that s assms(2,4) unfolding update_valid_def sign_kept_def sound_rule_def
      by (auto split: option.splits)
    moreover have "(case ur_effectiveFrom dto of None \<Rightarrow> map_option Some (ru_effectiveFrom r) | Some s \<Rightarrow> moment env s) = map_option Some f"
      "(case ur_effectiveTo dto of None \<Rightarrow> map_option Some (ru_effectiveTo r) | Some s \<Rightarrow> moment env s) = map_option Some t"
      using f t toDate_moment by (auto split: option.splits)
    ultimately show ?thesis using r' range range_ok unfolding sound_rule_def by auto
  qed
  then have "moves r r'" using r(2) r' by (simp add: moves_def)
  then show ?thesis using r(1) b' by (intro table_step.row_moves)
qed

lemma publish_step:
  assumes "publish_rule env b i actorId = (b', x)"
  shows "table_step cuid b b'"
proof (cases "b' = b")
  case True
  then show ?thesis by (intro table_step.same) simp_all
next
  case False
  then obtain r where r: "find_rule b i = Some r" "ru_status r \<noteq> R_ARCHIVED"
    using assms by (cases "getById b i") (auto simp: publish_rule_def getById_Inr split: if_splits)
  then have "getById b i = Inr r" by (simp add: getById_Inr)
  then show ?thesis using r assms
    by (intro table_step.row_moves[OF r(1), where r' = "projr x"])
      (auto simp: publish_rule_def Let_def moves_def terms_def tax_rule.defs split: if_splits)
qed

lemma archive_step:
  assumes "archive_rule env b i actorId = (b', x)"
  shows "table_step cuid b b'"
proof (cases "b' = b")
  case True
  then show ?thesis by (intro table_step.same) simp_all
next
  case False
  then obtain r where r: "find_rule b i = Some r" "ru_status r \<noteq> R_ARCHIVED"
    using assms by (cases "getById b i") (auto simp: archive_rule_def getById_Inr split: if_splits)
  then have "getById b i = Inr r" by (simp add: getById_Inr)
  then show ?thesis using r assms
    by (intro table_step.row_moves[OF r(1), where r' = "projr x"])
      (auto simp: archive_rule_def Let_def moves_def terms_def tax_rule.defs split: if_splits)
qed

lemma remove_step:
  assumes "remove_rule b i actorId = (b', x)"
  shows "table_step cuid b b'"
proof (cases "b' = b")
  case True
  then show ?thesis by (intro table_step.same) simp_all
next
  case False
  then obtain r where r: "find_rule b i = Some r" "ru_status r \<noteq> R_PUBLISHED"
    "ab_rows b' = filter (\<lambda>x. ru_id x \<noteq> i) (ab_rows b)" "lg_seq (ab_ledger b') = lg_seq (ab_ledger b)"
    using assms by (cases "getById b i") (auto simp: remove_rule_def getById_Inr split: if_splits)
  then show ?thesis by (rule table_step.disappears)
qed

lemma rule_table_step:
  assumes "rule_step cuid vcol ccol b b'" "sign_kept vcol" "sign_kept ccol"
  shows "table_step cuid b b'"
  using assms
  by (cases rule: rule_step.cases)
    (auto dest: create_step update_step publish_step archive_step remove_step intro: table_step.same)

subsection \<open>The invariant of the table and what runs keep\<close>

definition rules_ok :: "(nat \<Rightarrow> string) \<Rightarrow> adjustment_book \<Rightarrow> bool" where
  "rules_ok cuid b \<longleftrightarrow> inj cuid \<and> distinct (map ru_id (ab_rows b)) \<and>
     (\<forall>r \<in> set (ab_rows b). sound_rule r \<and> (\<exists>n < lg_seq (ab_ledger b). ru_id r = cuid n))"

lemma find_rule_in: "rules_ok cuid b \<Longrightarrow> r \<in> set (ab_rows b) \<Longrightarrow> find_rule b (ru_id r) = Some r"
proof -
  assume ok: "rules_ok cuid b" and r: "r \<in> set (ab_rows b)"
  then have "find_rule b (ru_id r) \<noteq> None" by (auto simp: find_rule_def find_None_iff)
  then obtain r' where r': "find_rule b (ru_id r) = Some r'" by blast
  have "inj_on ru_id (set (ab_rows b))" using ok by (simp add: rules_ok_def distinct_map)
  then show ?thesis using find_rule_id[OF r'] r r' by (metis inj_onD)
qed

lemma find_snoc: "List.find P (xs @ [x]) = (case List.find P xs of Some y \<Rightarrow> Some y | None \<Rightarrow> if P x then Some x else None)"
  by (induction xs) auto

lemma find_rule_append:
  "ab_rows b' = ab_rows b @ [r] \<Longrightarrow>
     find_rule b' i = (case find_rule b i of Some x \<Rightarrow> Some x | None \<Rightarrow> if ru_id r = i then Some r else None)"
  by (simp add: find_rule_def find_snoc split: option.splits)

lemma find_rule_put:
  assumes "ab_rows b' = ab_rows (put_rule r' b)" "find_rule b (ru_id r') = Some r"
  shows "find_rule b' i = (if i = ru_id r' then Some r' else find_rule b i)"
proof -
  have "List.find (\<lambda>r. ru_id r = i) (map (\<lambda>x. if ru_id x = ru_id r' then r' else x) xs)
      = (if i = ru_id r' then map_option (\<lambda>_. r') (List.find (\<lambda>r. ru_id r = i) xs) else List.find (\<lambda>r. ru_id r = i) xs)" for xs
    by (induction xs) auto
  then show ?thesis using assms by (simp add: find_rule_def put_rule_def)
qed

lemma find_rule_filter:
  assumes "ab_rows b' = filter (\<lambda>x. ru_id x \<noteq> j) (ab_rows b)"
  shows "find_rule b' i = (if i = j then None else find_rule b i)"
proof -
  have "List.find (\<lambda>r. ru_id r = i) (filter (\<lambda>x. ru_id x \<noteq> j) xs)
      = (if i = j then None else List.find (\<lambda>r. ru_id r = i) xs)" for xs :: "adjustment_row list"
    by (induction xs) auto
  then show ?thesis using assms by (simp add: find_rule_def)
qed

lemma moves_sound: "moves r r' \<Longrightarrow> sound_rule r \<Longrightarrow> sound_rule r'"
  by (auto simp: moves_def terms_def sound_rule_def tax_rule.defs)

lemma table_step_ok:
  assumes "table_step cuid b b'" "rules_ok cuid b"
  shows "rules_ok cuid b' \<and> lg_seq (ab_ledger b) \<le> lg_seq (ab_ledger b')"
  using assms(1)
proof cases
  case same
  then show ?thesis using assms(2) unfolding rules_ok_def by (metis order.strict_trans2)
next
  case (appears r)
  have "cuid (lg_seq (ab_ledger b)) \<notin> ru_id ` set (ab_rows b)"
    using assms(2) unfolding rules_ok_def by (auto dest: injD) (metis injD less_irrefl)
  then show ?thesis using assms(2) appears unfolding rules_ok_def by (auto intro: less_SucI) (meson less_SucI)
next
  case (row_moves i r r')
  have ids: "ru_id r' = ru_id r" "ru_id r = i" "r \<in> set (ab_rows b)"
    using row_moves(1,2) find_rule_id by (auto simp: moves_def)
  have "map ru_id (ab_rows b') = map ru_id (ab_rows b)" using row_moves(3) ids by (auto simp: put_rule_def)
  moreover have "sound_rule x \<and> (\<exists>n < lg_seq (ab_ledger b). ru_id x = cuid n)" if "x \<in> set (ab_rows b')" for x
  proof (cases "x \<in> set (ab_rows b)")
    case True
    then show ?thesis using assms(2) by (simp add: rules_ok_def)
  next
    case False
    then have "x = r'" using that row_moves(3) by (auto simp: put_rule_def split: if_splits)
    then show ?thesis using assms(2) ids moves_sound[OF row_moves(2)] unfolding rules_ok_def by metis
  qed
  ultimately show ?thesis using assms(2) row_moves(4) unfolding rules_ok_def by simp
next
  case (disappears i r)
  then show ?thesis using assms(2) unfolding rules_ok_def by (auto simp: distinct_map_filter)
qed

text \<open>What a step may do to a row that is no draft.\<close>

definition settled :: "adjustment_row \<Rightarrow> adjustment_row option \<Rightarrow> bool" where
  "settled r x \<longleftrightarrow>
     (case x of
        None \<Rightarrow> ru_status r = R_ARCHIVED
      | Some r' \<Rightarrow> terms r' = terms r \<and>
          (ru_status r' = R_ARCHIVED \<or> ru_status r' = R_PUBLISHED \<and> ru_status r = R_PUBLISHED))"

lemma table_step_settled:
  assumes "table_step cuid b b'" "find_rule b i = Some r" "ru_status r \<noteq> R_DRAFT"
  shows "settled r (find_rule b' i)"
proof -
  have self: "settled r (Some r)" using assms(3) by (cases "ru_status r") (simp_all add: settled_def)
  show ?thesis using assms(1)
  proof cases
    case same
    then show ?thesis using self assms(2) by (simp add: find_rule_def)
  next
    case (appears x)
    then show ?thesis using self assms(2) find_rule_append[OF appears(1), of i] by simp
  next
    case (row_moves j x x')
    have j: "ru_id x' = j" "ru_id x = j" using row_moves(1,2) find_rule_id by (auto simp: moves_def)
    have "settled r (Some x')" if "i = j"
      using row_moves(1,2) that assms(2,3) by (cases "ru_status r") (auto simp: settled_def moves_def)
    then show ?thesis using self assms(2) find_rule_put[OF row_moves(3), of x i] row_moves(1) j by auto
  next
    case (disappears j x)
    then show ?thesis using self assms(2,3) find_rule_filter[OF disappears(3), of i]
      by (cases "i = j"; cases "ru_status r") (simp_all add: settled_def)
  qed
qed

definition later_rules :: "(nat \<Rightarrow> string) \<Rightarrow> adjustment_book \<Rightarrow> adjustment_book \<Rightarrow> bool" where
  "later_rules cuid b b' \<longleftrightarrow> lg_seq (ab_ledger b) \<le> lg_seq (ab_ledger b') \<and>
     (\<forall>n < lg_seq (ab_ledger b). find_rule b (cuid n) = None \<longrightarrow> find_rule b' (cuid n) = None)"

lemma table_step_later:
  assumes "table_step cuid b b'" "rules_ok cuid b"
  shows "later_rules cuid b b'"
  unfolding later_rules_def
proof (intro conjI allI impI)
  show "lg_seq (ab_ledger b) \<le> lg_seq (ab_ledger b')" using table_step_ok[OF assms] by blast
  fix n assume n: "n < lg_seq (ab_ledger b)" "find_rule b (cuid n) = None"
  show "find_rule b' (cuid n) = None" using assms(1)
  proof cases
    case same
    then show ?thesis using n(2) by (simp add: find_rule_def)
  next
    case (appears x)
    have "cuid (lg_seq (ab_ledger b)) \<noteq> cuid n" using assms(2) n(1) unfolding rules_ok_def by (metis injD less_irrefl)
    then show ?thesis using n find_rule_append[OF appears(1), of "cuid n"] appears(2) by simp
  next
    case (row_moves j x x')
    have "ru_id x' = j" "ru_id x = j" using row_moves(1,2) find_rule_id by (auto simp: moves_def)
    then show ?thesis using n(2) find_rule_put[OF row_moves(3), of x "cuid n"] row_moves(1) by auto
  next
    case (disappears j x)
    then show ?thesis using n(2) find_rule_filter[OF disappears(3), of "cuid n"] by simp
  qed
qed

lemma later_rules_trans: "later_rules cuid s t \<Longrightarrow> later_rules cuid t u \<Longrightarrow> later_rules cuid s u"
  unfolding later_rules_def by (meson order.strict_trans2 order_trans)

interpretation rule_system: guarded_system "table_step cuid" "rules_ok cuid" "later_rules cuid" for cuid
  by unfold_locales
    (auto dest: table_step_ok table_step_later intro: later_rules_trans simp: later_rules_def[of cuid s s for s])

lemma rule_run_table:
  assumes "(rule_step cuid vcol ccol)\<^sup>*\<^sup>* b b'" "sign_kept vcol" "sign_kept ccol"
  shows "(table_step cuid)\<^sup>*\<^sup>* b b'"
  using assms(1) by (rule rtranclp_mono[THEN predicate2D, rotated]) (auto intro: rule_table_step assms(2,3))

text \<open>Once archived, a rule stays archived with its terms, or disappears for good.\<close>

lemma archived_run:
  assumes "(table_step cuid)\<^sup>*\<^sup>* b b'" "find_rule b i = Some r" "ru_status r = R_ARCHIVED" "rules_ok cuid b"
  shows "case find_rule b' i of None \<Rightarrow> True | Some r' \<Rightarrow> terms r' = terms r \<and> ru_status r' = R_ARCHIVED"
  using assms(1)
proof induction
  case base
  then show ?case using assms(2,3) by simp
next
  case (step c d)
  show ?case
  proof (cases "find_rule c i")
    case None
    obtain n where "n < lg_seq (ab_ledger b)" "i = cuid n"
      using assms(2,4) find_rule_id unfolding rules_ok_def by blast
    moreover have "later_rules cuid b c" by (rule rule_system.run_later[OF step.hyps(1) assms(4)])
    ultimately have "n < lg_seq (ab_ledger c)" "find_rule c (cuid n) = None"
      using None unfolding later_rules_def by simp_all
    moreover have "later_rules cuid c d"
      by (rule table_step_later[OF step.hyps(2) rule_system.run_good[OF step.hyps(1) assms(4)]])
    ultimately show ?thesis using \<open>i = cuid n\<close> unfolding later_rules_def by simp
  next
    case (Some rc)
    then have "terms rc = terms r" "ru_status rc = R_ARCHIVED" using step.IH by simp_all
    then show ?thesis using table_step_settled[OF step.hyps(2) Some]
      by (auto simp: settled_def split: option.splits)
  qed
qed

text \<open>A published rule is final: whatever calls follow, it keeps its terms (kind, head, method, value, cap,
  year, period and name) and is published or archived; it disappears only after it was archived with
  these terms. No call turns it back into a draft or edits it.\<close>

theorem published_rules_are_final:
  assumes "rules_ok cuid b" "sign_kept vcol" "sign_kept ccol" "(rule_step cuid vcol ccol)\<^sup>*\<^sup>* b b'"
    and "find_rule b i = Some r" "ru_status r = R_PUBLISHED"
  shows "case find_rule b' i of
      Some r' \<Rightarrow> terms r' = terms r \<and> ru_status r' \<in> {R_PUBLISHED, R_ARCHIVED}
    | None \<Rightarrow> \<exists>c rc. (rule_step cuid vcol ccol)\<^sup>*\<^sup>* b c \<and> (rule_step cuid vcol ccol)\<^sup>*\<^sup>* c b' \<and>
        find_rule c i = Some rc \<and> terms rc = terms r \<and> ru_status rc = R_ARCHIVED"
proof -
  let ?step = "rule_step cuid vcol ccol"
  let ?archived = "\<lambda>c. \<exists>rc. find_rule c i = Some rc \<and> terms rc = terms r \<and> ru_status rc = R_ARCHIVED"
  have run: "?step\<^sup>*\<^sup>* c d \<Longrightarrow> (table_step cuid)\<^sup>*\<^sup>* c d" for c d using rule_run_table assms(2,3) by blast
  have "(\<exists>r'. find_rule b' i = Some r' \<and> terms r' = terms r \<and> ru_status r' = R_PUBLISHED) \<or>
      (\<exists>c. ?step\<^sup>*\<^sup>* b c \<and> ?step\<^sup>*\<^sup>* c b' \<and> ?archived c)"
    using assms(4)
  proof induction
    case base
    then show ?case using assms(5,6) by blast
  next
    case (step c d)
    have t: "table_step cuid c d" using step.hyps(2) assms(2,3) by (rule rule_table_step)
    from step.IH show ?case
    proof
      assume "\<exists>r'. find_rule c i = Some r' \<and> terms r' = terms r \<and> ru_status r' = R_PUBLISHED"
      then obtain rc where rc: "find_rule c i = Some rc" "terms rc = terms r" "ru_status rc = R_PUBLISHED" by blast
      then obtain rd where "find_rule d i = Some rd" "terms rd = terms r" "ru_status rd \<in> {R_PUBLISHED, R_ARCHIVED}"
        using table_step_settled[OF t rc(1)] by (auto simp: settled_def split: option.splits)
      moreover have "?step\<^sup>*\<^sup>* b d" using step.hyps by (rule rtranclp.rtrancl_into_rtrancl)
      ultimately show ?thesis by blast
    next
      assume "\<exists>e. ?step\<^sup>*\<^sup>* b e \<and> ?step\<^sup>*\<^sup>* e c \<and> ?archived e"
      then show ?thesis using step.hyps(2) by (meson rtranclp.rtrancl_into_rtrancl)
    qed
  qed
  then show ?thesis
  proof
    assume "\<exists>r'. find_rule b' i = Some r' \<and> terms r' = terms r \<and> ru_status r' = R_PUBLISHED"
    then show ?thesis by auto
  next
    assume "\<exists>c. ?step\<^sup>*\<^sup>* b c \<and> ?step\<^sup>*\<^sup>* c b' \<and> ?archived c"
    then obtain c rc where c: "?step\<^sup>*\<^sup>* b c" "?step\<^sup>*\<^sup>* c b'" and rc: "find_rule c i = Some rc" "terms rc = terms r"
      "ru_status rc = R_ARCHIVED" by blast
    have "rules_ok cuid c" by (rule rule_system.run_good[OF run[OF c(1)] assms(1)])
    then show ?thesis using archived_run[OF run[OF c(2)] rc(1,3)] c rc by (auto split: option.splits)
  qed
qed

lemma loaded_rules:
  "set (loadPublishedRules (rule_view b) yearId now) = tax_rule.truncate ` {r \<in> set (ab_rows b). ru_status r = R_PUBLISHED \<and>
      (ru_yearId r = None \<or> ru_yearId r = Some yearId) \<and> (\<forall>t. ru_effectiveFrom r = Some t \<longrightarrow> t \<le> now) \<and>
      (\<forall>t. ru_effectiveTo r = Some t \<longrightarrow> now \<le> t)}"
proof -
  have period: "(case x of Some t \<Rightarrow> \<not> t > now | None \<Rightarrow> True) \<longleftrightarrow> (\<forall>t. x = Some t \<longrightarrow> t \<le> now)"
    "(case x of Some t \<Rightarrow> \<not> t < now | None \<Rightarrow> True) \<longleftrightarrow> (\<forall>t. x = Some t \<longrightarrow> now \<le> t)" for x
    by (cases x; simp add: not_less)+
  have row: "tax_rule.truncate (rule_row.truncate r) = tax_rule.truncate r" "ru_status (rule_row.truncate r) = ru_status r"
    "ru_yearId (rule_row.truncate r) = ru_yearId r" "ru_effectiveFrom (rule_row.truncate r) = ru_effectiveFrom r"
    "ru_effectiveTo (rule_row.truncate r) = ru_effectiveTo r" for r :: adjustment_row
    by (simp_all add: rule_row.defs tax_rule.defs)
  have view: "lg_rules (rule_view b) = map rule_row.truncate (ab_rows b)" by (simp add: rule_view_def)
  show ?thesis
    unfolding loadPublishedRules_def view period filter_map filter_filter map_map o_def row set_map set_filter
    by (rule arg_cong[where f = "image tax_rule.truncate"]) blast
qed

text \<open>The rules that a publication of demands loads are sound in every state that calls of the service
  lead to: each is the row of a rule that is published now, for that year or for all, and whose period
  covers now, and every such row is loaded. So the assessment with them is exact: every rule comes to
  its amount in paise, bounded by its cap and its head, and the result is the integer sum of these.\<close>

theorem loaded_rules_assess_exactly:
  assumes "rules_ok cuid b" "sign_kept vcol" "sign_kept ccol" "(rule_step cuid vcol ccol)\<^sup>*\<^sup>* b b'"
    and "rules = loadPublishedRules (rule_view b') yearId now"
    and "good_base base" "in_column (assessed_bound base rules arrears)" "in_column arrears" "in_column paid"
  shows "set rules = tax_rule.truncate ` {r \<in> set (ab_rows b'). ru_status r = R_PUBLISHED \<and>
      (ru_yearId r = None \<or> ru_yearId r = Some yearId) \<and> (\<forall>t. ru_effectiveFrom r = Some t \<longrightarrow> t \<le> now) \<and>
      (\<forall>t. ru_effectiveTo r = Some t \<longrightarrow> now \<le> t)} \<and>
    (\<exists>adj. adjusted_by base rules adj \<and> computePropertyAssessment
      \<lparr>as_base = base_of_paise base ttl, as_rules = Some rules, as_arrears = Some (paise arrears),
       as_amountPaid = Some (paise paid)\<rparr> = assess_paise adj base rules arrears paid)"
proof -
  have ok: "rules_ok cuid b'" using rule_system.run_good[OF rule_run_table[OF assms(4,2,3)] assms(1)] .
  have rows: "set rules = tax_rule.truncate ` {r \<in> set (ab_rows b'). ru_status r = R_PUBLISHED \<and>
      (ru_yearId r = None \<or> ru_yearId r = Some yearId) \<and> (\<forall>t. ru_effectiveFrom r = Some t \<longrightarrow> t \<le> now) \<and>
      (\<forall>t. ru_effectiveTo r = Some t \<longrightarrow> now \<le> t)}"
    unfolding assms(5) by (rule loaded_rules)
  have "0 \<le> tr_value rule" if rule: "rule \<in> set rules" for rule
  proof -
    obtain r where "r \<in> set (ab_rows b')" "rule = tax_rule.truncate r" using rule unfolding rows by blast
    then show ?thesis using ok by (simp add: rules_ok_def sound_rule_def tax_rule.defs)
  qed
  then have "\<forall>rule \<in> set rules. 0 \<le> tr_value rule" by blast
  then show ?thesis
    using rows assessment_in_paise[OF assms(6) _ assms(7-9), where ttl = ttl] code_adjusted_by[OF assms(6) _ assms(7)]
    by blast
qed

subsection \<open>Samples\<close>

definition sample_rule_env :: adjustment_env where
  "sample_rule_env =
     \<lparr>ae_cuid = unary, ae_value = Some, ae_cap = Some, ae_now = 5, ae_date = (\<lambda>_. Some 0), ae_collate = (\<lambda>_ _. 0)\<rparr>"

definition sample_row :: "string \<Rightarrow> tax_rule \<Rightarrow> adjustment_row" where
  "sample_row i t =
     \<lparr>tr_kind = tr_kind t, tr_head = tr_head t, tr_method = tr_method t, tr_value = tr_value t, tr_cap = tr_cap t,
      ru_id = i, ru_yearId = None, ru_status = R_PUBLISHED, ru_effectiveFrom = None, ru_effectiveTo = None,
      aj_name = ''Rule'', aj_publishedAt = Some 0, aj_publishedById = None, aj_updatedAt = 0\<rparr>"

text \<open>The two sample rules and a third one, which is then archived.\<close>

definition three_rules :: adjustment_book where
  "three_rules =
     \<lparr>ab_rows = map (sample_row ''a'') (take 1 sample_rules) @ map (sample_row ''aa'') (drop 1 sample_rules)
               @ map (sample_row ''aaa'') (take 1 sample_rules),
      ab_ledger = empty_ledger\<lparr>lg_seq := 3\<rparr>\<rparr>"

definition third_archived :: adjustment_book where
  "third_archived = fst (archive_rule sample_rule_env three_rules ''aaa'' None)"

lemma three_rules_ok: "sign_kept Some" "rules_ok unary three_rules"
proof -
  have "''a'' = unary 0" "''aa'' = unary 1" "''aaa'' = unary 2" by (simp_all add: unary_def numeral_eq_Suc)
  then have "\<exists>n < 3. ''a'' = unary n" "\<exists>n < 3. ''aa'' = unary n" "\<exists>n < 3. ''aaa'' = unary n"
    by (metis zero_less_numeral, metis one_less_numeral_iff semiring_norm(77), metis lessI numeral_3_eq_3 numeral_2_eq_2)
  then show "rules_ok unary three_rules"
    by (simp add: rules_ok_def inj_unary three_rules_def sample_rules_def sample_row_def sound_rule_def)
qed (simp add: sign_kept_def)

lemma third_archived_run: "(rule_step unary Some Some)\<^sup>*\<^sup>* three_rules third_archived"
  unfolding third_archived_def by (rule r_into_rtranclp, rule rule_step.archive, rule prod.collapse[symmetric])

lemma third_archived_rows:
  "ab_rows third_archived = take 2 (ab_rows three_rules) @
     [(sample_row ''aaa'' (hd sample_rules))\<lparr>ru_status := R_ARCHIVED, aj_updatedAt := 5\<rparr>]"
  by (simp add: third_archived_def archive_rule_def getById_def find_rule_def three_rules_def sample_row_def
      sample_rules_def sample_rule_env_def put_rule_def Let_def)

lemma published_rules_are_final_witness:
  "case find_rule third_archived ''aaa'' of
      Some r' \<Rightarrow> tr_value r' = 25 \<and> ru_status r' \<in> {R_PUBLISHED, R_ARCHIVED} | None \<Rightarrow> False"
proof -
  let ?r = "sample_row ''aaa'' (hd sample_rules)"
  have r: "find_rule three_rules ''aaa'' = Some ?r" "ru_status ?r = R_PUBLISHED" "tr_value ?r = 25"
    by (simp_all add: find_rule_def three_rules_def sample_row_def sample_rules_def)
  have "find_rule third_archived ''aaa'' \<noteq> None"
    by (simp add: find_rule_def third_archived_rows three_rules_def sample_row_def sample_rules_def)
  then show ?thesis
    using published_rules_are_final[OF three_rules_ok(2,1,1) third_archived_run r(1,2)] r(3)
    by (auto simp: terms_def tax_rule.defs split: option.splits)
qed

lemma loaded_rules_assess_exactly_witness:
  "pa_outstanding (computePropertyAssessment
      \<lparr>as_base = base_of_paise sample_base 0, as_rules = Some (loadPublishedRules (rule_view third_archived) ''y'' 7),
       as_arrears = Some (paise 30000), as_amountPaid = Some (paise 50000)\<rparr>) = paise 82700"
proof -
  have rules: "sample_rules = loadPublishedRules (rule_view third_archived) ''y'' 7"
    by (simp add: third_archived_rows three_rules_def sample_row_def sample_rules_def loadPublishedRules_def
        rule_view_def rule_row.defs tax_rule.defs)
  obtain adj where adj: "adjusted_by sample_base sample_rules adj" "computePropertyAssessment
      \<lparr>as_base = base_of_paise sample_base 0, as_rules = Some sample_rules, as_arrears = Some (paise 30000),
       as_amountPaid = Some (paise 50000)\<rparr> = assess_paise adj sample_base sample_rules 30000 50000"
    using loaded_rules_assess_exactly[OF three_rules_ok(2,1,1) third_archived_run rules sample_in_bounds(1,3,4,5), of 0]
    by blast
  show ?thesis unfolding rules[symmetric] adj(2) assess_paise_def sample_adjustments[OF adj(1)] Let_def
    by (simp add: sample_base_def)
qed

end
