(* ===== verification/Floors.thy ===== *)
theory Floors
  imports Money
begin

text \<open>
  \<open>surveys/floors.util.ts\<close>: the text of the floors of a survey as the survey workbook writes it,
  read into rows and written back, and the data quality of a survey. The regular expressions are
  recursive functions over the text. A printed number is one of whole hundredths, below \<open>10 ^ 15\<close>,
  where the shortest decimal of JavaScript is that of the hundredths.
\<close>

subsection \<open>Numbers in text\<close>

text \<open>\<open>Number(s)\<close> for digits and dots; \<open>None\<close> is not a number.\<close>

definition area_char :: "char \<Rightarrow> bool" where
  "area_char c \<longleftrightarrow> is_digit c \<or> c = CHR ''.''"

definition digit_value :: "char \<Rightarrow> int" where
  "digit_value c = of_char c - 48"

definition decimal_value :: "string \<Rightarrow> int" where
  "decimal_value s = foldl (\<lambda>n c. 10 * n + digit_value c) 0 s"

definition text_number :: "string \<Rightarrow> js_number option" where
  "text_number s =
     (let whole = takeWhile is_digit s; rest = dropWhile is_digit s in
      if rest = [] then (if whole = [] then None else Some (fl (of_int (decimal_value whole))))
      else
       (let frac = tl rest in
        if hd rest = CHR ''.'' \<and> list_all is_digit frac \<and> (whole \<noteq> [] \<or> frac \<noteq> [])
        then Some (fl (of_int (decimal_value (whole @ frac)) / 10 ^ length frac))
        else None))"

text \<open>\<open>String(k / 100)\<close>.\<close>

definition hundredths_text :: "int \<Rightarrow> string" where
  "hundredths_text k =
     (let n = nat \<bar>k\<bar>; whole = nat_text (n div 100); r = n mod 100 in
      (if k < 0 then ''-'' else []) @ whole @
      (if r = 0 then []
       else if r mod 10 = 0 then [CHR ''.'', digit_char (r div 10)]
       else [CHR ''.'', digit_char (r div 10), digit_char (r mod 10)]))"

subsection \<open>Reading\<close>

record parsed_floor =
  pf_floorLabel :: string
  pf_areaSqFt :: "js_number option option"
  pf_areaSqMeter :: "js_number option option"
  pf_usageType :: "string option"
  pf_usageFactor :: "string option"
  pf_buildingType :: "string option"
  pf_sortOrder :: nat
  pf_rawSegment :: string

definition is_newline :: "char \<Rightarrow> bool" where
  "is_newline c \<longleftrightarrow> c = CHR 0x0A \<or> c = CHR 0x0D"

definition prefix_ci :: "string \<Rightarrow> string \<Rightarrow> bool" where
  "prefix_ci key s \<longleftrightarrow> length key \<le> length s \<and> toLowerCase (take (length key) s) = toLowerCase key"

text \<open>\<open>s.split("||")\<close>\<close>

fun split_bars :: "string \<Rightarrow> string list" where
  "split_bars (c # d # cs) =
     (if c = CHR ''|'' \<and> d = CHR ''|'' then [] # split_bars cs
      else (case split_bars (d # cs) of [] \<Rightarrow> [[c]] | w # ws \<Rightarrow> (c # w) # ws))"
| "split_bars s = [s]"

text \<open>\<open>/^(.+?)\s*-\s*([\d.]+)\s*SqFt/i\<close>: what follows the label, then the shortest label.\<close>

definition area_after :: "string \<Rightarrow> string option" where
  "area_after s =
     (case dropWhile is_space s of
        [] \<Rightarrow> None
      | c # t \<Rightarrow>
         (let u = dropWhile is_space t; d = takeWhile area_char u
          in if c = CHR ''-'' \<and> d \<noteq> [] \<and> prefix_ci ''SqFt'' (dropWhile is_space (dropWhile area_char u))
             then Some d else None))"

fun label_match :: "string \<Rightarrow> string \<Rightarrow> (string \<times> string) option" where
  "label_match pre [] = None"
| "label_match pre (c # cs) =
     (if is_newline c then None
      else (case area_after cs of Some d \<Rightarrow> Some (pre @ [c], d) | None \<Rightarrow> label_match (pre @ [c]) cs))"

text \<open>\<open>/([\d.]+)\s*SqMt/i\<close>, the leftmost match.\<close>

definition sqm_at :: "string \<Rightarrow> string option" where
  "sqm_at s =
     (let d = takeWhile area_char s
      in if d \<noteq> [] \<and> prefix_ci ''SqMt'' (dropWhile is_space (dropWhile area_char s)) then Some d else None)"

fun sqm_match :: "string \<Rightarrow> string option" where
  "sqm_match [] = None"
| "sqm_match (c # cs) = (case sqm_at (c # cs) of Some d \<Rightarrow> Some d | None \<Rightarrow> sqm_match cs)"

text \<open>\<open>/Usage Type\s*-\s*(.+?)(?=\s*\|\||$)/gi\<close> and \<open>/Usage Factor\s*-\s*(.+)$/i\<close> on a trimmed part without
  double bars: the value runs to the end of the part.\<close>

definition field_at :: "string \<Rightarrow> string \<Rightarrow> string option" where
  "field_at key s =
     (if prefix_ci key s
      then (case dropWhile is_space (drop (length key) s) of
              [] \<Rightarrow> None
            | c # t \<Rightarrow>
               (let v = dropWhile is_space t
                in if c = CHR ''-'' \<and> v \<noteq> [] \<and> list_all (\<lambda>c. \<not> is_newline c) v then Some v else None))
      else None)"

fun field_match :: "string \<Rightarrow> string \<Rightarrow> string option" where
  "field_match key [] = None"
| "field_match key (c # cs) = (case field_at key (c # cs) of Some v \<Rightarrow> Some v | None \<Rightarrow> field_match key cs)"

definition field_values :: "string \<Rightarrow> string list \<Rightarrow> string list" where
  "field_values key parts = map trim (List.map_filter (field_match key) parts)"

definition parse_segment :: "nat \<Rightarrow> string \<Rightarrow> parsed_floor" where
  "parse_segment index segment =
     (let parts = map trim (split_bars segment);
          head = hd parts;
          labelMatch = label_match [] head;
          sqmMatch = sqm_match head;
          usageTypeValues = field_values ''Usage Type'' (tl parts);
          factors = field_values ''Usage Factor'' (tl parts)
      in \<lparr>pf_floorLabel = or_text (nullish (map_option (\<lambda>m. trim (fst m)) labelMatch) [])
            (''Floor '' @ nat_text (index + 1)),
          pf_areaSqFt = map_option (\<lambda>m. text_number (snd m)) labelMatch,
          pf_areaSqMeter = map_option text_number sqmMatch,
          pf_usageType = (if usageTypeValues = [] then None else Some (hd usageTypeValues)),
          pf_usageFactor = (if factors = [] then None else Some (last factors)),
          pf_buildingType = (if length usageTypeValues < 2 then None else Some (usageTypeValues ! 1)),
          pf_sortOrder = index,
          pf_rawSegment = segment\<rparr>)"

definition parseFloorsRaw :: "string option \<Rightarrow> parsed_floor list" where
  "parseFloorsRaw floorsRaw =
     (if trim (nullish floorsRaw []) = [] then []
      else
       (let segments = filter (\<lambda>s. s \<noteq> []) (map trim (split_char (CHR '','') (nullish floorsRaw [])))
        in map (\<lambda>(i, s). parse_segment i s) (enumerate 0 segments)))"

subsection \<open>Writing\<close>

record floor_input =
  fi_floorLabel :: string
  fi_areaSqFt :: "js_number option"
  fi_areaSqMeter :: "js_number option"
  fi_usageType :: "string option"
  fi_usageFactor :: "string option"
  fi_buildingType :: "string option"

definition formatFloorNumber :: "js_number \<Rightarrow> string" where
  "formatFloorNumber v = hundredths_text (js_round_int (fl (v * 100)))"

definition floor_sqFt :: "floor_input \<Rightarrow> js_number" where
  "floor_sqFt f = nullish (fi_areaSqFt f) 0"

definition floor_sqM :: "floor_input \<Rightarrow> js_number" where
  "floor_sqM f =
     nullish (fi_areaSqMeter f)
       (fl (of_int (js_round_int (fl (fl (floor_sqFt f * fl (92903 / 1000000)) * 100))) / 100))"

definition filled_field :: "string \<Rightarrow> string option \<Rightarrow> string list" where
  "filled_field key v = (if trim (nullish v []) = [] then [] else [key @ '' - '' @ trim (nullish v [])])"

definition serialize_floor :: "floor_input \<Rightarrow> string" where
  "serialize_floor f =
     join '' || ''
       ([or_text (trim (fi_floorLabel f)) ''Floor'' @ '' - '' @ formatFloorNumber (floor_sqFt f) @ '' SqFt - ''
           @ formatFloorNumber (floor_sqM f) @ '' SqMt'']
        @ filled_field ''Usage Type'' (fi_usageType f)
        @ filled_field ''Usage Factor'' (fi_usageFactor f)
        @ filled_field ''Usage Type'' (fi_buildingType f))"

definition serializeFloorsRaw :: "floor_input list \<Rightarrow> string" where
  "serializeFloorsRaw floors = join '', '' (map serialize_floor floors)"

subsection \<open>Data quality\<close>

datatype data_quality =
    COMPLETE | NEEDS_REVIEW | INVALID | DUPLICATE | MISSING_CONTACT | MISSING_PROPERTY_NUMBER | MISSING_MEASUREMENT

definition computeDataQuality ::
  "string option \<Rightarrow> string option \<Rightarrow> string option \<Rightarrow> js_number option \<Rightarrow> js_number option \<Rightarrow> data_quality" where
  "computeDataQuality mobile propertyNo parcelNo plotAreaSqFt totalBuiltUpAreaSqFt =
     (let m = trim (nullish mobile []);
          hasMobile = (length m = 10 \<and> list_all is_digit m)
      in
      if \<not> hasMobile then MISSING_CONTACT
      else if trim (nullish propertyNo []) = [] \<and> trim (nullish parcelNo []) = [] then MISSING_PROPERTY_NUMBER
      else if plotAreaSqFt = None \<and> totalBuiltUpAreaSqFt = None then MISSING_MEASUREMENT
      else if (\<not> unset propertyNo \<or> \<not> unset parcelNo)
              \<and> (nullish plotAreaSqFt 0 \<noteq> 0 \<or> nullish totalBuiltUpAreaSqFt 0 \<noteq> 0) then COMPLETE
      else NEEDS_REVIEW)"

subsection \<open>Printed numbers are read back\<close>

lemma digit_char_simps: "d < 10 \<Longrightarrow> is_digit (digit_char d) \<and> digit_value (digit_char d) = int d"
proof -
  have "\<forall>d \<in> set [0..<10]. is_digit (digit_char d) \<and> digit_value (digit_char d) = int d" by code_simp
  then show "d < 10 \<Longrightarrow> is_digit (digit_char d) \<and> digit_value (digit_char d) = int d" by simp
qed

lemma digits_value_snoc: "decimal_value (s @ [c]) = 10 * decimal_value s + digit_value c"
  by (simp add: decimal_value_def)

lemma nat_text_value: "list_all is_digit (nat_text n) \<and> decimal_value (nat_text n) = int n \<and> nat_text n \<noteq> []"
proof (induction n rule: nat_text.induct)
  case (1 n)
  show ?case
  proof (cases "n < 10")
    case True
    then show ?thesis using digit_char_simps[OF True]
      by (subst (1 2 3) nat_text.simps) (simp add: decimal_value_def)
  next
    case False
    have "n mod 10 < 10" by simp
    note d = digit_char_simps[OF this]
    have "int n = 10 * int (n div 10) + int (n mod 10)"
      by (metis mult_div_mod_eq of_nat_add of_nat_mult of_nat_numeral)
    then show ?thesis using 1[OF False] d False
      by (subst (1 2 3) nat_text.simps) (simp add: digits_value_snoc)
  qed
qed

lemma takeWhile_digits: "list_all is_digit w \<Longrightarrow> takeWhile is_digit (w @ CHR ''.'' # s) = w \<and> dropWhile is_digit (w @ CHR ''.'' # s) = CHR ''.'' # s"
  by (induction w) (auto simp: is_digit_def)

lemma all_digits_split: "list_all is_digit w \<Longrightarrow> takeWhile is_digit w = w \<and> dropWhile is_digit w = []"
  by (induction w) auto

lemma text_number_point:
  assumes "list_all is_digit w" "w \<noteq> []" "list_all is_digit f"
  shows "text_number (w @ CHR ''.'' # f) = Some (fl (of_int (decimal_value (w @ f)) / 10 ^ length f))"
proof -
  have t: "takeWhile is_digit (w @ CHR ''.'' # f) = w" "dropWhile is_digit (w @ CHR ''.'' # f) = CHR ''.'' # f"
    using takeWhile_digits[OF assms(1)] by blast+
  show ?thesis unfolding text_number_def t Let_def using assms by (simp del: append_assoc)
qed

lemma hundredths_text_read:
  assumes "0 \<le> k"
  shows "text_number (hundredths_text k) = Some (paise k)" and "list_all area_char (hundredths_text k)"
    and "hundredths_text k \<noteq> []"
proof -
  define n where "n = nat k"
  define w where "w = nat_text (n div 100)"
  define r where "r = n mod 100"
  have k: "k = int n" using assms by (simp add: n_def)
  have w: "list_all is_digit w" "decimal_value w = int (n div 100)" "w \<noteq> []"
    using nat_text_value by (auto simp: w_def)
  have n: "n = 100 * (n div 100) + r" by (simp add: r_def)
  have h: "hundredths_text k = w @ (if r = 0 then [] else if r mod 10 = 0 then [CHR ''.'', digit_char (r div 10)]
       else [CHR ''.'', digit_char (r div 10), digit_char (r mod 10)])"
    using assms by (simp add: hundredths_text_def Let_def n_def w_def r_def)
  have "r div 10 < 10" "r mod 10 < 10" by (simp_all add: r_def)
  note d = digit_char_simps[OF this(1)] digit_char_simps[OF this(2)]
  have area: "list_all is_digit s \<Longrightarrow> list_all area_char s" for s by (auto simp: list_all_iff area_char_def)
  show "hundredths_text k \<noteq> []" using w(3) by (simp add: h)
  show "list_all area_char (hundredths_text k)" using area[OF w(1)] d by (auto simp: h area_char_def)
  consider "r = 0" | "r \<noteq> 0" "r mod 10 = 0" | "r mod 10 \<noteq> 0" by auto
  then show "text_number (hundredths_text k) = Some (paise k)"
  proof cases
    case 1
    have "(of_int k :: rat) / 100 = of_int (int (n div 100))"
      using n 1 unfolding k by (metis add_0_right nonzero_mult_div_cancel_left of_int_of_nat_eq of_nat_mult of_nat_numeral zero_neq_numeral)
    then show ?thesis using w(2,3) by (simp add: h 1 text_number_def paise_def Let_def all_digits_split[OF w(1)])
  next
    case 2
    let ?m = "10 * (n div 100) + r div 10"
    have "10 * (r div 10) = r" using 2(2) by auto
    moreover have "n = 100 * q + r \<Longrightarrow> 10 * t = r \<Longrightarrow> n = 10 * (10 * q + t)" for q t :: nat by simp
    ultimately have "n = 10 * ?m" using n by blast
    then have "(of_nat n :: rat) = 10 * of_nat ?m" by (metis of_nat_mult of_nat_numeral)
    then have "(of_nat n :: rat) / 100 = of_nat ?m / 10" by simp
    moreover have "hundredths_text k = w @ CHR ''.'' # [digit_char (r div 10)]" using 2 by (simp add: h)
    moreover have "decimal_value (w @ [digit_char (r div 10)]) = int ?m" using d w(2) by (simp add: digits_value_snoc)
    ultimately show ?thesis using text_number_point[OF w(1,3), of "[digit_char (r div 10)]"] d
      by (simp add: paise_def k add_divide_distrib)
  next
    case 3
    have r0: "r \<noteq> 0" using 3 by auto
    have v: "decimal_value (w @ [digit_char (r div 10), digit_char (r mod 10)]) = k"
    proof -
      have "decimal_value ((w @ [digit_char (r div 10)]) @ [digit_char (r mod 10)]) = 10 * (10 * int (n div 100) + int (r div 10)) + int (r mod 10)"
        unfolding digits_value_snoc using d w(2) by simp
      also have "10 * (10 * a + b) + c = k" if "int n = 100 * a + int r" "int r = 10 * b + c" for a b c
        using that k by simp
      then have "10 * (10 * int (n div 100) + int (r div 10)) + int (r mod 10) = k"
        using n by (metis mult_div_mod_eq of_nat_add of_nat_mult of_nat_numeral)
      finally show ?thesis by simp
    qed
    moreover have "hundredths_text k = w @ CHR ''.'' # [digit_char (r div 10), digit_char (r mod 10)]"
      using 3 r0 by (simp add: h)
    ultimately show ?thesis using text_number_point[OF w(1,3), of "[digit_char (r div 10), digit_char (r mod 10)]"] d
      by (simp add: paise_def)
  qed
qed

subsection \<open>Texts that the separators leave whole\<close>

definition plain_text :: "string \<Rightarrow> bool" where
  "plain_text s \<longleftrightarrow> s \<noteq> [] \<and> \<not> is_space (hd s) \<and> \<not> is_space (last s) \<and>
     list_all (\<lambda>c. c \<notin> {CHR '','', CHR ''|'', CHR ''-''} \<and> \<not> is_newline c) s"

lemma trim_space_front [simp]: "trim (CHR '' '' # s) = trim s"
  by (simp add: trim_def is_space_def)

lemma trim_space_back [simp]: "trim (s @ '' '') = trim s"
proof (cases "\<forall>c \<in> set s. is_space c")
  case True
  then have "\<forall>c \<in> set (s @ '' ''). is_space c" by (simp add: is_space_def)
  then have "dropWhile is_space s = []" "dropWhile is_space (s @ '' '') = []"
    using True unfolding dropWhile_eq_Nil_conv by blast+
  then show ?thesis unfolding trim_def by (simp only: rev.simps dropWhile.simps)
next
  case False
  then have "dropWhile is_space (s @ '' '') = dropWhile is_space s @ '' ''" by (auto simp: dropWhile_append1)
  then show ?thesis by (simp add: trim_def is_space_def)
qed

lemma trim_ends:
  assumes "trim s = s" "s \<noteq> []"
  shows "\<not> is_space (hd s) \<and> \<not> is_space (last s)"
proof -
  let ?t = "dropWhile is_space s" and ?u = "dropWhile is_space (rev (dropWhile is_space s))"
  have u: "rev ?u = s" using assms(1) unfolding trim_def .
  then have "?u \<noteq> []" using assms(2) by force
  note u = u this
  then have "length s \<le> length ?t" by (metis length_dropWhile_le length_rev)
  then have "?t = s" by (metis append_self_conv2 length_append le_add_same_cancel2 le_zero_eq length_0_conv takeWhile_dropWhile_id add_le_same_cancel2)
  then have "\<not> is_space (hd s)" using assms(2) by (metis hd_dropWhile)
  moreover have "\<not> is_space (hd ?u)" using u(2) by (rule hd_dropWhile)
  then have "\<not> is_space (last s)" using u by (metis last_rev)
  ultimately show ?thesis by blast
qed

lemma split_bars_none: "CHR ''|'' \<notin> set s \<Longrightarrow> split_bars s = [s]"
  by (induction s rule: split_bars.induct) auto

lemma split_bars_append: "CHR ''|'' \<notin> set s \<Longrightarrow> split_bars (s @ ''||'' @ t) = s # split_bars t"
proof (induction s)
  case (Cons c s)
  then show ?case by (cases s) (auto split: list.splits)
qed simp

lemma split_bars_join:
  assumes "ws \<noteq> []" "\<forall>w \<in> set ws. CHR ''|'' \<notin> set w" "sp = [] \<or> sp = '' ''"
  shows "map trim (split_bars (sp @ join '' || '' ws)) = map trim ws"
  using assms
proof (induction ws arbitrary: sp rule: induct_list012)
  case (3 w v ws)
  have sp: "CHR ''|'' \<notin> set (sp @ w @ '' '')" "trim (sp @ w @ '' '') = trim w"
    using 3(4,5) trim_space_back[of w] by auto
  have "sp @ join '' || '' (w # v # ws) = (sp @ w @ '' '') @ ''||'' @ ('' '' @ join '' || '' (v # ws))" by simp
  then have "split_bars (sp @ join '' || '' (w # v # ws)) = (sp @ w @ '' '') # split_bars ('' '' @ join '' || '' (v # ws))"
    by (simp only: split_bars_append[OF sp(1)])
  moreover have "map trim (split_bars ('' '' @ join '' || '' (v # ws))) = map trim (v # ws)"
    using 3(4) by (intro 3(2)) auto
  ultimately show ?case using sp(2) by (simp only: list.map)
qed (auto simp: split_bars_none)

lemma split_commas_join:
  assumes "ws \<noteq> []" "\<forall>w \<in> set ws. CHR '','' \<notin> set w" "sp = [] \<or> sp = '' ''"
  shows "map trim (split_char (CHR '','') (sp @ join '', '' ws)) = map trim ws"
  using assms
proof (induction ws arbitrary: sp rule: induct_list012)
  case (3 w v ws)
  have sp: "CHR '','' \<notin> set (sp @ w)" "trim (sp @ w) = trim w" using 3(4,5) by auto
  have "sp @ join '', '' (w # v # ws) = (sp @ w) @ CHR '','' # ('' '' @ join '', '' (v # ws))" by simp
  then have "split_char (CHR '','') (sp @ join '', '' (w # v # ws)) = (sp @ w) # split_char (CHR '','') ('' '' @ join '', '' (v # ws))"
    by (simp only: split_char_append[OF sp(1)])
  moreover have "map trim (split_char (CHR '','') ('' '' @ join '', '' (v # ws))) = map trim (v # ws)"
    using 3(4) by (intro 3(2)) auto
  ultimately show ?case using sp(2) by (simp only: list.map)
qed (auto simp: split_char_none)

subsection \<open>The regular expressions find what was written\<close>

lemma label_match_found:
  assumes "area_after rest = Some d" "s \<noteq> []" "\<not> is_space (last s)" "\<forall>c \<in> set s. c \<noteq> CHR ''-'' \<and> \<not> is_newline c"
  shows "label_match pre (s @ rest) = Some (pre @ s, d)"
  using assms(2-4)
proof (induction s arbitrary: pre)
  case (Cons c s)
  show ?case
  proof (cases "s = []")
    case True
    then show ?thesis using Cons.prems assms(1) by simp
  next
    case False
    obtain x t where x: "dropWhile is_space (s @ rest) = x # t" "x \<in> set s"
    proof -
      have "\<exists>c \<in> set s. \<not> is_space c" using False Cons.prems(2) by (metis last.simps last_in_set)
      then have "dropWhile is_space (s @ rest) = dropWhile is_space s @ rest" "dropWhile is_space s \<noteq> []"
        by (auto simp: dropWhile_append1)
      then show thesis using that by (metis append_Cons list.exhaust list.set_intros(1) set_dropWhileD)
    qed
    then have "area_after (s @ rest) = None" using Cons.prems(3) by (auto simp: area_after_def Let_def)
    then show ?thesis using Cons.IH[of "pre @ [c]"] False Cons.prems by simp
  qed
qed simp

lemma prefix_ci_hd: "prefix_ci (k # ks) s \<Longrightarrow> s \<noteq> [] \<and> lower_char (hd s) = lower_char k"
  by (cases s) (auto simp: prefix_ci_def toLowerCase_def)

lemma sqm_skip_char: "\<not> area_char c \<Longrightarrow> sqm_match (c # s) = sqm_match s"
  by (simp add: sqm_at_def)

lemma sqm_skip_number:
  assumes "list_all area_char n"
  shows "sqm_match (n @ '' SqFt'' @ s) = sqm_match ('' SqFt'' @ s)"
  using assms
proof (induction n)
  case (Cons c n)
  have "dropWhile area_char ((c # n) @ '' SqFt'' @ s) = '' SqFt'' @ s"
    using Cons.prems by (auto simp: list_all_iff dropWhile_append2 area_char_def is_digit_def)
  moreover have "\<not> prefix_ci ''SqMt'' (dropWhile is_space ('' SqFt'' @ s))"
    by (simp add: prefix_ci_def toLowerCase_def lower_char_def is_space_def)
  ultimately have "sqm_at ((c # n) @ '' SqFt'' @ s) = None" unfolding sqm_at_def Let_def by (metis (no_types))
  then show ?case using Cons by simp
qed simp

text \<open>A label that does not itself speak of square metres.\<close>

definition speaks_of_sqm :: "string \<Rightarrow> bool" where
  "speaks_of_sqm s \<longleftrightarrow> list_ex (prefix_ci ''SqMt'') (suffixes s)"

lemma speaks_of_sqm_iff: "speaks_of_sqm s \<longleftrightarrow> (\<exists>a b. s = a @ b \<and> prefix_ci ''SqMt'' b)"
proof -
  have "speaks_of_sqm s \<longleftrightarrow> (\<exists>b. suffix b s \<and> prefix_ci ''SqMt'' b)"
    by (simp add: speaks_of_sqm_def list_ex_iff Bex_def)
  then show ?thesis unfolding suffix_def by (metis (no_types))
qed

lemma prefix_ci_append:
  assumes "prefix_ci key (t @ CHR '' '' # rest)" "CHR '' '' \<notin> set (toLowerCase key)"
  shows "prefix_ci key t"
proof (cases "length key \<le> length t")
  case True
  then show ?thesis using assms(1) by (simp add: prefix_ci_def)
next
  case False
  then have "CHR '' '' \<in> set (take (length key) (t @ CHR '' '' # rest))"
    by (cases "length key - length t") (simp_all add: take_Cons)
  then have "lower_char (CHR '' '') \<in> set (toLowerCase (take (length key) (t @ CHR '' '' # rest)))"
    unfolding toLowerCase_def set_map by (rule imageI)
  moreover have "lower_char (CHR '' '') = CHR '' ''" by code_simp
  ultimately show ?thesis using assms unfolding prefix_ci_def by metis
qed

lemma not_area: "\<not> area_char (CHR '' '')" "\<not> area_char (CHR ''-'')"
  by code_simp+

lemma sqm_skip_label:
  assumes "s = [] \<or> \<not> is_space (last s)" "\<not> speaks_of_sqm s"
  shows "sqm_match (s @ '' - '' @ rest) = sqm_match rest"
  using assms
proof (induction s)
  case Nil
  show ?case using not_area by (simp add: sqm_skip_char del: sqm_match.simps)
next
  case (Cons c s)
  let ?x = "(c # s) @ '' - '' @ rest" and ?key = "''SqMt''"
  have "\<not> prefix_ci ?key (dropWhile is_space (dropWhile area_char ?x))"
  proof
    assume p: "prefix_ci ?key (dropWhile is_space (dropWhile area_char ?x))"
    have dash: "\<not> prefix_ci ?key (CHR ''-'' # t)" for t
    proof
      assume "prefix_ci ?key (CHR ''-'' # t)"
      then have "lower_char (CHR ''-'') = lower_char (CHR ''S'')" using prefix_ci_hd by fastforce
      moreover have "lower_char (CHR ''-'') \<noteq> lower_char (CHR ''S'')" by code_simp
      ultimately show False by contradiction
    qed
    show False
    proof (cases "\<forall>x \<in> set (c # s). area_char x")
      case True
      then have "dropWhile area_char ?x = dropWhile area_char ('' - '' @ rest)"
        by (intro dropWhile_append2) blast
      also have "\<dots> = '' - '' @ rest" using not_area by simp
      finally have "dropWhile area_char ?x = '' - '' @ rest" .
      then show False using p dash by (simp add: is_space_def)
    next
      case False
      let ?t = "dropWhile area_char (c # s)"
      obtain x where "x \<in> set (c # s)" "\<not> area_char x" using False by blast
      then have d: "dropWhile area_char ?x = ?t @ '' - '' @ rest" by (rule dropWhile_append1)
      have "?t \<noteq> []" using False by (auto simp: dropWhile_eq_Nil_conv simp del: dropWhile.simps)
      then have "last ?t = last (c # s)" by (metis last_appendR takeWhile_dropWhile_id)
      then have "\<not> is_space (last ?t)" using Cons.prems(1) by (metis list.distinct(1))
      moreover have "last ?t \<in> set ?t" using \<open>?t \<noteq> []\<close> by (rule last_in_set)
      ultimately have "\<not> is_space (last ?t)" "last ?t \<in> set ?t" .
      then have "dropWhile is_space (?t @ '' - '' @ rest) = dropWhile is_space ?t @ '' - '' @ rest"
        by (rule dropWhile_append1[rotated])
      then have "prefix_ci ?key (dropWhile is_space ?t @ CHR '' '' # (''- '' @ rest))" using p d by simp
      then have "prefix_ci ?key (dropWhile is_space ?t)"
        by (rule prefix_ci_append) code_simp
      moreover have "\<exists>a. c # s = a @ dropWhile is_space ?t"
        by (metis append_assoc takeWhile_dropWhile_id)
      ultimately show False using Cons.prems(2) unfolding speaks_of_sqm_iff by blast
    qed
  qed
  then have "sqm_at ?x = None" by (simp add: sqm_at_def del: dropWhile.simps append_Cons)
  moreover have "\<not> speaks_of_sqm s" using Cons.prems(2) unfolding speaks_of_sqm_iff by (metis append_Cons)
  then have "sqm_match (s @ '' - '' @ rest) = sqm_match rest"
    using Cons.prems(1) by (intro Cons.IH) auto
  ultimately show ?case by simp
qed

lemma sqm_found:
  assumes "list_all area_char n" "n \<noteq> []"
  shows "sqm_match (n @ '' SqMt'') = Some n"
proof -
  have "takeWhile area_char (n @ '' SqMt'') = n" "dropWhile area_char (n @ '' SqMt'') = '' SqMt''"
    using assms(1) by (auto simp: list_all_iff takeWhile_append2 dropWhile_append2 area_char_def is_digit_def)
  then have "sqm_at (n @ '' SqMt'') = Some n"
    using assms(2) by (simp add: sqm_at_def is_space_def prefix_ci_def)
  then show ?thesis using assms(2) by (cases n) simp_all
qed

lemma area_found:
  assumes "list_all area_char n" "n \<noteq> []"
  shows "area_after ('' - '' @ n @ '' SqFt'' @ rest) = Some n"
proof -
  obtain c m where c: "n = c # m" "area_char c" using assms by (cases n) auto
  then have "\<not> is_space c" by (auto simp: area_char_def is_digit_def is_space_def)
  then have "dropWhile is_space (CHR '' '' # n @ '' SqFt'' @ rest) = n @ '' SqFt'' @ rest"
    using c by (simp add: is_space_def)
  moreover have "takeWhile area_char (n @ '' SqFt'' @ rest) = n" "dropWhile area_char (n @ '' SqFt'' @ rest) = '' SqFt'' @ rest"
    using assms(1) by (auto simp: list_all_iff takeWhile_append2 dropWhile_append2 area_char_def is_digit_def)
  moreover have "prefix_ci ''SqFt'' (dropWhile is_space ('' SqFt'' @ rest))" by (simp add: is_space_def prefix_ci_def)
  ultimately show ?thesis using assms(2) by (simp add: area_after_def Let_def is_space_def)
qed

lemma field_at_dash:
  "field_at key s = Some v \<Longrightarrow> CHR ''-'' \<in> set s"
  by (auto simp: field_at_def Let_def split: if_splits list.splits)
    (metis in_set_dropD list.set_intros(1) set_dropWhileD)

lemma field_match_dash: "CHR ''-'' \<notin> set s \<Longrightarrow> field_match key s = None"
proof (induction s)
  case (Cons c s)
  then have "field_at key (c # s) = None" using field_at_dash[of key "c # s"] by (metis list.set_cases not_None_eq set_ConsD)
  then show ?case using Cons by simp
qed simp

lemma field_found:
  assumes "plain_text v" "key \<noteq> []"
  shows "field_match key (key @ '' - '' @ v) = Some v"
proof -
  obtain c t where v: "v = c # t" "\<not> is_space c" using assms(1) by (cases v) (auto simp: plain_text_def)
  then have "field_at key (key @ '' - '' @ v) = Some v"
    using assms(1) by (auto simp: field_at_def prefix_ci_def is_space_def plain_text_def list_all_iff)
  then show ?thesis using assms(2) by (cases key) simp_all
qed

text \<open>The two keys are not confused.\<close>

lemma field_hd: "lower_char c \<noteq> lower_char k \<Longrightarrow> field_match (k # ks) (c # s) = field_match (k # ks) s"
  using prefix_ci_hd[of k ks "c # s"] by (auto simp: field_at_def)

lemma other_field:
  assumes "CHR ''-'' \<notin> set v" "(key, other) \<in> {(''Usage Type'', ''Usage Factor''), (''Usage Factor'', ''Usage Type'')}"
  shows "field_match key (other @ '' - '' @ v) = None"
proof -
  have no: "CHR ''-'' \<notin> set (CHR '' '' # v)" using assms(1) by simp
  have hd: "list_all (\<lambda>c. lower_char c \<noteq> lower_char (CHR ''U'')) (tl other @ '' -'')" using assms(2) by (auto; code_simp)
  have skip: "field_match key (w @ s) = field_match key s"
    if "list_all (\<lambda>c. lower_char c \<noteq> lower_char (CHR ''U'')) w" for w s
    using that assms(2) by (induction w) (auto simp del: field_match.simps simp: field_hd)
  have "\<not> prefix_ci key (other @ '' - '' @ v)"
    using assms(2) by (auto simp: prefix_ci_def toLowerCase_def; simp add: lower_char_def)
  then have "field_match key (other @ '' - '' @ v) = field_match key (tl other @ '' - '' @ v)"
    using assms(2) by (auto simp: field_at_def)
  also have "\<dots> = field_match key (CHR '' '' # v)" using skip[OF hd, of "CHR '' '' # v"] by simp
  finally show ?thesis using field_match_dash[OF no] by simp
qed

subsection \<open>The round trip\<close>

definition tidy_floor :: "floor_input \<Rightarrow> bool" where
  "tidy_floor f \<longleftrightarrow>
     plain_text (fi_floorLabel f) \<and> \<not> speaks_of_sqm (fi_floorLabel f) \<and>
     (\<forall>v \<in> set_option (fi_usageType f) \<union> set_option (fi_usageFactor f) \<union> set_option (fi_buildingType f). plain_text v) \<and>
     (fi_buildingType f \<noteq> None \<longrightarrow> fi_usageType f \<noteq> None) \<and>
     0 \<le> floor_sqFt f \<and> floor_sqFt f \<le> 1000000000000 \<and> 0 \<le> floor_sqM f \<and> floor_sqM f \<le> 1000000000000"

lemma plain_text_trim: "plain_text s \<Longrightarrow> trim s = s \<and> s \<noteq> []"
  by (auto simp: plain_text_def intro: trim_id)

lemma plain_text_chars: "plain_text s \<Longrightarrow> c \<in> set s \<Longrightarrow> c \<notin> {CHR '','', CHR ''|'', CHR ''-''} \<and> \<not> is_newline c"
  by (simp add: plain_text_def list_all_iff)

text \<open>The fields of a tidy floor, as they are written.\<close>

definition field_parts :: "string \<Rightarrow> string option \<Rightarrow> string list" where
  "field_parts key v = (case v of None \<Rightarrow> [] | Some t \<Rightarrow> [key @ '' - '' @ t])"

definition head_part :: "floor_input \<Rightarrow> string" where
  "head_part f =
     fi_floorLabel f @ '' - '' @ formatFloorNumber (floor_sqFt f) @ '' SqFt'' @ '' - ''
       @ formatFloorNumber (floor_sqM f) @ '' SqMt''"

definition other_parts :: "floor_input \<Rightarrow> string list" where
  "other_parts f = field_parts ''Usage Type'' (fi_usageType f) @ field_parts ''Usage Factor'' (fi_usageFactor f)
     @ field_parts ''Usage Type'' (fi_buildingType f)"

lemma filled_field_plain: "(\<And>t. v = Some t \<Longrightarrow> plain_text t) \<Longrightarrow> filled_field key v = field_parts key v"
  using plain_text_trim by (cases v) (auto simp: filled_field_def field_parts_def)

lemma serialize_parts:
  assumes "tidy_floor f"
  shows "serialize_floor f = join '' || '' (head_part f # other_parts f)"
proof -
  have fields: "plain_text t" if "fi_usageType f = Some t \<or> fi_usageFactor f = Some t \<or> fi_buildingType f = Some t" for t
    using assms that unfolding tidy_floor_def by auto
  have "or_text (trim (fi_floorLabel f)) ''Floor'' = fi_floorLabel f"
    using assms plain_text_trim unfolding tidy_floor_def or_text_def by auto
  then show ?thesis using fields
    by (simp add: serialize_floor_def head_part_def other_parts_def filled_field_plain)
qed

lemma number_text:
  assumes "0 \<le> v"
  shows "text_number (formatFloorNumber v) = Some (roundMoney v)" "list_all area_char (formatFloorNumber v)"
    "formatFloorNumber v \<noteq> []"
  using hundredths_text_read[OF paise_of_nonneg[OF assms]] by (simp_all add: formatFloorNumber_def roundMoney_alt paise_of_def)

lemma part_chars:
  assumes "tidy_floor f" "w \<in> set (head_part f # other_parts f)"
  shows "CHR ''|'' \<notin> set w" "CHR '','' \<notin> set w" "trim w = w" "w \<noteq> []"
proof -
  have n: "list_all area_char (formatFloorNumber (floor_sqFt f))" "list_all area_char (formatFloorNumber (floor_sqM f))"
    using assms(1) number_text(2) by (simp_all add: tidy_floor_def)
  have area: "\<not> area_char (CHR ''|'')" "\<not> area_char (CHR '','')" by code_simp+
  have l: "plain_text (fi_floorLabel f)" using assms(1) by (simp add: tidy_floor_def)
  have keys: "(\<exists>key t. key \<in> {''Usage Type'', ''Usage Factor''} \<and> plain_text t \<and> w = key @ '' - '' @ t)"
    if "w \<in> set (other_parts f)"
    using that assms(1) unfolding other_parts_def field_parts_def tidy_floor_def by (auto split: option.splits)
  have "CHR ''|'' \<notin> set (head_part f)" "CHR '','' \<notin> set (head_part f)"
    using plain_text_chars[OF l] n area by (auto simp: head_part_def list_all_iff)
  moreover have "trim (head_part f) = head_part f"
    using l by (intro trim_id) (auto simp: head_part_def plain_text_def is_space_def)
  moreover have "head_part f \<noteq> []" by (simp add: head_part_def)
  moreover have "CHR ''|'' \<notin> set w" "CHR '','' \<notin> set w" "trim w = w" "w \<noteq> []" if mem: "w \<in> set (other_parts f)"
  proof -
    obtain key t where k: "key = ''Usage Type'' \<or> key = ''Usage Factor''" "plain_text t" "w = key @ '' - '' @ t"
      using keys[OF mem] by blast
    show "CHR ''|'' \<notin> set w" "CHR '','' \<notin> set w" "w \<noteq> []" using k plain_text_chars[OF k(2)] by auto
    show "trim w = w" using k by (intro trim_id) (auto simp: plain_text_def is_space_def)
  qed
  ultimately show "CHR ''|'' \<notin> set w" "CHR '','' \<notin> set w" "trim w = w" "w \<noteq> []" using assms(2) by auto
qed

lemma field_values_parts:
  assumes "\<And>t. v = Some t \<Longrightarrow> plain_text t"
  shows "field_values ''Usage Type'' (field_parts ''Usage Type'' v) = (case v of None \<Rightarrow> [] | Some t \<Rightarrow> [t])"
    "field_values ''Usage Factor'' (field_parts ''Usage Factor'' v) = (case v of None \<Rightarrow> [] | Some t \<Rightarrow> [t])"
    "field_values ''Usage Type'' (field_parts ''Usage Factor'' v) = []"
    "field_values ''Usage Factor'' (field_parts ''Usage Type'' v) = []"
proof -
  have dash: "v = Some t \<Longrightarrow> CHR ''-'' \<notin> set t" for t using assms plain_text_chars by blast
  note found = field_found[of _ "''Usage Type''"] field_found[of _ "''Usage Factor''"]
  show "field_values ''Usage Type'' (field_parts ''Usage Type'' v) = (case v of None \<Rightarrow> [] | Some t \<Rightarrow> [t])"
    "field_values ''Usage Factor'' (field_parts ''Usage Factor'' v) = (case v of None \<Rightarrow> [] | Some t \<Rightarrow> [t])"
    using assms found plain_text_trim
    by (auto simp: field_values_def field_parts_def List.map_filter_simps simp del: append_Cons field_match.simps split: option.splits)
  have "field_match ''Usage Type'' (''Usage Factor'' @ '' - '' @ t) = None"
    "field_match ''Usage Factor'' (''Usage Type'' @ '' - '' @ t) = None" if "v = Some t" for t
    by (rule other_field[OF dash[OF that]], simp)+
  then show "field_values ''Usage Type'' (field_parts ''Usage Factor'' v) = []"
    "field_values ''Usage Factor'' (field_parts ''Usage Type'' v) = []"
    by (auto simp: field_values_def field_parts_def List.map_filter_simps simp del: append_Cons field_match.simps split: option.splits)
qed

lemma field_values_append: "field_values key (xs @ ys) = field_values key xs @ field_values key ys"
  by (simp add: field_values_def List.map_filter_def)

text \<open>What a tidy floor is read back as.\<close>

definition read_back :: "nat \<Rightarrow> floor_input \<Rightarrow> parsed_floor" where
  "read_back i f =
     \<lparr>pf_floorLabel = fi_floorLabel f, pf_areaSqFt = Some (Some (roundMoney (floor_sqFt f))),
      pf_areaSqMeter = Some (Some (roundMoney (floor_sqM f))), pf_usageType = fi_usageType f,
      pf_usageFactor = fi_usageFactor f, pf_buildingType = fi_buildingType f, pf_sortOrder = i,
      pf_rawSegment = serialize_floor f\<rparr>"

lemma parse_segment_serialized:
  assumes "tidy_floor f"
  shows "parse_segment i (serialize_floor f) = read_back i f"
proof -
  let ?parts = "head_part f # other_parts f"
  have "map trim (split_bars ([] @ join '' || '' ?parts)) = map trim ?parts"
    using part_chars(1)[OF assms] by (intro split_bars_join) auto
  also have "\<dots> = ?parts" using part_chars(3)[OF assms] by (intro map_idI) blast
  finally have parts: "map trim (split_bars (serialize_floor f)) = ?parts" by (simp add: serialize_parts[OF assms])
  have l: "plain_text (fi_floorLabel f)" "\<not> speaks_of_sqm (fi_floorLabel f)"
    and v: "0 \<le> floor_sqFt f" "0 \<le> floor_sqM f" using assms by (simp_all add: tidy_floor_def)
  have last: "fi_floorLabel f \<noteq> []" "\<not> is_space (last (fi_floorLabel f))" using l(1) by (simp_all add: plain_text_def)
  have chars: "\<forall>c \<in> set (fi_floorLabel f). c \<noteq> CHR ''-'' \<and> \<not> is_newline c" using plain_text_chars[OF l(1)] by blast
  have label: "label_match [] (head_part f) = Some (fi_floorLabel f, formatFloorNumber (floor_sqFt f))"
    using label_match_found[OF area_found[OF number_text(2,3)[OF v(1)]] last chars, of "[]"] by (simp add: head_part_def)
  have rest: "\<not> area_char c" if "c \<in> set '' SqFt - ''" for c using that by (auto simp: area_char_def is_digit_def)
  have skip: "sqm_match (w @ s) = sqm_match s" if "\<forall>c \<in> set w. \<not> area_char c" for w s
    using that by (induction w) (auto simp: sqm_skip_char simp del: sqm_match.simps)
  have "sqm_match (head_part f) = sqm_match (formatFloorNumber (floor_sqFt f) @ '' SqFt'' @ '' - '' @
      formatFloorNumber (floor_sqM f) @ '' SqMt'')"
    unfolding head_part_def using last(2) l(2) by (intro sqm_skip_label) auto
  also have "\<dots> = sqm_match ('' SqFt - '' @ formatFloorNumber (floor_sqM f) @ '' SqMt'')"
    using sqm_skip_number[OF number_text(2)[OF v(1)]] by simp
  also have "\<dots> = sqm_match (formatFloorNumber (floor_sqM f) @ '' SqMt'')" by (rule skip) (use rest in blast)
  finally have sqm: "sqm_match (head_part f) = Some (formatFloorNumber (floor_sqM f))"
    using sqm_found[OF number_text(2,3)[OF v(2)]] by simp
  have fields: "plain_text t" if "fi_usageType f = Some t \<or> fi_usageFactor f = Some t \<or> fi_buildingType f = Some t" for t
    using assms that unfolding tidy_floor_def by auto
  have types: "field_values ''Usage Type'' (other_parts f)
      = (case fi_usageType f of None \<Rightarrow> [] | Some t \<Rightarrow> [t]) @ (case fi_buildingType f of None \<Rightarrow> [] | Some t \<Rightarrow> [t])"
    unfolding other_parts_def field_values_append using fields by (simp add: field_values_parts)
  have factors: "field_values ''Usage Factor'' (other_parts f) = (case fi_usageFactor f of None \<Rightarrow> [] | Some t \<Rightarrow> [t])"
    unfolding other_parts_def field_values_append using fields by (simp add: field_values_parts)
  have building: "fi_usageType f = None \<Longrightarrow> fi_buildingType f = None" using assms by (auto simp: tidy_floor_def)
  show ?thesis
    unfolding parse_segment_def parts Let_def list.sel types factors label sqm read_back_def
    using building plain_text_trim[OF l(1)] number_text(1) v
    by (auto simp: or_text_def split: option.splits)
qed

lemma trim_ne: "c \<in> set s \<Longrightarrow> \<not> is_space c \<Longrightarrow> trim s \<noteq> []"
proof -
  assume c: "c \<in> set s" "\<not> is_space c"
  then have "c \<in> set (dropWhile is_space s)" by (metis Un_iff set_append set_takeWhileD takeWhile_dropWhile_id)
  then have "\<not> (\<forall>x \<in> set (rev (dropWhile is_space s)). is_space x)" using c(2) by auto
  then show "trim s \<noteq> []" unfolding trim_def rev_is_Nil_conv dropWhile_eq_Nil_conv .
qed

text \<open>The floors of a survey survive the workbook text: for floors whose label and fields carry no
  separator (comma, bar, hyphen, line break) and that name a usage type when they name a building type,
  writing them and reading the text back gives the same floors in the same order, with their areas
  rounded to hundredths.\<close>

theorem floors_round_trip:
  assumes "\<forall>f \<in> set fs. tidy_floor f"
  shows "parseFloorsRaw (Some (serializeFloorsRaw fs)) = map (\<lambda>(i, f). read_back i f) (enumerate 0 fs)"
proof (cases "fs = []")
  case True
  then show ?thesis by (simp add: parseFloorsRaw_def serializeFloorsRaw_def)
next
  case False
  let ?segs = "map serialize_floor fs"
  have seg: "CHR '','' \<notin> set s \<and> trim s = s \<and> s \<noteq> []" if mem: "s \<in> set ?segs" for s
  proof -
    obtain f where f: "f \<in> set fs" "s = serialize_floor f" using mem by auto
    then have t: "tidy_floor f" using assms by blast
    let ?parts = "head_part f # other_parts f"
    have s: "s = join '' || '' ?parts" using serialize_parts[OF t] f(2) by simp
    have "CHR '','' \<notin> set (join '' || '' ws)" if "\<forall>w \<in> set ws. CHR '','' \<notin> set w" for ws
      using that by (induction ws rule: induct_list012) auto
    then have c: "CHR '','' \<notin> set s" using part_chars(2)[OF t] s by blast
    have ends: "ws \<noteq> [] \<Longrightarrow> \<forall>w \<in> set ws. w \<noteq> [] \<and> \<not> is_space (hd w) \<and> \<not> is_space (last w) \<Longrightarrow>
        join '' || '' ws \<noteq> [] \<and> \<not> is_space (hd (join '' || '' ws)) \<and> \<not> is_space (last (join '' || '' ws))" for ws
      by (induction ws rule: induct_list012) auto
    have "w \<noteq> [] \<and> \<not> is_space (hd w) \<and> \<not> is_space (last w)" if w: "w \<in> set ?parts" for w
    proof -
      have "trim w = w" "w \<noteq> []" using part_chars(3,4)[OF t w] by blast+
      then show ?thesis by (metis trim_ends)
    qed
    then have "s \<noteq> [] \<and> \<not> is_space (hd s) \<and> \<not> is_space (last s)" unfolding s by (intro ends) auto
    then show ?thesis using c trim_id by blast
  qed
  have "map trim (split_char (CHR '','') ([] @ join '', '' ?segs)) = map trim ?segs"
    using seg False by (intro split_commas_join) auto
  also have "\<dots> = ?segs" using seg by (intro map_idI) blast
  finally have split: "map trim (split_char (CHR '','') (serializeFloorsRaw fs)) = ?segs" by (simp add: serializeFloorsRaw_def)
  have "filter (\<lambda>s. s \<noteq> []) ?segs = ?segs" using seg by (intro filter_True) blast
  moreover have "trim (serializeFloorsRaw fs) \<noteq> []"
  proof
    assume "trim (serializeFloorsRaw fs) = []"
    then have "\<forall>c \<in> set (serializeFloorsRaw fs). is_space c" using trim_ne by blast
    moreover obtain f gs where fs: "fs = f # gs" using False by (cases fs) auto
    have "set (serialize_floor f) \<subseteq> set (serializeFloorsRaw fs)"
      unfolding fs serializeFloorsRaw_def by (cases gs) auto
    ultimately have "\<forall>c \<in> set (serialize_floor f). is_space c" by blast
    moreover have "serialize_floor f \<noteq> []" "trim (serialize_floor f) = serialize_floor f" using seg fs by auto
    ultimately show False by (metis trim_ends last_in_set)
  qed
  moreover have "map (\<lambda>(i, s). parse_segment i s) (enumerate 0 ?segs) = map (\<lambda>(i, f). read_back i f) (enumerate 0 fs)"
    using assms parse_segment_serialized
    by (auto simp: nth_enumerate_eq intro!: nth_equalityI)
  ultimately show ?thesis by (simp add: parseFloorsRaw_def split Let_def)
qed

definition sample_floors :: "floor_input list" where
  "sample_floors =
     [\<lparr>fi_floorLabel = ''Ground Floor'', fi_areaSqFt = Some 408, fi_areaSqMeter = Some 38,
       fi_usageType = Some ''Residential'', fi_usageFactor = Some ''Rented'', fi_buildingType = Some ''Pakka''\<rparr>,
      \<lparr>fi_floorLabel = ''Roof'', fi_areaSqFt = None, fi_areaSqMeter = None, fi_usageType = None,
       fi_usageFactor = None, fi_buildingType = None\<rparr>]"

lemma floors_round_trip_witness:
  "map pf_usageType (parseFloorsRaw (Some (serializeFloorsRaw sample_floors))) = [Some ''Residential'', None]"
proof -
  have plain: "plain_text ''Ground Floor''" "plain_text ''Roof''" "plain_text ''Residential''" "plain_text ''Rented''" "plain_text ''Pakka''"
    by code_simp+
  have short: "\<not> speaks_of_sqm ''Roof''" "\<not> speaks_of_sqm ''Ground Floor''" by code_simp+
  have "\<lfloor>1 / 2 :: rat\<rfloor> = 0" by code_simp
  then have "\<forall>f \<in> set sample_floors. tidy_floor f"
    by (simp add: sample_floors_def tidy_floor_def plain short floor_sqFt_def floor_sqM_def js_round_int_def)
  from floors_round_trip[OF this] show ?thesis by (simp add: sample_floors_def read_back_def)
qed

end
