(* ===== verification/FileStorage.thy ===== *)
theory FileStorage
  imports Gateway Access
begin

text \<open>
  \<open>storage/storage.service.ts\<close>: files under a root directory, keys that resolve to paths, and signed
  links to them. A directory is an absolute path without a trailing slash; \<open>path.resolve\<close> of the POSIX
  flavour drops empty and \<open>.\<close> segments and climbs on \<open>..\<close>. The file system is a map from paths to
  contents. HMAC-SHA256 and the number and text conversions are parameters.
\<close>

subsection \<open>Paths\<close>

datatype storage_error =
    Invalid_object_key | File_not_found | Link_expired | Link_invalid | File_denied access_error

fun climb :: "string list \<Rightarrow> string list \<Rightarrow> string list" where
  "climb done [] = rev done"
| "climb done (s # ss) =
     (if s = [] \<or> s = ''.'' then climb done ss
      else if s = ''..'' then climb (tl done) ss
      else climb (s # done) ss)"

definition path_resolve :: "string \<Rightarrow> string \<Rightarrow> string" where
  "path_resolve dir rel = ''/'' @ join ''/'' (climb [] (split_char (CHR ''/'') (dir @ ''/'' @ rel)))"

definition resolveObjectPath :: "string \<Rightarrow> string \<Rightarrow> storage_error + string" where
  "resolveObjectPath dir objectKey =
     (let normalized = normal_key objectKey in
      if normalized = [] \<or> contains_text normalized ''..'' then Inl Invalid_object_key
      else
       (let full = path_resolve dir normalized;
            dirWithSep = (if dir \<noteq> [] \<and> last dir = CHR ''/'' then dir else dir @ ''/'')
        in if full \<noteq> dir \<and> \<not> starts_with dirWithSep full then Inl Invalid_object_key else Inr full))"

text \<open>\<open>path.extname\<close> of the last segment: from its last dot, unless the segment starts with it.\<close>

definition extname :: "string \<Rightarrow> string" where
  "extname key =
     (let base = last (split_char (CHR ''/'') key);
          ext = rev (takeWhile (\<lambda>c. c \<noteq> CHR ''.'') (rev base))
      in if ext = base \<or> length ext + 1 = length base then [] else CHR ''.'' # ext)"

definition MIME_BY_EXT :: "(string \<times> string) list" where
  "MIME_BY_EXT =
     [(''.gif'', ''image/gif''), (''.jpeg'', ''image/jpeg''), (''.jpg'', ''image/jpeg''), (''.pdf'', ''application/pdf''),
      (''.png'', ''image/png''), (''.webp'', ''image/webp''), (''.xls'', ''application/vnd.ms-excel''),
      (''.xlsx'', ''application/vnd.openxmlformats-officedocument.spreadsheetml.sheet'')]"

definition guessMime :: "string \<Rightarrow> string" where
  "guessMime objectKey =
     nullish (map_of MIME_BY_EXT (toLowerCase (extname objectKey))) ''application/octet-stream''"

subsection \<open>Files\<close>

record storage =
  so_dir :: string
  so_files :: "string \<Rightarrow> string option"

definition putObject :: "storage \<Rightarrow> string \<Rightarrow> string \<Rightarrow> storage \<times> (storage_error + string)" where
  "putObject st objectKey buffer =
     (case resolveObjectPath (so_dir st) objectKey of
        Inl e \<Rightarrow> (st, Inl e)
      | Inr path \<Rightarrow> (st\<lparr>so_files := (so_files st)(path \<mapsto> buffer)\<rparr>, Inr objectKey))"

definition getObject :: "storage \<Rightarrow> string \<Rightarrow> storage_error + string" where
  "getObject st objectKey =
     bind_res (resolveObjectPath (so_dir st) objectKey) (\<lambda>path.
       case so_files st path of None \<Rightarrow> Inl File_not_found | Some content \<Rightarrow> Inr content)"

subsection \<open>Signed links\<close>

record link_env =
  le_js :: js_text
  le_hmac :: "string \<Rightarrow> string \<Rightarrow> string"
  le_secrets :: "string option list"
  le_dir :: string

record signed_link =
  sl_key :: string
  sl_exp :: string
  sl_sig :: string

text \<open>The first setting that is not blank, of three; else a constant.\<close>

fun signingSecret :: "string option list \<Rightarrow> string" where
  "signingSecret [] = ''dev-storage-signing-secret''"
| "signingSecret (s # ss) = or_text (nullish (map_option trim s) []) (signingSecret ss)"

definition sign_key :: "link_env \<Rightarrow> string \<Rightarrow> js_number \<Rightarrow> string" where
  "sign_key env objectKey until =
     le_hmac env (signingSecret (le_secrets env)) (objectKey @ ''.'' @ num_text (le_js env) until)"

text \<open>Times are milliseconds; a link carries seconds.\<close>

definition getSignedUrl :: "link_env \<Rightarrow> int \<Rightarrow> string \<Rightarrow> int \<Rightarrow> storage_error + signed_link" where
  "getSignedUrl env now objectKey expirySeconds =
     bind_res (resolveObjectPath (le_dir env) objectKey) (\<lambda>_.
       (let until = of_int (now div 1000 + expirySeconds)
        in Inr \<lparr>sl_key = objectKey, sl_exp = num_text (le_js env) until, sl_sig = sign_key env objectKey until\<rparr>))"

record file_context =
  fc_surveyId :: "string option"
  fc_uploadedById :: "string option"
  fc_createdById :: "string option"
  fc_survey :: "survey_resource option"

definition getSignedUrlForUser ::
  "link_env \<Rightarrow> int \<Rightarrow> auth_user \<Rightarrow> string \<Rightarrow> file_context \<Rightarrow> int \<Rightarrow> storage_error + signed_link" where
  "getSignedUrlForUser env now user objectKey ctx expirySeconds =
     (case assertFileAccess user
             \<lparr>fr_objectKey = objectKey,
              fr_surveyId = nullish_opt (fc_surveyId ctx) (parseSurveyIdFromObjectKey objectKey),
              fr_uploadedById = fc_uploadedById ctx, fr_createdById = fc_createdById ctx\<rparr> File_read (fc_survey ctx) of
        Inl e \<Rightarrow> Inl (File_denied e)
      | Inr _ \<Rightarrow> getSignedUrl env now objectKey expirySeconds)"

definition assertDownloadSignature :: "link_env \<Rightarrow> int \<Rightarrow> string \<Rightarrow> string \<Rightarrow> string \<Rightarrow> storage_error + unit" where
  "assertDownloadSignature env now objectKey untilRaw sig =
     (case text_num (le_js env) untilRaw of
        None \<Rightarrow> Inl Link_expired
      | Some until \<Rightarrow>
         (if until < of_int (now div 1000) then Inl Link_expired
          else if sig \<noteq> sign_key env objectKey until then Inl Link_invalid
          else bind_res (resolveObjectPath (le_dir env) objectKey) (\<lambda>_. Inr ())))"

text \<open>The download route: \<open>files.controller.ts\<close>.\<close>

definition download :: "link_env \<Rightarrow> storage \<Rightarrow> int \<Rightarrow> signed_link \<Rightarrow> storage_error + string" where
  "download env st now link =
     bind_res (assertDownloadSignature env now (sl_key link) (sl_exp link) (sl_sig link))
       (\<lambda>_. getObject st (sl_key link))"

subsection \<open>Paths stay where the key says\<close>

definition plain_segment :: "string \<Rightarrow> bool" where
  "plain_segment s \<longleftrightarrow> s \<noteq> [] \<and> s \<noteq> ''.'' \<and> s \<noteq> ''..'' \<and> CHR ''/'' \<notin> set s"

lemma climb_up_free: "''..'' \<notin> set ss \<Longrightarrow> climb done ss = rev done @ filter (\<lambda>s. s \<noteq> [] \<and> s \<noteq> ''.'') ss"
  by (induction ss arbitrary: "done") auto

lemma split_char_app: "split_char d (a @ d # b) = split_char d a @ split_char d b"
  by (induction a) (auto split: list.splits simp: split_char_ne)

lemma split_join:
  "ss \<noteq> [] \<Longrightarrow> \<forall>s \<in> set ss. d \<notin> set s \<Longrightarrow> split_char d (join [d] ss) = ss"
  by (induction "[d]" ss rule: join.induct) (auto simp: split_char_none split_char_app)

lemma contains_text_append: "prefix n b \<Longrightarrow> contains_text (a @ b) n"
proof (induction a)
  case Nil
  then show ?case by (cases b) auto
qed simp

lemma split_char_infix:
  assumes "s \<in> set (split_char d t)"
  shows "\<exists>a b. t = a @ s @ b"
  using assms
proof (induction t arbitrary: s)
  case (Cons c t)
  obtain w ws where w: "split_char d t = w # ws" by (cases "split_char d t") (auto simp: split_char_ne)
  consider "s = []" | "c \<noteq> d" "s = c # w" | "s \<in> set (split_char d t)" using Cons.prems w by (auto split: if_splits)
  then show ?case
  proof cases
    case 1
    then show ?thesis by auto
  next
    case 2
    have "prefix w t" using w by (induction t arbitrary: w ws) (auto split: if_splits list.splits)
    then show ?thesis using 2 by (auto simp: prefix_def intro: exI[of _ "[]"])
  next
    case 3
    then show ?thesis using Cons.IH[OF 3] by (metis append_Cons)
  qed
qed simp

lemma split_char_free: "s \<in> set (split_char d t) \<Longrightarrow> d \<notin> set s"
  by (induction t arbitrary: s) (auto split: if_splits list.splits)

lemma resolved_path:
  assumes "ds \<noteq> []" "\<forall>s \<in> set ds. plain_segment s" "resolveObjectPath (''/'' @ join ''/'' ds) objectKey = Inr p"
  shows "p = ''/'' @ join ''/'' (ds @ filter (\<lambda>s. s \<noteq> [] \<and> s \<noteq> ''.'') (split_char (CHR ''/'') (normal_key objectKey)))"
proof -
  let ?k = "normal_key objectKey"
  have p: "p = path_resolve (''/'' @ join ''/'' ds) ?k" and up: "\<not> contains_text ?k ''..''"
    using assms(3) by (auto simp: resolveObjectPath_def Let_def split: if_splits)
  have "''..'' \<notin> set (split_char (CHR ''/'') ?k)"
    using up split_char_infix[of "''..''" "CHR ''/''" ?k] contains_text_append by (metis prefixI)
  moreover have ds: "split_char (CHR ''/'') (join ''/'' ds) = ds"
    using assms(1,2) by (intro split_join) (auto simp: plain_segment_def)
  moreover have "''..'' \<notin> set ds" "filter (\<lambda>s. s \<noteq> [] \<and> s \<noteq> ''.'') ds = ds"
    using assms(2) by (auto simp: plain_segment_def filter_id_conv)
  moreover have "split_char (CHR ''/'') ((''/'' @ join ''/'' ds) @ ''/'' @ ?k) = [] # ds @ split_char (CHR ''/'') ?k"
    using split_char_app[of "CHR ''/''" "''/'' @ join ''/'' ds" ?k] ds by simp
  ultimately have "climb [] (split_char (CHR ''/'') ((''/'' @ join ''/'' ds) @ ''/'' @ ?k))
      = ds @ filter (\<lambda>s. s \<noteq> [] \<and> s \<noteq> ''.'') (split_char (CHR ''/'') ?k)"
    by (subst climb_up_free) auto
  then show ?thesis unfolding p path_resolve_def by (simp only:)
qed

text \<open>The path of a key lies in the area that the access rules read off the key: under the root
  directory, and, for a key that starts with a directory name and a slash (the areas surveys, imports and
  exports), under that directory; no accepted key climbs out of it.\<close>

theorem object_path_in_area:
  assumes "ds \<noteq> []" "\<forall>s \<in> set ds. plain_segment s" "resolveObjectPath (''/'' @ join ''/'' ds) objectKey = Inr p"
    and "plain_segment area" "starts_with (area @ ''/'') (normal_key objectKey)"
  shows "\<exists>ss. p = ''/'' @ join ''/'' (ds @ area # ss) \<and> (\<forall>s \<in> set ss. plain_segment s)"
proof -
  let ?k = "normal_key objectKey" and ?ok = "\<lambda>s. s \<noteq> [] \<and> s \<noteq> ''.''"
  let ?ss = "filter ?ok (split_char (CHR ''/'') (drop (length area + 1) ?k))"
  have "?k = area @ CHR ''/'' # drop (length area + 1) ?k"
    using assms(5) append_take_drop_id[of "length area + 1" ?k] by (simp add: starts_with_def)
  then have "split_char (CHR ''/'') ?k = area # split_char (CHR ''/'') (drop (length area + 1) ?k)"
    using assms(4) split_char_append[of "CHR ''/''" area] by (metis plain_segment_def)
  then have "p = ''/'' @ join ''/'' (ds @ area # ?ss)"
    using resolved_path[OF assms(1-3)] assms(4) by (simp add: plain_segment_def)
  moreover have "plain_segment s" if "s \<in> set ?ss" for s
  proof -
    have "\<not> contains_text ?k ''..''" using assms(3) by (auto simp: resolveObjectPath_def Let_def split: if_splits)
    moreover have mem: "s \<in> set (split_char (CHR ''/'') ?k)" "s \<noteq> []" "s \<noteq> ''.''"
      using that \<open>split_char (CHR ''/'') ?k = _\<close> by auto
    ultimately have "s \<noteq> ''..''"
      using split_char_infix[of s "CHR ''/''" ?k] contains_text_append by (metis prefixI)
    moreover have "CHR ''/'' \<notin> set s" using mem(1) by (rule split_char_free)
    ultimately show ?thesis using mem by (simp add: plain_segment_def)
  qed
  ultimately show ?thesis by blast
qed

lemma object_path_in_area_witness:
  "\<exists>ss. ''/data/uploads/surveys/s1/a.png'' = ''/'' @ join ''/'' ([''data'', ''uploads''] @ ''surveys'' # ss) \<and>
     (\<forall>s \<in> set ss. plain_segment s)"
proof (rule object_path_in_area)
  show "resolveObjectPath (''/'' @ join ''/'' [''data'', ''uploads'']) ''/surveys/./s1//a.png'' = Inr ''/data/uploads/surveys/s1/a.png''"
    by code_simp
  show "starts_with (''surveys'' @ ''/'') (normal_key ''/surveys/./s1//a.png'')" by code_simp
qed (auto simp: plain_segment_def)

subsection \<open>Links\<close>

text \<open>A signed link to a file is minted only for a user whom the access rules let read that file; it
  opens that file until its expiry and never after it; and only the HMAC of the key and the
  expiry under the secret of the process opens a file at all.\<close>

theorem signed_link_opens_until_expiry:
  assumes "\<forall>n::int. text_num (le_js env) (num_text (le_js env) (of_int n)) = Some (of_int n)"
    and "getSignedUrlForUser env now user objectKey ctx seconds = Inr link"
  shows "hasPermission user [''file:read''] \<and> sl_key link = objectKey \<and>
    (assertDownloadSignature env later (sl_key link) (sl_exp link) (sl_sig link) = Inr () \<longleftrightarrow>
       later div 1000 \<le> now div 1000 + seconds) \<and>
    (assertDownloadSignature env t k e sig = Inr () \<longrightarrow>
       (\<exists>until. text_num (le_js env) e = Some until \<and> sig = sign_key env k until \<and> of_int (t div 1000) \<le> until))"
proof -
  obtain p where l: "resolveObjectPath (le_dir env) objectKey = Inr p"
    "link = \<lparr>sl_key = objectKey, sl_exp = num_text (le_js env) (of_int (now div 1000 + seconds)),
             sl_sig = sign_key env objectKey (of_int (now div 1000 + seconds))\<rparr>"
    using assms(2) by (auto simp: getSignedUrlForUser_def getSignedUrl_def Let_def res_iffs split: sum.splits)
  have "hasPermission user [''file:read'']"
    using assms(2) by (auto simp: getSignedUrlForUser_def assertFileAccess_def res_iffs split: sum.splits)
  moreover have "assertDownloadSignature env later (sl_key link) (sl_exp link) (sl_sig link) = Inr () \<longleftrightarrow>
      later div 1000 \<le> now div 1000 + seconds"
    using assms(1)[rule_format, of "now div 1000 + seconds"] l by (simp add: assertDownloadSignature_def of_int_less_iff not_less del: of_int_add)
  moreover have "assertDownloadSignature env t k e sig = Inr () \<Longrightarrow>
      \<exists>until. text_num (le_js env) e = Some until \<and> sig = sign_key env k until \<and> of_int (t div 1000) \<le> until"
    by (auto simp: assertDownloadSignature_def res_iffs split: option.splits if_splits)
  ultimately show ?thesis using l(2) by simp
qed

definition sample_links :: link_env where
  "sample_links =
     \<lparr>le_js = \<lparr>num_text = (\<lambda>x. replicate (nat \<lfloor>x\<rfloor>) CHR ''+'' @ replicate (nat (- \<lfloor>x\<rfloor>)) CHR ''-''),
               text_num = (\<lambda>s. Some (of_nat (length (filter (\<lambda>c. c = CHR ''+'') s)) - of_nat (length (filter (\<lambda>c. c = CHR ''-'') s)))),
               encode_uri = (\<lambda>s. s), hmac_hex = (\<lambda>k s. k @ s)\<rparr>,
      le_hmac = (\<lambda>k s. k @ s), le_secrets = [Some '' key ''], le_dir = ''/data''\<rparr>"

definition file_reader :: auth_user where
  "file_reader = \<lparr>us_id = ''u'', us_email = ''e'', us_name = ''n'', us_phone = None, us_status = ''ACTIVE'',
     us_permissions = [''file:read''], us_roles = [''CLERK'']\<rparr>"

lemma signed_link_opens_until_expiry_witness:
  "\<exists>link. getSignedUrlForUser sample_links 0 file_reader ''imports/a.xlsx''
       \<lparr>fc_surveyId = None, fc_uploadedById = None, fc_createdById = None, fc_survey = None\<rparr> 2 = Inr link \<and>
     assertDownloadSignature sample_links 2000 (sl_key link) (sl_exp link) (sl_sig link) = Inr () \<and>
     assertDownloadSignature sample_links 3000 (sl_key link) (sl_exp link) (sl_sig link) \<noteq> Inr ()"
proof -
  have js: "\<forall>n::int. text_num (le_js sample_links) (num_text (le_js sample_links) (of_int n)) = Some (of_int n)"
    by (auto simp: sample_links_def)
  let ?ctx = "\<lparr>fc_surveyId = None, fc_uploadedById = None, fc_createdById = None, fc_survey = None\<rparr>"
  obtain link where l: "getSignedUrlForUser sample_links 0 file_reader ''imports/a.xlsx'' ?ctx 2 = Inr link"
  proof -
    have "resolveObjectPath (le_dir sample_links) ''imports/a.xlsx'' = Inr ''/data/imports/a.xlsx''" by code_simp
    then have "\<exists>link. getSignedUrl sample_links 0 ''imports/a.xlsx'' 2 = Inr link" by (simp add: getSignedUrl_def Let_def)
    moreover have "hasPermission file_reader [''file:read'']" "hasBroadResourceAccess file_reader"
      by (simp_all add: hasPermission_def file_reader_def hasBroadResourceAccess_def)
    ultimately show thesis using that
      by (simp add: getSignedUrlForUser_def assertFileAccess_def assertPermission_def) blast
  qed
  note opens = signed_link_opens_until_expiry[OF js l, of 2000 0 "[]" "[]" "[]"]
    signed_link_opens_until_expiry[OF js l, of 3000 0 "[]" "[]" "[]"]
  have k: "sl_key link = ''imports/a.xlsx''" using opens(1) by blast
  show ?thesis using l opens by (intro exI[of _ link]) (simp add: k)
qed

end
