(* ===== verification/SurveyAudit.thy ===== *)
theory SurveyAudit
  imports JsNumber Prelude
begin

text \<open>
  \<open>surveys/survey-audit.util.ts\<close>: what the audit log records of a change to a survey. A survey is a map
  from field names to values (a \<open>Record<string, unknown>\<close> of the code); \<open>None\<close> is a missing key. A decimal
  column is an object with a text, a moment an object with an ISO text; both texts are parameters.
\<close>

datatype cell_value =
    V_null
  | V_text string
  | V_flag bool
  | V_int int
  | V_dec js_number
  | V_date int

type_synonym field_map = "string \<Rightarrow> cell_value option"

record text_env =
  xe_decimal :: "js_number \<Rightarrow> string"
  xe_iso :: "int \<Rightarrow> string"

record audit_change =
  ac_field :: string
  ac_old :: cell_value
  ac_new :: cell_value

definition SURVEY_AUDIT_FIELDS :: "string list" where
  "SURVEY_AUDIT_FIELDS =
     [''surveyId'', ''parcelNo'', ''propertyNo'', ''gisUseCode'', ''wardId'', ''ownerName'', ''ownerFatherName'',
      ''mobile'', ''respondentName'', ''respondentRelationship'', ''city'', ''pincode'', ''houseNo'',
      ''streetName'', ''locality'', ''colony'', ''propertyOwnership'', ''propertyUse'', ''commercial'',
      ''yearOfConstruction'', ''situation'', ''roadType'', ''plotAreaSqFt'', ''plotAreaSqMeter'',
      ''plinthAreaSqFt'', ''plinthAreaSqMeter'', ''totalBuiltUpAreaSqFt'', ''totalBuiltUpAreaSqMeter'',
      ''hasMunicipalWaterSupply'', ''hasAlternateWater'', ''waterSourceType'', ''totalWaterConnections'',
      ''toiletType'', ''hasMunicipalWasteService'', ''floorsRaw'', ''status'', ''taxRateZone'', ''isSlum'', ''remark'']"

text \<open>\<open>/^\d+(\.\d+)?$/\<close>\<close>

definition plain_decimal :: "string \<Rightarrow> bool" where
  "plain_decimal s \<longleftrightarrow>
     (let whole = takeWhile is_digit s; rest = dropWhile is_digit s
      in whole \<noteq> [] \<and> (rest = [] \<or> hd rest = CHR ''.'' \<and> tl rest \<noteq> [] \<and> list_all is_digit (tl rest)))"

definition normalizeAuditValue :: "text_env \<Rightarrow> cell_value option \<Rightarrow> cell_value" where
  "normalizeAuditValue env v =
     (case v of
        None \<Rightarrow> V_null
      | Some (V_date t) \<Rightarrow> V_text (xe_iso env t)
      | Some (V_dec x) \<Rightarrow> (if plain_decimal (xe_decimal env x) then V_text (xe_decimal env x) else V_dec x)
      | Some w \<Rightarrow> w)"

text \<open>Two objects are never identical; \<open>JSON.stringify\<close> prints a decimal as its text, in quotes, like a
  string.\<close>

definition json_key :: "text_env \<Rightarrow> cell_value \<Rightarrow> cell_value" where
  "json_key env v = (case v of V_dec x \<Rightarrow> V_text (xe_decimal env x) | w \<Rightarrow> w)"

definition valuesEqual :: "text_env \<Rightarrow> cell_value option \<Rightarrow> cell_value option \<Rightarrow> bool" where
  "valuesEqual env a b \<longleftrightarrow>
     json_key env (normalizeAuditValue env a) = json_key env (normalizeAuditValue env b)"

definition diffSurveyChanges :: "text_env \<Rightarrow> field_map \<Rightarrow> field_map \<Rightarrow> string list \<Rightarrow> audit_change list" where
  "diffSurveyChanges env before after names =
     map (\<lambda>f. \<lparr>ac_field = f, ac_old = normalizeAuditValue env (before f), ac_new = normalizeAuditValue env (after f)\<rparr>)
       (filter (\<lambda>f. \<not> (before f = None \<and> after f = None) \<and> \<not> valuesEqual env (before f) (after f)) names)"

definition surveyToAuditSnapshot :: "field_map \<Rightarrow> (string \<times> cell_value) list \<Rightarrow> field_map" where
  "surveyToAuditSnapshot survey extras f =
     (case map_of extras f of
        Some v \<Rightarrow> Some v
      | None \<Rightarrow> (if f \<in> set SURVEY_AUDIT_FIELDS then survey f else None))"

definition FIELD_LABELS :: "(string \<times> string) list" where
  "FIELD_LABELS =
     [(''surveyId'', ''Survey ID''), (''parcelNo'', ''Parcel No''), (''propertyNo'', ''Property No''),
      (''gisUseCode'', ''GIS Use Code''), (''wardId'', ''Ward''), (''ownerName'', ''Owner Name''),
      (''ownerFatherName'', ''Owner Father Name''), (''mobile'', ''Mobile No''), (''respondentName'', ''Respondent''),
      (''city'', ''City''), (''pincode'', ''Pincode''), (''houseNo'', ''House No''), (''streetName'', ''Street''),
      (''locality'', ''Locality''), (''colony'', ''Colony''), (''propertyOwnership'', ''Property Ownership''),
      (''propertyUse'', ''Property Use''), (''commercial'', ''Commercial use''),
      (''yearOfConstruction'', ''Year of Construction''), (''situation'', ''Situation''), (''roadType'', ''Road Type''),
      (''plotAreaSqFt'', ''Plot Area (sq ft)''), (''plinthAreaSqFt'', ''Plinth Area (sq ft)''),
      (''totalBuiltUpAreaSqFt'', ''Total Built-up Area (sq ft)''),
      (''hasMunicipalWaterSupply'', ''Municipal Water Supply''), (''totalWaterConnections'', ''Water Connection''),
      (''toiletType'', ''Toilet Type''), (''hasMunicipalWasteService'', ''Municipal Waste Service''),
      (''hasAlternateWater'', ''Alternate Water''), (''waterSourceType'', ''Water Source''),
      (''floorsRaw'', ''Floor information''), (''status'', ''Status'')]"

definition formatAuditFieldLabel :: "string \<Rightarrow> string" where
  "formatAuditFieldLabel field = nullish (map_of FIELD_LABELS field) field"

text \<open>\<open>String(v)\<close> of a recorded value; the arrow of the code is outside the alphabet and written
  \<open>->\<close>.\<close>

definition value_text :: "text_env \<Rightarrow> cell_value \<Rightarrow> string" where
  "value_text env v =
     (case v of
        V_null \<Rightarrow> em_dash
      | V_text s \<Rightarrow> or_text s em_dash
      | V_flag b \<Rightarrow> (if b then ''true'' else ''false'')
      | V_int i \<Rightarrow> int_text i
      | V_dec x \<Rightarrow> xe_decimal env x
      | V_date t \<Rightarrow> xe_iso env t)"

definition formatAuditChange :: "text_env \<Rightarrow> audit_change \<Rightarrow> string" where
  "formatAuditChange env c =
     formatAuditFieldLabel (ac_field c) @ '': '' @ value_text env (ac_old c) @ '' -> '' @ value_text env (ac_new c)"

subsection \<open>The log replays\<close>

text \<open>Applying the recorded changes to what was there before.\<close>

definition replay :: "audit_change list \<Rightarrow> (string \<Rightarrow> cell_value) \<Rightarrow> string \<Rightarrow> cell_value" where
  "replay changes m = foldl (\<lambda>m c. m(ac_field c := ac_new c)) m changes"

lemma replay_other: "f \<notin> ac_field ` set cs \<Longrightarrow> replay cs m f = m f"
  unfolding replay_def by (induction cs rule: rev_induct) auto

lemma replay_same:
  "f \<in> ac_field ` set cs \<Longrightarrow> \<forall>c \<in> set cs. ac_field c = f \<longrightarrow> ac_new c = v \<Longrightarrow> replay cs m f = v"
  unfolding replay_def by (induction cs rule: rev_induct) auto

text \<open>The audit entry of an update is exact: replaying its changes over the old values of the audited
  fields gives the new ones (as the log prints them), and every change it lists is a change of an
  audited field.\<close>

theorem audit_log_replays:
  assumes "f \<in> set names"
  shows "json_key env (replay (diffSurveyChanges env before after names) (\<lambda>f. normalizeAuditValue env (before f)) f)
      = json_key env (normalizeAuditValue env (after f)) \<and>
    (\<forall>c \<in> set (diffSurveyChanges env before after names).
       ac_field c \<in> set names \<and> json_key env (ac_old c) \<noteq> json_key env (ac_new c))"
proof -
  let ?d = "diffSurveyChanges env before after names" and ?old = "\<lambda>f. normalizeAuditValue env (before f)"
  have c: "ac_field c \<in> set names \<and> ac_new c = normalizeAuditValue env (after (ac_field c)) \<and>
      json_key env (ac_old c) \<noteq> json_key env (ac_new c)" if "c \<in> set ?d" for c
    using that by (auto simp: diffSurveyChanges_def valuesEqual_def)
  have "json_key env (replay ?d ?old f) = json_key env (normalizeAuditValue env (after f))"
  proof (cases "f \<in> ac_field ` set ?d")
    case True
    then show ?thesis using c by (subst replay_same) auto
  next
    case False
    have d: "ac_field ` set ?d = {f \<in> set names. \<not> (before f = None \<and> after f = None) \<and> \<not> valuesEqual env (before f) (after f)}"
      by (simp add: diffSurveyChanges_def image_image)
    have "valuesEqual env (before f) (after f)"
      using False assms unfolding d by (cases "before f = None \<and> after f = None") (simp_all add: valuesEqual_def)
    then show ?thesis using replay_other[OF False] by (simp add: valuesEqual_def)
  qed
  then show ?thesis using c by blast
qed

definition sample_texts :: text_env where
  "sample_texts = \<lparr>xe_decimal = (\<lambda>_. ''1''), xe_iso = (\<lambda>_. ''2026-01-01T00:00:00.000Z'')\<rparr>"

lemma audit_log_replays_witness:
  "json_key sample_texts (replay
      (diffSurveyChanges sample_texts [''city'' \<mapsto> V_text ''A''] [''city'' \<mapsto> V_text ''B''] SURVEY_AUDIT_FIELDS)
      (\<lambda>f. normalizeAuditValue sample_texts ([''city'' \<mapsto> V_text ''A''] f)) ''city'') = V_text ''B''"
  using audit_log_replays[of "''city''" SURVEY_AUDIT_FIELDS sample_texts "[''city'' \<mapsto> V_text ''A'']" "[''city'' \<mapsto> V_text ''B'']"]
  by (simp add: SURVEY_AUDIT_FIELDS_def normalizeAuditValue_def json_key_def)

end
