(* ===== verification/Surveys.thy ===== *)
theory Surveys
  imports SurveyId Floors FileStorage Demands SurveyAudit
begin

text \<open>
  \<open>surveys/surveys.service.ts\<close> and \<open>survey-search.util.ts\<close>: surveys, their floors and attachments. A row
  has the columns that the service reads by name; the columns that it only copies from the request
  are the map \<open>sy_fields\<close>, from column name to value. \<open>sv_deleted\<close> of the identity part says whether
  \<open>deletedAt\<close> is set. Reading a survey repairs its id, so reads change the tables.
\<close>

subsection \<open>Rows, requests, environment\<close>

record survey_row = id_row +
  sy_wardId :: string
  sy_status :: survey_status
  sy_deletedAt :: "int option"
  sy_dataQuality :: data_quality
  sy_createdById :: "string option"
  sy_updatedById :: "string option"
  sy_surveyedAt :: "int option"
  sy_mobile :: "string option"
  sy_isSlum :: bool
  sy_floorsRaw :: "string option"
  sy_plotAreaSqFt :: "js_number option"
  sy_totalBuiltUpAreaSqFt :: "js_number option"
  sy_fields :: field_map

record floor_row =
  fo_surveyId :: string
  fo_floorLabel :: string
  fo_areaSqFt :: "js_number option"
  fo_areaSqMeter :: "js_number option"
  fo_usageType :: "string option"
  fo_usageFactor :: "string option"
  fo_buildingType :: "string option"
  fo_sortOrder :: nat
  fo_rawSegment :: string

record attachment =
  at_id :: string
  at_surveyId :: string
  at_objectKey :: string
  at_originalFileName :: string
  at_mimeType :: string
  at_size :: int
  at_bucket :: string
  at_uploadedById :: "string option"

record survey_log =
  sl_action :: string
  sl_entityId :: string
  sl_actorId :: string
  sl_changes :: "audit_change list"

record survey_book =
  sb_rows :: "survey_row list"
  sb_floors :: "floor_row list"
  sb_attachments :: "attachment list"
  sb_wards :: "ward list"
  sb_files :: storage
  sb_seq :: nat
  sb_log :: "survey_log list"

text \<open>The \<open>ULB_CODE\<close> setting, the clock, ids, the area columns, \<open>new Date\<close> of a text, the texts of the
  audit log, the order of the database on a column and on text, the link settings and the bucket
  name.\<close>

record survey_env =
  ve_ulb :: "string option"
  ve_now :: int
  ve_cuid :: "nat \<Rightarrow> string"
  ve_area :: "js_number \<Rightarrow> js_number option"
  ve_date :: "string \<Rightarrow> int option"
  ve_text :: text_env
  ve_order :: "string \<Rightarrow> survey_row \<Rightarrow> survey_row \<Rightarrow> int"
  ve_collate :: "string \<Rightarrow> string \<Rightarrow> int"
  ve_links :: link_env
  ve_bucket :: string

text \<open>A field of a request that is undefined is \<open>None\<close>.\<close>

record survey_dto =
  sd_surveyId :: "string option"
  sd_wardId :: "string option"
  sd_parcelNo :: "string option"
  sd_propertyNo :: "string option"
  sd_gisUseCode :: "string option"
  sd_surveyedAt :: "string option"
  sd_mobile :: "string option"
  sd_isSlum :: "bool option"
  sd_floorsRaw :: "string option"
  sd_plotAreaSqFt :: "js_number option"
  sd_totalBuiltUpAreaSqFt :: "js_number option"
  sd_status :: "survey_status option"
  sd_dataQuality :: "data_quality option"
  sd_fields :: field_map

datatype survey_error =
    Survey_denied access_error | Ward_required | Parcel_required | Property_required | Use_code_required
  | No_ward | Identity_refused id_error | Survey_id_mismatch | Survey_exists | Survey_missing
  | Survey_id_read_only | Attachment_missing | File_refused storage_error | Survey_database_error

type_synonym 'a surveyed = "survey_book \<times> (survey_error + 'a)"

subsection \<open>Columns\<close>

text \<open>The columns that are copied, in the order of \<open>toPrismaCreateData\<close>.\<close>

definition COPIED_FIELDS :: "string list" where
  "COPIED_FIELDS =
     [''ownerName'', ''ownerFatherName'', ''ownerAadhaar'', ''remark'', ''electricityId'', ''khasraNo'', ''registryNo'',
      ''constructedDate'', ''respondentName'', ''respondentRelationship'', ''city'', ''pincode'', ''houseNo'',
      ''streetName'', ''locality'', ''colony'', ''presentHouseNo'', ''presentStreetName'', ''presentLocality'',
      ''presentColony'', ''presentCity'', ''presentPincode'', ''isSameAsProperty'', ''taxRateZone'',
      ''propertyOwnership'', ''propertyUse'', ''commercial'', ''yearOfConstruction'', ''exemptionType'',
      ''exemptionApplicable'', ''situation'', ''roadType'', ''plotAreaSqMeter'', ''plinthAreaSqFt'',
      ''plinthAreaSqMeter'', ''totalBuiltUpAreaSqMeter'', ''hasMunicipalWaterSupply'', ''hasAlternateWater'',
      ''waterSourceType'', ''totalWaterConnections'', ''waterConnectionIdType'', ''toiletType'',
      ''hasMunicipalWasteService'']"

text \<open>A number goes through the decimal column; a copied column that the request does not set keeps what
  it had.\<close>

definition stored_field :: "survey_env \<Rightarrow> cell_value \<Rightarrow> cell_value option" where
  "stored_field env v = (case v of V_dec x \<Rightarrow> map_option V_dec (ve_area env x) | w \<Rightarrow> Some w)"

definition write_field :: "survey_env \<Rightarrow> field_map \<Rightarrow> string \<Rightarrow> field_map option \<Rightarrow> field_map option" where
  "write_field env dto f m =
     Option.bind m (\<lambda>m.
       case dto f of
         None \<Rightarrow> Some m
       | Some v \<Rightarrow> map_option (\<lambda>w. m(f := (if w = V_null then None else Some w))) (stored_field env v))"

definition write_fields :: "survey_env \<Rightarrow> field_map \<Rightarrow> field_map \<Rightarrow> field_map option" where
  "write_fields env dto old = foldl (\<lambda>m f. write_field env dto f m) (Some old) COPIED_FIELDS"

definition area_column :: "survey_env \<Rightarrow> js_number option \<Rightarrow> js_number option \<Rightarrow> js_number option option" where
  "area_column env new old = (case new of None \<Rightarrow> Some old | Some x \<Rightarrow> map_option Some (ve_area env x))"

definition moment_column :: "survey_env \<Rightarrow> string option \<Rightarrow> int option \<Rightarrow> int option option" where
  "moment_column env new old =
     (case new of None \<Rightarrow> Some old | Some s \<Rightarrow> map_option Some (ve_date env s))"

definition row_text :: "survey_row \<Rightarrow> string \<Rightarrow> string option" where
  "row_text r f = (case sy_fields r f of Some (V_text s) \<Rightarrow> Some s | _ \<Rightarrow> None)"

text \<open>A row as the audit log sees it: every audited column by its name.\<close>

definition status_text :: "survey_status \<Rightarrow> string" where
  "status_text s = (case s of S_DRAFT \<Rightarrow> ''DRAFT'' | S_ACTIVE \<Rightarrow> ''ACTIVE'' | S_ARCHIVED \<Rightarrow> ''ARCHIVED'' | S_DELETED \<Rightarrow> ''DELETED'')"

definition opt_cell :: "('a \<Rightarrow> cell_value) \<Rightarrow> 'a option \<Rightarrow> cell_value" where
  "opt_cell f v = (case v of None \<Rightarrow> V_null | Some x \<Rightarrow> f x)"

definition row_values :: "survey_row \<Rightarrow> field_map" where
  "row_values r =
     (\<lambda>f. Some (nullish (sy_fields r f) V_null))
       (''surveyId'' \<mapsto> V_text (sv_surveyId r), ''parcelNo'' \<mapsto> opt_cell V_text (sv_parcelNo r),
        ''propertyNo'' \<mapsto> opt_cell V_text (sv_propertyNo r), ''wardId'' \<mapsto> V_text (sy_wardId r),
        ''mobile'' \<mapsto> opt_cell V_text (sy_mobile r), ''isSlum'' \<mapsto> V_flag (sy_isSlum r),
        ''floorsRaw'' \<mapsto> opt_cell V_text (sy_floorsRaw r),
        ''plotAreaSqFt'' \<mapsto> opt_cell V_dec (sy_plotAreaSqFt r),
        ''totalBuiltUpAreaSqFt'' \<mapsto> opt_cell V_dec (sy_totalBuiltUpAreaSqFt r),
        ''status'' \<mapsto> V_text (status_text (sy_status r)))"

definition buildAuditState :: "survey_row \<Rightarrow> field_map" where
  "buildAuditState r =
     surveyToAuditSnapshot (row_values r)
       [(''gisUseCode'', opt_cell V_text (map_option gp_gisUseCode (parseGisSurveyId (Some (sv_surveyId r)))))]"

subsection \<open>Tables\<close>

definition ward_of :: "survey_book \<Rightarrow> string \<Rightarrow> ward option" where
  "ward_of b i = List.find (\<lambda>w. wd_id w = i) (sb_wards b)"

definition log_survey :: "string \<Rightarrow> string \<Rightarrow> auth_user \<Rightarrow> audit_change list \<Rightarrow> survey_book \<Rightarrow> survey_book" where
  "log_survey action i user changes b =
     b\<lparr>sb_log := sb_log b @ [\<lparr>sl_action = action, sl_entityId = i, sl_actorId = us_id user, sl_changes = changes\<rparr>]\<rparr>"

definition put_survey :: "survey_row \<Rightarrow> survey_book \<Rightarrow> survey_book" where
  "put_survey r b = b\<lparr>sb_rows := map (\<lambda>x. if sv_id x = sv_id r then r else x) (sb_rows b)\<rparr>"

text \<open>An area that is not a number, or too large for its column, is refused by the database.\<close>

definition floor_area :: "survey_env \<Rightarrow> js_number option option \<Rightarrow> js_number option option" where
  "floor_area env v =
     (case v of None \<Rightarrow> Some None | Some None \<Rightarrow> None | Some (Some x) \<Rightarrow> map_option Some (ve_area env x))"

fun floor_rows :: "survey_env \<Rightarrow> string \<Rightarrow> parsed_floor list \<Rightarrow> floor_row list option" where
  "floor_rows env i [] = Some []"
| "floor_rows env i (f # fs) =
     Option.bind (floor_area env (pf_areaSqFt f)) (\<lambda>a.
     Option.bind (floor_area env (pf_areaSqMeter f)) (\<lambda>m.
     Option.bind (floor_rows env i fs) (\<lambda>rows.
       Some (\<lparr>fo_surveyId = i, fo_floorLabel = pf_floorLabel f, fo_areaSqFt = a, fo_areaSqMeter = m,
              fo_usageType = pf_usageType f, fo_usageFactor = pf_usageFactor f,
              fo_buildingType = pf_buildingType f, fo_sortOrder = pf_sortOrder f,
              fo_rawSegment = pf_rawSegment f\<rparr> # rows))))"

definition as_resource :: "survey_row \<Rightarrow> survey_resource" where
  "as_resource r = \<lparr>sr_id = sv_id r, sr_wardId = sy_wardId r, sr_createdById = sy_createdById r\<rparr>"

definition allowed :: "auth_user \<Rightarrow> survey_resource \<Rightarrow> survey_action \<Rightarrow> survey_error + unit" where
  "allowed user s action = (case assertSurveyAccess user s action of Inl e \<Rightarrow> Inl (Survey_denied e) | Inr _ \<Rightarrow> Inr ())"

text \<open>\<open>check\<close> runs a check that changes nothing.\<close>

definition check :: "survey_error + 'a \<Rightarrow> survey_book \<Rightarrow> ('a \<Rightarrow> 'b surveyed) \<Rightarrow> 'b surveyed" where
  "check r b k = (case r of Inl e \<Rightarrow> (b, Inl e) | Inr x \<Rightarrow> k x)"

subsection \<open>Reading one survey\<close>

definition ensureCanonicalSurveyId :: "survey_env \<Rightarrow> survey_book \<Rightarrow> survey_row \<Rightarrow> survey_row surveyed" where
  "ensureCanonicalSurveyId env b survey =
     (case ward_of b (sy_wardId survey) of
        None \<Rightarrow> (b, Inl Survey_database_error)
      | Some ward \<Rightarrow>
         (case repairSurveyIdIfNeeded (ve_ulb env) (sb_rows b) survey (wd_number ward) of
            Inl _ \<Rightarrow> (b, Inl Survey_database_error)
          | Inr (rows, surveyId) \<Rightarrow>
             (let parsed = parseGisSurveyId (Some surveyId) in
              (b\<lparr>sb_rows := rows\<rparr>,
               Inr (if surveyId = sv_surveyId survey then survey
                    else survey\<lparr>sv_surveyId := surveyId,
                                sv_parcelNo := nullish_opt (map_option gp_parcelNo parsed) (sv_parcelNo survey),
                                sv_propertyNo := nullish_opt (map_option gp_propertyNo parsed) (sv_propertyNo survey)\<rparr>)))))"

fun ensureCanonicalSurveyIds :: "survey_env \<Rightarrow> survey_book \<Rightarrow> survey_row list \<Rightarrow> survey_row list surveyed" where
  "ensureCanonicalSurveyIds env b [] = (b, Inr [])"
| "ensureCanonicalSurveyIds env b (s # ss) =
     and_then (ensureCanonicalSurveyId env b s) (\<lambda>b r.
     and_then (ensureCanonicalSurveyIds env b ss) (\<lambda>b rs. (b, Inr (r # rs))))"

definition find_live :: "survey_book \<Rightarrow> string \<Rightarrow> survey_row option" where
  "find_live b i = List.find (\<lambda>r. (sv_id r = i \<or> sv_surveyId r = i) \<and> \<not> sv_deleted r) (sb_rows b)"

definition findOne :: "survey_env \<Rightarrow> survey_book \<Rightarrow> string \<Rightarrow> auth_user \<Rightarrow> survey_row surveyed" where
  "findOne env b i user =
     (case find_live b i of
        None \<Rightarrow> (b, Inl Survey_missing)
      | Some r \<Rightarrow> check (allowed user (as_resource r) Survey_read) b (\<lambda>_. ensureCanonicalSurveyId env b r))"

definition neighbours :: "survey_book \<Rightarrow> survey_row \<Rightarrow> survey_row list" where
  "neighbours b survey =
     filter (\<lambda>r. sy_wardId r = sy_wardId survey \<and> \<not> sv_deleted r \<and> sy_status r \<noteq> S_DELETED \<and> sv_id r \<noteq> sv_id survey) (sb_rows b)"

definition findNeighbors ::
  "survey_env \<Rightarrow> survey_book \<Rightarrow> survey_row \<Rightarrow> (string \<times> string) option \<times> (string \<times> string) option" where
  "findNeighbors env b survey =
     (let cmp = ve_collate env; s = sv_surveyId survey; rows = neighbours b survey;
          first = (\<lambda>rows. map_option (\<lambda>r. (sv_id r, sv_surveyId r)) (List.find (\<lambda>_. True) rows))
      in (first (sort_by (\<lambda>x y. cmp (sv_surveyId y) (sv_surveyId x)) (filter (\<lambda>r. cmp (sv_surveyId r) s < 0) rows)),
          first (sort_by (\<lambda>x y. cmp (sv_surveyId x) (sv_surveyId y)) (filter (\<lambda>r. cmp (sv_surveyId r) s > 0) rows))))"

definition maskPii :: "survey_row \<Rightarrow> bool \<Rightarrow> survey_row" where
  "maskPii survey canReadPii =
     (if canReadPii then survey
      else
       (case row_text survey ''ownerAadhaar'' of
          Some (c # cs) \<Rightarrow>
            survey\<lparr>sy_fields := (sy_fields survey)
              (''ownerAadhaar'' \<mapsto> V_text (''XXXX-XXXX-'' @ drop (length (c # cs) - 4) (c # cs)))\<rparr>
        | _ \<Rightarrow> survey))"

subsection \<open>Creating\<close>

definition assertCreateIdentityFields :: "survey_dto \<Rightarrow> survey_error + unit" where
  "assertCreateIdentityFields dto =
     (if trim (nullish (sd_parcelNo dto) []) = [] then Inl Parcel_required
      else if trim (nullish (sd_propertyNo dto) []) = [] then Inl Property_required
      else if trim (nullish (sd_gisUseCode dto) []) = [] then Inl Use_code_required
      else Inr ())"

definition dto_identity :: "survey_dto \<Rightarrow> identity_input" where
  "dto_identity dto =
     \<lparr>ii_surveyId = sd_surveyId dto, ii_parcelNo = sd_parcelNo dto, ii_propertyNo = sd_propertyNo dto,
      ii_gisUseCode = sd_gisUseCode dto\<rparr>"

definition created_row :: "survey_env \<Rightarrow> string \<Rightarrow> survey_dto \<Rightarrow> resolved_identity \<Rightarrow> auth_user \<Rightarrow> survey_row option" where
  "created_row env i dto identity user =
     Option.bind (if unset (sd_surveyedAt dto) then Some None else moment_column env (sd_surveyedAt dto) None) (\<lambda>surveyedAt.
     Option.bind (area_column env (sd_plotAreaSqFt dto) None) (\<lambda>plot.
     Option.bind (area_column env (sd_totalBuiltUpAreaSqFt dto) None) (\<lambda>built.
     Option.bind (write_fields env (sd_fields dto) (\<lambda>_. None)) (\<lambda>copied.
       Some \<lparr>sv_id = i, sv_surveyId = rid_surveyId identity, sv_parcelNo = Some (rid_parcelNo identity),
             sv_propertyNo = Some (rid_propertyNo identity), sv_deleted = False,
             sy_wardId = nullish (sd_wardId dto) [], sy_status = nullish (sd_status dto) S_ACTIVE, sy_deletedAt = None,
             sy_dataQuality = nullish (sd_dataQuality dto)
               (computeDataQuality (sd_mobile dto) (Some (rid_propertyNo identity)) (Some (rid_parcelNo identity))
                  (sd_plotAreaSqFt dto) (sd_totalBuiltUpAreaSqFt dto)),
             sy_createdById = Some (us_id user), sy_updatedById = Some (us_id user), sy_surveyedAt = surveyedAt,
             sy_mobile = sd_mobile dto, sy_isSlum = nullish (sd_isSlum dto) False, sy_floorsRaw = sd_floorsRaw dto,
             sy_plotAreaSqFt = plot, sy_totalBuiltUpAreaSqFt = built, sy_fields = copied\<rparr>))))"

definition creation_changes :: "resolved_identity \<Rightarrow> audit_change list" where
  "creation_changes identity =
     map (\<lambda>(f, v). \<lparr>ac_field = f, ac_old = V_null, ac_new = V_text v\<rparr>)
       [(''surveyId'', rid_surveyId identity), (''parcelNo'', rid_parcelNo identity),
        (''propertyNo'', rid_propertyNo identity), (''gisUseCode'', rid_gisUseCode identity)]"

definition insert_survey ::
  "survey_env \<Rightarrow> survey_book \<Rightarrow> survey_dto \<Rightarrow> resolved_identity \<Rightarrow> auth_user \<Rightarrow> survey_row surveyed" where
  "insert_survey env b dto identity user =
     (let i = ve_cuid env (sb_seq b) in
      case (created_row env i dto identity user, floor_rows env i (parseFloorsRaw (sd_floorsRaw dto))) of
        (Some r, Some floors) \<Rightarrow>
          (if find_by_surveyId (sb_rows b) (sv_surveyId r) \<noteq> None then (b, Inl Survey_database_error)
           else (log_survey ''SURVEY_CREATED'' i user (creation_changes identity)
                   (b\<lparr>sb_rows := sb_rows b @ [r], sb_floors := sb_floors b @ floors, sb_seq := sb_seq b + 1\<rparr>), Inr r))
      | _ \<Rightarrow> (b, Inl Survey_database_error))"

definition create_survey :: "survey_env \<Rightarrow> survey_book \<Rightarrow> survey_dto \<Rightarrow> auth_user \<Rightarrow> survey_row surveyed" where
  "create_survey env b dto user =
     check (allowed user \<lparr>sr_id = [], sr_wardId = nullish (sd_wardId dto) [], sr_createdById = Some (us_id user)\<rparr> Survey_create) b
       (\<lambda>_. check (guard (\<not> unset (sd_wardId dto)) Ward_required) b
       (\<lambda>_. check (assertCreateIdentityFields dto) b
       (\<lambda>_. case ward_of b (nullish (sd_wardId dto) []) of
               None \<Rightarrow> (b, Inl No_ward)
             | Some ward \<Rightarrow>
                (case resolveSurveyIdentity (ve_ulb env) (wd_number ward) (dto_identity dto) (None :: survey_row option) of
                   Inl e \<Rightarrow> (b, Inl (Identity_refused e))
                 | Inr identity \<Rightarrow>
                    (if \<not> unset (sd_surveyId dto) \<and> trim (nullish (sd_surveyId dto) []) \<noteq> rid_surveyId identity
                     then (b, Inl Survey_id_mismatch)
                     else
                      (case find_by_surveyId (sb_rows b) (rid_surveyId identity) of
                         Some existing \<Rightarrow>
                           (if \<not> sv_deleted existing then (b, Inl Survey_exists) else insert_survey env b dto identity user)
                       | None \<Rightarrow> insert_survey env b dto identity user))))))"

subsection \<open>Changing and deleting\<close>

definition mergeIdentityInput :: "survey_dto \<Rightarrow> survey_row \<Rightarrow> identity_input" where
  "mergeIdentityInput dto current =
     \<lparr>ii_surveyId = Some (sv_surveyId current), ii_parcelNo = nullish_opt (sd_parcelNo dto) (sv_parcelNo current),
      ii_propertyNo = nullish_opt (sd_propertyNo dto) (sv_propertyNo current),
      ii_gisUseCode = nullish_opt (sd_gisUseCode dto) (map_option gp_gisUseCode (parseGisSurveyId (Some (sv_surveyId current))))\<rparr>"

definition updated_row :: "survey_env \<Rightarrow> survey_dto \<Rightarrow> resolved_identity \<Rightarrow> auth_user \<Rightarrow> survey_row \<Rightarrow> survey_row option" where
  "updated_row env dto identity user r =
     Option.bind (moment_column env (sd_surveyedAt dto) (sy_surveyedAt r)) (\<lambda>surveyedAt.
     Option.bind (area_column env (sd_plotAreaSqFt dto) (sy_plotAreaSqFt r)) (\<lambda>plot.
     Option.bind (area_column env (sd_totalBuiltUpAreaSqFt dto) (sy_totalBuiltUpAreaSqFt r)) (\<lambda>built.
     Option.bind (write_fields env (sd_fields dto) (sy_fields r)) (\<lambda>copied.
       Some (r\<lparr>sv_surveyId := rid_surveyId identity, sv_parcelNo := Some (rid_parcelNo identity),
               sv_propertyNo := Some (rid_propertyNo identity),
               sy_wardId := nullish (sd_wardId dto) (sy_wardId r), sy_status := nullish (sd_status dto) (sy_status r),
               sy_dataQuality := nullish (sd_dataQuality dto)
                 (computeDataQuality (nullish_opt (sd_mobile dto) (sy_mobile r)) (Some (rid_propertyNo identity))
                    (Some (rid_parcelNo identity)) (nullish_opt (sd_plotAreaSqFt dto) (sy_plotAreaSqFt r))
                    (nullish_opt (sd_totalBuiltUpAreaSqFt dto) (sy_totalBuiltUpAreaSqFt r))),
               sy_updatedById := Some (us_id user), sy_surveyedAt := surveyedAt,
               sy_mobile := nullish_opt (sd_mobile dto) (sy_mobile r), sy_isSlum := nullish (sd_isSlum dto) (sy_isSlum r),
               sy_floorsRaw := nullish_opt (sd_floorsRaw dto) (sy_floorsRaw r),
               sy_plotAreaSqFt := plot, sy_totalBuiltUpAreaSqFt := built, sy_fields := copied\<rparr>)))))"

text \<open>The transaction of an update: it leaves the tables as they were when it throws.\<close>

definition write_update ::
  "survey_env \<Rightarrow> survey_book \<Rightarrow> survey_dto \<Rightarrow> resolved_identity \<Rightarrow> auth_user \<Rightarrow> survey_row \<Rightarrow> survey_row surveyed" where
  "write_update env b dto identity user current =
     check (if rid_surveyId identity = sv_surveyId current then Inr ()
            else (case assertSurveyIdAvailable (sb_rows b) (rid_surveyId identity) (Some (sv_id current)) of
                    Inl _ \<Rightarrow> Inl Survey_exists | Inr _ \<Rightarrow> Inr ())) b
       (\<lambda>_. case (updated_row env dto identity user current,
                  if sd_floorsRaw dto = None then Some (sb_floors b)
                  else map_option (\<lambda>rows. filter (\<lambda>f. fo_surveyId f \<noteq> sv_id current) (sb_floors b) @ rows)
                         (floor_rows env (sv_id current) (parseFloorsRaw (sd_floorsRaw dto)))) of
               (Some r, Some floors) \<Rightarrow>
                 (if \<exists>x \<in> set (sb_rows b). sv_surveyId x = sv_surveyId r \<and> sv_id x \<noteq> sv_id r
                  then (b, Inl Survey_database_error)
                  else (put_survey r b\<lparr>sb_floors := floors\<rparr>, Inr r))
             | _ \<Rightarrow> (b, Inl Survey_database_error))"

definition update_survey :: "survey_env \<Rightarrow> survey_book \<Rightarrow> string \<Rightarrow> survey_dto \<Rightarrow> auth_user \<Rightarrow> survey_row surveyed" where
  "update_survey env b i dto user =
     and_then (findOne env b i user) (\<lambda>b current.
       check (allowed user (as_resource current) Survey_update) b (\<lambda>_.
         case ward_of b (nullish (sd_wardId dto) (sy_wardId current)) of
           None \<Rightarrow> (b, Inl No_ward)
         | Some ward \<Rightarrow>
            (case resolveSurveyIdentity (ve_ulb env) (wd_number ward) (mergeIdentityInput dto current) (Some current) of
               Inl e \<Rightarrow> (b, Inl (Identity_refused e))
             | Inr identity \<Rightarrow>
                (if (case sd_surveyId dto of None \<Rightarrow> False | Some s \<Rightarrow> trim s \<noteq> rid_surveyId identity)
                 then (b, Inl Survey_id_read_only)
                 else
                  and_then (write_update env b dto identity user current) (\<lambda>b survey.
                    (let changes = diffSurveyChanges (ve_text env) (buildAuditState current) (buildAuditState survey)
                                     SURVEY_AUDIT_FIELDS
                     in (if changes = [] then b else log_survey ''SURVEY_UPDATED'' (sv_id survey) user changes b,
                         Inr survey)))))))"

definition remove_survey :: "survey_env \<Rightarrow> survey_book \<Rightarrow> string \<Rightarrow> auth_user \<Rightarrow> survey_row surveyed" where
  "remove_survey env b i user =
     and_then (findOne env b i user) (\<lambda>b current.
       check (allowed user (as_resource current) Survey_delete) b (\<lambda>_.
         (let r = current\<lparr>sv_deleted := True, sy_status := S_DELETED, sy_deletedAt := Some (ve_now env),
                          sy_updatedById := Some (us_id user)\<rparr>
          in (log_survey ''SURVEY_DELETED'' (sv_id r) user [] (put_survey r b), Inr r))))"

subsection \<open>Lists\<close>

record survey_query =
  sq_page :: "nat option"
  sq_pageSize :: "nat option"
  sq_search :: "string option"
  sq_wardId :: "string option"
  sq_status :: "survey_status option"
  sq_propertyUse :: "string option"
  sq_propertyOwnership :: "string option"
  sq_taxRateZone :: "string option"
  sq_locality :: "string option"
  sq_colony :: "string option"
  sq_isSlum :: "bool option"
  sq_commercial :: "string option"
  sq_dataQuality :: "data_quality option"
  sq_surveyedFrom :: "string option"
  sq_surveyedTo :: "string option"
  sq_sortBy :: "string option"
  sq_sortOrder :: "string option"

definition equals_insensitive :: "string \<Rightarrow> string option \<Rightarrow> bool" where
  "equals_insensitive needle v = (case v of None \<Rightarrow> False | Some t \<Rightarrow> toLowerCase t = toLowerCase needle)"

text \<open>The clauses of \<open>buildSurveySearchOr\<close>, as one disjunction. A parcel text is a digit, then digits,
  blanks and hyphens.\<close>

definition parcel_text :: "string \<Rightarrow> bool" where
  "parcel_text q \<longleftrightarrow>
     q \<noteq> [] \<and> is_digit (hd q) \<and> list_all (\<lambda>c. is_digit c \<or> is_space c \<or> c = CHR ''-'') (tl q)"

definition buildSurveySearchOr :: "string \<Rightarrow> survey_row \<Rightarrow> bool" where
  "buildSurveySearchOr search r \<longleftrightarrow>
     (let q = trim search in
      contains_insensitive q (Some (sv_surveyId r)) \<or> contains_insensitive q (row_text r ''ownerName'')
      \<or> contains_insensitive q (row_text r ''ownerFatherName'')
      \<or> (case sy_mobile r of None \<Rightarrow> False | Some m \<Rightarrow> contains_text m q)
      \<or> contains_insensitive q (sv_parcelNo r) \<or> contains_insensitive q (sv_propertyNo r)
      \<or> contains_insensitive q (row_text r ''locality'')
      \<or> (parcel_text q \<and> (case normalizeParcelNo q of Inl _ \<Rightarrow> False | Inr padded \<Rightarrow> equals_insensitive padded (sv_parcelNo r)))
      \<or> (CHR ''-'' \<in> set q \<and> equals_insensitive q (Some (sv_surveyId r))))"

definition set_and_equal :: "string option \<Rightarrow> string option \<Rightarrow> bool" where
  "set_and_equal wanted v \<longleftrightarrow> unset wanted \<or> v = wanted"

definition set_and_contains :: "string option \<Rightarrow> string option \<Rightarrow> bool" where
  "set_and_contains wanted v \<longleftrightarrow> unset wanted \<or> contains_insensitive (nullish wanted []) v"

definition in_period :: "survey_env \<Rightarrow> survey_query \<Rightarrow> survey_row \<Rightarrow> bool" where
  "in_period env q r \<longleftrightarrow>
     (unset (sq_surveyedFrom q)
      \<or> (case (sy_surveyedAt r, ve_date env (nullish (sq_surveyedFrom q) [])) of (Some t, Some f) \<Rightarrow> f \<le> t | _ \<Rightarrow> False))
     \<and> (unset (sq_surveyedTo q)
      \<or> (case (sy_surveyedAt r, ve_date env (nullish (sq_surveyedTo q) [])) of (Some t, Some u) \<Rightarrow> t \<le> u | _ \<Rightarrow> False))"

definition survey_where :: "survey_env \<Rightarrow> survey_query \<Rightarrow> survey_row \<Rightarrow> bool" where
  "survey_where env q r \<longleftrightarrow>
     \<not> sv_deleted r
     \<and> (case sq_status q of None \<Rightarrow> sy_status r \<noteq> S_DELETED | Some s \<Rightarrow> sy_status r = s)
     \<and> set_and_equal (sq_wardId q) (Some (sy_wardId r))
     \<and> set_and_equal (sq_propertyUse q) (row_text r ''propertyUse'')
     \<and> set_and_equal (sq_propertyOwnership q) (row_text r ''propertyOwnership'')
     \<and> set_and_equal (sq_taxRateZone q) (row_text r ''taxRateZone'')
     \<and> set_and_contains (sq_locality q) (row_text r ''locality'')
     \<and> set_and_contains (sq_colony q) (row_text r ''colony'')
     \<and> (case sq_isSlum q of None \<Rightarrow> True | Some s \<Rightarrow> sy_isSlum r = s)
     \<and> set_and_equal (sq_commercial q) (row_text r ''commercial'')
     \<and> (case sq_dataQuality q of None \<Rightarrow> True | Some d \<Rightarrow> sy_dataQuality r = d)
     \<and> in_period env q r
     \<and> (trim (nullish (sq_search q) []) = [] \<or> buildSurveySearchOr (nullish (sq_search q) []) r)"

definition SORTABLE :: "string list" where
  "SORTABLE = [''createdAt'', ''surveyedAt'', ''surveyId'', ''ownerName'', ''mobile'', ''status'', ''parcelNo'', ''propertyNo'']"

definition list_order :: "survey_env \<Rightarrow> survey_book \<Rightarrow> survey_query \<Rightarrow> survey_row \<Rightarrow> survey_row \<Rightarrow> int" where
  "list_order env b q x y =
     (let column = nullish (sq_sortBy q) [];
          sortBy = (if column \<in> set SORTABLE then column else ''parcelNo'');
          by = (\<lambda>f. if sq_sortOrder q = Some ''desc'' then ve_order env f y x else ve_order env f x y);
          number = (\<lambda>r. case ward_of b (sy_wardId r) of None \<Rightarrow> 0 | Some w \<Rightarrow> wd_number w)
      in if sortBy = ''parcelNo''
         then (if number x \<noteq> number y then number x - number y
               else if by ''surveyId'' \<noteq> 0 then by ''surveyId'' else by ''parcelNo'')
         else by sortBy)"

record survey_page =
  sp_items :: "survey_row list"
  sp_page :: nat
  sp_pageSize :: nat
  sp_total :: nat
  sp_totalPages :: nat

definition findAll :: "survey_env \<Rightarrow> survey_book \<Rightarrow> survey_query \<Rightarrow> auth_user \<Rightarrow> survey_page surveyed" where
  "findAll env b q user =
     check (allowed user \<lparr>sr_id = [], sr_wardId = nullish (sq_wardId q) [], sr_createdById = Some (us_id user)\<rparr> Survey_read) b
       (\<lambda>_. let page = nullish (sq_page q) 1;
                 pageSize = nullish (sq_pageSize q) 20;
                 rows = filter (survey_where env q) (sb_rows b);
                 items = take pageSize (drop ((page - 1) * pageSize) (sort_by (list_order env b q) rows))
             in and_then (ensureCanonicalSurveyIds env b items) (\<lambda>b canonical.
                  (b, Inr \<lparr>sp_items = canonical, sp_page = page, sp_pageSize = pageSize, sp_total = length rows,
                           sp_totalPages = max 1 ((length rows + pageSize - 1) div pageSize)\<rparr>)))"

subsection \<open>Attachments\<close>

record upload =
  up_originalname :: string
  up_mimetype :: string
  up_size :: int
  up_buffer :: string

definition word_char :: "char \<Rightarrow> bool" where
  "word_char c \<longleftrightarrow> is_letter c \<or> is_digit c \<or> c = CHR ''_''"

definition safe_name :: "string \<Rightarrow> string" where
  "safe_name s = take 180 (replace_runs (\<lambda>c. \<not> (word_char c \<or> c = CHR ''.'' \<or> c = CHR ''-'')) (CHR ''_'') False s)"

definition link_for :: "survey_env \<Rightarrow> auth_user \<Rightarrow> survey_row \<Rightarrow> string option \<Rightarrow> string \<Rightarrow> signed_link option" where
  "link_for env user survey uploadedById objectKey =
     (case getSignedUrlForUser (ve_links env) (ve_now env) user objectKey
             \<lparr>fc_surveyId = Some (sv_id survey), fc_uploadedById = uploadedById, fc_createdById = None,
              fc_survey = Some (as_resource survey)\<rparr> 300 of
        Inl _ \<Rightarrow> None
      | Inr l \<Rightarrow> Some l)"

definition withAttachmentUrls ::
  "survey_env \<Rightarrow> survey_book \<Rightarrow> survey_row \<Rightarrow> auth_user \<Rightarrow> (attachment \<times> signed_link option) list" where
  "withAttachmentUrls env b survey user =
     map (\<lambda>a. (a, link_for env user survey (at_uploadedById a) (at_objectKey a)))
       (filter (\<lambda>a. at_surveyId a = sv_id survey) (sb_attachments b))"

definition addAttachment ::
  "survey_env \<Rightarrow> survey_book \<Rightarrow> string \<Rightarrow> upload \<Rightarrow> auth_user \<Rightarrow> (attachment \<times> signed_link option) surveyed" where
  "addAttachment env b i file user =
     and_then (findOne env b i user) (\<lambda>b current.
       check (allowed user (as_resource current) Survey_update) b (\<lambda>_.
         (let objectKey = ''surveys/'' @ sv_id current @ ''/'' @ int_text (ve_now env) @ ''-'' @ safe_name (up_originalname file)
          in case putObject (sb_files b) objectKey (up_buffer file) of
               (files, Inl e) \<Rightarrow> (b\<lparr>sb_files := files\<rparr>, Inl (File_refused e))
             | (files, Inr _) \<Rightarrow>
                (let a = \<lparr>at_id = ve_cuid env (sb_seq b), at_surveyId = sv_id current, at_objectKey = objectKey,
                          at_originalFileName = up_originalname file, at_mimeType = up_mimetype file,
                          at_size = up_size file, at_bucket = ve_bucket env, at_uploadedById = Some (us_id user)\<rparr>
                 in (log_survey ''SURVEY_ATTACHMENT_ADDED'' (sv_id current) user []
                       (b\<lparr>sb_files := files, sb_attachments := sb_attachments b @ [a], sb_seq := sb_seq b + 1\<rparr>),
                     Inr (a, link_for env user current (Some (us_id user)) objectKey))))))"

definition removeAttachment :: "survey_env \<Rightarrow> survey_book \<Rightarrow> string \<Rightarrow> string \<Rightarrow> auth_user \<Rightarrow> string surveyed" where
  "removeAttachment env b i attachmentId user =
     and_then (findOne env b i user) (\<lambda>b current.
       check (allowed user (as_resource current) Survey_update) b (\<lambda>_.
         case List.find (\<lambda>a. at_id a = attachmentId \<and> at_surveyId a = sv_id current) (sb_attachments b) of
           None \<Rightarrow> (b, Inl Attachment_missing)
         | Some _ \<Rightarrow>
            (log_survey ''SURVEY_ATTACHMENT_REMOVED'' (sv_id current) user []
               (b\<lparr>sb_attachments := filter (\<lambda>a. at_id a \<noteq> attachmentId) (sb_attachments b)\<rparr>), Inr attachmentId)))"

text \<open>One call of the service by one user.\<close>

inductive survey_step :: "survey_env \<Rightarrow> auth_user \<Rightarrow> survey_book \<Rightarrow> survey_book \<Rightarrow> bool" for env user where
  create: "create_survey env b dto user = (b', r) \<Longrightarrow> survey_step env user b b'"
| find_one: "findOne env b i user = (b', r) \<Longrightarrow> survey_step env user b b'"
| find_all: "findAll env b q user = (b', p) \<Longrightarrow> survey_step env user b b'"
| update: "update_survey env b i dto user = (b', r) \<Longrightarrow> survey_step env user b b'"
| remove: "remove_survey env b i user = (b', r) \<Longrightarrow> survey_step env user b b'"
| attach: "addAttachment env b i file user = (b', a) \<Longrightarrow> survey_step env user b b'"
| detach: "removeAttachment env b i j user = (b', s) \<Longrightarrow> survey_step env user b b'"

end
