(* ===== verification/Spec2Isabelle.thy ===== *)
theory Spec2Isabelle
  imports SurveyId LedgerSystem CitizenPortal SessionFacts TaxConfigFacts
    YearEndFacts WardReport AmountWords TaxAdjustmentFacts Surveys
begin

text \<open>
  The municipal property-tax system of Nagar Panchayat Chhata (\<open>apps/api\<close>, with the shared code of
  \<open>packages/types\<close>): a NestJS service over a PostgreSQL database, with a staff portal, a site for
  citizens and the Atom payment gateway. Surveys of properties carry a structured id; published rates
  give each survey a yearly demand; demands are paid at the counter or through the gateway; at the end
  of a year unpaid balances are carried into the next.

  \<^bold>\<open>How the program is modelled.\<close> Every operation of the program is a function on explicit state. The
  tables that demands and payments share are the record \<open>ledger\<close> (theory \<open>Ledger\<close>): each table is a
  list of rows in insertion order, a unique key is checked by the operation that writes, and a failed
  constraint is a result of its own. The tables of sessions and users, the Redis entries of sessions,
  login failures and locks, and the audit rows are the record \<open>auth_store\<close> (theory \<open>Sessions\<close>). A
  transaction that throws returns the state it started from; a call that writes outside a transaction
  keeps what it has written. Every exception of the code is a constructor of an error type
  (\<open>demand_error\<close>, \<open>payment_error\<close>, \<open>portal_error\<close>, \<open>auth_error\<close>, \<open>config_error\<close>, \<open>id_error\<close>,
  \<open>adjustment_error\<close>, \<open>survey_error\<close>, \<open>storage_error\<close>), every result a sum.
  What a call takes from outside is an argument: the environment records \<open>pay_env\<close> and \<open>auth_env\<close> hold the
  clock, the generator of ids and tokens, the settings of the process, the collation of the database,
  the answers of the gateway, and the cryptographic functions of Node; nothing is assumed of them but
  what a theorem names. One call runs at a time; the interleaving of two calls is not modelled.

  \<^bold>\<open>Numbers and text.\<close> A finite JavaScript number is the real it denotes; each arithmetic operation of
  the code is followed by the rounding \<open>fl\<close> to binary64 (theory \<open>JsNumber\<close>: 53 bits, round half even,
  interpreted as an instance of the locale \<open>binary_rounding\<close>), so the float behaviour of the tax formulas
  is part of the model; overflow to infinity is outside the bounds of each theorem. Theory \<open>Money\<close>
  proves what \<open>roundMoney\<close> returns on whole paise. Text is a list of code units below 256, with
  \<open>trim\<close>, splitting, digits and letters as JavaScript defines them on those.

  \<^bold>\<open>The theories and the code.\<close>
  \<^item> \<open>Prelude\<close>: nullish and truthy operators, results, tables as lists; shared lemmas.
  \<^item> \<open>SurveyId\<close>: \<open>packages/types/src/survey-id.ts\<close> and \<open>surveys/survey-id.util.ts\<close>. Generated ids parse
    back; the repair of ids keeps them distinct.
  \<^item> \<open>TaxZone\<close>, \<open>TaxCalc\<close>: \<open>tax/tax-zone-map.ts\<close>, \<open>tax/tax-calc.ts\<close>. Each rule of an
    assessment comes to an amount that \<open>adjusts\<close> states in exact arithmetic, and the float assessment is
    the integer sum of these amounts, rebates, penalties and arrears included.
  \<^item> \<open>Receipts\<close>, \<open>ReceiptSnapshot\<close>: \<open>payments/offline-rules.ts\<close>, \<open>payments.safety.ts\<close>,
    \<open>receipt-allocation.ts\<close>, \<open>receipt-snapshot.ts\<close>. Amount rule, redaction, allocation, round trip.
  \<^item> \<open>WardReport\<close>: \<open>reports/ward-tax-report-excel.ts\<close>, the sheet as a grid of cells.
  \<^item> \<open>Dues\<close>: \<open>public-property-tax/dues.util.ts\<close>, \<open>masking.util.ts\<close>, \<open>due-status.util.ts\<close>,
    \<open>payment-in-progress.util.ts\<close>.
  \<^item> \<open>Ledger\<close>, \<open>Books\<close>: the rows of \<open>prisma/schema.prisma\<close> that demands and payments share; the balance of
    a demand. The locale \<open>keyed_store\<close> is the contract of the demand table that publication relies on.
  \<^item> \<open>Demands\<close>, \<open>Publishing\<close>, \<open>YearEnd\<close>, \<open>YearEndFacts\<close>: \<open>demands/demands.service.ts\<close>: one survey, a whole
    ward (the loop over pages by cursor), lists and the customer ledger, preview and commit of a year end
    (\<open>YearEndFacts\<close>: what a commit does to each selected balance, and that nothing else changes).
  \<^item> \<open>Access\<close>: the guards of roles and permissions, \<open>auth/resource-access.ts\<close>.
  \<^item> \<open>Gateway\<close>, \<open>AtomAuth\<close>: \<open>payments/providers/\<close>: callbacks, signatures, settings, the checkout request,
    status and refund requests, the sandbox.
  \<^item> \<open>Payments\<close>, \<open>PaymentFlow\<close>, \<open>Callbacks\<close>: \<open>payments/payments.service.ts\<close>: online and counter payments,
    receipts, callbacks, requeries, refunds, settlements, lists.
  \<^item> \<open>PaymentFacts\<close>, \<open>PaymentHistory\<close>, \<open>Settlement\<close>: their lemmas. \<open>PaymentHistory\<close> shows that each operation
    is one \<open>money_step\<close>, the abstract specification of what may happen to payments and demands.
  \<^item> \<open>LedgerSystem\<close>: all operations as one step relation; the locale \<open>guarded_system\<close> gives invariants and
    relations over runs, interpreted on that relation.
  \<^item> \<open>CitizenPortal\<close>: \<open>public-property-tax/public-property-tax.service.ts\<close>: dues, starting a payment, its
    status and receipt, the search with its batched status.
  \<^item> \<open>Sessions\<close>, \<open>Logins\<close>, \<open>SessionFacts\<close>: \<open>auth/session.service.ts\<close>, \<open>auth.guard.ts\<close>,
    \<open>auth.service.ts\<close>, \<open>login-protection.service.ts\<close>, \<open>auth.controller.ts\<close>. The invariant ties every cached
    session to a row that is not revoked; the step relation \<open>auth_step\<close> collects the routes.
  \<^item> \<open>TaxConfigs\<close>, \<open>TaxConfigFacts\<close>: \<open>tax-configs/tax-configs.service.ts\<close>: drafts of rates, their matrix
    of cells, publication with version snapshots and the demands of the ward, copies to all wards. The
    record \<open>rate_book\<close> holds these tables beside the ledger; \<open>book_view\<close> is the ledger that the demands
    service reads from it.
  \<^item> \<open>TaxAdjustments\<close>, \<open>TaxAdjustmentFacts\<close>: \<open>tax-adjustments/tax-adjustments.service.ts\<close>: drafts,
    publication, archive and deletion of rebate and penalty rules. A published rule keeps its terms, and
    the rules that a publication of demands loads are exactly those in force.
  \<^item> \<open>AmountWords\<close>: \<open>payments/inr-words.ts\<close>, the words of an amount on a receipt, with a reader that
    inverts them.
  \<^item> \<open>Floors\<close>, \<open>SurveyAudit\<close>, \<open>FileStorage\<close>, \<open>Surveys\<close>: \<open>surveys/floors.util.ts\<close>, \<open>survey-audit.util.ts\<close>,
    \<open>storage/storage.service.ts\<close> with \<open>files.controller.ts\<close>, \<open>surveys/surveys.service.ts\<close> with
    \<open>survey-search.util.ts\<close>: the text form of floors (written floors read back), audit differences (replaying
    one gives the new values), object paths and signed links, and the operations on surveys over the state
    \<open>survey_book\<close>. The ledger has the surveys as rows of its own; the two are not joined.

  \<^bold>\<open>Bounds.\<close> Amounts are bounded where a theorem speaks of exact paise: the bound of a database
  column (\<open>decimal_column\<close>) or an explicit one in the statement, far below the \<open>2 ^ 53\<close> paise that binary64
  holds exactly. The loop over pages takes fuel; \<open>ward_paging_ends\<close> proves how much is enough. All other
  loops are structural recursions over the rows.

  \<^bold>\<open>Not modelled.\<close> The pages of the portal and of the citizen site (React), the rendering of receipts,
  notices and workbooks (pdfkit, exceljs), the ciphers and hashes themselves (Node's crypto, argon2,
  bcrypt), the HTTP exchange with the gateway, the wiring of the modules, seeds, health checks, the
  import and export jobs: they are input and output, or calls into libraries. The manifest lists
  each of them.
\<close>

end
